(* ===== verification/Prelude.thy ===== *)
theory Prelude
  imports Complex_Main "HOL-Library.Multiset"
begin

text \<open>
  Shared vocabulary of the development.

  \<^item> Names for the model's base types: identifiers (Python's \<open>UUID\<close>), instants and durations
    (microsecond ticks of \<open>datetime\<close> and \<open>timedelta\<close>), Python values stored in JSON columns.
  \<^item> The result type of fallible code and its bind.
  \<^item> Insertion-ordered dictionaries (Python's \<open>dict\<close>) and their interface as a locale.
  \<^item> The SELECT / UPDATE / DELETE statements the repositories issue, on tables kept as row lists.
  \<^item> Reachability of a step relation and the invariant rule every state machine below uses.
\<close>

section \<open>Base types\<close>

type_synonym uuid = nat
type_synonym time = int
type_synonym duration = int

text \<open>Values of a JSON column or of a collector payload.\<close>

datatype pyval =
    PNone
  | PBool bool
  | PInt int
  | PStr string
  | PList "pyval list"
  | PDict "(string \<times> pyval) list"

text \<open>The parts of a value are smaller than the value.\<close>

lemma pyval_size [termination_simp]:
  "v \<in> set vs \<Longrightarrow> size v < Suc (size_list size vs)"
  "(k, v) \<in> set d \<Longrightarrow> size v < Suc (size_list (size_prod (\<lambda>x. 0) size) d)"
  using size_list_estimation' [of v vs "size v" size]
    size_list_estimation' [of "(k, v)" d "size v" "size_prod (\<lambda>x. 0) size"] by auto

named_theorems component_simps \<open>equations of the operations, unfolded by the component proofs\<close>
named_theorems preserves \<open>each operation keeps the invariant of its component\<close>

section \<open>Results\<close>

text \<open>A raised exception is \<open>Inl\<close>, a normal return \<open>Inr\<close>.\<close>

fun bind_result :: "'e + 'a \<Rightarrow> ('a \<Rightarrow> 'e + 'b) \<Rightarrow> 'e + 'b" where
  "bind_result (Inl e) f = Inl e"
| "bind_result (Inr x) f = f x"

fun is_ok :: "'e + 'a \<Rightarrow> bool" where
  "is_ok (Inl e) = False"
| "is_ok (Inr x) = True"

section \<open>Dictionaries\<close>

type_synonym ('k, 'v) dict = "('k \<times> 'v) list"

definition dict_get :: "('k, 'v) dict \<Rightarrow> 'k \<Rightarrow> 'v option" where
  "dict_get d k = map_of d k"

text \<open>\<open>d[k] = v\<close>: an existing key keeps its position, a new key goes to the end.\<close>

fun dict_set :: "'k \<Rightarrow> 'v \<Rightarrow> ('k, 'v) dict \<Rightarrow> ('k, 'v) dict" where
  "dict_set k v [] = [(k, v)]"
| "dict_set k v ((k', v') # d) =
     (if k = k' then (k, v) # d else (k', v') # dict_set k v d)"

definition dict_pop :: "'k \<Rightarrow> ('k, 'v) dict \<Rightarrow> ('k, 'v) dict" where
  "dict_pop k d = filter (\<lambda>p. fst p \<noteq> k) d"

definition dict_keys :: "('k, 'v) dict \<Rightarrow> 'k list" where
  "dict_keys d = map fst d"

definition dict_values :: "('k, 'v) dict \<Rightarrow> 'v list" where
  "dict_values d = map snd d"

definition dict_ok :: "('k, 'v) dict \<Rightarrow> bool" where
  "dict_ok d = distinct (map fst d)"

text \<open>\<open>tuple(dict.fromkeys(xs))\<close>: first occurrences, in order.\<close>

definition fromkeys :: "'a list \<Rightarrow> 'a list" where
  "fromkeys xs = rev (remdups (rev xs))"

section \<open>Tables\<close>

definition sql_select :: "('r \<Rightarrow> bool) \<Rightarrow> 'r list \<Rightarrow> 'r list" where
  "sql_select p rows = filter p rows"

definition sql_first :: "('r \<Rightarrow> bool) \<Rightarrow> 'r list \<Rightarrow> 'r option" where
  "sql_first p rows = find p rows"

definition sql_update :: "('r \<Rightarrow> bool) \<Rightarrow> ('r \<Rightarrow> 'r) \<Rightarrow> 'r list \<Rightarrow> 'r list" where
  "sql_update p f rows = map (\<lambda>r. if p r then f r else r) rows"

definition sql_delete :: "('r \<Rightarrow> bool) \<Rightarrow> 'r list \<Rightarrow> 'r list" where
  "sql_delete p rows = filter (\<lambda>r. \<not> p r) rows"

section \<open>Reachable states\<close>

inductive reachable :: "('s \<Rightarrow> bool) \<Rightarrow> ('s \<Rightarrow> 's \<Rightarrow> bool) \<Rightarrow> 's \<Rightarrow> bool"
  for start :: "'s \<Rightarrow> bool" and step :: "'s \<Rightarrow> 's \<Rightarrow> bool" where
  reach_start: "start s \<Longrightarrow> reachable start step s"
| reach_step: "reachable start step s \<Longrightarrow> step s t \<Longrightarrow> reachable start step t"

section \<open>Facts about results\<close>

lemma bind_result_Inr_iff:
  "bind_result m f = Inr y \<longleftrightarrow> (\<exists>x. m = Inr x \<and> f x = Inr y)"
  by (cases m) auto

lemma bind_result_Inl_iff:
  "bind_result m f = Inl e \<longleftrightarrow> m = Inl e \<or> (\<exists>x. m = Inr x \<and> f x = Inl e)"
  by (cases m) auto

lemma is_ok_iff: "is_ok m \<longleftrightarrow> (\<exists>x. m = Inr x)"
  by (cases m) auto

lemma is_ok_snd: "is_ok (snd p) \<Longrightarrow> \<exists>s x. p = (s, Inr x)"
  by (cases p) (auto simp: is_ok_iff)

section \<open>Facts about tables\<close>

lemma find_append: "find P (ys @ zs) = (case find P ys of None \<Rightarrow> find P zs | Some z \<Rightarrow> Some z)"
  by (induction ys) auto

section \<open>Facts about dictionaries\<close>

lemma dict_get_set: "dict_get (dict_set k v d) = (dict_get d)(k \<mapsto> v)"
  unfolding dict_get_def by (induction d) auto

lemma dict_get_pop: "dict_get (dict_pop k d) = (dict_get d)(k := None)"
  unfolding dict_get_def dict_pop_def by (induction d) auto

lemma keys_dict_set: "set (dict_keys (dict_set k v d)) = insert k (set (dict_keys d))"
  unfolding dict_keys_def by (induction k v d rule: dict_set.induct) auto

lemma dict_ok_set: "dict_ok d \<Longrightarrow> dict_ok (dict_set k v d)"
  unfolding dict_ok_def
proof (induction d)
  case (Cons p d)
  then show ?case
    using keys_dict_set [of k v d] by (cases p) (auto simp: dict_keys_def)
qed simp

lemma dict_ok_pop: "dict_ok d \<Longrightarrow> dict_ok (dict_pop k d)"
  unfolding dict_ok_def dict_pop_def by (simp add: distinct_map_filter)

lemma length_dict_set:
  "length (dict_set k v d) = (if k \<in> set (dict_keys d) then length d else Suc (length d))"
  unfolding dict_keys_def by (induction k v d rule: dict_set.induct) auto

lemma dict_get_None_iff: "dict_get d k = None \<longleftrightarrow> k \<notin> set (dict_keys d)"
  unfolding dict_get_def dict_keys_def by (simp add: map_of_eq_None_iff)

lemma dict_get_Some_in: "dict_get d k = Some v \<Longrightarrow> (k, v) \<in> set d"
  unfolding dict_get_def by (rule map_of_SomeD)

lemma length_dict_pop_le: "length (dict_pop k d) \<le> length d"
  unfolding dict_pop_def by simp

lemma dict_set_new: "k \<notin> set (dict_keys d) \<Longrightarrow> dict_set k v d = d @ [(k, v)]"
  unfolding dict_keys_def by (induction k v d rule: dict_set.induct) auto

text \<open>The interface the registries and pools use, and what a client may rely on.\<close>

locale dictionary =
  fixes empty :: "'d"
    and get :: "'d \<Rightarrow> 'k \<Rightarrow> 'v option"
    and put :: "'k \<Rightarrow> 'v \<Rightarrow> 'd \<Rightarrow> 'd"
    and del :: "'k \<Rightarrow> 'd \<Rightarrow> 'd"
    and size_of :: "'d \<Rightarrow> nat"
    and invar :: "'d \<Rightarrow> bool"
  assumes get_empty: "get empty k = None"
    and get_put: "get (put k v d) = (get d)(k \<mapsto> v)"
    and get_del: "get (del k d) = (get d)(k := None)"
    and size_put_new: "get d k = None \<Longrightarrow> size_of (put k v d) = Suc (size_of d)"
    and size_put_old: "get d k \<noteq> None \<Longrightarrow> size_of (put k v d) = size_of d"
    and size_del: "size_of (del k d) \<le> size_of d"
    and invar_empty: "invar empty"
    and invar_put: "invar d \<Longrightarrow> invar (put k v d)"
    and invar_del: "invar d \<Longrightarrow> invar (del k d)"
begin

lemma put_get_same: "get (put k v d) k = Some v"
  by (simp add: get_put)

lemma put_get_other: "k' \<noteq> k \<Longrightarrow> get (put k v d) k' = get d k'"
  by (simp add: get_put)

lemma del_get_same: "get (del k d) k = None"
  by (simp add: get_del)

lemma put_put_same: "get (put k v (put k v' d)) = get (put k v d)"
  by (simp add: get_put)

lemma del_after_put: "get (del k (put k v d)) = get (del k d)"
  by (simp add: get_del get_put)

lemma get_fold_put:
  "get (fold (\<lambda>k. put k (f k)) ks d) k = (if k \<in> set ks then Some (f k) else get d k)"
  by (induction ks arbitrary: d) (auto simp: get_put)

lemma invar_fold_put: "invar d \<Longrightarrow> invar (fold (\<lambda>k. put k (f k)) ks d)"
  by (induction ks arbitrary: d) (auto simp: invar_put)

lemma bounded_put:
  assumes "size_of d < n"
  shows "size_of (put k v d) \<le> n"
  using assms by (cases "get d k") (simp_all add: size_put_new size_put_old)

end

interpretation pydict: dictionary "[]" dict_get dict_set dict_pop length dict_ok
proof unfold_locales
  fix d :: "('k \<times> 'v) list" and k v
  assume "dict_get d k = None"
  then show "length (dict_set k v d) = Suc (length d)"
    by (simp add: length_dict_set dict_get_None_iff)
next
  fix d :: "('k \<times> 'v) list" and k v
  assume "dict_get d k \<noteq> None"
  then show "length (dict_set k v d) = length d"
    by (simp add: length_dict_set dict_get_None_iff)
qed (simp_all add: dict_get_set dict_get_pop length_dict_pop_le dict_ok_set dict_ok_pop,
     simp_all add: dict_get_def dict_ok_def)

lemma set_fromkeys [simp]: "set (fromkeys xs) = set xs"
  by (simp add: fromkeys_def)

lemma distinct_fromkeys [simp]: "distinct (fromkeys xs)"
  by (simp add: fromkeys_def)

section \<open>Facts about tables\<close>

lemma set_sql_update:
  "r \<in> set (sql_update p f rows) \<longleftrightarrow>
     (\<exists>r0 \<in> set rows. r = (if p r0 then f r0 else r0))"
  by (auto simp: sql_update_def)

lemma sql_first_Some:
  "sql_first p rows = Some r \<Longrightarrow> r \<in> set rows \<and> p r"
  unfolding sql_first_def by (auto simp: find_Some_iff)

lemma sql_first_None: "sql_first p rows = None \<longleftrightarrow> (\<forall>r \<in> set rows. \<not> p r)"
  unfolding sql_first_def by (auto simp: find_None_iff)

lemma length_sql_update [simp]: "length (sql_update p f rows) = length rows"
  by (simp add: sql_update_def)

lemma sql_update_id: "(\<And>r. r \<in> set rows \<Longrightarrow> \<not> p r) \<Longrightarrow> sql_update p f rows = rows"
  by (simp add: sql_update_def map_idI)

lemma unique_key:
  "distinct (map key rows) \<Longrightarrow> r \<in> set rows \<Longrightarrow> r' \<in> set rows \<Longrightarrow> key r = key r' \<Longrightarrow> r = r'"
  by (meson distinct_map inj_onD)

lemma filter_unique_key:
  assumes "distinct (map key rows)"
  shows "length (filter (\<lambda>r. key r = k \<and> p r) rows) \<le> 1"
  using assms
proof (induction rows)
  case (Cons r rows)
  show ?case
  proof (cases "key r = k")
    case True
    with Cons.prems have "filter (\<lambda>r. key r = k \<and> p r) rows = []"
      by (auto simp: filter_empty_conv image_iff)
    then show ?thesis by simp
  next
    case False
    with Cons show ?thesis by simp
  qed
qed simp

section \<open>The invariant rule\<close>

locale invariant_system =
  fixes start :: "'s \<Rightarrow> bool"
    and step :: "'s \<Rightarrow> 's \<Rightarrow> bool"
    and inv :: "'s \<Rightarrow> bool"
  assumes start_inv: "start s \<Longrightarrow> inv s"
    and step_inv: "step s t \<Longrightarrow> inv s \<Longrightarrow> inv t"
begin

lemma reachable_inv: "reachable start step s \<Longrightarrow> inv s"
proof (induction rule: reachable.induct)
  case (reach_start s)
  then show ?case by (rule start_inv)
next
  case (reach_step s t)
  then show ?case by (blast intro: step_inv)
qed

lemma steps_inv: "step\<^sup>*\<^sup>* s t \<Longrightarrow> inv s \<Longrightarrow> inv t"
  by (induction rule: rtranclp_induct) (auto intro: step_inv)

end

end
