(* ===== verification/Circuit_Breaker.thy ===== *)
theory Circuit_Breaker
  imports Prelude
begin

text \<open>
  The transport circuit breaker (\<^verbatim>\<open>transports/circuit_breaker.py\<close>): a three-state machine that
  blocks requests after a run of failures. Every method reads the clock through an argument.
\<close>

datatype CircuitBreakerState = CLOSED | OPEN | HALF_OPEN

record CircuitBreaker =
  failure_threshold :: int
  recovery_timeout :: duration
  half_open_success_threshold :: int
  breaker_state :: CircuitBreakerState
  failure_count :: int
  half_open_success_count :: int
  opened_at :: "time option"

text \<open>The dataclass defaults: threshold 5, recovery after 30 seconds, one half-open success.\<close>

definition default_breaker :: CircuitBreaker where
  "default_breaker =
     \<lparr>failure_threshold = 5, recovery_timeout = 30000000, half_open_success_threshold = 1,
      breaker_state = CLOSED, failure_count = 0, half_open_success_count = 0,
      opened_at = None\<rparr>"

definition allow_request :: "time \<Rightarrow> CircuitBreaker \<Rightarrow> bool \<times> CircuitBreaker" where
  "allow_request now cb =
     (case breaker_state cb of
        CLOSED \<Rightarrow> (True, cb)
      | OPEN \<Rightarrow>
          (case opened_at cb of
             None \<Rightarrow> (False, cb)
           | Some t \<Rightarrow>
               if now - t \<ge> recovery_timeout cb
               then (True, cb\<lparr>breaker_state := HALF_OPEN, half_open_success_count := 0\<rparr>)
               else (False, cb))
      | HALF_OPEN \<Rightarrow> (True, cb))"

definition record_success :: "CircuitBreaker \<Rightarrow> CircuitBreaker" where
  "record_success cb =
     (let cb1 = cb\<lparr>failure_count := 0\<rparr>
      in if breaker_state cb1 = HALF_OPEN
         then let cb2 = cb1\<lparr>half_open_success_count := half_open_success_count cb1 + 1\<rparr>
              in if half_open_success_count cb2 \<ge> half_open_success_threshold cb2
                 then cb2\<lparr>breaker_state := CLOSED, half_open_success_count := 0\<rparr>
                 else cb2
         else cb1)"

definition record_failure :: "time \<Rightarrow> CircuitBreaker \<Rightarrow> CircuitBreaker" where
  "record_failure now cb =
     (let cb1 = cb\<lparr>failure_count := failure_count cb + 1, half_open_success_count := 0\<rparr>
      in if failure_count cb1 \<ge> failure_threshold cb1
         then cb1\<lparr>breaker_state := OPEN, opened_at := Some now\<rparr>
         else cb1)"

lemmas breaker_ops [component_simps] = allow_request_def record_success_def record_failure_def

text \<open>Calls in any order and at any times: concurrent requests share one breaker.\<close>

inductive breaker_step :: "CircuitBreaker \<Rightarrow> CircuitBreaker \<Rightarrow> bool" where
  allow: "breaker_step cb (snd (allow_request now cb))"
| success: "breaker_step cb (record_success cb)"
| failure: "breaker_step cb (record_failure now cb)"

definition fresh_breaker :: "CircuitBreaker \<Rightarrow> bool" where
  "fresh_breaker cb \<longleftrightarrow>
     failure_threshold cb \<ge> 1 \<and> half_open_success_threshold cb \<ge> 1 \<and>
     breaker_state cb = CLOSED \<and> failure_count cb = 0 \<and>
     half_open_success_count cb = 0 \<and> opened_at cb = None"

definition breaker_inv :: "CircuitBreaker \<Rightarrow> bool" where
  "breaker_inv cb \<longleftrightarrow>
     failure_threshold cb \<ge> 1 \<and> half_open_success_threshold cb \<ge> 1 \<and>
     failure_count cb \<ge> 0 \<and>
     (breaker_state cb = CLOSED \<longrightarrow> failure_count cb < failure_threshold cb) \<and>
     (breaker_state cb \<noteq> CLOSED \<longrightarrow> opened_at cb \<noteq> None) \<and>
     0 \<le> half_open_success_count cb \<and>
     half_open_success_count cb < half_open_success_threshold cb \<and>
     (breaker_state cb \<noteq> HALF_OPEN \<longrightarrow> half_open_success_count cb = 0)"

text \<open>One request at a time, as \<open>open_session\<close> issues it: ask, then record the outcome.\<close>

definition guarded_request :: "time \<Rightarrow> time \<Rightarrow> bool \<Rightarrow> CircuitBreaker \<Rightarrow> CircuitBreaker" where
  "guarded_request now done_at ok cb =
     (case allow_request now cb of
        (False, cb') \<Rightarrow> cb'
      | (True, cb') \<Rightarrow> if ok then record_success cb' else record_failure done_at cb')"

inductive guarded_step :: "CircuitBreaker \<Rightarrow> CircuitBreaker \<Rightarrow> bool" where
  request: "now \<le> done_at \<Longrightarrow> guarded_step cb (guarded_request now done_at ok cb)"

definition guarded_inv :: "CircuitBreaker \<Rightarrow> bool" where
  "guarded_inv cb \<longleftrightarrow>
     breaker_inv cb \<and> half_open_success_threshold cb = 1 \<and>
     (breaker_state cb \<noteq> CLOSED \<longrightarrow> failure_count cb \<ge> failure_threshold cb)"

section \<open>Correctness\<close>

lemma allow_request_inv [preserves]: "breaker_inv cb \<Longrightarrow> breaker_inv (snd (allow_request now cb))"
  by (auto simp: breaker_inv_def allow_request_def
      split: CircuitBreakerState.splits option.splits)

lemma record_success_inv [preserves]: "breaker_inv cb \<Longrightarrow> breaker_inv (record_success cb)"
  by (auto simp: breaker_inv_def record_success_def Let_def)

lemma record_failure_inv [preserves]: "breaker_inv cb \<Longrightarrow> breaker_inv (record_failure now cb)"
  by (cases "breaker_state cb") (auto simp: breaker_inv_def record_failure_def Let_def)

interpretation breaker: invariant_system fresh_breaker breaker_step breaker_inv
proof unfold_locales
  fix s assume "fresh_breaker s"
  then show "breaker_inv s" by (simp add: fresh_breaker_def breaker_inv_def)
next
  fix s t assume "breaker_step s t" and "breaker_inv s"
  then show "breaker_inv t" by cases (auto intro: preserves)
qed

text \<open>
  In every state that any interleaving of calls can reach from a fresh breaker with positive
  thresholds, the counters are coherent: a closed breaker is below its failure threshold, a
  breaker that is not closed has an opening time, and half-open successes are counted only
  while half open and stay below the threshold that closes the breaker.
\<close>

theorem breaker_reachable_inv:
  "reachable fresh_breaker breaker_step cb \<Longrightarrow> breaker_inv cb"
  by (rule breaker.reachable_inv)

theorem breaker_reachable_inv_witness:
  "breaker_inv (record_failure 7 default_breaker)"
proof -
  have "reachable fresh_breaker breaker_step default_breaker"
    by (rule reachable.reach_start) (simp add: fresh_breaker_def default_breaker_def)
  then have "reachable fresh_breaker breaker_step (record_failure 7 default_breaker)"
    by (rule reachable.reach_step) (rule breaker_step.failure)
  then show ?thesis by (rule breaker_reachable_inv)
qed

lemma record_failures:
  assumes "breaker_state cb = CLOSED" and "failure_count cb = 0" and "failure_threshold cb \<ge> 1"
  shows "failure_count ((record_failure now ^^ n) cb) = int n \<and>
         failure_threshold ((record_failure now ^^ n) cb) = failure_threshold cb \<and>
         (breaker_state ((record_failure now ^^ n) cb) =
            (if int n \<ge> failure_threshold cb then OPEN else CLOSED))"
  using assms by (induction n) (auto simp: record_failure_def Let_def)

text \<open>
  A closed breaker with a clean counter opens at exactly its failure threshold: after \<open>n\<close>
  recorded failures and no success it refuses a request iff \<open>n\<close> reached the threshold and the
  recovery time has not passed since the failure that was recorded last.
\<close>

theorem breaker_opens_at_threshold:
  assumes "breaker_state cb = CLOSED" and "failure_count cb = 0" and "failure_threshold cb \<ge> 1"
  shows "fst (allow_request now ((record_failure t ^^ n) cb)) \<longleftrightarrow>
         int n < failure_threshold cb \<or> now - t \<ge> recovery_timeout cb"
proof -
  let ?b = "(record_failure t ^^ n) cb"
  have timeout: "recovery_timeout ?b = recovery_timeout cb"
    by (induction n) (auto simp: record_failure_def Let_def)
  have opened: "breaker_state ?b = OPEN \<longrightarrow> opened_at ?b = Some t"
    using assms(1) by (induction n) (auto simp: record_failure_def Let_def)
  show ?thesis
    using record_failures [OF assms, where n = n and now = t] timeout opened
    by (auto simp: allow_request_def)
qed

theorem breaker_opens_at_threshold_witness:
  "\<not> fst (allow_request 100 ((record_failure 7 ^^ 5) default_breaker))"
  using breaker_opens_at_threshold [where cb = default_breaker and now = 100 and t = 7 and n = 5]
  by (simp add: default_breaker_def)

lemma guarded_request_inv:
  assumes "guarded_inv cb"
  shows "guarded_inv (guarded_request now done_at ok cb)"
  using assms
  by (cases "breaker_state cb"; cases ok)
     (auto simp: guarded_inv_def breaker_inv_def guarded_request_def allow_request_def
        record_success_def record_failure_def Let_def split: option.splits)

interpretation guarded: invariant_system
  "\<lambda>cb. fresh_breaker cb \<and> half_open_success_threshold cb = 1" guarded_step guarded_inv
proof unfold_locales
  fix s assume "fresh_breaker s \<and> half_open_success_threshold s = 1"
  then show "guarded_inv s" by (simp add: fresh_breaker_def guarded_inv_def breaker_inv_def)
next
  fix s t assume "guarded_step s t" and "guarded_inv s"
  then show "guarded_inv t" by cases (auto intro: guarded_request_inv)
qed

text \<open>
  When requests run one at a time and one half-open success closes the breaker (the
  default), a failed half-open trial reopens the breaker at once: every reachable state that is
  not closed reacts to one more failed request by being open again from the moment of that
  failure, so the next recovery period is counted from it.
\<close>

theorem failed_trial_reopens:
  assumes "reachable (\<lambda>cb. fresh_breaker cb \<and> half_open_success_threshold cb = 1) guarded_step cb"
    and "breaker_state cb \<noteq> CLOSED" and "fst (allow_request now cb)"
  shows "breaker_state (guarded_request now done_at False cb) = OPEN \<and>
         opened_at (guarded_request now done_at False cb) = Some done_at"
proof -
  from assms(1) have "guarded_inv cb" by (rule guarded.reachable_inv)
  with assms(2,3) show ?thesis
    by (auto simp: guarded_inv_def guarded_request_def allow_request_def record_failure_def Let_def
        split: CircuitBreakerState.splits option.splits)
qed

definition tripped_breaker :: CircuitBreaker where
  "tripped_breaker = (guarded_request 0 1 False ^^ 5) default_breaker"

lemma tripped_breaker_reachable:
  "reachable (\<lambda>cb. fresh_breaker cb \<and> half_open_success_threshold cb = 1) guarded_step tripped_breaker"
proof -
  have "reachable (\<lambda>cb. fresh_breaker cb \<and> half_open_success_threshold cb = 1) guarded_step
      ((guarded_request 0 1 False ^^ n) default_breaker)" for n
  proof (induction n)
    case 0
    then show ?case
      by (auto intro: reachable.reach_start simp: fresh_breaker_def default_breaker_def)
  next
    case (Suc n)
    show ?case
      by (auto intro!: reachable.reach_step [OF Suc] guarded_step.request)
  qed
  then show ?thesis by (simp add: tripped_breaker_def)
qed

theorem failed_trial_reopens_witness:
  "breaker_state (guarded_request 30000001 30000002 False tripped_breaker) = OPEN \<and>
   opened_at (guarded_request 30000001 30000002 False tripped_breaker) = Some 30000002"
proof -
  have st: "breaker_state tripped_breaker = OPEN \<and> opened_at tripped_breaker = Some 1 \<and>
      recovery_timeout tripped_breaker = 30000000"
    by (simp add: tripped_breaker_def default_breaker_def guarded_request_def allow_request_def
        record_failure_def Let_def numeral_eq_Suc)
  then show ?thesis
    by (intro failed_trial_reopens [OF tripped_breaker_reachable])
       (simp_all add: allow_request_def)
qed

text \<open>
  With overlapping requests the previous guarantee fails: a success that arrives while the
  breaker is open resets the failure counter, and the half-open trial that then fails leaves
  the breaker half open and still admitting requests, although the default configuration is used.
\<close>

theorem late_success_defeats_trial:
  "\<exists>cb. reachable fresh_breaker breaker_step cb \<and> breaker_state cb = HALF_OPEN \<and>
        failure_threshold cb = 5 \<and> half_open_success_threshold cb = 1 \<and>
        breaker_state (record_failure 40000000 cb) = HALF_OPEN \<and>
        fst (allow_request 40000001 (record_failure 40000000 cb))"
proof -
  let ?open = "(record_failure 1 ^^ 5) default_breaker"
  let ?half = "snd (allow_request 40000000 (record_success ?open))"
  have "reachable fresh_breaker breaker_step ((record_failure 1 ^^ n) default_breaker)" for n
    by (induction n)
       (auto intro: reachable.reach_start reachable.reach_step breaker_step.failure
         simp: fresh_breaker_def default_breaker_def)
  then have "reachable fresh_breaker breaker_step ?half"
    by (blast intro: reachable.reach_step breaker_step.success breaker_step.allow)
  moreover have "?half = default_breaker\<lparr>breaker_state := HALF_OPEN, opened_at := Some 1\<rparr>"
    by (simp add: default_breaker_def allow_request_def record_success_def record_failure_def
        Let_def numeral_eq_Suc)
  ultimately show ?thesis
    by (intro exI [of _ ?half])
       (simp add: default_breaker_def allow_request_def record_failure_def Let_def)
qed

end
