(* ===== verification/Discovery_Contracts.thy ===== *)
theory Discovery_Contracts
  imports Prelude
begin

text \<open>
  The domain contracts of discovery (\<^verbatim>\<open>discovery/contracts.py\<close>, \<^verbatim>\<open>transports/base.py\<close>): job
  states and their legal transitions, stable failure codes, scope kinds, and the ordered
  transport policy of one target.
\<close>

section \<open>Job status\<close>

datatype DiscoveryJobStatus = QUEUED | RUNNING | SUCCEEDED | FAILED | TIMED_OUT | CANCELLED

fun status_value :: "DiscoveryJobStatus \<Rightarrow> string" where
  "status_value QUEUED = ''queued''"
| "status_value RUNNING = ''running''"
| "status_value SUCCEEDED = ''succeeded''"
| "status_value FAILED = ''failed''"
| "status_value TIMED_OUT = ''timed_out''"
| "status_value CANCELLED = ''cancelled''"

definition is_terminal :: "DiscoveryJobStatus \<Rightarrow> bool" where
  "is_terminal s \<longleftrightarrow> s \<in> {SUCCEEDED, FAILED, TIMED_OUT, CANCELLED}"

fun allowed_transitions :: "DiscoveryJobStatus \<Rightarrow> DiscoveryJobStatus set" where
  "allowed_transitions QUEUED = {RUNNING, CANCELLED}"
| "allowed_transitions RUNNING = {SUCCEEDED, FAILED, TIMED_OUT, CANCELLED}"
| "allowed_transitions SUCCEEDED = {}"
| "allowed_transitions FAILED = {}"
| "allowed_transitions TIMED_OUT = {}"
| "allowed_transitions CANCELLED = {}"

text \<open>The exception carries its message.\<close>

definition transition_job ::
  "DiscoveryJobStatus \<Rightarrow> DiscoveryJobStatus \<Rightarrow> string + DiscoveryJobStatus" where
  "transition_job current target =
     (if target \<notin> allowed_transitions current
      then Inl (''Invalid discovery job transition: '' @ status_value current @ '' -> '' @
                status_value target @ ''.'')
      else Inr target)"

section \<open>Failure codes\<close>

datatype DiscoveryFailureCode =
    TARGET_NOT_FOUND | TARGET_DISABLED | UNSUPPORTED_VENDOR | CREDENTIAL_RESOLUTION_FAILED
  | AUTHENTICATION_FAILED | UNSUPPORTED_CREDENTIAL | CONNECTION_FAILED | CONNECTION_TIMEOUT
  | HOST_UNREACHABLE | CONNECTION_REFUSED | TIMEOUT | DISCOVERY_TIMEOUT | DISCOVERY_FAILED
  | TRANSPORT_UNAVAILABLE | TRANSPORT_DISABLED | UNSUPPORTED_PLATFORM | AMBIGUOUS_PLATFORM
  | UNSUPPORTED_CAPABILITY | COLLECTOR_FAILED | PARSER_FAILED | NORMALIZATION_FAILED
  | EVIDENCE_PERSISTENCE_FAILED | SNAPSHOT_PERSISTENCE_FAILED | CANCELLED

fun code_value :: "DiscoveryFailureCode \<Rightarrow> string" where
  "code_value TARGET_NOT_FOUND = ''TARGET_NOT_FOUND''"
| "code_value TARGET_DISABLED = ''TARGET_DISABLED''"
| "code_value UNSUPPORTED_VENDOR = ''UNSUPPORTED_VENDOR''"
| "code_value CREDENTIAL_RESOLUTION_FAILED = ''CREDENTIAL_RESOLUTION_FAILED''"
| "code_value AUTHENTICATION_FAILED = ''AUTHENTICATION_FAILED''"
| "code_value UNSUPPORTED_CREDENTIAL = ''UNSUPPORTED_CREDENTIAL''"
| "code_value CONNECTION_FAILED = ''CONNECTION_FAILED''"
| "code_value CONNECTION_TIMEOUT = ''CONNECTION_TIMEOUT''"
| "code_value HOST_UNREACHABLE = ''HOST_UNREACHABLE''"
| "code_value CONNECTION_REFUSED = ''CONNECTION_REFUSED''"
| "code_value TIMEOUT = ''TIMEOUT''"
| "code_value DISCOVERY_TIMEOUT = ''DISCOVERY_TIMEOUT''"
| "code_value DISCOVERY_FAILED = ''DISCOVERY_FAILED''"
| "code_value TRANSPORT_UNAVAILABLE = ''TRANSPORT_UNAVAILABLE''"
| "code_value TRANSPORT_DISABLED = ''TRANSPORT_DISABLED''"
| "code_value UNSUPPORTED_PLATFORM = ''UNSUPPORTED_PLATFORM''"
| "code_value AMBIGUOUS_PLATFORM = ''AMBIGUOUS_PLATFORM''"
| "code_value UNSUPPORTED_CAPABILITY = ''UNSUPPORTED_CAPABILITY''"
| "code_value COLLECTOR_FAILED = ''COLLECTOR_FAILED''"
| "code_value PARSER_FAILED = ''PARSER_FAILED''"
| "code_value NORMALIZATION_FAILED = ''NORMALIZATION_FAILED''"
| "code_value EVIDENCE_PERSISTENCE_FAILED = ''EVIDENCE_PERSISTENCE_FAILED''"
| "code_value SNAPSHOT_PERSISTENCE_FAILED = ''SNAPSHOT_PERSISTENCE_FAILED''"
| "code_value DiscoveryFailureCode.CANCELLED = ''CANCELLED''"

definition all_codes :: "DiscoveryFailureCode list" where
  "all_codes =
     [TARGET_NOT_FOUND, TARGET_DISABLED, UNSUPPORTED_VENDOR, CREDENTIAL_RESOLUTION_FAILED,
      AUTHENTICATION_FAILED, UNSUPPORTED_CREDENTIAL, CONNECTION_FAILED, CONNECTION_TIMEOUT,
      HOST_UNREACHABLE, CONNECTION_REFUSED, TIMEOUT, DISCOVERY_TIMEOUT, DISCOVERY_FAILED,
      TRANSPORT_UNAVAILABLE, TRANSPORT_DISABLED, UNSUPPORTED_PLATFORM, AMBIGUOUS_PLATFORM,
      UNSUPPORTED_CAPABILITY, COLLECTOR_FAILED, PARSER_FAILED, NORMALIZATION_FAILED,
      EVIDENCE_PERSISTENCE_FAILED, SNAPSHOT_PERSISTENCE_FAILED,
      DiscoveryFailureCode.CANCELLED]"

text \<open>\<open>DiscoveryFailureCode(s)\<close>: the member with value \<open>s\<close>, or a \<open>ValueError\<close>.\<close>

definition parse_code :: "string \<Rightarrow> DiscoveryFailureCode option" where
  "parse_code s = find (\<lambda>c. code_value c = s) all_codes"

section \<open>Scopes and transports\<close>

datatype DiscoveryScopeType = SINGLE_DEVICE | IP_RANGE | CIDR_NETWORK | DEVICE_GROUP | NETBOX_SCOPE

fun scope_value :: "DiscoveryScopeType \<Rightarrow> string" where
  "scope_value SINGLE_DEVICE = ''single_device''"
| "scope_value IP_RANGE = ''ip_range''"
| "scope_value CIDR_NETWORK = ''cidr_network''"
| "scope_value DEVICE_GROUP = ''device_group''"
| "scope_value NETBOX_SCOPE = ''netbox_scope''"

datatype TransportCapability = SSH | SNMP | TELNET | ICMP | HTTP | HTTPS

fun capability_value :: "TransportCapability \<Rightarrow> string" where
  "capability_value SSH = ''SSH''"
| "capability_value SNMP = ''SNMP''"
| "capability_value TELNET = ''TELNET''"
| "capability_value ICMP = ''ICMP''"
| "capability_value HTTP = ''HTTP''"
| "capability_value HTTPS = ''HTTPS''"

record DiscoveryTransportPolicy =
  preferred :: "TransportCapability option"
  fallbacks :: "TransportCapability list"
  allow_insecure_telnet :: bool

definition ordered :: "DiscoveryTransportPolicy \<Rightarrow> string + TransportCapability list" where
  "ordered p =
     (let configured = (case preferred p of None \<Rightarrow> [] | Some c \<Rightarrow> [c]) @ fallbacks p
      in if \<not> allow_insecure_telnet p \<and> TELNET \<in> set configured
         then Inl ''Telnet requires explicit insecure-transport approval.''
         else Inr (fromkeys configured))"

section \<open>A life cycle without return\<close>

text \<open>
  What a component may rely on when it stores a status and moves it only along allowed
  transitions: terminal states stay, and no state is ever visited twice.
\<close>

locale life_cycle =
  fixes allowed :: "'s \<Rightarrow> 's set"
    and terminal :: "'s \<Rightarrow> bool"
    and rank :: "'s \<Rightarrow> nat"
    and top :: nat
  assumes terminal_stuck: "terminal s \<longleftrightarrow> allowed s = {}"
    and rank_up: "t \<in> allowed s \<Longrightarrow> rank s < rank t"
    and rank_top: "rank s \<le> top"
begin

lemma path_rank: "(\<lambda>s t. t \<in> allowed s)\<^sup>+\<^sup>+ s t \<Longrightarrow> rank s < rank t"
  by (induction rule: tranclp_induct) (auto dest: rank_up intro: less_trans)

lemma no_return: "\<not> (\<lambda>s t. t \<in> allowed s)\<^sup>+\<^sup>+ s s"
  using path_rank by blast

lemma terminal_final: "terminal s \<Longrightarrow> (\<lambda>s t. t \<in> allowed s)\<^sup>*\<^sup>* s t \<Longrightarrow> t = s"
  by (erule converse_rtranclpE) (auto simp: terminal_stuck)

lemma path_length: "((\<lambda>s t. t \<in> allowed s) ^^ n) s t \<Longrightarrow> rank s + n \<le> rank t"
proof (induction n arbitrary: t)
  case (Suc n)
  then obtain u where "((\<lambda>s t. t \<in> allowed s) ^^ n) s u" and "t \<in> allowed u" by auto
  then show ?case using Suc.IH rank_up by fastforce
qed simp

lemma path_bounded: "((\<lambda>s t. t \<in> allowed s) ^^ n) s t \<Longrightarrow> n \<le> top"
  using path_length [of n s t] rank_top [of t] by simp

end

fun status_rank :: "DiscoveryJobStatus \<Rightarrow> nat" where
  "status_rank QUEUED = 0"
| "status_rank RUNNING = 1"
| "status_rank _ = 2"

interpretation status_cycle: life_cycle allowed_transitions is_terminal status_rank 2
proof unfold_locales
  fix s t :: DiscoveryJobStatus
  show "is_terminal s \<longleftrightarrow> allowed_transitions s = {}"
    by (cases s) (auto simp: is_terminal_def)
  show "status_rank s < status_rank t" if "t \<in> allowed_transitions s"
    using that by (cases s) auto
  show "status_rank s \<le> 2" by (cases s) auto
qed

lemma transition_job_Inr: "transition_job s t = Inr u \<longleftrightarrow> u = t \<and> t \<in> allowed_transitions s"
  by (auto simp: transition_job_def)

lemma allowed_from_active: "t \<in> allowed_transitions s \<Longrightarrow> \<not> is_terminal s"
  by (cases s) (auto simp: is_terminal_def)

lemma code_value_inj: "code_value c = code_value d \<Longrightarrow> c = d"
  by (cases c; cases d; simp)

lemma all_codes_complete: "c \<in> set all_codes"
  by (cases c) (simp_all add: all_codes_def)

lemma parse_code_value [simp]: "parse_code (code_value c) = Some c"
proof -
  obtain d where d: "find (\<lambda>d. code_value d = code_value c) all_codes = Some d"
    using all_codes_complete [of c] by (cases "find (\<lambda>d. code_value d = code_value c) all_codes")
      (auto simp: find_None_iff)
  then have "code_value d = code_value c" by (auto simp: find_Some_iff)
  with d show ?thesis by (simp add: parse_code_def code_value_inj)
qed

lemma parse_code_Some: "parse_code s = Some c \<longleftrightarrow> code_value c = s"
proof
  assume "parse_code s = Some c"
  then show "code_value c = s" by (auto simp: parse_code_def find_Some_iff)
next
  assume "code_value c = s"
  then show "parse_code s = Some c" using parse_code_value [of c] by simp
qed

end
