(* ===== verification/Inventory_Model.thy ===== *)
theory Inventory_Model
  imports Py_Text
begin

text \<open>
  The two inventories the platform compares: the canonical NetBox inventory of
  \<^verbatim>\<open>inventory/entities.py\<close> and \<^verbatim>\<open>inventory/dto.py\<close>, and the live snapshot of
  \<^verbatim>\<open>snapshot/entities.py\<close> with its merge. Field names carry a prefix of their class.
\<close>

section \<open>Canonical NetBox inventory\<close>

record Manufacturer =
  mf_name :: string
  mf_slug :: string

record DeviceType =
  dt_manufacturer :: Manufacturer
  dt_model :: string
  dt_slug :: string
  dt_part_number :: "string option"
  dt_u_height :: "int option"
  dt_is_full_depth :: "bool option"

record Platform =
  pf_name :: string
  pf_slug :: string
  pf_manufacturer_name :: "string option"
  pf_napalm_driver :: "string option"

record Role =
  role_name :: string
  role_slug :: string
  role_color :: "string option"

record Interface =
  if_name :: string
  if_device_name :: string
  if_type :: "string option"
  if_enabled :: bool
  if_mac_address :: "string option"
  if_description :: "string option"

record IPAddress =
  ipa_address :: string
  ipa_family :: int
  ipa_status :: "string option"
  ipa_dns_name :: "string option"
  ipa_assigned_type :: "string option"
  ipa_assigned_name :: "string option"
  ipa_device_name :: "string option"

record VLAN =
  vlan_vid :: int
  vlan_name :: string
  vlan_site_name :: "string option"
  vlan_status :: "string option"
  vlan_role :: "string option"

record Device =
  dev_name :: string
  dev_site_name :: "string option"
  dev_rack_name :: "string option"
  dev_type :: DeviceType
  dev_role :: "Role option"
  dev_platform :: "Platform option"
  dev_serial :: "string option"
  dev_status :: "string option"
  dev_primary_ip :: "string option"
  dev_interfaces :: "Interface list"
  dev_ip_addresses :: "IPAddress list"

text \<open>The parts of the NetBox snapshot that are compared or stored.\<close>

record NetBoxInventorySnapshot =
  nb_devices :: "Device list"
  nb_interfaces :: "Interface list"
  nb_vlans :: "VLAN list"

section \<open>Live snapshots\<close>

record InterfaceSnapshot =
  ifs_device_id :: string
  ifs_name :: string
  ifs_captured_at :: time
  ifs_version :: string
  ifs_admin_status :: "string option"
  ifs_oper_status :: "string option"
  ifs_description :: "string option"
  ifs_mac_address :: "string option"
  ifs_speed_mbps :: "int option"
  ifs_poe_status :: "string option"

record VLANSnapshot =
  vs_vlan_id :: int
  vs_name :: string
  vs_captured_at :: time
  vs_version :: string
  vs_device_id :: "string option"
  vs_status :: "string option"

record MACTableSnapshot =
  ms_mac_address :: string
  ms_device_id :: string
  ms_interface_name :: string
  ms_captured_at :: time
  ms_version :: string
  ms_vlan_id :: "int option"
  ms_last_seen :: "time option"

record NeighborSnapshot =
  ns_local_device_id :: string
  ns_local_interface :: string
  ns_remote_device_id :: string
  ns_remote_interface :: "string option"
  ns_protocol :: "string option"
  ns_captured_at :: time
  ns_version :: string

record PowerSnapshot =
  ps_device_id :: string
  ps_source :: string
  ps_captured_at :: time
  ps_version :: string
  ps_status :: "string option"
  ps_available_watts :: "rat option"
  ps_consumed_watts :: "rat option"
  ps_poe_enabled :: "bool option"

record DeviceSnapshot =
  ds_device_id :: string
  ds_name :: string
  ds_captured_at :: time
  ds_version :: string
  ds_manufacturer :: "string option"
  ds_model :: "string option"
  ds_serial_number :: "string option"
  ds_product_id :: "string option"
  ds_management_ip :: "string option"
  ds_base_mac :: "string option"
  ds_software_version :: "string option"
  ds_uptime :: "string option"
  ds_hardware_revision :: "string option"
  ds_platform :: "string option"
  ds_stack_members :: "string list"
  ds_interfaces :: "InterfaceSnapshot list"
  ds_vlans :: "VLANSnapshot list"
  ds_mac_table :: "MACTableSnapshot list"
  ds_neighbors :: "NeighborSnapshot list"
  ds_power :: "PowerSnapshot option"

record LiveInventorySnapshot =
  live_devices :: "DeviceSnapshot list"
  live_captured_at :: time
  live_version :: string
  live_source :: "string option"

definition SNAPSHOT_SCHEMA_VERSION :: string where
  "SNAPSHOT_SCHEMA_VERSION = ''1.0.0''"

definition empty_snapshot :: "time \<Rightarrow> LiveInventorySnapshot" where
  "empty_snapshot now =
     \<lparr>live_devices = [], live_captured_at = now, live_version = SNAPSHOT_SCHEMA_VERSION, live_source = None\<rparr>"

text \<open>
  \<open>merge\<close>: the last snapshot of a device wins and keeps the place of the first; the capture time is
  the latest, the version that of the last snapshot, the source the last one given.
\<close>

definition merge_devices :: "LiveInventorySnapshot list \<Rightarrow> (string, DeviceSnapshot) dict" where
  "merge_devices ss = fold (\<lambda>d. dict_set (ds_device_id d) d) (concat (map live_devices ss)) []"

definition merge :: "time \<Rightarrow> LiveInventorySnapshot list \<Rightarrow> LiveInventorySnapshot" where
  "merge now ss =
     (case ss of
        [] \<Rightarrow> empty_snapshot now
      | s # _ \<Rightarrow>
          \<lparr>live_devices = dict_values (merge_devices ss),
           live_captured_at = fold (\<lambda>t m. if live_captured_at t > m then live_captured_at t else m) ss (live_captured_at s),
           live_version = fold (\<lambda>t v. live_version t) ss (live_version s),
           live_source = fold (\<lambda>t src. case live_source t of None \<Rightarrow> src | Some x \<Rightarrow> Some x) ss (live_source s)\<rparr>)"

section \<open>Dictionaries built from lists\<close>

text \<open>\<open>{key(x): x for x in xs}\<close>: the last of equal keys wins.\<close>

definition index_by :: "('a \<Rightarrow> 'k) \<Rightarrow> 'a list \<Rightarrow> ('k, 'a) dict" where
  "index_by key xs = fold (\<lambda>x. dict_set (key x) x) xs []"

lemma index_fold_ok: "dict_ok d \<Longrightarrow> dict_ok (fold (\<lambda>x. dict_set (key x) x) xs d)"
  by (induction xs arbitrary: d) (simp_all add: pydict.invar_put)

lemma index_by_ok: "dict_ok (index_by key xs)"
  unfolding index_by_def by (rule index_fold_ok) (rule pydict.invar_empty)

lemma index_fold_get:
  "dict_get (fold (\<lambda>x. dict_set (key x) x) xs d) k =
     (case find (\<lambda>x. key x = k) (rev xs) of None \<Rightarrow> dict_get d k | Some x \<Rightarrow> Some x)"
  by (induction xs arbitrary: d) (auto simp: pydict.get_put find_append split: option.split)

lemma index_by_get: "dict_get (index_by key xs) k = find (\<lambda>x. key x = k) (rev xs)"
  unfolding index_by_def index_fold_get pydict.get_empty by (simp split: option.split)

lemma index_by_key: "dict_get (index_by key xs) k = Some x \<Longrightarrow> x \<in> set xs \<and> key x = k"
  unfolding index_by_get using find_Some_iff [of "\<lambda>x. key x = k" "rev xs" x] nth_mem [of _ "rev xs"]
  by auto

lemma index_by_None: "dict_get (index_by key xs) k = None \<longleftrightarrow> k \<notin> key ` set xs"
  by (auto simp: index_by_get find_None_iff)

lemma index_by_distinct: "distinct (map key xs) \<Longrightarrow> index_by key xs = map (\<lambda>x. (key x, x)) xs"
proof -
  have "distinct (map key xs) \<Longrightarrow> set (map key xs) \<inter> set (dict_keys d) = {} \<Longrightarrow>
      fold (\<lambda>x. dict_set (key x) x) xs d = d @ map (\<lambda>x. (key x, x)) xs" for d
  proof (induction xs arbitrary: d)
    case (Cons x xs)
    then have "dict_set (key x) x d = d @ [(key x, x)]" by (intro dict_set_new) auto
    moreover have "set (map key xs) \<inter> set (dict_keys (d @ [(key x, x)])) = {}"
      using Cons.prems by (auto simp: dict_keys_def)
    ultimately show ?case using Cons by simp
  qed simp
  from this [of "[]"] show "distinct (map key xs) \<Longrightarrow> ?thesis" by (simp add: index_by_def dict_keys_def)
qed

end
