(* ===== verification/Snapshot_Records.thy ===== *)
theory Snapshot_Records
  imports Inventory_Model
begin

text \<open>
  The rows of stored inventory snapshots (\<^verbatim>\<open>persistence/models.py\<close>) and how
  \<^verbatim>\<open>persistence/repositories.py\<close> builds them from a live snapshot or a NetBox inventory. A snapshot
  row holds its device rows, a device row its interfaces, VLANs and neighbours, as the ORM relations
  do; \<open>new\<close> is the first of the identifiers that \<open>uuid4\<close> hands out in order. The JSON column
  \<open>payload\<close> is kept as the value it is written from.
\<close>

datatype SnapshotSource = NETBOX | LIVE

fun source_value :: "SnapshotSource \<Rightarrow> string" where
  "source_value NETBOX = ''netbox''"
| "source_value LIVE = ''live''"

record SnapshotInterfaceRecord =
  si_id :: uuid
  si_created_at :: time
  si_name :: string
  si_admin_status :: "string option"
  si_oper_status :: "string option"
  si_description :: "string option"
  si_mac_address :: "string option"
  si_speed_mbps :: "int option"
  si_poe_status :: "string option"

record SnapshotVLANRecord =
  sv_id :: uuid
  sv_created_at :: time
  sv_vlan_id :: int
  sv_name :: string
  sv_status :: "string option"

record SnapshotNeighborRecord =
  sn_id :: uuid
  sn_created_at :: time
  sn_local_interface :: string
  sn_remote_device_id :: string
  sn_remote_interface :: "string option"
  sn_protocol :: "string option"

datatype device_payload = Live_Device DeviceSnapshot | NetBox_Device Device
datatype snapshot_payload = Live_Inventory LiveInventorySnapshot | NetBox_Inventory NetBoxInventorySnapshot

record SnapshotDeviceRecord =
  sd_id :: uuid
  sd_created_at :: time
  sd_device_id :: string
  sd_name :: string
  sd_manufacturer :: "string option"
  sd_model :: "string option"
  sd_serial_number :: "string option"
  sd_product_id :: "string option"
  sd_management_ip :: "string option"
  sd_platform :: "string option"
  sd_payload :: device_payload
  sd_interfaces :: "SnapshotInterfaceRecord list"
  sd_vlans :: "SnapshotVLANRecord list"
  sd_neighbors :: "SnapshotNeighborRecord list"

record SnapshotRecord =
  snapshot_id :: uuid
  snapshot_created_at :: time
  snapshot_source :: string
  snapshot_tenant_id :: string
  source_label :: "string option"
  snapshot_captured_at :: time
  schema_version :: string
  discovery_run_id :: "uuid option"
  snapshot_payload :: snapshot_payload
  snapshot_devices :: "SnapshotDeviceRecord list"

section \<open>Rows of a live snapshot\<close>

definition numbered :: "(uuid \<Rightarrow> 'a \<Rightarrow> 'b) \<Rightarrow> uuid \<Rightarrow> 'a list \<Rightarrow> 'b list" where
  "numbered f new xs = map2 f [new..<new + length xs] xs"

definition live_interface_record :: "time \<Rightarrow> uuid \<Rightarrow> InterfaceSnapshot \<Rightarrow> SnapshotInterfaceRecord" where
  "live_interface_record now i x =
     \<lparr>si_id = i, si_created_at = now, si_name = ifs_name x, si_admin_status = ifs_admin_status x,
      si_oper_status = ifs_oper_status x, si_description = ifs_description x,
      si_mac_address = ifs_mac_address x, si_speed_mbps = ifs_speed_mbps x, si_poe_status = ifs_poe_status x\<rparr>"

definition vlan_record :: "time \<Rightarrow> uuid \<Rightarrow> VLANSnapshot \<Rightarrow> SnapshotVLANRecord" where
  "vlan_record now i v =
     \<lparr>sv_id = i, sv_created_at = now, sv_vlan_id = vs_vlan_id v, sv_name = vs_name v, sv_status = vs_status v\<rparr>"

definition neighbor_record :: "time \<Rightarrow> uuid \<Rightarrow> NeighborSnapshot \<Rightarrow> SnapshotNeighborRecord" where
  "neighbor_record now i n =
     \<lparr>sn_id = i, sn_created_at = now, sn_local_interface = ns_local_interface n,
      sn_remote_device_id = ns_remote_device_id n, sn_remote_interface = ns_remote_interface n,
      sn_protocol = ns_protocol n\<rparr>"

definition device_record :: "time \<Rightarrow> uuid \<Rightarrow> DeviceSnapshot \<Rightarrow> SnapshotDeviceRecord" where
  "device_record now new d =
     (let interfaces = numbered (live_interface_record now) (new + 1) (ds_interfaces d);
          vlans = numbered (vlan_record now) (new + 1 + length (ds_interfaces d)) (ds_vlans d);
          neighbors = numbered (neighbor_record now)
            (new + 1 + length (ds_interfaces d) + length (ds_vlans d)) (ds_neighbors d)
      in \<lparr>sd_id = new, sd_created_at = now, sd_device_id = ds_device_id d, sd_name = ds_name d,
          sd_manufacturer = ds_manufacturer d, sd_model = ds_model d,
          sd_serial_number = ds_serial_number d, sd_product_id = ds_product_id d,
          sd_management_ip = ds_management_ip d, sd_platform = ds_platform d,
          sd_payload = Live_Device d, sd_interfaces = interfaces, sd_vlans = vlans, sd_neighbors = neighbors\<rparr>)"

definition device_rows :: "DeviceSnapshot \<Rightarrow> nat" where
  "device_rows d = 1 + length (ds_interfaces d) + length (ds_vlans d) + length (ds_neighbors d)"

fun device_records :: "time \<Rightarrow> uuid \<Rightarrow> DeviceSnapshot list \<Rightarrow> SnapshotDeviceRecord list" where
  "device_records now new [] = []"
| "device_records now new (d # ds) = device_record now new d # device_records now (new + device_rows d) ds"

definition live_snapshot_record ::
  "time \<Rightarrow> uuid \<Rightarrow> string \<Rightarrow> uuid option \<Rightarrow> LiveInventorySnapshot \<Rightarrow> SnapshotRecord" where
  "live_snapshot_record now new tenant run s =
     \<lparr>snapshot_id = new, snapshot_created_at = now, snapshot_source = source_value LIVE,
      snapshot_tenant_id = tenant, source_label = live_source s, snapshot_captured_at = live_captured_at s,
      schema_version = live_version s, discovery_run_id = run, snapshot_payload = Live_Inventory s,
      snapshot_devices = device_records now (new + 1) (live_devices s)\<rparr>"

definition live_rows :: "LiveInventorySnapshot \<Rightarrow> nat" where
  "live_rows s = 1 + sum_list (map device_rows (live_devices s))"

section \<open>Rows of a NetBox inventory\<close>

text \<open>\<open>interfaces_by_device\<close>: an interface without a device name belongs to none.\<close>

definition interfaces_of :: "NetBoxInventorySnapshot \<Rightarrow> string \<Rightarrow> Interface list" where
  "interfaces_of nb name = filter (\<lambda>i. if_device_name i \<noteq> [] \<and> if_device_name i = name) (nb_interfaces nb)"

definition netbox_interface_record :: "time \<Rightarrow> uuid \<Rightarrow> Interface \<Rightarrow> SnapshotInterfaceRecord" where
  "netbox_interface_record now i x =
     \<lparr>si_id = i, si_created_at = now, si_name = if_name x,
      si_admin_status = Some (if if_enabled x then ''up'' else ''down''), si_oper_status = None,
      si_description = if_description x, si_mac_address = if_mac_address x, si_speed_mbps = None,
      si_poe_status = None\<rparr>"

definition netbox_device_record :: "time \<Rightarrow> uuid \<Rightarrow> Device \<Rightarrow> Interface list \<Rightarrow> SnapshotDeviceRecord" where
  "netbox_device_record now new d interfaces =
     \<lparr>sd_id = new, sd_created_at = now, sd_device_id = dev_name d, sd_name = dev_name d,
      sd_manufacturer = Some (mf_name (dt_manufacturer (dev_type d))), sd_model = Some (dt_model (dev_type d)),
      sd_serial_number = dev_serial d, sd_product_id = None, sd_management_ip = dev_primary_ip d,
      sd_platform = map_option pf_name (dev_platform d), sd_payload = NetBox_Device d,
      sd_interfaces = numbered (netbox_interface_record now) (new + 1) interfaces,
      sd_vlans = [], sd_neighbors = []\<rparr>"

fun netbox_device_records ::
  "time \<Rightarrow> uuid \<Rightarrow> NetBoxInventorySnapshot \<Rightarrow> Device list \<Rightarrow> SnapshotDeviceRecord list" where
  "netbox_device_records now new nb [] = []"
| "netbox_device_records now new nb (d # ds) =
     (let interfaces = interfaces_of nb (dev_name d)
      in netbox_device_record now new d interfaces #
         netbox_device_records now (new + 1 + length interfaces) nb ds)"

definition netbox_snapshot_record ::
  "time \<Rightarrow> uuid \<Rightarrow> string \<Rightarrow> NetBoxInventorySnapshot \<Rightarrow> SnapshotRecord" where
  "netbox_snapshot_record now new tenant nb =
     \<lparr>snapshot_id = new, snapshot_created_at = now, snapshot_source = source_value NETBOX,
      snapshot_tenant_id = tenant, source_label = Some ''netbox'', snapshot_captured_at = now,
      schema_version = ''netbox-canonical-v1'', discovery_run_id = None,
      snapshot_payload = NetBox_Inventory nb,
      snapshot_devices = netbox_device_records now (new + 1) nb (nb_devices nb)\<rparr>"

definition netbox_rows :: "NetBoxInventorySnapshot \<Rightarrow> nat" where
  "netbox_rows nb = 1 + sum_list (map (\<lambda>d. 1 + length (interfaces_of nb (dev_name d))) (nb_devices nb))"

section \<open>Facts about the rows\<close>

lemma length_numbered [simp]: "length (numbered f new xs) = length xs"
  by (simp add: numbered_def)

lemma map_numbered:
  assumes "\<And>i x. x \<in> set xs \<Longrightarrow> g (f i x) = h x"
  shows "map g (numbered f new xs) = map h xs"
  unfolding numbered_def by (rule nth_equalityI) (simp_all add: assms)

lemma device_records_keep:
  "map sd_device_id (device_records now new ds) = map ds_device_id ds"
  "map sd_payload (device_records now new ds) = map Live_Device ds"
  by (induction ds arbitrary: new) (simp_all add: device_record_def Let_def)

end
