(* ===== verification/Discovery_Store.thy ===== *)
theory Discovery_Store
  imports Discovery_Contracts Snapshot_Records
begin

text \<open>
  The durable state of discovery: the rows of \<^verbatim>\<open>persistence/models.py\<close> the repositories read and
  write, the store that holds the tables, and the database session the repositories run in.

  A session has the committed store and its own working view; \<open>commit\<close> publishes the view,
  \<open>rollback\<close> drops it. \<open>uuid4\<close> returns an identifier never returned before (a counter of the
  session). A foreign transaction that commits between two statements of an operation is a
  function \<open>env\<close> on sessions, given to the operation as an argument.
\<close>

record DiscoveryJobRecord =
  job_id :: uuid
  job_tenant_id :: string
  job_target_id :: uuid
  job_run_id :: uuid
  parent_job_id :: "uuid option"
  runtime_job_id :: "uuid option"
  job_state :: DiscoveryJobStatus
  job_failure_code :: "string option"
  job_failure_message :: "string option"
  requested_at :: time
  job_started_at :: "time option"
  job_completed_at :: "time option"
  job_created_by :: "uuid option"
  job_updated_at :: time
  requested_capabilities :: "(string, pyval) dict"
  job_selected_transport :: "string option"
  selected_platform :: "string option"
  attempts :: int
  timeout_seconds :: "rat option"
  job_correlation_id :: "string option"
  cancellation_requested_at :: "time option"
  cancellation_requested_by :: "uuid option"
  cancellation_reason :: "string option"
  execution_owner :: "uuid option"
  lease_expires_at :: "time option"
  last_heartbeat_at :: "time option"

record DiscoveryTargetRecord =
  target_id :: uuid
  target_tenant_id :: string
  target_identifier :: string
  target_address :: string
  scope_type :: string
  scope_end :: "string option"
  scope_cidr :: "string option"
  target_vendor :: "string option"
  target_hostname :: "string option"
  platform_hint :: "string option"
  preferred_transport :: "string option"
  target_enabled :: bool
  credential_reference :: string
  credential_profile_id :: "string option"
  credential_references :: "(string, pyval) dict"
  allowed_fallback_transports :: "string list"
  target_allow_insecure_telnet :: bool
  target_allow_insecure_http :: bool
  target_metadata :: "(string, pyval) dict"
  target_created_by :: "uuid option"
  target_created_at :: time
  target_updated_at :: time

datatype DiscoveryRunStatus = STARTED | RUN_SUCCEEDED | RUN_FAILED

record DiscoveryRunRecord =
  run_id :: uuid
  run_created_at :: time
  run_target_identifier :: string
  run_target_address :: "string option"
  run_tenant_id :: "string option"
  run_status :: DiscoveryRunStatus
  run_started_at :: time
  run_finished_at :: "time option"
  run_metadata :: "(string, pyval) dict"
  total_scanned :: "nat option"
  total_discovered :: "nat option"
  total_unreachable :: "nat option"
  total_reachable_no_management :: "nat option"
  total_authentication_failed :: "nat option"
  total_partial_discovery :: "nat option"
  total_unverified :: "nat option"

record DiscoveryDeviceResultRecord =
  result_id :: uuid
  result_tenant_id :: string
  discovery_job_id :: uuid
  child_job_id :: uuid
  result_address :: string
  result_hostname :: "string option"
  result_vendor :: "string option"
  result_platform :: "string option"
  device_state :: string
  result_state :: "string option"
  result_selected_transport :: "string option"
  result_failure_code :: "string option"
  result_failure_message :: "string option"
  result_started_at :: "time option"
  result_completed_at :: "time option"
  result_correlation_id :: "string option"

record DiscoveryTransportAttemptRecord =
  attempt_id :: uuid
  attempt_tenant_id :: string
  attempt_device_result_id :: uuid
  attempt_transport :: string
  attempt_order :: int
  attempt_result :: string
  attempt_failure_code :: "string option"
  attempt_failure_message :: "string option"
  attempt_duration_ms :: "int option"
  attempt_started_at :: time
  attempt_completed_at :: "time option"
  attempt_correlation_id :: "string option"

record DiscoveryEvidenceRecord =
  evidence_id :: uuid
  evidence_tenant_id :: string
  evidence_job_id :: uuid
  evidence_target_id :: uuid
  evidence_run_id :: uuid
  evidence_type :: string
  evidence_source :: string
  observed_at :: time
  evidence_payload :: "(string, pyval) dict"
  payload_hash :: string
  evidence_collector :: string
  collector_version :: "string option"
  command_or_probe :: string
  evidence_sequence :: int
  parser_version :: "string option"
  normalization_version :: "string option"

record store =
  jobs :: "DiscoveryJobRecord list"
  targets :: "DiscoveryTargetRecord list"
  runs :: "DiscoveryRunRecord list"
  device_results :: "DiscoveryDeviceResultRecord list"
  transport_attempts :: "DiscoveryTransportAttemptRecord list"
  evidence :: "DiscoveryEvidenceRecord list"
  snapshots :: "SnapshotRecord list"

record session =
  committed :: store
  work :: store
  next_uuid :: uuid

definition empty_store :: store where
  "empty_store = \<lparr>jobs = [], targets = [], runs = [], device_results = [],
                  transport_attempts = [], evidence = [], snapshots = []\<rparr>"

section \<open>Session operations\<close>

definition commit :: "session \<Rightarrow> session" where
  "commit s = s\<lparr>committed := work s\<rparr>"

definition rollback :: "session \<Rightarrow> session" where
  "rollback s = s\<lparr>work := committed s\<rparr>"

definition uuid4 :: "session \<Rightarrow> uuid \<times> session" where
  "uuid4 s = (next_uuid s, s\<lparr>next_uuid := Suc (next_uuid s)\<rparr>)"

definition put_jobs :: "DiscoveryJobRecord list \<Rightarrow> session \<Rightarrow> session" where
  "put_jobs js s = s\<lparr>work := (work s)\<lparr>jobs := js\<rparr>\<rparr>"

definition put_targets :: "DiscoveryTargetRecord list \<Rightarrow> session \<Rightarrow> session" where
  "put_targets ts s = s\<lparr>work := (work s)\<lparr>targets := ts\<rparr>\<rparr>"

definition put_runs :: "DiscoveryRunRecord list \<Rightarrow> session \<Rightarrow> session" where
  "put_runs rs s = s\<lparr>work := (work s)\<lparr>runs := rs\<rparr>\<rparr>"

definition put_results :: "DiscoveryDeviceResultRecord list \<Rightarrow> session \<Rightarrow> session" where
  "put_results rs s = s\<lparr>work := (work s)\<lparr>device_results := rs\<rparr>\<rparr>"

text \<open>\<open>session.get(Model, key)\<close>: the row with this primary key.\<close>

definition get_job :: "session \<Rightarrow> uuid \<Rightarrow> DiscoveryJobRecord option" where
  "get_job s i = sql_first (\<lambda>j. job_id j = i) (jobs (work s))"

definition get_target :: "session \<Rightarrow> uuid \<Rightarrow> DiscoveryTargetRecord option" where
  "get_target s i = sql_first (\<lambda>t. target_id t = i) (targets (work s))"

definition get_run :: "session \<Rightarrow> uuid \<Rightarrow> DiscoveryRunRecord option" where
  "get_run s i = sql_first (\<lambda>r. run_id r = i) (runs (work s))"

section \<open>Session facts\<close>

lemma session_simps [simp]:
  "work (commit s) = work s" "committed (commit s) = work s" "next_uuid (commit s) = next_uuid s"
  "work (rollback s) = committed s" "committed (rollback s) = committed s"
  "next_uuid (rollback s) = next_uuid s"
  by (simp_all add: commit_def rollback_def)

lemma put_jobs_simps [simp]:
  "jobs (work (put_jobs js s)) = js" "targets (work (put_jobs js s)) = targets (work s)"
  "runs (work (put_jobs js s)) = runs (work s)"
  "device_results (work (put_jobs js s)) = device_results (work s)"
  "committed (put_jobs js s) = committed s" "next_uuid (put_jobs js s) = next_uuid s"
  by (simp_all add: put_jobs_def)

lemma put_targets_simps [simp]:
  "jobs (work (put_targets ts s)) = jobs (work s)" "targets (work (put_targets ts s)) = ts"
  "runs (work (put_targets ts s)) = runs (work s)"
  "device_results (work (put_targets ts s)) = device_results (work s)"
  "committed (put_targets ts s) = committed s" "next_uuid (put_targets ts s) = next_uuid s"
  by (simp_all add: put_targets_def)

lemma put_runs_simps [simp]:
  "jobs (work (put_runs rs s)) = jobs (work s)" "targets (work (put_runs rs s)) = targets (work s)"
  "runs (work (put_runs rs s)) = rs"
  "device_results (work (put_runs rs s)) = device_results (work s)"
  "committed (put_runs rs s) = committed s" "next_uuid (put_runs rs s) = next_uuid s"
  by (simp_all add: put_runs_def)

lemma put_results_simps [simp]:
  "jobs (work (put_results ds s)) = jobs (work s)"
  "targets (work (put_results ds s)) = targets (work s)"
  "runs (work (put_results ds s)) = runs (work s)"
  "device_results (work (put_results ds s)) = ds"
  "committed (put_results ds s) = committed s" "next_uuid (put_results ds s) = next_uuid s"
  by (simp_all add: put_results_def)

lemma uuid4_simps [simp]:
  "fst (uuid4 s) = next_uuid s" "work (snd (uuid4 s)) = work s"
  "committed (snd (uuid4 s)) = committed s" "next_uuid (snd (uuid4 s)) = Suc (next_uuid s)"
  by (simp_all add: uuid4_def)

end
