(* ===== verification/Ip_Address.thy ===== *)
theory Ip_Address
  imports Prelude
begin

text \<open>
  What discovery uses of Python's \<^verbatim>\<open>ipaddress\<close> module (CPython 3.12): \<open>ip_address\<close>,
  \<open>ip_network(\<dots>, strict=False)\<close>, \<open>hosts()\<close>, \<open>str\<close> and integer arithmetic, for both
  address families. A \<open>ValueError\<close> is \<open>None\<close>. An IPv6 scope identifier is accepted and dropped,
  as the arithmetic on addresses drops it.
\<close>

datatype ip = IPv4 nat | IPv6 nat

fun ip_version :: "ip \<Rightarrow> nat" where
  "ip_version (IPv4 _) = 4"
| "ip_version (IPv6 _) = 6"

fun ip_int :: "ip \<Rightarrow> nat" where
  "ip_int (IPv4 n) = n"
| "ip_int (IPv6 n) = n"

fun ip_add :: "ip \<Rightarrow> nat \<Rightarrow> ip" where
  "ip_add (IPv4 n) k = IPv4 (n + k)"
| "ip_add (IPv6 n) k = IPv6 (n + k)"

section \<open>Text\<close>

fun split_on :: "char \<Rightarrow> string \<Rightarrow> string list" where
  "split_on c [] = [[]]"
| "split_on c (x # xs) =
     (if x = c then [] # split_on c xs
      else (case split_on c xs of [] \<Rightarrow> [[x]] | w # ws \<Rightarrow> (x # w) # ws))"

fun join_with :: "char \<Rightarrow> string list \<Rightarrow> string" where
  "join_with c [] = []"
| "join_with c [w] = w"
| "join_with c (w # ws) = w @ c # join_with c ws"

definition digit_of :: "nat \<Rightarrow> char \<Rightarrow> nat option" where
  "digit_of base c =
     (let n = of_char c :: nat;
          d = (if 48 \<le> n \<and> n \<le> 57 then Some (n - 48)
               else if 97 \<le> n \<and> n \<le> 102 then Some (n - 87)
               else if 65 \<le> n \<and> n \<le> 70 then Some (n - 55) else None)
      in case d of None \<Rightarrow> None | Some k \<Rightarrow> if k < base then Some k else None)"

fun parse_digits :: "nat \<Rightarrow> nat \<Rightarrow> string \<Rightarrow> nat option" where
  "parse_digits base acc [] = Some acc"
| "parse_digits base acc (c # cs) =
     (case digit_of base c of None \<Rightarrow> None | Some d \<Rightarrow> parse_digits base (base * acc + d) cs)"

definition parse_number :: "nat \<Rightarrow> string \<Rightarrow> nat option" where
  "parse_number base s = (if s = [] then None else parse_digits base 0 s)"

definition digit_char :: "nat \<Rightarrow> char" where
  "digit_char d = ''0123456789abcdef'' ! d"

fun show_number :: "nat \<Rightarrow> nat \<Rightarrow> nat \<Rightarrow> string" where
  "show_number 0 base n = []"
| "show_number (Suc width) base n =
     (if n < base then [digit_char n]
      else show_number width base (n div base) @ [digit_char (n mod base)])"

section \<open>IPv4\<close>

definition parse_octet :: "string \<Rightarrow> nat option" where
  "parse_octet s =
     (if length s > 3 \<or> (s \<noteq> ''0'' \<and> s \<noteq> [] \<and> hd s = CHR ''0'') then None
      else case parse_number 10 s of
             None \<Rightarrow> None
           | Some n \<Rightarrow> if n > 255 then None else Some n)"

fun octets_int :: "string list \<Rightarrow> nat option" where
  "octets_int [a, b, c, d] =
     (case (parse_octet a, parse_octet b, parse_octet c, parse_octet d) of
        (Some x, Some y, Some z, Some w) \<Rightarrow> Some (((x * 256 + y) * 256 + z) * 256 + w)
      | _ \<Rightarrow> None)"
| "octets_int _ = None"

definition ipv4_from_string :: "string \<Rightarrow> nat option" where
  "ipv4_from_string s = octets_int (split_on (CHR ''.'') s)"

definition show_octet :: "nat \<Rightarrow> string" where
  "show_octet n = show_number 3 10 n"

definition show_ipv4 :: "nat \<Rightarrow> string" where
  "show_ipv4 n = join_with (CHR ''.'')
     (map show_octet [n div 16777216 mod 256, n div 65536 mod 256, n div 256 mod 256, n mod 256])"

section \<open>IPv6\<close>

definition parse_hextet :: "string \<Rightarrow> nat option" where
  "parse_hextet s = (if length s > 4 then None else parse_number 16 s)"

fun parse_hextets :: "nat \<Rightarrow> string list \<Rightarrow> nat option" where
  "parse_hextets acc [] = Some acc"
| "parse_hextets acc (h # hs) =
     (case parse_hextet h of None \<Rightarrow> None | Some n \<Rightarrow> parse_hextets (acc * 65536 + n) hs)"

text \<open>An embedded dotted quad in the last part becomes two hextets.\<close>

definition expand_quad :: "string list \<Rightarrow> string list option" where
  "expand_quad parts =
     (if CHR ''.'' \<in> set (last parts)
      then case ipv4_from_string (last parts) of
             None \<Rightarrow> None
           | Some n \<Rightarrow> Some (butlast parts @
                         [show_number 4 16 (n div 65536), show_number 4 16 (n mod 65536)])
      else Some parts)"

definition inner_gaps :: "string list \<Rightarrow> nat list" where
  "inner_gaps parts = filter (\<lambda>i. parts ! i = []) [1..<length parts - 1]"

definition ipv6_from_parts :: "string list \<Rightarrow> nat option" where
  "ipv6_from_parts parts =
     (case inner_gaps parts of
        [] \<Rightarrow>
          if length parts \<noteq> 8 \<or> hd parts = [] \<or> last parts = [] then None
          else parse_hextets 0 parts
      | [k] \<Rightarrow>
          (let hi = (if hd parts = [] then k - 1 else k);
               lo0 = length parts - k - 1;
               lo = (if last parts = [] then lo0 - 1 else lo0)
           in if (hd parts = [] \<and> hi \<noteq> 0) \<or> (last parts = [] \<and> lo \<noteq> 0) \<or> hi + lo \<ge> 8 then None
              else case parse_hextets 0 (take hi parts) of
                     None \<Rightarrow> None
                   | Some n \<Rightarrow>
                       parse_hextets (n * 65536 ^ (8 - (hi + lo)))
                         (drop (length parts - lo) parts))
      | _ \<Rightarrow> None)"

definition ipv6_from_string :: "string \<Rightarrow> nat option" where
  "ipv6_from_string s =
     (if s = [] then None
      else let parts = split_on (CHR '':'') s
           in if length parts < 3 then None
              else case expand_quad parts of
                     None \<Rightarrow> None
                   | Some ps \<Rightarrow> if length ps > 9 then None else ipv6_from_parts ps)"

definition strip_scope :: "string \<Rightarrow> string option" where
  "strip_scope s =
     (case split_on (CHR ''%'') s of
        [a] \<Rightarrow> Some a
      | [a, scope] \<Rightarrow> if scope = [] then None else Some a
      | _ \<Rightarrow> None)"

definition hextet_values :: "nat \<Rightarrow> nat list" where
  "hextet_values n = map (\<lambda>k. n div 65536 ^ k mod 65536) (rev [0..<8])"

text \<open>The first longest run of zero hextets, as (start, length).\<close>

fun zero_runs :: "nat \<Rightarrow> nat list \<Rightarrow> (nat \<times> nat) list" where
  "zero_runs k [] = []"
| "zero_runs k (h # hs) = (k, length (takeWhile (\<lambda>x. x = 0) (h # hs))) # zero_runs (Suc k) hs"

definition best_run :: "nat list \<Rightarrow> nat \<times> nat" where
  "best_run hs =
     foldl (\<lambda>(s, l) (s', l'). if l' > l then (s', l') else (s, l)) (0, 0) (zero_runs 0 hs)"

definition show_ipv6 :: "nat \<Rightarrow> string" where
  "show_ipv6 n =
     (let hs = hextet_values n; (start, len) = best_run hs;
          ws = map (show_number 4 16) hs
      in if len > 1
         then join_with (CHR '':'')
                ((if start = 0 then [[]] else []) @ take start ws @ [[]] @
                 drop (start + len) ws @ (if start + len = length ws then [[]] else []))
         else join_with (CHR '':'') ws)"

section \<open>Addresses and networks\<close>

definition ip_address :: "string \<Rightarrow> ip option" where
  "ip_address s =
     (case ipv4_from_string s of
        Some n \<Rightarrow> Some (IPv4 n)
      | None \<Rightarrow>
          if CHR ''/'' \<in> set s then None
          else (case strip_scope s of
                  None \<Rightarrow> None
                | Some a \<Rightarrow> map_option IPv6 (ipv6_from_string a)))"

fun show_ip :: "ip \<Rightarrow> string" where
  "show_ip (IPv4 n) = show_ipv4 n"
| "show_ip (IPv6 n) = show_ipv6 n"

definition prefix_string :: "nat \<Rightarrow> string \<Rightarrow> nat option" where
  "prefix_string max_len s =
     (case parse_number 10 s of None \<Rightarrow> None | Some n \<Rightarrow> if n \<le> max_len then Some n else None)"

definition prefix_of_mask :: "nat \<Rightarrow> nat option" where
  "prefix_of_mask m = find (\<lambda>p. m = 2 ^ 32 - 2 ^ (32 - p)) [0..<33]"

definition ipv4_prefix :: "string \<Rightarrow> nat option" where
  "ipv4_prefix s =
     (case prefix_string 32 s of
        Some p \<Rightarrow> Some p
      | None \<Rightarrow>
          (case ipv4_from_string s of
             None \<Rightarrow> None
           | Some m \<Rightarrow>
               (case prefix_of_mask m of
                  Some p \<Rightarrow> Some p
                | None \<Rightarrow> prefix_of_mask (4294967295 - m))))"

text \<open>A network: the masked base address and the prefix length.\<close>

definition mask_base :: "nat \<Rightarrow> nat \<Rightarrow> nat \<Rightarrow> nat" where
  "mask_base bits prefix n = n div 2 ^ (bits - prefix) * 2 ^ (bits - prefix)"

definition ip_network :: "string \<Rightarrow> (ip \<times> nat) option" where
  "ip_network s =
     (let v6 = (\<lambda>a p. case strip_scope a of
                        None \<Rightarrow> None
                      | Some a' \<Rightarrow>
                          (case (ipv6_from_string a', p) of
                             (Some n, Some p') \<Rightarrow> Some (IPv6 (mask_base 128 p' n), p')
                           | _ \<Rightarrow> None));
          v4 = (\<lambda>a p. case (ipv4_from_string a, p) of
                        (Some n, Some p') \<Rightarrow> Some (IPv4 (mask_base 32 p' n), p')
                      | _ \<Rightarrow> None)
      in case split_on (CHR ''/'') s of
           [a] \<Rightarrow> (case v4 a (Some 32) of Some r \<Rightarrow> Some r | None \<Rightarrow> v6 a (Some 128))
         | [a, m] \<Rightarrow> (case v4 a (ipv4_prefix m) of
                         Some r \<Rightarrow> Some r
                       | None \<Rightarrow> v6 a (prefix_string 128 m))
         | _ \<Rightarrow> None)"

text \<open>
  \<open>hosts()\<close>: all addresses but network and broadcast (IPv4), all but the first (IPv6), both
  addresses of a /31 or /127, the single address of a /32 or /128.
\<close>

fun hosts :: "ip \<times> nat \<Rightarrow> ip list" where
  "hosts (IPv4 n, p) =
     (if p = 32 then [IPv4 n]
      else if p = 31 then [IPv4 n, IPv4 (n + 1)]
      else map (\<lambda>k. IPv4 (n + k)) [1..<2 ^ (32 - p) - 1])"
| "hosts (IPv6 n, p) =
     (if p = 128 then [IPv6 n]
      else if p = 127 then [IPv6 n, IPv6 (n + 1)]
      else map (\<lambda>k. IPv6 (n + k)) [1..<2 ^ (128 - p)])"

lemmas ip_eval = ip_address_def ipv4_from_string_def parse_octet_def parse_number_def digit_of_def

section \<open>The decimal notation is faithful\<close>

lemma digit_round_trip:
  assumes "d < base" and "base \<le> 16"
  shows "digit_of base (digit_char d) = Some d"
proof -
  from assms have "d \<in> set [0..<16]" by simp
  then show ?thesis using assms(1)
    by (simp add: upt_rec, elim disjE) (simp_all add: digit_char_def digit_of_def)
qed

lemma digit_char_plain:
  assumes "d < 16"
  shows "digit_char d \<noteq> CHR ''.''" and "0 < d \<Longrightarrow> digit_char d \<noteq> CHR ''0''"
proof -
  from assms have "d \<in> set [0..<16]" by simp
  then show "digit_char d \<noteq> CHR ''.''" and "0 < d \<Longrightarrow> digit_char d \<noteq> CHR ''0''"
    by (simp_all add: upt_rec, (elim disjE; simp add: digit_char_def)+)
qed

lemma parse_digits_append:
  "parse_digits base acc (xs @ ys) =
     (case parse_digits base acc xs of None \<Rightarrow> None | Some a \<Rightarrow> parse_digits base a ys)"
  by (induction xs arbitrary: acc) (auto split: option.splits)

lemma show_number_spec:
  assumes "n < base ^ w" and "2 \<le> base" and "base \<le> 16" and "0 < w"
  shows "parse_digits base 0 (show_number w base n) = Some n \<and> show_number w base n \<noteq> [] \<and>
         length (show_number w base n) \<le> w \<and> CHR ''.'' \<notin> set (show_number w base n) \<and>
         (0 < n \<longrightarrow> hd (show_number w base n) \<noteq> CHR ''0'')"
  using assms(1,4)
proof (induction w arbitrary: n)
  case (Suc w)
  show ?case
  proof (cases "n < base")
    case True
    then show ?thesis
      using assms(2,3) digit_round_trip [of n base] digit_char_plain [of n] by auto
  next
    case False
    then have pos: "0 < n div base" using assms(2) by (simp add: div_greater_zero_iff)
    have small: "n div base < base ^ w"
      using Suc.prems(1) assms(2) by (simp add: less_mult_imp_div_less mult.commute)
    with pos have "0 < w" by (cases w) auto
    from Suc.IH [OF small this] pos have ih:
      "parse_digits base 0 (show_number w base (n div base)) = Some (n div base)"
      "show_number w base (n div base) \<noteq> []" "length (show_number w base (n div base)) \<le> w"
      "CHR ''.'' \<notin> set (show_number w base (n div base))"
      "hd (show_number w base (n div base)) \<noteq> CHR ''0''" by auto
    have d: "n mod base < base" using assms(2) by simp
    have "digit_of base (digit_char (n mod base)) = Some (n mod base)"
      by (rule digit_round_trip [OF d assms(3)])
    moreover have "digit_char (n mod base) \<noteq> CHR ''.''"
      by (rule digit_char_plain(1)) (use d assms(3) in linarith)
    ultimately show ?thesis using False ih by (simp add: parse_digits_append)
  qed
qed simp

lemma octet_text:
  assumes "n < 256"
  shows "parse_octet (show_octet n) = Some n" "CHR ''.'' \<notin> set (show_octet n)"
proof -
  have "n < 10 ^ 3" using assms by simp
  note spec = show_number_spec [OF this]
  have zero: "show_octet 0 = ''0''" by (simp add: show_octet_def digit_char_def numeral_3_eq_3)
  show "parse_octet (show_octet n) = Some n"
    using spec assms zero unfolding parse_octet_def parse_number_def show_octet_def
    by (cases "n = 0") auto
  show "CHR ''.'' \<notin> set (show_octet n)" using spec by (simp add: show_octet_def)
qed

lemma split_on_no_sep: "c \<notin> set w \<Longrightarrow> split_on c w = [w]"
  by (induction w) auto

lemma split_on_append_sep: "c \<notin> set w \<Longrightarrow> split_on c (w @ c # xs) = w # split_on c xs"
  by (induction w) auto

lemma quad_value:
  fixes n :: nat
  assumes "n < 4294967296"
  shows "((n div 16777216 mod 256 * 256 + n div 65536 mod 256) * 256 + n div 256 mod 256) * 256 +
         n mod 256 = n"
proof -
  have "n div 16777216 mod 256 = n div 16777216" using assms by simp
  moreover have "n div 65536 = n div 16777216 * 256 + n div 65536 mod 256"
    using div_mult_mod_eq [of "n div 65536" 256] by (simp add: div_mult2_eq [symmetric])
  moreover have "n div 256 = n div 65536 * 256 + n div 256 mod 256"
    using div_mult_mod_eq [of "n div 256" 256] by (simp add: div_mult2_eq [symmetric])
  moreover have "n = n div 256 * 256 + n mod 256" by simp
  ultimately show ?thesis by metis
qed

lemma quad_text:
  assumes "a < 256" "b < 256" "c < 256" "d < 256"
  shows "ipv4_from_string (join_with (CHR ''.'') (map show_octet [a, b, c, d])) =
         Some (((a * 256 + b) * 256 + c) * 256 + d)"
  using assms by (simp add: ipv4_from_string_def split_on_append_sep split_on_no_sep octet_text)

lemma ipv4_round_trip:
  assumes "n < 4294967296"
  shows "ipv4_from_string (show_ipv4 n) = Some n"
proof -
  have m: "k mod 256 < 256" for k :: nat by simp
  show ?thesis unfolding show_ipv4_def quad_text [OF m m m m] quad_value [OF assms] ..
qed

lemma show_ipv4_inj:
  "m < 4294967296 \<Longrightarrow> n < 4294967296 \<Longrightarrow> show_ipv4 m = show_ipv4 n \<Longrightarrow> m = n"
  by (metis ipv4_round_trip option.inject)

end
