(* ===== verification/Discovery_Scope.thy ===== *)
theory Discovery_Scope
  imports Discovery_Contracts Ip_Address
begin

text \<open>
  Scope validation (\<open>validate_scope\<close> of \<^verbatim>\<open>discovery/contracts.py\<close>) and the bounded expansion of a
  scope into management addresses (\<^verbatim>\<open>discovery/scopes.py\<close>).
\<close>

datatype scope_error = ValueError string | ScopeError string

definition invalid_ip :: "string \<Rightarrow> scope_error" where
  "invalid_ip s = ValueError (s @ '' does not appear to be an IPv4 or IPv6 address or network'')"

text \<open>\<open>not address\<close>: absent or empty.\<close>

definition missing :: "string option \<Rightarrow> bool" where
  "missing a \<longleftrightarrow> a = None \<or> a = Some []"

definition validate_scope ::
  "DiscoveryScopeType \<Rightarrow> string option \<Rightarrow> string option \<Rightarrow> string option \<Rightarrow> scope_error + unit" where
  "validate_scope t address scope_end scope_cidr =
     (case t of
        SINGLE_DEVICE \<Rightarrow>
          if missing address then Inl (ValueError ''A single-device scope requires an address.'')
          else (case ip_address (the address) of
                  None \<Rightarrow> Inl (invalid_ip (the address))
                | Some _ \<Rightarrow> Inr ())
      | IP_RANGE \<Rightarrow>
          if missing address \<or> missing scope_end
          then Inl (ValueError ''An IP range requires start and end addresses.'')
          else (case ip_address (the address) of
                  None \<Rightarrow> Inl (invalid_ip (the address))
                | Some a \<Rightarrow>
                    (case ip_address (the scope_end) of
                       None \<Rightarrow> Inl (invalid_ip (the scope_end))
                     | Some b \<Rightarrow>
                         if ip_version a \<noteq> ip_version b \<or> ip_int a > ip_int b
                         then Inl (ValueError ''IP range boundaries are invalid.'')
                         else Inr ()))
      | CIDR_NETWORK \<Rightarrow>
          if missing scope_cidr then Inl (ValueError ''A CIDR scope requires a network.'')
          else (case ip_network (the scope_cidr) of
                  None \<Rightarrow> Inl (invalid_ip (the scope_cidr))
                | Some _ \<Rightarrow> Inr ())
      | _ \<Rightarrow> Inl (ValueError ''This discovery scope is reserved for a future phase.''))"

record DiscoveryScope =
  ds_type :: DiscoveryScopeType
  ds_address :: "string option"
  ds_end :: "string option"
  ds_cidr :: "string option"

definition expand :: "int \<Rightarrow> DiscoveryScope \<Rightarrow> scope_error + string list" where
  "expand max_targets sc =
     (if max_targets < 1 then Inl (ScopeError ''Maximum target count must be positive.'')
      else case ds_type sc of
        SINGLE_DEVICE \<Rightarrow>
          (case ds_address sc of
             None \<Rightarrow> Inl (ScopeError ''Single-device address is required.'')
           | Some a \<Rightarrow>
               (case ip_address a of None \<Rightarrow> Inl (invalid_ip a) | Some _ \<Rightarrow> Inr [a]))
      | IP_RANGE \<Rightarrow>
          (case (ds_address sc, ds_end sc) of
             (Some a, Some b) \<Rightarrow>
               (case ip_address a of
                  None \<Rightarrow> Inl (invalid_ip a)
                | Some start \<Rightarrow>
                    (case ip_address b of
                       None \<Rightarrow> Inl (invalid_ip b)
                     | Some last_ip \<Rightarrow>
                         if ip_version start \<noteq> ip_version last_ip \<or> ip_int start > ip_int last_ip
                         then Inl (ScopeError ''IP range boundaries are invalid.'')
                         else let count = ip_int last_ip - ip_int start + 1
                              in if int count > max_targets
                                 then Inl (ScopeError ''IP range exceeds the target limit.'')
                                 else Inr (map (\<lambda>k. show_ip (ip_add start k)) [0..<count])))
           | _ \<Rightarrow> Inl (ScopeError ''IP range boundaries are required.''))
      | CIDR_NETWORK \<Rightarrow>
          (case ds_cidr sc of
             None \<Rightarrow> Inl (ScopeError ''CIDR network is required.'')
           | Some c \<Rightarrow>
               (case ip_network c of
                  None \<Rightarrow> Inl (invalid_ip c)
                | Some net \<Rightarrow>
                    let hs = hosts net
                    in if int (length hs) > max_targets
                       then Inl (ScopeError ''CIDR network exceeds the target limit.'')
                       else Inr (map show_ip hs)))
      | _ \<Rightarrow> Inl (ScopeError ''This discovery scope is not executable yet.''))"

section \<open>Facts\<close>

lemma octets_int_bound:
  assumes "octets_int ps = Some n"
  shows "n < 4294967296"
proof -
  have oct: "x \<le> 255" if "parse_octet w = Some x" for w x
    using that by (auto simp: parse_octet_def split: if_splits option.splits)
  from assms show ?thesis
    by (cases ps rule: octets_int.cases) (auto split: option.splits dest!: oct)
qed

lemma ipv4_bound: "ip_address s = Some (IPv4 n) \<Longrightarrow> n < 4294967296"
  by (auto simp: ip_address_def ipv4_from_string_def split: option.splits if_splits
      dest: octets_int_bound)

lemma ip_address_show_ipv4: "n < 4294967296 \<Longrightarrow> ip_address (show_ipv4 n) = Some (IPv4 n)"
  by (simp add: ip_address_def ipv4_round_trip)



text \<open>
  An accepted IPv4 range expands to exactly its addresses: every address from the first to
  the last boundary, in ascending order, without duplicates, each in canonical notation that
  parses back to the address it stands for.
\<close>

theorem expand_ipv4_range:
  assumes "ds_type sc = IP_RANGE" and "ds_address sc = Some a" and "ds_end sc = Some b"
    and "ip_address a = Some (IPv4 m)" and "ip_address b = Some (IPv4 n)"
    and "m \<le> n" and "int (n - m + 1) \<le> max_targets"
  shows "\<exists>xs. expand max_targets sc = Inr xs \<and> distinct xs \<and>
              map ip_address xs = map (\<lambda>k. Some (IPv4 k)) [m..<n + 1]"
proof -
  let ?xs = "map (\<lambda>k. show_ipv4 (m + k)) [0..<n - m + 1]"
  have n: "n < 4294967296" by (rule ipv4_bound [OF assms(5)])
  have ex: "expand max_targets sc = Inr ?xs"
    using assms by (simp add: expand_def Let_def)
  have addrs: "map (\<lambda>k. m + k) [0..<n - m + 1] = [m..<n + 1]"
    using assms(6) map_add_upt [of m "n - m + 1"] by (simp add: add.commute del: upt_Suc)
  have "map ip_address ?xs = map (\<lambda>k. Some (IPv4 (m + k))) [0..<n - m + 1]"
    using n assms(6) by (auto intro!: ip_address_show_ipv4)
  also have "\<dots> = map (\<lambda>k. Some (IPv4 k)) (map (\<lambda>k. m + k) [0..<n - m + 1])"
    by simp
  finally have texts: "map ip_address ?xs = map (\<lambda>k. Some (IPv4 k)) [m..<n + 1]"
    by (simp only: addrs)
  have "distinct (map ip_address ?xs)"
    unfolding texts by (simp add: distinct_map inj_on_def)
  then have "distinct ?xs" using distinct_map by blast
  with ex texts show ?thesis by blast
qed

theorem expand_ipv4_range_witness:
  "\<exists>xs. expand 10 \<lparr>ds_type = IP_RANGE, ds_address = Some ''10.0.0.1'', ds_end = Some ''10.0.0.3'',
          ds_cidr = None\<rparr> = Inr xs \<and> distinct xs \<and>
        map ip_address xs = map (\<lambda>k. Some (IPv4 k)) [167772161..<167772163 + 1]"
proof (rule expand_ipv4_range)
  show "ip_address ''10.0.0.1'' = Some (IPv4 167772161)" by (simp add: ip_eval)
  show "ip_address ''10.0.0.3'' = Some (IPv4 167772163)" by (simp add: ip_eval)
qed simp_all

end
