(* ===== verification/Job_Repository.thy ===== *)
theory Job_Repository
  imports Discovery_Store Discovery_Scope
begin

text \<open>
  \<open>DiscoveryJobRepository\<close> of \<^verbatim>\<open>persistence/discovery_repositories.py\<close>: creation, the leased
  claim, lease renewal, validated transitions and the read-only queries. An operation maps a
  session to the session it leaves behind and its result or exception. Its argument \<open>env\<close> is what
  other transactions commit between the read of the job and the guarded UPDATE; \<open>now\<close> is the
  clock reading of the operation. The operations that reconcile fan-out children follow in
  \<open>Fanout_Reconcile\<close> and \<open>Job_Cancellation\<close>.
\<close>

section \<open>Errors, guards and values\<close>

datatype persistence_error =
    DuplicateActiveDiscoveryError string
  | DiscoveryResourceNotFoundError string
  | InvalidDiscoveryTransitionError string
  | DiscoveryCancellationConflictError string
  | DiscoveryPersistenceError string
  | ScopeFailure scope_error
  | MultipleResultsFound
  | MetadataError
  | IntegrityError string

type_synonym 'a outcome = "session \<times> (persistence_error + 'a)"
type_synonym environment = "session \<Rightarrow> session"

definition PROTECTED_DISCOVERY_JOB_ID :: uuid where
  "PROTECTED_DISCOVERY_JOB_ID = 0xd792bcfffb064428ab53557e0cd6eeb9"

definition is_protected :: "uuid \<Rightarrow> bool" where
  "is_protected i \<longleftrightarrow> i = PROTECTED_DISCOVERY_JOB_ID"

text \<open>Evaluation compares binary integers, not successors.\<close>

lemma is_protected_code [code]:
  "is_protected i \<longleftrightarrow> int i = 0xd792bcfffb064428ab53557e0cd6eeb9"
  unfolding is_protected_def PROTECTED_DISCOVERY_JOB_ID_def by linarith

definition LEASE_EXPIRED_MESSAGE :: string where
  "LEASE_EXPIRED_MESSAGE = ''Discovery worker lease expired; execution was not resumed.''"

definition HEARTBEAT_LOST_MESSAGE :: string where
  "HEARTBEAT_LOST_MESSAGE =
     ''Discovery worker heartbeat failed; execution was stopped without resume.''"

definition is_active :: "DiscoveryJobRecord \<Rightarrow> bool" where
  "is_active j \<longleftrightarrow> job_state j \<in> {QUEUED, RUNNING}"

definition job_where :: "string \<Rightarrow> uuid \<Rightarrow> DiscoveryJobRecord \<Rightarrow> bool" where
  "job_where tenant i j \<longleftrightarrow> job_id j = i \<and> job_tenant_id j = tenant"

definition unleased :: "DiscoveryJobRecord \<Rightarrow> bool" where
  "unleased j \<longleftrightarrow> execution_owner j = None \<and> lease_expires_at j = None \<and> last_heartbeat_at j = None"

definition clear_lease :: "DiscoveryJobRecord \<Rightarrow> DiscoveryJobRecord" where
  "clear_lease j = j\<lparr>execution_owner := None, lease_expires_at := None, last_heartbeat_at := None\<rparr>"

text \<open>\<open>UPDATE \<dots> RETURNING id\<close> and \<open>scalar_one_or_none()\<close>.\<close>

definition update_returning ::
  "(DiscoveryJobRecord \<Rightarrow> bool) \<Rightarrow> (DiscoveryJobRecord \<Rightarrow> DiscoveryJobRecord) \<Rightarrow> session \<Rightarrow>
   session \<times> uuid list" where
  "update_returning p f s =
     (put_jobs (sql_update p f (jobs (work s))) s, map job_id (sql_select p (jobs (work s))))"

fun scalar_one_or_none :: "uuid list \<Rightarrow> persistence_error + uuid option" where
  "scalar_one_or_none [] = Inr None"
| "scalar_one_or_none [x] = Inr (Some x)"
| "scalar_one_or_none _ = Inl MultipleResultsFound"

text \<open>
  The guarded UPDATE every state change goes through: exactly one row must match, otherwise the
  session is rolled back and the conflict raised; then the row is read again.
\<close>

definition repo_get :: "string \<Rightarrow> uuid \<Rightarrow> session \<Rightarrow> DiscoveryJobRecord option" where
  "repo_get tenant i s = sql_first (job_where tenant i) (jobs (work s))"

definition guarded_update ::
  "(DiscoveryJobRecord \<Rightarrow> bool) \<Rightarrow> (DiscoveryJobRecord \<Rightarrow> DiscoveryJobRecord) \<Rightarrow>
   persistence_error \<Rightarrow> string \<Rightarrow> uuid \<Rightarrow> session \<Rightarrow> DiscoveryJobRecord option outcome" where
  "guarded_update p f conflict tenant i s =
     (let (s', ids) = update_returning p f s
      in case scalar_one_or_none ids of
           Inl e \<Rightarrow> (s', Inl e)
         | Inr None \<Rightarrow> (rollback s', Inl conflict)
         | Inr (Some _) \<Rightarrow> (s', Inr (repo_get tenant i s')))"

section \<open>Creation\<close>

definition new_job ::
  "time \<Rightarrow> uuid \<Rightarrow> string \<Rightarrow> uuid \<Rightarrow> uuid \<Rightarrow> uuid option \<Rightarrow> uuid option \<Rightarrow>
   (string, pyval) dict option \<Rightarrow> rat option \<Rightarrow> string option \<Rightarrow> DiscoveryJobRecord" where
  "new_job now i tenant target run parent creator caps timeout corr =
     \<lparr>job_id = i, job_tenant_id = tenant, job_target_id = target, job_run_id = run,
      parent_job_id = parent, runtime_job_id = None, job_state = QUEUED,
      job_failure_code = None, job_failure_message = None, requested_at = now,
      job_started_at = None, job_completed_at = None, job_created_by = creator,
      job_updated_at = now,
      requested_capabilities = (case caps of None \<Rightarrow> [] | Some d \<Rightarrow> d),
      job_selected_transport = None, selected_platform = None, attempts = 0,
      timeout_seconds = timeout, job_correlation_id = corr,
      cancellation_requested_at = None, cancellation_requested_by = None,
      cancellation_reason = None, execution_owner = None, lease_expires_at = None,
      last_heartbeat_at = None\<rparr>"

text \<open>
  The constraints the INSERT is checked against when it is flushed: the primary key, the
  foreign keys, and the partial unique index over active jobs of one tenant and target.
\<close>

definition same_target :: "DiscoveryJobRecord \<Rightarrow> DiscoveryJobRecord \<Rightarrow> bool" where
  "same_target i j \<longleftrightarrow> job_tenant_id i = job_tenant_id j \<and> job_target_id i = job_target_id j"

definition job_insert_ok :: "store \<Rightarrow> DiscoveryJobRecord \<Rightarrow> bool" where
  "job_insert_ok st j \<longleftrightarrow>
     job_id j \<notin> set (map job_id (jobs st)) \<and>
     job_target_id j \<in> set (map target_id (targets st)) \<and>
     job_run_id j \<in> set (map run_id (runs st)) \<and>
     (case parent_job_id j of None \<Rightarrow> True | Some p \<Rightarrow> p \<in> set (map job_id (jobs st))) \<and>
     (is_active j \<longrightarrow> \<not> list_ex (\<lambda>i. is_active i \<and> same_target i j) (jobs st))"

definition job_create ::
  "environment \<Rightarrow> time \<Rightarrow> string \<Rightarrow> uuid \<Rightarrow> uuid \<Rightarrow> uuid option \<Rightarrow> uuid option \<Rightarrow>
   (string, pyval) dict option \<Rightarrow> rat option \<Rightarrow> string option \<Rightarrow> session \<Rightarrow>
   DiscoveryJobRecord outcome" where
  "job_create env now tenant target_i run_i parent creator caps timeout corr s =
     (let target_missing = (s, Inl (DiscoveryResourceNotFoundError ''Discovery target was not found.''));
          run_missing = (s, Inl (DiscoveryResourceNotFoundError ''Discovery run was not found.''));
          duplicate = DuplicateActiveDiscoveryError
                        ''A discovery execution is already active for this target.''
      in (case get_target s target_i of
            None \<Rightarrow> target_missing
          | Some target \<Rightarrow>
              if target_tenant_id target \<noteq> tenant then target_missing
              else (case get_run s run_i of
                      None \<Rightarrow> run_missing
                    | Some run \<Rightarrow>
                        if run_tenant_id run \<notin> {None, Some tenant} then run_missing
                        else (case sql_first (\<lambda>j. job_tenant_id j = tenant \<and>
                                       job_target_id j = target_i \<and> is_active j) (jobs (work s)) of
                                Some _ \<Rightarrow> (s, Inl duplicate)
                              | None \<Rightarrow>
                                  (let (i, s1) = uuid4 s;
                                       record = new_job now i tenant target_i run_i parent creator
                                                  caps timeout corr;
                                       s2 = env s1
                                   in if job_insert_ok (work s2) record
                                      then (put_jobs (jobs (work s2) @ [record]) s2, Inr record)
                                      else (rollback s2, Inl duplicate))))))"

section \<open>Queries\<close>

text \<open>Rows with equal \<open>requested_at\<close> come in table order.\<close>

definition list_queued_roots :: "nat \<Rightarrow> session \<Rightarrow> (string \<times> uuid) list" where
  "list_queued_roots limit s =
     map (\<lambda>j. (job_tenant_id j, job_id j))
       (take limit
         (sort_key requested_at
           (sql_select
             (\<lambda>j. job_state j = QUEUED \<and> parent_job_id j = None \<and>
                  \<not> is_protected (job_id j) \<and> unleased j)
             (jobs (work s)))))"

definition owned_running_job ::
  "string \<Rightarrow> uuid \<Rightarrow> uuid \<Rightarrow> session \<Rightarrow> DiscoveryJobRecord option" where
  "owned_running_job tenant i owner s =
     sql_first (\<lambda>j. job_where tenant i j \<and> job_state j = RUNNING \<and> execution_owner j = Some owner)
       (jobs (work s))"

definition cancellation_requested :: "string \<Rightarrow> uuid \<Rightarrow> session \<Rightarrow> bool" where
  "cancellation_requested tenant i s =
     (case repo_get tenant i s of
        None \<Rightarrow> False
      | Some j \<Rightarrow>
          cancellation_requested_at j \<noteq> None \<or> job_state j = DiscoveryJobStatus.CANCELLED)"

definition recover_expired_owned_jobs :: "time \<Rightarrow> session \<Rightarrow> (string \<times> uuid) list" where
  "recover_expired_owned_jobs stale_before s =
     map (\<lambda>j. (job_tenant_id j, job_id j))
       (sql_select
         (\<lambda>j. job_state j = RUNNING \<and> parent_job_id j = None \<and>
              \<not> is_protected (job_id j) \<and> execution_owner j \<noteq> None \<and>
              last_heartbeat_at j \<noteq> None \<and>
              (case lease_expires_at j of None \<Rightarrow> False | Some t \<Rightarrow> t < stale_before))
         (jobs (work s)))"

section \<open>Claim and lease\<close>

definition claimable :: "DiscoveryJobRecord \<Rightarrow> bool" where
  "claimable j \<longleftrightarrow> job_state j = QUEUED \<and> unleased j"

definition claim_values ::
  "time \<Rightarrow> uuid \<Rightarrow> duration \<Rightarrow> DiscoveryJobRecord \<Rightarrow> DiscoveryJobRecord" where
  "claim_values now owner lease j =
     j\<lparr>job_state := RUNNING, job_started_at := Some now, job_updated_at := now,
       attempts := attempts j + 1, execution_owner := Some owner,
       lease_expires_at := Some (now + lease), last_heartbeat_at := Some now\<rparr>"

definition claim ::
  "environment \<Rightarrow> time \<Rightarrow> string \<Rightarrow> uuid \<Rightarrow> uuid option \<Rightarrow> duration \<Rightarrow> session \<Rightarrow>
   DiscoveryJobRecord option outcome" where
  "claim env now tenant i owner_arg lease s =
     (if is_protected i
      then (s, Inl (InvalidDiscoveryTransitionError ''Protected discovery job cannot be claimed.''))
      else if lease \<le> 0
      then (s, Inl (InvalidDiscoveryTransitionError ''A positive lease is required.''))
      else
        let (owner, s0) = (case owner_arg of Some w \<Rightarrow> (w, s) | None \<Rightarrow> uuid4 s)
        in case repo_get tenant i s0 of
             None \<Rightarrow> (s0, Inl (DiscoveryResourceNotFoundError ''Discovery job was not found.''))
           | Some j \<Rightarrow>
               guarded_update (\<lambda>j. job_where tenant i j \<and> claimable j)
                 (claim_values now owner lease)
                 (InvalidDiscoveryTransitionError ''Only queued discovery jobs can be claimed.'')
                 tenant i (env s0))"

definition renew_values :: "time \<Rightarrow> duration \<Rightarrow> DiscoveryJobRecord \<Rightarrow> DiscoveryJobRecord" where
  "renew_values now lease j =
     j\<lparr>lease_expires_at := Some (now + lease), last_heartbeat_at := Some now,
       job_updated_at := now\<rparr>"

definition renewable :: "string \<Rightarrow> uuid \<Rightarrow> uuid \<Rightarrow> DiscoveryJobRecord \<Rightarrow> bool" where
  "renewable tenant i owner j \<longleftrightarrow>
     job_tenant_id j = tenant \<and> execution_owner j = Some owner \<and> job_state j = RUNNING \<and>
     (job_id j = i \<or> parent_job_id j = Some i)"

definition renew_lease ::
  "time \<Rightarrow> string \<Rightarrow> uuid \<Rightarrow> uuid \<Rightarrow> duration \<Rightarrow> session \<Rightarrow> bool outcome" where
  "renew_lease now tenant i owner lease s =
     (let (s1, ids) = update_returning (renewable tenant i owner) (renew_values now lease) s
      in if ids = [] then (rollback s1, Inr False) else (s1, Inr True))"

section \<open>Transitions\<close>

definition transition_values ::
  "time \<Rightarrow> DiscoveryJobStatus \<Rightarrow> string option \<Rightarrow> string option \<Rightarrow>
   DiscoveryJobRecord \<Rightarrow> DiscoveryJobRecord" where
  "transition_values now target_state failure_code failure_message j =
     (let j1 = j\<lparr>job_state := target_state, job_updated_at := now\<rparr>;
          j2 = (if is_terminal target_state then j1\<lparr>job_completed_at := Some now\<rparr> else j1);
          j3 = (case failure_code of None \<Rightarrow> j2 | Some c \<Rightarrow> j2\<lparr>job_failure_code := Some c\<rparr>);
          j4 = (case failure_message of None \<Rightarrow> j3 | Some m \<Rightarrow> j3\<lparr>job_failure_message := Some m\<rparr>)
      in if is_terminal target_state then clear_lease j4 else j4)"

definition transition_where ::
  "string \<Rightarrow> uuid \<Rightarrow> DiscoveryJobStatus \<Rightarrow> bool \<Rightarrow> uuid option \<Rightarrow> DiscoveryJobRecord \<Rightarrow> bool" where
  "transition_where tenant i state require_no_cancellation expected_owner j \<longleftrightarrow>
     job_where tenant i j \<and> job_state j = state \<and>
     (require_no_cancellation \<longrightarrow> cancellation_requested_at j = None) \<and>
     (case expected_owner of None \<Rightarrow> True | Some w \<Rightarrow> execution_owner j = Some w)"

definition transition ::
  "environment \<Rightarrow> time \<Rightarrow> string \<Rightarrow> uuid \<Rightarrow> DiscoveryJobStatus \<Rightarrow> string option \<Rightarrow>
   string option \<Rightarrow> bool \<Rightarrow> uuid option \<Rightarrow> session \<Rightarrow> DiscoveryJobRecord option outcome" where
  "transition env now tenant i target_state failure_code failure_message
     require_no_cancellation expected_owner s =
     (case repo_get tenant i s of
        None \<Rightarrow> (s, Inl (DiscoveryResourceNotFoundError ''Discovery job was not found.''))
      | Some job \<Rightarrow>
          (case transition_job (job_state job) target_state of
             Inl msg \<Rightarrow> (s, Inl (InvalidDiscoveryTransitionError msg))
           | Inr _ \<Rightarrow>
               guarded_update
                 (transition_where tenant i (job_state job) require_no_cancellation expected_owner)
                 (transition_values now target_state failure_code failure_message)
                 (InvalidDiscoveryTransitionError
                    ''Discovery job changed state before transition could be applied.'')
                 tenant i (env s)))"

definition mark_failed_after_rollback ::
  "environment \<Rightarrow> time \<Rightarrow> string \<Rightarrow> uuid \<Rightarrow> string \<Rightarrow> string \<Rightarrow> uuid option \<Rightarrow> session \<Rightarrow>
   DiscoveryJobRecord option outcome" where
  "mark_failed_after_rollback env now tenant i failure_code failure_message expected_owner s =
     transition env now tenant i FAILED (Some failure_code) (Some failure_message) True
       expected_owner (rollback s)"

definition selection_values ::
  "time \<Rightarrow> string option \<Rightarrow> string option \<Rightarrow> DiscoveryJobRecord \<Rightarrow> DiscoveryJobRecord" where
  "selection_values now transport platform j =
     j\<lparr>job_selected_transport := transport, selected_platform := platform, job_updated_at := now\<rparr>"

definition record_selection ::
  "environment \<Rightarrow> time \<Rightarrow> string \<Rightarrow> uuid \<Rightarrow> string option \<Rightarrow> string option \<Rightarrow> session \<Rightarrow>
   DiscoveryJobRecord option outcome" where
  "record_selection env now tenant i transport platform s =
     (case repo_get tenant i s of
        None \<Rightarrow> (s, Inl (DiscoveryResourceNotFoundError ''Discovery job was not found.''))
      | Some job \<Rightarrow>
          if job_state job \<noteq> RUNNING
          then (s, Inl (InvalidDiscoveryTransitionError
                          ''Selection metadata requires a running discovery job.''))
          else let s1 = env s;
                   s2 = put_jobs (sql_update (job_where tenant i)
                          (selection_values now transport platform) (jobs (work s1))) s1
               in (s2, Inr (repo_get tenant i s2)))"

text \<open>\<open>job.cancellation_reason or "Cancelled by operator."\<close>: an empty reason counts as none.\<close>

definition cancel_message :: "DiscoveryJobRecord \<Rightarrow> string" where
  "cancel_message j =
     (case cancellation_reason j of
        None \<Rightarrow> ''Cancelled by operator.''
      | Some r \<Rightarrow> if r = '''' then ''Cancelled by operator.'' else r)"

definition finalise_cancellation ::
  "environment \<Rightarrow> time \<Rightarrow> string \<Rightarrow> uuid \<Rightarrow> uuid option \<Rightarrow> session \<Rightarrow>
   DiscoveryJobRecord option outcome" where
  "finalise_cancellation env now tenant i expected_owner s =
     (case repo_get tenant i s of
        None \<Rightarrow> (s, Inl (DiscoveryResourceNotFoundError ''Discovery job was not found.''))
      | Some job \<Rightarrow>
          if job_state job = DiscoveryJobStatus.CANCELLED then (s, Inr (Some job))
          else if cancellation_requested_at job = None
          then (s, Inl (InvalidDiscoveryTransitionError ''Cancellation was not requested.''))
          else transition env now tenant i DiscoveryJobStatus.CANCELLED
                 (Some (code_value DiscoveryFailureCode.CANCELLED)) (Some (cancel_message job))
                 False expected_owner s)"

end
