(* ===== verification/Job_Lifecycle.thy ===== *)
theory Job_Lifecycle
  imports Job_Repository
begin

text \<open>
  What the job repository promises, stated apart from its statements: the life of one row
  (\<open>row_step\<close>), of the whole table (\<open>jobs_step\<close>), and the invariant of the table. Every
  repository operation, run as a transaction and with any foreign commits between its read and its
  UPDATE, performs only such steps.
\<close>

section \<open>The life of one job\<close>

inductive row_step :: "DiscoveryJobRecord \<Rightarrow> DiscoveryJobRecord \<Rightarrow> bool" where
  claimed: "claimable j \<Longrightarrow> row_step j (claim_values now owner lease j)"
| renewed: "job_state j = RUNNING \<Longrightarrow> execution_owner j = Some owner \<Longrightarrow>
     row_step j (renew_values now lease j)"
| moved: "t \<in> allowed_transitions (job_state j) \<Longrightarrow>
     row_step j (transition_values now t code msg j)"
| cancel_noted: "job_state j = RUNNING \<Longrightarrow>
     row_step j (j\<lparr>cancellation_requested_at := Some now, cancellation_requested_by := by_user,
                   cancellation_reason := reason, job_updated_at := now\<rparr>)"
| cancelled_queued: "job_state j = QUEUED \<Longrightarrow>
     row_step j (clear_lease (j\<lparr>cancellation_requested_at := Some now,
       cancellation_requested_by := by_user, cancellation_reason := reason, job_updated_at := now,
       job_state := DiscoveryJobStatus.CANCELLED, job_completed_at := Some now,
       job_failure_code := code, job_failure_message := msg\<rparr>))"
| closed: "\<not> is_terminal (job_state j) \<Longrightarrow> t \<in> {FAILED, DiscoveryJobStatus.CANCELLED} \<Longrightarrow>
     row_step j (clear_lease (j\<lparr>job_state := t, job_failure_code := code,
       job_failure_message := msg, job_completed_at := Some now, job_updated_at := now\<rparr>))"
| selected: "row_step j (selection_values now transport platform j)"

text \<open>A job row at any time of its life.\<close>

definition job_ok :: "DiscoveryJobRecord \<Rightarrow> bool" where
  "job_ok j \<longleftrightarrow>
     (job_state j \<noteq> RUNNING \<longrightarrow> unleased j) \<and>
     ((execution_owner j = None) = (lease_expires_at j = None)) \<and>
     ((execution_owner j = None) = (last_heartbeat_at j = None)) \<and>
     (is_terminal (job_state j) \<longleftrightarrow> job_completed_at j \<noteq> None) \<and>
     attempts j \<in> {0, 1} \<and>
     (job_state j = QUEUED \<longrightarrow> attempts j = 0) \<and>
     (execution_owner j \<noteq> None \<longrightarrow> attempts j = 1) \<and>
     (attempts j = 1 \<longrightarrow> job_started_at j \<noteq> None)"

definition job_table_ok :: "DiscoveryJobRecord list \<Rightarrow> bool" where
  "job_table_ok rows \<longleftrightarrow>
     distinct (map job_id rows) \<and>
     (\<forall>i \<in> set rows. \<forall>j \<in> set rows.
        is_active i \<and> is_active j \<and> same_target i j \<longrightarrow> job_id i = job_id j) \<and>
     (\<forall>j \<in> set rows. job_ok j)"

section \<open>The life of the table\<close>

inductive jobs_step :: "DiscoveryJobRecord list \<Rightarrow> DiscoveryJobRecord list \<Rightarrow> bool" where
  updated: "(\<And>j. j \<in> set rows \<Longrightarrow> p j \<Longrightarrow> row_step j (f j)) \<Longrightarrow>
     jobs_step rows (sql_update p f rows)"
| inserted: "j = new_job now i tenant target run parent creator caps timeout corr \<Longrightarrow>
     i \<notin> set (map job_id rows) \<Longrightarrow> \<not> list_ex (\<lambda>k. is_active k \<and> same_target k j) rows \<Longrightarrow>
     jobs_step rows (rows @ [j])"

section \<open>Rows\<close>

lemma is_active_iff: "is_active j \<longleftrightarrow> \<not> is_terminal (job_state j)"
  by (cases "job_state j") (auto simp: is_active_def is_terminal_def)

lemma clear_lease_simps [simp]:
  "job_id (clear_lease j) = job_id j" "job_tenant_id (clear_lease j) = job_tenant_id j"
  "job_target_id (clear_lease j) = job_target_id j" "parent_job_id (clear_lease j) = parent_job_id j"
  "job_state (clear_lease j) = job_state j" "attempts (clear_lease j) = attempts j"
  "job_completed_at (clear_lease j) = job_completed_at j"
  "job_started_at (clear_lease j) = job_started_at j"
  "job_failure_code (clear_lease j) = job_failure_code j"
  "cancellation_requested_at (clear_lease j) = cancellation_requested_at j"
  "execution_owner (clear_lease j) = None" "lease_expires_at (clear_lease j) = None"
  "last_heartbeat_at (clear_lease j) = None" "unleased (clear_lease j)"
  by (simp_all add: clear_lease_def unleased_def)

lemma claim_values_simps [simp]:
  "job_id (claim_values now w l j) = job_id j"
  "job_tenant_id (claim_values now w l j) = job_tenant_id j"
  "job_target_id (claim_values now w l j) = job_target_id j"
  "parent_job_id (claim_values now w l j) = parent_job_id j"
  "job_state (claim_values now w l j) = RUNNING"
  "attempts (claim_values now w l j) = attempts j + 1"
  "job_completed_at (claim_values now w l j) = job_completed_at j"
  "job_started_at (claim_values now w l j) = Some now"
  "execution_owner (claim_values now w l j) = Some w"
  "lease_expires_at (claim_values now w l j) = Some (now + l)"
  "last_heartbeat_at (claim_values now w l j) = Some now"
  by (simp_all add: claim_values_def)

lemma renew_values_simps [simp]:
  "job_id (renew_values now l j) = job_id j"
  "job_tenant_id (renew_values now l j) = job_tenant_id j"
  "job_target_id (renew_values now l j) = job_target_id j"
  "parent_job_id (renew_values now l j) = parent_job_id j"
  "job_state (renew_values now l j) = job_state j"
  "attempts (renew_values now l j) = attempts j"
  "job_completed_at (renew_values now l j) = job_completed_at j"
  "job_started_at (renew_values now l j) = job_started_at j"
  "job_failure_code (renew_values now l j) = job_failure_code j"
  "execution_owner (renew_values now l j) = execution_owner j"
  "lease_expires_at (renew_values now l j) = Some (now + l)"
  "last_heartbeat_at (renew_values now l j) = Some now"
  by (simp_all add: renew_values_def)

lemma transition_values_simps [simp]:
  "job_id (transition_values now t c m j) = job_id j"
  "job_tenant_id (transition_values now t c m j) = job_tenant_id j"
  "job_target_id (transition_values now t c m j) = job_target_id j"
  "parent_job_id (transition_values now t c m j) = parent_job_id j"
  "job_state (transition_values now t c m j) = t"
  "attempts (transition_values now t c m j) = attempts j"
  "job_completed_at (transition_values now t c m j) =
     (if is_terminal t then Some now else job_completed_at j)"
  "job_started_at (transition_values now t c m j) = job_started_at j"
  "job_failure_code (transition_values now t c m j) =
     (case c of None \<Rightarrow> job_failure_code j | Some x \<Rightarrow> Some x)"
  "execution_owner (transition_values now t c m j) =
     (if is_terminal t then None else execution_owner j)"
  "lease_expires_at (transition_values now t c m j) =
     (if is_terminal t then None else lease_expires_at j)"
  "last_heartbeat_at (transition_values now t c m j) =
     (if is_terminal t then None else last_heartbeat_at j)"
  by (simp_all add: transition_values_def clear_lease_def Let_def split: option.splits)

lemma selection_values_simps [simp]:
  "job_id (selection_values now x y j) = job_id j"
  "job_tenant_id (selection_values now x y j) = job_tenant_id j"
  "job_target_id (selection_values now x y j) = job_target_id j"
  "parent_job_id (selection_values now x y j) = parent_job_id j"
  "job_state (selection_values now x y j) = job_state j"
  "attempts (selection_values now x y j) = attempts j"
  "job_completed_at (selection_values now x y j) = job_completed_at j"
  "job_started_at (selection_values now x y j) = job_started_at j"
  "job_failure_code (selection_values now x y j) = job_failure_code j"
  "execution_owner (selection_values now x y j) = execution_owner j"
  "lease_expires_at (selection_values now x y j) = lease_expires_at j"
  "last_heartbeat_at (selection_values now x y j) = last_heartbeat_at j"
  by (simp_all add: selection_values_def)

lemma row_step_key:
  assumes "row_step i j"
  shows "job_id j = job_id i" "job_tenant_id j = job_tenant_id i"
    "job_target_id j = job_target_id i" "parent_job_id j = parent_job_id i"
  using assms by (cases rule: row_step.cases; simp)+

lemma row_step_terminal:
  "row_step i j \<Longrightarrow> is_terminal (job_state i) \<Longrightarrow>
   job_state j = job_state i \<and> job_completed_at j = job_completed_at i \<and>
   job_failure_code j = job_failure_code i \<and> attempts j = attempts i"
  by (induction rule: row_step.induct)
     (auto simp: claimable_def is_terminal_def dest: allowed_from_active)

lemma row_step_active: "row_step i j \<Longrightarrow> is_active j \<Longrightarrow> is_active i"
  using row_step_terminal [of i j] by (auto simp: is_active_iff)

lemma transition_values_ok:
  "job_ok j \<Longrightarrow> t \<in> allowed_transitions (job_state j) \<Longrightarrow> job_ok (transition_values now t c m j)"
  by (cases "job_state j") (auto simp: job_ok_def is_terminal_def unleased_def)

lemma row_step_ok: "row_step i j \<Longrightarrow> job_ok i \<Longrightarrow> job_ok j"
proof (induction rule: row_step.induct)
  case (moved t j now code msg)
  then show ?case by (intro transition_values_ok)
next
  case (selected j now transport platform)
  then show ?case by (auto simp: job_ok_def unleased_def)
qed (auto simp: job_ok_def claimable_def unleased_def is_terminal_def)

lemma new_job_ok: "job_ok (new_job now i tenant target run parent creator caps timeout corr)"
  by (simp add: job_ok_def new_job_def unleased_def is_terminal_def)

section \<open>Tables\<close>

lemma job_table_okI:
  assumes "distinct (map job_id rows)"
    and "\<And>i j. i \<in> set rows \<Longrightarrow> j \<in> set rows \<Longrightarrow> is_active i \<Longrightarrow> is_active j \<Longrightarrow>
          same_target i j \<Longrightarrow> job_id i = job_id j"
    and "\<And>j. j \<in> set rows \<Longrightarrow> job_ok j"
  shows "job_table_ok rows"
  using assms unfolding job_table_ok_def by blast

lemma job_table_okD:
  assumes "job_table_ok rows"
  shows "distinct (map job_id rows)"
    and "i \<in> set rows \<Longrightarrow> j \<in> set rows \<Longrightarrow> is_active i \<Longrightarrow> is_active j \<Longrightarrow>
          same_target i j \<Longrightarrow> job_id i = job_id j"
    and "j \<in> set rows \<Longrightarrow> job_ok j"
  using assms unfolding job_table_ok_def by blast+

lemma same_target_sym: "same_target i j \<longleftrightarrow> same_target j i"
  by (auto simp: same_target_def)

lemma row_step_same_target:
  "row_step i j \<Longrightarrow> same_target j k = same_target i k \<and> same_target k j = same_target k i"
  by (simp add: same_target_def row_step_key)

lemma table_ok_update:
  assumes ok: "job_table_ok rows" and step: "\<And>j. j \<in> set rows \<Longrightarrow> p j \<Longrightarrow> row_step j (f j)"
  shows "job_table_ok (sql_update p f rows)"
proof (rule job_table_okI)
  have "map job_id (sql_update p f rows) = map job_id rows"
    using step by (auto simp: sql_update_def row_step_key)
  then show "distinct (map job_id (sql_update p f rows))"
    using job_table_okD(1) [OF ok] by simp
next
  fix i j
  assume i: "i \<in> set (sql_update p f rows)" "is_active i"
    and j: "j \<in> set (sql_update p f rows)" "is_active j" and st: "same_target i j"
  have origin: "\<exists>r0 \<in> set rows. job_id r0 = job_id r \<and> is_active r0 \<and>
      (\<forall>k. same_target r0 k = same_target r k)"
    if r: "r \<in> set (sql_update p f rows)" "is_active r" for r
  proof -
    from r(1) obtain r0 where r0: "r0 \<in> set rows" "r = (if p r0 then f r0 else r0)"
      unfolding set_sql_update by blast
    show ?thesis
    proof (cases "p r0")
      case True
      with step [OF r0(1)] r0(2) have "row_step r0 r" by simp
      with r(2) r0(1) show ?thesis
        by (auto simp: row_step_key row_step_same_target intro: row_step_active)
    next
      case False
      with r0 r(2) show ?thesis by auto
    qed
  qed
  from origin [OF i] obtain i0 where i0: "i0 \<in> set rows" "job_id i0 = job_id i" "is_active i0"
    and ist: "\<And>k. same_target i0 k = same_target i k" by blast
  from origin [OF j] obtain j0 where j0: "j0 \<in> set rows" "job_id j0 = job_id j" "is_active j0"
    and jst: "\<And>k. same_target j0 k = same_target j k" by blast
  have "same_target i0 j0"
    using st ist jst same_target_sym [of i0 j0] same_target_sym [of j i0] by simp
  with i0 j0 show "job_id i = job_id j" using job_table_okD(2) [OF ok, of i0 j0] by simp
next
  fix j assume "j \<in> set (sql_update p f rows)"
  then show "job_ok j"
    using step row_step_ok job_table_okD(3) [OF ok] by (metis set_sql_update)
qed

lemma table_ok_insert:
  assumes ok: "job_table_ok rows"
    and new: "j = new_job now i tenant target run parent creator caps timeout corr"
    and "i \<notin> set (map job_id rows)" and free: "\<not> list_ex (\<lambda>k. is_active k \<and> same_target k j) rows"
  shows "job_table_ok (rows @ [j])"
proof (rule job_table_okI)
  have "job_id j = i" using new by (simp add: new_job_def)
  then show "distinct (map job_id (rows @ [j]))"
    using assms(3) job_table_okD(1) [OF ok] by simp
next
  fix k l
  assume "k \<in> set (rows @ [j])" "l \<in> set (rows @ [j])" "is_active k" "is_active l" "same_target k l"
  then show "job_id k = job_id l"
    using free job_table_okD(2) [OF ok] same_target_sym by (auto simp: list_ex_iff)
next
  fix k assume "k \<in> set (rows @ [j])"
  then show "job_ok k" using new new_job_ok job_table_okD(3) [OF ok] by auto
qed

lemma table_ok_delete: "job_table_ok rows \<Longrightarrow> job_table_ok (sql_delete p rows)"
  by (rule job_table_okI) (auto simp: sql_delete_def distinct_map_filter dest: job_table_okD)

lemma jobs_step_ok: "jobs_step rows rows' \<Longrightarrow> job_table_ok rows \<Longrightarrow> job_table_ok rows'"
  by (induction rule: jobs_step.induct)
     (auto intro: table_ok_update table_ok_insert)

interpretation job_table: invariant_system "\<lambda>rows. rows = []" jobs_step job_table_ok
proof unfold_locales
  show "job_table_ok s" if "s = []" for s using that by (simp add: job_table_ok_def)
  show "job_table_ok t" if "jobs_step s t" "job_table_ok s" for s t
    using that by (rule jobs_step_ok)
qed

section \<open>Histories\<close>

lemma sql_update_nth: "k < length rows \<Longrightarrow>
  sql_update p f rows ! k = (if p (rows ! k) then f (rows ! k) else rows ! k)"
  by (simp add: sql_update_def)

lemma jobs_step_nth:
  "jobs_step rows rows' \<Longrightarrow> length rows \<le> length rows' \<and>
     (\<forall>k < length rows. row_step\<^sup>*\<^sup>* (rows ! k) (rows' ! k))"
  by (induction rule: jobs_step.induct) (auto simp: sql_update_nth nth_append)

lemma jobs_steps_nth:
  "jobs_step\<^sup>*\<^sup>* rows rows' \<Longrightarrow> length rows \<le> length rows' \<and>
     (\<forall>k < length rows. row_step\<^sup>*\<^sup>* (rows ! k) (rows' ! k))"
proof (induction rule: rtranclp_induct)
  case (step rows1 rows2)
  then show ?case
    using jobs_step_nth [OF step.hyps(2)] by (meson less_le_trans order_trans rtranclp_trans)
qed simp

lemma row_steps_key:
  assumes "row_step\<^sup>*\<^sup>* i j"
  shows "job_id j = job_id i" "job_tenant_id j = job_tenant_id i"
  using assms by (induction rule: rtranclp_induct) (auto simp: row_step_key)

text \<open>The row with a given identifier later descends from the row that had it before.\<close>

lemma job_history:
  assumes steps: "jobs_step\<^sup>*\<^sup>* rows rows'" and ok: "job_table_ok rows"
    and i: "i \<in> set rows" and j: "j \<in> set rows'" and same: "job_id i = job_id j"
  shows "row_step\<^sup>*\<^sup>* i j"
proof -
  from i obtain k where k: "k < length rows" "rows ! k = i" by (auto simp: in_set_conv_nth)
  from jobs_steps_nth [OF steps] k have len: "k < length rows'"
    and desc: "row_step\<^sup>*\<^sup>* i (rows' ! k)" by auto
  have "job_table_ok rows'" using job_table.steps_inv [OF steps ok] .
  moreover have "rows' ! k \<in> set rows'" using len by simp
  moreover have "job_id (rows' ! k) = job_id j" using row_steps_key(1) [OF desc] same by simp
  ultimately have "rows' ! k = j" using j unique_key job_table_okD(1) by metis
  with desc show ?thesis by simp
qed

lemma row_steps_terminal:
  "row_step\<^sup>*\<^sup>* i j \<Longrightarrow> is_terminal (job_state i) \<Longrightarrow>
   job_state j = job_state i \<and> job_completed_at j = job_completed_at i \<and>
   job_failure_code j = job_failure_code i \<and> attempts j = attempts i"
proof (induction rule: rtranclp_induct)
  case (step y z)
  then show ?case using row_step_terminal [OF step.hyps(2)] by simp
qed simp

lemma allowed_not_queued: "t \<in> allowed_transitions s \<Longrightarrow> t \<noteq> QUEUED"
  by (cases s) auto

lemma row_steps_not_queued: "row_step\<^sup>*\<^sup>* i j \<Longrightarrow> job_state i \<noteq> QUEUED \<Longrightarrow> job_state j \<noteq> QUEUED"
proof (induction rule: rtranclp_induct)
  case (step y z)
  then have "job_state y \<noteq> QUEUED" by simp
  with step.hyps(2) show ?case
    by (induction rule: row_step.induct) (auto dest: allowed_not_queued)
qed simp

section \<open>Transactions\<close>

text \<open>
  The workers run an operation in a session of its own, commit on a normal return and roll back
  on an exception. A session between transactions is clean. Other transactions may run between
  the read and the UPDATE; they are assumed to keep to the life cycle, which is what every
  operation guarantees in turn.
\<close>

definition clean :: "session \<Rightarrow> bool" where
  "clean s \<longleftrightarrow> work s = committed s"

definition transact :: "(session \<Rightarrow> 'a outcome) \<Rightarrow> session \<Rightarrow> 'a outcome" where
  "transact op s =
     (case op s of
        (s', Inr x) \<Rightarrow> (commit s', Inr x)
      | (s', Inl e) \<Rightarrow> (rollback s', Inl e))"

definition sound :: "session \<Rightarrow> bool" where
  "sound s \<longleftrightarrow> clean s \<and> job_table_ok (jobs (work s))"

definition rely :: "environment \<Rightarrow> bool" where
  "rely env \<longleftrightarrow>
     (\<forall>s. sound s \<longrightarrow> clean (env s) \<and> jobs_step\<^sup>*\<^sup>* (jobs (work s)) (jobs (work (env s))))"

definition guarantee :: "(session \<Rightarrow> 'a outcome) \<Rightarrow> bool" where
  "guarantee op \<longleftrightarrow>
     (\<forall>s. sound s \<longrightarrow> jobs_step\<^sup>*\<^sup>* (jobs (work s)) (jobs (work (fst (transact op s)))))"

lemma rely_id [simp]: "rely id" "rely (\<lambda>s. s)"
  by (simp_all add: rely_def sound_def)

lemma relyD:
  "rely env \<Longrightarrow> sound s \<Longrightarrow> clean (env s)"
  "rely env \<Longrightarrow> sound s \<Longrightarrow> jobs_step\<^sup>*\<^sup>* (jobs (work s)) (jobs (work (env s)))"
  by (auto simp: rely_def)

lemma clean_transact [simp]: "clean (fst (transact op s))"
  by (auto simp: transact_def clean_def split: prod.splits sum.splits)

lemma clean_if_sound [simp]: "sound s \<Longrightarrow> clean s"
  by (simp add: sound_def)

lemma sound_simps [simp]:
  "sound (snd (uuid4 s)) = sound s" "sound (s\<lparr>next_uuid := n\<rparr>) = sound s"
  by (simp_all add: sound_def clean_def)

lemma clean_simps [simp]:
  "clean s \<Longrightarrow> rollback s = s" "clean (snd (uuid4 s)) = clean s"
  "clean (s\<lparr>next_uuid := n\<rparr>) = clean s"
  by (simp_all add: clean_def rollback_def)

text \<open>An operation either leaves the table as other transactions left it, or steps it.\<close>

lemma guaranteeI:
  assumes "\<And>s s' x. sound s \<Longrightarrow> op s = (s', Inr x) \<Longrightarrow>
             jobs_step\<^sup>*\<^sup>* (jobs (work s)) (jobs (work s'))"
    and "\<And>s s' e. sound s \<Longrightarrow> op s = (s', Inl e) \<Longrightarrow>
             jobs_step\<^sup>*\<^sup>* (jobs (work s)) (jobs (committed s'))"
  shows "guarantee op"
  unfolding guarantee_def
proof (intro allI impI)
  fix s assume "sound s"
  then show "jobs_step\<^sup>*\<^sup>* (jobs (work s)) (jobs (work (fst (transact op s))))"
    using assms by (cases "op s"; cases "snd (op s)") (auto simp: transact_def)
qed

lemma guarded_update_Inr:
  assumes "guarded_update p f conflict tenant i s = (s', Inr x)"
  shows "jobs (work s') = sql_update p f (jobs (work s)) \<and> committed s' = committed s \<and>
         (\<exists>j. filter p (jobs (work s)) = [j]) \<and> x = repo_get tenant i s'"
proof -
  obtain ids where ids: "ids = map job_id (filter p (jobs (work s)))" by blast
  with assms show ?thesis
    by (cases ids rule: scalar_one_or_none.cases)
       (auto simp: guarded_update_def update_returning_def sql_select_def)
qed

lemma guarded_update_Inl:
  assumes "guarded_update p f conflict tenant i s = (s', Inl e)"
  shows "committed s' = committed s"
proof -
  obtain ids where ids: "ids = map job_id (filter p (jobs (work s)))" by blast
  with assms show ?thesis
    by (cases ids rule: scalar_one_or_none.cases)
       (auto simp: guarded_update_def update_returning_def sql_select_def)
qed

lemma clean_committed: "clean s \<Longrightarrow> jobs (committed s) = jobs (work s)"
  by (simp add: clean_def)

lemma guarded_update_steps:
  assumes "rely env" and "sound s" and "\<And>j. p j \<Longrightarrow> row_step j (f j)"
  shows "guarded_update p f conflict tenant i (env s) = (s', Inr x) \<Longrightarrow>
           jobs_step\<^sup>*\<^sup>* (jobs (work s)) (jobs (work s'))"
    and "guarded_update p f conflict tenant i (env s) = (s', Inl e) \<Longrightarrow>
           jobs_step\<^sup>*\<^sup>* (jobs (work s)) (jobs (committed s'))"
proof -
  note env = relyD [OF assms(1,2)]
  show "jobs_step\<^sup>*\<^sup>* (jobs (work s)) (jobs (work s'))"
    if upd: "guarded_update p f conflict tenant i (env s) = (s', Inr x)"
  proof -
    have "jobs_step (jobs (work (env s))) (jobs (work s'))"
      using guarded_update_Inr [OF upd] assms(3) by (auto intro: jobs_step.updated)
    with env(2) show ?thesis by (rule rtranclp.rtrancl_into_rtrancl)
  qed
  show "jobs_step\<^sup>*\<^sup>* (jobs (work s)) (jobs (committed s'))"
    if "guarded_update p f conflict tenant i (env s) = (s', Inl e)"
    using guarded_update_Inl [OF that] clean_committed [OF env(1)] env(2) by simp
qed

text \<open>Transactions that keep to the life cycle are a lawful environment for others.\<close>

lemma rely_transact:
  assumes "rely env" and "guarantee op"
  shows "rely (\<lambda>s. fst (transact op (env s)))"
  unfolding rely_def
proof (intro allI impI)
  fix s assume s: "sound s"
  note env = relyD [OF assms(1) s]
  have "sound (env s)" using env s job_table.steps_inv by (auto simp: sound_def)
  with assms(2) env show "clean (fst (transact op (env s))) \<and>
      jobs_step\<^sup>*\<^sup>* (jobs (work s)) (jobs (work (fst (transact op (env s)))))"
    by (auto simp: guarantee_def intro: rtranclp_trans)
qed

section \<open>Every core operation keeps to the life cycle\<close>

lemma claim_guarantee [preserves]:
  assumes "rely env"
  shows "guarantee (claim env now tenant i owner lease)"
proof (rule guaranteeI)
  note steps = guarded_update_steps [OF assms, where
      p = "\<lambda>j. job_where tenant i j \<and> claimable j" and f = "claim_values now w lease" for w]
  fix s s' x assume "sound s" "claim env now tenant i owner lease s = (s', Inr x)"
  then show "jobs_step\<^sup>*\<^sup>* (jobs (work s)) (jobs (work s'))"
    using steps(1) [of s] steps(1) [of "snd (uuid4 s)"]
    by (auto simp: claim_def Let_def uuid4_def row_step.claimed
        split: if_splits option.splits prod.splits)
next
  note steps = guarded_update_steps [OF assms, where
      p = "\<lambda>j. job_where tenant i j \<and> claimable j" and f = "claim_values now w lease" for w]
  fix s s' e assume "sound s" "claim env now tenant i owner lease s = (s', Inl e)"
  then show "jobs_step\<^sup>*\<^sup>* (jobs (work s)) (jobs (committed s'))"
    using steps(2) [of s] steps(2) [of "snd (uuid4 s)"]
    by (auto simp: claim_def Let_def uuid4_def row_step.claimed clean_committed
        split: if_splits option.splits prod.splits)
qed

lemma transition_steps:
  assumes "rely env" and "sound s"
  shows "transition env now tenant i t code msg nc owner s = (s', Inr x) \<Longrightarrow>
           jobs_step\<^sup>*\<^sup>* (jobs (work s)) (jobs (work s'))"
    and "transition env now tenant i t code msg nc owner s = (s', Inl e) \<Longrightarrow>
           jobs_step\<^sup>*\<^sup>* (jobs (work s)) (jobs (committed s'))"
proof -
  have row: "row_step j (transition_values now t code msg j)"
    if "transition_job st t = Inr u" and "transition_where tenant i st nc owner j" for u j st
    using that by (auto simp: transition_job_Inr transition_where_def intro: row_step.moved)
  show "jobs_step\<^sup>*\<^sup>* (jobs (work s)) (jobs (work s'))"
    if "transition env now tenant i t code msg nc owner s = (s', Inr x)"
    using that guarded_update_steps(1) [OF assms row]
    by (auto simp: transition_def split: option.splits sum.splits)
  show "jobs_step\<^sup>*\<^sup>* (jobs (work s)) (jobs (committed s'))"
    if "transition env now tenant i t code msg nc owner s = (s', Inl e)"
    using that guarded_update_steps(2) [OF assms row] assms(2)
    by (auto simp: transition_def clean_committed split: option.splits sum.splits)
qed

lemma transition_guarantee [preserves]:
  "rely env \<Longrightarrow> guarantee (transition env now tenant i t code msg nc owner)"
  by (rule guaranteeI) (rule transition_steps, assumption+)+

lemma mark_failed_guarantee [preserves]:
  "rely env \<Longrightarrow> guarantee (mark_failed_after_rollback env now tenant i code msg owner)"
  by (rule guaranteeI) (auto simp: mark_failed_after_rollback_def intro: transition_steps)

lemma finalise_cancellation_guarantee [preserves]:
  "rely env \<Longrightarrow> guarantee (finalise_cancellation env now tenant i owner)"
  by (rule guaranteeI)
     (auto simp: finalise_cancellation_def clean_committed intro: transition_steps
       split: option.splits if_splits)

lemma renew_lease_guarantee [preserves]: "guarantee (renew_lease now tenant i owner lease)"
proof -
  have "row_step j (renew_values now lease j)" if "renewable tenant i owner j" for j
    using that by (auto simp: renewable_def intro: row_step.renewed)
  then have "jobs_step rows (sql_update (renewable tenant i owner) (renew_values now lease) rows)"
    for rows by (rule jobs_step.updated)
  then show ?thesis
    by (intro guaranteeI)
       (auto simp: renew_lease_def update_returning_def clean_committed split: if_splits)
qed

lemma record_selection_guarantee [preserves]:
  assumes "rely env"
  shows "guarantee (record_selection env now tenant i transport platform)"
proof (rule guaranteeI)
  fix s s' x assume "sound s" "record_selection env now tenant i transport platform s = (s', Inr x)"
  then have "jobs (work s') =
      sql_update (job_where tenant i) (selection_values now transport platform) (jobs (work (env s)))"
    by (auto simp: record_selection_def Let_def split: option.splits if_splits)
  then have "jobs_step (jobs (work (env s))) (jobs (work s'))"
    by (auto intro: jobs_step.updated row_step.selected)
  with relyD(2) [OF assms \<open>sound s\<close>] show "jobs_step\<^sup>*\<^sup>* (jobs (work s)) (jobs (work s'))"
    by (rule rtranclp.rtrancl_into_rtrancl)
next
  fix s s' e assume "sound s" "record_selection env now tenant i transport platform s = (s', Inl e)"
  then show "jobs_step\<^sup>*\<^sup>* (jobs (work s)) (jobs (committed s'))"
    by (auto simp: record_selection_def Let_def clean_committed split: option.splits if_splits)
qed

lemma insert_steps:
  assumes "job_insert_ok st (new_job now i tenant target run parent creator caps timeout corr)"
  shows "jobs_step (jobs st)
           (jobs st @ [new_job now i tenant target run parent creator caps timeout corr])"
proof -
  let ?j = "new_job now i tenant target run parent creator caps timeout corr"
  have "is_active ?j" "job_id ?j = i" by (simp_all add: new_job_def is_active_def)
  with assms show ?thesis
    by (intro jobs_step.inserted [OF refl]) (auto simp: job_insert_ok_def)
qed

lemma job_create_cases:
  assumes "job_create env now tenant ti ri parent creator caps timeout corr s = (s', r)"
  shows "(s' = s \<and> (\<exists>e. r = Inl e)) \<or>
         (s' = rollback (env (snd (uuid4 s))) \<and> (\<exists>e. r = Inl e)) \<or>
         (\<exists>j. r = Inr j \<and>
            j = new_job now (next_uuid s) tenant ti ri parent creator caps timeout corr \<and>
            job_insert_ok (work (env (snd (uuid4 s)))) j \<and>
            s' = put_jobs (jobs (work (env (snd (uuid4 s)))) @ [j]) (env (snd (uuid4 s))))"
  using assms unfolding job_create_def Let_def uuid4_def
  by (simp split: option.splits if_splits) (auto split: option.splits if_splits)

lemma job_create_guarantee [preserves]:
  assumes "rely env"
  shows "guarantee (job_create env now tenant ti ri parent creator caps timeout corr)"
proof (rule guaranteeI)
  fix s s' x
  assume "sound s"
    and created: "job_create env now tenant ti ri parent creator caps timeout corr s = (s', Inr x)"
  note env = relyD [OF assms, of "snd (uuid4 s)"]
  from job_create_cases [OF created] have "jobs_step (jobs (work (env (snd (uuid4 s))))) (jobs (work s'))"
    using insert_steps by fastforce
  then show "jobs_step\<^sup>*\<^sup>* (jobs (work s)) (jobs (work s'))"
    using env(2) \<open>sound s\<close> by simp
next
  fix s s' e
  assume "sound s"
    and "job_create env now tenant ti ri parent creator caps timeout corr s = (s', Inl e)"
  from job_create_cases [OF this(2)] this(1)
  show "jobs_step\<^sup>*\<^sup>* (jobs (work s)) (jobs (committed s'))"
    using relyD [OF assms, of "snd (uuid4 s)"] by (auto simp: clean_committed)
qed

end
