(* ===== verification/Fanout_Reconcile.thy ===== *)
theory Fanout_Reconcile
  imports Job_Lifecycle
begin

text \<open>
  The durable side of fan-out (\<^verbatim>\<open>discovery/fanout.py\<close>): creating the child job of one address,
  and \<open>reconcile_parent_job\<close>, which gives every expected address a terminal outcome and closes the
  parent run. One clock reading serves a whole call.
\<close>

section \<open>Text of identifiers\<close>

fun hex_digits :: "nat \<Rightarrow> nat \<Rightarrow> string" where
  "hex_digits 0 n = []"
| "hex_digits (Suc k) n = hex_digits k (n div 16) @ [digit_char (n mod 16)]"

definition str_uuid :: "uuid \<Rightarrow> string" where
  "str_uuid n =
     (let ds = hex_digits 32 n
      in take 8 ds @ ''-'' @ take 4 (drop 8 ds) @ ''-'' @ take 4 (drop 12 ds) @ ''-'' @
         take 4 (drop 16 ds) @ ''-'' @ drop 20 ds)"

section \<open>Creating a child\<close>

definition child_target ::
  "time \<Rightarrow> uuid \<Rightarrow> string \<Rightarrow> DiscoveryTargetRecord \<Rightarrow> string \<Rightarrow> DiscoveryTargetRecord" where
  "child_target now i tenant scope address =
     \<lparr>target_id = i, target_tenant_id = tenant,
      target_identifier = target_identifier scope @ '':'' @ address, target_address = address,
      scope_type = ''single_device'', scope_end = None, scope_cidr = None,
      target_vendor = target_vendor scope, target_hostname = target_hostname scope,
      platform_hint = platform_hint scope, preferred_transport = preferred_transport scope,
      target_enabled = target_enabled scope, credential_reference = credential_reference scope,
      credential_profile_id = credential_profile_id scope,
      credential_references = credential_references scope,
      allowed_fallback_transports = allowed_fallback_transports scope,
      target_allow_insecure_telnet = target_allow_insecure_telnet scope,
      target_allow_insecure_http = False, target_metadata = target_metadata scope,
      target_created_by = None, target_created_at = now, target_updated_at = now\<rparr>"

definition refresh_target ::
  "time \<Rightarrow> DiscoveryTargetRecord \<Rightarrow> DiscoveryTargetRecord \<Rightarrow> DiscoveryTargetRecord" where
  "refresh_target now scope t =
     t\<lparr>target_vendor := target_vendor scope, target_hostname := target_hostname scope,
       platform_hint := platform_hint scope, preferred_transport := preferred_transport scope,
       target_enabled := target_enabled scope,
       credential_reference := credential_reference scope,
       credential_profile_id := credential_profile_id scope,
       credential_references := credential_references scope,
       allowed_fallback_transports := allowed_fallback_transports scope,
       target_allow_insecure_telnet := target_allow_insecure_telnet scope,
       target_metadata := target_metadata scope, target_updated_at := now\<rparr>"

definition child_run :: "time \<Rightarrow> uuid \<Rightarrow> string \<Rightarrow> uuid \<Rightarrow> string \<Rightarrow> string \<Rightarrow> DiscoveryRunRecord" where
  "child_run now i tenant parent_i ident address =
     \<lparr>run_id = i, run_created_at = now, run_target_identifier = ident,
      run_target_address = Some address, run_tenant_id = Some tenant, run_status = STARTED,
      run_started_at = now, run_finished_at = None,
      run_metadata = [(''parent_job_id'', PStr (str_uuid parent_i))],
      total_scanned = Some 0, total_discovered = Some 0, total_unreachable = Some 0,
      total_reachable_no_management = Some 0, total_authentication_failed = Some 0,
      total_partial_discovery = Some 0, total_unverified = Some 0\<rparr>"

definition child_result ::
  "uuid \<Rightarrow> string \<Rightarrow> DiscoveryJobRecord \<Rightarrow> DiscoveryJobRecord \<Rightarrow> DiscoveryTargetRecord \<Rightarrow> string \<Rightarrow>
   DiscoveryDeviceResultRecord" where
  "child_result i tenant parent child scope address =
     \<lparr>result_id = i, result_tenant_id = tenant, discovery_job_id = job_id parent,
      child_job_id = job_id child, result_address = address,
      result_hostname = target_hostname scope, result_vendor = target_vendor scope,
      result_platform = platform_hint scope, device_state = ''queued'', result_state = None,
      result_selected_transport = None, result_failure_code = None,
      result_failure_message = None, result_started_at = None, result_completed_at = None,
      result_correlation_id = job_correlation_id child\<rparr>"

text \<open>
  The target of one address: created on first use, refreshed from the scope otherwise. When the
  INSERT loses a race against another session, the row that won is taken as it is.
\<close>

definition ensure_target ::
  "environment \<Rightarrow> time \<Rightarrow> string \<Rightarrow> DiscoveryTargetRecord \<Rightarrow> string \<Rightarrow> session \<Rightarrow>
   DiscoveryTargetRecord \<times> session" where
  "ensure_target env now tenant scope address s =
     (let ident = target_identifier scope @ '':'' @ address;
          same = (\<lambda>t. target_tenant_id t = tenant \<and> target_identifier t = ident)
      in case sql_first same (targets (work s)) of
           Some t \<Rightarrow>
             (let t' = refresh_target now scope t
              in (t', put_targets (sql_update (\<lambda>u. target_id u = target_id t)
                        (refresh_target now scope) (targets (work s))) s))
         | None \<Rightarrow>
             (let (i, s1) = uuid4 s; s2 = env s1
              in case sql_first same (targets (work s2)) of
                   Some t \<Rightarrow> (t, s2)
                 | None \<Rightarrow>
                     (let t = child_target now i tenant scope address
                      in (t, put_targets (targets (work s2) @ [t]) s2))))"

definition create_child ::
  "environment \<Rightarrow> time \<Rightarrow> string \<Rightarrow> DiscoveryJobRecord \<Rightarrow> DiscoveryTargetRecord \<Rightarrow> string \<Rightarrow> session \<Rightarrow>
   (DiscoveryJobRecord \<times> DiscoveryDeviceResultRecord) outcome" where
  "create_child env now tenant parent scope address s =
     (let (target, s1) = ensure_target env now tenant scope address s;
          (run_i, s2) = uuid4 s1;
          run = child_run now run_i tenant (job_id parent) (target_identifier target) address;
          s3 = put_runs (runs (work s2) @ [run]) s2;
          (corr, s4) = uuid4 s3
      in case job_create env now tenant (target_id target) run_i (Some (job_id parent)) None
                (Some (requested_capabilities parent)) (timeout_seconds parent)
                (Some (str_uuid corr)) s4 of
           (s5, Inl e) \<Rightarrow> (s5, Inl e)
         | (s5, Inr child) \<Rightarrow>
             (let (i, s6) = uuid4 s5;
                  result = child_result i tenant parent child scope address
              in (put_results (device_results (work s6) @ [result]) s6, Inr (child, result))))"

section \<open>Expected addresses\<close>

fun address_texts :: "pyval list \<Rightarrow> string list option" where
  "address_texts [] = Some []"
| "address_texts (PStr a # vs) = map_option (Cons a) (address_texts vs)"
| "address_texts _ = None"

text \<open>\<open>tuple(metadata.get("expected_addresses", ()))\<close>; other shapes than a list of texts are never written.\<close>

definition stored_addresses :: "(string, pyval) dict \<Rightarrow> persistence_error + string list" where
  "stored_addresses metadata =
     (case dict_get metadata ''expected_addresses'' of
        None \<Rightarrow> Inr []
      | Some (PList vs) \<Rightarrow>
          (case address_texts vs of None \<Rightarrow> Inl MetadataError | Some xs \<Rightarrow> Inr xs)
      | Some _ \<Rightarrow> Inl MetadataError)"

definition set_run_metadata ::
  "uuid \<Rightarrow> (string, pyval) dict \<Rightarrow> session \<Rightarrow> session" where
  "set_run_metadata i metadata s =
     put_runs (sql_update (\<lambda>r. run_id r = i) (\<lambda>r. r\<lparr>run_metadata := metadata\<rparr>) (runs (work s))) s"

definition persist_expected_addresses ::
  "DiscoveryJobRecord \<Rightarrow> string list \<Rightarrow> session \<Rightarrow> session" where
  "persist_expected_addresses parent addresses s =
     (case get_run s (job_run_id parent) of
        None \<Rightarrow> s
      | Some run \<Rightarrow>
          if dict_get (run_metadata run) ''expected_addresses'' = None
          then set_run_metadata (job_run_id parent)
                 (dict_set ''expected_addresses'' (PList (map PStr addresses)) (run_metadata run)) s
          else s)"

definition parse_scope_type :: "string \<Rightarrow> DiscoveryScopeType option" where
  "parse_scope_type t =
     find (\<lambda>c. scope_value c = t) [SINGLE_DEVICE, IP_RANGE, CIDR_NETWORK, DEVICE_GROUP, NETBOX_SCOPE]"

definition expand_target ::
  "int \<Rightarrow> DiscoveryTargetRecord \<Rightarrow> persistence_error + string list" where
  "expand_target max_targets t =
     (case parse_scope_type (scope_type t) of
        None \<Rightarrow> Inl (ScopeFailure (ValueError (scope_type t @ '' is not a valid DiscoveryScopeType'')))
      | Some c \<Rightarrow>
          (case expand max_targets \<lparr>ds_type = c, ds_address = Some (target_address t),
                                    ds_end = scope_end t, ds_cidr = scope_cidr t\<rparr> of
             Inl e \<Rightarrow> Inl (ScopeFailure e)
           | Inr xs \<Rightarrow> Inr xs))"

section \<open>Closing the parent run\<close>

definition count_state :: "string \<Rightarrow> DiscoveryDeviceResultRecord list \<Rightarrow> nat" where
  "count_state st results = length (filter (\<lambda>r. result_state r = Some st) results)"

definition finalize_values ::
  "time \<Rightarrow> nat \<Rightarrow> DiscoveryDeviceResultRecord list \<Rightarrow> DiscoveryRunRecord \<Rightarrow> DiscoveryRunRecord" where
  "finalize_values now expected results run =
     (let c = (\<lambda>st. count_state st results);
          metadata = dict_set ''total_interrupted'' (PInt (int (c ''interrupted'')))
                       (dict_set ''total_cancelled'' (PInt (int (c ''cancelled'')))
                         (dict_set ''summary_calculated'' (PBool True) (run_metadata run)))
      in run\<lparr>total_scanned := Some expected, total_discovered := Some (c ''discovered''),
             total_unreachable := Some (c ''unreachable''),
             total_reachable_no_management := Some (c ''reachable_no_management''),
             total_authentication_failed := Some (c ''authentication_failed''),
             total_partial_discovery := Some (c ''partial_discovery''),
             total_unverified := Some (c ''unverified''),
             run_status := (if c ''discovered'' > 0 \<and> c ''cancelled'' = 0 \<and> c ''interrupted'' = 0
                            then RUN_SUCCEEDED else RUN_FAILED),
             run_finished_at := Some now, run_metadata := metadata\<rparr>)"

definition finalize_parent_run ::
  "time \<Rightarrow> DiscoveryJobRecord \<Rightarrow> nat \<Rightarrow> DiscoveryDeviceResultRecord list \<Rightarrow> session \<Rightarrow> session" where
  "finalize_parent_run now parent expected results s =
     (case get_run s (job_run_id parent) of
        None \<Rightarrow> s
      | Some run \<Rightarrow>
          put_runs (sql_update (\<lambda>r. run_id r = job_run_id parent)
                     (\<lambda>r. finalize_values now expected results run) (runs (work s))) s)"

section \<open>Reconciliation\<close>

definition outcome_status :: "bool \<Rightarrow> DiscoveryJobStatus" where
  "outcome_status interrupted = (if interrupted then FAILED else DiscoveryJobStatus.CANCELLED)"

definition outcome_state :: "bool \<Rightarrow> string" where
  "outcome_state interrupted = (if interrupted then ''interrupted'' else ''cancelled'')"

definition outcome_code :: "bool \<Rightarrow> string" where
  "outcome_code interrupted =
     (if interrupted then code_value DISCOVERY_FAILED else code_value DiscoveryFailureCode.CANCELLED)"

definition outcome_message :: "bool \<Rightarrow> string" where
  "outcome_message interrupted =
     (if interrupted then ''Fan-out execution was interrupted before this address completed.''
      else ''Fan-out execution was cancelled before this address completed.'')"

definition close_values ::
  "time \<Rightarrow> DiscoveryJobStatus \<Rightarrow> string \<Rightarrow> string \<Rightarrow> DiscoveryJobRecord \<Rightarrow> DiscoveryJobRecord" where
  "close_values now t code msg j =
     clear_lease (j\<lparr>job_state := t, job_failure_code := Some code,
       job_failure_message := Some msg, job_completed_at := Some now, job_updated_at := now\<rparr>)"

definition close_child :: "time \<Rightarrow> string \<Rightarrow> bool \<Rightarrow> uuid \<Rightarrow> session \<Rightarrow> session" where
  "close_child now tenant interrupted child_i s =
     (case get_job s child_i of
        None \<Rightarrow> s
      | Some child \<Rightarrow>
          if is_terminal (job_state child) then s
          else put_jobs (sql_update (job_where tenant (job_id child))
                 (close_values now (outcome_status interrupted) (outcome_code interrupted)
                   (outcome_message interrupted)) (jobs (work s))) s)"

definition pending_state :: "string \<Rightarrow> bool" where
  "pending_state st \<longleftrightarrow> st \<in> {''queued'', ''running'', ''discovering''}"

definition unsettled :: "DiscoveryDeviceResultRecord \<Rightarrow> bool" where
  "unsettled r \<longleftrightarrow> result_state r = None \<or> pending_state (device_state r)"

definition settle_result ::
  "time \<Rightarrow> bool \<Rightarrow> DiscoveryDeviceResultRecord \<Rightarrow> DiscoveryDeviceResultRecord" where
  "settle_result now interrupted r =
     (if unsettled r
      then r\<lparr>device_state := status_value (outcome_status interrupted),
             result_state := Some (outcome_state interrupted),
             result_failure_code := Some (outcome_code interrupted),
             result_failure_message := Some (outcome_message interrupted),
             result_completed_at := Some now\<rparr>
      else r)"

definition update_result ::
  "uuid \<Rightarrow> (DiscoveryDeviceResultRecord \<Rightarrow> DiscoveryDeviceResultRecord) \<Rightarrow> session \<Rightarrow> session" where
  "update_result i f s =
     put_results (sql_update (\<lambda>r. result_id r = i) f (device_results (work s))) s"

text \<open>
  One pass of the loop over the expected addresses. \<open>by_address\<close> is the dictionary built before
  the loop; \<open>ids\<close> collects the results in the order of the source's \<open>results\<close> list.
\<close>

fun reconcile_addresses ::
  "time \<Rightarrow> string \<Rightarrow> bool \<Rightarrow> DiscoveryJobRecord \<Rightarrow> DiscoveryTargetRecord \<Rightarrow>
   (string, DiscoveryDeviceResultRecord) dict \<Rightarrow> string list \<Rightarrow> uuid list \<Rightarrow> session \<Rightarrow>
   uuid list outcome" where
  "reconcile_addresses now tenant interrupted parent target by_address [] ids s = (s, Inr ids)"
| "reconcile_addresses now tenant interrupted parent target by_address (a # as) ids s =
     (let finish = (\<lambda>(r :: DiscoveryDeviceResultRecord) ids s.
            reconcile_addresses now tenant interrupted parent target by_address as ids
              (update_result (result_id r) (settle_result now interrupted)
                (close_child now tenant interrupted (child_job_id r) s)))
      in case dict_get by_address a of
           Some r \<Rightarrow> finish r ids s
         | None \<Rightarrow>
             (case create_child id now tenant parent target a s of
                (s1, Inl e) \<Rightarrow> (s1, Inl e)
              | (s1, Inr (child, r)) \<Rightarrow> finish r (ids @ [result_id r]) s1))"

definition results_of ::
  "string \<Rightarrow> uuid \<Rightarrow> session \<Rightarrow> DiscoveryDeviceResultRecord list" where
  "results_of tenant parent_i s =
     sql_select (\<lambda>r. result_tenant_id r = tenant \<and> discovery_job_id r = parent_i)
       (device_results (work s))"

definition rows_with_ids ::
  "uuid list \<Rightarrow> session \<Rightarrow> DiscoveryDeviceResultRecord list" where
  "rows_with_ids ids s =
     concat (map (\<lambda>i. sql_select (\<lambda>r. result_id r = i) (device_results (work s))) ids)"

text \<open>The stored list, or the expansion of the scope when none is stored yet.\<close>

definition expected_addresses ::
  "int \<Rightarrow> DiscoveryTargetRecord option \<Rightarrow> (string, pyval) dict \<Rightarrow> persistence_error + string list" where
  "expected_addresses max_targets target metadata =
     (case (stored_addresses metadata, target) of
        (Inr [], Some t) \<Rightarrow> expand_target max_targets t
      | (stored, _) \<Rightarrow> stored)"

definition reconcile_parent_job ::
  "time \<Rightarrow> string \<Rightarrow> uuid \<Rightarrow> bool \<Rightarrow> int \<Rightarrow> session \<Rightarrow> DiscoveryDeviceResultRecord list outcome" where
  "reconcile_parent_job now tenant parent_i interrupted max_targets s =
     (case get_job s parent_i of
        None \<Rightarrow> (s, Inr [])
      | Some parent \<Rightarrow>
     if job_tenant_id parent \<noteq> tenant then (s, Inr [])
     else
       let target = get_target s (job_target_id parent);
           parent_run = get_run s (job_run_id parent);
           metadata = (case parent_run of None \<Rightarrow> [] | Some r \<Rightarrow> run_metadata r);
           stored = stored_addresses metadata
       in (case expected_addresses max_targets target metadata of
             Inl e \<Rightarrow> (s, Inl e)
           | Inr addresses \<Rightarrow>
               let s1 = (if stored = Inr [] \<and> target \<noteq> None \<and> parent_run \<noteq> None
                         then set_run_metadata (job_run_id parent)
                                (dict_set ''expected_addresses'' (PList (map PStr addresses))
                                  metadata) s
                         else s)
               in (case target of
                     None \<Rightarrow> (s1, Inr [])
                   | Some t \<Rightarrow>
                       if addresses = [] then (s1, Inr [])
                       else
                         let results = results_of tenant parent_i s1;
                             by_address = fold (\<lambda>r d. dict_set (result_address r) r d) results []
                         in (case reconcile_addresses now tenant interrupted parent t by_address
                                    addresses (map result_id results) s1 of
                               (s2, Inl e) \<Rightarrow> (s2, Inl e)
                             | (s2, Inr ids) \<Rightarrow>
                                 let s3 = finalize_parent_run now parent (length addresses)
                                            (rows_with_ids ids s2) s2
                                 in (commit s3, Inr (rows_with_ids ids s3))))))"

section \<open>Progress of the store\<close>

text \<open>
  A session moves on: jobs only along their life cycle, device results keep their identity and,
  once settled, stay settled.
\<close>

definition same_result :: "DiscoveryDeviceResultRecord \<Rightarrow> DiscoveryDeviceResultRecord \<Rightarrow> bool" where
  "same_result r r' \<longleftrightarrow>
     result_id r' = result_id r \<and> result_tenant_id r' = result_tenant_id r \<and>
     discovery_job_id r' = discovery_job_id r \<and> child_job_id r' = child_job_id r \<and>
     result_address r' = result_address r \<and> (unsettled r' \<longrightarrow> unsettled r)"

definition progress :: "session \<Rightarrow> session \<Rightarrow> bool" where
  "progress s s' \<longleftrightarrow>
     jobs_step\<^sup>*\<^sup>* (jobs (work s)) (jobs (work s')) \<and>
     (\<forall>r \<in> set (device_results (work s)). \<exists>r' \<in> set (device_results (work s')). same_result r r')"

definition settled :: "string \<Rightarrow> uuid \<Rightarrow> string \<Rightarrow> session \<Rightarrow> bool" where
  "settled tenant parent_i a s \<longleftrightarrow>
     (\<exists>r \<in> set (device_results (work s)).
        result_tenant_id r = tenant \<and> discovery_job_id r = parent_i \<and> result_address r = a \<and>
        \<not> unsettled r \<and>
        (\<exists>j \<in> set (jobs (work s)).
           job_id j = child_job_id r \<and> job_tenant_id j = tenant \<and> is_terminal (job_state j)))"

text \<open>Referential integrity of the results of one parent: the child job exists, in the tenant.\<close>

definition children_exist :: "string \<Rightarrow> uuid \<Rightarrow> session \<Rightarrow> bool" where
  "children_exist tenant parent_i s \<longleftrightarrow>
     (\<forall>r \<in> set (device_results (work s)).
        result_tenant_id r = tenant \<and> discovery_job_id r = parent_i \<longrightarrow>
        (\<exists>j \<in> set (jobs (work s)). job_id j = child_job_id r \<and> job_tenant_id j = tenant))"

lemma same_result_refl [simp]: "same_result r r"
  by (simp add: same_result_def)

lemma same_result_trans: "same_result r r' \<Longrightarrow> same_result r' r'' \<Longrightarrow> same_result r r''"
  by (auto simp: same_result_def)

lemma progress_refl [simp]: "progress s s"
  unfolding progress_def using same_result_refl by blast

lemma progress_trans: "progress s s' \<Longrightarrow> progress s' s'' \<Longrightarrow> progress s s''"
  unfolding progress_def by (blast intro: same_result_trans rtranclp_trans)

lemma progress_table_ok:
  "progress s s' \<Longrightarrow> job_table_ok (jobs (work s)) \<Longrightarrow> job_table_ok (jobs (work s'))"
  unfolding progress_def using job_table.steps_inv by blast

lemma job_survives:
  assumes "jobs_step\<^sup>*\<^sup>* rows rows'" and "j \<in> set rows"
  shows "\<exists>j' \<in> set rows'. row_step\<^sup>*\<^sup>* j j'"
proof -
  from assms(2) obtain k where "k < length rows" "rows ! k = j" by (auto simp: in_set_conv_nth)
  with jobs_steps_nth [OF assms(1)] show ?thesis by (intro bexI [of _ "rows' ! k"]) auto
qed

lemma settled_progress:
  assumes "progress s s'" and "settled tenant parent_i a s"
  shows "settled tenant parent_i a s'"
proof -
  from assms(2) obtain r j where r: "r \<in> set (device_results (work s))"
      "result_tenant_id r = tenant" "discovery_job_id r = parent_i" "result_address r = a" "\<not> unsettled r"
    and j: "j \<in> set (jobs (work s))" "job_id j = child_job_id r" "job_tenant_id j = tenant"
      "is_terminal (job_state j)"
    unfolding settled_def by blast
  from assms(1) r(1) obtain r' where r': "r' \<in> set (device_results (work s'))" "same_result r r'"
    unfolding progress_def by blast
  from assms(1) j(1) obtain j' where j': "j' \<in> set (jobs (work s'))" "row_step\<^sup>*\<^sup>* j j'"
    unfolding progress_def using job_survives by blast
  have "job_id j' = child_job_id r'" "job_tenant_id j' = tenant" "is_terminal (job_state j')"
    using row_steps_key [OF j'(2)] row_steps_terminal [OF j'(2)] j r'(2) by (auto simp: same_result_def)
  with r r' j'(1) show ?thesis unfolding settled_def same_result_def by metis
qed

section \<open>The pieces make progress\<close>

lemma ensure_target_frame:
  assumes "ensure_target id now tenant scope a s = (t, s')"
  shows "jobs (work s') = jobs (work s) \<and> device_results (work s') = device_results (work s) \<and>
         committed s' = committed s"
  using assms by (auto simp: ensure_target_def Let_def uuid4_def split: option.splits)

lemma job_create_id_cases:
  assumes "job_create id now tenant ti ri parent creator caps timeout corr s = (s', r)"
  shows "(\<exists>e. r = Inl e \<and> committed s' = committed s) \<or>
         (\<exists>j. r = Inr j \<and> jobs (work s') = jobs (work s) @ [j] \<and>
            jobs_step (jobs (work s)) (jobs (work s')) \<and> job_tenant_id j = tenant \<and>
            device_results (work s') = device_results (work s) \<and> committed s' = committed s)"
proof -
  from job_create_cases [OF assms] consider
      (refused) e where "s' = s" "r = Inl e"
    | (conflict) e where "s' = rollback (snd (uuid4 s))" "r = Inl e"
    | (created) j where "r = Inr j"
        "j = new_job now (next_uuid s) tenant ti ri parent creator caps timeout corr"
        "job_insert_ok (work (snd (uuid4 s))) j"
        "s' = put_jobs (jobs (work s) @ [j]) (snd (uuid4 s))"
    by auto
  then show ?thesis
  proof cases
    case created
    have "jobs_step (jobs (work s)) (jobs (work s) @ [j])"
      using created(2,3) insert_steps by fastforce
    with created show ?thesis by (simp add: new_job_def)
  qed auto
qed

lemma create_child_Inr:
  assumes "create_child id now tenant parent scope a s = (s', Inr (child, r))"
  shows "jobs (work s') = jobs (work s) @ [child]" "jobs_step (jobs (work s)) (jobs (work s'))"
    "device_results (work s') = device_results (work s) @ [r]" "committed s' = committed s"
    "result_tenant_id r = tenant" "discovery_job_id r = job_id parent" "result_address r = a"
    "child_job_id r = job_id child" "job_tenant_id child = tenant"
  using assms ensure_target_frame [of now tenant scope a s]
  by (auto simp: create_child_def Let_def uuid4_def child_result_def
      split: prod.splits sum.splits dest!: job_create_id_cases)

lemma create_child_Inl:
  assumes "create_child id now tenant parent scope a s = (s', Inl e)"
  shows "committed s' = committed s"
  using assms ensure_target_frame [of now tenant scope a s]
  by (auto simp: create_child_def Let_def uuid4_def
      split: prod.splits sum.splits dest!: job_create_id_cases)

lemma create_child_progress:
  "create_child id now tenant parent scope a s = (s', Inr (child, r)) \<Longrightarrow> progress s s'"
  using create_child_Inr(2,3) [of now tenant parent scope a s s' child r] same_result_refl
  unfolding progress_def by (metis UnCI r_into_rtranclp set_append)

lemma close_child_step:
  assumes "job_table_ok (jobs (work s))"
  shows "jobs_step\<^sup>*\<^sup>* (jobs (work s)) (jobs (work (close_child now tenant interrupted c s)))"
proof (cases "get_job s c")
  case (Some child)
  then have child: "child \<in> set (jobs (work s))" unfolding get_job_def by (auto dest: sql_first_Some)
  show ?thesis
  proof (cases "is_terminal (job_state child)")
    case False
    have "row_step j (close_values now (outcome_status interrupted) code msg j)"
      if "j \<in> set (jobs (work s))" "job_where tenant (job_id child) j" for j code msg
    proof -
      have "j = child"
        using that child job_table_okD(1) [OF assms] unique_key [of job_id]
        by (auto simp: job_where_def)
      with False show ?thesis
        unfolding close_values_def by (intro row_step.closed) (auto simp: outcome_status_def)
    qed
    then show ?thesis using Some False
      by (auto simp: close_child_def intro!: r_into_rtranclp jobs_step.updated)
  qed (simp add: close_child_def Some)
qed (simp add: close_child_def)

lemma close_child_frame [simp]:
  "device_results (work (close_child now tenant interrupted c s)) = device_results (work s)"
  "committed (close_child now tenant interrupted c s) = committed s"
  by (auto simp: close_child_def split: option.splits)

lemma settle_same_result: "same_result r (settle_result now interrupted r)"
  by (auto simp: same_result_def settle_result_def unsettled_def pending_state_def
      outcome_status_def)

lemma settle_result_settled: "\<not> unsettled (settle_result now interrupted r)"
  by (auto simp: settle_result_def unsettled_def pending_state_def outcome_status_def)

lemma update_result_frame [simp]:
  "jobs (work (update_result i f s)) = jobs (work s)"
  "committed (update_result i f s) = committed s"
  by (simp_all add: update_result_def)

lemma update_result_row:
  assumes "r \<in> set (device_results (work s))"
  shows "(if result_id r = i then f r else r) \<in> set (device_results (work (update_result i f s)))"
  using assms by (auto simp: update_result_def set_sql_update intro!: bexI [of _ r])

lemma update_result_progress: "progress s (update_result i (settle_result now interrupted) s)"
  unfolding progress_def
proof (intro conjI ballI)
  fix r assume "r \<in> set (device_results (work s))"
  then show "\<exists>r' \<in> set (device_results (work (update_result i (settle_result now interrupted) s))).
      same_result r r'"
    using update_result_row [of r s i "settle_result now interrupted"] settle_same_result
      same_result_refl by (metis (full_types))
qed simp

lemma close_child_progress:
  "job_table_ok (jobs (work s)) \<Longrightarrow> progress s (close_child now tenant interrupted c s)"
  using close_child_step same_result_refl unfolding progress_def by fastforce

section \<open>Every expected address ends settled\<close>

lemma close_child_terminal:
  assumes ok: "job_table_ok (jobs (work s))"
    and j: "j \<in> set (jobs (work s))" "job_id j = c" "job_tenant_id j = tenant"
  shows "\<exists>j' \<in> set (jobs (work (close_child now tenant interrupted c s))).
           job_id j' = c \<and> job_tenant_id j' = tenant \<and> is_terminal (job_state j')"
proof -
  have found: "get_job s c = Some j"
  proof (cases "get_job s c")
    case None
    with j show ?thesis by (auto simp: get_job_def sql_first_None)
  next
    case (Some k)
    then have "k \<in> set (jobs (work s))" "job_id k = c" by (auto simp: get_job_def dest: sql_first_Some)
    with j have "k = j" using job_table_okD(1) [OF ok] unique_key by metis
    with Some show ?thesis by simp
  qed
  show ?thesis
  proof (cases "is_terminal (job_state j)")
    case True
    with found j show ?thesis by (auto simp: close_child_def)
  next
    case False
    let ?j = "close_values now (outcome_status interrupted) (outcome_code interrupted)
      (outcome_message interrupted) j"
    have "?j \<in> set (jobs (work (close_child now tenant interrupted c s)))"
      using found False j by (auto simp: close_child_def set_sql_update job_where_def intro!: bexI [of _ j])
    moreover have "job_id ?j = c" "job_tenant_id ?j = tenant" "is_terminal (job_state ?j)"
      using j by (auto simp: close_values_def outcome_status_def is_terminal_def)
    ultimately show ?thesis by blast
  qed
qed

lemma finish_settles:
  assumes ok: "job_table_ok (jobs (work s))"
    and r: "r \<in> set (device_results (work s))" "result_tenant_id r = tenant"
      "discovery_job_id r = parent_i" "result_address r = a"
    and j: "j \<in> set (jobs (work s))" "job_id j = child_job_id r" "job_tenant_id j = tenant"
    and key: "result_id r0 = result_id r" "child_job_id r0 = child_job_id r"
  shows "settled tenant parent_i a
           (update_result (result_id r0) (settle_result now interrupted)
             (close_child now tenant interrupted (child_job_id r0) s))"
proof -
  let ?s = "close_child now tenant interrupted (child_job_id r0) s"
  let ?r = "settle_result now interrupted r"
  have "?r \<in> set (device_results (work (update_result (result_id r0) (settle_result now interrupted) ?s)))"
    using update_result_row [of r ?s "result_id r0" "settle_result now interrupted"] r(1) key(1) by simp
  moreover have "same_result r ?r" "\<not> unsettled ?r"
    by (rule settle_same_result, rule settle_result_settled)
  moreover obtain j' where "j' \<in> set (jobs (work ?s))" "job_id j' = child_job_id r"
      "job_tenant_id j' = tenant" "is_terminal (job_state j')"
    using close_child_terminal [OF ok j] key(2) by metis
  ultimately show ?thesis
    using r unfolding settled_def same_result_def by (metis update_result_frame(1))
qed

lemma children_exist_create:
  assumes "create_child id now tenant parent scope a s = (s', Inr (child, r))"
    and "children_exist tenant (job_id parent) s"
  shows "children_exist tenant (job_id parent) s'"
  using create_child_Inr [OF assms(1)] assms(2) unfolding children_exist_def by auto

lemma children_exist_close:
  assumes "job_table_ok (jobs (work s))" and "children_exist tenant parent_i s"
  shows "children_exist tenant parent_i (close_child now tenant interrupted c s)"
  using assms(2) job_survives [OF close_child_step [OF assms(1)]] row_steps_key
  unfolding children_exist_def close_child_frame by metis

lemma children_exist_settle:
  assumes "children_exist tenant parent_i s"
  shows "children_exist tenant parent_i (update_result i (settle_result now interrupted) s)"
  using assms settle_same_result unfolding children_exist_def same_result_def update_result_def
  by (auto simp: set_sql_update split: if_splits)

definition known_results ::
  "string \<Rightarrow> uuid \<Rightarrow> (string, DiscoveryDeviceResultRecord) dict \<Rightarrow> session \<Rightarrow> bool" where
  "known_results tenant parent_i by_address s \<longleftrightarrow>
     (\<forall>a r0. dict_get by_address a = Some r0 \<longrightarrow>
        (\<exists>r \<in> set (device_results (work s)).
           result_id r0 = result_id r \<and> child_job_id r0 = child_job_id r \<and>
           result_tenant_id r = tenant \<and> discovery_job_id r = parent_i \<and> result_address r = a))"

lemma known_results_progress:
  "progress s s' \<Longrightarrow> known_results tenant parent_i d s \<Longrightarrow> known_results tenant parent_i d s'"
  unfolding known_results_def progress_def same_result_def by metis

text \<open>One address: the result (old or new) is settled and the conditions of the loop hold again.\<close>

lemma finish_step:
  assumes ok: "job_table_ok (jobs (work s))" and ce: "children_exist tenant parent_i s"
    and r: "r \<in> set (device_results (work s))" "result_tenant_id r = tenant"
      "discovery_job_id r = parent_i" "result_address r = a"
    and key: "result_id r0 = result_id r" "child_job_id r0 = child_job_id r"
    and t: "t = update_result (result_id r0) (settle_result now interrupted)
                  (close_child now tenant interrupted (child_job_id r0) s)"
  shows "progress s t \<and> job_table_ok (jobs (work t)) \<and> children_exist tenant parent_i t \<and>
         settled tenant parent_i a t \<and> committed t = committed s"
proof -
  from ce r obtain j where "j \<in> set (jobs (work s))" "job_id j = child_job_id r" "job_tenant_id j = tenant"
    unfolding children_exist_def by blast
  then have "settled tenant parent_i a t" unfolding t using finish_settles [OF ok r _ _ _ key] by blast
  moreover have prog: "progress s t"
    unfolding t by (rule progress_trans [OF close_child_progress [OF ok] update_result_progress])
  moreover have "children_exist tenant parent_i t"
    unfolding t by (rule children_exist_settle [OF children_exist_close [OF ok ce]])
  ultimately show ?thesis using progress_table_ok [OF prog ok] by (simp add: t)
qed

lemma reconcile_addresses_settles:
  assumes "reconcile_addresses now tenant interrupted parent target by_address as ids s = (s', Inr ids')"
    and "job_table_ok (jobs (work s))" and "children_exist tenant (job_id parent) s"
    and "known_results tenant (job_id parent) by_address s"
  shows "progress s s' \<and> (\<forall>a \<in> set as. settled tenant (job_id parent) a s') \<and>
         committed s' = committed s"
  using assms
proof (induction "as" arbitrary: ids s)
  case (Cons a "as")
  let ?fin = "\<lambda>r s. update_result (result_id r) (settle_result now interrupted)
    (close_child now tenant interrupted (child_job_id r) s)"
  have rest: ?case
    if mid: "progress s s1" "job_table_ok (jobs (work s1))" "children_exist tenant (job_id parent) s1"
        "committed s1 = committed s"
      and r: "r \<in> set (device_results (work s1))" "result_tenant_id r = tenant"
        "discovery_job_id r = job_id parent" "result_address r = a"
      and key: "result_id r0 = result_id r" "child_job_id r0 = child_job_id r"
      and run: "reconcile_addresses now tenant interrupted parent target by_address as ids1 (?fin r0 s1)
                  = (s', Inr ids')" for s1 r r0 ids1
  proof -
    note step = finish_step [OF mid(2,3) r key refl, of now interrupted]
    then have to_fin: "progress s (?fin r0 s1)" using mid(1) progress_trans by blast
    note ih = Cons.IH [OF run _ _ known_results_progress [OF to_fin Cons.prems(4)]]
    with step have "progress (?fin r0 s1) s'" "\<forall>a \<in> set as. settled tenant (job_id parent) a s'"
      "committed s' = committed s" using mid(4) by auto
    then show ?thesis
      using step to_fin settled_progress progress_trans by (metis set_ConsD)
  qed
  show ?case
  proof (cases "dict_get by_address a")
    case (Some r0)
    with Cons.prems(4) obtain r where r: "r \<in> set (device_results (work s))"
        "result_tenant_id r = tenant" "discovery_job_id r = job_id parent" "result_address r = a"
      and key: "result_id r0 = result_id r" "child_job_id r0 = child_job_id r"
      unfolding known_results_def by blast
    with Cons.prems Some show ?thesis by (intro rest [OF _ _ _ _ r key]) (auto simp: Let_def)
  next
    case None
    with Cons.prems(1) obtain s1 child r where
        made: "create_child id now tenant parent target a s = (s1, Inr (child, r))"
      and run: "reconcile_addresses now tenant interrupted parent target by_address as
          (ids @ [result_id r]) (?fin r s1) = (s', Inr ids')"
      by (auto simp: Let_def split: prod.splits sum.splits)
    note prog = create_child_progress [OF made]
    show ?thesis
      using create_child_Inr [OF made]
      by (intro rest [OF prog progress_table_ok [OF prog Cons.prems(2)]
            children_exist_create [OF made Cons.prems(3)] _ _ _ _ _ refl refl run]) auto
  qed
qed simp

lemma reconcile_addresses_Inl:
  "reconcile_addresses now tenant interrupted parent target by_address as ids s = (s', Inl e) \<Longrightarrow>
   committed s' = committed s"
proof (induction "as" arbitrary: ids s)
  case (Cons a "as")
  show ?case
  proof (cases "dict_get by_address a")
    case (Some r)
    with Cons show ?thesis by (fastforce simp: Let_def)
  next
    case None
    show ?thesis
    proof (cases "create_child id now tenant parent target a s")
      case (Pair s1 res)
      show ?thesis
      proof (cases res)
        case (Inl e1)
        with None Pair Cons.prems show ?thesis using create_child_Inl by (auto simp: Let_def)
      next
        case (Inr cr)
        then obtain child r where cr: "res = Inr (child, r)" by (cases cr) auto
        then have "committed s1 = committed s" using create_child_Inr(4) Pair by blast
        then show ?thesis
          using None Pair cr Cons.prems Cons.IH by (simp add: Let_def)
      qed
    qed
  qed
qed simp

lemma reconcile_addresses_progress:
  assumes "reconcile_addresses now tenant interrupted parent target by_address as ids s = (s', Inr ids')"
    and "job_table_ok (jobs (work s))"
  shows "progress s s'"
  using assms
proof (induction "as" arbitrary: ids s)
  case (Cons a "as")
  let ?fin = "\<lambda>r s. update_result (result_id r) (settle_result now interrupted)
    (close_child now tenant interrupted (child_job_id r) s)"
  have fin: "progress s1 (?fin r s1)" if "job_table_ok (jobs (work s1))" for r s1
    by (rule progress_trans [OF close_child_progress [OF that] update_result_progress])
  have rest: "progress s s'" if "progress s s1"
      "reconcile_addresses now tenant interrupted parent target by_address as ids1 (?fin r s1)
         = (s', Inr ids')" for s1 r ids1
  proof -
    have "job_table_ok (jobs (work s1))" using progress_table_ok [OF that(1) Cons.prems(2)] .
    then have "progress s1 (?fin r s1)" "job_table_ok (jobs (work (?fin r s1)))"
      using fin progress_table_ok by blast+
    then show ?thesis using Cons.IH [OF that(2)] that(1) progress_trans by blast
  qed
  show ?case
  proof (cases "dict_get by_address a")
    case (Some r)
    with Cons.prems(1) show ?thesis by (intro rest [OF progress_refl]) (auto simp: Let_def)
  next
    case None
    with Cons.prems(1) obtain s1 child r where
        made: "create_child id now tenant parent target a s = (s1, Inr (child, r))"
      and run: "reconcile_addresses now tenant interrupted parent target by_address as
          (ids @ [result_id r]) (?fin r s1) = (s', Inr ids')"
      by (auto simp: Let_def split: prod.splits sum.splits)
    show ?thesis by (rule rest [OF create_child_progress [OF made] run])
  qed
qed simp

section \<open>The whole reconciliation\<close>

lemma fold_dict_set:
  "dict_get (fold (\<lambda>r d. dict_set (result_address r) r d) rs d0) a = Some r \<Longrightarrow>
   (r \<in> set rs \<and> result_address r = a) \<or> dict_get d0 a = Some r"
  by (induction rs arbitrary: d0) (fastforce simp: dict_get_set split: if_splits)+

lemma known_results_initial:
  "known_results tenant parent_i
     (fold (\<lambda>r d. dict_set (result_address r) r d) (results_of tenant parent_i s) []) s"
  unfolding known_results_def
  by (auto simp: results_of_def sql_select_def dict_get_def dest!: fold_dict_set [unfolded dict_get_def])

lemma finalize_frame [simp]:
  "jobs (work (finalize_parent_run now parent n rs s)) = jobs (work s)"
  "device_results (work (finalize_parent_run now parent n rs s)) = device_results (work s)"
  "committed (finalize_parent_run now parent n rs s) = committed s"
  by (auto simp: finalize_parent_run_def split: option.splits)

lemma rows_with_ids_finalize [simp]:
  "rows_with_ids ids (finalize_parent_run now parent n rs s) = rows_with_ids ids s"
  by (simp add: rows_with_ids_def)

lemma set_run_metadata_frame [simp]:
  "jobs (work (set_run_metadata i m s)) = jobs (work s)"
  "device_results (work (set_run_metadata i m s)) = device_results (work s)"
  "committed (set_run_metadata i m s) = committed s"
  by (simp_all add: set_run_metadata_def)

text \<open>A call that has work to do.\<close>

lemma reconcile_parent_whole:
  assumes "get_job s parent_i = Some parent" and "job_tenant_id parent = tenant"
    and "get_target s (job_target_id parent) = Some t"
    and "expected_addresses max_targets (Some t)
           (case get_run s (job_run_id parent) of None \<Rightarrow> [] | Some r \<Rightarrow> run_metadata r) = Inr addresses"
    and "addresses \<noteq> []"
  obtains s1 where
    "jobs (work s1) = jobs (work s)" "device_results (work s1) = device_results (work s)"
    "committed s1 = committed s"
    "reconcile_parent_job now tenant parent_i interrupted max_targets s =
      (case reconcile_addresses now tenant interrupted parent t
              (fold (\<lambda>r d. dict_set (result_address r) r d) (results_of tenant parent_i s1) []) addresses
              (map result_id (results_of tenant parent_i s1)) s1 of
         (s2, Inl e) \<Rightarrow> (s2, Inl e)
       | (s2, Inr ids) \<Rightarrow>
           (commit (finalize_parent_run now parent (length addresses) (rows_with_ids ids s2) s2),
            Inr (rows_with_ids ids s2)))"
proof -
  define m where "m = (case get_run s (job_run_id parent) of None \<Rightarrow> [] | Some r \<Rightarrow> run_metadata r)"
  define s1 where "s1 = (if stored_addresses m = Inr [] \<and> get_run s (job_run_id parent) \<noteq> None
      then set_run_metadata (job_run_id parent)
             (dict_set ''expected_addresses'' (PList (map PStr addresses)) m) s else s)"
  define loop where "loop = reconcile_addresses now tenant interrupted parent t
       (fold (\<lambda>r d. dict_set (result_address r) r d) (results_of tenant parent_i s1) []) addresses
       (map result_id (results_of tenant parent_i s1)) s1"
  have frame: "jobs (work s1) = jobs (work s)" "device_results (work s1) = device_results (work s)"
    "committed s1 = committed s" by (simp_all add: s1_def)
  have "reconcile_parent_job now tenant parent_i interrupted max_targets s =
      (case loop of (s2, Inl e) \<Rightarrow> (s2, Inl e) | (s2, Inr ids) \<Rightarrow>
        let s3 = finalize_parent_run now parent (length addresses) (rows_with_ids ids s2) s2
        in (commit s3, Inr (rows_with_ids ids s3)))"
    unfolding reconcile_parent_job_def assms(1) option.case Let_def loop_def s1_def
    by (auto simp: assms(2,3,5) assms(4) [folded m_def] m_def [symmetric])
  then show ?thesis
    by (intro that [OF frame]) (auto simp: Let_def loop_def [symmetric] split: prod.splits sum.splits)
qed

lemma reconcile_run:
  assumes "reconcile_parent_job now tenant parent_i interrupted max_targets s = (s', Inr rs)"
    and "get_job s parent_i = Some parent" and "job_tenant_id parent = tenant"
    and "get_target s (job_target_id parent) = Some t"
    and "expected_addresses max_targets (Some t)
           (case get_run s (job_run_id parent) of None \<Rightarrow> [] | Some r \<Rightarrow> run_metadata r) = Inr addresses"
    and "addresses \<noteq> []"
  obtains s1 s2 ids where
    "jobs (work s1) = jobs (work s)" "device_results (work s1) = device_results (work s)"
    "reconcile_addresses now tenant interrupted parent t
       (fold (\<lambda>r d. dict_set (result_address r) r d) (results_of tenant parent_i s1) []) addresses
       (map result_id (results_of tenant parent_i s1)) s1 = (s2, Inr ids)"
    "s' = commit (finalize_parent_run now parent (length addresses) (rows_with_ids ids s2) s2)"
    "rs = rows_with_ids ids s2"
proof (rule reconcile_parent_whole [OF assms(2-6), of now interrupted])
  fix s1
  assume frame: "jobs (work s1) = jobs (work s)" "device_results (work s1) = device_results (work s)"
    and "reconcile_parent_job now tenant parent_i interrupted max_targets s =
      (case reconcile_addresses now tenant interrupted parent t
              (fold (\<lambda>r d. dict_set (result_address r) r d) (results_of tenant parent_i s1) []) addresses
              (map result_id (results_of tenant parent_i s1)) s1 of
         (s2, Inl e) \<Rightarrow> (s2, Inl e)
       | (s2, Inr ids) \<Rightarrow>
           (commit (finalize_parent_run now parent (length addresses) (rows_with_ids ids s2) s2),
            Inr (rows_with_ids ids s2)))"
  with assms(1) show thesis
    by (auto simp only: prod.inject split: prod.splits sum.splits intro: that [OF frame])
qed

text \<open>The table steps along the life cycle, whether or not the call has work to do.\<close>

lemma reconcile_parent_cases:
  obtains (idle) s1 where
    "reconcile_parent_job now tenant parent_i interrupted max_targets s = (s1, Inr [])"
    "jobs (work s1) = jobs (work s)" "committed s1 = committed s"
  | (failed) e where
    "reconcile_parent_job now tenant parent_i interrupted max_targets s = (s, Inl e)"
  | (works) parent t addresses where
    "get_job s parent_i = Some parent" "job_tenant_id parent = tenant"
    "get_target s (job_target_id parent) = Some t"
    "expected_addresses max_targets (Some t)
       (case get_run s (job_run_id parent) of None \<Rightarrow> [] | Some r \<Rightarrow> run_metadata r) = Inr addresses"
    "addresses \<noteq> []"
proof (cases "get_job s parent_i")
  case None
  then show ?thesis by (intro idle [of s]) (simp_all add: reconcile_parent_job_def)
next
  case (Some parent)
  define m where "m = (case get_run s (job_run_id parent) of None \<Rightarrow> [] | Some r \<Rightarrow> run_metadata r)"
  define target where "target = get_target s (job_target_id parent)"
  note unfolded = reconcile_parent_job_def [of now tenant parent_i interrupted max_targets s,
      unfolded Some option.case Let_def, folded m_def target_def]
  consider "job_tenant_id parent \<noteq> tenant"
    | e where "job_tenant_id parent = tenant" "expected_addresses max_targets target m = Inl e"
    | addresses where "job_tenant_id parent = tenant"
        "expected_addresses max_targets target m = Inr addresses" "target = None \<or> addresses = []"
    | addresses t where "job_tenant_id parent = tenant"
        "expected_addresses max_targets target m = Inr addresses" "target = Some t" "addresses \<noteq> []"
    by (cases "expected_addresses max_targets target m"; cases target) auto
  then show ?thesis
  proof cases
    case 1
    then show ?thesis by (intro idle [of s]) (simp_all add: unfolded)
  next
    case 2
    then show ?thesis by (intro failed) (simp add: unfolded)
  next
    case 3
    define s1 where "s1 = fst (reconcile_parent_job now tenant parent_i interrupted max_targets s)"
    have "reconcile_parent_job now tenant parent_i interrupted max_targets s = (s1, Inr [])"
      "jobs (work s1) = jobs (work s)" "committed s1 = committed s"
      using 3 unfolding s1_def by (auto simp: unfolded split: option.splits)
    then show ?thesis by (rule idle)
  next
    case 4
    then show ?thesis using Some by (intro works) (auto simp: m_def target_def)
  qed
qed

lemma reconcile_parent_steps:
  assumes "reconcile_parent_job now tenant parent_i interrupted max_targets s = (s', Inr rs)"
    and "job_table_ok (jobs (work s))"
  shows "jobs_step\<^sup>*\<^sup>* (jobs (work s)) (jobs (work s'))"
proof (cases rule: reconcile_parent_cases [of now tenant parent_i interrupted max_targets s])
  case (works parent t addresses)
  obtain s1 s2 ids where
      s1: "jobs (work s1) = jobs (work s)" "device_results (work s1) = device_results (work s)"
    and run: "reconcile_addresses now tenant interrupted parent t
       (fold (\<lambda>r d. dict_set (result_address r) r d) (results_of tenant parent_i s1) []) addresses
       (map result_id (results_of tenant parent_i s1)) s1 = (s2, Inr ids)"
    and s': "s' = commit (finalize_parent_run now parent (length addresses) (rows_with_ids ids s2) s2)"
    by (rule reconcile_run [OF assms(1) works])
  have "progress s1 s2" using reconcile_addresses_progress [OF run] assms(2) s1 by simp
  then show ?thesis by (simp add: s' progress_def s1(1))
qed (use assms in auto)

lemma reconcile_parent_Inl:
  assumes "reconcile_parent_job now tenant parent_i interrupted max_targets s = (s', Inl e)"
  shows "committed s' = committed s"
proof (cases rule: reconcile_parent_cases [of now tenant parent_i interrupted max_targets s])
  case (works parent t addresses)
  show ?thesis
  proof (rule reconcile_parent_whole [OF works, of now interrupted])
    fix s1
    assume "committed s1 = committed s"
      and "reconcile_parent_job now tenant parent_i interrupted max_targets s =
      (case reconcile_addresses now tenant interrupted parent t
              (fold (\<lambda>r d. dict_set (result_address r) r d) (results_of tenant parent_i s1) []) addresses
              (map result_id (results_of tenant parent_i s1)) s1 of
         (s2, Inl e) \<Rightarrow> (s2, Inl e)
       | (s2, Inr ids) \<Rightarrow>
           (commit (finalize_parent_run now parent (length addresses) (rows_with_ids ids s2) s2),
            Inr (rows_with_ids ids s2)))"
    with assms show ?thesis by (auto split: prod.splits sum.splits dest!: reconcile_addresses_Inl)
  qed
qed (use assms in auto)

section \<open>An interrupted fan-out\<close>

text \<open>A running parent over a range of two addresses; both children are still queued.\<close>

definition demo_scope :: DiscoveryTargetRecord where
  "demo_scope =
     \<lparr>target_id = 2, target_tenant_id = ''acme'', target_identifier = ''lab'',
      target_address = ''10.0.0.1'', scope_type = ''ip_range'', scope_end = Some ''10.0.0.2'',
      scope_cidr = None, target_vendor = None, target_hostname = None, platform_hint = None,
      preferred_transport = None, target_enabled = True, credential_reference = ''cred'',
      credential_profile_id = None, credential_references = [], allowed_fallback_transports = [],
      target_allow_insecure_telnet = False, target_allow_insecure_http = True,
      target_metadata = [], target_created_by = None, target_created_at = 0,
      target_updated_at = 0\<rparr>"

definition demo_run :: DiscoveryRunRecord where
  "demo_run = (child_run 0 3 ''acme'' 8 ''lab'' ''10.0.0.1'')
     \<lparr>run_metadata := [(''expected_addresses'', PList [PStr ''10.0.0.1'', PStr ''10.0.0.2''])]\<rparr>"

definition demo_parent :: DiscoveryJobRecord where
  "demo_parent = claim_values 10 9 60 (new_job 0 8 ''acme'' 2 3 None None None None None)"

definition demo_child :: "uuid \<Rightarrow> DiscoveryJobRecord" where
  "demo_child i = new_job 12 i ''acme'' i 3 (Some 8) None None None None"

definition demo_session :: session where
  "demo_session =
     (let st = \<lparr>jobs = [demo_parent, demo_child 4, demo_child 5], targets = [demo_scope],
                runs = [demo_run],
                device_results =
                  [child_result 6 ''acme'' demo_parent (demo_child 4) demo_scope ''10.0.0.1'',
                   child_result 7 ''acme'' demo_parent (demo_child 5) demo_scope ''10.0.0.2''],
                transport_attempts = [], evidence = [], snapshots = []\<rparr>
      in \<lparr>committed = st, work = st, next_uuid = 20\<rparr>)"

lemma demo_session_ok:
  "job_table_ok (jobs (work demo_session))" "children_exist ''acme'' 8 demo_session"
  "get_job demo_session 8 = Some demo_parent" "job_tenant_id demo_parent = ''acme''"
  "get_target demo_session (job_target_id demo_parent) = Some demo_scope"
  "expected_addresses 4096 (Some demo_scope)
     (case get_run demo_session (job_run_id demo_parent) of None \<Rightarrow> [] | Some r \<Rightarrow> run_metadata r)
   = Inr [''10.0.0.1'', ''10.0.0.2'']"
  by code_simp+

lemma demo_reconcile_ok:
  "\<exists>s' rs. reconcile_parent_job 100 ''acme'' 8 True 4096 demo_session = (s', Inr rs)"
  by (rule is_ok_snd) code_simp

lemma demo_reconcile_run:
  "map_option run_status (get_run (fst (reconcile_parent_job 100 ''acme'' 8 True 4096 demo_session)) 3)
   = Some RUN_FAILED"
  by code_simp

text \<open>
  C9: Reconciling a fan-out parent leaves no address behind. When the call returns, its effects
  are committed and every expected address of the parent run (stored, or expanded from the scope)
  has a device result of this parent that carries a result state, is no longer queued, running
  or discovering, and whose child job is in a terminal state.
\<close>

theorem reconcile_settles_every_address:
  assumes "reconcile_parent_job now tenant parent_i interrupted max_targets s = (s', Inr rs)"
    and "get_job s parent_i = Some parent" and "job_tenant_id parent = tenant"
    and "get_target s (job_target_id parent) = Some t"
    and "expected_addresses max_targets (Some t)
           (case get_run s (job_run_id parent) of None \<Rightarrow> [] | Some r \<Rightarrow> run_metadata r) = Inr addresses"
    and "addresses \<noteq> []"
    and "job_table_ok (jobs (work s))" and "children_exist tenant parent_i s"
  shows "(\<forall>a \<in> set addresses. settled tenant parent_i a s') \<and> committed s' = work s' \<and>
         job_table_ok (jobs (work s'))"
proof -
  have pid: "job_id parent = parent_i"
    using assms(2) by (auto simp: get_job_def dest: sql_first_Some)
  obtain s1 s2 ids where s1: "jobs (work s1) = jobs (work s)"
      "device_results (work s1) = device_results (work s)"
    and run: "reconcile_addresses now tenant interrupted parent t
       (fold (\<lambda>r d. dict_set (result_address r) r d) (results_of tenant parent_i s1) []) addresses
       (map result_id (results_of tenant parent_i s1)) s1 = (s2, Inr ids)"
    and s': "s' = commit (finalize_parent_run now parent (length addresses) (rows_with_ids ids s2) s2)"
    by (rule reconcile_run [OF assms(1-6)])
  have ok1: "job_table_ok (jobs (work s1))" "children_exist tenant parent_i s1"
    using assms(7,8) s1 by (simp_all add: children_exist_def)
  from reconcile_addresses_settles [OF run ok1(1)] ok1(2) known_results_initial [of tenant parent_i s1]
  have done2: "progress s1 s2" "\<forall>a \<in> set addresses. settled tenant parent_i a s2"
    by (simp_all add: pid)
  then show ?thesis
    using progress_table_ok [OF done2(1) ok1(1)] by (simp add: s' settled_def)
qed

theorem reconcile_settles_every_address_witness:
  "settled ''acme'' 8 ''10.0.0.2'' (fst (reconcile_parent_job 100 ''acme'' 8 True 4096 demo_session))"
proof -
  obtain s' rs where run: "reconcile_parent_job 100 ''acme'' 8 True 4096 demo_session = (s', Inr rs)"
    using demo_reconcile_ok by blast
  from reconcile_settles_every_address [OF run demo_session_ok(3-6) _ demo_session_ok(1,2)]
  show ?thesis by (simp add: run)
qed



end
