(* ===== verification/Job_Cancellation.thy ===== *)
theory Job_Cancellation
  imports Fanout_Reconcile
begin

text \<open>
  The operations of \<open>DiscoveryJobRepository\<close> that stop work: an operator's cancellation request,
  forced resolution of a stale cancellation, and the recovery or abandonment of leased trees. They
  may close a fan-out parent, so they build on \<open>Fanout_Reconcile\<close>.

  \<open>synchronized\<close> is the behaviour of the object-relational mapper after a bulk UPDATE: whether the
  loaded object shows the new column values (the documented default) or the old ones. One clock
  reading serves a whole call.
\<close>

section \<open>Fan-out parents\<close>

definition DEFAULT_MAX_TARGETS :: int where
  "DEFAULT_MAX_TARGETS = 4096"

definition reconcile_if_fanout ::
  "time \<Rightarrow> string \<Rightarrow> DiscoveryJobRecord \<Rightarrow> bool \<Rightarrow> session \<Rightarrow> unit outcome" where
  "reconcile_if_fanout now tenant job interrupted s =
     (case get_target s (job_target_id job) of
        None \<Rightarrow> (s, Inr ())
      | Some target \<Rightarrow>
          if scope_type target \<in> {''ip_range'', ''cidr_network''}
          then (case reconcile_parent_job now tenant (job_id job) interrupted DEFAULT_MAX_TARGETS s of
                  (s', Inl e) \<Rightarrow> (s', Inl e)
                | (s', Inr _) \<Rightarrow> (s', Inr ()))
          else (s, Inr ()))"

section \<open>Cancellation requests\<close>

definition cancel_values ::
  "time \<Rightarrow> uuid \<Rightarrow> string \<Rightarrow> DiscoveryJobStatus \<Rightarrow> DiscoveryJobRecord \<Rightarrow> DiscoveryJobRecord" where
  "cancel_values now requested_by reason state j =
     (let j1 = j\<lparr>cancellation_requested_at := Some now,
                 cancellation_requested_by := Some requested_by,
                 cancellation_reason := Some reason, job_updated_at := now\<rparr>
      in if state = QUEUED
         then clear_lease (j1\<lparr>job_state := DiscoveryJobStatus.CANCELLED,
                job_completed_at := Some now,
                job_failure_code := Some (code_value DiscoveryFailureCode.CANCELLED),
                job_failure_message := Some reason\<rparr>)
         else j1)"

definition request_cancellation ::
  "environment \<Rightarrow> bool \<Rightarrow> time \<Rightarrow> string \<Rightarrow> uuid \<Rightarrow> uuid \<Rightarrow> string \<Rightarrow> session \<Rightarrow>
   (DiscoveryJobRecord option \<times> bool) outcome" where
  "request_cancellation env synchronized now tenant i requested_by reason s =
     (case repo_get tenant i s of
        None \<Rightarrow> (s, Inl (DiscoveryResourceNotFoundError ''Discovery job was not found.''))
      | Some job \<Rightarrow>
     if is_terminal (job_state job)
     then if job_state job = DiscoveryJobStatus.CANCELLED then (s, Inr (Some job, False))
          else (s, Inl (DiscoveryCancellationConflictError
                  (''Discovery job is already '' @ status_value (job_state job) @ ''.'')))
     else if cancellation_requested_at job \<noteq> None then (s, Inr (Some job, False))
     else
       let values = cancel_values now requested_by reason (job_state job);
           (s1, ids) = update_returning (\<lambda>j. job_where tenant i j \<and> job_state j = job_state job)
                         values (env s)
       in case scalar_one_or_none ids of
            Inl e \<Rightarrow> (s1, Inl e)
          | Inr None \<Rightarrow>
              let s2 = rollback s1;
                  conflict = (s2, Inl (DiscoveryCancellationConflictError
                    ''Discovery job changed state before cancellation could be applied.''))
              in (case repo_get tenant i s2 of
                    None \<Rightarrow> conflict
                  | Some current \<Rightarrow>
                      if job_state current = DiscoveryJobStatus.CANCELLED
                      then (s2, Inr (Some current, False)) else conflict)
          | Inr (Some _) \<Rightarrow>
              if job_state (if synchronized then values job else job) = QUEUED
              then (case reconcile_if_fanout now tenant job False s1 of
                      (s2, Inl e) \<Rightarrow> (s2, Inl e)
                    | (s2, Inr _) \<Rightarrow> (s2, Inr (repo_get tenant i s2, True)))
              else (s1, Inr (repo_get tenant i s1, True)))"

section \<open>Stale cancellations\<close>

definition valid_lease :: "time \<Rightarrow> DiscoveryJobRecord \<Rightarrow> bool" where
  "valid_lease now j \<longleftrightarrow>
     execution_owner j \<noteq> None \<and> (case lease_expires_at j of None \<Rightarrow> False | Some t \<Rightarrow> t > now)"

definition stale_where :: "time \<Rightarrow> string \<Rightarrow> uuid \<Rightarrow> DiscoveryJobRecord \<Rightarrow> bool" where
  "stale_where now tenant i j \<longleftrightarrow>
     job_where tenant i j \<and> job_state j = RUNNING \<and> cancellation_requested_at j \<noteq> None \<and>
     (execution_owner j = None \<or> lease_expires_at j = None \<or>
      (case lease_expires_at j of None \<Rightarrow> False | Some t \<Rightarrow> t \<le> now))"

text \<open>The UPDATE of running children by identifier; it has no statement when there are none.\<close>

definition cancel_running_children ::
  "time \<Rightarrow> string \<Rightarrow> uuid \<Rightarrow> string \<Rightarrow> session \<Rightarrow> session" where
  "cancel_running_children now tenant parent_i msg s =
     (let child_ids = map job_id
            (sql_select (\<lambda>j. job_tenant_id j = tenant \<and> parent_job_id j = Some parent_i \<and>
               job_state j = RUNNING) (jobs (work s)))
      in if child_ids = [] then s
         else put_jobs (sql_update
                (\<lambda>j. job_id j \<in> set child_ids \<and> job_tenant_id j = tenant \<and> job_state j = RUNNING)
                (close_values now DiscoveryJobStatus.CANCELLED
                  (code_value DiscoveryFailureCode.CANCELLED) msg) (jobs (work s))) s)"

definition active_lease_conflict :: persistence_error where
  "active_lease_conflict = DiscoveryCancellationConflictError
     ''Cannot resolve cancellation for an actively executing job with a valid worker lease.''"

definition resolve_stale_cancellation ::
  "environment \<Rightarrow> time \<Rightarrow> string \<Rightarrow> uuid \<Rightarrow> session \<Rightarrow> DiscoveryJobRecord option outcome" where
  "resolve_stale_cancellation env now tenant i s =
     (case repo_get tenant i s of
        None \<Rightarrow> (s, Inl (DiscoveryResourceNotFoundError ''Discovery job was not found.''))
      | Some job \<Rightarrow>
     if job_state job = DiscoveryJobStatus.CANCELLED then (s, Inr (Some job))
     else if is_terminal (job_state job)
     then (s, Inl (DiscoveryCancellationConflictError
             (''Discovery job is already in terminal state '' @ [CHR 0x27] @
              status_value (job_state job) @ [CHR 0x27] @ ''.'')))
     else if job_state job \<noteq> RUNNING
     then (s, Inl (DiscoveryCancellationConflictError
             (''Cannot force resolve job in '' @ [CHR 0x27] @ status_value (job_state job) @
              [CHR 0x27] @ '' state; use standard cancellation.'')))
     else if cancellation_requested_at job = None
     then (s, Inl (DiscoveryCancellationConflictError
             ''Cancellation was not requested for this discovery job.''))
     else if valid_lease now job then (s, Inl active_lease_conflict)
     else
       let (s1, ids) = update_returning (stale_where now tenant i)
             (close_values now DiscoveryJobStatus.CANCELLED
               (code_value DiscoveryFailureCode.CANCELLED) (cancel_message job)) (env s)
       in case scalar_one_or_none ids of
            Inl e \<Rightarrow> (s1, Inl e)
          | Inr None \<Rightarrow>
              let s2 = rollback s1;
                  changed = (s2, Inl (DiscoveryCancellationConflictError
                    ''Discovery job state changed before cancellation could be resolved.''))
              in (case repo_get tenant i s2 of
                    None \<Rightarrow> changed
                  | Some current \<Rightarrow>
                      if job_state current = DiscoveryJobStatus.CANCELLED
                      then (s2, Inr (Some current))
                      else if valid_lease now current then (s2, Inl active_lease_conflict)
                      else changed)
          | Inr (Some _) \<Rightarrow>
              let s2 = cancel_running_children now tenant i (cancel_message job) s1
              in (case reconcile_if_fanout now tenant job False s2 of
                    (s3, Inl e) \<Rightarrow> (s3, Inl e)
                  | (s3, Inr _) \<Rightarrow> (s3, Inr (repo_get tenant i s3))))"

section \<open>Leased trees\<close>

definition drop_queued_child ::
  "time \<Rightarrow> string \<Rightarrow> DiscoveryJobStatus \<Rightarrow> string \<Rightarrow> string \<Rightarrow> uuid \<Rightarrow> session \<Rightarrow> session" where
  "drop_queued_child now tenant target_state code msg child_i s =
     put_jobs (sql_update (job_where tenant child_i) (close_values now target_state code msg)
       (jobs (work s))) s"

text \<open>
  The loop over the active children as they were selected.
\<close>

fun close_children ::
  "time \<Rightarrow> string \<Rightarrow> uuid \<Rightarrow> DiscoveryJobStatus \<Rightarrow> string \<Rightarrow> string \<Rightarrow>
   DiscoveryJobRecord list \<Rightarrow> session \<Rightarrow> unit outcome" where
  "close_children now tenant owner target_state code msg [] s = (s, Inr ())"
| "close_children now tenant owner target_state code msg (child # children) s =
     (if job_state child = QUEUED
      then close_children now tenant owner target_state code msg children
             (drop_queued_child now tenant target_state code msg (job_id child) s)
      else if execution_owner child \<noteq> Some owner
      then close_children now tenant owner target_state code msg children s
      else (case transition id now tenant (job_id child) target_state (Some code) (Some msg)
                   False (Some owner) s of
              (s1, Inl e) \<Rightarrow> (s1, Inl e)
            | (s1, Inr _) \<Rightarrow>
                close_children now tenant owner target_state code msg children s1))"

definition reconcile_owned_tree ::
  "environment \<Rightarrow> time \<Rightarrow> string \<Rightarrow> uuid \<Rightarrow> uuid \<Rightarrow> string \<Rightarrow> session \<Rightarrow>
   DiscoveryJobRecord option outcome" where
  "reconcile_owned_tree env now tenant i owner failure_message s =
     (case repo_get tenant i s of
        None \<Rightarrow> (s, Inr None)
      | Some job \<Rightarrow>
          let cancel = cancellation_requested tenant i s;
              target_state = (if cancel then DiscoveryJobStatus.CANCELLED else FAILED);
              code = (if cancel then code_value DiscoveryFailureCode.CANCELLED
                      else code_value DISCOVERY_FAILED);
              msg = (if cancel then cancel_message job else failure_message);
              children = sql_select (\<lambda>j. job_tenant_id j = tenant \<and> parent_job_id j = Some i \<and>
                           is_active j) (jobs (work s))
          in (case close_children now tenant owner target_state code msg children (env s) of
                (s1, Inl e) \<Rightarrow> (s1, Inl e)
              | (s1, Inr _) \<Rightarrow>
                  (case transition id now tenant i target_state (Some code) (Some msg) False
                          (Some owner) s1 of
                     (s2, Inl e) \<Rightarrow> (s2, Inl e)
                   | (s2, Inr terminal) \<Rightarrow>
                       (case reconcile_if_fanout now tenant job (\<not> cancel) s2 of
                          (s3, Inl e) \<Rightarrow> (s3, Inl e)
                        | (s3, Inr _) \<Rightarrow> (s3, Inr terminal)))))"

definition recover_expired_owned_job ::
  "environment \<Rightarrow> time \<Rightarrow> string \<Rightarrow> uuid \<Rightarrow> time \<Rightarrow> session \<Rightarrow> DiscoveryJobRecord option outcome" where
  "recover_expired_owned_job env now tenant i stale_before s =
     (if is_protected i then (s, Inr None)
      else case repo_get tenant i s of
             None \<Rightarrow> (s, Inr None)
           | Some job \<Rightarrow>
               (case (execution_owner job, lease_expires_at job) of
                  (Some owner, Some expiry) \<Rightarrow>
                    if job_state job \<noteq> RUNNING \<or> last_heartbeat_at job = None \<or> expiry \<ge> stale_before
                    then (s, Inr None)
                    else reconcile_owned_tree env now tenant i owner LEASE_EXPIRED_MESSAGE s
                | _ \<Rightarrow> (s, Inr None)))"

definition abandon_owned_job ::
  "environment \<Rightarrow> time \<Rightarrow> string \<Rightarrow> uuid \<Rightarrow> uuid \<Rightarrow> string \<Rightarrow> session \<Rightarrow>
   DiscoveryJobRecord option outcome" where
  "abandon_owned_job env now tenant i owner failure_message s =
     (if is_protected i then (s, Inr None)
      else case owned_running_job tenant i owner s of
             None \<Rightarrow> (s, Inr None)
           | Some job \<Rightarrow> reconcile_owned_tree env now tenant i owner failure_message s)"

section \<open>Every operation keeps to the life cycle\<close>

text \<open>What a call leaves for its transaction to keep: the view on return, the committed store on an error.\<close>

definition advances :: "session \<Rightarrow> 'a outcome \<Rightarrow> bool" where
  "advances s out \<longleftrightarrow> jobs_step\<^sup>*\<^sup>* (jobs (work s))
     (jobs (if is_ok (snd out) then work (fst out) else committed (fst out)))"

lemma advances_simps [simp]:
  "advances s (s', Inr x) = jobs_step\<^sup>*\<^sup>* (jobs (work s)) (jobs (work s'))"
  "advances s (s', Inl e) = jobs_step\<^sup>*\<^sup>* (jobs (work s)) (jobs (committed s'))"
  by (simp_all add: advances_def)

lemma guarantee_advances: "(\<And>s. sound s \<Longrightarrow> advances s (op s)) \<Longrightarrow> guarantee op"
  by (rule guaranteeI) (metis advances_simps)+

text \<open>A point inside a call that both a return and an error may follow.\<close>

definition reached :: "session \<Rightarrow> session \<Rightarrow> bool" where
  "reached s t \<longleftrightarrow> job_table_ok (jobs (work t)) \<and>
     jobs_step\<^sup>*\<^sup>* (jobs (work s)) (jobs (work t)) \<and> jobs_step\<^sup>*\<^sup>* (jobs (work s)) (jobs (committed t))"

lemma reached_self: "sound s \<Longrightarrow> reached s s"
  by (auto simp: reached_def sound_def clean_committed)

lemma reached_env: "rely env \<Longrightarrow> sound s \<Longrightarrow> reached s (env s)"
  using relyD [of env s] job_table.steps_inv
  by (auto simp: reached_def sound_def clean_committed)

lemma reached_rollback: "reached s t \<Longrightarrow> jobs_step\<^sup>*\<^sup>* (jobs (work s)) (jobs (work (rollback t)))"
  by (simp add: reached_def)

lemma reached_step:
  assumes "reached s t" and "jobs_step\<^sup>*\<^sup>* (jobs (work t)) (jobs (work t'))"
    and "committed t' = committed t"
  shows "reached s t'"
  using assms job_table.steps_inv unfolding reached_def by (auto intro: rtranclp_trans)

lemma reached_update:
  assumes "reached s t" and "\<And>j. j \<in> set (jobs (work t)) \<Longrightarrow> p j \<Longrightarrow> row_step j (f j)"
  shows "reached s (put_jobs (sql_update p f (jobs (work t))) t)"
  by (rule reached_step [OF assms(1)]) (auto intro: jobs_step.updated assms(2))

lemma reached_update_returning:
  assumes "reached s t" and "\<And>j. j \<in> set (jobs (work t)) \<Longrightarrow> p j \<Longrightarrow> row_step j (f j)"
    and "update_returning p f t = (t', ids)"
  shows "reached s t'"
  using reached_update [OF assms(1,2)] assms(3) by (auto simp: update_returning_def)

lemma reconcile_if_fanout_steps:
  assumes "reconcile_if_fanout now tenant job interrupted t = (t', Inr r)"
    and "job_table_ok (jobs (work t))"
  shows "jobs_step\<^sup>*\<^sup>* (jobs (work t)) (jobs (work t'))"
  using assms(1) reconcile_parent_steps [OF _ assms(2)]
  by (auto simp: reconcile_if_fanout_def split: option.splits if_splits prod.splits sum.splits)

lemma reconcile_if_fanout_advances:
  assumes "reached s t" and "reconcile_if_fanout now tenant job interrupted t = (t', r)"
  shows "advances s (t', r)"
proof -
  from assms(1) have ok: "job_table_ok (jobs (work t))" by (simp add: reached_def)
  have "jobs_step\<^sup>*\<^sup>* (jobs (work t)) (jobs (work t')) \<and> is_ok r \<or> committed t' = committed t \<and> \<not> is_ok r"
    using assms(2) reconcile_parent_steps [OF _ ok] reconcile_parent_Inl
    by (auto simp: reconcile_if_fanout_def split: option.splits if_splits prod.splits sum.splits)
  then show ?thesis
    using assms(1) unfolding reached_def advances_def by (auto intro: rtranclp_trans)
qed

lemma close_row_step:
  "\<not> is_terminal (job_state j) \<Longrightarrow> t \<in> {FAILED, DiscoveryJobStatus.CANCELLED} \<Longrightarrow>
   row_step j (close_values now t code msg j)"
  unfolding close_values_def by (rule row_step.closed)

lemma cancel_row_step:
  assumes "job_state j = st" and "\<not> is_terminal st"
  shows "row_step j (cancel_values now requested_by reason st j)"
proof (cases st)
  case QUEUED
  with assms show ?thesis
    by (auto simp: cancel_values_def Let_def intro!: row_step.cancelled_queued)
next
  case RUNNING
  with assms show ?thesis
    by (auto simp: cancel_values_def Let_def intro!: row_step.cancel_noted)
qed (use assms in \<open>auto simp: is_terminal_def\<close>)

lemma request_cancellation_guarantee [preserves]:
  assumes "rely env"
  shows "guarantee (request_cancellation env synchronized now tenant i requested_by reason)"
proof (rule guarantee_advances)
  fix s assume s: "sound s"
  show "advances s (request_cancellation env synchronized now tenant i requested_by reason s)"
  proof (cases "repo_get tenant i s")
    case None
    with s show ?thesis by (simp add: request_cancellation_def clean_committed)
  next
    case (Some job)
    show ?thesis
    proof (cases "is_terminal (job_state job) \<or> cancellation_requested_at job \<noteq> None")
      case True
      with Some s show ?thesis by (auto simp: request_cancellation_def clean_committed)
    next
      case False
      obtain s1 ids where upd: "update_returning
          (\<lambda>j. job_where tenant i j \<and> job_state j = job_state job)
          (cancel_values now requested_by reason (job_state job)) (env s) = (s1, ids)" by fastforce
      have mid: "reached s s1"
        using reached_update_returning [OF reached_env [OF assms s] _ upd] False cancel_row_step by blast
      note fan = reconcile_if_fanout_advances [OF mid]
      show ?thesis
        using Some False upd mid reached_rollback [OF mid]
        by (cases ids rule: scalar_one_or_none.cases)
           (auto simp: request_cancellation_def Let_def reached_def
             split: option.splits sum.splits prod.splits dest!: fan)
    qed
  qed
qed

lemma reached_cancel_children:
  assumes "reached s t"
  shows "reached s (cancel_running_children now tenant parent_i msg t)"
  unfolding cancel_running_children_def Let_def
  by (auto simp: assms is_terminal_def intro!: reached_update [OF assms] close_row_step)

lemma resolve_stale_guarantee [preserves]:
  assumes "rely env"
  shows "guarantee (resolve_stale_cancellation env now tenant i)"
proof (rule guarantee_advances)
  fix s assume s: "sound s"
  show "advances s (resolve_stale_cancellation env now tenant i s)"
  proof (cases "repo_get tenant i s")
    case None
    with s show ?thesis by (simp add: resolve_stale_cancellation_def clean_committed)
  next
    case (Some job)
    show ?thesis
    proof (cases "job_state job \<noteq> RUNNING \<or> cancellation_requested_at job = None \<or> valid_lease now job")
      case True
      with Some s show ?thesis by (auto simp: resolve_stale_cancellation_def clean_committed)
    next
      case False
      obtain s1 ids where upd: "update_returning (stale_where now tenant i)
          (close_values now DiscoveryJobStatus.CANCELLED
            (code_value DiscoveryFailureCode.CANCELLED) (cancel_message job)) (env s) = (s1, ids)"
        by fastforce
      have mid: "reached s s1"
        by (rule reached_update_returning [OF reached_env [OF assms s] _ upd])
           (auto simp: stale_where_def is_terminal_def intro: close_row_step)
      note fan = reconcile_if_fanout_advances [OF reached_cancel_children [OF mid]]
      show ?thesis
        using Some False upd mid reached_rollback [OF mid]
        by (cases ids rule: scalar_one_or_none.cases)
           (auto simp: resolve_stale_cancellation_def is_terminal_def Let_def reached_def
             split: option.splits sum.splits prod.splits dest!: fan)
    qed
  qed
qed

text \<open>
  The loop over the children of an owned tree. Nothing guards its UPDATE of a queued child, so the
  step is shown for a transaction that is not interleaved; \<open>finishing_worker\<close> below shows what
  interleaving can do.
\<close>

lemma repo_get_Some: "repo_get tenant i s = Some j \<Longrightarrow>
  j \<in> set (jobs (work s)) \<and> job_id j = i \<and> job_tenant_id j = tenant"
  by (auto simp: repo_get_def job_where_def dest: sql_first_Some)

lemma repo_getI:
  assumes "job_table_ok (jobs (work s))" and "j \<in> set (jobs (work s))"
    and "job_id j = i" and "job_tenant_id j = tenant"
  shows "repo_get tenant i s = Some j"
proof (cases "repo_get tenant i s")
  case None
  with assms show ?thesis by (auto simp: repo_get_def job_where_def sql_first_None)
next
  case (Some k)
  with assms repo_get_Some [OF Some] show ?thesis
    using unique_key [of job_id] job_table_okD(1) [OF assms(1)] by metis
qed

lemma transition_id_update:
  assumes "transition id now tenant i target code msg nc owner t = (t', Inr x)"
  obtains st conflict where "target \<in> allowed_transitions st"
    "guarded_update (transition_where tenant i st nc owner) (transition_values now target code msg)
       conflict tenant i t = (t', Inr x)"
proof -
  from assms obtain job where "repo_get tenant i t = Some job"
    by (auto simp: transition_def split: option.splits)
  with assms that [of "job_state job"] show ?thesis
    by (simp add: transition_def transition_job_Inr split: sum.splits)
qed

lemma transition_id_Inr:
  assumes "transition id now tenant i target code msg nc owner t = (t', Inr x)"
  shows "jobs_step\<^sup>*\<^sup>* (jobs (work t)) (jobs (work t'))" "committed t' = committed t"
proof -
  obtain st conflict where st: "target \<in> allowed_transitions st"
    and upd: "guarded_update (transition_where tenant i st nc owner)
       (transition_values now target code msg) conflict tenant i t = (t', Inr x)"
    by (rule transition_id_update [OF assms])
  from guarded_update_Inr [OF upd] st
  show "jobs_step\<^sup>*\<^sup>* (jobs (work t)) (jobs (work t'))" "committed t' = committed t"
    by (auto simp: transition_where_def intro!: r_into_rtranclp jobs_step.updated row_step.moved)
qed

lemma transition_id_Inl:
  "transition id now tenant i target code msg nc owner t = (t', Inl e) \<Longrightarrow> committed t' = committed t"
  by (auto simp: transition_def dest: guarded_update_Inl split: option.splits sum.splits)

lemma transition_reached:
  assumes "reached s t"
    and "transition id now tenant i target code msg nc owner t = (t', r)"
  shows "if is_ok r then reached s t' else jobs_step\<^sup>*\<^sup>* (jobs (work s)) (jobs (committed t'))"
proof (cases r)
  case (Inl e)
  with assms transition_id_Inl [OF assms(2) [unfolded Inl]] show ?thesis by (simp add: reached_def)
next
  case (Inr x)
  show ?thesis using reached_step [OF assms(1) transition_id_Inr [OF assms(2) [unfolded Inr]]]
    by (simp add: Inr)
qed

lemma transition_others:
  assumes "transition id now tenant i target code msg nc owner t = (t', Inr x)"
    and "c \<in> set (jobs (work t))" and "job_id c \<noteq> i"
  shows "c \<in> set (jobs (work t'))"
  by (rule transition_id_update [OF assms(1)])
     (use assms(2,3) in \<open>auto simp: set_sql_update transition_where_def job_where_def
        dest!: guarded_update_Inr intro!: bexI [of _ c]\<close>)

lemma drop_queued_child_steps:
  assumes "job_table_ok (jobs (work t))" and "c \<in> set (jobs (work t))" and "job_state c = QUEUED"
    and "target \<in> {FAILED, DiscoveryJobStatus.CANCELLED}"
  shows "jobs_step\<^sup>*\<^sup>* (jobs (work t))
           (jobs (work (drop_queued_child now tenant target code msg (job_id c) t)))"
proof -
  have "row_step j (close_values now target code msg j)"
    if "j \<in> set (jobs (work t))" "job_where tenant (job_id c) j" for j
  proof -
    have "j = c" using that assms(1,2) job_table_okD(1) unique_key by (metis job_where_def)
    with assms(3,4) show ?thesis by (auto simp: is_terminal_def intro!: close_row_step)
  qed
  then show ?thesis by (auto simp: drop_queued_child_def intro!: jobs_step.updated)
qed

lemma drop_queued_child_frame [simp]:
  "committed (drop_queued_child now tenant target code msg i t) = committed t"
  by (simp add: drop_queued_child_def)

definition job_closed :: "uuid \<Rightarrow> session \<Rightarrow> bool" where
  "job_closed i s \<longleftrightarrow> (\<exists>j \<in> set (jobs (work s)). job_id j = i \<and> is_terminal (job_state j))"

lemma job_closed_steps:
  assumes "job_closed i s" and "jobs_step\<^sup>*\<^sup>* (jobs (work s)) (jobs (work t))"
  shows "job_closed i t"
proof -
  from assms(1) obtain j where j: "j \<in> set (jobs (work s))" "job_id j = i" "is_terminal (job_state j)"
    unfolding job_closed_def by blast
  with job_survives [OF assms(2)] obtain k where k: "k \<in> set (jobs (work t))" "row_step\<^sup>*\<^sup>* j k" by blast
  with j row_steps_key(1) [OF k(2)] row_steps_terminal [OF k(2)] show ?thesis
    unfolding job_closed_def by auto
qed

lemma transition_closes:
  assumes "transition id now tenant i target code msg nc owner t = (t', Inr x)"
    and "is_terminal target" and "job_table_ok (jobs (work t))"
  shows "\<exists>j. x = Some j \<and> repo_get tenant i t' = Some j \<and> job_state j = target"
proof -
  obtain st conflict where st: "target \<in> allowed_transitions st"
    and upd: "guarded_update (transition_where tenant i st nc owner)
       (transition_values now target code msg) conflict tenant i t = (t', Inr x)"
    by (rule transition_id_update [OF assms(1)])
  note g = guarded_update_Inr [OF upd]
  then obtain j where "filter (transition_where tenant i st nc owner) (jobs (work t)) = [j]" by blast
  then have j: "j \<in> set (jobs (work t))" "transition_where tenant i st nc owner j"
    by (auto dest: filter_eq_ConsD)
  have "job_table_ok (jobs (work t'))"
    using job_table.steps_inv [OF transition_id_Inr(1) [OF assms(1)] assms(3)] .
  moreover have "transition_values now target code msg j \<in> set (jobs (work t'))"
    using g j by (auto simp: set_sql_update intro!: bexI [of _ j])
  ultimately have "repo_get tenant i t' = Some (transition_values now target code msg j)"
    using j(2) by (intro repo_getI) (auto simp: transition_where_def job_where_def)
  with g show ?thesis by simp
qed

lemma drop_queued_child_closes:
  assumes "c \<in> set (jobs (work t))" and "job_tenant_id c = tenant" and "is_terminal target"
  shows "job_closed (job_id c) (drop_queued_child now tenant target code msg (job_id c) t)"
proof -
  let ?c = "close_values now target code msg c"
  have "?c \<in> set (jobs (work (drop_queued_child now tenant target code msg (job_id c) t)))"
    using assms(1,2) by (auto simp: drop_queued_child_def set_sql_update job_where_def intro!: bexI [of _ c])
  moreover have "job_id ?c = job_id c" "job_state ?c = target" by (simp_all add: close_values_def)
  ultimately show ?thesis using assms(3) unfolding job_closed_def by metis
qed

definition owned_child :: "uuid \<Rightarrow> DiscoveryJobRecord \<Rightarrow> bool" where
  "owned_child owner c \<longleftrightarrow> job_state c = QUEUED \<or> execution_owner c = Some owner"

lemma close_children_reached:
  assumes "close_children now tenant owner target code msg children t = (t', r)"
    and "reached s t" and "target \<in> {FAILED, DiscoveryJobStatus.CANCELLED}"
    and "\<And>c. c \<in> set children \<Longrightarrow> c \<in> set (jobs (work t)) \<and> job_tenant_id c = tenant"
    and "distinct (map job_id children)"
  shows "if is_ok r
         then reached s t' \<and> jobs_step\<^sup>*\<^sup>* (jobs (work t)) (jobs (work t')) \<and>
              (\<forall>c \<in> set children. owned_child owner c \<longrightarrow> job_closed (job_id c) t')
         else jobs_step\<^sup>*\<^sup>* (jobs (work s)) (jobs (committed t'))"
  using assms
proof (induction children arbitrary: t)
  case (Cons c children)
  have others: "k \<in> set (jobs (work t)) \<and> job_tenant_id k = tenant \<and> job_id k \<noteq> job_id c"
    if "k \<in> set children" for k using that Cons.prems(4,5) by (auto simp: image_iff)
  have rest: ?case if "reached s t1" "jobs_step\<^sup>*\<^sup>* (jobs (work t)) (jobs (work t1))"
      "close_children now tenant owner target code msg children t1 = (t', r)"
      "\<And>k. k \<in> set children \<Longrightarrow> k \<in> set (jobs (work t1))"
      "owned_child owner c \<Longrightarrow> job_closed (job_id c) t1" for t1
    using Cons.IH [OF that(3,1) Cons.prems(3)] that(2,4,5) others Cons.prems(5) job_closed_steps
    by (auto intro: rtranclp_trans split: if_splits)
  consider (queued) "job_state c = QUEUED"
    | (foreign) "job_state c \<noteq> QUEUED" "execution_owner c \<noteq> Some owner"
    | (owned) "job_state c \<noteq> QUEUED" "execution_owner c = Some owner" by blast
  then show ?case
  proof cases
    case queued
    let ?t = "drop_queued_child now tenant target code msg (job_id c) t"
    show ?thesis
    proof (rule rest [of ?t])
      show steps: "jobs_step\<^sup>*\<^sup>* (jobs (work t)) (jobs (work ?t))"
        by (rule drop_queued_child_steps) (use Cons.prems queued in \<open>auto simp: reached_def\<close>)
      show "reached s ?t" by (rule reached_step [OF Cons.prems(2) steps]) simp
    qed (use Cons.prems queued others drop_queued_child_closes [of c t tenant target] in
        \<open>auto simp: id_def is_terminal_def drop_queued_child_def set_sql_update job_where_def\<close>)
  next
    case foreign
    then show ?thesis using Cons.prems others by (intro rest [of t]) (auto simp: owned_child_def id_def)
  next
    case owned
    obtain t1 q where tr: "transition id now tenant (job_id c) target (Some code) (Some msg) False
        (Some owner) t = (t1, q)" by fastforce
    note step = transition_reached [OF Cons.prems(2) tr]
    show ?thesis
    proof (cases q)
      case (Inl e)
      with owned tr Cons.prems(1) step show ?thesis by (auto simp: id_def)
    next
      case (Inr x)
      note ok = tr [unfolded Inr]
      have "job_closed (job_id c) t1"
        using transition_closes [OF ok] Cons.prems(2,3) repo_get_Some
        by (fastforce simp: job_closed_def reached_def is_terminal_def)
      then show ?thesis
        using step Inr transition_id_Inr(1) [OF ok] transition_others [OF ok] others owned Cons.prems(1) tr
        by (intro rest [of t1]) (auto simp: id_def)
    qed
  qed
qed auto

lemma reconcile_owned_tree_advances:
  assumes s: "sound s"
  shows "advances s (reconcile_owned_tree id now tenant i owner msg s)"
proof (cases "repo_get tenant i s")
  case None
  then show ?thesis by (simp add: reconcile_owned_tree_def)
next
  case (Some job)
  define cancel where "cancel = cancellation_requested tenant i s"
  define target where "target = (if cancel then DiscoveryJobStatus.CANCELLED else FAILED)"
  define code where "code = (if cancel then code_value DiscoveryFailureCode.CANCELLED
                             else code_value DISCOVERY_FAILED)"
  define m where "m = (if cancel then cancel_message job else msg)"
  define children where "children = sql_select (\<lambda>j. job_tenant_id j = tenant \<and>
      parent_job_id j = Some i \<and> is_active j) (jobs (work s))"
  obtain s1 r1 where cc: "close_children now tenant owner target code m children s = (s1, r1)"
    by fastforce
  have "distinct (map job_id children)"
    using s job_table_okD(1) by (auto simp: sound_def children_def sql_select_def distinct_map_filter)
  then have one: "if is_ok r1 then reached s s1 else jobs_step\<^sup>*\<^sup>* (jobs (work s)) (jobs (committed s1))"
    using close_children_reached [OF cc reached_self [OF s]]
    by (auto simp: target_def children_def sql_select_def)
  obtain s2 r2 where tr: "transition id now tenant i target (Some code) (Some m) False (Some owner) s1
      = (s2, r2)" by fastforce
  have two: "if is_ok r2 then reached s s2 else jobs_step\<^sup>*\<^sup>* (jobs (work s)) (jobs (committed s2))"
    if "is_ok r1" using transition_reached [OF _ tr] one that by simp
  obtain s3 r3 where fan: "reconcile_if_fanout now tenant job (\<not> cancel) s2 = (s3, r3)" by fastforce
  have three: "advances s (s3, r3)" if "is_ok r1" "is_ok r2"
    using reconcile_if_fanout_advances [OF _ fan] two that by simp
  have "reconcile_owned_tree id now tenant i owner msg s =
      (case r1 of Inl e \<Rightarrow> (s1, Inl e) | Inr _ \<Rightarrow>
         (case r2 of Inl e \<Rightarrow> (s2, Inl e) | Inr terminal \<Rightarrow>
            (case r3 of Inl e \<Rightarrow> (s3, Inl e) | Inr _ \<Rightarrow> (s3, Inr terminal))))"
    using Some cc tr fan
    by (simp add: reconcile_owned_tree_def cancel_def [symmetric] target_def [symmetric]
        code_def [symmetric] m_def [symmetric] children_def [symmetric] split: sum.splits)
  then show ?thesis using one two three by (cases r1; cases r2; cases r3) auto
qed

lemma recover_guarantee [preserves]:
  "guarantee (recover_expired_owned_job id now tenant i stale_before)"
  by (rule guarantee_advances)
     (auto simp: recover_expired_owned_job_def reconcile_owned_tree_advances
       split: option.splits)

lemma abandon_guarantee [preserves]:
  "guarantee (abandon_owned_job id now tenant i owner msg)"
  by (rule guarantee_advances)
     (auto simp: abandon_owned_job_def reconcile_owned_tree_advances split: option.splits)

lemma reconcile_parent_guarantee [preserves]:
  "guarantee (reconcile_parent_job now tenant parent_i interrupted max_targets)"
proof (rule guaranteeI)
  fix s s' x
  assume "sound s" "reconcile_parent_job now tenant parent_i interrupted max_targets s = (s', Inr x)"
  then show "jobs_step\<^sup>*\<^sup>* (jobs (work s)) (jobs (work s'))"
    unfolding sound_def using reconcile_parent_steps by blast
next
  fix s s' e
  assume "sound s" "reconcile_parent_job now tenant parent_i interrupted max_targets s = (s', Inl e)"
  then show "jobs_step\<^sup>*\<^sup>* (jobs (work s)) (jobs (committed s'))"
    using reconcile_parent_Inl by (metis clean_committed clean_if_sound rtranclp.rtrancl_refl)
qed

section \<open>Requests are idempotent\<close>

text \<open>A job found before is found after any steps, as a descendant of its former row.\<close>

lemma repo_get_steps:
  assumes "repo_get tenant i s = Some j" and "job_table_ok (jobs (work s))"
    and "jobs_step\<^sup>*\<^sup>* (jobs (work s)) (jobs (work t))"
  obtains k where "repo_get tenant i t = Some k" "row_step\<^sup>*\<^sup>* j k"
proof -
  note j = repo_get_Some [OF assms(1)]
  with job_survives [OF assms(3)] obtain k where k: "k \<in> set (jobs (work t))" "row_step\<^sup>*\<^sup>* j k" by blast
  with j row_steps_key [OF k(2)] have "repo_get tenant i t = Some k"
    using job_table.steps_inv [OF assms(3,2)] by (intro repo_getI) auto
  then show ?thesis using k(2) by (rule that)
qed

lemma terminal_stays:
  assumes "repo_get tenant i s = Some j" and "is_terminal (job_state j)"
    and "job_table_ok (jobs (work s))" and "jobs_step\<^sup>*\<^sup>* (jobs (work s)) (jobs (work t))"
  shows "\<exists>k. repo_get tenant i t = Some k \<and> job_state k = job_state j"
  using assms(2) row_steps_terminal by (metis repo_get_steps [OF assms(1,3,4)])

lemma repo_get_update:
  assumes "filter p (jobs (work s)) = [j]" and "p j \<Longrightarrow> job_where tenant i j"
    and "job_table_ok (jobs (work s))" and "row_step j (f j)"
    and "\<And>j. j \<in> set (jobs (work s)) \<Longrightarrow> p j \<Longrightarrow> row_step j (f j)"
  shows "repo_get tenant i (put_jobs (sql_update p f (jobs (work s))) s) = Some (f j)"
proof -
  from assms(1) have j: "j \<in> set (jobs (work s))" "p j" by (auto dest: filter_eq_ConsD)
  show ?thesis
  proof (rule repo_getI)
    show "job_table_ok (jobs (work (put_jobs (sql_update p f (jobs (work s))) s)))"
      using table_ok_update [OF assms(3,5)] by simp
    show "f j \<in> set (jobs (work (put_jobs (sql_update p f (jobs (work s))) s)))"
      using j by (auto simp: set_sql_update intro!: bexI [of _ j])
  qed (use assms(2,4) j row_step_key in \<open>auto simp: job_where_def\<close>)
qed

lemma request_cancellation_done:
  assumes "sound s" and "rely env"
    and "request_cancellation env synchronized now tenant i requested_by reason s
           = (s', Inr (answer, changed))"
  shows "\<exists>j. answer = Some j \<and> repo_get tenant i s' = Some j \<and>
         (job_state j = DiscoveryJobStatus.CANCELLED \<or>
          \<not> is_terminal (job_state j) \<and> cancellation_requested_at j \<noteq> None)"
proof (cases "repo_get tenant i s")
  case None
  with assms(3) show ?thesis by (simp add: request_cancellation_def)
next
  case (Some job)
  show ?thesis
  proof (cases "is_terminal (job_state job) \<or> cancellation_requested_at job \<noteq> None")
    case True
    with Some assms(3) have "s' = s \<and> answer = Some job \<and> (job_state job = DiscoveryJobStatus.CANCELLED \<or>
        \<not> is_terminal (job_state job))" by (auto simp: request_cancellation_def split: if_splits)
    with Some True show ?thesis by blast
  next
    case False
    let ?p = "\<lambda>j. job_where tenant i j \<and> job_state j = job_state job"
    let ?f = "cancel_values now requested_by reason (job_state job)"
    define s1 where "s1 = put_jobs (sql_update ?p ?f (jobs (work (env s)))) (env s)"
    have ok: "job_table_ok (jobs (work (env s)))"
      using reached_env [OF assms(2,1)] by (simp add: reached_def)
    have row: "row_step j (?f j)" if "?p j" for j using that False cancel_row_step by blast
    have upd: "update_returning ?p ?f (env s) = (s1, map job_id (filter ?p (jobs (work (env s)))))"
      by (simp add: update_returning_def s1_def sql_select_def)
    consider (lost) "s' = rollback s1" "\<exists>j. answer = Some j \<and> repo_get tenant i s' = Some j \<and>
          job_state j = DiscoveryJobStatus.CANCELLED"
      | (noted) j where "filter ?p (jobs (work (env s))) = [j]" "s' = s1" "answer = repo_get tenant i s1"
      | (fanned) j where "filter ?p (jobs (work (env s))) = [j]" "job_state job = QUEUED"
          "reconcile_if_fanout now tenant job False s1 = (s', Inr ())" "answer = repo_get tenant i s'"
      using assms(3) Some False upd
      by (cases "map job_id (filter ?p (jobs (work (env s))))" rule: scalar_one_or_none.cases)
         (auto simp: request_cancellation_def Let_def cancel_values_def
           split: option.splits if_splits prod.splits sum.splits)
    then show ?thesis
    proof cases
      case noted
      have "repo_get tenant i s1 = Some (?f j)" unfolding s1_def
        by (rule repo_get_update [OF noted(1)]) (use row ok noted(1) in \<open>auto dest: filter_eq_ConsD\<close>)
      moreover have "job_state j = job_state job" using noted(1) by (auto dest: filter_eq_ConsD)
      ultimately show ?thesis using noted False by (simp add: cancel_values_def Let_def)
    next
      case fanned
      have got: "repo_get tenant i s1 = Some (?f j)" unfolding s1_def
        by (rule repo_get_update [OF fanned(1)]) (use row ok fanned(1) in \<open>auto dest: filter_eq_ConsD\<close>)
      have ok1: "job_table_ok (jobs (work s1))"
        unfolding s1_def using table_ok_update [OF ok] row by simp
      have "job_state (?f j) = DiscoveryJobStatus.CANCELLED"
        using fanned(2) by (simp add: cancel_values_def Let_def)
      then show ?thesis
        using terminal_stays [OF got _ ok1 reconcile_if_fanout_steps [OF fanned(3) ok1]] fanned(4)
        by (auto simp: is_terminal_def)
    qed blast
  qed
qed

text \<open>
  A cancellation request is idempotent. Once a request has returned, a further request for
  the same job (any user, reason, time and foreign transactions) returns the same job row with
  \<open>changed = False\<close> and leaves the store as it is.
\<close>

theorem request_cancellation_idempotent:
  assumes "sound s" and "rely env"
    and "request_cancellation env synchronized now tenant i requested_by reason s
           = (s', Inr (answer, changed))"
  shows "request_cancellation env2 synchronized2 now2 tenant i by2 reason2 s' = (s', Inr (answer, False))"
proof -
  from request_cancellation_done [OF assms] obtain j where "answer = Some j"
    "repo_get tenant i s' = Some j"
    "job_state j = DiscoveryJobStatus.CANCELLED \<or>
     \<not> is_terminal (job_state j) \<and> cancellation_requested_at j \<noteq> None" by blast
  then show ?thesis by (auto simp: request_cancellation_def is_terminal_def)
qed

lemma demo_sound: "sound demo_session"
  using demo_session_ok(1) by (simp add: sound_def clean_def demo_session_def Let_def)

theorem request_cancellation_idempotent_witness:
  "\<exists>s' answer changed.
     request_cancellation id True 50 ''acme'' 4 77 ''stop'' demo_session = (s', Inr (answer, changed)) \<and>
     request_cancellation id True 60 ''acme'' 4 78 ''again'' s' = (s', Inr (answer, False))"
proof -
  have "is_ok (snd (request_cancellation id True 50 ''acme'' 4 77 ''stop'' demo_session))" by code_simp
  then obtain s' answer changed where
    "request_cancellation id True 50 ''acme'' 4 77 ''stop'' demo_session = (s', Inr (answer, changed))"
    by (metis is_ok_snd surj_pair)
  with request_cancellation_idempotent [OF demo_sound rely_id(1) this] show ?thesis by blast
qed

text \<open>
  A cancelled fan-out parent that was still queued keeps its run open: with the default
  synchronisation of loaded objects the job reads \<open>cancelled\<close> right after the UPDATE, so the
  reconciliation meant for queued parents is never reached, and runs, device results and targets
  stay as other transactions left them.
\<close>

theorem queued_cancellation_skips_reconcile:
  "request_cancellation env True now tenant i requested_by reason s = (s', Inr (answer, True)) \<Longrightarrow>
   runs (work s') = runs (work (env s)) \<and> device_results (work s') = device_results (work (env s)) \<and>
   targets (work s') = targets (work (env s))"
  by (auto simp: request_cancellation_def update_returning_def Let_def cancel_values_def
      split: option.splits if_splits sum.splits prod.splits)

text \<open>The parent of a range, cancelled before any worker claimed it.\<close>

definition queued_session :: session where
  "queued_session =
     (let st = \<lparr>jobs = [new_job 0 8 ''acme'' 2 3 None None None None None], targets = [demo_scope],
                runs = [demo_run], device_results = [], transport_attempts = [], evidence = [], snapshots = []\<rparr>
      in \<lparr>committed = st, work = st, next_uuid = 20\<rparr>)"

theorem queued_cancellation_skips_reconcile_witness:
  "\<exists>s' answer. request_cancellation id True 50 ''acme'' 8 77 ''stop'' queued_session
      = (s', Inr (answer, True)) \<and> runs (work s') = [demo_run] \<and> run_status demo_run = STARTED"
proof -
  have run: "request_cancellation id True 50 ''acme'' 8 77 ''stop'' queued_session =
     (let values = cancel_values 50 77 ''stop'' QUEUED;
          s1 = put_jobs (map values (jobs (work queued_session))) queued_session
      in (s1, Inr (repo_get ''acme'' 8 s1, True)))"
    by (simp add: request_cancellation_def queued_session_def repo_get_def sql_first_def
        job_where_def update_returning_def sql_update_def sql_select_def Let_def new_job_def
        cancel_values_def clear_lease_def is_terminal_def put_jobs_def)
  from queued_cancellation_skips_reconcile [OF this [unfolded Let_def]] run show ?thesis
    by (simp add: queued_session_def Let_def demo_run_def child_run_def)
qed

section \<open>Forced resolution respects leases\<close>

text \<open>
  C8: Forcing a stale cancellation never takes a job from a live worker. When the job is running
  under a lease that is still valid at the time of the UPDATE, even one renewed after the read,
  the call raises and commits nothing.
\<close>

theorem resolve_stale_respects_lease:
  assumes "sound s" and "rely env" and "repo_get tenant i (env s) = Some j"
    and "job_state j = RUNNING" and "valid_lease now j"
  shows "\<exists>s' e. resolve_stale_cancellation env now tenant i s = (s', Inl e) \<and>
           committed s' \<in> {committed s, committed (env s)}"
proof (cases "repo_get tenant i s")
  case None
  then show ?thesis by (simp add: resolve_stale_cancellation_def)
next
  case (Some job)
  note env = reached_env [OF assms(2,1), unfolded reached_def]
  have live: "job_state job \<noteq> DiscoveryJobStatus.CANCELLED"
    using terminal_stays [OF Some _ _ env [THEN conjunct2, THEN conjunct1]] assms(1,3,4)
    by (auto simp: sound_def is_terminal_def)
  have none: "filter (stale_where now tenant i) (jobs (work (env s))) = []"
  proof (rule ccontr)
    assume "\<not> ?thesis"
    then obtain k where k: "k \<in> set (jobs (work (env s)))" "stale_where now tenant i k"
      by (auto simp: filter_empty_conv)
    then have "k = j"
      using repo_getI [of "env s" k] assms(3) env by (auto simp: stale_where_def job_where_def)
    with k(2) assms(5) show False by (auto simp: stale_where_def valid_lease_def split: option.splits)
  qed
  then have "sql_select (stale_where now tenant i) (jobs (work (env s))) = []"
    by (simp add: sql_select_def)
  moreover have "repo_get tenant i (rollback (put_jobs xs (env s))) = Some j" for xs
    using assms(3) relyD(1) [OF assms(2,1)] by (simp add: repo_get_def clean_committed)
  ultimately show ?thesis using Some live assms(4,5)
    by (auto simp: resolve_stale_cancellation_def update_returning_def Let_def)
qed

theorem resolve_stale_respects_lease_witness:
  "\<exists>s' e. resolve_stale_cancellation id 50 ''acme'' 8 demo_session = (s', Inl e)"
proof -
  have "repo_get ''acme'' 8 (id demo_session) = Some demo_parent"
    "job_state demo_parent = RUNNING" "valid_lease 50 demo_parent" by code_simp+
  from resolve_stale_respects_lease [OF demo_sound rely_id(1) this] show ?thesis by blast
qed

section \<open>Recovery closes the whole tree\<close>

lemma reconcile_owned_tree_run:
  assumes "repo_get tenant i s = Some job"
    and "reconcile_owned_tree id now tenant i owner msg s = (s', Inr x)"
  obtains s1 s2 code m where
    "close_children now tenant owner
       (if cancellation_requested tenant i s then DiscoveryJobStatus.CANCELLED else FAILED) code m
       (sql_select (\<lambda>j. job_tenant_id j = tenant \<and> parent_job_id j = Some i \<and> is_active j)
          (jobs (work s))) s = (s1, Inr ())"
    "transition id now tenant i
       (if cancellation_requested tenant i s then DiscoveryJobStatus.CANCELLED else FAILED)
       (Some code) (Some m) False (Some owner) s1 = (s2, Inr x)"
    "reconcile_if_fanout now tenant job (\<not> cancellation_requested tenant i s) s2 = (s', Inr ())"
  using assms that
  by (simp add: reconcile_owned_tree_def Let_def split: sum.splits prod.splits)

lemma reconcile_owned_tree_closes:
  assumes s: "sound s" and job: "repo_get tenant i s = Some job" "job_state job = RUNNING"
    and run: "reconcile_owned_tree id now tenant i owner msg s = (s', Inr x)"
  shows "(\<exists>j. repo_get tenant i s' = Some j \<and>
            job_state j = (if cancellation_requested_at job \<noteq> None
                           then DiscoveryJobStatus.CANCELLED else FAILED)) \<and>
         (\<forall>c \<in> set (jobs (work s)). job_tenant_id c = tenant \<and> parent_job_id c = Some i \<and>
            is_active c \<and> owned_child owner c \<longrightarrow> job_closed (job_id c) s')"
proof -
  let ?target = "if cancellation_requested tenant i s then DiscoveryJobStatus.CANCELLED else FAILED"
  let ?children = "sql_select (\<lambda>j. job_tenant_id j = tenant \<and> parent_job_id j = Some i \<and>
      is_active j) (jobs (work s))"
  obtain s1 s2 code m where
      cc: "close_children now tenant owner ?target code m ?children s = (s1, Inr ())"
    and tr: "transition id now tenant i ?target (Some code) (Some m) False (Some owner) s1 = (s2, Inr x)"
    and fan: "reconcile_if_fanout now tenant job (\<not> cancellation_requested tenant i s) s2 = (s', Inr ())"
    by (rule reconcile_owned_tree_run [OF job(1) run])
  have "distinct (map job_id ?children)"
    using s job_table_okD(1) by (auto simp: sound_def sql_select_def distinct_map_filter)
  then have one: "reached s s1" "\<forall>c \<in> set ?children. owned_child owner c \<longrightarrow> job_closed (job_id c) s1"
    using close_children_reached [OF cc reached_self [OF s]] by (auto simp: sql_select_def)
  note two = transition_id_Inr(1) [OF tr]
  have ok: "job_table_ok (jobs (work s1))" "job_table_ok (jobs (work s2))"
    using one(1) job_table.steps_inv [OF two] by (simp_all add: reached_def)
  note three = reconcile_if_fanout_steps [OF fan ok(2)]
  have final: "is_terminal ?target" by (simp add: is_terminal_def)
  from transition_closes [OF tr final ok(1)] obtain j where
    "repo_get tenant i s2 = Some j" "job_state j = ?target" by blast
  then have "\<exists>k. repo_get tenant i s' = Some k \<and> job_state k = ?target"
    using terminal_stays [OF _ _ ok(2) three, of tenant i j] final by simp
  moreover have "cancellation_requested tenant i s \<longleftrightarrow> cancellation_requested_at job \<noteq> None"
    using job by (simp add: cancellation_requested_def)
  moreover have "job_closed (job_id c) s'" if "c \<in> set ?children" "owned_child owner c" for c
    using one(2) that job_closed_steps [OF job_closed_steps [OF _ two] three] by blast
  ultimately show ?thesis by (simp add: sql_select_def)
qed


text \<open>The tree of \<open>demo_session\<close> under a target whose scope the repository does not fan out.\<close>

definition tree_session :: session where
  "tree_session = put_targets [demo_scope\<lparr>scope_type := ''device_group''\<rparr>]
     (demo_session\<lparr>committed := (work demo_session)\<lparr>targets := [demo_scope\<lparr>scope_type := ''device_group''\<rparr>]\<rparr>\<rparr>)"

lemma tree_sound: "sound tree_session"
  using demo_session_ok(1) by (simp add: sound_def clean_def tree_session_def put_targets_def)

lemma tree_children:
  "demo_child 4 \<in> set (jobs (work tree_session))" "demo_child 5 \<in> set (jobs (work tree_session))"
  "job_id (demo_child i) = i \<and> job_tenant_id (demo_child i) = ''acme'' \<and>
   parent_job_id (demo_child i) = Some 8 \<and> is_active (demo_child i) \<and> owned_child w (demo_child i)"
  by (simp_all add: tree_session_def demo_session_def Let_def demo_child_def new_job_def is_active_def
      owned_child_def)


text \<open>A worker that claims child 4 and finishes it between two statements of another transaction.\<close>

definition finishing_worker :: environment where
  "finishing_worker s =
     fst (transact (transition id 60 ''acme'' 4 SUCCEEDED None None True None)
       (fst (transact (claim id 50 ''acme'' 4 (Some 11) 60) s)))"

text \<open>
  The UPDATE that closes a queued child during recovery has no guard on its state. A worker that
  claims and finishes the child after the children were read (and itself keeps to the protocol)
  sees its committed success overwritten by a failure.
\<close>

theorem recovery_overwrites_finished_child:
  "rely finishing_worker \<and>
   map_option job_state (repo_get ''acme'' 4 (finishing_worker tree_session)) = Some SUCCEEDED \<and>
   map_option job_state (repo_get ''acme'' 4
     (fst (transact (recover_expired_owned_job finishing_worker 100 ''acme'' 8 90) tree_session)))
   = Some FAILED"
proof (intro conjI)
  show "rely finishing_worker"
    unfolding finishing_worker_def [abs_def]
    by (intro rely_transact rely_id preserves)
qed code_simp+

end
