(* ===== verification/Job_Protocol.thy ===== *)
theory Job_Protocol
  imports Job_Cancellation
begin

text \<open>
  All transactions of the job repository together: any number of workers, API requests and
  recovery loops, in any order, each transaction with foreign commits between its read and its
  guarded UPDATE. The operations whose UPDATE has no guard (recovery, abandonment and fan-out
  reconciliation) run without such commits.
\<close>

section \<open>The protocol\<close>

inductive protocol_step :: "session \<Rightarrow> session \<Rightarrow> bool" where
  create: "rely env \<Longrightarrow> protocol_step s
     (fst (transact (job_create env now tenant target run parent creator caps timeout corr) s))"
| claim: "rely env \<Longrightarrow> protocol_step s (fst (transact (claim env now tenant i owner lease) s))"
| renew: "protocol_step s (fst (transact (renew_lease now tenant i worker lease) s))"
| transition: "rely env \<Longrightarrow> protocol_step s
     (fst (transact (transition env now tenant i state code msg nocancel owner) s))"
| mark_failed: "rely env \<Longrightarrow> protocol_step s
     (fst (transact (mark_failed_after_rollback env now tenant i fcode fmsg owner) s))"
| select: "rely env \<Longrightarrow> protocol_step s
     (fst (transact (record_selection env now tenant i transport platform) s))"
| finalise: "rely env \<Longrightarrow> protocol_step s
     (fst (transact (finalise_cancellation env now tenant i owner) s))"
| request_cancel: "rely env \<Longrightarrow> protocol_step s
     (fst (transact (request_cancellation env synchronized now tenant i user reason) s))"
| resolve_stale: "rely env \<Longrightarrow> protocol_step s
     (fst (transact (resolve_stale_cancellation env now tenant i) s))"
| recover: "protocol_step s
     (fst (transact (recover_expired_owned_job id now tenant i stale_before) s))"
| abandon: "protocol_step s (fst (transact (abandon_owned_job id now tenant i worker fmsg) s))"
| reconcile: "protocol_step s
     (fst (transact (reconcile_parent_job now tenant i interrupted max_targets) s))"

definition initial_session :: "session \<Rightarrow> bool" where
  "initial_session s \<longleftrightarrow> clean s \<and> jobs (work s) = []"

lemma guaranteeD:
  "guarantee op \<Longrightarrow> sound s \<Longrightarrow>
   clean (fst (transact op s)) \<and> jobs_step\<^sup>*\<^sup>* (jobs (work s)) (jobs (work (fst (transact op s))))"
  by (simp add: guarantee_def)

lemma protocol_refines:
  "protocol_step s t \<Longrightarrow> sound s \<Longrightarrow> clean t \<and> jobs_step\<^sup>*\<^sup>* (jobs (work s)) (jobs (work t))"
  by (induction rule: protocol_step.induct) (erule guaranteeD [rotated], intro preserves, assumption?)+

lemma protocol_sound: "protocol_step s t \<Longrightarrow> sound s \<Longrightarrow> sound t"
  using protocol_refines job_table.steps_inv by (auto simp: sound_def)

interpretation protocol: invariant_system initial_session protocol_step sound
proof unfold_locales
  show "sound s" if "initial_session s" for s
    using that job_table.start_inv by (simp add: initial_session_def sound_def)
  show "sound t" if "protocol_step s t" "sound s" for s t using that by (rule protocol_sound)
qed

lemma protocol_steps_refine:
  "protocol_step\<^sup>*\<^sup>* s t \<Longrightarrow> sound s \<Longrightarrow> sound t \<and> jobs_step\<^sup>*\<^sup>* (jobs (work s)) (jobs (work t))"
proof (induction rule: rtranclp_induct)
  case (step t u)
  then show ?case using protocol_refines protocol_sound by (meson rtranclp_trans)
qed simp

section \<open>What the protocol promises\<close>



definition empty_jobs_session :: session where
  "empty_jobs_session =
     (let st = empty_store\<lparr>targets := [demo_scope], runs := [demo_run]\<rparr>
      in \<lparr>committed = st, work = st, next_uuid = 20\<rparr>)"

text \<open>
  C2: In every store reachable from an empty job table there is at most one active (queued or running)
  job per tenant and target, a job that is not running holds no lease, no job was ever started
  more than once, and exactly the terminal jobs carry a completion time.
\<close>

theorem reachable_tables:
  assumes "reachable initial_session protocol_step s"
    and "i \<in> set (jobs (work s))" and "j \<in> set (jobs (work s))"
  shows "(is_active i \<and> is_active j \<and> job_tenant_id i = job_tenant_id j \<and>
            job_target_id i = job_target_id j \<longrightarrow> i = j) \<and>
         (job_state i \<noteq> RUNNING \<longrightarrow> unleased i) \<and> attempts i \<le> 1 \<and>
         (is_terminal (job_state i) \<longleftrightarrow> job_completed_at i \<noteq> None)"
proof -
  have ok: "job_table_ok (jobs (work s))"
    using protocol.reachable_inv [OF assms(1)] by (simp add: sound_def)
  have "i = j" if "is_active i" "is_active j" "same_target i j"
    using job_table_okD(2) [OF ok assms(2,3) that] unique_key [OF job_table_okD(1) [OF ok] assms(2,3)] by blast
  moreover have "job_ok i" using job_table_okD(3) [OF ok assms(2)] .
  ultimately show ?thesis by (auto simp: job_ok_def same_target_def)
qed

theorem reachable_tables_witness:
  "attempts (new_job 7 20 ''acme'' 2 3 None None None None None) \<le> 1 \<and>
   reachable initial_session protocol_step
     (fst (transact (job_create id 7 ''acme'' 2 3 None None None None None) empty_jobs_session))"
proof -
  let ?s = "fst (transact (job_create id 7 ''acme'' 2 3 None None None None None) empty_jobs_session)"
  let ?j = "new_job 7 20 ''acme'' 2 3 None None None None None"
  have "initial_session empty_jobs_session"
    by (simp add: initial_session_def clean_def empty_jobs_session_def empty_store_def Let_def)
  then have reach: "reachable initial_session protocol_step ?s"
    using protocol_step.create [OF rely_id(1)] by (blast intro: reachable.intros)
  have "?j \<in> set (jobs (work ?s))" by code_simp
  from reachable_tables [OF reach this this] reach show ?thesis by blast
qed



section \<open>Claims are exclusive\<close>

lemma claim_Inr:
  assumes "claim env now tenant i owner lease s = (s', Inr x)"
  obtains s0 w where "s0 \<in> {s, snd (uuid4 s)}" "owner = None \<or> owner = Some w"
    "guarded_update (\<lambda>j. job_where tenant i j \<and> claimable j) (claim_values now w lease)
       (InvalidDiscoveryTransitionError ''Only queued discovery jobs can be claimed.'') tenant i (env s0)
     = (s', Inr x)"
  using assms that
  by (auto simp: claim_def Let_def uuid4_def split: if_splits option.splits prod.splits)

lemma claimed_row:
  assumes "sound s" and "rely env" and "claim env now tenant i owner lease s = (s', Inr x)"
  obtains j w rows where "x = Some (claim_values now w lease j)" "repo_get tenant i s' = x"
    "claimable j" "job_ok j" "owner = None \<or> owner = Some w" "job_table_ok (jobs (work s'))"
    "jobs_step\<^sup>*\<^sup>* (jobs (work s)) rows" "j \<in> set rows" "job_id j = i"
proof -
  obtain s0 w where s0: "s0 \<in> {s, snd (uuid4 s)}" and w: "owner = None \<or> owner = Some w"
    and upd: "guarded_update (\<lambda>j. job_where tenant i j \<and> claimable j) (claim_values now w lease)
       (InvalidDiscoveryTransitionError ''Only queued discovery jobs can be claimed.'') tenant i (env s0)
     = (s', Inr x)"
    by (rule claim_Inr [OF assms(3)])
  have "sound s0" "work s0 = work s" using s0 assms(1) by auto
  then have ok0: "job_table_ok (jobs (work (env s0)))"
      "jobs_step\<^sup>*\<^sup>* (jobs (work s)) (jobs (work (env s0)))"
    using reached_env [OF assms(2), of s0] by (simp_all add: reached_def)
  note g = guarded_update_Inr [OF upd]
  then obtain j where "filter (\<lambda>j. job_where tenant i j \<and> claimable j) (jobs (work (env s0))) = [j]" by blast
  then have j: "j \<in> set (jobs (work (env s0)))" "job_where tenant i j" "claimable j"
    by (auto dest: filter_eq_ConsD)
  have ok': "job_table_ok (jobs (work s'))"
    using g table_ok_update [OF ok0(1), of "\<lambda>j. job_where tenant i j \<and> claimable j" "claim_values now w lease"]
    by (simp add: row_step.claimed)
  moreover have "claim_values now w lease j \<in> set (jobs (work s'))"
    using g j by (auto simp: set_sql_update intro!: bexI [of _ j])
  ultimately have "repo_get tenant i s' = Some (claim_values now w lease j)"
    using j(2) by (intro repo_getI) (auto simp: job_where_def)
  then show ?thesis
    using g j job_table_okD(3) [OF ok0(1) j(1)] w ok' ok0(2)
    by (intro that [of w j "jobs (work (env s0))"]) (auto simp: job_where_def)
qed

text \<open>A job that has left the queue cannot be claimed, whatever happened in between.\<close>

lemma not_queued_not_claimable:
  assumes "sound s" and "repo_get tenant i s = Some j" and "job_state j \<noteq> QUEUED"
    and "protocol_step\<^sup>*\<^sup>* s t" and "rely env"
  shows "\<exists>e. snd (claim env now tenant i owner lease t) = Inl e"
proof (rule ccontr)
  assume "\<not> ?thesis"
  then obtain t' x where run: "claim env now tenant i owner lease t = (t', Inr x)"
    by (metis surj_pair snd_conv sum.exhaust)
  note t = protocol_steps_refine [OF assms(4,1)]
  obtain k rows where k: "claimable k" "jobs_step\<^sup>*\<^sup>* (jobs (work t)) rows" "k \<in> set rows" "job_id k = i"
    by (rule claimed_row [OF conjunct1 [OF t] assms(5) run]) blast
  have "jobs_step\<^sup>*\<^sup>* (jobs (work s)) rows" using t k(2) by (meson rtranclp_trans)
  then have "row_step\<^sup>*\<^sup>* j k"
    using job_history k(3,4) repo_get_Some [OF assms(2)] assms(1) by (simp add: sound_def)
  from row_steps_not_queued [OF this assms(3)] k(1) show False by (simp add: claimable_def)
qed

text \<open>
  C3: A successful claim hands the job to exactly one worker. The returned row is running, leased to
  the claiming worker until \<open>now + lease\<close> with its first attempt counted, and whatever transactions
  follow, every later claim of that job raises.
\<close>

theorem claim_is_exclusive:
  assumes "sound s" and "rely env"
    and "transact (claim env now tenant i (Some owner) lease) s = (s1, Inr (Some j))"
    and "protocol_step\<^sup>*\<^sup>* s1 t" and "rely env2"
  shows "job_state j = RUNNING \<and> execution_owner j = Some owner \<and>
         lease_expires_at j = Some (now + lease) \<and> attempts j = 1 \<and>
         (\<exists>e. snd (claim env2 now2 tenant i owner2 lease2 t) = Inl e)"
proof -
  obtain s0 where run: "claim env now tenant i (Some owner) lease s = (s0, Inr (Some j))"
    and s1: "s1 = commit s0"
    using assms(3) by (auto simp: transact_def split: prod.splits sum.splits)
  obtain j0 w rows where j: "Some j = Some (claim_values now w lease j0)" "repo_get tenant i s0 = Some j"
      "claimable j0" "job_ok j0" "Some owner = None \<or> Some owner = Some w" "job_table_ok (jobs (work s0))"
    by (rule claimed_row [OF assms(1,2) run]) blast
  have row: "job_state j = RUNNING \<and> execution_owner j = Some owner \<and>
      lease_expires_at j = Some (now + lease) \<and> attempts j = 1"
    using j(1,3,4,5) by (auto simp: claimable_def job_ok_def)
  have "sound s1" using j(6) by (simp add: sound_def clean_def s1)
  moreover have "repo_get tenant i s1 = Some j" using j(2) by (simp add: s1 repo_get_def)
  ultimately have "\<exists>e. snd (claim env2 now2 tenant i owner2 lease2 t) = Inl e"
    using row not_queued_not_claimable [OF _ _ _ assms(4,5)] by simp
  with row show ?thesis by blast
qed

theorem claim_is_exclusive_witness:
  "\<exists>s1 j. transact (claim id 50 ''acme'' 4 (Some 11) 60) demo_session = (s1, Inr (Some j)) \<and>
     execution_owner j = Some 11 \<and> (\<exists>e. snd (claim id 51 ''acme'' 4 (Some 12) 60 s1) = Inl e)"
proof -
  have "case snd (transact (claim id 50 ''acme'' 4 (Some 11) 60) demo_session) of
          Inr (Some j) \<Rightarrow> True | _ \<Rightarrow> False" by code_simp
  then obtain s1 j where
    run: "transact (claim id 50 ''acme'' 4 (Some 11) 60) demo_session = (s1, Inr (Some j))"
    by (cases "transact (claim id 50 ''acme'' 4 (Some 11) 60) demo_session")
       (auto split: sum.splits option.splits)
  from claim_is_exclusive [OF demo_sound rely_id(1) run rtranclp.rtrancl_refl rely_id(1)] run
  show ?thesis by blast
qed

lemma guarded_update_ok:
  assumes "job_table_ok (jobs (work s))" and "\<And>j. p j \<Longrightarrow> job_id j = i"
  shows "is_ok (snd (guarded_update p f conflict tenant i s)) \<longleftrightarrow> (\<exists>j \<in> set (jobs (work s)). p j)"
proof -
  have "filter (\<lambda>j. job_id j = i \<and> p j) (jobs (work s)) = filter p (jobs (work s))"
    using assms(2) by (intro filter_cong) auto
  then have "length (filter p (jobs (work s))) \<le> 1"
    using filter_unique_key [OF job_table_okD(1) [OF assms(1)], of i p] by simp
  then consider "filter p (jobs (work s)) = []" | j where "filter p (jobs (work s)) = [j]"
    by (cases "filter p (jobs (work s))") auto
  then show ?thesis
  proof cases
    case 1
    then show ?thesis
      by (auto simp: guarded_update_def update_returning_def sql_select_def filter_empty_conv)
  next
    case (2 j)
    then have "j \<in> set (jobs (work s)) \<and> p j" by (auto dest: filter_eq_ConsD)
    with 2 show ?thesis by (auto simp: guarded_update_def update_returning_def sql_select_def)
  qed
qed

text \<open>
  C4: With no interference a claim succeeds exactly when it should: the lease is positive, the job is
  not the protected one, and the tenant's job is queued and holds no lease.
\<close>

theorem claim_succeeds_iff:
  assumes "sound s"
  shows "is_ok (snd (claim id now tenant i owner lease s)) \<longleftrightarrow>
           \<not> is_protected i \<and> 0 < lease \<and> (\<exists>j. repo_get tenant i s = Some j \<and> claimable j)"
proof -
  have ok: "job_table_ok (jobs (work s))" using assms by (simp add: sound_def)
  have found: "(\<exists>j \<in> set (jobs (work s)). job_where tenant i j \<and> claimable j) \<longleftrightarrow>
      (\<exists>j. repo_get tenant i s = Some j \<and> claimable j)"
    using repo_getI [OF ok] repo_get_Some by (metis job_where_def)
  have upd: "is_ok (snd (guarded_update (\<lambda>j. job_where tenant i j \<and> claimable j) (claim_values now w lease)
      c tenant i s0)) \<longleftrightarrow> (\<exists>j. repo_get tenant i s = Some j \<and> claimable j)"
    if "work s0 = work s" for s0 w c
    using guarded_update_ok [of s0 "\<lambda>j. job_where tenant i j \<and> claimable j" i] ok that found
    by (simp add: job_where_def)
  have get: "repo_get tenant i (snd (uuid4 s)) = repo_get tenant i s" by (simp add: repo_get_def)
  show ?thesis
  proof (cases "repo_get tenant i s")
    case None
    then show ?thesis using get by (auto simp: claim_def Let_def uuid4_def split: option.splits)
  next
    case (Some j)
    then show ?thesis
      using get upd [of s] upd [of "snd (uuid4 s)"]
      by (cases owner) (auto simp: claim_def Let_def uuid4_def not_le)
  qed
qed

theorem claim_succeeds_iff_witness:
  "is_ok (snd (claim id 50 ''acme'' 4 None 60 demo_session)) \<and>
   \<not> is_ok (snd (claim id 50 ''acme'' 8 None 60 demo_session))"
proof -
  have "repo_get ''acme'' 4 demo_session = Some (demo_child 4)" "claimable (demo_child 4)"
    "repo_get ''acme'' 8 demo_session = Some demo_parent" "\<not> claimable demo_parent"
    "\<not> is_protected 4" by code_simp+
  then show ?thesis
    using claim_succeeds_iff [OF demo_sound, of 50 "''acme''" 4 None 60]
      claim_succeeds_iff [OF demo_sound, of 50 "''acme''" 8 None 60] by simp
qed

section \<open>Fencing\<close>

text \<open>
  C6: A worker that has lost a job can no longer write it. When the committed row of the job is not
  running under worker \<open>w\<close>, a transition that names \<open>w\<close> as the expected owner raises and commits
  nothing, and its heartbeat does not touch the row.
\<close>

theorem lost_worker_is_fenced:
  assumes "sound s" and "rely env" and "repo_get tenant i (env s) = Some j"
    and "execution_owner j \<noteq> Some w"
  shows "(\<exists>e. snd (transition env now tenant i state code msg nocancel (Some w) s) = Inl e) \<and>
         (\<forall>k \<in> set (jobs (work (env s))). job_id k = i \<longrightarrow>
            k \<in> set (jobs (work (fst (renew_lease now tenant r w lease (env s))))))"
proof
  note env = reached_env [OF assms(2,1), unfolded reached_def]
  have none: "\<not> (\<exists>k \<in> set (jobs (work (env s))). transition_where tenant i st nocancel (Some w) k)" for st
    using assms(3,4) repo_getI [of "env s"] env by (fastforce simp: transition_where_def job_where_def)
  have "\<not> is_ok (snd (guarded_update (transition_where tenant i st nocancel (Some w))
      (transition_values now state code msg) c tenant i (env s)))" for st c
    using guarded_update_ok [of "env s" "transition_where tenant i st nocancel (Some w)" i] none env
    by (auto simp: transition_where_def job_where_def)
  then show "\<exists>e. snd (transition env now tenant i state code msg nocancel (Some w) s) = Inl e"
    unfolding transition_def is_ok_iff by (auto split: option.splits sum.splits) (metis sum.exhaust)
  show "\<forall>k \<in> set (jobs (work (env s))). job_id k = i \<longrightarrow>
            k \<in> set (jobs (work (fst (renew_lease now tenant r w lease (env s)))))"
  proof (intro ballI impI)
    fix k assume k: "k \<in> set (jobs (work (env s)))" "job_id k = i"
    have "k = j" using unique_key job_table_okD(1) env k repo_get_Some [OF assms(3)] by metis
    with assms(4) have "\<not> renewable tenant r w k" by (simp add: renewable_def)
    with k(1) show "k \<in> set (jobs (work (fst (renew_lease now tenant r w lease (env s)))))"
      using relyD(1) [OF assms(2,1)]
      by (auto simp: renew_lease_def update_returning_def set_sql_update clean_committed
          intro!: bexI [of _ k])
  qed
qed

text \<open>The parent's lease was taken by worker 9; worker 12 is not its owner.\<close>

theorem lost_worker_is_fenced_witness:
  "\<exists>e. snd (transition id 50 ''acme'' 8 SUCCEEDED None None False (Some 12) demo_session) = Inl e"
proof -
  have "repo_get ''acme'' 8 (id demo_session) = Some demo_parent" "execution_owner demo_parent \<noteq> Some 12"
    by code_simp+
  from lost_worker_is_fenced [OF demo_sound rely_id(1) this] show ?thesis by blast
qed

end
