(* ===== verification/Service_Probing.thy ===== *)
theory Service_Probing
  imports Discovery_Contracts Py_Text
begin

text \<open>
  Service probing (\<^verbatim>\<open>discovery/probing.py\<close>): which management services answer on a host. The
  network itself is a parameter: \<open>attempt\<close> says how the socket attempt for a service and a port
  ends. Response times are rational milliseconds.
\<close>

section \<open>Services\<close>

datatype TransportService = SVC_SSH | SVC_TELNET | SVC_HTTP | SVC_HTTPS | SVC_SNMP

fun transport_port :: "TransportService \<Rightarrow> nat" where
  "transport_port SVC_SSH = 22"
| "transport_port SVC_TELNET = 23"
| "transport_port SVC_HTTP = 80"
| "transport_port SVC_HTTPS = 443"
| "transport_port SVC_SNMP = 161"

text \<open>The dictionary \<open>CAPABILITY_TO_SERVICE\<close>, keyed by capability values, in its order.\<close>

definition capability_services :: "(string, TransportService) dict" where
  "capability_services =
     [(''SSH'', SVC_SSH), (''TELNET'', SVC_TELNET), (''HTTP'', SVC_HTTP), (''HTTPS'', SVC_HTTPS),
      (''SNMP'', SVC_SNMP)]"

definition get_service_for_capability :: "TransportCapability \<Rightarrow> TransportService option" where
  "get_service_for_capability c = dict_get capability_services (capability_value c)"

text \<open>A plain string is looked up in upper case.\<close>

definition get_service_for_name :: "string \<Rightarrow> TransportService option" where
  "get_service_for_name s = dict_get capability_services (upper s)"

definition parse_capability :: "string \<Rightarrow> TransportCapability option" where
  "parse_capability s = find (\<lambda>c. capability_value c = s) [SSH, SNMP, TELNET, ICMP, HTTP, HTTPS]"

definition get_capabilities_from_services ::
  "TransportService list \<Rightarrow> TransportCapability list" where
  "get_capabilities_from_services services =
     concat (map (\<lambda>service.
       case find (\<lambda>(name, svc). svc = service) capability_services of
         None \<Rightarrow> []
       | Some (name, svc) \<Rightarrow>
           (case parse_capability name of None \<Rightarrow> [] | Some c \<Rightarrow> [c])) services)"

section \<open>One service\<close>

record ServiceProbeResult =
  probed_service :: TransportService
  probed_address :: string
  probed_port :: nat
  is_available :: bool
  response_time_ms :: rat
  error_message :: "string option"

text \<open>
  How a socket attempt ends: with a connection, an \<open>OSError\<close>, the time-out of \<open>wait_for\<close> (since
  Python 3.11 a \<open>TimeoutError\<close>, hence also an \<open>OSError\<close>), or another exception.
\<close>

datatype attempt_end = Answered | Os_Error | Timed_Out | Raised string

definition tcp_end :: "attempt_end \<Rightarrow> attempt_end + bool" where
  "tcp_end a =
     (case a of Answered \<Rightarrow> Inr True | Os_Error \<Rightarrow> Inr False | Timed_Out \<Rightarrow> Inr False
      | Raised _ \<Rightarrow> Inl a)"

definition udp_end :: "attempt_end \<Rightarrow> attempt_end + bool" where
  "udp_end a = (case a of Answered \<Rightarrow> Inr True | _ \<Rightarrow> Inr False)"

definition probe_single_service ::
  "(TransportService \<Rightarrow> nat \<Rightarrow> attempt_end) \<Rightarrow> rat \<Rightarrow> string \<Rightarrow> TransportService \<Rightarrow>
   ServiceProbeResult" where
  "probe_single_service attempt elapsed address service =
     (let port = transport_port service;
          outcome = (if service = SVC_SNMP then udp_end (attempt service port)
                     else tcp_end (attempt service port));
          probe = (\<lambda>ok err. \<lparr>probed_service = service, probed_address = address,
                     probed_port = port, is_available = ok, response_time_ms = elapsed,
                     error_message = err\<rparr>)
      in case outcome of
           Inr ok \<Rightarrow> probe ok (if ok then None else Some ''Service not responding'')
         | Inl (Raised msg) \<Rightarrow> probe False (Some msg)
         | Inl _ \<Rightarrow> probe False (Some ''Connection timeout''))"

section \<open>One host\<close>

record HostProbeResult =
  host_address :: string
  host_services :: "(TransportService, ServiceProbeResult) dict"
  host_reachable :: bool

definition get_available_services :: "HostProbeResult \<Rightarrow> TransportService list" where
  "get_available_services h = map fst (filter (\<lambda>(s, r). is_available r) (host_services h))"

definition is_service_available :: "HostProbeResult \<Rightarrow> TransportService \<Rightarrow> bool" where
  "is_service_available h s =
     (case dict_get (host_services h) s of None \<Rightarrow> False | Some r \<Rightarrow> is_available r)"

text \<open>
  A probe task either gives a result or an exception (a cancelled task); \<open>gather\<close> returns them in
  the order of the services.
\<close>

definition failed_probe :: "string \<Rightarrow> TransportService \<Rightarrow> string \<Rightarrow> ServiceProbeResult" where
  "failed_probe address service msg =
     \<lparr>probed_service = service, probed_address = address, probed_port = transport_port service,
      is_available = False, response_time_ms = 0, error_message = Some msg\<rparr>"

definition probe_host ::
  "(TransportService \<Rightarrow> string + ServiceProbeResult) \<Rightarrow> string \<Rightarrow> TransportService list \<Rightarrow>
   HostProbeResult" where
  "probe_host probe address services =
     (let results = fold (\<lambda>s d. dict_set s
            (case probe s of Inl msg \<Rightarrow> failed_probe address s msg | Inr r \<Rightarrow> r) d) services [];
          any_reachable = list_ex (\<lambda>s. case probe s of Inl _ \<Rightarrow> False | Inr r \<Rightarrow> is_available r) services
      in \<lparr>host_address = address, host_services = results,
          host_reachable = any_reachable \<or> length results > 0\<rparr>)"

definition probe_hosts ::
  "(string \<Rightarrow> string + HostProbeResult) \<Rightarrow> string list \<Rightarrow> (string, HostProbeResult) dict" where
  "probe_hosts probe addresses =
     fold (\<lambda>a d. case probe a of Inl _ \<Rightarrow> d | Inr r \<Rightarrow> dict_set a r d) addresses []"

section \<open>What probing reports\<close>

lemma dict_member: "dict_ok d \<Longrightarrow> (k, v) \<in> set d \<longleftrightarrow> dict_get d k = Some v"
  by (simp add: dict_ok_def dict_get_def dict_keys_def)

lemma probe_host_services:
  "dict_ok (host_services (probe_host probe address services))"
  "dict_get (host_services (probe_host probe address services)) s =
     (if s \<in> set services
      then Some (case probe s of Inl msg \<Rightarrow> failed_probe address s msg | Inr r \<Rightarrow> r) else None)"
  by (simp_all add: probe_host_def Let_def pydict.invar_fold_put pydict.get_fold_put
      pydict.invar_empty pydict.get_empty)

text \<open>
  Probing a host lists as available exactly the requested services whose probe answered, each
  once, and the two queries of the result agree.
\<close>

theorem probe_host_available:
  "distinct (get_available_services (probe_host probe address services)) \<and>
   set (get_available_services (probe_host probe address services)) =
     {s \<in> set services. \<exists>r. probe s = Inr r \<and> is_available r} \<and>
   is_service_available (probe_host probe address services) s =
     (s \<in> set (get_available_services (probe_host probe address services)))"
proof -
  let ?h = "probe_host probe address services"
  have members: "s \<in> set (get_available_services ?h) \<longleftrightarrow>
      (\<exists>r. dict_get (host_services ?h) s = Some r \<and> is_available r)" for s
    using dict_member [OF probe_host_services(1)] by (force simp: get_available_services_def)
  have "s \<in> set (get_available_services ?h) \<longleftrightarrow>
      s \<in> set services \<and> (\<exists>r. probe s = Inr r \<and> is_available r)" for s
    unfolding members probe_host_services(2) by (auto simp: failed_probe_def split: sum.splits)
  moreover have "distinct (get_available_services ?h)"
    using probe_host_services(1) [of probe address services]
    by (simp add: get_available_services_def dict_ok_def distinct_map_filter)
  moreover have "is_service_available ?h s = (s \<in> set (get_available_services ?h))"
    unfolding members is_service_available_def by (simp split: option.splits)
  ultimately show ?thesis by auto
qed

text \<open>
  The reachability flag of a probed host carries no information: it is set for every non-empty
  list of services, even when no probe answered.
\<close>

theorem probe_host_always_reachable:
  "host_reachable (probe_host probe address services) \<longleftrightarrow> services \<noteq> []"
proof -
  have "host_services (probe_host probe address services) \<noteq> []" if "services \<noteq> []"
    using that probe_host_services(2) [of probe address services "hd services"]
    by (auto simp: dict_get_def)
  then show ?thesis by (auto simp: probe_host_def Let_def)
qed

text \<open>
  The two mappings between capabilities and services are inverse to each other on every list of
  capabilities that have a service (all but ICMP).
\<close>

theorem capability_service_roundtrip:
  assumes "ICMP \<notin> set cs"
  shows "get_capabilities_from_services (map (\<lambda>c. the (get_service_for_capability c)) cs) = cs"
  using assms
proof (induction cs)
  case (Cons c cs)
  moreover have "get_capabilities_from_services (s # ss) =
      get_capabilities_from_services [s] @ get_capabilities_from_services ss" for s ss
    by (simp add: get_capabilities_from_services_def)
  moreover have "get_capabilities_from_services [the (get_service_for_capability c)] = [c]"
    using Cons.prems by (cases c) (simp_all add: get_service_for_capability_def dict_get_def
        capability_services_def get_capabilities_from_services_def parse_capability_def)
  ultimately show ?case by (metis append_Cons append_Nil list.set_intros(2) list.simps(9))
qed (simp add: get_capabilities_from_services_def)

theorem capability_service_roundtrip_witness:
  "get_capabilities_from_services (map (\<lambda>c. the (get_service_for_capability c)) [HTTPS, SSH, SNMP])
   = [HTTPS, SSH, SNMP]"
  using capability_service_roundtrip [of "[HTTPS, SSH, SNMP]"] by simp

end
