(* ===== verification/Transport_Policy.thy ===== *)
theory Transport_Policy
  imports Service_Probing "HOL-Library.Sublist"
begin

text \<open>
  Multi-transport policies (\<^verbatim>\<open>discovery/transport_policy.py\<close>): the ordered chain of transports a
  credential profile allows, its security validation and credential compatibility.
\<close>

section \<open>Profiles and tables\<close>

record CredentialProfileRecord =
  profile_id :: uuid
  profile_tenant_id :: string
  profile_name :: string
  profile_description :: "string option"
  profile_vendor :: "string option"
  profile_platform :: "string option"
  credential_type :: "string option"
  profile_username :: "string option"
  transport_types :: "string list"
  provider_reference :: string
  secret_status :: string
  profile_enabled :: bool
  profile_created_at :: time
  profile_updated_at :: time

definition capability_to_service :: "TransportCapability \<Rightarrow> TransportService option" where
  "capability_to_service c =
     (case c of SSH \<Rightarrow> Some SVC_SSH | TELNET \<Rightarrow> Some SVC_TELNET | HTTP \<Rightarrow> Some SVC_HTTP
      | HTTPS \<Rightarrow> Some SVC_HTTPS | SNMP \<Rightarrow> Some SVC_SNMP | ICMP \<Rightarrow> None)"

definition INSECURE_TRANSPORTS :: "TransportCapability set" where
  "INSECURE_TRANSPORTS = {TELNET, HTTP}"

definition credential_compatibility :: "(string, string list) dict" where
  "credential_compatibility =
     [(''ssh_password'', [''ssh'', ''telnet'', ''http'', ''https'']),
      (''ssh_key'', [''ssh'']),
      (''telnet_password'', [''telnet'']),
      (''snmp_v2c'', [''snmp'']),
      (''snmp_v3'', [''snmp'']),
      (''http_basic'', [''http'', ''https'']),
      (''http_token'', [''http'', ''https''])]"

definition compatible_transports :: "string \<Rightarrow> string list" where
  "compatible_transports t =
     (case dict_get credential_compatibility t of None \<Rightarrow> [] | Some xs \<Rightarrow> xs)"

text \<open>Python's \<open>if credential_type\<close>: neither missing nor empty.\<close>

fun given :: "string option \<Rightarrow> bool" where
  "given None = False"
| "given (Some t) = (t \<noteq> [])"

section \<open>Policies\<close>

record TransportPolicyEntry =
  entry_capability :: TransportCapability
  entry_name :: string
  entry_service :: TransportService
  entry_insecure :: bool
  entry_compatible :: bool

record MultiTransportPolicy =
  transports :: "TransportPolicyEntry list"
  allow_insecure :: bool
  allow_insecure_http :: bool
  policy_profile_id :: "uuid option"

text \<open>The entries \<open>__post_init__\<close> refuses; a policy with such an entry raises a \<open>ValueError\<close>.\<close>

definition refused_entry :: "bool \<Rightarrow> bool \<Rightarrow> TransportPolicyEntry \<Rightarrow> bool" where
  "refused_entry insecure http e \<longleftrightarrow>
     entry_insecure e \<and>
     (entry_capability e = TELNET \<and> \<not> insecure \<or> entry_capability e = HTTP \<and> \<not> http)"

definition make_policy ::
  "TransportPolicyEntry list \<Rightarrow> bool \<Rightarrow> bool \<Rightarrow> uuid option \<Rightarrow> string list + MultiTransportPolicy" where
  "make_policy ts insecure http profile =
     (let refused = (if \<not> insecure \<or> \<not> http then filter (refused_entry insecure http) ts else [])
      in if refused \<noteq> [] then Inl (map entry_name refused)
         else Inr \<lparr>transports = ts, allow_insecure = insecure, allow_insecure_http = http,
                   policy_profile_id = profile\<rparr>)"

definition transport_names :: "MultiTransportPolicy \<Rightarrow> string list" where
  "transport_names p = map entry_name (transports p)"

definition has_insecure_transport :: "MultiTransportPolicy \<Rightarrow> bool" where
  "has_insecure_transport p = list_ex entry_insecure (transports p)"

definition policy_is_empty :: "MultiTransportPolicy \<Rightarrow> bool" where
  "policy_is_empty p \<longleftrightarrow> length (transports p) = 0"

definition get_compatible_transports ::
  "MultiTransportPolicy \<Rightarrow> string option \<Rightarrow> TransportPolicyEntry list" where
  "get_compatible_transports p ctype =
     (if \<not> given ctype then transports p
      else filter (\<lambda>t. entry_name t \<in> set (compatible_transports (the ctype))) (transports p))"

section \<open>From a credential profile\<close>

text \<open>One turn of the loop: an unknown, unmapped or unapproved transport is skipped.\<close>

definition profile_entry ::
  "bool \<Rightarrow> bool \<Rightarrow> string option \<Rightarrow> string \<Rightarrow> TransportPolicyEntry option" where
  "profile_entry insecure http ctype name =
     (case parse_capability (upper name) of
        None \<Rightarrow> None
      | Some c \<Rightarrow>
          (case capability_to_service c of
             None \<Rightarrow> None
           | Some service \<Rightarrow>
               if (c = TELNET \<and> \<not> insecure) \<or> (c = HTTP \<and> \<not> http) then None
               else Some \<lparr>entry_capability = c, entry_name = lower name, entry_service = service,
                          entry_insecure = c \<in> INSECURE_TRANSPORTS,
                          entry_compatible =
                            (if given ctype
                             then lower name \<in> set (compatible_transports (the ctype)) else True)\<rparr>))"

text \<open>The second loop keeps the first entry of each name.\<close>

fun unique_entries :: "string list \<Rightarrow> TransportPolicyEntry list \<Rightarrow> TransportPolicyEntry list" where
  "unique_entries seen [] = []"
| "unique_entries seen (t # ts) =
     (if entry_name t \<in> set seen then unique_entries seen ts
      else t # unique_entries (entry_name t # seen) ts)"

text \<open>SSH is the default of a profile without transports.\<close>

definition profile_names :: "CredentialProfileRecord \<Rightarrow> string list" where
  "profile_names profile = (if transport_types profile = [] then [''ssh''] else transport_types profile)"

definition from_credential_profile ::
  "CredentialProfileRecord \<Rightarrow> bool \<Rightarrow> bool \<Rightarrow> string list + MultiTransportPolicy" where
  "from_credential_profile profile insecure http =
     (let entries = List.map_filter (profile_entry insecure http (credential_type profile))
            (profile_names profile)
      in make_policy (unique_entries [] entries) insecure http (Some (profile_id profile)))"

section \<open>Policies are safe by construction\<close>

lemma unique_entries_names:
  "distinct (map entry_name (unique_entries seen ts)) \<and>
   set (map entry_name (unique_entries seen ts)) = set (map entry_name ts) - set seen"
  by (induction seen ts rule: unique_entries.induct) auto

lemma unique_entries_subseq: "subseq (unique_entries seen ts) ts"
  by (induction seen ts rule: unique_entries.induct) auto

lemma unique_entries_set: "e \<in> set (unique_entries seen ts) \<Longrightarrow> e \<in> set ts"
  by (induction seen ts rule: unique_entries.induct) (auto split: if_splits)

lemma profile_entry_Some:
  assumes "profile_entry insecure http ctype name = Some e"
  shows "\<not> refused_entry insecure http e" "entry_name e = lower name"
    "entry_insecure e \<longleftrightarrow> entry_capability e \<in> {TELNET, HTTP}"
    "capability_value (entry_capability e) = upper name"
    "capability_to_service (entry_capability e) = Some (entry_service e)"
    "entry_compatible e \<longleftrightarrow> \<not> given ctype \<or> entry_name e \<in> set (compatible_transports (the ctype))"
  using assms
  by (auto simp: profile_entry_def refused_entry_def INSECURE_TRANSPORTS_def parse_capability_def
      find_Some_iff split: option.splits if_splits)

lemma set_map_filter: "set (List.map_filter f xs) = {y. \<exists>x \<in> set xs. f x = Some y}"
  by (force simp: map_filter_def)

lemma subseq_map_filter:
  assumes "\<And>x y. x \<in> set xs \<Longrightarrow> f x = Some y \<Longrightarrow> g y = h x"
  shows "subseq (map g (List.map_filter f xs)) (map h xs)"
  using assms by (induction xs) (auto simp: map_filter_simps split: option.split)

lemma from_credential_profile_Inr:
  obtains p where "from_credential_profile profile insecure http = Inr p"
    "transports p = unique_entries []
       (List.map_filter (profile_entry insecure http (credential_type profile)) (profile_names profile))"
    "allow_insecure p = insecure" "allow_insecure_http p = http"
proof -
  let ?es = "List.map_filter (profile_entry insecure http (credential_type profile)) (profile_names profile)"
  have "\<not> refused_entry insecure http e" if "e \<in> set (unique_entries [] ?es)" for e
    using unique_entries_set [OF that] profile_entry_Some(1) by (auto simp: set_map_filter)
  then have "filter (refused_entry insecure http) (unique_entries [] ?es) = []"
    by (simp add: filter_empty_conv)
  then have "from_credential_profile profile insecure http =
      Inr \<lparr>transports = unique_entries [] ?es, allow_insecure = insecure, allow_insecure_http = http,
           policy_profile_id = Some (profile_id profile)\<rparr>"
    by (simp add: from_credential_profile_def make_policy_def Let_def)
  from that [OF this] show ?thesis by simp
qed

text \<open>
  Building a policy from a credential profile never raises and never weakens security: the
  transports follow the order of the profile, without duplicates; Telnet and plain HTTP appear only
  when each was approved; and every recognised, approved transport of the profile is there.
\<close>

theorem profile_policy_secure:
  "\<exists>p. from_credential_profile profile insecure http = Inr p \<and>
     distinct (transport_names p) \<and>
     subseq (transport_names p) (map lower (profile_names profile)) \<and>
     (TELNET \<in> entry_capability ` set (transports p) \<longrightarrow> insecure) \<and>
     (HTTP \<in> entry_capability ` set (transports p) \<longrightarrow> http) \<and>
     set (transport_names p) =
       {lower n | n e. n \<in> set (profile_names profile) \<and>
          profile_entry insecure http (credential_type profile) n = Some e}"
proof -
  let ?f = "profile_entry insecure http (credential_type profile)"
  let ?es = "List.map_filter ?f (profile_names profile)"
  obtain p where p: "from_credential_profile profile insecure http = Inr p"
      "transports p = unique_entries [] ?es"
    by (rule from_credential_profile_Inr)
  have origin: "\<exists>n \<in> set (profile_names profile). ?f n = Some e" if "e \<in> set (transports p)" for e
    using that unique_entries_set [of e "[]" ?es] by (auto simp: p(2) set_map_filter)
  have caps: "(entry_capability e = TELNET \<longrightarrow> insecure) \<and> (entry_capability e = HTTP \<longrightarrow> http)"
    if "e \<in> set (transports p)" for e
    using origin [OF that] profile_entry_Some(1,3) by (fastforce simp: refused_entry_def)
  have "subseq (map entry_name (unique_entries [] ?es)) (map entry_name ?es)"
    by (rule subseq_map [OF unique_entries_subseq])
  also have "subseq (map entry_name ?es) (map lower (profile_names profile))"
    by (rule subseq_map_filter) (rule profile_entry_Some(2))
  finally have order: "subseq (transport_names p) (map lower (profile_names profile))"
    by (simp add: transport_names_def p(2))
  have "set (transport_names p) = entry_name ` set ?es"
    using unique_entries_names [of "[]" ?es] by (simp add: transport_names_def p(2))
  also have "\<dots> = {lower n | n e. n \<in> set (profile_names profile) \<and> ?f n = Some e}"
    using profile_entry_Some(2) by (force simp: set_map_filter)
  finally have names: "set (transport_names p) =
      {lower n | n e. n \<in> set (profile_names profile) \<and> ?f n = Some e}" .
  have "distinct (transport_names p)"
    using unique_entries_names [of "[]" ?es] by (simp add: transport_names_def p(2))
  moreover have "(TELNET \<in> entry_capability ` set (transports p) \<longrightarrow> insecure) \<and>
      (HTTP \<in> entry_capability ` set (transports p) \<longrightarrow> http)"
    using caps by (metis imageE)
  ultimately show ?thesis using p(1) order names by blast
qed

text \<open>A profile with an unknown transport, a duplicate and an unapproved insecure one.\<close>

definition lab_profile :: CredentialProfileRecord where
  "lab_profile =
     \<lparr>profile_id = 5, profile_tenant_id = ''acme'', profile_name = ''lab'',
      profile_description = None, profile_vendor = None, profile_platform = None,
      credential_type = Some ''ssh_key'', profile_username = None,
      transport_types = [''SSH'', ''telnet'', ''gopher'', ''ssh'', ''snmp''],
      provider_reference = ''vault'', secret_status = ''configured'', profile_enabled = True,
      profile_created_at = 0, profile_updated_at = 0\<rparr>"

theorem profile_policy_secure_witness:
  "\<exists>p. from_credential_profile lab_profile False False = Inr p \<and>
     distinct (transport_names p) \<and> subseq (transport_names p) (map lower (profile_names lab_profile)) \<and>
     TELNET \<notin> entry_capability ` set (transports p) \<and> HTTP \<notin> entry_capability ` set (transports p)"
  using profile_policy_secure [of lab_profile False False] by blast

text \<open>
  The compatibility flag stored in each entry agrees with the compatibility filter: asking a
  policy for the transports that fit its profile's own credential type returns exactly the entries
  marked compatible, in order.
\<close>

theorem compatibility_agrees:
  assumes "from_credential_profile profile insecure http = Inr p"
  shows "get_compatible_transports p (credential_type profile) = filter entry_compatible (transports p)"
proof -
  let ?es = "List.map_filter (profile_entry insecure http (credential_type profile)) (profile_names profile)"
  obtain q where q: "from_credential_profile profile insecure http = Inr q"
      "transports q = unique_entries [] ?es"
    by (rule from_credential_profile_Inr)
  have "entry_compatible e \<longleftrightarrow> (\<not> given (credential_type profile) \<or>
      entry_name e \<in> set (compatible_transports (the (credential_type profile))))"
    if "e \<in> set (transports p)" for e
  proof -
    have "e \<in> set ?es" using that unique_entries_set q assms by simp
    then show ?thesis using profile_entry_Some(6) by (auto simp: set_map_filter)
  qed
  then show ?thesis by (auto simp: get_compatible_transports_def intro!: filter_cong [symmetric])
qed

theorem compatibility_agrees_witness:
  "\<exists>p. from_credential_profile lab_profile False False = Inr p \<and>
     transport_names p = [''ssh'', ''snmp''] \<and>
     map entry_name (get_compatible_transports p (credential_type lab_profile)) =
       map entry_name (filter entry_compatible (transports p))"
proof -
  obtain p where p: "from_credential_profile lab_profile False False = Inr p"
    using from_credential_profile_Inr by blast
  have "case from_credential_profile lab_profile False False of
          Inl _ \<Rightarrow> False | Inr p \<Rightarrow> transport_names p = [''ssh'', ''snmp'']" by code_simp
  with p compatibility_agrees [OF p] show ?thesis by simp
qed

end
