(* ===== verification/Attempt_Repository.thy ===== *)
theory Attempt_Repository
  imports Job_Repository
begin

text \<open>
  \<open>DiscoveryTransportAttemptRepository\<close> of \<^verbatim>\<open>persistence/discovery_repositories.py\<close>: the audit
  trail of transport attempts. A flush checks the foreign key to the device result.
\<close>

definition put_attempts :: "DiscoveryTransportAttemptRecord list \<Rightarrow> session \<Rightarrow> session" where
  "put_attempts ts s = s\<lparr>work := (work s)\<lparr>transport_attempts := ts\<rparr>\<rparr>"

definition attempt_start ::
  "time \<Rightarrow> string \<Rightarrow> uuid \<Rightarrow> string \<Rightarrow> int \<Rightarrow> string option \<Rightarrow> session \<Rightarrow>
   DiscoveryTransportAttemptRecord outcome" where
  "attempt_start now tenant result_i transport order corr s =
     (let (i, s1) = uuid4 s;
          record = \<lparr>attempt_id = i, attempt_tenant_id = tenant, attempt_device_result_id = result_i,
                    attempt_transport = transport, attempt_order = order,
                    attempt_result = ''running'', attempt_failure_code = None,
                    attempt_failure_message = None, attempt_duration_ms = None,
                    attempt_started_at = now, attempt_completed_at = None,
                    attempt_correlation_id = corr\<rparr>
      in if result_i \<in> set (map result_id (device_results (work s1)))
         then (put_attempts (transport_attempts (work s1) @ [record]) s1, Inr record)
         else (s1, Inl (IntegrityError ''FOREIGN KEY constraint failed'')))"

text \<open>Ticks are microseconds; \<open>int(seconds * 1000)\<close> rounds towards zero.\<close>

definition millis :: "duration \<Rightarrow> int" where
  "millis d = (if 0 \<le> d then d div 1000 else - ((- d) div 1000))"

definition finish_values ::
  "time \<Rightarrow> string \<Rightarrow> string option \<Rightarrow> string option \<Rightarrow> DiscoveryTransportAttemptRecord \<Rightarrow>
   DiscoveryTransportAttemptRecord" where
  "finish_values now result code msg r =
     r\<lparr>attempt_result := result, attempt_failure_code := code, attempt_failure_message := msg,
       attempt_completed_at := Some now,
       attempt_duration_ms := Some (max 0 (millis (now - attempt_started_at r)))\<rparr>"

definition attempt_finish ::
  "time \<Rightarrow> DiscoveryTransportAttemptRecord \<Rightarrow> string \<Rightarrow> string option \<Rightarrow> string option \<Rightarrow> session \<Rightarrow>
   DiscoveryTransportAttemptRecord outcome" where
  "attempt_finish now record result code msg s =
     (put_attempts (sql_update (\<lambda>r. attempt_id r = attempt_id record) (finish_values now result code msg)
        (transport_attempts (work s))) s,
      Inr (finish_values now result code msg record))"

lemma put_attempts_simps [simp]:
  "transport_attempts (work (put_attempts ts s)) = ts"
  "jobs (work (put_attempts ts s)) = jobs (work s)"
  "device_results (work (put_attempts ts s)) = device_results (work s)"
  "committed (put_attempts ts s) = committed s" "next_uuid (put_attempts ts s) = next_uuid s"
  by (simp_all add: put_attempts_def)

end
