(* ===== verification/Result_States.thy ===== *)
theory Result_States
  imports Discovery_Contracts
begin

text \<open>
  Classification of discovery outcomes (\<^verbatim>\<open>discovery/result_states.py\<close>): the result states, the
  decision from outcome indicators, and what one transport failure says about the host.
\<close>

section \<open>Result states\<close>

datatype DiscoveryResultState =
    UNREACHABLE | REACHABLE_NO_MANAGEMENT | AUTHENTICATION_FAILED | PARTIAL_DISCOVERY
  | DISCOVERED | UNVERIFIED | CANCELLED | INTERRUPTED

fun result_value :: "DiscoveryResultState \<Rightarrow> string" where
  "result_value UNREACHABLE = ''unreachable''"
| "result_value REACHABLE_NO_MANAGEMENT = ''reachable_no_management''"
| "result_value DiscoveryResultState.AUTHENTICATION_FAILED = ''authentication_failed''"
| "result_value PARTIAL_DISCOVERY = ''partial_discovery''"
| "result_value DISCOVERED = ''discovered''"
| "result_value UNVERIFIED = ''unverified''"
| "result_value DiscoveryResultState.CANCELLED = ''cancelled''"
| "result_value INTERRUPTED = ''interrupted''"

definition is_reachable :: "DiscoveryResultState \<Rightarrow> bool" where
  "is_reachable r \<longleftrightarrow> r \<noteq> UNREACHABLE"

definition is_discovered :: "DiscoveryResultState \<Rightarrow> bool" where
  "is_discovered r \<longleftrightarrow> r = DISCOVERED"

text \<open>The indicators of a discovery, in the order of the parameters of the classifier.\<close>

record indicators =
  host_is_reachable :: bool
  any_service_available :: bool
  any_auth_failed :: bool
  has_partial_data :: bool
  is_fully_discovered :: bool
  any_transport_unavailable :: bool

definition from_failure_and_success :: "indicators \<Rightarrow> DiscoveryResultState" where
  "from_failure_and_success i =
     (if is_fully_discovered i then DISCOVERED
      else if has_partial_data i then PARTIAL_DISCOVERY
      else if any_auth_failed i then DiscoveryResultState.AUTHENTICATION_FAILED
      else if any_transport_unavailable i then UNVERIFIED
      else if \<not> host_is_reachable i then UNREACHABLE
      else if \<not> any_service_available i then REACHABLE_NO_MANAGEMENT
      else REACHABLE_NO_MANAGEMENT)"

section \<open>Failures\<close>

text \<open>Reachable, authentication failed, service available, transport unavailable.\<close>

type_synonym failure_signs = "bool \<times> bool \<times> bool \<times> bool"

definition classify_code :: "DiscoveryFailureCode \<Rightarrow> failure_signs" where
  "classify_code c =
     (if c = DiscoveryFailureCode.AUTHENTICATION_FAILED then (True, True, True, False)
      else if c = CREDENTIAL_RESOLUTION_FAILED then (True, False, False, False)
      else if c = UNSUPPORTED_CREDENTIAL then (True, False, True, False)
      else if c = TRANSPORT_DISABLED then (True, False, False, False)
      else if c = CONNECTION_REFUSED then (True, False, False, False)
      else if c \<in> {HOST_UNREACHABLE, CONNECTION_TIMEOUT, TIMEOUT, DISCOVERY_TIMEOUT}
      then (False, False, False, False)
      else if c = TRANSPORT_UNAVAILABLE then (False, False, False, True)
      else if c \<in> {DISCOVERY_FAILED, COLLECTOR_FAILED, PARSER_FAILED, NORMALIZATION_FAILED,
                  EVIDENCE_PERSISTENCE_FAILED, SNAPSHOT_PERSISTENCE_FAILED}
      then (True, False, True, False)
      else if c = CONNECTION_FAILED then (False, False, False, False)
      else (True, False, True, False))"

definition classify_transport_failure :: "string option \<Rightarrow> failure_signs" where
  "classify_transport_failure code =
     (case code of
        None \<Rightarrow> (True, False, True, False)
      | Some text \<Rightarrow>
          (case parse_code text of
             None \<Rightarrow> (False, False, False, False)
           | Some c \<Rightarrow> classify_code c))"

section \<open>Facts\<close>

lemma result_value_inj: "result_value r = result_value r' \<longleftrightarrow> r = r'"
  by (cases r; cases r'; simp)

lemma classify_value [simp]: "classify_transport_failure (Some (code_value c)) = classify_code c"
  by (simp add: classify_transport_failure_def)

end
