(* ===== verification/Redaction.thy ===== *)
theory Redaction
  imports Py_Text
begin

text \<open>
  Redaction of secrets in failure messages (\<open>_safe_failure_message\<close> of
  \<^verbatim>\<open>discovery/multi_transport.py\<close>). Both regular expressions match without backtracking, so each is a
  matcher on the rest of the text.
\<close>

section \<open>Redaction of failure messages\<close>

definition value_char :: "char \<Rightarrow> bool" where
  "value_char c \<longleftrightarrow> \<not> is_space c \<and> c \<noteq> CHR '','' \<and> c \<noteq> CHR '';''"

text \<open>Optional \<open>_\<close> or \<open>-\<close> between the two halves of a compound key word.\<close>

definition secret_keywords :: "string list" where
  "secret_keywords =
     [''password'', ''secret'', ''token'', ''apikey'', ''api_key'', ''api-key'', ''authpass'',
      ''auth_pass'', ''auth-pass'', ''enablepass'', ''enable_pass'', ''enable-pass'', ''community'']"

definition keyword_at :: "string list \<Rightarrow> string \<Rightarrow> nat option" where
  "keyword_at ks s = map_option length (find (\<lambda>k. starts_with k (lower s)) ks)"

text \<open>First pattern: a key word, a colon or an equals sign, and a value, with white space between.\<close>

definition match_assignment :: matcher where
  "match_assignment s =
     (case keyword_at secret_keywords s of
        None \<Rightarrow> None
      | Some n \<Rightarrow>
          (case dropWhile is_space (drop n s) of
             [] \<Rightarrow> None
           | c # rest \<Rightarrow>
               if c \<noteq> CHR '':'' \<and> c \<noteq> CHR ''='' then None
               else let body = dropWhile is_space rest; after = dropWhile value_char body
                    in if takeWhile value_char body = [] then None
                       else Some (length s - length after, take n s @ ''=[REDACTED]'')))"

text \<open>Second pattern: secret references by environment variable or provider prefix.\<close>

definition env_char :: "char \<Rightarrow> bool" where
  "env_char c \<longleftrightarrow> (let n = of_char c :: nat in
     65 \<le> n \<and> n \<le> 90 \<or> 97 \<le> n \<and> n \<le> 122 \<or> 48 \<le> n \<and> n \<le> 57 \<or> c = CHR ''_'')"

definition match_after :: "string \<Rightarrow> (char \<Rightarrow> bool) \<Rightarrow> string \<Rightarrow> nat option" where
  "match_after lead ok s =
     (if starts_with lead (lower s)
      then let tail = takeWhile ok (drop (length lead) s)
           in if tail = [] then None else Some (length lead + length tail)
      else None)"

definition match_reference :: matcher where
  "match_reference s =
     (case match_after ''nop_secret_'' env_char s of
        Some n \<Rightarrow> Some (n, ''[REDACTED]'')
      | None \<Rightarrow>
          (case match_after ''vault:'' value_char s of
             Some n \<Rightarrow> Some (n, ''[REDACTED]'')
           | None \<Rightarrow> map_option (\<lambda>n. (n, ''[REDACTED]'')) (match_after ''credential:'' value_char s)))"

definition safe_failure_message :: "string option \<Rightarrow> string option" where
  "safe_failure_message v =
     (let message = (case v of None \<Rightarrow> [] | Some s \<Rightarrow> strip s)
      in if message = [] then None
         else let redacted = take 500 (re_sub match_reference (re_sub match_assignment message))
              in if redacted = [] then None else Some redacted)"

section \<open>No secret reference survives\<close>

text \<open>A reference starts here: its lead, in any case, followed by one character of its class.\<close>

fun has_lead :: "string \<Rightarrow> (char \<Rightarrow> bool) \<Rightarrow> string \<Rightarrow> bool" where
  "has_lead [] ok s = (s \<noteq> [] \<and> ok (hd s))"
| "has_lead (x # l) ok [] = False"
| "has_lead (x # l) ok (c # cs) = (lower_char c = x \<and> has_lead l ok cs)"

lemma match_after_None: "match_after l ok s = None \<longleftrightarrow> \<not> has_lead l ok s"
proof -
  have "has_lead l ok s \<longleftrightarrow> starts_with l (lower s) \<and> takeWhile ok (drop (length l) s) \<noteq> []"
  proof (induction l ok s rule: has_lead.induct)
    case (1 ok s)
    then show ?case by (cases s) auto
  qed (auto simp: lower_def)
  then show ?thesis by (simp add: match_after_def Let_def)
qed

definition has_reference :: "string \<Rightarrow> bool" where
  "has_reference s \<longleftrightarrow> has_lead ''nop_secret_'' env_char s \<or> has_lead ''vault:'' value_char s \<or>
     has_lead ''credential:'' value_char s"

lemma match_reference_None: "match_reference s = None \<longleftrightarrow> \<not> has_reference s"
  unfolding match_reference_def has_reference_def
  using match_after_None [of "''nop_secret_''" env_char s] match_after_None [of "''vault:''" value_char s]
    match_after_None [of "''credential:''" value_char s]
  by (cases "match_after ''nop_secret_'' env_char s"; cases "match_after ''vault:'' value_char s") simp_all

lemma match_reference_Some:
  assumes "match_reference (c # cs) = Some (n, t)"
  shows "t = ''[REDACTED]''" "lower_char c \<in> {CHR ''n'', CHR ''v'', CHR ''c''}"
proof -
  show "t = ''[REDACTED]''" using assms by (auto simp: match_reference_def split: option.splits)
  have "has_reference (c # cs)" using assms match_reference_None [of "c # cs"] by auto
  then show "lower_char c \<in> {CHR ''n'', CHR ''v'', CHR ''c''}" by (auto simp: has_reference_def)
qed

text \<open>What replacement puts in the text never completes a lead the text did not have.\<close>

lemma has_lead_re_sub:
  assumes "has_lead l ok (re_sub match_reference s)" and "CHR ''['' \<notin> set l"
    and "ok (CHR ''['') \<Longrightarrow> (\<forall>c. lower_char c \<in> {CHR ''n'', CHR ''v'', CHR ''c''} \<longrightarrow> ok c)"
  shows "has_lead l ok s"
  using assms
proof (induction s arbitrary: l)
  case (Cons c cs)
  note IH = Cons.IH and prems = Cons.prems
  show ?case
  proof (cases "match_reference (c # cs)")
    case None
    then have copy: "re_sub match_reference (c # cs) = c # re_sub match_reference cs" by (rule re_sub_copy)
    show ?thesis
    proof (cases l)
      case Nil
      with prems(1) show ?thesis unfolding copy by simp
    next
      case (Cons x l')
      then show ?thesis
        using prems(1,2) IH [OF _ _ prems(3), of l'] unfolding copy by simp
    qed
  next
    case (Some nt)
    then obtain n t where nt: "match_reference (c # cs) = Some (n, t)" by (cases nt) auto
    note red = match_reference_Some [OF nt]
    have low: "lower_char (CHR ''['') = CHR ''[''" by code_simp
    obtain rest where out: "re_sub match_reference (c # cs) = CHR ''['' # rest"
      using re_sub_replace [of match_reference, OF nt] red(1) by auto
    show ?thesis
    proof (cases l)
      case Nil
      with prems(1) have "ok (CHR ''['')" unfolding out by simp
      with prems(3) red(2) Nil show ?thesis by auto
    next
      case (Cons x l')
      with prems(1) have "x = CHR ''[''" unfolding out using low by simp
      with prems(2) Cons show ?thesis by simp
    qed
  qed
qed simp

lemma letter_value_char: "lower_char c \<in> {CHR ''n'', CHR ''v'', CHR ''c''} \<Longrightarrow> value_char c"
proof -
  assume c: "lower_char c \<in> {CHR ''n'', CHR ''v'', CHR ''c''}"
  have comma: "of_char (CHR '','') = (44 :: nat)" "of_char (CHR '';'') = (59 :: nat)" by simp_all
  show "value_char c"
  proof (cases "65 \<le> (of_char c :: nat) \<and> (of_char c :: nat) \<le> 90")
    case True
    then show ?thesis using comma by (auto simp: value_char_def is_space_def)
  next
    case False
    with c have "c \<in> {CHR ''n'', CHR ''v'', CHR ''c''}" by (auto simp: lower_char_def Let_def)
    then show ?thesis by (auto simp: value_char_def is_space_def)
  qed
qed

lemma has_reference_cons_re_sub:
  assumes "has_reference (c # re_sub match_reference cs)"
  shows "has_reference (c # cs)"
proof -
  have env: "\<not> env_char (CHR ''['')" by code_simp
  have tail: "has_lead l ok (c # cs)" if "has_lead l ok (c # re_sub match_reference cs)" "l \<noteq> []"
    "CHR ''['' \<notin> set l" "ok = env_char \<or> ok = value_char" for l ok
  proof (cases l)
    case (Cons x l')
    have "ok (CHR ''['') \<Longrightarrow> \<forall>c. lower_char c \<in> {CHR ''n'', CHR ''v'', CHR ''c''} \<longrightarrow> ok c"
      using that(4) env letter_value_char by metis
    with has_lead_re_sub [of l' ok cs] that(1,3) Cons show ?thesis by simp
  qed (use that(2) in simp)
  have ref: "has_lead l ok (c # cs)" if "has_lead l ok (c # re_sub match_reference cs)"
    "(l, ok) \<in> {(''nop_secret_'', env_char), (''vault:'', value_char), (''credential:'', value_char)}"
    for l ok using that by (intro tail) auto
  from assms consider "has_lead ''nop_secret_'' env_char (c # re_sub match_reference cs)"
    | "has_lead ''vault:'' value_char (c # re_sub match_reference cs)"
    | "has_lead ''credential:'' value_char (c # re_sub match_reference cs)"
    unfolding has_reference_def by blast
  then show ?thesis unfolding has_reference_def
    by cases (drule ref, blast, blast)+
qed

text \<open>No suffix of the inserted marker starts a reference.\<close>

lemma marker_lower:
  "lower_char (CHR ''['') = CHR ''[''" "lower_char (CHR ''R'') = CHR ''r''"
  "lower_char (CHR ''E'') = CHR ''e''" "lower_char (CHR ''D'') = CHR ''d''"
  "lower_char (CHR ''A'') = CHR ''a''" "lower_char (CHR ''C'') = CHR ''c''"
  "lower_char (CHR ''T'') = CHR ''t''" "lower_char (CHR '']'') = CHR '']''"
  by code_simp+

lemma marker_suffixes:
  assumes "''[REDACTED]'' @ r = pre @ post" and "has_reference post"
  shows "\<exists>pre'. r = pre' @ post"
proof (cases "length pre < 10")
  case True
  have post: "post = drop (length pre) (''[REDACTED]'' @ r)" unfolding assms(1) by simp
  have "length pre = 0 \<or> length pre = 1 \<or> length pre = 2 \<or> length pre = 3 \<or> length pre = 4 \<or>
      length pre = 5 \<or> length pre = 6 \<or> length pre = 7 \<or> length pre = 8 \<or> length pre = 9"
    using True by arith
  then have False
    using assms(2) unfolding post by (elim disjE) (simp_all add: has_reference_def marker_lower)
  then show ?thesis ..
next
  case False
  have "r = drop 10 (''[REDACTED]'' @ r)" by simp
  also have "\<dots> = drop 10 pre @ post" unfolding assms(1) using False by simp
  finally show ?thesis by blast
qed

lemma re_sub_reference_free:
  "re_sub match_reference s = pre @ post \<Longrightarrow> \<not> has_reference post"
proof (induction "length s" arbitrary: s pre rule: less_induct)
  case less
  show ?case
  proof (cases s)
    case Nil
    with less.prems show ?thesis by (simp add: has_reference_def)
  next
    case s: (Cons c cs)
    show ?thesis
    proof (cases "match_reference (c # cs)")
      case None
      then have out: "c # re_sub match_reference cs = pre @ post"
        using less.prems s re_sub_copy by metis
      show ?thesis
      proof (cases pre)
        case Nil
        with out have "post = c # re_sub match_reference cs" by simp
        with None show ?thesis using has_reference_cons_re_sub match_reference_None by blast
      next
        case (Cons d pre')
        with out have "re_sub match_reference cs = pre' @ post" by simp
        then show ?thesis using less.hyps [of cs] s by simp
      qed
    next
      case (Some nt)
      then obtain n t where nt: "match_reference (c # cs) = Some (n, t)" by (cases nt) auto
      let ?rest = "drop (max 1 n) (c # cs)"
      have "''[REDACTED]'' @ re_sub match_reference ?rest = pre @ post"
        using less.prems s re_sub_replace [of match_reference, OF nt] match_reference_Some(1) [OF nt] by metis
      then have "\<exists>pre'. re_sub match_reference ?rest = pre' @ post" if "has_reference post"
        using marker_suffixes that by blast
      moreover have "length ?rest < length s" using s by simp
      ultimately show ?thesis using less.hyps by blast
    qed
  qed
qed

lemma has_reference_take: "has_reference (take n s) \<Longrightarrow> has_reference s"
proof -
  have "has_lead l ok (take n s) \<Longrightarrow> has_lead l ok s" for l ok
    by (induction l ok s arbitrary: n rule: has_lead.induct) (auto simp: take_Cons' split: if_splits)
  then show "has_reference (take n s) \<Longrightarrow> has_reference s" unfolding has_reference_def by blast
qed



end
