(* ===== verification/Multi_Transport.thy ===== *)
theory Multi_Transport
  imports Attempt_Repository Result_States Service_Probing Redaction "HOL-Library.Multiset"
    "HOL-Library.Sublist"
begin

text \<open>
  Discovery over several transports with fallback (\<^verbatim>\<open>discovery/multi_transport.py\<close>). A collector is
  given by how its three calls end (health check, collection, payload validation); the prober by
  the result of its probe; the clock by the start and end time of each attempt.
\<close>

section \<open>Exceptions and values\<close>

datatype exc_class =
    CredentialResolutionError | TransportAuthenticationError | TransportDependencyError
  | TransportUnavailableError | OtherException string

record exc =
  exc_class :: exc_class
  exc_text :: string

fun class_name :: "exc_class \<Rightarrow> string" where
  "class_name CredentialResolutionError = ''CredentialResolutionError''"
| "class_name TransportAuthenticationError = ''TransportAuthenticationError''"
| "class_name TransportDependencyError = ''TransportDependencyError''"
| "class_name TransportUnavailableError = ''TransportUnavailableError''"
| "class_name (OtherException n) = n"

text \<open>Python truth of a value.\<close>

fun truthy :: "pyval \<Rightarrow> bool" where
  "truthy PNone = False"
| "truthy (PBool b) = b"
| "truthy (PInt n) = (n \<noteq> 0)"
| "truthy (PStr s) = (s \<noteq> [])"
| "truthy (PList vs) = (vs \<noteq> [])"
| "truthy (PDict d) = (d \<noteq> [])"

type_synonym payload = "(string, pyval) dict"

section \<open>Classification of exceptions\<close>

definition classify_exception :: "exc \<Rightarrow> DiscoveryFailureCode" where
  "classify_exception e =
     (let message = lower (exc_text e); exc_type = lower (class_name (exc_class e));
          mentions = (\<lambda>terms. list_ex (\<lambda>t. contains t message) terms)
      in if exc_class e = CredentialResolutionError then CREDENTIAL_RESOLUTION_FAILED
         else if exc_class e = TransportAuthenticationError
         then DiscoveryFailureCode.AUTHENTICATION_FAILED
         else if exc_class e \<in> {TransportDependencyError, TransportUnavailableError}
         then TRANSPORT_UNAVAILABLE
         else if mentions [''authentication'', ''unauthorized'', ''credential'', ''login'', ''auth'']
         then DiscoveryFailureCode.AUTHENTICATION_FAILED
         else if contains ''refused'' message \<or> exc_type = ''connectionrefusederror''
         then CONNECTION_REFUSED
         else if mentions [''timeout'', ''timed out''] \<or>
                 exc_type \<in> {''timeouterror'', ''asyncio.timeouterror''}
         then CONNECTION_TIMEOUT
         else if mentions [''connection'', ''network'', ''unreachable''] then CONNECTION_FAILED
         else if contains ''transport'' message then TRANSPORT_UNAVAILABLE
         else DISCOVERY_FAILED)"

section \<open>One attempt\<close>

record TransportAttemptConfig =
  config_name :: string
  config_capability :: TransportCapability
  config_insecure :: bool
  health_check :: "exc option"
  collect :: "exc + pyval"
  validate_payload :: "(payload \<Rightarrow> exc + payload option) option"

record TransportAttemptResult =
  result_name :: string
  result_order :: int
  success :: bool
  failure_code :: "DiscoveryFailureCode option"
  failure_message :: "string option"
  started_at :: time
  completed_at :: time
  duration_ms :: int
  result_payload :: "payload option"
  device_info :: "payload option"

definition extract_device_info :: "payload \<Rightarrow> payload option" where
  "extract_device_info payload =
     (case (dict_get payload ''device_info'', dict_get payload ''facts'') of
        (Some (PDict d), _) \<Rightarrow> Some d
      | (_, Some (PDict d)) \<Rightarrow> Some d
      | _ \<Rightarrow>
          let extracted = List.map_filter (\<lambda>k. case dict_get payload k of
                 None \<Rightarrow> None | Some v \<Rightarrow> if v = PNone then None else Some (k, v))
               [''hostname'', ''platform'', ''vendor'', ''model'', ''serial_number'']
          in if extracted = [] then None else Some extracted)"

definition identifies_device :: "payload \<Rightarrow> bool" where
  "identifies_device payload \<longleftrightarrow>
     list_ex (\<lambda>k. dict_get payload k \<noteq> None)
       [''device_info'', ''facts'', ''inventory'', ''hostname'', ''platform''] \<or>
     (case dict_get payload ''success'' of None \<Rightarrow> False | Some v \<Rightarrow> truthy v)"

text \<open>The body of the \<open>try\<close>: an exception, nothing useful, or a payload with its device information.\<close>

definition attempt_body ::
  "TransportAttemptConfig \<Rightarrow> exc + (payload \<times> payload option) option" where
  "attempt_body config =
     (case health_check config of
        Some e \<Rightarrow> Inl e
      | None \<Rightarrow>
          bind_result (collect config) (\<lambda>v.
            case v of
              PDict payload \<Rightarrow>
                if payload = [] then Inr None
                else
                  let rest = Inr (if identifies_device payload
                                  then Some (payload, extract_device_info payload) else None)
                  in (case validate_payload config of
                        None \<Rightarrow> rest
                      | Some validate \<Rightarrow>
                          bind_result (validate payload) (\<lambda>info.
                            case info of Some d \<Rightarrow> Inr (Some (payload, Some d)) | None \<Rightarrow> rest))
            | _ \<Rightarrow> Inr None))"

definition execute_transport_attempt ::
  "TransportAttemptConfig \<Rightarrow> int \<Rightarrow> time \<Rightarrow> time \<Rightarrow> TransportAttemptResult" where
  "execute_transport_attempt config order started now =
     (let base = \<lparr>result_name = config_name config, result_order = order, success = False,
                  failure_code = None, failure_message = None, started_at = started,
                  completed_at = now, duration_ms = millis (now - started),
                  result_payload = None, device_info = None\<rparr>
      in case attempt_body config of
           Inl e \<Rightarrow> base\<lparr>failure_code := Some (classify_exception e),
                         failure_message := safe_failure_message (Some (exc_text e))\<rparr>
         | Inr None \<Rightarrow> base\<lparr>failure_code := Some DISCOVERY_FAILED,
                failure_message := Some ''Collector did not return device identification data''\<rparr>
         | Inr (Some (payload, info)) \<Rightarrow>
             base\<lparr>success := True, result_payload := Some payload, device_info := info\<rparr>)"

section \<open>Order of transports\<close>

definition services_to_probe :: "TransportAttemptConfig list \<Rightarrow> TransportService list" where
  "services_to_probe configs =
     fold (\<lambda>c acc. case get_service_for_capability (config_capability c) of
              None \<Rightarrow> acc | Some s \<Rightarrow> if s \<in> set acc then acc else acc @ [s]) configs []"

definition service_listed :: "TransportService list \<Rightarrow> TransportAttemptConfig \<Rightarrow> bool" where
  "service_listed available c =
     (case get_service_for_capability (config_capability c) of
        None \<Rightarrow> False | Some s \<Rightarrow> s \<in> set available)"

definition reorder_transports_by_availability ::
  "TransportAttemptConfig list \<Rightarrow> TransportService list \<Rightarrow> TransportAttemptConfig list" where
  "reorder_transports_by_availability configs available =
     filter (service_listed available) configs @ filter (\<lambda>c. \<not> service_listed available c) configs"

record orchestrator =
  enable_service_probing :: bool
  allow_reorder_transports :: bool

text \<open>A probe that raises leaves the configured order.\<close>

definition transport_order ::
  "orchestrator \<Rightarrow> (TransportService list \<Rightarrow> exc + HostProbeResult) \<Rightarrow> bool option \<Rightarrow>
   TransportAttemptConfig list \<Rightarrow> TransportAttemptConfig list" where
  "transport_order orch prober probe_services configs =
     (let should_probe = (case probe_services of Some b \<Rightarrow> b | None \<Rightarrow> enable_service_probing orch)
      in if should_probe \<and> length configs > 1
         then (case prober (services_to_probe configs) of
                 Inl _ \<Rightarrow> configs
               | Inr host \<Rightarrow>
                   if allow_reorder_transports orch
                   then reorder_transports_by_availability configs (get_available_services host)
                   else configs)
         else configs)"

section \<open>Fallback\<close>

record MultiTransportDiscoveryResult =
  mt_address :: string
  mt_result_state :: DiscoveryResultState
  mt_selected_transport :: "string option"
  mt_attempts :: "TransportAttemptResult list"
  mt_payload :: "payload option"
  mt_device_info :: "payload option"

definition no_indicators :: indicators where
  "no_indicators = \<lparr>host_is_reachable = False, any_service_available = False, any_auth_failed = False,
     has_partial_data = False, is_fully_discovered = False, any_transport_unavailable = False\<rparr>"

definition note_failure :: "DiscoveryFailureCode option \<Rightarrow> indicators \<Rightarrow> indicators" where
  "note_failure code i =
     (let (reachable, auth, service, unavailable) =
            classify_transport_failure (map_option code_value code)
      in i\<lparr>host_is_reachable := host_is_reachable i \<or> reachable,
           any_auth_failed := any_auth_failed i \<or> auth,
           any_service_available := any_service_available i \<or> service,
           any_transport_unavailable := any_transport_unavailable i \<or> unavailable\<rparr>)"

definition note_success :: "indicators \<Rightarrow> indicators" where
  "note_success i =
     i\<lparr>host_is_reachable := True, any_service_available := True, is_fully_discovered := True\<rparr>"

text \<open>
  The attempt history. Errors of the repository never stop discovery: a start that raises leaves no
  record to finish.
\<close>

definition record_start ::
  "DiscoveryDeviceResultRecord option \<Rightarrow> time \<Rightarrow> string \<Rightarrow> int \<Rightarrow> session \<Rightarrow>
   DiscoveryTransportAttemptRecord option \<times> session" where
  "record_start device now transport order s =
     (case device of
        None \<Rightarrow> (None, s)
      | Some d \<Rightarrow>
          (case attempt_start now (result_tenant_id d) (result_id d) transport order
                  (result_correlation_id d) s of
             (s', Inl _) \<Rightarrow> (None, s')
           | (s', Inr r) \<Rightarrow> (Some r, s')))"

definition record_finish ::
  "DiscoveryTransportAttemptRecord option \<Rightarrow> time \<Rightarrow> TransportAttemptResult \<Rightarrow> session \<Rightarrow> session" where
  "record_finish record now r s =
     (case record of
        None \<Rightarrow> s
      | Some a \<Rightarrow>
          if success r then fst (attempt_finish now a ''success'' None None s)
          else fst (attempt_finish now a ''failed'' (map_option code_value (failure_code r))
                      (safe_failure_message (failure_message r)) s))"

text \<open>The loop: \<open>clock k\<close> gives start and end of attempt \<open>k\<close>; the first success ends it.\<close>

record fallback =
  fb_indicators :: indicators
  fb_attempts :: "TransportAttemptResult list"
  fb_selected :: "TransportAttemptResult option"

fun fallback_loop ::
  "(int \<Rightarrow> time \<times> time) \<Rightarrow> DiscoveryDeviceResultRecord option \<Rightarrow> int \<Rightarrow>
   TransportAttemptConfig list \<Rightarrow> fallback \<Rightarrow> session \<Rightarrow> fallback \<times> session" where
  "fallback_loop clock device k [] fb s = (fb, s)"
| "fallback_loop clock device k (config # configs) fb s =
     (let (started, now) = clock k;
          (record, s1) = record_start device started (config_name config) k s;
          r = execute_transport_attempt config k started now;
          s2 = record_finish record now r s1
      in if success r
         then (fb\<lparr>fb_indicators := note_success (fb_indicators fb),
                  fb_attempts := fb_attempts fb @ [r], fb_selected := Some r\<rparr>, s2)
         else fallback_loop clock device (k + 1) configs
                (fb\<lparr>fb_indicators := note_failure (failure_code r) (fb_indicators fb),
                    fb_attempts := fb_attempts fb @ [r]\<rparr>) s2)"

definition discover_with_fallback ::
  "orchestrator \<Rightarrow> (TransportService list \<Rightarrow> exc + HostProbeResult) \<Rightarrow> (int \<Rightarrow> time \<times> time) \<Rightarrow>
   string \<Rightarrow> TransportAttemptConfig list \<Rightarrow> DiscoveryDeviceResultRecord option \<Rightarrow> bool option \<Rightarrow>
   session \<Rightarrow> MultiTransportDiscoveryResult \<times> session" where
  "discover_with_fallback orch prober clock address configs device probe_services s =
     (let (fb, s') = fallback_loop clock device 1 (transport_order orch prober probe_services configs)
                       \<lparr>fb_indicators = no_indicators, fb_attempts = [], fb_selected = None\<rparr> s
      in (\<lparr>mt_address = address,
           mt_result_state = from_failure_and_success (fb_indicators fb),
           mt_selected_transport = map_option result_name (fb_selected fb),
           mt_attempts = fb_attempts fb,
           mt_payload = (case fb_selected fb of None \<Rightarrow> None | Some r \<Rightarrow> result_payload r),
           mt_device_info = (case fb_selected fb of None \<Rightarrow> None | Some r \<Rightarrow> device_info r)\<rparr>, s'))"

section \<open>The loop against its specification\<close>

text \<open>Reference: all attempts up to and including the first success, all others before it failed.\<close>

fun attempts_until_success ::
  "(int \<Rightarrow> time \<times> time) \<Rightarrow> int \<Rightarrow> TransportAttemptConfig list \<Rightarrow> TransportAttemptResult list" where
  "attempts_until_success clock k [] = []"
| "attempts_until_success clock k (config # configs) =
     (let (started, now) = clock k; r = execute_transport_attempt config k started now
      in r # (if success r then [] else attempts_until_success clock (k + 1) configs))"

definition failed_with :: "DiscoveryFailureCode set \<Rightarrow> TransportAttemptResult list \<Rightarrow> bool" where
  "failed_with codes rs \<longleftrightarrow> (\<exists>r \<in> set rs. \<not> success r \<and> (\<exists>c \<in> codes. failure_code r = Some c))"

lemma attempt_failure_code:
  "\<not> success (execute_transport_attempt config k t0 t1) \<Longrightarrow>
   \<exists>c. failure_code (execute_transport_attempt config k t0 t1) = Some c"
  by (auto simp: execute_transport_attempt_def Let_def split: sum.splits option.splits)

lemma attempt_name [simp]:
  "result_name (execute_transport_attempt config k t0 t1) = config_name config"
  "result_order (execute_transport_attempt config k t0 t1) = k"
  by (auto simp: execute_transport_attempt_def Let_def split: sum.splits option.splits)

definition note_attempt :: "TransportAttemptResult \<Rightarrow> indicators \<Rightarrow> indicators" where
  "note_attempt r i = (if success r then note_success i else note_failure (failure_code r) i)"

lemma fallback_loop_spec:
  assumes "fallback_loop clock device k configs fb s = (fb', s')"
  shows "fb_attempts fb' = fb_attempts fb @ attempts_until_success clock k configs \<and>
         fb_indicators fb' = fold note_attempt (attempts_until_success clock k configs) (fb_indicators fb) \<and>
         fb_selected fb' = (if list_ex success (attempts_until_success clock k configs)
           then Some (last (attempts_until_success clock k configs)) else fb_selected fb)"
  using assms
proof (induction configs arbitrary: k fb s)
  case (Cons config configs)
  obtain started now where c: "clock k = (started, now)" by fastforce
  obtain rec s1 where r: "record_start device started (config_name config) k s = (rec, s1)" by fastforce
  define a where "a = execute_transport_attempt config k started now"
  show ?case
  proof (cases "success a")
    case True
    with Cons.prems c r show ?thesis by (auto simp: Let_def a_def [symmetric] note_attempt_def)
  next
    case False
    let ?fb = "fb\<lparr>fb_indicators := note_failure (failure_code a) (fb_indicators fb),
                    fb_attempts := fb_attempts fb @ [a]\<rparr>"
    have step: "fallback_loop clock device (k + 1) configs ?fb (record_finish rec now a s1) = (fb', s')"
      using Cons.prems c r False by (simp add: Let_def a_def [symmetric])
    have tail: "attempts_until_success clock k (config # configs) =
        a # attempts_until_success clock (k + 1) configs"
      using c False by (simp add: a_def [symmetric])
    show ?thesis
      using Cons.IH [OF step] False unfolding tail by (auto simp: note_attempt_def list_ex_iff)
  qed
qed simp

text \<open>The failures that leave the host unreachable.\<close>

definition unreachable_codes :: "DiscoveryFailureCode set" where
  "unreachable_codes =
     {HOST_UNREACHABLE, CONNECTION_TIMEOUT, TIMEOUT, DISCOVERY_TIMEOUT, CONNECTION_FAILED}"

text \<open>What the state of a discovery should be, read off its attempts.\<close>

definition expected_state :: "TransportAttemptResult list \<Rightarrow> DiscoveryResultState" where
  "expected_state rs =
     (if list_ex success rs then DISCOVERED
      else if failed_with {DiscoveryFailureCode.AUTHENTICATION_FAILED} rs
      then DiscoveryResultState.AUTHENTICATION_FAILED
      else if failed_with {TRANSPORT_UNAVAILABLE} rs then UNVERIFIED
      else if failed_with (- unreachable_codes) rs then REACHABLE_NO_MANAGEMENT
      else UNREACHABLE)"

lemma classify_code_signs:
  "fst (classify_code c) \<longleftrightarrow> c \<notin> unreachable_codes \<union> {TRANSPORT_UNAVAILABLE}"
  "fst (snd (classify_code c)) \<longleftrightarrow> c = DiscoveryFailureCode.AUTHENTICATION_FAILED"
  "snd (snd (snd (classify_code c))) \<longleftrightarrow> c = TRANSPORT_UNAVAILABLE"
  by (cases c; simp add: classify_code_def unreachable_codes_def)+

definition codes_known :: "TransportAttemptResult list \<Rightarrow> bool" where
  "codes_known rs \<longleftrightarrow> (\<forall>r \<in> set rs. success r \<or> failure_code r \<noteq> None)"

lemma note_failure_signs:
  "is_fully_discovered (note_failure (Some c) i) = is_fully_discovered i"
  "has_partial_data (note_failure (Some c) i) = has_partial_data i"
  "any_auth_failed (note_failure (Some c) i) \<longleftrightarrow>
     any_auth_failed i \<or> c = DiscoveryFailureCode.AUTHENTICATION_FAILED"
  "any_transport_unavailable (note_failure (Some c) i) \<longleftrightarrow>
     any_transport_unavailable i \<or> c = TRANSPORT_UNAVAILABLE"
  "host_is_reachable (note_failure (Some c) i) \<longleftrightarrow>
     host_is_reachable i \<or> c \<in> - unreachable_codes - {TRANSPORT_UNAVAILABLE}"
  using classify_code_signs [of c] by (auto simp: note_failure_def split: prod.splits)

lemma failed_with_Cons:
  "failed_with codes (r # rs) \<longleftrightarrow>
     \<not> success r \<and> (\<exists>c \<in> codes. failure_code r = Some c) \<or> failed_with codes rs"
  by (simp add: failed_with_def)

lemma note_fold:
  assumes "codes_known rs"
  shows "(is_fully_discovered (fold note_attempt rs i) \<longleftrightarrow> is_fully_discovered i \<or> list_ex success rs) \<and>
         (has_partial_data (fold note_attempt rs i) \<longleftrightarrow> has_partial_data i) \<and>
         (any_auth_failed (fold note_attempt rs i) \<longleftrightarrow>
           any_auth_failed i \<or> failed_with {DiscoveryFailureCode.AUTHENTICATION_FAILED} rs) \<and>
         (any_transport_unavailable (fold note_attempt rs i) \<longleftrightarrow>
           any_transport_unavailable i \<or> failed_with {TRANSPORT_UNAVAILABLE} rs) \<and>
         (host_is_reachable (fold note_attempt rs i) \<longleftrightarrow> host_is_reachable i \<or> list_ex success rs \<or>
           failed_with (- unreachable_codes - {TRANSPORT_UNAVAILABLE}) rs)"
  using assms
proof (induction rs arbitrary: i)
  case (Cons r rs)
  then have known: "codes_known rs" by (simp add: codes_known_def)
  show ?case
  proof (cases "success r")
    case True
    with Cons.IH [OF known, of "note_success i"] show ?thesis
      by (simp add: note_attempt_def note_success_def failed_with_Cons)
  next
    case False
    with Cons.prems obtain c where c: "failure_code r = Some c" by (auto simp: codes_known_def)
    with False Cons.IH [OF known, of "note_failure (Some c) i"] show ?thesis
      by (simp add: note_attempt_def note_failure_signs failed_with_Cons) blast
  qed
qed (simp add: failed_with_def)

lemma attempts_codes_known: "codes_known (attempts_until_success clock k configs)"
proof (induction configs arbitrary: k)
  case (Cons config configs)
  obtain t0 t1 where c: "clock k = (t0, t1)" by fastforce
  show ?case
    using Cons [of "k + 1"] attempt_failure_code [of config k t0 t1] c
    by (auto simp: codes_known_def Let_def split: if_splits)
qed (simp add: codes_known_def)

text \<open>Only the last attempt can be a success.\<close>

lemma attempts_before_last:
  "r \<in> set (butlast (attempts_until_success clock k configs)) \<Longrightarrow> \<not> success r"
  by (induction clock k configs rule: attempts_until_success.induct)
     (auto simp: Let_def split: prod.splits if_splits)

lemma attempts_prefix:
  "prefix (map result_name (attempts_until_success clock k configs)) (map config_name configs)"
  by (induction clock k configs rule: attempts_until_success.induct) (auto simp: Let_def split: prod.splits)

lemma state_of_attempts:
  assumes "codes_known rs"
  shows "from_failure_and_success (fold note_attempt rs no_indicators) = expected_state rs"
  using note_fold [OF assms, of no_indicators]
  by (auto simp: from_failure_and_success_def expected_state_def no_indicators_def failed_with_def)

text \<open>
  C12: Discovery with fallback tries the transports in order and stops at the first success. The
  attempts are those of the specification: a prefix of the chosen order, all failed except possibly
  the last; the result state is the one the attempts call for; and a transport is selected, with its
  payload, exactly when its attempt succeeded.
\<close>

theorem fallback_meets_specification:
  assumes "discover_with_fallback orch prober clock address configs device probe_services s = (r, s')"
  shows "mt_attempts r = attempts_until_success clock 1 (transport_order orch prober probe_services configs) \<and>
         prefix (map result_name (mt_attempts r))
           (map config_name (transport_order orch prober probe_services configs)) \<and>
         (\<forall>a \<in> set (butlast (mt_attempts r)). \<not> success a) \<and>
         mt_result_state r = expected_state (mt_attempts r) \<and>
         (mt_result_state r = DISCOVERED \<longleftrightarrow> mt_selected_transport r \<noteq> None) \<and>
         (mt_selected_transport r \<noteq> None \<longrightarrow>
            success (last (mt_attempts r)) \<and>
            mt_selected_transport r = Some (result_name (last (mt_attempts r))) \<and>
            mt_payload r = result_payload (last (mt_attempts r)))"
proof -
  let ?cs = "transport_order orch prober probe_services configs"
  let ?rs = "attempts_until_success clock 1 ?cs"
  obtain fb where run: "fallback_loop clock device 1 ?cs
      \<lparr>fb_indicators = no_indicators, fb_attempts = [], fb_selected = None\<rparr> s = (fb, s')"
    and r: "mt_attempts r = fb_attempts fb" "mt_result_state r = from_failure_and_success (fb_indicators fb)"
      "mt_selected_transport r = map_option result_name (fb_selected fb)"
      "mt_payload r = (case fb_selected fb of None \<Rightarrow> None | Some a \<Rightarrow> result_payload a)"
    using assms by (auto simp: discover_with_fallback_def split: prod.splits)
  note spec = fallback_loop_spec [OF run, simplified]
  have "success (last ?rs)" if "list_ex success ?rs"
    using that attempts_before_last [of _ clock 1 ?cs]
    by (cases ?rs rule: rev_cases) (auto simp: list_ex_iff)
  then show ?thesis
    using r spec attempts_before_last [of _ clock 1 ?cs] attempts_prefix [of clock 1 ?cs]
      state_of_attempts [OF attempts_codes_known [of clock 1 ?cs]]
    by (auto simp: expected_state_def split: if_splits)
qed

text \<open>SSH is refused, HTTPS answers with a host name.\<close>

definition refused_ssh :: TransportAttemptConfig where
  "refused_ssh =
     \<lparr>config_name = ''ssh'', config_capability = SSH, config_insecure = False,
      health_check = Some \<lparr>exc_class = OtherException ''OSError'', exc_text = ''Connection refused''\<rparr>,
      collect = Inr PNone, validate_payload = None\<rparr>"

definition answering_https :: TransportAttemptConfig where
  "answering_https =
     \<lparr>config_name = ''https'', config_capability = HTTPS, config_insecure = False,
      health_check = None, collect = Inr (PDict [(''hostname'', PStr ''sw1'')]),
      validate_payload = None\<rparr>"

definition no_prober :: "TransportService list \<Rightarrow> exc + HostProbeResult" where
  "no_prober services = Inl \<lparr>exc_class = OtherException ''OSError'', exc_text = ''down''\<rparr>"

definition plain_orchestrator :: orchestrator where
  "plain_orchestrator = \<lparr>enable_service_probing = False, allow_reorder_transports = False\<rparr>"

definition blank_session :: session where
  "blank_session = \<lparr>committed = empty_store, work = empty_store, next_uuid = 1\<rparr>"

definition demo_discovery :: "MultiTransportDiscoveryResult \<times> session" where
  "demo_discovery = discover_with_fallback plain_orchestrator no_prober (\<lambda>k. (k, k + 5)) ''10.0.0.1''
     [refused_ssh, answering_https] None None blank_session"

theorem fallback_meets_specification_witness:
  "mt_result_state (fst demo_discovery) = DISCOVERED \<and>
   mt_selected_transport (fst demo_discovery) = Some ''https'' \<and>
   mt_result_state (fst demo_discovery) = expected_state (mt_attempts (fst demo_discovery))"
proof -
  obtain r s' where run: "discover_with_fallback plain_orchestrator no_prober (\<lambda>k. (k, k + 5)) ''10.0.0.1''
     [refused_ssh, answering_https] None None blank_session = (r, s')" by fastforce
  have "mt_selected_transport (fst demo_discovery) = Some ''https''" by code_simp
  then show ?thesis
    using fallback_meets_specification [OF run] unfolding demo_discovery_def run fst_conv by blast
qed

text \<open>
  No discovery is ever classified as partial: the indicator for partial data is never set, so
  the state that the classifier and the run totals provide for it does not occur.
\<close>

theorem partial_discovery_never_reported:
  "mt_result_state (fst (discover_with_fallback orch prober clock address configs device probe_services s))
     \<noteq> PARTIAL_DISCOVERY"
proof -
  obtain r s' where run: "discover_with_fallback orch prober clock address configs device probe_services s
      = (r, s')" by fastforce
  obtain fb where "fallback_loop clock device 1 (transport_order orch prober probe_services configs)
      \<lparr>fb_indicators = no_indicators, fb_attempts = [], fb_selected = None\<rparr> s = (fb, s')"
    and "mt_result_state r = from_failure_and_success (fb_indicators fb)"
    using run by (auto simp: discover_with_fallback_def split: prod.splits)
  with fallback_loop_spec [OF this(1)]
  have "mt_result_state r = expected_state (attempts_until_success clock 1
      (transport_order orch prober probe_services configs))"
    using state_of_attempts [OF attempts_codes_known] by simp
  then show ?thesis by (simp add: run expected_state_def)
qed

section \<open>Order\<close>

text \<open>
  The order in which transports are tried is always a permutation of the configured chain, and
  the configured chain itself unless reordering is enabled and a probe answered. Reordering puts the
  transports whose service answered first and keeps the configured order within both groups.
\<close>

theorem transport_order_permutes:
  "mset (transport_order orch prober probe_services configs) = mset configs \<and>
   (\<not> allow_reorder_transports orch \<longrightarrow> transport_order orch prober probe_services configs = configs) \<and>
   (\<exists>available. transport_order orch prober probe_services configs \<in>
      {configs, filter (service_listed available) configs @
                filter (\<lambda>c. \<not> service_listed available c) configs})"
  by (auto simp: transport_order_def Let_def reorder_transports_by_availability_def
      split: sum.splits option.splits)

theorem transport_order_permutes_witness:
  "transport_order plain_orchestrator no_prober (Some True) [refused_ssh, answering_https]
     = [refused_ssh, answering_https]"
  using transport_order_permutes [of plain_orchestrator no_prober "Some True" "[refused_ssh, answering_https]"]
  by (simp add: plain_orchestrator_def)

section \<open>Audit trail\<close>

text \<open>Identifiers of stored attempts have been issued before.\<close>

definition attempts_issued :: "session \<Rightarrow> bool" where
  "attempts_issued s \<longleftrightarrow> (\<forall>a \<in> set (transport_attempts (work s)). attempt_id a < next_uuid s)"

definition audited :: "TransportAttemptResult \<Rightarrow> DiscoveryTransportAttemptRecord \<Rightarrow> bool" where
  "audited r a \<longleftrightarrow>
     attempt_transport a = result_name r \<and> attempt_order a = result_order r \<and>
     attempt_result a = (if success r then ''success'' else ''failed'') \<and>
     attempt_failure_code a = (if success r then None else map_option code_value (failure_code r)) \<and>
     attempt_completed_at a \<noteq> None"

lemma record_one:
  assumes "record_start (Some d) started name k s = (rec, s1)"
    and "result_id d \<in> set (map result_id (device_results (work s)))" and "attempts_issued s"
    and "result_name r = name" and "result_order r = k"
  shows "\<exists>a. transport_attempts (work (record_finish rec now r s1)) = transport_attempts (work s) @ [a] \<and>
           audited r a" "attempts_issued (record_finish rec now r s1)"
    "device_results (work (record_finish rec now r s1)) = device_results (work s)"
proof -
  have same: "sql_update (\<lambda>a. attempt_id a = next_uuid s) f (transport_attempts (work s)) =
      transport_attempts (work s)" for f
    using assms(3) by (intro sql_update_id) (auto simp: attempts_issued_def)
  have older: "\<forall>a \<in> set (transport_attempts (work s)). attempt_id a < Suc (next_uuid s)"
    using assms(3) less_SucI unfolding attempts_issued_def by blast
  have app: "sql_update p f (xs @ ys) = sql_update p f xs @ sql_update p f ys" for p f
    and xs ys :: "DiscoveryTransportAttemptRecord list" by (simp add: sql_update_def)
  show "\<exists>a. transport_attempts (work (record_finish rec now r s1)) = transport_attempts (work s) @ [a] \<and>
           audited r a" "attempts_issued (record_finish rec now r s1)"
    "device_results (work (record_finish rec now r s1)) = device_results (work s)"
    using assms same older
    by (auto simp: record_start_def record_finish_def attempt_start_def attempt_finish_def Let_def
        uuid4_def app audited_def finish_values_def attempts_issued_def sql_update_def split: if_splits)
qed

lemma fallback_loop_audit:
  assumes "fallback_loop clock (Some d) k configs fb s = (fb', s')"
    and "result_id d \<in> set (map result_id (device_results (work s)))" and "attempts_issued s"
  shows "\<exists>recs. transport_attempts (work s') = transport_attempts (work s) @ recs \<and>
           list_all2 audited (attempts_until_success clock k configs) recs"
  using assms
proof (induction configs arbitrary: k fb s)
  case (Cons config configs)
  obtain started now where c: "clock k = (started, now)" by fastforce
  obtain rec s1 where r: "record_start (Some d) started (config_name config) k s = (rec, s1)" by fastforce
  define a where "a = execute_transport_attempt config k started now"
  note one = record_one [OF r Cons.prems(2,3), of a now, unfolded a_def, simplified, folded a_def]
  from one(1) obtain x where x:
    "transport_attempts (work (record_finish rec now a s1)) = transport_attempts (work s) @ [x]" "audited a x"
    by blast
  show ?case
  proof (cases "success a")
    case True
    with Cons.prems(1) c r x show ?thesis
      by (intro exI [of _ "[x]"]) (auto simp: Let_def a_def [symmetric])
  next
    case False
    let ?fb = "fb\<lparr>fb_indicators := note_failure (failure_code a) (fb_indicators fb),
                    fb_attempts := fb_attempts fb @ [a]\<rparr>"
    have step: "fallback_loop clock (Some d) (k + 1) configs ?fb (record_finish rec now a s1) = (fb', s')"
      using Cons.prems(1) c r False by (simp add: Let_def a_def [symmetric])
    from Cons.IH [OF step] one Cons.prems(2) obtain recs where
      "transport_attempts (work s') = transport_attempts (work (record_finish rec now a s1)) @ recs"
      "list_all2 audited (attempts_until_success clock (k + 1) configs) recs" by auto
    with x False c show ?thesis
      by (intro exI [of _ "x # recs"]) (simp add: Let_def a_def [symmetric])
  qed
qed simp

text \<open>
  Every transport attempt leaves an audit record. With the device result in the store, a discovery
  appends exactly one record per attempt, in order, each closed as a success or a failure with the
  failure code of the attempt, and touches no earlier record.
\<close>

theorem every_attempt_is_audited:
  assumes "discover_with_fallback orch prober clock address configs (Some d) probe_services s = (r, s')"
    and "result_id d \<in> set (map result_id (device_results (work s)))" and "attempts_issued s"
  shows "\<exists>recs. transport_attempts (work s') = transport_attempts (work s) @ recs \<and>
           list_all2 audited (mt_attempts r) recs"
proof -
  let ?cs = "transport_order orch prober probe_services configs"
  obtain fb where run: "fallback_loop clock (Some d) 1 ?cs
      \<lparr>fb_indicators = no_indicators, fb_attempts = [], fb_selected = None\<rparr> s = (fb, s')"
    and r: "mt_attempts r = fb_attempts fb"
    using assms(1) by (auto simp: discover_with_fallback_def split: prod.splits)
  from fallback_loop_audit [OF run assms(2,3)] fallback_loop_spec [OF run] show ?thesis
    by (simp add: r)
qed

definition device_row :: DiscoveryDeviceResultRecord where
  "device_row =
     \<lparr>result_id = 3, result_tenant_id = ''acme'', discovery_job_id = 1, child_job_id = 2,
      result_address = ''10.0.0.1'', result_hostname = None, result_vendor = None,
      result_platform = None, device_state = ''running'', result_state = None,
      result_selected_transport = None, result_failure_code = None, result_failure_message = None,
      result_started_at = None, result_completed_at = None, result_correlation_id = None\<rparr>"

definition device_session :: session where
  "device_session = (put_results [device_row] blank_session)\<lparr>next_uuid := 10\<rparr>"

theorem every_attempt_is_audited_witness:
  "\<exists>r s' recs. discover_with_fallback plain_orchestrator no_prober (\<lambda>k. (k, k + 5)) ''10.0.0.1''
      [refused_ssh, answering_https] (Some device_row) None device_session = (r, s') \<and>
     transport_attempts (work s') = recs \<and> list_all2 audited (mt_attempts r) recs"
proof -
  obtain r s' where run: "discover_with_fallback plain_orchestrator no_prober (\<lambda>k. (k, k + 5))
      ''10.0.0.1'' [refused_ssh, answering_https] (Some device_row) None device_session = (r, s')"
    by fastforce
  have "result_id device_row \<in> set (map result_id (device_results (work device_session)))"
    "attempts_issued device_session" "transport_attempts (work device_session) = []" by code_simp+
  with every_attempt_is_audited [OF run] run show ?thesis by auto
qed

end
