(* ===== verification/Actions.thy ===== *)
theory Actions
  imports Prelude
begin

text \<open>
  Code that keeps a state and may raise: sequencing, \<open>try\<close>/\<open>except\<close>, and the relations between states
  that hold across a piece of code because they hold across its parts.
\<close>

section \<open>State and exceptions\<close>

type_synonym ('s, 'e, 'a) action = "'s \<Rightarrow> 's \<times> ('e + 'a)"

definition and_then :: "('s, 'e, 'a) action \<Rightarrow> ('a \<Rightarrow> ('s, 'e, 'b) action) \<Rightarrow> ('s, 'e, 'b) action" where
  "and_then m f s = (case m s of (s', Inl e) \<Rightarrow> (s', Inl e) | (s', Inr x) \<Rightarrow> f x s')"

definition returns :: "'a \<Rightarrow> ('s, 'e, 'a) action" where
  "returns x s = (s, Inr x)"

definition raises :: "'e \<Rightarrow> ('s, 'e, 'a) action" where
  "raises e s = (s, Inl e)"

definition modify :: "('s \<Rightarrow> 's) \<Rightarrow> ('s, 'e, unit) action" where
  "modify f s = (f s, Inr ())"

lemma and_then_simps [simp]:
  "and_then (returns x) f = f x" "and_then (raises e) k = raises e"
  "and_then (modify g) h s = h () (g s)"
  by (simp_all add: and_then_def returns_def raises_def modify_def fun_eq_iff)

lemma action_simps [simp]: "returns x s = (s, Inr x)" "raises e s = (s, Inl e)" "modify g s = (g s, Inr ())"
  by (simp_all add: returns_def raises_def modify_def)

lemma and_then_pair:
  "m s = (s', Inr x) \<Longrightarrow> and_then m f s = f x s'" "m s = (s', Inl e) \<Longrightarrow> and_then m f s = (s', Inl e)"
  by (simp_all add: and_then_def)

lemma and_then_cases:
  assumes "and_then m f s = (t, r)"
  obtains (raised) e where "m s = (t, Inl e)" "r = Inl e"
    | (returned) s' x where "m s = (s', Inr x)" "f x s' = (t, r)"
  using assms by (cases "m s") (auto simp: and_then_def split: sum.splits)

lemma and_then_Inr:
  "and_then m f s = (t, Inr y) \<longleftrightarrow> (\<exists>s' x. m s = (s', Inr x) \<and> f x s' = (t, Inr y))"
  by (cases "m s") (auto simp: and_then_def split: sum.splits)

lemma and_then_InrE:
  assumes "and_then m f s = (t, Inr y)"
  obtains s' x where "m s = (s', Inr x)" "f x s' = (t, Inr y)"
  using assms by (auto simp: and_then_Inr)

text \<open>\<open>try: m except e: h(e)\<close>; a handler that does not catch \<open>e\<close> raises it again.\<close>

definition catches :: "('s, 'e, 'a) action \<Rightarrow> ('e \<Rightarrow> ('s, 'e, 'a) action) \<Rightarrow> ('s, 'e, 'a) action" where
  "catches m h s = (case m s of (s', Inl e) \<Rightarrow> h e s' | (s', Inr x) \<Rightarrow> (s', Inr x))"

lemma catches_simps [simp]:
  "catches (returns x) h = returns x" "catches (raises e) h = h e"
  by (simp_all add: catches_def fun_eq_iff)

lemma catches_pair:
  "m s = (s', Inr x) \<Longrightarrow> catches m h s = (s', Inr x)" "m s = (s', Inl e) \<Longrightarrow> catches m h s = h e s'"
  by (simp_all add: catches_def)

lemma catches_cases:
  assumes "catches m h s = (t, r)"
  obtains (raised) s' e where "m s = (s', Inl e)" "h e s' = (t, r)"
    | (returned) x where "m s = (t, Inr x)" "r = Inr x"
  using assms by (cases "m s") (auto simp: catches_def split: sum.splits)

lemma and_then_assoc: "and_then (and_then m f) g = and_then m (\<lambda>x. and_then (f x) g)"
  by (auto simp: and_then_def fun_eq_iff split: prod.splits sum.splits)

text \<open>A read of the state, and code run \<open>n\<close> times.\<close>

definition reads :: "('s \<Rightarrow> 'a) \<Rightarrow> ('s, 'e, 'a) action" where
  "reads f s = (s, Inr (f s))"

fun repeats :: "nat \<Rightarrow> ('s, 'e, unit) action \<Rightarrow> ('s, 'e, unit) action" where
  "repeats 0 m = returns ()"
| "repeats (Suc n) m = and_then m (\<lambda>_. repeats n m)"

text \<open>A sequence of calls, each with its answer or its exception.\<close>

fun serve_all :: "('c \<Rightarrow> ('s, string, 'a) action) \<Rightarrow> 'c list \<Rightarrow> 's \<Rightarrow> 's \<times> (string + 'a) list" where
  "serve_all f [] x = (x, [])"
| "serve_all f (c # cs) x = (let (y, r) = f c x; (z, rs) = serve_all f cs y in (z, r # rs))"

lemma reads_simps [simp]: "reads f s = (s, Inr (f s))" "and_then (reads f) g s = g (f s) s"
  by (simp_all add: reads_def and_then_def)

section \<open>Relations that code keeps\<close>

definition keeps :: "('s \<Rightarrow> 's \<Rightarrow> bool) \<Rightarrow> ('s, 'e, 'a) action \<Rightarrow> bool" where
  "keeps R m \<longleftrightarrow> (\<forall>s. R s (fst (m s)))"

lemma keepsI: "(\<And>s t r. m s = (t, r) \<Longrightarrow> R s t) \<Longrightarrow> keeps R m"
  unfolding keeps_def by (metis prod.collapse)

lemma keepsD: "keeps R m \<Longrightarrow> m s = (t, r) \<Longrightarrow> R s t"
  unfolding keeps_def by (metis fst_conv)

text \<open>A relation of states that every part of a piece of code keeps, the whole keeps.\<close>

locale kept_relation =
  fixes R :: "'s \<Rightarrow> 's \<Rightarrow> bool"
  assumes kept_refl: "R s s"
    and kept_trans: "R s t \<Longrightarrow> R t u \<Longrightarrow> R s u"
begin

lemma kept_returns: "keeps R (returns x)"
  by (simp add: keeps_def kept_refl)

lemma kept_raises: "keeps R (raises e)"
  by (simp add: keeps_def kept_refl)

lemma kept_reads: "keeps R (reads f)"
  by (simp add: keeps_def kept_refl)

lemma kept_modify: "(\<And>s. R s (f s)) \<Longrightarrow> keeps R (modify f)"
  by (simp add: keeps_def)

lemma kept_and_then: "keeps R m \<Longrightarrow> (\<And>x. keeps R (f x)) \<Longrightarrow> keeps R (and_then m f)"
  by (rule keepsI, erule and_then_cases) (auto dest: keepsD intro: kept_trans)

lemma kept_catches: "keeps R m \<Longrightarrow> (\<And>e. keeps R (h e)) \<Longrightarrow> keeps R (catches m h)"
  by (rule keepsI, erule catches_cases) (auto dest: keepsD intro: kept_trans)

lemma kept_repeats: "keeps R m \<Longrightarrow> keeps R (repeats n m)"
  by (induction n) (simp_all add: kept_returns kept_and_then)

lemmas kept_basic = kept_returns kept_raises kept_reads

end

section \<open>Contracts\<close>

text \<open>From a state in \<open>P\<close> the code returns \<open>x\<close> in a state of \<open>Q x\<close>, or raises \<open>e\<close> in one of \<open>E e\<close>.\<close>

definition triple ::
  "('s \<Rightarrow> bool) \<Rightarrow> ('s, 'e, 'a) action \<Rightarrow> ('a \<Rightarrow> 's \<Rightarrow> bool) \<Rightarrow> ('e \<Rightarrow> 's \<Rightarrow> bool) \<Rightarrow> bool" where
  "triple P m Q E \<longleftrightarrow> (\<forall>s. P s \<longrightarrow> (case m s of (t, Inl e) \<Rightarrow> E e t | (t, Inr x) \<Rightarrow> Q x t))"

lemma tripleI:
  assumes "\<And>s t x. P s \<Longrightarrow> m s = (t, Inr x) \<Longrightarrow> Q x t" and "\<And>s t e. P s \<Longrightarrow> m s = (t, Inl e) \<Longrightarrow> E e t"
  shows "triple P m Q E"
  unfolding triple_def using assms by (auto split: prod.split sum.split)

lemma tripleD:
  assumes "triple P m Q E" and "P s"
  shows "m s = (t, Inr x) \<Longrightarrow> Q x t" "m s = (t, Inl e) \<Longrightarrow> E e t"
  using assms unfolding triple_def by fastforce+

lemma triple_weaken:
  assumes "triple P m Q E" and "\<And>s. P' s \<Longrightarrow> P s" and "\<And>x s. Q x s \<Longrightarrow> Q' x s" and "\<And>e s. E e s \<Longrightarrow> E' e s"
  shows "triple P' m Q' E'"
  by (rule tripleI) (use tripleD [OF assms(1)] assms(2-4) in blast)+

lemma triple_returns: "(\<And>s. P s \<Longrightarrow> Q x s) \<Longrightarrow> triple P (returns x) Q E"
  by (simp add: triple_def)

lemma triple_raises: "(\<And>s. P s \<Longrightarrow> E e s) \<Longrightarrow> triple P (raises e) Q E"
  by (simp add: triple_def)

lemma triple_reads: "(\<And>s. P s \<Longrightarrow> Q (f s) s) \<Longrightarrow> triple P (reads f) Q E"
  by (simp add: triple_def)

lemma triple_modify: "(\<And>s. P s \<Longrightarrow> Q () (f s)) \<Longrightarrow> triple P (modify f) Q E"
  by (simp add: triple_def)

lemma triple_and_then:
  assumes "triple P m Q E" and "\<And>x. triple (Q x) (f x) R E"
  shows "triple P (and_then m f) R E"
proof (rule tripleI)
  fix s t y assume "P s" "and_then m f s = (t, Inr y)"
  then show "R y t" using tripleD(1) [OF assms(1)] tripleD(1) [OF assms(2)] by (metis and_then_InrE)
next
  fix s t e assume "P s" "and_then m f s = (t, Inl e)"
  then show "E e t"
    by (auto elim!: and_then_cases dest: tripleD [OF assms(1)] tripleD(2) [OF assms(2)])
qed

lemma triple_catches:
  assumes "triple P m Q E" and "\<And>e. triple (E e) (h e) Q E'"
  shows "triple P (catches m h) Q E'"
proof (rule tripleI)
  fix s t x assume "P s" "catches m h s = (t, Inr x)"
  then show "Q x t" by (auto elim!: catches_cases dest: tripleD [OF assms(1)] tripleD(1) [OF assms(2)])
next
  fix s t e assume "P s" "catches m h s = (t, Inl e)"
  then show "E' e t" by (auto elim!: catches_cases dest: tripleD [OF assms(1)] tripleD(2) [OF assms(2)])
qed

lemma triple_if: "(b \<Longrightarrow> triple P m Q E) \<Longrightarrow> (\<not> b \<Longrightarrow> triple P k Q E) \<Longrightarrow> triple P (if b then m else k) Q E"
  by simp

lemma triple_repeats: "triple P m (\<lambda>_. P) E \<Longrightarrow> triple P (repeats n m) (\<lambda>_. P) E"
  by (induction n) (simp_all add: triple_returns triple_and_then)

lemmas triples = triple_returns triple_raises triple_reads triple_modify triple_and_then triple_if

end
