(* ===== verification/Event_Bus.thy ===== *)
theory Event_Bus
  imports Actions
begin

text \<open>
  The event bus of \<^verbatim>\<open>events/\<close>: events, the handler registry with its wildcard, and the dispatcher.
  A handler is what it does to its caller: it returns (\<open>None\<close>) or raises (\<open>Some message\<close>).
\<close>

section \<open>Events and handlers\<close>

record BaseEvent =
  event_name :: string
  event_payload :: "(string, pyval) dict"
  occurred_at :: time

type_synonym handler = "BaseEvent \<Rightarrow> string option"
type_synonym handler_registry = "(string, handler list) dict"

definition register :: "string \<Rightarrow> handler \<Rightarrow> handler_registry \<Rightarrow> handler_registry" where
  "register name h reg =
     dict_set name ((case dict_get reg name of None \<Rightarrow> [] | Some hs \<Rightarrow> hs) @ [h]) reg"

definition handlers_of :: "handler_registry \<Rightarrow> string \<Rightarrow> handler list" where
  "handlers_of reg name = (case dict_get reg name of None \<Rightarrow> [] | Some hs \<Rightarrow> hs)"

definition handlers_for :: "handler_registry \<Rightarrow> string \<Rightarrow> handler list" where
  "handlers_for reg name = handlers_of reg name @ handlers_of reg ''*''"

definition clear_handlers :: "handler_registry \<Rightarrow> handler_registry" where
  "clear_handlers reg = []"

text \<open>
  \<open>publish\<close> calls every handler even after one has raised, and raises one \<open>EventError\<close> at the end.
  The result pairs the handlers called with the outcome.
\<close>

definition dispatch_event :: "handler_registry \<Rightarrow> BaseEvent \<Rightarrow> handler list \<times> (string + unit)" where
  "dispatch_event reg e =
     (let hs = handlers_for reg (event_name e);
          errors = List.map_filter (\<lambda>h. h e) hs
      in (hs, if errors \<noteq> [] then Inl (''Failed to dispatch event '' @ event_name e) else Inr ()))"

lemma map_filter_empty: "List.map_filter f xs = [] \<longleftrightarrow> (\<forall>x \<in> set xs. f x = None)"
  by (induction xs) (auto simp: map_filter_simps split: option.split)

lemma dispatch_event_ok:
  "snd (dispatch_event reg e) = Inr () \<longleftrightarrow> (\<forall>h \<in> set (handlers_for reg (event_name e)). h e = None)"
  by (simp add: dispatch_event_def Let_def map_filter_empty)

lemma handlers_of_register:
  "handlers_of (register name h reg) n = handlers_of reg n @ (if n = name then [h] else [])"
  by (simp add: handlers_of_def register_def pydict.get_put)

text \<open>A bus without subscribers, or no bus at all, never raises.\<close>

definition quiet :: "handler_registry option \<Rightarrow> bool" where
  "quiet bus \<longleftrightarrow> (case bus of None \<Rightarrow> True
     | Some reg \<Rightarrow> list_all (\<lambda>(n, hs). hs = []) reg)"

lemma quiet_handlers: "quiet (Some reg) \<Longrightarrow> handlers_of reg n = []"
proof (cases "dict_get reg n")
  case (Some hs)
  assume "quiet (Some reg)"
  then show ?thesis using dict_get_Some_in [OF Some] Some
    by (auto simp: quiet_def list_all_iff handlers_of_def)
qed (simp add: handlers_of_def)

lemma quiet_dispatch: "quiet (Some reg) \<Longrightarrow> snd (dispatch_event reg e) = Inr ()"
  by (simp add: dispatch_event_ok handlers_for_def quiet_handlers)

end
