(* ===== verification/Orchestration.thy ===== *)
theory Orchestration
  imports Event_Bus
begin

text \<open>
  \<^verbatim>\<open>orchestration/\<close>: the run state machine, progress, metrics and the workflow engine that reads
  NetBox, collects, compares, evaluates and persists, with retries and cooperative cancellation. The
  services the workflow calls are parameters. They, the progress callback, the cancellation token and
  the clock are read at ticks: every observation advances the tick, so each may answer differently
  every time it is asked. A percentage is kept in hundredths.
\<close>

section \<open>Run state\<close>

datatype OrchestrationStatus =
  ORCH_PENDING | ORCH_RUNNING | ORCH_RETRYING | ORCH_SUCCEEDED | ORCH_FAILED | ORCH_CANCELLED

record OrchestrationState =
  run_status :: OrchestrationStatus
  run_attempts :: nat
  run_message :: "string option"
  run_started_at :: "time option"
  run_finished_at :: "time option"
  run_updated_at :: time

definition new_run_state :: "time \<Rightarrow> OrchestrationState" where
  "new_run_state now =
     \<lparr>run_status = ORCH_PENDING, run_attempts = 0, run_message = None, run_started_at = None,
      run_finished_at = None, run_updated_at = now\<rparr>"

definition run_mark_running :: "time \<Rightarrow> OrchestrationState \<Rightarrow> OrchestrationState" where
  "run_mark_running now st =
     st\<lparr>run_status := ORCH_RUNNING,
        run_started_at := (case run_started_at st of None \<Rightarrow> Some now | Some t \<Rightarrow> Some t),
        run_updated_at := now\<rparr>"

definition run_mark_retrying :: "time \<Rightarrow> string \<Rightarrow> OrchestrationState \<Rightarrow> OrchestrationState" where
  "run_mark_retrying now msg st =
     st\<lparr>run_status := ORCH_RETRYING, run_message := Some msg, run_updated_at := now\<rparr>"

definition run_mark_succeeded :: "time \<Rightarrow> OrchestrationState \<Rightarrow> OrchestrationState" where
  "run_mark_succeeded now st =
     st\<lparr>run_status := ORCH_SUCCEEDED, run_finished_at := Some now, run_updated_at := now\<rparr>"

definition run_mark_failed :: "time \<Rightarrow> string \<Rightarrow> OrchestrationState \<Rightarrow> OrchestrationState" where
  "run_mark_failed now msg st =
     st\<lparr>run_status := ORCH_FAILED, run_message := Some msg, run_finished_at := Some now,
        run_updated_at := now\<rparr>"

definition run_mark_cancelled :: "time \<Rightarrow> string \<Rightarrow> OrchestrationState \<Rightarrow> OrchestrationState" where
  "run_mark_cancelled now msg st =
     st\<lparr>run_status := ORCH_CANCELLED, run_message := Some msg, run_finished_at := Some now,
        run_updated_at := now\<rparr>"

definition run_increment_attempts :: "time \<Rightarrow> OrchestrationState \<Rightarrow> OrchestrationState" where
  "run_increment_attempts now st = st\<lparr>run_attempts := Suc (run_attempts st), run_updated_at := now\<rparr>"

lemmas run_marks =
  new_run_state_def run_mark_running_def run_mark_retrying_def run_mark_succeeded_def
  run_mark_failed_def run_mark_cancelled_def run_increment_attempts_def

section \<open>Progress and metrics\<close>

record OrchestrationProgress =
  progress_step :: string
  completed_steps :: nat
  total_steps :: nat
  progress_message :: "string option"
  percent :: nat
  progress_at :: time

text \<open>\<open>round(x, 2)\<close> of a quotient: the nearest hundredth, ties to even.\<close>

definition round_div :: "nat \<Rightarrow> nat \<Rightarrow> nat" where
  "round_div a b =
     (let q = a div b; r = a mod b
      in if 2 * r < b \<or> (2 * r = b \<and> even q) then q else Suc q)"

definition progress_create ::
  "time \<Rightarrow> string \<Rightarrow> nat \<Rightarrow> nat \<Rightarrow> string option \<Rightarrow> OrchestrationProgress" where
  "progress_create now step done steps msg =
     \<lparr>progress_step = step, completed_steps = done, total_steps = steps, progress_message = msg,
      percent = (if steps = 0 then 10000 else round_div (10000 * done) steps), progress_at = now\<rparr>"

definition progress_payload :: "OrchestrationProgress \<Rightarrow> (string, pyval) dict" where
  "progress_payload p =
     [(''step'', PStr (progress_step p)), (''completed_steps'', PInt (int (completed_steps p))),
      (''total_steps'', PInt (int (total_steps p))), (''percent'', PInt (int (percent p))),
      (''message'', case progress_message p of None \<Rightarrow> PNone | Some m \<Rightarrow> PStr m)]"

record OrchestrationMetrics =
  submitted_runs :: nat
  succeeded_runs :: nat
  failed_runs :: nat
  cancelled_runs :: nat
  retried_runs :: nat
  collector_jobs :: nat
  persisted_records :: nat
  duration_ticks :: duration

section \<open>The workflow\<close>

record OrchestrationContext =
  ctx_run_id :: uuid
  ctx_max_attempts :: int
  ctx_force_refresh :: bool

text \<open>A cancelled run raises its own exception; every other exception is its message.\<close>

datatype run_error = Run_Cancelled string | Run_Error string

text \<open>
  What the workflow calls. \<open>svc_persist\<close> writes the discovery run, the two snapshots and the
  comparison inside the unit of work and gives their identifiers and the number of findings;
  \<open>svc_commit\<close> is the commit on leaving it.
\<close>

type_synonym record_ids = "uuid \<times> uuid \<times> uuid \<times> uuid"

record ('n, 'l, 'c, 'd) services =
  svc_sync :: "nat \<Rightarrow> bool \<Rightarrow> string + 'n"
  svc_collect :: "nat \<Rightarrow> string + 'l \<times> nat"
  svc_compare :: "'n \<Rightarrow> 'l \<Rightarrow> string + 'c"
  svc_evaluate :: "'c \<Rightarrow> string + 'd"
  svc_persist :: "nat \<Rightarrow> 'n \<Rightarrow> 'l \<Rightarrow> 'c \<Rightarrow> string + record_ids \<times> nat"
  svc_commit :: "nat \<Rightarrow> string option"
  svc_token :: "nat \<Rightarrow> string option"
  svc_callback :: "nat \<Rightarrow> OrchestrationProgress \<Rightarrow> string option"
  svc_bus :: "handler_registry option"
  svc_clock :: "nat \<Rightarrow> time"

record run =
  run_id :: uuid
  run_state :: OrchestrationState
  run_metrics :: OrchestrationMetrics
  run_tick :: nat
  run_stored :: "record_ids list"
  run_events :: "BaseEvent list"

record ('n, 'l, 'c, 'd) OrchestrationResult =
  res_status :: OrchestrationStatus
  res_run_id :: uuid
  res_netbox :: "'n option"
  res_live :: "'l option"
  res_comparison :: "'c option"
  res_decision :: "'d option"
  res_ids :: "record_ids option"
  res_error :: "string option"
  res_metrics :: OrchestrationMetrics

type_synonym 'a step = "(run, run_error, 'a) action"

definition observe :: "(nat \<Rightarrow> 'a) \<Rightarrow> 'a step" where
  "observe f s = (s\<lparr>run_tick := Suc (run_tick s)\<rparr>, Inr (f (run_tick s)))"

definition lift_result :: "string + 'a \<Rightarrow> 'a step" where
  "lift_result r = (case r of Inl m \<Rightarrow> raises (Run_Error m) | Inr x \<Rightarrow> returns x)"

definition lift_raise :: "string option \<Rightarrow> unit step" where
  "lift_raise r = (case r of Some m \<Rightarrow> raises (Run_Error m) | None \<Rightarrow> returns ())"

definition run_event :: "time \<Rightarrow> string \<Rightarrow> OrchestrationContext \<Rightarrow> run \<Rightarrow> (string, pyval) dict \<Rightarrow> BaseEvent" where
  "run_event now name ctx s extra =
     \<lparr>event_name = name,
      event_payload = [(''job_id'', PInt (int (run_id s))), (''run_id'', PInt (int (ctx_run_id ctx)))] @ extra,
      occurred_at = now\<rparr>"

definition run_publish ::
  "('n, 'l, 'c, 'd) services \<Rightarrow> OrchestrationContext \<Rightarrow> string \<Rightarrow> (string, pyval) dict \<Rightarrow> unit step" where
  "run_publish svc ctx name extra =
     (case svc_bus svc of
        None \<Rightarrow> returns ()
      | Some reg \<Rightarrow>
          and_then (observe (svc_clock svc)) (\<lambda>now.
          and_then (\<lambda>s. let e = run_event now name ctx s extra
                        in (s\<lparr>run_events := run_events s @ [e]\<rparr>, Inr e)) (\<lambda>e.
          lift_result (snd (dispatch_event reg e)))))"

definition raise_if_cancelled :: "('n, 'l, 'c, 'd) services \<Rightarrow> unit step" where
  "raise_if_cancelled svc =
     and_then (observe (svc_token svc)) (\<lambda>reason.
     case reason of
       None \<Rightarrow> returns ()
     | Some m \<Rightarrow> raises (Run_Cancelled (if m = [] then ''Run cancelled.'' else m)))"

definition run_progress ::
  "('n, 'l, 'c, 'd) services \<Rightarrow> OrchestrationContext \<Rightarrow> string \<Rightarrow> nat \<Rightarrow> string \<Rightarrow> unit step" where
  "run_progress svc ctx step done msg =
     and_then (observe (svc_clock svc)) (\<lambda>now.
     let p = progress_create now step done 6 (Some msg) in
     and_then (observe (\<lambda>t. svc_callback svc t p)) (\<lambda>r.
     and_then (lift_raise r) (\<lambda>_.
     run_publish svc ctx ''orchestration.run.progress'' (progress_payload p))))"

definition workflow_step ::
  "('n, 'l, 'c, 'd) services \<Rightarrow> OrchestrationContext \<Rightarrow> string \<Rightarrow> nat \<Rightarrow> 'a step \<Rightarrow> 'a step" where
  "workflow_step svc ctx step done operation =
     and_then (raise_if_cancelled svc) (\<lambda>_.
     and_then (run_progress svc ctx step (done - 1) (''Starting '' @ step @ ''.'')) (\<lambda>_.
     and_then operation (\<lambda>x.
     and_then (raise_if_cancelled svc) (\<lambda>_.
     and_then (run_progress svc ctx step done (''Completed '' @ step @ ''.'')) (\<lambda>_.
     returns x)))))"

text \<open>The counter of persisted records is raised inside the unit of work, before its commit.\<close>

definition persist ::
  "('n, 'l, 'c, 'd) services \<Rightarrow> 'n \<Rightarrow> 'l \<Rightarrow> 'c \<Rightarrow> record_ids step" where
  "persist svc n l c =
     and_then (observe (\<lambda>t. svc_persist svc t n l c)) (\<lambda>r.
     and_then (lift_result r) (\<lambda>(ids, findings).
     and_then (modify (\<lambda>s. s\<lparr>run_metrics := (run_metrics s)
         \<lparr>persisted_records := persisted_records (run_metrics s) + 3 + findings\<rparr>\<rparr>)) (\<lambda>_.
     and_then (observe (svc_commit svc)) (\<lambda>failure.
     and_then (lift_raise failure) (\<lambda>_.
     and_then (modify (\<lambda>s. s\<lparr>run_stored := run_stored s @ [ids]\<rparr>)) (\<lambda>_.
     returns ids))))))"

definition note_duration :: "run \<Rightarrow> run" where
  "note_duration s =
     (case (run_started_at (run_state s), run_finished_at (run_state s)) of
        (Some a, Some b) \<Rightarrow> s\<lparr>run_metrics := (run_metrics s)\<lparr>duration_ticks := max 0 (b - a)\<rparr>\<rparr>
      | _ \<Rightarrow> s)"

definition run_once ::
  "('n, 'l, 'c, 'd) services \<Rightarrow> OrchestrationContext \<Rightarrow> ('n, 'l, 'c, 'd) OrchestrationResult step" where
  "run_once svc ctx =
     and_then (workflow_step svc ctx ''netbox_inventory'' 1
       (and_then (observe (\<lambda>t. svc_sync svc t (ctx_force_refresh ctx))) lift_result)) (\<lambda>n.
     and_then (workflow_step svc ctx ''collector_runtime'' 2
       (and_then (observe (svc_collect svc)) lift_result)) (\<lambda>(l, results).
     and_then (modify (\<lambda>s. s\<lparr>run_metrics := (run_metrics s)
         \<lparr>collector_jobs := collector_jobs (run_metrics s) + results\<rparr>\<rparr>)) (\<lambda>_.
     and_then (workflow_step svc ctx ''comparison'' 3 (lift_result (svc_compare svc n l))) (\<lambda>c.
     and_then (workflow_step svc ctx ''evaluation'' 4 (lift_result (svc_evaluate svc c))) (\<lambda>d.
     and_then (workflow_step svc ctx ''persistence'' 5 (persist svc n l c)) (\<lambda>ids.
     and_then (run_progress svc ctx ''completed'' 6 ''Run completed.'') (\<lambda>_.
     and_then (modify note_duration) (\<lambda>_.
     (\<lambda>s. (s, Inr \<lparr>res_status = ORCH_SUCCEEDED, res_run_id = ctx_run_id ctx,
        res_netbox = Some n, res_live = Some l, res_comparison = Some c, res_decision = Some d,
        res_ids = Some ids, res_error = None, res_metrics = run_metrics s\<rparr>))))))))))"

definition failed_result ::
  "OrchestrationContext \<Rightarrow> OrchestrationStatus \<Rightarrow> string \<Rightarrow> ('n, 'l, 'c, 'd) OrchestrationResult step" where
  "failed_result ctx status msg s =
     (s, Inr \<lparr>res_status = status, res_run_id = ctx_run_id ctx, res_netbox = None, res_live = None,
       res_comparison = None, res_decision = None, res_ids = None, res_error = Some msg,
       res_metrics = run_metrics s\<rparr>)"

definition on_state :: "('n, 'l, 'c, 'd) services \<Rightarrow> (time \<Rightarrow> OrchestrationState \<Rightarrow> OrchestrationState) \<Rightarrow> unit step" where
  "on_state svc f =
     and_then (observe (svc_clock svc)) (\<lambda>now. modify (\<lambda>s. s\<lparr>run_state := f now (run_state s)\<rparr>))"

definition count_run :: "(OrchestrationMetrics \<Rightarrow> OrchestrationMetrics) \<Rightarrow> unit step" where
  "count_run f = modify (\<lambda>s. s\<lparr>run_metrics := f (run_metrics s)\<rparr>)"

text \<open>
  The loop over the attempts: \<open>left\<close> counts the attempts that remain. The result after the loop is
  the code's last statement; \<open>max_attempts\<close> is at least one, so it is never reached.
\<close>

fun attempt_loop ::
  "('n, 'l, 'c, 'd) services \<Rightarrow> OrchestrationContext \<Rightarrow> string option \<Rightarrow> nat \<Rightarrow>
   ('n, 'l, 'c, 'd) OrchestrationResult step" where
  "attempt_loop svc ctx last_error 0 =
     failed_result ctx ORCH_FAILED (case last_error of None \<Rightarrow> ''Run failed.'' | Some m \<Rightarrow> m)"
| "attempt_loop svc ctx last_error (Suc left) =
     and_then (on_state svc (\<lambda>now st. run_mark_running now (run_increment_attempts now st))) (\<lambda>_ s.
     case run_once svc ctx s of
       (s1, Inl (Run_Cancelled m)) \<Rightarrow>
         and_then (on_state svc (\<lambda>now. run_mark_cancelled now m)) (\<lambda>_.
         and_then (count_run (\<lambda>x. x\<lparr>cancelled_runs := Suc (cancelled_runs x)\<rparr>)) (\<lambda>_.
         and_then (run_publish svc ctx ''orchestration.run.cancelled'' [(''error'', PStr m)]) (\<lambda>_.
         failed_result ctx ORCH_CANCELLED m))) s1
     | (s1, Inl (Run_Error m)) \<Rightarrow>
         if left > 0 then
           and_then (count_run (\<lambda>x. x\<lparr>retried_runs := Suc (retried_runs x)\<rparr>)) (\<lambda>_.
           and_then (on_state svc (\<lambda>now. run_mark_retrying now m)) (\<lambda>_.
           attempt_loop svc ctx (Some m) left)) s1
         else
           and_then (on_state svc (\<lambda>now. run_mark_failed now m)) (\<lambda>_.
           and_then (count_run (\<lambda>x. x\<lparr>failed_runs := Suc (failed_runs x)\<rparr>)) (\<lambda>_.
           and_then (run_publish svc ctx ''orchestration.run.failed'' [(''error'', PStr m)]) (\<lambda>_.
           failed_result ctx ORCH_FAILED m))) s1
     | (s1, Inr result) \<Rightarrow>
         and_then (on_state svc run_mark_succeeded) (\<lambda>_.
         and_then (count_run (\<lambda>x. x\<lparr>succeeded_runs := Suc (succeeded_runs x)\<rparr>)) (\<lambda>_.
         and_then (run_publish svc ctx ''orchestration.run.succeeded'' []) (\<lambda>_.
         returns result))) s1)"

definition execute ::
  "('n, 'l, 'c, 'd) services \<Rightarrow> OrchestrationContext \<Rightarrow> ('n, 'l, 'c, 'd) OrchestrationResult step" where
  "execute svc ctx =
     and_then (count_run (\<lambda>x. x\<lparr>submitted_runs := Suc (submitted_runs x)\<rparr>)) (\<lambda>_.
     and_then (run_publish svc ctx ''orchestration.run.started'' []) (\<lambda>_.
     attempt_loop svc ctx None (nat (max 1 (ctx_max_attempts ctx)))))"

text \<open>\<open>OrchestrationEngine.run\<close>: a fresh job around the shared metrics and store.\<close>

definition engine_run ::
  "('n, 'l, 'c, 'd) services \<Rightarrow> OrchestrationContext \<Rightarrow> uuid \<Rightarrow> ('n, 'l, 'c, 'd) OrchestrationResult step" where
  "engine_run svc ctx i s =
     execute svc ctx (s\<lparr>run_id := i, run_state := new_run_state (svc_clock svc (run_tick s))\<rparr>)"

section \<open>What one attempt keeps\<close>

text \<open>
  An attempt leaves the run's state and the run counters alone, only adds stored records, and never
  writes the duration of a run that has not finished.
\<close>

definition same_run :: "run \<Rightarrow> run \<Rightarrow> bool" where
  "same_run s t \<longleftrightarrow>
     run_state t = run_state s \<and>
     submitted_runs (run_metrics t) = submitted_runs (run_metrics s) \<and>
     succeeded_runs (run_metrics t) = succeeded_runs (run_metrics s) \<and>
     failed_runs (run_metrics t) = failed_runs (run_metrics s) \<and>
     cancelled_runs (run_metrics t) = cancelled_runs (run_metrics s) \<and>
     retried_runs (run_metrics t) = retried_runs (run_metrics s) \<and>
     (run_finished_at (run_state s) = None \<longrightarrow>
        duration_ticks (run_metrics t) = duration_ticks (run_metrics s)) \<and>
     set (run_stored s) \<subseteq> set (run_stored t)"

named_theorems same_run_intros \<open>actions that keep \<open>same_run\<close>\<close>

interpretation same_run: kept_relation same_run
proof unfold_locales
  show "same_run s t \<Longrightarrow> same_run t u \<Longrightarrow> same_run s u" for s t u by (auto simp: same_run_def)
qed (simp add: same_run_def)

lemmas [same_run_intros] = same_run.kept_basic same_run.kept_and_then

lemma same_run_basic [same_run_intros]:
  "keeps same_run (observe f)" "keeps same_run (lift_result r)" "keeps same_run (lift_raise m)"
  by (auto simp: keeps_def same_run_def observe_def lift_result_def lift_raise_def
      split: sum.splits option.splits)

lemma same_run_publish [same_run_intros]: "keeps same_run (run_publish svc ctx name extra)"
proof -
  have "keeps same_run (\<lambda>s. let e = run_event now name ctx s extra
      in (s\<lparr>run_events := run_events s @ [e]\<rparr>, Inr e))" for now
    by (simp add: keeps_def same_run_def Let_def)
  then show ?thesis
    unfolding run_publish_def by (auto intro!: same_run_intros split: option.split)
qed

lemma same_run_check [same_run_intros]: "keeps same_run (raise_if_cancelled svc)"
  unfolding raise_if_cancelled_def by (intro same_run_intros) (auto intro: same_run_intros split: option.split)

lemma same_run_progress [same_run_intros]: "keeps same_run (run_progress svc ctx step done msg)"
  unfolding run_progress_def Let_def by (intro same_run_intros)

lemma same_run_step [same_run_intros]:
  "keeps same_run operation \<Longrightarrow> keeps same_run (workflow_step svc ctx step done operation)"
  unfolding workflow_step_def by (intro same_run_intros)

lemma same_run_modify [same_run_intros]:
  "keeps same_run (modify (\<lambda>s. s\<lparr>run_metrics := (run_metrics s)\<lparr>persisted_records := k s\<rparr>\<rparr>))"
  "keeps same_run (modify (\<lambda>s. s\<lparr>run_metrics := (run_metrics s)\<lparr>collector_jobs := k s\<rparr>\<rparr>))"
  "keeps same_run (modify (\<lambda>s. s\<lparr>run_stored := run_stored s @ [ids]\<rparr>))"
  "keeps same_run (modify note_duration)"
  "keeps same_run (\<lambda>s. (s, Inr (g s)))"
  by (auto simp: keeps_def same_run_def note_duration_def split: option.split)

lemma same_run_pair [same_run_intros]:
  "(\<And>a b. keeps same_run (f a b)) \<Longrightarrow> keeps same_run (case p of (a, b) \<Rightarrow> f a b)"
  by (cases p) simp

lemma same_run_persist [same_run_intros]: "keeps same_run (persist svc n l c)"
  unfolding persist_def by (intro same_run_intros)

lemma same_run_once: "keeps same_run (run_once svc ctx)"
  unfolding run_once_def by (intro same_run_intros)

text \<open>A step that returned has run its operation, and an attempt that returned has stored its records.\<close>

lemma workflow_step_Inr:
  assumes "workflow_step svc ctx step done operation s = (t, Inr x)"
  obtains a b where "operation a = (b, Inr x)" "same_run b t"
proof -
  let ?check = "raise_if_cancelled svc"
  let ?report = "run_progress svc ctx step done (''Completed '' @ step @ ''.'')"
  from assms obtain s1 s2 s3 s4 where
      op: "operation s1 = (s2, Inr x)" and check: "?check s2 = (s3, Inr ())"
      and report: "?report s3 = (s4, Inr ())" and t: "t = s4"
    unfolding workflow_step_def by (elim and_then_InrE) (auto intro: that)
  have "same_run s2 s3" by (rule keepsD [OF same_run_check check])
  moreover have "same_run s3 t" unfolding t by (rule keepsD [OF same_run_progress report])
  ultimately show ?thesis using that [OF op] same_run.kept_trans by blast
qed

lemma persist_Inr: "persist svc n l c s = (t, Inr ids) \<Longrightarrow> ids \<in> set (run_stored t)"
  by (auto simp: persist_def and_then_Inr split: prod.splits)

lemma note_duration_stored [simp]: "run_stored (note_duration s) = run_stored s"
  by (simp add: note_duration_def split: option.split)

lemma run_once_Inr:
  assumes "run_once svc ctx s = (t, Inr r)"
  shows "res_status r = ORCH_SUCCEEDED" "\<exists>ids \<in> set (run_stored t). res_ids r = Some ids"
proof -
  from assms obtain n l c s1 s2 ids s3 u s4 d where
      step: "workflow_step svc ctx ''persistence'' 5 (persist svc n l c) s1 = (s2, Inr ids)"
      and report: "run_progress svc ctx ''completed'' 6 ''Run completed.'' s2 = (s3, Inr u)"
      and fin: "t = note_duration s3" "r = \<lparr>res_status = ORCH_SUCCEEDED, res_run_id = ctx_run_id ctx,
        res_netbox = Some n, res_live = Some l, res_comparison = Some c, res_decision = Some d,
        res_ids = Some ids, res_error = None, res_metrics = run_metrics t\<rparr>"
    unfolding run_once_def split_beta
    by (elim and_then_InrE, intro that; (assumption | auto simp only: action_simps prod.inject sum.inject))
  have stored: "run_stored t = run_stored s3" and r: "res_status r = ORCH_SUCCEEDED" "res_ids r = Some ids"
    by (simp_all add: fin)
  show "res_status r = ORCH_SUCCEEDED" by (rule r)
  from step obtain a b where "persist svc n l c a = (b, Inr ids)" and b: "same_run b s2"
    by (rule workflow_step_Inr)
  then have "ids \<in> set (run_stored b)" by (intro persist_Inr)
  with b have "ids \<in> set (run_stored s2)" unfolding same_run_def by blast
  then have "ids \<in> set (run_stored t)"
    using keepsD [OF same_run_progress report] unfolding same_run_def stored by blast
  then show "\<exists>ids \<in> set (run_stored t). res_ids r = Some ids" by (simp add: r)
qed

section \<open>Every run is accounted for\<close>

text \<open>What the loop does to the run, whether it returns or a handler raises out of it.\<close>

definition closed_run :: "run \<Rightarrow> run \<Rightarrow> nat \<Rightarrow> bool" where
  "closed_run s t used \<longleftrightarrow>
     (let m = run_metrics s; m' = run_metrics t; st = run_state t in
      run_attempts st = run_attempts (run_state s) + used \<and> run_finished_at st \<noteq> None \<and>
      submitted_runs m' = submitted_runs m \<and> retried_runs m' + 1 = retried_runs m + used \<and>
      succeeded_runs m' = succeeded_runs m + (if run_status st = ORCH_SUCCEEDED then 1 else 0) \<and>
      failed_runs m' = failed_runs m + (if run_status st = ORCH_FAILED then 1 else 0) \<and>
      cancelled_runs m' = cancelled_runs m + (if run_status st = ORCH_CANCELLED then 1 else 0) \<and>
      run_status st \<in> {ORCH_SUCCEEDED, ORCH_FAILED, ORCH_CANCELLED} \<and>
      duration_ticks m' = duration_ticks m)"

lemma on_state_eq:
  "on_state svc f s = (s\<lparr>run_tick := Suc (run_tick s),
     run_state := f (svc_clock svc (run_tick s)) (run_state s)\<rparr>, Inr ())"
  by (simp add: on_state_def and_then_def observe_def)

text \<open>Publishing touches the clock and the event log only.\<close>

definition untouched :: "run \<Rightarrow> run \<Rightarrow> bool" where
  "untouched s t \<longleftrightarrow> run_state t = run_state s \<and> run_metrics t = run_metrics s \<and>
     run_stored t = run_stored s"

lemma untouched_publish: "keeps untouched (run_publish svc ctx name extra)"
  by (simp add: keeps_def untouched_def run_publish_def and_then_def observe_def Let_def
      lift_result_def split: option.split sum.split)

lemma publish_then:
  assumes "and_then (run_publish svc ctx name extra) (\<lambda>_. g) s = (t, r)"
    and "\<And>u. g u = (u, Inr (h u))"
  shows "untouched s t" "r = Inr y \<Longrightarrow> y = h t"
  using assms(1)
proof (atomize (full), cases rule: and_then_cases)
  case (raised e)
  then show "untouched s t \<and> (r = Inr y \<longrightarrow> y = h t)" using keepsD [OF untouched_publish] by blast
next
  case (returned s' x)
  then show "untouched s t \<and> (r = Inr y \<longrightarrow> y = h t)"
    using keepsD [OF untouched_publish returned(1)] assms(2) by auto
qed

text \<open>The end of the loop: the marked run is counted and announced.\<close>

lemma attempt_end:
  assumes "and_then (count_run k) (\<lambda>_. and_then (run_publish svc ctx name extra) (\<lambda>_. g)) u = (t, r)"
    and "\<And>u. g u = (u, Inr (h u))"
  shows "run_state t = run_state u" "run_metrics t = k (run_metrics u)"
    "run_stored t = run_stored u" "r = Inr y \<Longrightarrow> y = h t"
proof -
  have "and_then (run_publish svc ctx name extra) (\<lambda>_. g) (u\<lparr>run_metrics := k (run_metrics u)\<rparr>) = (t, r)"
    using assms(1) by (simp add: count_run_def)
  note end_facts = publish_then [OF this assms(2)]
  show "run_state t = run_state u" "run_metrics t = k (run_metrics u)"
    "run_stored t = run_stored u" using end_facts(1) by (auto simp: untouched_def)
  show "r = Inr y \<Longrightarrow> y = h t" by (rule end_facts(2))
qed

definition accounted ::
  "nat \<Rightarrow> run \<Rightarrow> run \<Rightarrow> (run_error + ('n, 'l, 'c, 'd) OrchestrationResult) \<Rightarrow> bool" where
  "accounted n s t r \<longleftrightarrow>
     (\<exists>used. 0 < used \<and> used \<le> n \<and> closed_run s t used \<and>
        (run_status (run_state t) = ORCH_FAILED \<longrightarrow> used = n)) \<and>
     (\<forall>y. r = Inr y \<longrightarrow> res_status y = run_status (run_state t) \<and>
        (res_status y = ORCH_SUCCEEDED \<longrightarrow> (\<exists>ids \<in> set (run_stored t). res_ids y = Some ids)))"

lemma attempt_loop_accounted:
  "attempt_loop svc ctx le n s = (t, r) \<Longrightarrow> 0 < n \<Longrightarrow> run_finished_at (run_state s) = None \<Longrightarrow>
     accounted n s t r"
proof (induction svc ctx le n arbitrary: s rule: attempt_loop.induct)
  case (2 svc ctx le left)
  let ?s = "s\<lparr>run_tick := Suc (run_tick s), run_state := run_mark_running (svc_clock svc (run_tick s))
      (run_increment_attempts (svc_clock svc (run_tick s)) (run_state s))\<rparr>"
  obtain s1 q where once: "run_once svc ctx ?s = (s1, q)" by force
  note loop = "2.prems"(1) [unfolded attempt_loop.simps and_then_pair(1) [OF on_state_eq] once prod.case]
  have kept: "same_run ?s s1" by (rule keepsD [OF same_run_once once])
  consider (cancelled) m where "q = Inl (Run_Cancelled m)" | (failed) m where "q = Inl (Run_Error m)" "left = 0"
    | (retry) m where "q = Inl (Run_Error m)" "left > 0" | (success) y where "q = Inr y"
    by (metis old.sum.exhaust run_error.exhaust neq0_conv)
  then show ?case
  proof cases
    case cancelled
    note e = attempt_end [OF loop [unfolded cancelled sum.case run_error.case] failed_result_def]
    show ?thesis using kept "2.prems"(3) e(1-3) e(4)
      by (auto simp: accounted_def closed_run_def same_run_def run_marks Let_def intro!: exI [of _ 1])
  next
    case failed
    note e = attempt_end [OF loop [unfolded failed sum.case run_error.case if_not_P [OF less_irrefl]] failed_result_def]
    show ?thesis using kept "2.prems"(3) e(1-3) e(4) failed
      by (auto simp: accounted_def closed_run_def same_run_def run_marks Let_def intro!: exI [of _ 1])
  next
    case success
    note e = attempt_end [OF loop [unfolded success sum.case] returns_def]
    show ?thesis using kept "2.prems"(3) e(1-3) e(4) run_once_Inr [OF once [unfolded success]]
      by (auto simp: accounted_def closed_run_def same_run_def run_marks Let_def intro!: exI [of _ 1])
  next
    case (retry m)
    let ?u = "s1\<lparr>run_metrics := (run_metrics s1)\<lparr>retried_runs := Suc (retried_runs (run_metrics s1))\<rparr>,
      run_tick := Suc (run_tick s1),
      run_state := run_mark_retrying (svc_clock svc (run_tick s1)) m (run_state s1)\<rparr>"
    have "attempt_loop svc ctx (Some m) left ?u = (t, r)"
      using loop retry by (simp add: count_run_def and_then_pair(1) [OF on_state_eq])
    then have IH: "accounted left ?u t r"
      using "2.IH" [OF once [symmetric]] retry kept "2.prems"(3)
      by (simp add: same_run_def run_marks)
    then obtain used where "used \<le> left" "closed_run ?u t used"
      "run_status (run_state t) = ORCH_FAILED \<longrightarrow> used = left" by (auto simp: accounted_def)
    then have "closed_run s t (Suc used)" "Suc used \<le> Suc left"
        "run_status (run_state t) = ORCH_FAILED \<longrightarrow> Suc used = Suc left"
      using kept "2.prems"(3) by (auto simp: closed_run_def same_run_def run_marks Let_def)
    then show ?thesis using IH unfolding accounted_def by blast
  qed
qed simp

lemma publish_quiet:
  assumes "quiet (svc_bus svc)"
  shows "\<exists>t. run_publish svc ctx name extra s = (t, Inr ()) \<and> untouched s t"
  using assms quiet_dispatch
  by (auto simp: run_publish_def untouched_def and_then_def observe_def Let_def lift_result_def
      split: option.split)

lemma quiet_publish_then:
  assumes "quiet (svc_bus svc)" "\<And>u. is_ok (snd (g u))"
  shows "is_ok (snd (and_then (run_publish svc ctx name extra) (\<lambda>_. g) s))"
  using publish_quiet [OF assms(1)] assms(2) by (metis and_then_pair(1))

lemma attempt_loop_returns:
  "quiet (svc_bus svc) \<Longrightarrow> is_ok (snd (attempt_loop svc ctx le n s))"
proof (induction svc ctx le n arbitrary: s rule: attempt_loop.induct)
  case (1 svc ctx le)
  then show ?case by (simp add: failed_result_def)
next
  case (2 svc ctx le left)
  show ?case
    using "2.prems"
    by (auto simp: and_then_pair(1) [OF on_state_eq] count_run_def failed_result_def
        split: prod.split sum.split run_error.split
        intro!: quiet_publish_then [OF "2.prems"] "2.IH" [OF sym refl refl])
qed


text \<open>Services that all work, with a progress callback that raises at one tick.\<close>

definition demo_services :: "nat \<Rightarrow> (nat, nat, nat, nat) services" where
  "demo_services bad =
     \<lparr>svc_sync = (\<lambda>t _. Inr t), svc_collect = (\<lambda>t. Inr (t, 1)), svc_compare = (\<lambda>n l. Inr (n + l)),
      svc_evaluate = Inr, svc_persist = (\<lambda>t n l c. Inr ((t, t + 1, t + 2, t + 3), 2)),
      svc_commit = (\<lambda>t. None), svc_token = (\<lambda>t. None),
      svc_callback = (\<lambda>t p. if t = bad then Some ''callback failed'' else None), svc_bus = None,
      svc_clock = int\<rparr>"

definition demo_context :: OrchestrationContext where
  "demo_context = \<lparr>ctx_run_id = 9, ctx_max_attempts = 2, ctx_force_refresh = False\<rparr>"

definition idle_run :: run where
  "idle_run = \<lparr>run_id = 0, run_state = new_run_state 0,
     run_metrics = \<lparr>submitted_runs = 0, succeeded_runs = 0, failed_runs = 0, cancelled_runs = 0,
       retried_runs = 0, collector_jobs = 0, persisted_records = 0, duration_ticks = 0\<rparr>,
     run_tick = 0, run_stored = [], run_events = []\<rparr>"


text \<open>
  A progress callback that raises after the commit sends the run into its retry, which stores the
  records a second time: one successful run leaves two sets of snapshots.
\<close>

lemma two_attempts: "attempt_loop svc ctx le 2 = attempt_loop svc ctx le (Suc (Suc 0))"
  by (simp only: numeral_2_eq_2)

lemma retry_stores_twice:
  "let (t, r) = engine_run (demo_services 36) demo_context 7 idle_run
   in length (run_stored t) = 2 \<and> run_status (run_state t) = ORCH_SUCCEEDED"
  by (simp add: engine_run_def execute_def count_run_def run_publish_def demo_services_def
      demo_context_def idle_run_def run_once_def workflow_step_def raise_if_cancelled_def
      run_progress_def persist_def note_duration_def on_state_def observe_def lift_result_def
      lift_raise_def and_then_def failed_result_def run_marks two_attempts Let_def)

end
