(* ===== verification/Job_Queue.thy ===== *)
theory Job_Queue
  imports Prelude "HOL-Library.Product_Lexorder"
begin

text \<open>
  \<open>JobQueue\<close> of \<^verbatim>\<open>jobs/queue.py\<close>: an \<open>asyncio.PriorityQueue\<close> of triples of a priority, a sequence
  number and a job. The library queue hands out the smallest triple; as sequence numbers never
  repeat, two jobs are never compared. A job is its identifier here, the object lives in the store
  of \<open>Job_Framework\<close>.
\<close>

section \<open>The interface\<close>

text \<open>What a client of a priority queue may rely on, whatever the queue is made of.\<close>

locale priority_queue =
  fixes elems :: "'q \<Rightarrow> 'e multiset"
    and empty :: "'q"
    and put :: "'e \<Rightarrow> 'q \<Rightarrow> 'q"
    and get :: "'q \<Rightarrow> ('e \<times> 'q) option"
    and key :: "'e \<Rightarrow> 'k::linorder"
  assumes elems_empty: "elems empty = {#}"
    and elems_put: "elems (put e q) = add_mset e (elems q)"
    and get_None: "get q = None \<longleftrightarrow> elems q = {#}"
    and elems_get: "get q = Some (e, q') \<Longrightarrow> elems q = add_mset e (elems q')"
    and get_least: "get q = Some (e, q') \<Longrightarrow> x \<in># elems q \<Longrightarrow> key e \<le> key x"
begin

lemma get_size: "get q = Some (e, q') \<Longrightarrow> size (elems q) = Suc (size (elems q'))"
  by (simp add: elems_get)

lemma get_in_order: "get q = Some (e, q') \<Longrightarrow> get q' = Some (e', q'') \<Longrightarrow> key e \<le> key e'"
  using elems_get [of q' e' q''] elems_get [of q e q'] get_least [of q e q' e'] by simp

lemma put_get: "\<exists>e' q'. get (put e q) = Some (e', q') \<and> key e' \<le> key e"
proof (cases "get (put e q)")
  case None
  then show ?thesis by (simp add: get_None elems_put)
next
  case (Some p)
  then show ?thesis using get_least [of "put e q" "fst p" "snd p" e] by (cases p) (simp add: elems_put)
qed

end

section \<open>The queue\<close>

text \<open>The library queue: a bag of entries that hands out the smallest.\<close>

type_synonym entry = "int \<times> nat \<times> uuid"

definition entry_key :: "entry \<Rightarrow> int \<times> nat" where
  "entry_key e = (fst e, fst (snd e))"

definition entry_job :: "entry \<Rightarrow> uuid" where
  "entry_job e = snd (snd e)"

definition pq_get :: "entry list \<Rightarrow> (entry \<times> entry list) option" where
  "pq_get es = (if es = [] then None
                else let e = arg_min_list entry_key es in Some (e, remove1 e es))"

record JobQueue =
  queue_entries :: "entry list"
  queue_sequence :: nat

definition empty_queue :: JobQueue where
  "empty_queue = \<lparr>queue_entries = [], queue_sequence = 0\<rparr>"

definition queue_put :: "int \<Rightarrow> uuid \<Rightarrow> JobQueue \<Rightarrow> JobQueue" where
  "queue_put priority i q =
     q\<lparr>queue_entries := (priority, queue_sequence q, i) # queue_entries q,
       queue_sequence := Suc (queue_sequence q)\<rparr>"

text \<open>\<open>get\<close> waits on an empty queue: the worker calls it only after \<open>empty\<close>.\<close>

definition queue_get :: "JobQueue \<Rightarrow> (uuid \<times> JobQueue) option" where
  "queue_get q = map_option (\<lambda>(e, es). (entry_job e, q\<lparr>queue_entries := es\<rparr>)) (pq_get (queue_entries q))"

definition queue_empty :: "JobQueue \<Rightarrow> bool" where
  "queue_empty q \<longleftrightarrow> queue_entries q = []"

definition qsize :: "JobQueue \<Rightarrow> nat" where
  "qsize q = length (queue_entries q)"

section \<open>The queue meets the interface\<close>

lemma pq_get_Some:
  assumes "pq_get es = Some (e, es')"
  shows "e \<in> set es" "es' = remove1 e es" "x \<in> set es \<Longrightarrow> entry_key e \<le> entry_key x"
proof -
  from assms have ne: "es \<noteq> []" and e: "e = arg_min_list entry_key es" and es': "es' = remove1 e es"
    by (auto simp: pq_get_def Let_def split: if_splits)
  show "e \<in> set es" using arg_min_list_in [OF ne] by (simp add: e)
  show "es' = remove1 e es" by (rule es')
  show "entry_key e \<le> entry_key x" if "x \<in> set es"
    using f_arg_min_list_f [OF ne, of entry_key] that by (simp add: e)
qed

interpretation entry_queue: priority_queue mset "[]" "(#)" pq_get entry_key
proof unfold_locales
  fix q q' :: "entry list" and e x :: entry
  show "pq_get q = None \<longleftrightarrow> mset q = {#}" by (simp add: pq_get_def Let_def)
  assume got: "pq_get q = Some (e, q')"
  show "mset q = add_mset e (mset q')" using pq_get_Some(1,2) [OF got] by simp
  show "x \<in># mset q \<Longrightarrow> entry_key e \<le> entry_key x" using pq_get_Some(3) [OF got] by simp
qed simp_all

lemma queue_get_Some:
  "queue_get q = Some (i, q') \<longleftrightarrow>
     (\<exists>e es. pq_get (queue_entries q) = Some (e, es) \<and> i = entry_job e \<and> q' = q\<lparr>queue_entries := es\<rparr>)"
  by (auto simp: queue_get_def)

lemma queue_get_None: "queue_get q = None \<longleftrightarrow> queue_empty q"
  by (simp add: queue_get_def queue_empty_def pq_get_def Let_def)

lemma queue_get_size: "queue_get q = Some (i, q') \<Longrightarrow> qsize q = Suc (qsize q')"
  using entry_queue.get_size by (fastforce simp: queue_get_Some qsize_def)

lemma queue_get_jobs:
  "queue_get q = Some (i, q') \<Longrightarrow>
     mset (map entry_job (queue_entries q)) = add_mset i (mset (map entry_job (queue_entries q')))"
  using entry_queue.elems_get by (fastforce simp: queue_get_Some)

section \<open>Jobs leave in stable priority order\<close>

text \<open>Taking jobs until the queue is empty, and submitting a batch.\<close>

fun take_all :: "nat \<Rightarrow> JobQueue \<Rightarrow> uuid list" where
  "take_all 0 q = []"
| "take_all (Suc n) q = (case queue_get q of None \<Rightarrow> [] | Some (i, q') \<Rightarrow> i # take_all n q')"

definition put_all :: "(int \<times> uuid) list \<Rightarrow> JobQueue \<Rightarrow> JobQueue" where
  "put_all js q = fold (\<lambda>(p, i). queue_put p i) js q"

fun numbered :: "nat \<Rightarrow> (int \<times> uuid) list \<Rightarrow> entry list" where
  "numbered n [] = []"
| "numbered n ((p, i) # js) = (p, n, i) # numbered (Suc n) js"

lemma numbered_seq: "e \<in> set (numbered n js) \<Longrightarrow> n \<le> fst (snd e)"
  by (induction n js rule: numbered.induct) auto

lemma numbered_inj: "inj_on entry_key (set (numbered n js))"
proof (induction n js rule: numbered.induct)
  case (2 n p i js)
  then show ?case using numbered_seq [of _ "Suc n" js] by (fastforce simp: entry_key_def)
qed simp

lemma put_all_entries:
  "mset (queue_entries (put_all js q)) =
     mset (queue_entries q) + mset (numbered (queue_sequence q) js)"
  unfolding put_all_def
  by (induction js arbitrary: q) (auto simp: queue_put_def split_beta)

lemma take_all_sorts:
  "qsize q \<le> n \<Longrightarrow> inj_on entry_key (set (queue_entries q)) \<Longrightarrow>
     take_all n q = map entry_job (sort_key entry_key (queue_entries q))"
proof (induction n arbitrary: q)
  case (Suc n)
  show ?case
  proof (cases "queue_entries q = []")
    case True
    then show ?thesis by (simp add: queue_get_def pq_get_def)
  next
    case False
    then obtain e es where got: "pq_get (queue_entries q) = Some (e, es)"
      by (simp add: pq_get_def Let_def)
    let ?q = "q\<lparr>queue_entries := es\<rparr>"
    have get: "queue_get q = Some (entry_job e, ?q)" by (simp add: queue_get_Some got)
    have bag: "mset (queue_entries q) = add_mset e (mset es)" by (rule entry_queue.elems_get [OF got])
    have sub: "set es \<subseteq> set (queue_entries q)" by (metis bag set_mset_add_mset_insert set_mset_mset subset_insertI)
    have "take_all n ?q = map entry_job (sort_key entry_key es)"
      using Suc.IH [of ?q] Suc.prems queue_get_size [OF get] inj_on_subset [OF Suc.prems(2) sub] by simp
    moreover have "sort_key entry_key (queue_entries q) = e # sort_key entry_key es"
    proof (rule sort_key_inj_key_eq)
      show "mset (queue_entries q) = mset (e # sort_key entry_key es)" by (simp add: bag)
      show "inj_on entry_key (set (queue_entries q))" by (rule Suc.prems(2))
      show "sorted (map entry_key (e # sort_key entry_key es))"
        using entry_queue.get_least [OF got] sub by auto
    qed
    ultimately show ?thesis by (simp add: get)
  qed
qed (simp add: qsize_def)

lemma insort_numbered:
  "\<forall>y \<in> set ys. fst (snd x) < fst (snd y) \<Longrightarrow> insort_key entry_key x ys = insort_key fst x ys"
  by (induction ys) (auto simp: entry_key_def dest: less_imp_le)

lemma sort_numbered: "sort_key entry_key (numbered n js) = sort_key fst (numbered n js)"
proof (induction n js rule: numbered.induct)
  case (2 n p i js)
  have "\<forall>y \<in> set (sort_key fst (numbered (Suc n) js)). fst (snd (p, n, i)) < fst (snd y)"
    using numbered_seq [of _ "Suc n" js] by fastforce
  from insort_numbered [OF this] 2 show ?case by simp
qed simp

lemma sort_numbered_jobs: "map entry_job (sort_key fst (numbered n js)) = map snd (sort_key fst js)"
proof -
  have ins: "map (\<lambda>e. (fst e, entry_job e)) (insort_key fst (p, n, i) es) =
      insort_key fst (p, i) (map (\<lambda>e. (fst e, entry_job e)) es)" for p n i es
    by (induction es) (auto simp: entry_job_def)
  have "map (\<lambda>e. (fst e, entry_job e)) (sort_key fst (numbered n js)) = sort_key fst js"
    by (induction n js rule: numbered.induct) (simp_all add: ins)
  then have "map snd (map (\<lambda>e. (fst e, entry_job e)) (sort_key fst (numbered n js))) =
      map snd (sort_key fst js)" by simp
  then show ?thesis by (simp add: comp_def)
qed

text \<open>
  C16: Jobs leave the queue in the order of a stable sort of the submissions by priority: lower
  numbers first, and first come first served among equal priorities; none is lost or duplicated.
\<close>

theorem queue_is_stable_priority_order:
  "take_all (length js) (put_all js empty_queue) = map snd (sort_key fst js)"
proof -
  let ?q = "put_all js empty_queue"
  have bag: "mset (queue_entries ?q) = mset (numbered 0 js)"
    by (simp add: put_all_entries empty_queue_def)
  have len: "length (numbered n js) = length js" for n
    by (induction n js rule: numbered.induct) auto
  have "qsize ?q = length js" using mset_eq_length [OF bag] by (simp add: qsize_def len)
  moreover have inj: "inj_on entry_key (set (queue_entries ?q))"
    using numbered_inj mset_eq_setD [OF bag] by simp
  ultimately have "take_all (length js) ?q = map entry_job (sort_key entry_key (queue_entries ?q))"
    by (intro take_all_sorts) simp_all
  also have "sort_key entry_key (queue_entries ?q) = sort_key entry_key (numbered 0 js)"
    by (rule sort_key_inj_key_eq) (simp_all add: bag inj)
  finally show ?thesis by (simp add: sort_numbered sort_numbered_jobs)
qed

end
