(* ===== verification/Job_Framework.thy ===== *)
theory Job_Framework
  imports Orchestration Job_Queue
begin

text \<open>
  The job framework of \<^verbatim>\<open>jobs/\<close>: job state, requests and history, the in-memory repository, the
  dispatcher, the workers, and the manager that ties them together. Jobs and cancellation tokens are
  objects shared by the queue, the repository and the caller, so they live in stores (\<open>heap\<close>,
  \<open>tokens\<close>) and are referred to by address. The orchestration engine is the outcome it has for a
  job. Each operation reads the clock once; code between two suspension points is one step, event
  handlers included.
\<close>

section \<open>Job state\<close>

datatype JobStatus =
  JS_PENDING | JS_QUEUED | JS_RUNNING | JS_RETRYING | JS_COMPLETED | JS_FAILED | JS_CANCELLED | JS_TIMED_OUT

fun job_status_value :: "JobStatus \<Rightarrow> string" where
  "job_status_value JS_PENDING = ''pending''"
| "job_status_value JS_QUEUED = ''queued''"
| "job_status_value JS_RUNNING = ''running''"
| "job_status_value JS_RETRYING = ''retrying''"
| "job_status_value JS_COMPLETED = ''completed''"
| "job_status_value JS_FAILED = ''failed''"
| "job_status_value JS_CANCELLED = ''cancelled''"
| "job_status_value JS_TIMED_OUT = ''timed_out''"

record JobState =
  js_status :: JobStatus
  js_attempts :: nat
  js_message :: "string option"
  js_created_at :: time
  js_queued_at :: "time option"
  js_started_at :: "time option"
  js_finished_at :: "time option"
  js_updated_at :: time

definition new_job_state :: "time \<Rightarrow> JobState" where
  "new_job_state now =
     \<lparr>js_status = JS_PENDING, js_attempts = 0, js_message = None, js_created_at = now,
      js_queued_at = None, js_started_at = None, js_finished_at = None, js_updated_at = now\<rparr>"

definition mark_queued :: "time \<Rightarrow> JobState \<Rightarrow> JobState" where
  "mark_queued now st =
     st\<lparr>js_status := JS_QUEUED,
        js_queued_at := (case js_queued_at st of None \<Rightarrow> Some now | Some t \<Rightarrow> Some t),
        js_updated_at := now\<rparr>"

definition mark_running :: "time \<Rightarrow> JobState \<Rightarrow> JobState" where
  "mark_running now st =
     st\<lparr>js_status := JS_RUNNING,
        js_started_at := (case js_started_at st of None \<Rightarrow> Some now | Some t \<Rightarrow> Some t),
        js_updated_at := now\<rparr>"

definition mark_retrying :: "time \<Rightarrow> string \<Rightarrow> JobState \<Rightarrow> JobState" where
  "mark_retrying now msg st =
     st\<lparr>js_status := JS_RETRYING, js_message := Some msg, js_updated_at := now\<rparr>"

definition mark_finished :: "JobStatus \<Rightarrow> time \<Rightarrow> string option \<Rightarrow> JobState \<Rightarrow> JobState" where
  "mark_finished status now msg st =
     st\<lparr>js_status := status, js_message := msg, js_finished_at := Some now, js_updated_at := now\<rparr>"

definition mark_completed :: "time \<Rightarrow> string option \<Rightarrow> JobState \<Rightarrow> JobState" where
  "mark_completed = mark_finished JS_COMPLETED"

definition mark_failed :: "time \<Rightarrow> string option \<Rightarrow> JobState \<Rightarrow> JobState" where
  "mark_failed = mark_finished JS_FAILED"

definition mark_cancelled :: "time \<Rightarrow> string option \<Rightarrow> JobState \<Rightarrow> JobState" where
  "mark_cancelled = mark_finished JS_CANCELLED"

definition mark_timed_out :: "time \<Rightarrow> string option \<Rightarrow> JobState \<Rightarrow> JobState" where
  "mark_timed_out = mark_finished JS_TIMED_OUT"

definition increment_attempts :: "time \<Rightarrow> JobState \<Rightarrow> JobState" where
  "increment_attempts now st = st\<lparr>js_attempts := Suc (js_attempts st), js_updated_at := now\<rparr>"

lemmas job_marks =
  new_job_state_def mark_queued_def mark_running_def mark_retrying_def mark_finished_def
  mark_completed_def mark_failed_def mark_cancelled_def mark_timed_out_def increment_attempts_def

section \<open>Requests, history and jobs\<close>

text \<open>The context of a request enters through the address of its cancellation token.\<close>

record JobRequest =
  req_token :: nat
  req_priority :: int
  req_timeout :: "duration option"

record JobStateSnapshot =
  snap_status :: string
  snap_attempts :: nat
  snap_message :: "string option"
  snap_created_at :: time
  snap_queued_at :: "time option"
  snap_started_at :: "time option"
  snap_finished_at :: "time option"
  snap_updated_at :: time

definition from_state :: "JobState \<Rightarrow> JobStateSnapshot" where
  "from_state st =
     \<lparr>snap_status = job_status_value (js_status st), snap_attempts = js_attempts st,
      snap_message = js_message st, snap_created_at = js_created_at st,
      snap_queued_at = js_queued_at st, snap_started_at = js_started_at st,
      snap_finished_at = js_finished_at st, snap_updated_at = js_updated_at st\<rparr>"

record JobHistoryRecord =
  hist_id :: uuid
  hist_request :: JobRequest
  hist_state :: JobStateSnapshot
  hist_result :: "(string, pyval) dict"
  hist_created_at :: time

record Job =
  job_address :: uuid
  job_request :: JobRequest
  job_status :: JobState
  job_history_log :: "JobHistoryRecord list"

definition record_history ::
  "uuid \<Rightarrow> time \<Rightarrow> (string, pyval) dict option \<Rightarrow> Job \<Rightarrow> Job" where
  "record_history i now result j =
     j\<lparr>job_history_log := job_history_log j @
        [\<lparr>hist_id = i, hist_request = job_request j, hist_state = from_state (job_status j),
          hist_result = (case result of None \<Rightarrow> [] | Some d \<Rightarrow> d), hist_created_at = now\<rparr>]\<rparr>"

record JobMetrics =
  submitted_jobs :: nat
  queued_jobs :: nat
  started_jobs :: nat
  completed_jobs :: nat
  failed_jobs :: nat
  cancelled_jobs :: nat
  timed_out_jobs :: nat

text \<open>A worker: waiting for a job, for the dispatcher's semaphore, for the engine; or gone.\<close>

datatype phase = Idle | Waiting uuid | Busy uuid | Stopped | Crashed

record world =
  heap :: "uuid \<Rightarrow> Job option"
  tokens :: "nat \<Rightarrow> string option"
  repo_jobs :: "uuid list"
  repo_history :: "(uuid, JobHistoryRecord list) dict"
  jqueue :: JobQueue
  jmetrics :: JobMetrics
  jbus :: "handler_registry option"
  jevents :: "BaseEvent list"
  jfresh :: uuid
  stop_event :: bool
  workers :: "phase list"
  max_concurrent_jobs :: nat

datatype job_error = Event_Error string | Value_Error string

type_synonym 'a job_action = "(world, job_error, 'a) action"

section \<open>Repository, metrics and events\<close>

definition on_job :: "uuid \<Rightarrow> (JobState \<Rightarrow> JobState) \<Rightarrow> world \<Rightarrow> world" where
  "on_job i f w = w\<lparr>heap := (heap w)(i := map_option (\<lambda>j. j\<lparr>job_status := f (job_status j)\<rparr>) (heap w i))\<rparr>"

definition history_of :: "world \<Rightarrow> uuid \<Rightarrow> JobHistoryRecord list" where
  "history_of w i = (case dict_get (repo_history w) i of None \<Rightarrow> [] | Some hs \<Rightarrow> hs)"

text \<open>\<open>save\<close> keeps the object by reference and appends the whole log of the job to its history.\<close>

definition repo_save :: "uuid \<Rightarrow> world \<Rightarrow> world" where
  "repo_save i w =
     w\<lparr>repo_jobs := (if i \<in> set (repo_jobs w) then repo_jobs w else repo_jobs w @ [i]),
       repo_history := dict_set i (history_of w i @
         (case heap w i of None \<Rightarrow> [] | Some j \<Rightarrow> job_history_log j)) (repo_history w)\<rparr>"

definition repo_get_job :: "world \<Rightarrow> uuid \<Rightarrow> Job option" where
  "repo_get_job w i = (if i \<in> set (repo_jobs w) then heap w i else None)"

definition list_jobs :: "world \<Rightarrow> Job list" where
  "list_jobs w = List.map_filter (heap w) (repo_jobs w)"

definition append_history :: "uuid \<Rightarrow> JobHistoryRecord \<Rightarrow> world \<Rightarrow> world" where
  "append_history i h w = w\<lparr>repo_history := dict_set i (history_of w i @ [h]) (repo_history w)\<rparr>"

definition count_jobs :: "(JobMetrics \<Rightarrow> JobMetrics) \<Rightarrow> world \<Rightarrow> world" where
  "count_jobs f w = w\<lparr>jmetrics := f (jmetrics w)\<rparr>"

definition record_submitted :: "JobMetrics \<Rightarrow> JobMetrics" where
  "record_submitted m = m\<lparr>submitted_jobs := submitted_jobs m + 1\<rparr>"

definition record_queued :: "JobMetrics \<Rightarrow> JobMetrics" where
  "record_queued m = m\<lparr>queued_jobs := queued_jobs m + 1\<rparr>"

definition record_started :: "JobMetrics \<Rightarrow> JobMetrics" where
  "record_started m = m\<lparr>started_jobs := started_jobs m + 1\<rparr>"

definition record_completed :: "JobMetrics \<Rightarrow> JobMetrics" where
  "record_completed m = m\<lparr>completed_jobs := completed_jobs m + 1\<rparr>"

definition record_failed :: "JobMetrics \<Rightarrow> JobMetrics" where
  "record_failed m = m\<lparr>failed_jobs := failed_jobs m + 1\<rparr>"

definition record_cancelled :: "JobMetrics \<Rightarrow> JobMetrics" where
  "record_cancelled m = m\<lparr>cancelled_jobs := cancelled_jobs m + 1\<rparr>"

definition record_timed_out :: "JobMetrics \<Rightarrow> JobMetrics" where
  "record_timed_out m = m\<lparr>timed_out_jobs := timed_out_jobs m + 1\<rparr>"

lemmas job_counts =
  record_submitted_def record_queued_def record_started_def record_completed_def record_failed_def
  record_cancelled_def record_timed_out_def

fun str_value :: "string option \<Rightarrow> pyval" where
  "str_value None = PNone"
| "str_value (Some m) = PStr m"

definition job_event :: "time \<Rightarrow> string \<Rightarrow> Job \<Rightarrow> (string, pyval) dict \<Rightarrow> BaseEvent" where
  "job_event now name j extra =
     \<lparr>event_name = name,
      event_payload = [(''job_id'', PInt (int (job_address j))),
        (''status'', PStr (job_status_value (js_status (job_status j)))),
        (''attempts'', PInt (int (js_attempts (job_status j))))] @ extra,
      occurred_at = now\<rparr>"

definition publish_job_event ::
  "time \<Rightarrow> string \<Rightarrow> uuid \<Rightarrow> (string, pyval) dict \<Rightarrow> unit job_action" where
  "publish_job_event now name i extra w =
     (case (jbus w, heap w i) of
        (Some reg, Some j) \<Rightarrow>
          let e = job_event now name j extra
          in (w\<lparr>jevents := jevents w @ [e]\<rparr>, map_sum Event_Error id (snd (dispatch_event reg e)))
      | _ \<Rightarrow> (w, Inr ()))"

section \<open>The manager\<close>

definition submit_job :: "time \<Rightarrow> JobRequest \<Rightarrow> (uuid \<times> bool) job_action" where
  "submit_job now req w =
     (let i = jfresh w;
          j = \<lparr>job_address = i, job_request = req, job_status = new_job_state now, job_history_log = []\<rparr>;
          w1 = count_jobs record_submitted (repo_save i (w\<lparr>jfresh := Suc i, heap := (heap w)(i \<mapsto> j)\<rparr>))
      in and_then (publish_job_event now ''job.submitted'' i []) (\<lambda>_.
         and_then (modify (\<lambda>w. let w' = on_job i (mark_queued now) w in
           count_jobs record_queued (w'\<lparr>jqueue := queue_put (req_priority req) i (jqueue w')\<rparr>))) (\<lambda>_.
         returns (i, True))) w1)"

text \<open>\<open>Job.cancel\<close>: the token and the state change whatever the state was.\<close>

definition cancel :: "time \<Rightarrow> string \<Rightarrow> uuid \<Rightarrow> world \<Rightarrow> world" where
  "cancel now reason i w =
     (case heap w i of
        None \<Rightarrow> w
      | Some j \<Rightarrow> on_job i (mark_cancelled now (Some reason))
                   (w\<lparr>tokens := (tokens w)(req_token (job_request j) \<mapsto> reason)\<rparr>))"

text \<open>The identifier is the result of \<open>UUID(job_id)\<close>, \<open>None\<close> when the text is malformed.\<close>

definition cancel_job :: "time \<Rightarrow> uuid option \<Rightarrow> string \<Rightarrow> unit job_action" where
  "cancel_job now ident reason w =
     (case ident of
        None \<Rightarrow> (w, Inl (Value_Error ''badly formed hexadecimal UUID string''))
      | Some i \<Rightarrow>
          (case repo_get_job w i of
             None \<Rightarrow> (w, Inr ())
           | Some j \<Rightarrow> publish_job_event now ''job.cancelled'' i [(''reason'', PStr reason)]
                        (repo_save i (cancel now reason i w))))"

definition shutdown :: "world \<Rightarrow> world" where
  "shutdown w = w\<lparr>stop_event := True\<rparr>"

text \<open>
  \<open>wrapped_progress\<close> around the caller's callback (which may be absent or raise) and
  \<open>report_progress\<close>; both announce the step.
\<close>

definition report_progress ::
  "time \<Rightarrow> uuid \<Rightarrow> (OrchestrationProgress \<Rightarrow> string option) option \<Rightarrow> OrchestrationProgress \<Rightarrow> unit job_action" where
  "report_progress now i callback p w =
     (case callback of
        Some f \<Rightarrow> (case f p of
            Some m \<Rightarrow> (w, Inl (Event_Error m))
          | None \<Rightarrow> publish_job_event now ''job.progress'' i (progress_payload p) w)
      | None \<Rightarrow> publish_job_event now ''job.progress'' i (progress_payload p) w)"

section \<open>The dispatcher\<close>

text \<open>How the engine ends: by the job's timeout, a cancelled task, an exception, or a result.\<close>

datatype engine_end =
    Engine_Timeout string
  | Engine_Cancelled
  | Engine_Raised string
  | Engine_Returned OrchestrationStatus "string option"

definition token_reason :: "world \<Rightarrow> uuid \<Rightarrow> string option" where
  "token_reason w i = (case heap w i of None \<Rightarrow> None | Some j \<Rightarrow> tokens w (req_token (job_request j)))"

definition or_default :: "string option \<Rightarrow> string \<Rightarrow> string" where
  "or_default r d = (case r of None \<Rightarrow> d | Some m \<Rightarrow> if m = [] then d else m)"

definition close_job ::
  "time \<Rightarrow> uuid \<Rightarrow> (JobState \<Rightarrow> JobState) \<Rightarrow> (JobMetrics \<Rightarrow> JobMetrics) \<Rightarrow> string \<Rightarrow>
   (string, pyval) dict \<Rightarrow> unit job_action" where
  "close_job now i mark counter name extra w =
     publish_job_event now name i extra (count_jobs counter (on_job i mark w))"

text \<open>The part of \<open>dispatch\<close> before the semaphore, for a job whose token is set.\<close>

definition dispatch_refused :: "time \<Rightarrow> uuid \<Rightarrow> unit job_action" where
  "dispatch_refused now i w =
     close_job now i (mark_cancelled now (Some (or_default (token_reason w i) ''Job cancelled.'')))
       record_cancelled ''job.cancelled'' [(''reason'', str_value (token_reason w i))] w"

definition dispatch_start :: "time \<Rightarrow> uuid \<Rightarrow> unit job_action" where
  "dispatch_start now i w =
     publish_job_event now ''job.started'' i []
       (on_job i (\<lambda>st. mark_running now (increment_attempts now st)) (count_jobs record_started w))"

definition dispatch_end :: "time \<Rightarrow> uuid \<Rightarrow> engine_end \<Rightarrow> unit job_action" where
  "dispatch_end now i outcome w =
     (case outcome of
        Engine_Timeout m \<Rightarrow>
          close_job now i (mark_timed_out now (Some m)) record_timed_out ''job.timed_out'' [(''error'', PStr m)] w
      | Engine_Cancelled \<Rightarrow>
          close_job now i (mark_cancelled now (Some (or_default (token_reason w i) ''Job cancelled.'')))
            record_cancelled ''job.cancelled'' [(''reason'', str_value (token_reason w i))] w
      | Engine_Raised m \<Rightarrow>
          close_job now i (mark_failed now (Some m)) record_failed ''job.failed'' [(''error'', PStr m)] w
      | Engine_Returned status msg \<Rightarrow>
          (case status of
             ORCH_CANCELLED \<Rightarrow>
               close_job now i (mark_cancelled now msg) record_cancelled ''job.cancelled'' [(''reason'', str_value msg)] w
           | ORCH_FAILED \<Rightarrow>
               close_job now i (mark_failed now (Some (or_default msg ''Job failed.''))) record_failed
                 ''job.failed'' [(''error'', str_value msg)] w
           | _ \<Rightarrow>
               close_job now i (mark_completed now (Some ''Job completed successfully.'')) record_completed
                 ''job.completed'' [] w))"

section \<open>The workers\<close>

definition start_workers :: "nat \<Rightarrow> world \<Rightarrow> world" where
  "start_workers n w = w\<lparr>workers := workers w @ replicate n Idle\<rparr>"

definition set_phase :: "nat \<Rightarrow> phase \<Rightarrow> world \<Rightarrow> world" where
  "set_phase k p w = w\<lparr>workers := (workers w)[k := p]\<rparr>"

definition is_busy :: "phase \<Rightarrow> bool" where
  "is_busy p = (case p of Busy _ \<Rightarrow> True | _ \<Rightarrow> False)"

definition running :: "world \<Rightarrow> nat" where
  "running w = length (filter is_busy (workers w))"

text \<open>
  One turn of \<open>JobWorker.run\<close>, in the pieces its suspension points cut it into. The announcement
  of the job stands outside the \<open>try\<close>: when a handler raises there, the worker's task ends.
\<close>

definition worker_take :: "time \<Rightarrow> nat \<Rightarrow> world \<Rightarrow> world" where
  "worker_take now k w =
     (case queue_get (jqueue w) of
        None \<Rightarrow> w
      | Some (i, q) \<Rightarrow>
          (case publish_job_event now ''job.queued'' i [] (w\<lparr>jqueue := q\<rparr>) of
             (w1, Inl _) \<Rightarrow> set_phase k Crashed w1
           | (w1, Inr _) \<Rightarrow>
               let w2 = repo_save i w1
               in if token_reason w2 i \<noteq> None
                  then set_phase k Idle (repo_save i (fst (dispatch_refused now i w2)))
                  else set_phase k (Waiting i) w2))"

definition worker_start :: "time \<Rightarrow> nat \<Rightarrow> uuid \<Rightarrow> world \<Rightarrow> world" where
  "worker_start now k i w =
     (case dispatch_start now i w of
        (w1, Inl _) \<Rightarrow> set_phase k Idle (repo_save i w1)
      | (w1, Inr _) \<Rightarrow> set_phase k (Busy i) w1)"

definition worker_finish :: "time \<Rightarrow> nat \<Rightarrow> uuid \<Rightarrow> engine_end \<Rightarrow> world \<Rightarrow> world" where
  "worker_finish now k i outcome w =
     set_phase k Idle (repo_save i (fst (dispatch_end now i outcome w)))"

section \<open>Interleaved executions\<close>

inductive job_step :: "world \<Rightarrow> world \<Rightarrow> bool" where
  submit: "job_step w (fst (submit_job now req w))"
| cancel_request: "job_step w (fst (cancel_job now ident reason w))"
| start_more: "job_step w (start_workers n w)"
| stop: "job_step w (shutdown w)"
| leave: "k < length (workers w) \<Longrightarrow> workers w ! k = Idle \<Longrightarrow> stop_event w \<Longrightarrow>
    job_step w (set_phase k Stopped w)"
| take: "k < length (workers w) \<Longrightarrow> workers w ! k = Idle \<Longrightarrow> \<not> stop_event w \<Longrightarrow>
    \<not> queue_empty (jqueue w) \<Longrightarrow> job_step w (worker_take now k w)"
| enter: "k < length (workers w) \<Longrightarrow> workers w ! k = Waiting i \<Longrightarrow>
    running w < max_concurrent_jobs w \<Longrightarrow> job_step w (worker_start now k i w)"
| finish: "k < length (workers w) \<Longrightarrow> workers w ! k = Busy i \<Longrightarrow>
    job_step w (worker_finish now k i outcome w)"

definition initial_world :: "world \<Rightarrow> bool" where
  "initial_world w \<longleftrightarrow>
     heap w = Map.empty \<and> repo_jobs w = [] \<and> repo_history w = [] \<and> jqueue w = empty_queue \<and>
     jmetrics w = \<lparr>submitted_jobs = 0, queued_jobs = 0, started_jobs = 0, completed_jobs = 0,
       failed_jobs = 0, cancelled_jobs = 0, timed_out_jobs = 0\<rparr> \<and> workers w = []"

text \<open>The jobs that have not started: queued, or taken by a worker that waits for the semaphore.\<close>

fun waiting_bag :: "phase \<Rightarrow> uuid multiset" where
  "waiting_bag (Waiting i) = {#i#}"
| "waiting_bag _ = {#}"

definition pending_bag :: "world \<Rightarrow> uuid multiset" where
  "pending_bag w = mset (map entry_job (queue_entries (jqueue w))) + (\<Sum>p\<leftarrow>workers w. waiting_bag p)"

fun holds :: "phase \<Rightarrow> nat" where
  "holds (Waiting i) = 1" | "holds (Busy i) = 1" | "holds _ = 0"

definition in_flight :: "world \<Rightarrow> nat" where
  "in_flight w = qsize (jqueue w) + (\<Sum>p\<leftarrow>workers w. holds p)"

definition finished_jobs :: "JobMetrics \<Rightarrow> nat" where
  "finished_jobs m = completed_jobs m + failed_jobs m + cancelled_jobs m + timed_out_jobs m"

definition jobs_inv :: "world \<Rightarrow> bool" where
  "jobs_inv w \<longleftrightarrow>
     running w \<le> max_concurrent_jobs w \<and>
     (\<forall>i. count (pending_bag w) i \<le> 1) \<and>
     (\<forall>i j. heap w i = Some j \<longrightarrow> i < jfresh w \<and> js_attempts (job_status j) \<le> 1) \<and>
     (\<forall>i. i \<in># pending_bag w \<longrightarrow> (\<exists>j. heap w i = Some j \<and> js_attempts (job_status j) = 0)) \<and>
     in_flight w + finished_jobs (jmetrics w) \<le> queued_jobs (jmetrics w) \<and>
     queued_jobs (jmetrics w) \<le> submitted_jobs (jmetrics w)"

lemma sum_list_update_phase:
  fixes f :: "phase \<Rightarrow> 'a::comm_monoid_add"
  shows "k < length ws \<Longrightarrow>
    (\<Sum>p\<leftarrow>ws[k := p']. f p) + f (ws ! k) = (\<Sum>p\<leftarrow>ws. f p) + f p'"
proof (induction ws arbitrary: k)
  case (Cons p ws)
  then show ?case by (cases k) (simp_all add: ac_simps)
qed simp

lemma running_sum: "running w = (\<Sum>p\<leftarrow>workers w. if is_busy p then 1 else 0)"
proof -
  have "length (filter is_busy ws) = (\<Sum>p\<leftarrow>ws. if is_busy p then 1 else 0)" for ws
    by (induction ws) auto
  then show ?thesis by (simp add: running_def)
qed

text \<open>What saving, publishing and marking leave alone.\<close>

lemma repo_save_frame [simp]:
  "heap (repo_save i w) = heap w" "tokens (repo_save i w) = tokens w" "jqueue (repo_save i w) = jqueue w"
  "jmetrics (repo_save i w) = jmetrics w" "jfresh (repo_save i w) = jfresh w"
  "workers (repo_save i w) = workers w" "max_concurrent_jobs (repo_save i w) = max_concurrent_jobs w"
  "jbus (repo_save i w) = jbus w" "stop_event (repo_save i w) = stop_event w"
  "set (repo_jobs (repo_save i w)) = insert i (set (repo_jobs w))"
  by (auto simp: repo_save_def)

lemma count_jobs_frame [simp]:
  "heap (count_jobs f w) = heap w" "tokens (count_jobs f w) = tokens w" "jqueue (count_jobs f w) = jqueue w"
  "jmetrics (count_jobs f w) = f (jmetrics w)" "jfresh (count_jobs f w) = jfresh w"
  "workers (count_jobs f w) = workers w" "max_concurrent_jobs (count_jobs f w) = max_concurrent_jobs w"
  "jbus (count_jobs f w) = jbus w" "stop_event (count_jobs f w) = stop_event w"
  "repo_jobs (count_jobs f w) = repo_jobs w"
  by (auto simp: count_jobs_def)

lemma on_job_frame [simp]:
  "heap (on_job i f w) = (heap w)(i := map_option (\<lambda>j. j\<lparr>job_status := f (job_status j)\<rparr>) (heap w i))"
  "tokens (on_job i f w) = tokens w" "jqueue (on_job i f w) = jqueue w"
  "jmetrics (on_job i f w) = jmetrics w" "jfresh (on_job i f w) = jfresh w"
  "workers (on_job i f w) = workers w" "max_concurrent_jobs (on_job i f w) = max_concurrent_jobs w"
  "jbus (on_job i f w) = jbus w" "stop_event (on_job i f w) = stop_event w"
  "repo_jobs (on_job i f w) = repo_jobs w"
  by (auto simp: on_job_def)

lemma set_phase_frame [simp]:
  "heap (set_phase k p w) = heap w" "tokens (set_phase k p w) = tokens w"
  "jqueue (set_phase k p w) = jqueue w" "jmetrics (set_phase k p w) = jmetrics w"
  "jfresh (set_phase k p w) = jfresh w" "workers (set_phase k p w) = (workers w)[k := p]"
  "max_concurrent_jobs (set_phase k p w) = max_concurrent_jobs w"
  "jbus (set_phase k p w) = jbus w" "stop_event (set_phase k p w) = stop_event w"
  "repo_jobs (set_phase k p w) = repo_jobs w"
  by (auto simp: set_phase_def)

definition same_world :: "world \<Rightarrow> world \<Rightarrow> bool" where
  "same_world w v \<longleftrightarrow>
     heap v = heap w \<and> tokens v = tokens w \<and> jqueue v = jqueue w \<and> jmetrics v = jmetrics w \<and>
     jfresh v = jfresh w \<and> workers v = workers w \<and> max_concurrent_jobs v = max_concurrent_jobs w \<and>
     jbus v = jbus w \<and> stop_event v = stop_event w \<and> repo_jobs v = repo_jobs w"

lemma publish_same: "publish_job_event now name i extra w = (v, r) \<Longrightarrow> same_world w v"
  by (auto simp: publish_job_event_def same_world_def Let_def split: option.splits)

lemma publish_fst: "same_world w (fst (publish_job_event now name i extra w))"
  using publish_same by (metis prod.collapse)

section \<open>Every operation keeps the invariant\<close>

text \<open>The invariant reads only these parts of the world.\<close>

definition view :: "world \<Rightarrow> (uuid \<Rightarrow> Job option) \<times> JobQueue \<times> JobMetrics \<times> uuid \<times> phase list \<times> nat" where
  "view w = (heap w, jqueue w, jmetrics w, jfresh w, workers w, max_concurrent_jobs w)"

lemma inv_view: "view v = view w \<Longrightarrow> jobs_inv v \<longleftrightarrow> jobs_inv w"
  by (simp add: view_def jobs_inv_def running_def pending_bag_def in_flight_def)

lemma inv_same: "same_world w v \<Longrightarrow> jobs_inv v \<longleftrightarrow> jobs_inv w"
  by (rule inv_view) (simp add: same_world_def view_def)

lemma inv_repo_save [simp]: "jobs_inv (repo_save i w) \<longleftrightarrow> jobs_inv w"
  by (rule inv_view) (simp add: view_def)

lemma inv_publish [simp]: "jobs_inv (fst (publish_job_event now name i extra w)) \<longleftrightarrow> jobs_inv w"
  by (rule inv_same) (rule publish_fst)

text \<open>Marking a job does not change its attempts.\<close>

lemma inv_on_job:
  assumes "\<And>st. js_attempts (f st) = js_attempts st"
  shows "jobs_inv (on_job i f w) \<longleftrightarrow> jobs_inv w"
  unfolding jobs_inv_def running_def pending_bag_def in_flight_def
  by (auto simp: assms split: if_splits)

lemma marks_keep_attempts [simp]:
  "js_attempts (mark_cancelled now m st) = js_attempts st" "js_attempts (mark_failed now m st) = js_attempts st"
  "js_attempts (mark_completed now m st) = js_attempts st" "js_attempts (mark_timed_out now m st) = js_attempts st"
  "js_attempts (mark_queued now st) = js_attempts st" "js_attempts (mark_running now st) = js_attempts st"
  by (simp_all add: job_marks)

lemma inv_cancel: "jobs_inv (cancel now reason i w) \<longleftrightarrow> jobs_inv w"
proof (cases "heap w i")
  case (Some j)
  have "jobs_inv (cancel now reason i w) \<longleftrightarrow>
      jobs_inv (w\<lparr>tokens := (tokens w)(req_token (job_request j) \<mapsto> reason)\<rparr>)"
    unfolding cancel_def Some option.case by (rule inv_on_job) simp
  also have "\<dots> \<longleftrightarrow> jobs_inv w" by (rule inv_view) (simp add: view_def)
  finally show ?thesis .
qed (simp add: cancel_def)

lemma inv_cancel_job: "jobs_inv w \<Longrightarrow> jobs_inv (fst (cancel_job now ident reason w))"
  by (auto simp: cancel_job_def inv_cancel split: option.split)

lemma inv_submit_job:
  assumes inv: "jobs_inv w"
  shows "jobs_inv (fst (submit_job now req w))"
proof -
  let ?i = "jfresh w"
  let ?j = "\<lparr>job_address = ?i, job_request = req, job_status = new_job_state now, job_history_log = []\<rparr>"
  let ?w = "count_jobs record_submitted (repo_save ?i (w\<lparr>jfresh := Suc ?i, heap := (heap w)(?i \<mapsto> ?j)\<rparr>))"
  obtain v r where pub: "publish_job_event now ''job.submitted'' ?i [] ?w = (v, r)" by force
  have fresh: "?i \<notin># pending_bag w" "heap w ?i = None"
    using inv unfolding jobs_inv_def by (blast, metis less_irrefl not_None_eq)
  have bag: "pending_bag ?w = pending_bag w" "in_flight ?w = in_flight w" "running ?w = running w"
    by (simp_all add: pending_bag_def in_flight_def running_def)
  have new: "jobs_inv ?w"
    using inv fresh unfolding jobs_inv_def bag
    by (auto simp: job_counts finished_jobs_def new_job_state_def less_Suc_eq split: if_splits)
  then have v: "jobs_inv v" using inv_same [OF publish_same [OF pub]] by simp
  have same: "same_world ?w v" by (rule publish_same [OF pub])
  let ?u = "on_job ?i (mark_queued now) v"
  let ?q = "count_jobs record_queued (?u\<lparr>jqueue := queue_put (req_priority req) ?i (jqueue ?u)\<rparr>)"
  have queued: "pending_bag ?q = add_mset ?i (pending_bag w)" "in_flight ?q = Suc (in_flight w)"
      "running ?q = running w"
    using same by (simp_all add: same_world_def pending_bag_def in_flight_def running_def queue_put_def
        entry_job_def qsize_def)
  have "jobs_inv ?q"
    using inv fresh unfolding jobs_inv_def queued using same
    by (auto simp: same_world_def job_counts finished_jobs_def new_job_state_def less_Suc_eq
        not_in_iff split: if_splits)
  then show ?thesis using v pub
    by (cases r) (simp_all add: submit_job_def and_then_def Let_def)
qed

text \<open>
  A worker's step keeps the invariant when it starts only pending jobs, each at most once, keeps to
  the semaphore, and closes no more jobs than it takes out of flight.
\<close>

lemma inv_move:
  assumes inv: "jobs_inv w"
    and bag: "pending_bag v \<subseteq># pending_bag w"
    and bound: "running v \<le> max_concurrent_jobs v"
    and jobs: "\<And>i j'. heap v i = Some j' \<Longrightarrow> \<exists>j. heap w i = Some j \<and>
        (js_attempts (job_status j') = js_attempts (job_status j) \<or>
         js_attempts (job_status j') = Suc (js_attempts (job_status j)) \<and>
           i \<in># pending_bag w \<and> i \<notin># pending_bag v)"
    and domain: "\<And>i. heap v i = None \<Longrightarrow> heap w i = None"
    and frame: "jfresh v = jfresh w" "queued_jobs (jmetrics v) = queued_jobs (jmetrics w)"
      "submitted_jobs (jmetrics v) = submitted_jobs (jmetrics w)"
      "in_flight v + finished_jobs (jmetrics v) \<le> in_flight w + finished_jobs (jmetrics w)"
  shows "jobs_inv v"
proof -
  have "count (pending_bag v) i \<le> 1" for i
    using inv mset_subset_eq_count [OF bag, of i] unfolding jobs_inv_def by (meson order_trans)
  moreover have "i < jfresh v \<and> js_attempts (job_status j') \<le> 1" if "heap v i = Some j'" for i j'
    using jobs [OF that] inv unfolding jobs_inv_def frame(1) by fastforce
  moreover have "\<exists>j. heap v i = Some j \<and> js_attempts (job_status j) = 0" if "i \<in># pending_bag v" for i
  proof -
    have "i \<in># pending_bag w" using bag that by (rule mset_subset_eqD)
    then obtain j where j: "heap w i = Some j" "js_attempts (job_status j) = 0"
      using inv unfolding jobs_inv_def by blast
    with domain [of i] obtain j' where "heap v i = Some j'" by (cases "heap v i") auto
    with jobs [OF this] j that show ?thesis by auto
  qed
  ultimately show ?thesis using bound frame inv unfolding jobs_inv_def by simp
qed

text \<open>Replacing a worker's phase moves the bags and counters of the workers.\<close>

lemma phase_change:
  assumes "k < length (workers w)" "workers v = (workers w)[k := p]"
  shows "(\<Sum>q\<leftarrow>workers v. waiting_bag q) + waiting_bag (workers w ! k) =
      (\<Sum>q\<leftarrow>workers w. waiting_bag q) + waiting_bag p"
    "(\<Sum>q\<leftarrow>workers v. holds q) + holds (workers w ! k) = (\<Sum>q\<leftarrow>workers w. holds q) + holds p"
    "running v + (if is_busy (workers w ! k) then 1 else 0) = running w + (if is_busy p then 1 else 0)"
  unfolding assms(2) running_sum by (rule sum_list_update_phase [OF assms(1)])+

lemma is_busy_simps [simp]:
  "\<not> is_busy Idle" "\<not> is_busy (Waiting i)" "is_busy (Busy i)" "\<not> is_busy Stopped" "\<not> is_busy Crashed"
  by (simp_all add: is_busy_def)

lemma close_job_frame:
  assumes "v = fst (close_job now i mark counter name extra w)"
  shows "jqueue v = jqueue w" "jfresh v = jfresh w" "workers v = workers w"
    "max_concurrent_jobs v = max_concurrent_jobs w" "jmetrics v = counter (jmetrics w)"
    "heap v = heap (on_job i mark w)" "stop_event v = stop_event w" "jbus v = jbus w" "tokens v = tokens w"
  using publish_fst [of "count_jobs counter (on_job i mark w)" now name i extra]
  unfolding assms close_job_def same_world_def by simp_all

text \<open>Every end of a dispatch marks the job and counts it once.\<close>

definition closes :: "uuid \<Rightarrow> world \<Rightarrow> world \<Rightarrow> bool" where
  "closes i w v \<longleftrightarrow>
     jqueue v = jqueue w \<and> jfresh v = jfresh w \<and> workers v = workers w \<and>
     max_concurrent_jobs v = max_concurrent_jobs w \<and> stop_event v = stop_event w \<and> jbus v = jbus w \<and>
     queued_jobs (jmetrics v) = queued_jobs (jmetrics w) \<and>
     submitted_jobs (jmetrics v) = submitted_jobs (jmetrics w) \<and>
     finished_jobs (jmetrics v) = Suc (finished_jobs (jmetrics w)) \<and>
     (\<exists>status \<in> {JS_COMPLETED, JS_FAILED, JS_CANCELLED, JS_TIMED_OUT}. \<exists>now msg.
        heap v = heap (on_job i (mark_finished status now msg) w))"

lemma close_job_closes:
  assumes "mark = mark_finished status now msg" "status \<in> {JS_COMPLETED, JS_FAILED, JS_CANCELLED, JS_TIMED_OUT}"
    "counter \<in> {record_completed, record_failed, record_cancelled, record_timed_out}"
  shows "closes i w (fst (close_job now i mark counter name extra w))"
  unfolding closes_def close_job_frame [OF refl]
  using assms by (auto simp: job_counts finished_jobs_def simp del: on_job_frame)

lemma dispatch_end_closes: "closes i w (fst (dispatch_end now i outcome w))"
  unfolding dispatch_end_def mark_completed_def mark_failed_def mark_cancelled_def mark_timed_out_def
  by (auto split: engine_end.split OrchestrationStatus.split intro: close_job_closes)

lemma dispatch_refused_closes: "closes i w (fst (dispatch_refused now i w))"
  unfolding dispatch_refused_def mark_cancelled_def by (auto intro: close_job_closes)

lemma closes_jobs:
  assumes "closes i w v" "heap v k = Some j'"
  shows "\<exists>j. heap w k = Some j \<and> js_attempts (job_status j') = js_attempts (job_status j)"
  using assms by (auto simp: closes_def mark_finished_def split: if_splits)

lemma closes_domain: "closes i w v \<Longrightarrow> heap v k = None \<Longrightarrow> heap w k = None"
  by (auto simp: closes_def split: if_splits)

lemma inv_finish:
  assumes inv: "jobs_inv w" and k: "k < length (workers w)" and phase: "workers w ! k = Busy i"
  shows "jobs_inv (worker_finish now k i outcome w)"
proof -
  let ?u = "fst (dispatch_end now i outcome w)"
  let ?v = "worker_finish now k i outcome w"
  have c: "closes i w ?u" by (rule dispatch_end_closes)
  have v: "workers ?v = (workers w)[k := Idle]" "jqueue ?v = jqueue w" "heap ?v = heap ?u"
      "jmetrics ?v = jmetrics ?u" "jfresh ?v = jfresh w" "max_concurrent_jobs ?v = max_concurrent_jobs w"
    using c by (simp_all add: worker_finish_def closes_def)
  note p = phase_change [OF k v(1), unfolded phase]
  show ?thesis
  proof (rule inv_move [OF inv])
    show "pending_bag ?v \<subseteq># pending_bag w" using p(1) by (simp add: pending_bag_def v(2))
    show "running ?v \<le> max_concurrent_jobs ?v" using p(3) inv by (simp add: v jobs_inv_def)
    show "heap ?v l = None \<Longrightarrow> heap w l = None" for l unfolding v by (rule closes_domain [OF c])
    show "in_flight ?v + finished_jobs (jmetrics ?v) \<le> in_flight w + finished_jobs (jmetrics w)"
      using p(2) c by (simp add: in_flight_def v closes_def)
  qed (use closes_jobs [OF c] c in \<open>auto simp: v closes_def\<close>)
qed

lemma start_frame:
  assumes "dispatch_start now i w = (u, r)"
  shows "workers u = workers w" "jqueue u = jqueue w" "jfresh u = jfresh w"
    "max_concurrent_jobs u = max_concurrent_jobs w" "queued_jobs (jmetrics u) = queued_jobs (jmetrics w)"
    "submitted_jobs (jmetrics u) = submitted_jobs (jmetrics w)"
    "finished_jobs (jmetrics u) = finished_jobs (jmetrics w)" "jbus u = jbus w" "stop_event u = stop_event w"
    "tokens u = tokens w"
    "heap u = (heap w)(i := map_option (\<lambda>j. j\<lparr>job_status :=
       mark_running now (increment_attempts now (job_status j))\<rparr>) (heap w i))"
  using publish_same [OF assms [unfolded dispatch_start_def]]
  by (simp_all add: same_world_def job_counts finished_jobs_def)

lemma inv_start:
  assumes inv: "jobs_inv w" and k: "k < length (workers w)" and phase: "workers w ! k = Waiting i"
    and free: "running w < max_concurrent_jobs w"
  shows "jobs_inv (worker_start now k i w)"
proof -
  obtain u r where start: "dispatch_start now i w = (u, r)" by force
  note f = start_frame [OF start]
  let ?p = "case r of Inl _ \<Rightarrow> Idle | Inr _ \<Rightarrow> Busy i"
  let ?v = "worker_start now k i w"
  have v: "workers ?v = (workers w)[k := ?p]" "jqueue ?v = jqueue w" "heap ?v = heap u"
      "jmetrics ?v = jmetrics u" "jfresh ?v = jfresh w" "max_concurrent_jobs ?v = max_concurrent_jobs w"
    by (cases r; simp add: worker_start_def start f)+
  note p = phase_change [OF k v(1), unfolded phase]
  have "waiting_bag ?p = {#}" by (cases r) simp_all
  then have bag: "pending_bag w = add_mset i (pending_bag ?v)"
    using p(1) by (simp add: pending_bag_def v(2))
  have once: "i \<notin># pending_bag ?v"
    using inv bag unfolding jobs_inv_def by (metis Suc_le_mono count_add_mset le_zero_eq One_nat_def not_in_iff)
  show ?thesis
  proof (rule inv_move [OF inv])
    show "pending_bag ?v \<subseteq># pending_bag w" by (simp add: bag)
    show "running ?v \<le> max_concurrent_jobs ?v" using p(3) free by (cases r) (simp_all add: v)
    show "\<exists>j. heap w l = Some j \<and> (js_attempts (job_status j') = js_attempts (job_status j) \<or>
        js_attempts (job_status j') = Suc (js_attempts (job_status j)) \<and> l \<in># pending_bag w \<and> l \<notin># pending_bag ?v)"
      if "heap ?v l = Some j'" for l j'
      using that once by (auto simp: v f bag increment_attempts_def split: if_splits)
    show "heap ?v l = None \<Longrightarrow> heap w l = None" for l by (simp add: v f split: if_splits)
    show "in_flight ?v + finished_jobs (jmetrics ?v) \<le> in_flight w + finished_jobs (jmetrics w)"
      using p(2) by (cases r) (simp_all add: in_flight_def v f)
  qed (simp_all add: v f)
qed

lemma inv_take:
  assumes inv: "jobs_inv w" and k: "k < length (workers w)" and phase: "workers w ! k = Idle"
  shows "jobs_inv (worker_take now k w)"
proof (cases "queue_get (jqueue w)")
  case None
  then show ?thesis using inv by (simp add: worker_take_def)
next
  case (Some iq)
  then obtain i q where get: "queue_get (jqueue w) = Some (i, q)" by (cases iq) simp
  obtain u r where pub: "publish_job_event now ''job.queued'' i [] (w\<lparr>jqueue := q\<rparr>) = (u, r)" by force
  have u: "same_world (w\<lparr>jqueue := q\<rparr>) u" by (rule publish_same [OF pub])
  let ?d = "fst (dispatch_refused now i (repo_save i u))"
  have c: "closes i (repo_save i u) ?d" by (rule dispatch_refused_closes)
  let ?v = "worker_take now k w"
  have bag: "mset (map entry_job (queue_entries (jqueue w))) = add_mset i (mset (map entry_job (queue_entries q)))"
    by (rule queue_get_jobs [OF get])
  note bag = bag [unfolded mset_map]
  have size: "qsize (jqueue w) = Suc (qsize q)" by (rule queue_get_size [OF get])
  consider (crash) "?v = set_phase k Crashed u" | (wait) "?v = set_phase k (Waiting i) (repo_save i u)"
    | (refuse) "?v = set_phase k Idle (repo_save i ?d)"
    by (cases r; cases "token_reason (repo_save i u) i") (simp_all add: worker_take_def get pub Let_def)
  then show ?thesis
  proof cases
    case crash
    have v: "workers ?v = (workers w)[k := Crashed]" using u by (simp add: crash same_world_def)
    note p = phase_change [OF k v, unfolded phase]
    show ?thesis
      by (rule inv_move [OF inv])
        (use u p inv in \<open>auto simp: crash same_world_def pending_bag_def in_flight_def bag size jobs_inv_def\<close>)
  next
    case wait
    have v: "workers ?v = (workers w)[k := Waiting i]" using u by (simp add: wait same_world_def)
    note p = phase_change [OF k v, unfolded phase]
    show ?thesis
      by (rule inv_move [OF inv])
        (use u p inv in \<open>auto simp: wait same_world_def pending_bag_def in_flight_def bag size jobs_inv_def\<close>)
  next
    case refuse
    have v: "workers ?v = (workers w)[k := Idle]" using u c by (simp add: refuse same_world_def closes_def)
    note p = phase_change [OF k v, unfolded phase]
    show ?thesis
    proof (rule inv_move [OF inv])
      show "\<exists>j. heap w l = Some j \<and> (js_attempts (job_status j') = js_attempts (job_status j) \<or>
          js_attempts (job_status j') = Suc (js_attempts (job_status j)) \<and> l \<in># pending_bag w \<and> l \<notin># pending_bag ?v)"
        if "heap ?v l = Some j'" for l j'
        using closes_jobs [OF c] that u by (auto simp: refuse same_world_def)
      show "heap ?v l = None \<Longrightarrow> heap w l = None" for l
        using closes_domain [OF c] u by (auto simp: refuse same_world_def)
    qed (use u c p inv in \<open>auto simp: refuse same_world_def closes_def pending_bag_def in_flight_def bag size jobs_inv_def\<close>)
  qed
qed

lemma inv_stop:
  assumes inv: "jobs_inv w" and k: "k < length (workers w)" and phase: "workers w ! k = Idle"
  shows "jobs_inv (set_phase k Stopped w)"
proof -
  note p = phase_change [OF k set_phase_frame(6) [of k Stopped w], unfolded phase]
  show ?thesis
    by (rule inv_move [OF inv]) (use p inv in \<open>auto simp: pending_bag_def in_flight_def jobs_inv_def\<close>)
qed

lemma inv_start_workers: "jobs_inv w \<Longrightarrow> jobs_inv (start_workers n w)"
proof -
  assume inv: "jobs_inv w"
  have idle: "(\<Sum>p\<leftarrow>replicate n Idle. waiting_bag p) = {#}" "(\<Sum>p\<leftarrow>replicate n Idle. holds p) = 0"
      "filter is_busy (replicate n Idle) = []"
    by (induction n) auto
  show ?thesis using inv
    by (rule inv_move) (use inv idle in \<open>auto simp: start_workers_def pending_bag_def in_flight_def running_def jobs_inv_def\<close>)
qed

interpretation job_system: invariant_system initial_world job_step jobs_inv
proof unfold_locales
  fix w v
  show "initial_world w \<Longrightarrow> jobs_inv w"
    by (simp add: initial_world_def jobs_inv_def running_def pending_bag_def in_flight_def
        empty_queue_def qsize_def finished_jobs_def)
  assume "job_step w v" "jobs_inv w"
  then show "jobs_inv v"
  proof cases
    case stop
    then show ?thesis using \<open>jobs_inv w\<close> inv_view [of "shutdown w" w] by (simp add: shutdown_def view_def)
  qed (simp_all add: inv_submit_job inv_cancel_job inv_start_workers inv_stop inv_take inv_start inv_finish)
qed


text \<open>Two jobs submitted, one of them taken and started by the first of two workers.\<close>

definition blank_world :: world where
  "blank_world = \<lparr>heap = Map.empty, tokens = Map.empty, repo_jobs = [], repo_history = [],
     jqueue = empty_queue, jmetrics = \<lparr>submitted_jobs = 0, queued_jobs = 0, started_jobs = 0,
       completed_jobs = 0, failed_jobs = 0, cancelled_jobs = 0, timed_out_jobs = 0\<rparr>,
     jbus = None, jevents = [], jfresh = 10, stop_event = False, workers = [], max_concurrent_jobs = 1\<rparr>"

definition demo_request :: "nat \<Rightarrow> int \<Rightarrow> JobRequest" where
  "demo_request token priority = \<lparr>req_token = token, req_priority = priority, req_timeout = None\<rparr>"

definition queued_world :: world where
  "queued_world = start_workers 2 (fst (submit_job 2 (demo_request 6 3)
     (fst (submit_job 1 (demo_request 5 7) blank_world))))"

definition busy_world :: world where
  "busy_world = worker_start 4 0 11 (worker_take 3 0 queued_world)"

lemma queued_world_reachable: "reachable initial_world job_step queued_world"
proof -
  have "reachable initial_world job_step blank_world"
    by (rule reach_start) (simp add: initial_world_def blank_world_def)
  note first = reach_step [OF this job_step.submit]
  note second = reach_step [OF first job_step.submit]
  show ?thesis unfolding queued_world_def by (rule reach_step [OF second job_step.start_more])
qed

lemma busy_world_reachable: "reachable initial_world job_step busy_world"
  unfolding busy_world_def
proof (rule reach_step [OF reach_step [OF queued_world_reachable]])
  show "job_step queued_world (worker_take 3 0 queued_world)"
    by (rule job_step.take) code_simp+
  show "job_step (worker_take 3 0 queued_world) (worker_start 4 0 11 (worker_take 3 0 queued_world))"
    by (rule job_step.enter) code_simp+
qed


section \<open>The queue is served\<close>

text \<open>A worker that runs undisturbed: one turn takes a job through to its end, and so on.\<close>

definition worker_turn :: "time \<Rightarrow> nat \<Rightarrow> (uuid \<Rightarrow> engine_end) \<Rightarrow> world \<Rightarrow> world" where
  "worker_turn now k engine w =
     (let w1 = worker_take now k w
      in case workers w1 ! k of
           Waiting i \<Rightarrow>
             (let w2 = worker_start now k i w1
              in case workers w2 ! k of
                   Busy _ \<Rightarrow> worker_finish now k i (engine i) w2
                 | _ \<Rightarrow> w2)
         | _ \<Rightarrow> w1)"

fun worker_loop :: "nat \<Rightarrow> time \<Rightarrow> nat \<Rightarrow> (uuid \<Rightarrow> engine_end) \<Rightarrow> world \<Rightarrow> world" where
  "worker_loop 0 now k engine w = w"
| "worker_loop (Suc n) now k engine w =
     (if stop_event w \<or> queue_empty (jqueue w) then w
      else worker_loop n (now + 1) k engine (worker_turn now k engine w))"

definition terminal :: "Job \<Rightarrow> bool" where
  "terminal j \<longleftrightarrow>
     js_status (job_status j) \<in> {JS_COMPLETED, JS_FAILED, JS_CANCELLED, JS_TIMED_OUT} \<and>
     js_finished_at (job_status j) \<noteq> None"

lemma publish_job_quiet:
  assumes "quiet (jbus w)"
  shows "\<exists>v. publish_job_event now name i extra w = (v, Inr ()) \<and> same_world w v"
  using assms quiet_dispatch
  by (auto simp: publish_job_event_def same_world_def Let_def split: option.split)

text \<open>A served job: gone from the queue, closed, every other job and worker as before.\<close>

definition serves :: "uuid \<Rightarrow> JobQueue \<Rightarrow> world \<Rightarrow> world \<Rightarrow> bool" where
  "serves i q w v \<longleftrightarrow>
     jqueue v = q \<and> workers v = workers w \<and> max_concurrent_jobs v = max_concurrent_jobs w \<and>
     jbus v = jbus w \<and> stop_event v = stop_event w \<and> (\<forall>l. l \<noteq> i \<longrightarrow> heap v l = heap w l) \<and>
     (\<forall>j. heap w i = Some j \<longrightarrow> (\<exists>j'. heap v i = Some j' \<and> terminal j'))"

lemma closes_terminal:
  assumes "closes i w v" "heap w i = Some j"
  shows "\<exists>j'. heap v i = Some j' \<and> terminal j'" "l \<noteq> i \<Longrightarrow> heap v l = heap w l"
  using assms by (auto simp: closes_def terminal_def mark_finished_def)

lemma turn_serves:
  assumes get: "queue_get (jqueue w) = Some (i, q)" and quiet: "quiet (jbus w)"
    and k: "k < length (workers w)" "workers w ! k = Idle" and j: "heap w i = Some j"
  shows "serves i q w (worker_turn now k engine w)"
proof -
  obtain u where pub: "publish_job_event now ''job.queued'' i [] (w\<lparr>jqueue := q\<rparr>) = (u, Inr ())"
      and u: "same_world (w\<lparr>jqueue := q\<rparr>) u"
    using publish_job_quiet [of "w\<lparr>jqueue := q\<rparr>" now "''job.queued''" i "[]"] quiet by auto
  have idle: "(workers w)[k := Idle] = workers w" using k by (metis list_update_id)
  let ?u = "repo_save i u"
  have hu: "heap ?u i = Some j" using u j by (simp add: same_world_def)
  show ?thesis
  proof (cases "token_reason ?u i")
    case (Some reason)
    let ?d = "fst (dispatch_refused now i ?u)"
    have c: "closes i ?u ?d" by (rule dispatch_refused_closes)
    have take: "worker_take now k w = set_phase k Idle (repo_save i ?d)"
      by (simp add: worker_take_def get pub Some)
    have turn: "worker_turn now k engine w = set_phase k Idle (repo_save i ?d)"
      using k c u by (simp add: worker_turn_def Let_def take closes_def same_world_def)
    show ?thesis
      using c u idle closes_terminal [OF c hu] unfolding turn
      by (auto simp: serves_def closes_def same_world_def)
  next
    case None
    have take: "worker_take now k w = set_phase k (Waiting i) ?u"
      by (simp add: worker_take_def get pub None)
    let ?w = "set_phase k (Waiting i) ?u"
    have "quiet (jbus (on_job i f (count_jobs record_started ?w)))" for f
      using quiet u by (simp add: same_world_def)
    from publish_job_quiet [OF this] obtain s where start: "dispatch_start now i ?w = (s, Inr ())"
      unfolding dispatch_start_def by blast
    note f = start_frame [OF start]
    let ?s = "set_phase k (Busy i) s"
    let ?d = "fst (dispatch_end now i (engine i) ?s)"
    have c: "closes i ?s ?d" by (rule dispatch_end_closes)
    have turn: "worker_turn now k engine w = set_phase k Idle (repo_save i ?d)"
      using k u f by (simp add: worker_turn_def Let_def take worker_start_def start worker_finish_def same_world_def)
    have hs: "\<exists>j. heap ?s i = Some j" using hu by (simp add: f)
    then obtain js where js: "heap ?s i = Some js" ..
    show ?thesis
      using c u f idle closes_terminal [OF c js] unfolding turn
      by (auto simp: serves_def closes_def same_world_def)
  qed
qed

lemma loop_serves:
  assumes "quiet (jbus w)" "\<not> stop_event w" "k < length (workers w)" "workers w ! k = Idle"
    "qsize (jqueue w) \<le> n" "\<forall>e \<in> set (queue_entries (jqueue w)). heap w (entry_job e) \<noteq> None"
  shows "let v = worker_loop n now k engine w in queue_empty (jqueue v) \<and>
    (\<forall>i j. heap w i = Some j \<and> (terminal j \<or> i \<in> entry_job ` set (queue_entries (jqueue w))) \<longrightarrow>
       (\<exists>j'. heap v i = Some j' \<and> terminal j'))"
  using assms
proof (induction n arbitrary: w now)
  case 0
  then show ?case by (simp add: qsize_def queue_empty_def)
next
  case (Suc n)
  show ?case
  proof (cases "queue_empty (jqueue w)")
    case True
    then show ?thesis by (auto simp: queue_empty_def)
  next
    case False
    then obtain i q where get: "queue_get (jqueue w) = Some (i, q)"
      by (cases "queue_get (jqueue w)") (auto simp: queue_get_None)
    have bag: "mset (map entry_job (queue_entries (jqueue w))) = add_mset i (mset (map entry_job (queue_entries q)))"
      by (rule queue_get_jobs [OF get])
    have jobs: "entry_job ` set (queue_entries (jqueue w)) = insert i (entry_job ` set (queue_entries q))"
      using arg_cong [OF bag, of set_mset] by simp
    have "i \<in> entry_job ` set (queue_entries (jqueue w))" by (simp add: jobs)
    with Suc.prems(6) obtain j where j: "heap w i = Some j" by auto
    let ?v = "worker_turn now k engine w"
    have s: "serves i q w ?v" by (rule turn_serves [OF get Suc.prems(1,3,4) j])
    have keep: "heap ?v l = None \<longleftrightarrow> heap w l = None" for l
      using s j by (cases "l = i") (auto simp: serves_def)
    have "let v = worker_loop n (now + 1) k engine ?v in queue_empty (jqueue v) \<and>
        (\<forall>i j. heap ?v i = Some j \<and> (terminal j \<or> i \<in> entry_job ` set (queue_entries (jqueue ?v))) \<longrightarrow>
           (\<exists>j'. heap v i = Some j' \<and> terminal j'))"
    proof (rule Suc.IH)
      show "qsize (jqueue ?v) \<le> n" using Suc.prems(5) queue_get_size [OF get] s by (simp add: serves_def)
      show "\<forall>e \<in> set (queue_entries (jqueue ?v)). heap ?v (entry_job e) \<noteq> None"
      proof
        fix e assume "e \<in> set (queue_entries (jqueue ?v))"
        then have "entry_job e \<in> entry_job ` set (queue_entries (jqueue w))"
          using s unfolding jobs serves_def by blast
        then show "heap ?v (entry_job e) \<noteq> None" using Suc.prems(6) keep by auto
      qed
    qed (use Suc.prems s in \<open>simp_all add: serves_def\<close>)
    moreover have "\<exists>j'. heap ?v l = Some j' \<and> (terminal j' \<or> l \<in> entry_job ` set (queue_entries (jqueue ?v)))"
      if "heap w l = Some jl" "terminal jl \<or> l \<in> entry_job ` set (queue_entries (jqueue w))" for l jl
      using that s jobs by (cases "l = i") (auto simp: serves_def)
    ultimately show ?thesis using False Suc.prems(2) by (auto simp: Let_def)
  qed
qed



text \<open>
  A cancellation reaches a job whatever its state: a completed job becomes cancelled, and keeps no
  trace of its result. The worker whose announcement fails is lost together with its job, which
  stays queued for ever.
\<close>

definition completed_world :: world where
  "completed_world = worker_finish 5 0 11 (Engine_Returned ORCH_SUCCEEDED None) busy_world"

lemma cancel_overwrites_completed:
  "map_option (\<lambda>j. js_status (job_status j)) (heap completed_world 11) = Some JS_COMPLETED \<and>
   map_option (\<lambda>j. js_status (job_status j))
     (heap (fst (cancel_job 6 (Some 11) ''late'' completed_world)) 11) = Some JS_CANCELLED"
  by code_simp

definition faulty_bus :: handler_registry where
  "faulty_bus = [(''job.queued'', [\<lambda>e. Some ''subscriber down''])]"

lemma announcement_kills_worker:
  "let w = worker_take 3 0 (queued_world\<lparr>jbus := Some faulty_bus\<rparr>)
   in workers w ! 0 = Crashed \<and> map entry_job (queue_entries (jqueue w)) = [10] \<and>
      map_option (\<lambda>j. js_status (job_status j)) (heap w 11) = Some JS_QUEUED"
  by code_simp

end
