(* ===== verification/Py_Numbers.thy ===== *)
theory Py_Numbers
  imports Ip_Address Py_Text
begin

text \<open>
  The decimal text of integers (\<open>str\<close>) and its inverse (\<open>int\<close>) on ASCII texts, without the
  underscores Python allows between digits.
\<close>

fun str_nat :: "nat \<Rightarrow> string" where
  "str_nat n = (if n < 10 then [digit_char n] else str_nat (n div 10) @ [digit_char (n mod 10)])"

declare str_nat.simps [simp del]

definition str_int :: "int \<Rightarrow> string" where
  "str_int i = (if i < 0 then CHR ''-'' # str_nat (nat (- i)) else str_nat (nat i))"

definition is_digit :: "char \<Rightarrow> bool" where
  "is_digit c \<longleftrightarrow> 48 \<le> (of_char c :: nat) \<and> (of_char c :: nat) \<le> 57"

definition isdigit :: "string \<Rightarrow> bool" where
  "isdigit s \<longleftrightarrow> s \<noteq> [] \<and> list_all is_digit s"

definition int_of_text :: "string \<Rightarrow> int option" where
  "int_of_text s =
     (case strip s of
        [] \<Rightarrow> None
      | c # cs \<Rightarrow>
          if c = CHR ''-'' then map_option (\<lambda>n. - int n) (parse_number 10 cs)
          else if c = CHR ''+'' then map_option int (parse_number 10 cs)
          else map_option int (parse_number 10 (c # cs)))"

lemma str_nat_spec:
  "parse_digits 10 0 (str_nat n) = Some n \<and> str_nat n \<noteq> [] \<and> list_all is_digit (str_nat n)"
proof (induction n rule: str_nat.induct)
  case (1 n)
  have digit: "digit_of 10 (digit_char d) = Some d" "is_digit (digit_char d)" if "d < 10" for d
  proof -
    show "digit_of 10 (digit_char d) = Some d" using that by (rule digit_round_trip) simp
    from that have "d \<in> set [0..<10]" by simp
    then show "is_digit (digit_char d)"
      by (simp add: upt_rec, elim disjE) (simp_all add: digit_char_def is_digit_def)
  qed
  show ?case
  proof (cases "n < 10")
    case True
    then show ?thesis using digit [OF True] by (subst (1 2 3) str_nat.simps) simp
  next
    case False
    then show ?thesis using "1.IH" [OF False] digit [of "n mod 10"]
      by (subst (1 2 3) str_nat.simps) (simp add: parse_digits_append)
  qed
qed

lemma parse_str_nat [simp]: "parse_number 10 (str_nat n) = Some n"
  using str_nat_spec [of n] by (simp add: parse_number_def)

lemma isdigit_str_nat [simp]: "isdigit (str_nat n)"
  using str_nat_spec [of n] by (simp add: isdigit_def)

lemma str_nat_no_char: "\<not> is_digit c \<Longrightarrow> c \<notin> set (str_nat n)"
  using str_nat_spec [of n] by (auto simp: list_all_iff)

section \<open>The text of a value\<close>

text \<open>\<open>repr\<close> of a text: single quotes unless only they occur in it; control characters are escaped.\<close>

definition is_printable :: "char \<Rightarrow> bool" where
  "is_printable c \<longleftrightarrow> (let n = of_char c :: nat in 32 \<le> n \<and> n < 127 \<or> 161 \<le> n \<and> n \<noteq> 173)"

definition repr_char :: "char \<Rightarrow> char \<Rightarrow> string" where
  "repr_char q c =
     (if c = q \<or> c = CHR 0x5C then [CHR 0x5C, c]
      else if c = CHR 0x0A then [CHR 0x5C, CHR ''n'']
      else if c = CHR 0x0D then [CHR 0x5C, CHR ''r'']
      else if c = CHR 0x09 then [CHR 0x5C, CHR ''t'']
      else if is_printable c then [c]
      else [CHR 0x5C, CHR ''x'', digit_char (of_char c div 16), digit_char (of_char c mod 16)])"

definition repr_text :: "string \<Rightarrow> string" where
  "repr_text s =
     (let q = (if CHR 0x27 \<in> set s \<and> CHR 0x22 \<notin> set s then CHR 0x22 else CHR 0x27)
      in q # concat (map (repr_char q) s) @ [q])"

fun join_with :: "string \<Rightarrow> string list \<Rightarrow> string" where
  "join_with sep [] = []"
| "join_with sep [s] = s"
| "join_with sep (s # t # ts) = s @ sep @ join_with sep (t # ts)"

fun py_repr :: "pyval \<Rightarrow> string" where
  "py_repr PNone = ''None''"
| "py_repr (PBool b) = (if b then ''True'' else ''False'')"
| "py_repr (PInt i) = str_int i"
| "py_repr (PStr s) = repr_text s"
| "py_repr (PList vs) = ''['' @ join_with '', '' (map py_repr vs) @ '']''"
| "py_repr (PDict d) =
     ''{'' @ join_with '', '' (map (\<lambda>(k, v). repr_text k @ '': '' @ py_repr v) d) @ ''}''"

definition py_str :: "pyval \<Rightarrow> string" where
  "py_str v = (case v of PStr s \<Rightarrow> s | _ \<Rightarrow> py_repr v)"

text \<open>\<open>str\<close> of a UUID: 32 hexadecimal digits with hyphens after 8, 12, 16 and 20.\<close>

primrec hex_text :: "nat \<Rightarrow> nat \<Rightarrow> string" where
  "hex_text 0 x = []"
| "hex_text (Suc n) x = hex_text n (x div 16) @ [digit_char (x mod 16)]"

definition uuid_text :: "uuid \<Rightarrow> string" where
  "uuid_text u =
     (let h = hex_text 32 u
      in take 8 h @ ''-'' @ take 4 (drop 8 h) @ ''-'' @ take 4 (drop 12 h) @ ''-'' @
         take 4 (drop 16 h) @ ''-'' @ drop 20 h)"

end
