(* ===== verification/Inventory_Comparison.thy ===== *)
theory Inventory_Comparison
  imports Inventory_Model Py_Numbers "HOL-Library.Char_ord" "HOL-Library.List_Lexorder"
begin

text \<open>
  \<^verbatim>\<open>comparison/\<close>: the matcher, the six comparators, the registry of differences, the filter and the
  engine that turns differences into findings. Texts are ASCII, where \<open>casefold\<close> is \<open>lower\<close>. The
  generated identifiers and times of differences and findings are left out; the rule identifier of a
  finding is the name that \<open>uuid5\<close> hashes.
\<close>

section \<open>Texts\<close>

definition normalize_text :: "string \<Rightarrow> string" where
  "normalize_text s = lower (strip s)"

fun normalize :: "string option \<Rightarrow> string" where
  "normalize None = []"
| "normalize (Some s) = normalize_text s"

section \<open>Differences\<close>

datatype DifferenceType = MISSING | UNEXPECTED | MODIFIED | CONFLICT | DUPLICATE | UNSUPPORTED | UNKNOWN

fun difference_value :: "DifferenceType \<Rightarrow> string" where
  "difference_value MISSING = ''missing''"
| "difference_value UNEXPECTED = ''unexpected''"
| "difference_value MODIFIED = ''modified''"
| "difference_value CONFLICT = ''conflict''"
| "difference_value DUPLICATE = ''duplicate''"
| "difference_value UNSUPPORTED = ''unsupported''"
| "difference_value UNKNOWN = ''unknown''"

record Difference =
  difference_type :: DifferenceType
  subject_type :: string
  subject_id :: string
  field_name :: "string option"
  expected :: pyval
  observed :: pyval
  description :: "string option"

definition difference_key :: "Difference \<Rightarrow> string" where
  "difference_key d =
     difference_value (difference_type d) @ '':'' @ subject_type d @ '':'' @ subject_id d @ '':'' @
       (case field_name d of None \<Rightarrow> [] | Some f \<Rightarrow> f)"

definition build_missing :: "string \<Rightarrow> string \<Rightarrow> pyval \<Rightarrow> string \<Rightarrow> Difference" where
  "build_missing stype sid e msg =
     \<lparr>difference_type = MISSING, subject_type = stype, subject_id = sid, field_name = None,
      expected = e, observed = PNone, description = Some msg\<rparr>"

definition build_unexpected :: "string \<Rightarrow> string \<Rightarrow> pyval \<Rightarrow> string \<Rightarrow> Difference" where
  "build_unexpected stype sid ob msg =
     \<lparr>difference_type = UNEXPECTED, subject_type = stype, subject_id = sid, field_name = None,
      expected = PNone, observed = ob, description = Some msg\<rparr>"

definition build_modified :: "string \<Rightarrow> string \<Rightarrow> string \<Rightarrow> pyval \<Rightarrow> pyval \<Rightarrow> Difference" where
  "build_modified stype sid fld e ob =
     \<lparr>difference_type = MODIFIED, subject_type = stype, subject_id = sid, field_name = Some fld,
      expected = e, observed = ob,
      description = Some (stype @ '' '' @ sid @ '' field '' @ fld @ '' differs.'')\<rparr>"

definition build_duplicate :: "string \<Rightarrow> string \<Rightarrow> pyval \<Rightarrow> string \<Rightarrow> Difference" where
  "build_duplicate stype sid ob msg =
     \<lparr>difference_type = DUPLICATE, subject_type = stype, subject_id = sid, field_name = None,
      expected = PNone, observed = ob, description = Some msg\<rparr>"

definition build_unsupported :: "string \<Rightarrow> string \<Rightarrow> pyval \<Rightarrow> string \<Rightarrow> Difference" where
  "build_unsupported stype sid ob msg =
     \<lparr>difference_type = UNSUPPORTED, subject_type = stype, subject_id = sid, field_name = None,
      expected = PNone, observed = ob, description = Some msg\<rparr>"

section \<open>The registry\<close>

type_synonym difference_registry = "(string, Difference) dict"

definition registry_add :: "Difference \<Rightarrow> difference_registry \<Rightarrow> difference_registry" where
  "registry_add d reg = dict_set (difference_key d) d reg"

definition registry_extend :: "Difference list \<Rightarrow> difference_registry \<Rightarrow> difference_registry" where
  "registry_extend ds reg = fold registry_add ds reg"

definition registry_all :: "difference_registry \<Rightarrow> Difference list" where
  "registry_all reg = dict_values reg"

definition registry_by_type :: "DifferenceType \<Rightarrow> difference_registry \<Rightarrow> Difference list" where
  "registry_by_type t reg = filter (\<lambda>d. difference_type d = t) (dict_values reg)"

section \<open>The matcher\<close>

record InventoryMatch =
  matched_devices :: "(Device \<times> DeviceSnapshot) list"
  missing_devices :: "Device list"
  unexpected_devices :: "DeviceSnapshot list"
  duplicate_netbox_names :: "string list"
  duplicate_live_names :: "string list"

fun duplicates_from :: "string list \<Rightarrow> string list \<Rightarrow> string list \<Rightarrow> string list" where
  "duplicates_from seen dups [] = dups"
| "duplicates_from seen dups (v # vs) =
     (if v = [] then duplicates_from seen dups vs
      else duplicates_from (v # seen) (if v \<in> set seen \<and> v \<notin> set dups then v # dups else dups) vs)"

definition duplicates :: "string list \<Rightarrow> string list" where
  "duplicates vs = sort (duplicates_from [] [] vs)"

definition live_by_name :: "DeviceSnapshot list \<Rightarrow> (string, DeviceSnapshot) dict" where
  "live_by_name ds = index_by (\<lambda>d. normalize_text (ds_name d)) ds"

definition live_by_serial :: "DeviceSnapshot list \<Rightarrow> string \<Rightarrow> DeviceSnapshot option" where
  "live_by_serial ds serial = find (\<lambda>d. normalize (ds_serial_number d) = normalize_text serial) ds"

definition truthy_text :: "string option \<Rightarrow> bool" where
  "truthy_text s = (case s of None \<Rightarrow> False | Some t \<Rightarrow> t \<noteq> [])"

definition find_live :: "DeviceSnapshot list \<Rightarrow> Device \<Rightarrow> DeviceSnapshot option" where
  "find_live ds nb =
     (case dict_get (live_by_name ds) (normalize_text (dev_name nb)) of
        Some d \<Rightarrow> Some d
      | None \<Rightarrow> if truthy_text (dev_serial nb) then live_by_serial ds (the (dev_serial nb)) else None)"

fun match_loop ::
  "DeviceSnapshot list \<Rightarrow> Device list \<Rightarrow> (Device \<times> DeviceSnapshot) list \<times> Device list \<times> DeviceSnapshot list \<Rightarrow>
   (Device \<times> DeviceSnapshot) list \<times> Device list \<times> DeviceSnapshot list" where
  "match_loop live [] acc = acc"
| "match_loop live (nb # nbs) (matched, missing, unexpected) =
     (case find_live live nb of
        None \<Rightarrow> match_loop live nbs (matched, missing @ [nb], unexpected)
      | Some d \<Rightarrow> match_loop live nbs (matched @ [(nb, d)], missing,
          filter (\<lambda>u. ds_device_id u \<noteq> ds_device_id d) unexpected))"

definition match :: "NetBoxInventorySnapshot \<Rightarrow> LiveInventorySnapshot \<Rightarrow> InventoryMatch" where
  "match netbox live =
     (let (matched, missing, unexpected) =
            match_loop (live_devices live) (nb_devices netbox) ([], [], live_devices live)
      in \<lparr>matched_devices = matched, missing_devices = missing, unexpected_devices = unexpected,
          duplicate_netbox_names = duplicates (map (\<lambda>d. normalize_text (dev_name d)) (nb_devices netbox)),
          duplicate_live_names = duplicates (map (\<lambda>d. normalize_text (ds_name d)) (live_devices live))\<rparr>)"

definition identity_match_method ::
  "string option \<Rightarrow> string option \<Rightarrow> string option \<Rightarrow> string option \<Rightarrow> string option" where
  "identity_match_method ename eserial oname oserial =
     (if truthy_text ename \<and> truthy_text oname \<and> normalize ename = normalize oname then Some ''name''
      else if truthy_text eserial \<and> truthy_text oserial \<and> normalize eserial = normalize oserial then Some ''serial''
      else None)"

definition identities_match ::
  "string option \<Rightarrow> string option \<Rightarrow> string option \<Rightarrow> string option \<Rightarrow> bool" where
  "identities_match ename eserial oname oserial \<longleftrightarrow> identity_match_method ename eserial oname oserial \<noteq> None"

section \<open>The comparators\<close>

fun text_value :: "string option \<Rightarrow> pyval" where
  "text_value None = PNone"
| "text_value (Some s) = PStr s"

definition compare_identity :: "InventoryMatch \<Rightarrow> Difference list" where
  "compare_identity m =
     map (\<lambda>n. build_duplicate ''device'' n (PStr n) (''NetBox contains duplicate device identity '' @ n @ ''.''))
       (duplicate_netbox_names m) @
     map (\<lambda>n. build_duplicate ''device'' n (PStr n) (''Live snapshot contains duplicate device identity '' @ n @ ''.''))
       (duplicate_live_names m)"

definition device_modified :: "string \<Rightarrow> string \<Rightarrow> string option \<Rightarrow> string option \<Rightarrow> Difference list" where
  "device_modified sid fld e ob =
     (if normalize e = [] \<or> normalize ob = [] \<or> normalize e = normalize ob then []
      else [build_modified ''device'' sid fld (text_value e) (text_value ob)])"

definition compare_matched_device :: "Device \<Rightarrow> DeviceSnapshot \<Rightarrow> Difference list" where
  "compare_matched_device nb d =
     device_modified (dev_name nb) ''serial'' (dev_serial nb) (ds_serial_number d) @
     device_modified (dev_name nb) ''primary_ip'' (dev_primary_ip nb) (ds_management_ip d) @
     device_modified (dev_name nb) ''model'' (Some (dt_model (dev_type nb))) (ds_model d)"

definition compare_devices :: "InventoryMatch \<Rightarrow> Difference list" where
  "compare_devices m =
     map (\<lambda>nb. build_missing ''device'' (dev_name nb) (PStr (dev_name nb))
            (''NetBox device '' @ dev_name nb @ '' is missing live.'')) (missing_devices m) @
     map (\<lambda>d. build_unexpected ''device'' (ds_name d) (PStr (ds_name d))
            (''Live device '' @ ds_name d @ '' is not present in NetBox.'')) (unexpected_devices m) @
     concat (map (\<lambda>(nb, d). compare_matched_device nb d) (matched_devices m))"

definition platform_matches :: "string option \<Rightarrow> string option \<Rightarrow> bool" where
  "platform_matches e ob =
     (case (e, ob) of
        (Some x, Some y) \<Rightarrow> contains (normalize_text x) (normalize_text y)
      | _ \<Rightarrow> True)"

definition compare_platforms :: "InventoryMatch \<Rightarrow> Difference list" where
  "compare_platforms m =
     concat (map (\<lambda>(nb, d).
       let e = map_option pf_name (dev_platform nb); ob = ds_platform d
       in if platform_matches e ob then []
          else [build_modified ''platform'' (dev_name nb) ''platform'' (text_value e) (text_value ob)])
       (matched_devices m))"

definition interface_field :: "string \<Rightarrow> string \<Rightarrow> string option \<Rightarrow> string option \<Rightarrow> Difference list" where
  "interface_field sid fld e ob =
     (if \<not> truthy_text e \<or> \<not> truthy_text ob then []
      else if normalize e = normalize ob then []
      else [build_modified ''interface'' sid fld (text_value e) (text_value ob)])"

definition compare_interface :: "string \<Rightarrow> Interface \<Rightarrow> InterfaceSnapshot \<Rightarrow> Difference list" where
  "compare_interface sid nb l =
     (let admin = (if if_enabled nb then ''up'' else ''down'')
      in if truthy_text (ifs_admin_status l) \<and> the (ifs_admin_status l) \<noteq> admin
         then [build_modified ''interface'' sid ''enabled'' (PBool (if_enabled nb)) (text_value (ifs_admin_status l))]
         else []) @
     interface_field sid ''mac_address'' (if_mac_address nb) (ifs_mac_address l) @
     interface_field sid ''description'' (if_description nb) (ifs_description l)"

definition compare_device_interfaces :: "Device \<Rightarrow> DeviceSnapshot \<Rightarrow> Difference list" where
  "compare_device_interfaces nb d =
     (let netbox = index_by (\<lambda>i. normalize_text (if_name i)) (dev_interfaces nb);
          live = index_by (\<lambda>i. normalize_text (ifs_name i)) (ds_interfaces d)
      in concat (map (\<lambda>(key, i).
             let sid = dev_name nb @ '':'' @ if_name i
             in case dict_get live key of
                  None \<Rightarrow> [build_missing ''interface'' sid (PStr (if_name i))
                            (''NetBox interface '' @ sid @ '' is missing live.'')]
                | Some l \<Rightarrow> compare_interface sid i l) netbox) @
         concat (map (\<lambda>(key, l).
             if dict_get netbox key = None
             then [build_unexpected ''interface'' (dev_name nb @ '':'' @ ifs_name l) (PStr (ifs_name l))
                     (''Live interface '' @ ifs_name l @ '' is not in NetBox.'')]
             else []) live))"

definition compare_interfaces :: "InventoryMatch \<Rightarrow> Difference list" where
  "compare_interfaces m = concat (map (\<lambda>(nb, d). compare_device_interfaces nb d) (matched_devices m))"

definition compare_vlan :: "VLAN \<Rightarrow> VLANSnapshot \<Rightarrow> Difference list" where
  "compare_vlan nb l =
     (if normalize_text (vlan_name nb) \<noteq> normalize_text (vs_name l)
      then [build_modified ''vlan'' (str_int (vlan_vid nb)) ''name'' (PStr (vlan_name nb)) (PStr (vs_name l))]
      else []) @
     (if truthy_text (vlan_status nb) \<and> truthy_text (vs_status l) \<and>
         normalize (vlan_status nb) \<noteq> normalize (vs_status l)
      then [build_modified ''vlan'' (str_int (vlan_vid nb)) ''status'' (text_value (vlan_status nb))
              (text_value (vs_status l))]
      else [])"

definition compare_vlans :: "NetBoxInventorySnapshot \<Rightarrow> LiveInventorySnapshot \<Rightarrow> Difference list" where
  "compare_vlans netbox live =
     (let nbs = index_by vlan_vid (nb_vlans netbox);
          ls = index_by vs_vlan_id (concat (map ds_vlans (live_devices live)))
      in concat (map (\<lambda>(vid, nb).
             case dict_get ls vid of
               None \<Rightarrow> [build_missing ''vlan'' (str_int vid) (PStr (vlan_name nb))
                         (''NetBox VLAN '' @ str_int vid @ '' is missing live.'')]
             | Some l \<Rightarrow> compare_vlan nb l) nbs) @
         concat (map (\<lambda>(vid, l).
             if dict_get nbs vid = None
             then [build_unexpected ''vlan'' (str_int vid) (PStr (vs_name l))
                     (''Live VLAN '' @ str_int vid @ '' is not present in NetBox.'')]
             else []) ls))"

definition compare_neighbors :: "LiveInventorySnapshot \<Rightarrow> Difference list" where
  "compare_neighbors live =
     concat (map (\<lambda>d. map (\<lambda>n.
       build_unsupported ''neighbor''
         (ds_name d @ '':'' @ ns_local_interface n @ '':'' @ ns_remote_device_id n)
         (PStr (ns_remote_device_id n))
         ''Live neighbor was observed, but canonical NetBox neighbor inventory is not modeled yet.'')
       (ds_neighbors d)) (live_devices live))"

section \<open>Filters, findings and the engine\<close>

record DifferenceFilter =
  include_types :: "DifferenceType list"
  exclude_types :: "DifferenceType list"
  subject_types :: "string list"

definition filter_accepts :: "DifferenceFilter \<Rightarrow> Difference \<Rightarrow> bool" where
  "filter_accepts f d \<longleftrightarrow>
     (include_types f = [] \<or> difference_type d \<in> set (include_types f)) \<and>
     difference_type d \<notin> set (exclude_types f) \<and>
     (subject_types f = [] \<or> subject_type d \<in> set (subject_types f))"

definition filter_apply :: "DifferenceFilter \<Rightarrow> Difference list \<Rightarrow> Difference list" where
  "filter_apply f ds = filter (filter_accepts f) ds"

datatype SeverityLevel = CRITICAL | HIGH | MEDIUM | LOW | INFO

record Severity =
  sev_level :: SeverityLevel
  sev_score :: int
  sev_label :: "string option"

definition difference_severity :: "DifferenceType \<Rightarrow> Severity" where
  "difference_severity t =
     (if t \<in> {MISSING, CONFLICT} then \<lparr>sev_level = HIGH, sev_score = 80, sev_label = Some ''High''\<rparr>
      else if t \<in> {UNEXPECTED, MODIFIED} then \<lparr>sev_level = MEDIUM, sev_score = 50, sev_label = Some ''Medium''\<rparr>
      else if t = DUPLICATE then \<lparr>sev_level = HIGH, sev_score = 75, sev_label = Some ''High''\<rparr>
      else \<lparr>sev_level = INFO, sev_score = 10, sev_label = Some ''Info''\<rparr>)"

record Evidence =
  evidence_source :: string
  evidence_description :: string
  evidence_reference :: string
  evidence_details :: "(string, pyval) dict"

definition evidence_from_difference :: "Difference \<Rightarrow> Evidence" where
  "evidence_from_difference d =
     \<lparr>evidence_source = ''comparison-engine'',
      evidence_description = (case description d of
          None \<Rightarrow> ''Inventory difference detected.''
        | Some t \<Rightarrow> if t = [] then ''Inventory difference detected.'' else t),
      evidence_reference = difference_key d,
      evidence_details = [(''difference_type'', PStr (difference_value (difference_type d))),
        (''subject_type'', PStr (subject_type d)), (''subject_id'', PStr (subject_id d)),
        (''field_name'', text_value (field_name d)), (''expected'', expected d),
        (''observed'', observed d), (''metadata'', PDict [])]\<rparr>"

record Recommendation =
  rec_summary :: string
  rec_rationale :: "string option"
  rec_steps :: "string list"

record Finding =
  finding_rule :: string
  finding_title :: string
  finding_severity :: Severity
  finding_description :: "string option"
  finding_evidence :: "Evidence list"
  finding_recommendation :: "Recommendation option"
  finding_observed :: "(string, pyval) dict"
  finding_expected :: "(string, pyval) dict"

text \<open>\<open>str.title\<close> of the one-word names of difference types.\<close>

fun title_word :: "string \<Rightarrow> string" where
  "title_word [] = []"
| "title_word (c # cs) = upper_char c # lower cs"

definition difference_title :: "Difference \<Rightarrow> string" where
  "difference_title d =
     title_word (difference_value (difference_type d)) @ '' '' @ subject_type d @ '' drift: '' @ subject_id d"

definition finding_from_difference :: "Difference \<Rightarrow> Finding" where
  "finding_from_difference d =
     \<lparr>finding_rule = ''nop-comparison:'' @ difference_value (difference_type d),
      finding_title = difference_title d, finding_severity = difference_severity (difference_type d),
      finding_description = description d, finding_evidence = [evidence_from_difference d],
      finding_recommendation = Some
        \<lparr>rec_summary = ''Review NetBox source-of-truth and live device state.'',
         rec_rationale = Some ''Inventory drift must be reconciled before compliance scoring.'',
         rec_steps = [''Confirm NetBox inventory is authoritative.'', ''Validate live device inventory.'',
           ''Plan an approved correction outside this application.'']\<rparr>,
      finding_observed = [(''value'', observed d),
        (''difference_type'', PStr (difference_value (difference_type d)))],
      finding_expected = [(''value'', expected d)]\<rparr>"

record ComparisonMetrics =
  total_differences :: nat
  total_findings :: nat
  count_of :: "DifferenceType \<Rightarrow> nat"

definition metrics_from_differences :: "Difference list \<Rightarrow> Finding list \<Rightarrow> ComparisonMetrics" where
  "metrics_from_differences ds fs =
     \<lparr>total_differences = length ds, total_findings = length fs,
      count_of = (\<lambda>t. length (filter (\<lambda>d. difference_type d = t) ds))\<rparr>"

record InventoryComparisonResult =
  differences :: "Difference list"
  findings :: "Finding list"
  comparison_metrics :: ComparisonMetrics

definition is_compliant :: "InventoryComparisonResult \<Rightarrow> bool" where
  "is_compliant r \<longleftrightarrow> differences r = []"

definition all_differences :: "NetBoxInventorySnapshot \<Rightarrow> LiveInventorySnapshot \<Rightarrow> Difference list" where
  "all_differences netbox live =
     (let m = match netbox live
      in compare_identity m @ compare_devices m @ compare_interfaces m @ compare_vlans netbox live @
         compare_neighbors live @ compare_platforms m)"

definition compare_inventories ::
  "DifferenceFilter option \<Rightarrow> NetBoxInventorySnapshot \<Rightarrow> LiveInventorySnapshot \<Rightarrow> InventoryComparisonResult" where
  "compare_inventories flt netbox live =
     (let m = match netbox live;
          reg = registry_extend (compare_platforms m)
            (registry_extend (compare_neighbors live)
            (registry_extend (compare_vlans netbox live)
            (registry_extend (compare_interfaces m)
            (registry_extend (compare_devices m)
            (registry_extend (compare_identity m) [])))));
          ds = (case flt of None \<Rightarrow> registry_all reg | Some f \<Rightarrow> filter_apply f (registry_all reg));
          fs = map finding_from_difference ds
      in \<lparr>differences = ds, findings = fs, comparison_metrics = metrics_from_differences ds fs\<rparr>)"

section \<open>The registry keeps every difference once\<close>

text \<open>Two texts joined by a separator that the first does not contain determine both.\<close>

lemma split_at_separator:
  "x \<notin> set a \<Longrightarrow> x \<notin> set b \<Longrightarrow> a @ x # s = b @ x # t \<Longrightarrow> a = b \<and> s = t"
proof (induction a arbitrary: b)
  case Nil
  then show ?case by (cases b) auto
next
  case (Cons y a)
  then show ?case by (cases b) auto
qed

lemma split_at_last_separator:
  assumes "x \<notin> set s" "x \<notin> set t" "a @ x # s = b @ x # t"
  shows "a = b \<and> s = t"
proof -
  have "rev s @ x # rev a = rev t @ x # rev b" using arg_cong [OF assms(3), of rev] by simp
  then have "rev s = rev t \<and> rev a = rev b" using assms(1,2) by (intro split_at_separator) auto
  then show ?thesis by simp
qed

definition identity_of :: "Difference \<Rightarrow> DifferenceType \<times> string \<times> string \<times> string option" where
  "identity_of d = (difference_type d, subject_type d, subject_id d, field_name d)"

definition plain_difference :: "Difference \<Rightarrow> bool" where
  "plain_difference d \<longleftrightarrow> CHR '':'' \<notin> set (subject_type d) \<and>
     (\<forall>f. field_name d = Some f \<longrightarrow> f \<noteq> [] \<and> CHR '':'' \<notin> set f)"

lemma difference_value_plain: "CHR '':'' \<notin> set (difference_value t)"
  by (cases t) simp_all

lemma difference_value_inj: "difference_value t = difference_value u \<Longrightarrow> t = u"
  by (cases t; cases u) simp_all

lemma difference_key_inj:
  assumes "plain_difference d" "plain_difference e" "difference_key d = difference_key e"
  shows "identity_of d = identity_of e"
proof -
  let ?f = "\<lambda>d. case field_name d of None \<Rightarrow> [] | Some f \<Rightarrow> f"
  have "difference_value (difference_type d) = difference_value (difference_type e) \<and>
      subject_type d @ CHR '':'' # subject_id d @ CHR '':'' # ?f d = subject_type e @ CHR '':'' # subject_id e @ CHR '':'' # ?f e"
    using assms(3) difference_value_plain by (intro split_at_separator [where x = "CHR '':''"]) (simp_all add: difference_key_def)
  moreover from this have "subject_type d = subject_type e \<and>
      subject_id d @ CHR '':'' # ?f d = subject_id e @ CHR '':'' # ?f e"
    using assms(1,2) by (intro split_at_separator [where x = "CHR '':''"]) (simp_all add: plain_difference_def)
  moreover from this have "subject_id d = subject_id e \<and> ?f d = ?f e"
    using assms(1,2) by (intro split_at_last_separator [where x = "CHR '':''"]) (auto simp: plain_difference_def split: option.split)
  ultimately show ?thesis
    using assms(1,2) difference_value_inj
    by (auto simp: identity_of_def plain_difference_def split: option.splits)
qed

lemma registry_is_index: "registry_extend ds (index_by difference_key es) = index_by difference_key (es @ ds)"
  by (simp add: registry_extend_def registry_add_def [abs_def] index_by_def)

lemma registry_start: "[] = index_by difference_key ([] :: Difference list)"
  by (simp add: index_by_def)

lemma compare_unfiltered:
  "differences (compare_inventories None netbox live) =
     dict_values (index_by difference_key (all_differences netbox live))"
proof -
  have "registry_extend ds [] = index_by difference_key ds" for ds
    using registry_is_index [of ds "[]"] by (simp add: registry_start [symmetric])
  then show ?thesis
    by (simp add: compare_inventories_def all_differences_def Let_def registry_is_index registry_all_def)
qed

lemma compare_filtered:
  "set (differences (compare_inventories flt netbox live)) \<subseteq> set (differences (compare_inventories None netbox live))"
  by (auto simp: compare_inventories_def Let_def filter_apply_def split: option.split)

text \<open>The values of an index are elements of the list, one for each key.\<close>

lemma index_by_values:
  shows "x \<in> set (dict_values (index_by key xs)) \<Longrightarrow> x \<in> set xs"
    and "x \<in> set xs \<Longrightarrow> \<exists>y \<in> set (dict_values (index_by key xs)). key y = key x"
proof -
  have entry: "dict_get (index_by key xs) k = Some y" if "(k, y) \<in> set (index_by key xs)" for k y
    using that index_by_ok [of key xs] by (simp add: dict_get_def dict_ok_def map_of_is_SomeI)
  show "x \<in> set xs" if "x \<in> set (dict_values (index_by key xs))"
  proof -
    from that obtain k where "(k, x) \<in> set (index_by key xs)" by (auto simp: dict_values_def)
    from index_by_key [OF entry [OF this]] show ?thesis by simp
  qed
  show "\<exists>y \<in> set (dict_values (index_by key xs)). key y = key x" if "x \<in> set xs"
  proof -
    have "dict_get (index_by key xs) (key x) \<noteq> None" using that by (simp add: index_by_None)
    then obtain y where y: "dict_get (index_by key xs) (key x) = Some y" by blast
    then have "(key x, y) \<in> set (index_by key xs)" by (rule dict_get_Some_in)
    then show ?thesis using index_by_key [OF y] by (force simp: dict_values_def)
  qed
qed

lemmas builders =
  build_missing_def build_unexpected_def build_modified_def build_duplicate_def build_unsupported_def

definition about :: "string \<Rightarrow> Difference \<Rightarrow> bool" where
  "about stype d \<longleftrightarrow> subject_type d = stype \<and> plain_difference d"

lemma about_builders [simp]:
  "about t (build_missing s i e msg) \<longleftrightarrow> s = t \<and> CHR '':'' \<notin> set t"
  "about t (build_unexpected s i e msg) \<longleftrightarrow> s = t \<and> CHR '':'' \<notin> set t"
  "about t (build_duplicate s i e msg) \<longleftrightarrow> s = t \<and> CHR '':'' \<notin> set t"
  "about t (build_unsupported s i e msg) \<longleftrightarrow> s = t \<and> CHR '':'' \<notin> set t"
  "about t (build_modified s i f e ob) \<longleftrightarrow> s = t \<and> CHR '':'' \<notin> set t \<and> f \<noteq> [] \<and> CHR '':'' \<notin> set f"
  by (auto simp: about_def builders plain_difference_def)

lemma list_all_concat: "list_all P (concat xss) \<longleftrightarrow> list_all (list_all P) xss"
  by (induction xss) auto

lemma about_interface: "list_all (about ''interface'') (compare_interface sid nb l)"
  by (simp add: compare_interface_def interface_field_def Let_def)

lemma about_vlan: "list_all (about ''vlan'') (compare_vlan nb l)"
  by (simp add: compare_vlan_def)

lemma about_matched_device: "list_all (about ''device'') (compare_matched_device nb d)"
  by (simp add: compare_matched_device_def device_modified_def)

lemma comparators_about:
  "list_all (about ''device'') (compare_identity m)" "list_all (about ''device'') (compare_devices m)"
  "list_all (about ''neighbor'') (compare_neighbors live)" "list_all (about ''platform'') (compare_platforms m)"
  by (auto simp: compare_identity_def compare_devices_def compare_neighbors_def compare_platforms_def
      list_all_concat list_all_iff about_matched_device [unfolded list_all_iff] Let_def)

lemma interfaces_about: "list_all (about ''interface'') (compare_interfaces m)"
  by (auto simp: compare_interfaces_def compare_device_interfaces_def list_all_concat list_all_iff
      about_interface [unfolded list_all_iff] Let_def split: option.splits)

lemma vlans_about: "list_all (about ''vlan'') (compare_vlans netbox live)"
  by (auto simp: compare_vlans_def list_all_concat list_all_iff
      about_vlan [unfolded list_all_iff] Let_def split: option.splits)

lemmas subjects = comparators_about interfaces_about vlans_about

lemma all_differences_plain: "d \<in> set (all_differences netbox live) \<Longrightarrow> plain_difference d"
  unfolding all_differences_def Let_def using subjects by (auto simp: list_all_iff about_def)

lemma registry_keeps_identities:
  "identity_of ` set (differences (compare_inventories None netbox live)) =
     identity_of ` set (all_differences netbox live)"
proof (intro equalityI subsetI)
  let ?all = "all_differences netbox live"
  fix x
  show "x \<in> identity_of ` set ?all" if "x \<in> identity_of ` set (differences (compare_inventories None netbox live))"
    using that index_by_values(1) by (fastforce simp: compare_unfiltered)
  assume "x \<in> identity_of ` set ?all"
  then obtain d where d: "d \<in> set ?all" "x = identity_of d" by blast
  with index_by_values(2) obtain e where e: "e \<in> set (dict_values (index_by difference_key ?all))"
      "difference_key e = difference_key d" by metis
  then have "identity_of e = identity_of d"
    using difference_key_inj all_differences_plain d(1) index_by_values(1) by metis
  with e(1) show "x \<in> identity_of ` set (differences (compare_inventories None netbox live))"
    unfolding compare_unfiltered d(2) by (metis imageI)
qed

section \<open>Missing devices\<close>

lemma match_loop_spec:
  "match_loop live nbs (matched, missing, unexpected) =
     (matched @ List.map_filter (\<lambda>nb. map_option (Pair nb) (find_live live nb)) nbs,
      missing @ filter (\<lambda>nb. find_live live nb = None) nbs,
      filter (\<lambda>u. \<forall>nb \<in> set nbs. \<forall>d. find_live live nb = Some d \<longrightarrow> ds_device_id u \<noteq> ds_device_id d) unexpected)"
  by (induction nbs arbitrary: matched missing unexpected)
    (auto simp: map_filter_simps split: option.split intro!: filter_cong)

lemma match_parts:
  "matched_devices (match netbox live) =
     List.map_filter (\<lambda>nb. map_option (Pair nb) (find_live (live_devices live) nb)) (nb_devices netbox)"
  "missing_devices (match netbox live) = filter (\<lambda>nb. find_live (live_devices live) nb = None) (nb_devices netbox)"
  "unexpected_devices (match netbox live) =
     filter (\<lambda>u. \<forall>nb \<in> set (nb_devices netbox). \<forall>d. find_live (live_devices live) nb = Some d \<longrightarrow>
        ds_device_id u \<noteq> ds_device_id d) (live_devices live)"
  by (simp_all add: match_def match_loop_spec)

text \<open>A device is found by its normalised name, or else by a serial number that is not empty.\<close>

definition seen_live :: "DeviceSnapshot list \<Rightarrow> Device \<Rightarrow> bool" where
  "seen_live ds nb \<longleftrightarrow>
     (\<exists>d \<in> set ds. normalize_text (ds_name d) = normalize_text (dev_name nb) \<or>
        truthy_text (dev_serial nb) \<and> normalize (ds_serial_number d) = normalize_text (the (dev_serial nb)))"

lemma find_live_None: "find_live ds nb = None \<longleftrightarrow> \<not> seen_live ds nb"
proof -
  have "dict_get (live_by_name ds) k = None \<longleftrightarrow> (\<forall>d \<in> set ds. normalize_text (ds_name d) \<noteq> k)" for k
    by (auto simp: live_by_name_def index_by_None)
  then show ?thesis
    by (auto simp: find_live_def seen_live_def live_by_serial_def find_None_iff split: option.split)
      (metis not_None_eq)+
qed

text \<open>
  C18: The comparison reports a device as missing exactly when NetBox has a device of that name and
  the live snapshot has none with the same normalised name, nor with its (non-empty) serial number.
\<close>

theorem missing_device_reported_iff:
  "(\<exists>d \<in> set (differences (compare_inventories None netbox live)).
      difference_type d = MISSING \<and> subject_type d = ''device'' \<and> subject_id d = n) \<longleftrightarrow>
   (\<exists>nb \<in> set (nb_devices netbox). dev_name nb = n \<and> \<not> seen_live (live_devices live) nb)"
proof -
  let ?m = "match netbox live"
  let ?is = "\<lambda>d. difference_type d = MISSING \<and> subject_type d = ''device'' \<and> subject_id d = n"
  have pick: "(\<exists>d \<in> set ds. ?is d) \<longleftrightarrow> (\<exists>x \<in> identity_of ` set ds. fst x = MISSING \<and>
      fst (snd x) = ''device'' \<and> fst (snd (snd x)) = n)" for ds
    by (auto simp: identity_of_def)
  have others: "\<not> ?is d" if "d \<in> set (compare_interfaces ?m @ compare_vlans netbox live @
      compare_neighbors live @ compare_platforms ?m)" for d
    using that subjects by (auto simp: list_all_iff about_def)
  have same: "\<not> ?is d" if "d \<in> set (compare_identity ?m)" for d
    using that by (auto simp: compare_identity_def builders)
  have matched: "\<not> ?is d" if "d \<in> set (compare_matched_device nb l)" for d nb l
    using that by (auto simp: compare_matched_device_def device_modified_def builders split: if_splits)
  have "(\<exists>d \<in> set (differences (compare_inventories None netbox live)). ?is d) \<longleftrightarrow>
      (\<exists>d \<in> set (all_differences netbox live). ?is d)"
    unfolding pick registry_keeps_identities ..
  also have "\<dots> \<longleftrightarrow> (\<exists>d \<in> set (compare_devices ?m). ?is d)"
    using others same unfolding all_differences_def Let_def by auto
  also have "\<dots> \<longleftrightarrow> (\<exists>nb \<in> set (missing_devices ?m). dev_name nb = n)"
    using matched by (auto simp: compare_devices_def builders bex_Un)
  also have "\<dots> \<longleftrightarrow> (\<exists>nb \<in> set (nb_devices netbox). dev_name nb = n \<and> \<not> seen_live (live_devices live) nb)"
    by (auto simp: match_parts find_live_None)
  finally show ?thesis .
qed

section \<open>No false alarms\<close>

text \<open>The live state a device has when it is exactly as NetBox describes it.\<close>

definition mirror_interface :: "string \<Rightarrow> Interface \<Rightarrow> InterfaceSnapshot" where
  "mirror_interface dev i =
     \<lparr>ifs_device_id = dev, ifs_name = if_name i, ifs_captured_at = 0, ifs_version = SNAPSHOT_SCHEMA_VERSION,
      ifs_admin_status = Some (if if_enabled i then ''up'' else ''down''), ifs_oper_status = None,
      ifs_description = if_description i, ifs_mac_address = if_mac_address i, ifs_speed_mbps = None,
      ifs_poe_status = None\<rparr>"

definition mirror_vlan :: "VLAN \<Rightarrow> VLANSnapshot" where
  "mirror_vlan v =
     \<lparr>vs_vlan_id = vlan_vid v, vs_name = vlan_name v, vs_captured_at = 0, vs_version = SNAPSHOT_SCHEMA_VERSION,
      vs_device_id = None, vs_status = vlan_status v\<rparr>"

definition mirror_device :: "VLAN list \<Rightarrow> Device \<Rightarrow> DeviceSnapshot" where
  "mirror_device vlans nb =
     \<lparr>ds_device_id = dev_name nb, ds_name = dev_name nb, ds_captured_at = 0, ds_version = SNAPSHOT_SCHEMA_VERSION,
      ds_manufacturer = Some (mf_name (dt_manufacturer (dev_type nb))), ds_model = Some (dt_model (dev_type nb)),
      ds_serial_number = dev_serial nb, ds_product_id = None, ds_management_ip = dev_primary_ip nb,
      ds_base_mac = None, ds_software_version = None, ds_uptime = None, ds_hardware_revision = None,
      ds_platform = map_option pf_name (dev_platform nb), ds_stack_members = [],
      ds_interfaces = map (mirror_interface (dev_name nb)) (dev_interfaces nb),
      ds_vlans = map mirror_vlan vlans, ds_mac_table = [], ds_neighbors = [], ds_power = None\<rparr>"

definition mirror :: "NetBoxInventorySnapshot \<Rightarrow> LiveInventorySnapshot" where
  "mirror netbox =
     \<lparr>live_devices = map (mirror_device (nb_vlans netbox)) (nb_devices netbox), live_captured_at = 0,
      live_version = SNAPSHOT_SCHEMA_VERSION, live_source = None\<rparr>"

lemma duplicates_distinct: "distinct vs \<Longrightarrow> duplicates vs = []"
proof -
  have "distinct vs \<Longrightarrow> set vs \<inter> set seen = {} \<Longrightarrow> duplicates_from seen [] vs = []" for seen
    by (induction vs arbitrary: seen) auto
  from this [of "[]"] show "distinct vs \<Longrightarrow> ?thesis" by (simp add: duplicates_def)
qed

lemma find_mirror: "find P (map f xs) = map_option f (find (\<lambda>x. P (f x)) xs)"
  by (induction xs) auto

lemma index_entry: "(k, x) \<in> set (index_by key xs) \<Longrightarrow> dict_get (index_by key xs) k = Some x"
  using index_by_ok [of key xs] by (simp add: dict_get_def dict_ok_def map_of_is_SomeI)

lemma mirrored_interfaces: "compare_device_interfaces nb (mirror_device vlans nb) = []"
proof -
  let ?nb = "index_by (\<lambda>i. normalize_text (if_name i)) (dev_interfaces nb)"
  let ?live = "index_by (\<lambda>i. normalize_text (ifs_name i)) (map (mirror_interface (dev_name nb)) (dev_interfaces nb))"
  have live: "dict_get ?live k = map_option (mirror_interface (dev_name nb)) (dict_get ?nb k)" for k
    unfolding index_by_get rev_map find_mirror by (simp add: mirror_interface_def)
  have "compare_interface sid i (mirror_interface (dev_name nb) i) = []" for sid i
    by (simp add: compare_interface_def mirror_interface_def interface_field_def Let_def truthy_text_def)
  moreover have "dict_get ?live k = Some (mirror_interface (dev_name nb) i)" if "(k, i) \<in> set ?nb" for k i
    using index_entry [OF that] by (simp add: live)
  moreover have "dict_get ?nb k \<noteq> None" if "(k, l) \<in> set ?live" for k l
    using index_entry [OF that] by (auto simp: live)
  ultimately show ?thesis
    by (fastforce simp: compare_device_interfaces_def Let_def mirror_device_def)
qed

lemma mirrored_vlans:
  assumes "nb_devices netbox \<noteq> [] \<or> nb_vlans netbox = []"
  shows "compare_vlans netbox (mirror netbox) = []"
proof -
  let ?nb = "index_by vlan_vid (nb_vlans netbox)"
  let ?all = "concat (map ds_vlans (live_devices (mirror netbox)))"
  let ?live = "index_by vs_vlan_id ?all"
  have copies: "?all = concat (replicate (length (nb_devices netbox)) (map mirror_vlan (nb_vlans netbox)))"
    by (simp add: mirror_def mirror_device_def map_replicate_const comp_def)
  have find_copies: "find P (rev (concat (replicate (Suc n) xs))) = find P (rev xs)" for n xs and P :: "VLANSnapshot \<Rightarrow> bool"
    by (induction n) (auto simp: find_append split: option.splits)
  have live: "dict_get ?live k = map_option mirror_vlan (dict_get ?nb k)" for k
  proof (cases "length (nb_devices netbox)")
    case 0
    then show ?thesis using assms unfolding copies index_by_get by simp
  next
    case (Suc n)
    show ?thesis unfolding copies Suc index_by_get find_copies
      unfolding rev_map find_mirror by (simp add: mirror_vlan_def)
  qed
  have "compare_vlan v (mirror_vlan v) = []" for v by (simp add: compare_vlan_def mirror_vlan_def)
  moreover have "dict_get ?live k = Some (mirror_vlan v)" if "(k, v) \<in> set ?nb" for k v
    using index_entry [OF that] by (simp add: live)
  moreover have "dict_get ?nb k \<noteq> None" if "(k, l) \<in> set ?live" for k l
    using index_entry [OF that] by (auto simp: live)
  ultimately show ?thesis by (fastforce simp: compare_vlans_def Let_def)
qed

lemma mirrored_match:
  assumes "distinct (map (\<lambda>d. normalize_text (dev_name d)) (nb_devices netbox))" "nb \<in> set (nb_devices netbox)"
  shows "find_live (live_devices (mirror netbox)) nb = Some (mirror_device (nb_vlans netbox) nb)"
proof -
  let ?f = "mirror_device (nb_vlans netbox)"
  have names: "map (\<lambda>d. normalize_text (ds_name d)) (map ?f (nb_devices netbox)) =
      map (\<lambda>d. normalize_text (dev_name d)) (nb_devices netbox)"
    by (simp add: mirror_device_def)
  have "live_by_name (map ?f (nb_devices netbox)) =
      map (\<lambda>d. (normalize_text (ds_name d), d)) (map ?f (nb_devices netbox))"
    unfolding live_by_name_def by (rule index_by_distinct) (simp only: names assms(1))
  moreover have "distinct (map fst (map (\<lambda>d. (normalize_text (ds_name d), d)) (map ?f (nb_devices netbox))))"
    using assms(1) by (simp add: comp_def mirror_device_def)
  ultimately have "dict_get (live_by_name (map ?f (nb_devices netbox))) (normalize_text (dev_name nb)) = Some (?f nb)"
    using assms(2) unfolding dict_get_def
    by (intro map_of_is_SomeI) (force simp: mirror_device_def)+
  then show ?thesis by (simp add: find_live_def mirror_def)
qed

text \<open>
  The comparison raises no false alarm: a live snapshot that mirrors NetBox (every device with
  its name, serial, address, model, platform, interfaces and VLANs) is compliant under every filter,
  as long as no two NetBox devices have the same normalised name and VLANs have a device to be seen
  on.
\<close>

theorem mirror_is_compliant:
  assumes "distinct (map (\<lambda>d. normalize_text (dev_name d)) (nb_devices netbox))"
    and "nb_devices netbox \<noteq> [] \<or> nb_vlans netbox = []"
  shows "is_compliant (compare_inventories flt netbox (mirror netbox))"
proof -
  let ?f = "mirror_device (nb_vlans netbox)"
  let ?m = "match netbox (mirror netbox)"
  have find: "find_live (live_devices (mirror netbox)) nb = Some (?f nb)" if "nb \<in> set (nb_devices netbox)" for nb
    by (rule mirrored_match [OF assms(1) that])
  have "missing_devices ?m = []" by (simp add: match_parts filter_empty_conv find)
  moreover have "unexpected_devices ?m = []"
    using find by (fastforce simp: match_parts filter_empty_conv mirror_def [of netbox])
  moreover have matched: "set (matched_devices ?m) \<subseteq> {(nb, ?f nb) | nb. True}"
    by (auto simp: match_parts map_filter_def find)
  moreover have "duplicate_netbox_names ?m = []" "duplicate_live_names ?m = []"
    using assms(1) duplicates_distinct
    by (simp_all add: match_def match_loop_spec mirror_def mirror_device_def comp_def)
  moreover have "compare_matched_device nb (?f nb) = []" for nb
    by (simp add: compare_matched_device_def device_modified_def mirror_device_def)
  moreover have "platform_matches (map_option pf_name (dev_platform nb)) (ds_platform (?f nb))" for nb
  proof -
    have "contains t t" for t by (simp add: contains_iff) (metis append_Nil append_Nil2)
    then show ?thesis by (simp add: platform_matches_def mirror_device_def split: option.split)
  qed
  ultimately have "all_differences netbox (mirror netbox) = []"
    using mirrored_interfaces mirrored_vlans [OF assms(2)]
    by (auto simp: all_differences_def compare_identity_def compare_devices_def compare_interfaces_def
        compare_platforms_def Let_def)
      (auto simp: compare_neighbors_def mirror_def mirror_device_def)
  then have "differences (compare_inventories None netbox (mirror netbox)) = []"
    by (simp add: compare_unfiltered index_by_def dict_values_def)
  then show ?thesis using compare_filtered [of flt netbox "mirror netbox"] by (simp add: is_compliant_def)
qed

definition edge_switch :: Device where
  "edge_switch =
     \<lparr>dev_name = ''SW1'', dev_site_name = None, dev_rack_name = None,
      dev_type = \<lparr>dt_manufacturer = \<lparr>mf_name = ''Cisco'', mf_slug = ''cisco''\<rparr>, dt_model = ''C9300'',
        dt_slug = ''c9300'', dt_part_number = None, dt_u_height = Some 1, dt_is_full_depth = None\<rparr>,
      dev_role = None, dev_platform = None, dev_serial = Some ''FOC1'', dev_status = None,
      dev_primary_ip = None,
      dev_interfaces = [\<lparr>if_name = ''Gi1/0/1'', if_device_name = ''SW1'', if_type = None, if_enabled = True,
        if_mac_address = None, if_description = Some ''uplink''\<rparr>], dev_ip_addresses = []\<rparr>"

definition office_vlan :: VLAN where
  "office_vlan = \<lparr>vlan_vid = 10, vlan_name = ''Office'', vlan_site_name = None, vlan_status = None, vlan_role = None\<rparr>"

definition small_netbox :: NetBoxInventorySnapshot where
  "small_netbox = \<lparr>nb_devices = [edge_switch], nb_interfaces = [], nb_vlans = [office_vlan]\<rparr>"

theorem mirror_is_compliant_witness:
  "distinct (map (\<lambda>d. normalize_text (dev_name d)) (nb_devices small_netbox)) \<and>
   nb_devices small_netbox \<noteq> [] \<and> is_compliant (compare_inventories None small_netbox (mirror small_netbox))"
  using mirror_is_compliant [of small_netbox None] by (simp add: small_netbox_def)

text \<open>
  The VLANs of all live devices share one dictionary, so the last device decides: a device that
  carries VLAN 10 under a wrong name goes unnoticed when a later device has it right.
\<close>

lemma vlan_drift_masked:
  "compare_vlans \<lparr>nb_devices = [], nb_interfaces = [], nb_vlans = [office_vlan]\<rparr>
     \<lparr>live_devices = [(mirror_device [] edge_switch)\<lparr>ds_vlans := [(mirror_vlan office_vlan)\<lparr>vs_name := ''Lab''\<rparr>]\<rparr>,
        mirror_device [office_vlan] edge_switch],
      live_captured_at = 0, live_version = [], live_source = None\<rparr> = []"
  by (simp add: compare_vlans_def index_by_def mirror_device_def mirror_vlan_def office_vlan_def
      compare_vlan_def dict_get_def truthy_text_def Let_def)

text \<open>
  The key of a duplicate does not say in which inventory it is: a name that is duplicated in both is
  reported once, and only the live side survives.
\<close>

lemma duplicate_report_collapses:
  assumes "n \<in> set (duplicate_netbox_names m)" "n \<in> set (duplicate_live_names m)"
  shows "\<exists>d \<in> set (compare_identity m). \<exists>e \<in> set (compare_identity m). d \<noteq> e \<and> difference_key d = difference_key e"
proof -
  let ?mk = "\<lambda>msg. build_duplicate ''device'' n (PStr n) (msg @ n @ ''.'')"
  have "?mk ''NetBox contains duplicate device identity '' \<in> set (compare_identity m)"
    "?mk ''Live snapshot contains duplicate device identity '' \<in> set (compare_identity m)"
    using assms by (auto simp: compare_identity_def)
  moreover have "?mk ''NetBox contains duplicate device identity '' \<noteq> ?mk ''Live snapshot contains duplicate device identity ''"
    by (simp add: builders)
  moreover have "difference_key (?mk a) = difference_key (?mk b)" for a b
    by (simp add: difference_key_def builders)
  ultimately show ?thesis by blast
qed

end
