(* ===== verification/Policy_Packages.thy ===== *)
theory Policy_Packages
  imports Py_Numbers "HOL-Library.Product_Lexorder"
begin

text \<open>
  \<^verbatim>\<open>policies/\<close>: policy versions and their life cycle, validation, compilation into packages, the
  in-memory repository, and the resolution of inherited packages. A policy of this package is a
  \<open>PolicyDefinition\<close>, to keep it apart from the executable policies of \<open>Compliance_Evaluation\<close>.
\<close>

section \<open>Versions\<close>

datatype PolicyVersion = PolicyVersion (major: nat) (minor: nat) (patch: nat) (history: "PolicyVersion list")

definition version_tuple :: "PolicyVersion \<Rightarrow> nat \<times> nat \<times> nat" where
  "version_tuple v = (major v, minor v, patch v)"

definition version_less :: "PolicyVersion \<Rightarrow> PolicyVersion \<Rightarrow> bool" where
  "version_less v w \<longleftrightarrow> version_tuple v < version_tuple w"

definition as_string :: "PolicyVersion \<Rightarrow> string" where
  "as_string v = str_nat (major v) @ CHR ''.'' # str_nat (minor v) @ CHR ''.'' # str_nat (patch v)"

datatype policy_error =
    InvalidVersionError string
  | PolicyValidationError string
  | CircularInheritanceError
  | MissingBaselineError
  | InvalidAssignmentError string

definition version_create :: "string \<Rightarrow> PolicyVersion list option \<Rightarrow> policy_error + PolicyVersion" where
  "version_create text hist =
     (let parts = split_on (CHR ''.'') text
      in if length parts \<noteq> 3 \<or> \<not> list_all isdigit parts then Inl (InvalidVersionError text)
         else Inr (PolicyVersion (the (parse_number 10 (parts ! 0))) (the (parse_number 10 (parts ! 1)))
                     (the (parse_number 10 (parts ! 2))) (case hist of None \<Rightarrow> [] | Some h \<Rightarrow> h)))"

section \<open>Policies\<close>

datatype PolicyLifecycle = DRAFT | REVIEW | APPROVED | PUBLISHED | DEPRECATED | ARCHIVED

datatype VersionChange = MAJOR | MINOR | PATCH

record RuleReference =
  ref_key :: string
  ref_name :: string
  ref_description :: "string option"

record BaselineReference =
  base_key :: string
  base_name :: string
  base_description :: "string option"

record PolicyAssignment =
  assign_scope :: string
  assign_value :: string

record PolicyMetadata =
  meta_created_at :: time
  meta_updated_at :: "time option"
  meta_owner :: "string option"
  meta_tags :: "string list"

record PolicyDefinition =
  def_id :: uuid
  def_key :: string
  def_name :: string
  def_version :: PolicyVersion
  def_lifecycle :: PolicyLifecycle
  def_metadata :: PolicyMetadata
  def_rules :: "RuleReference list"
  def_baselines :: "BaselineReference list"
  def_assignments :: "PolicyAssignment list"
  def_inheritance :: "uuid list"
  def_inheritance_scope :: string
  def_previous_version :: "PolicyVersion option"
  def_version_history :: "PolicyVersion list"

definition transition_to :: "PolicyLifecycle \<Rightarrow> PolicyDefinition \<Rightarrow> policy_error + PolicyDefinition" where
  "transition_to l p =
     (if def_lifecycle p = PUBLISHED then Inl (PolicyValidationError ''Published policies are immutable'')
      else Inr (p\<lparr>def_lifecycle := l\<rparr>))"

definition next_version :: "VersionChange \<Rightarrow> PolicyVersion list \<Rightarrow> PolicyVersion \<Rightarrow> PolicyVersion" where
  "next_version change hist v =
     (case change of
        MAJOR \<Rightarrow> PolicyVersion (major v) 0 0 hist
      | MINOR \<Rightarrow> PolicyVersion (major v) (minor v + 1) 0 hist
      | PATCH \<Rightarrow> PolicyVersion (major v) (minor v) (patch v + 1) hist)"

definition bump_version :: "VersionChange \<Rightarrow> PolicyDefinition \<Rightarrow> PolicyDefinition" where
  "bump_version change p =
     (let hist = def_version_history p @ [def_version p];
          v = next_version change hist (def_version p)
      in p\<lparr>def_version := v, def_previous_version := Some (def_version p),
           def_version_history := hist @ [v]\<rparr>)"

definition with_inheritance :: "uuid list \<Rightarrow> PolicyDefinition \<Rightarrow> PolicyDefinition" where
  "with_inheritance is p = p\<lparr>def_inheritance := is\<rparr>"

definition with_baselines :: "BaselineReference list \<Rightarrow> PolicyDefinition \<Rightarrow> PolicyDefinition" where
  "with_baselines bs p = p\<lparr>def_baselines := bs\<rparr>"

definition with_assignments :: "PolicyAssignment list \<Rightarrow> PolicyDefinition \<Rightarrow> PolicyDefinition" where
  "with_assignments as p = p\<lparr>def_assignments := as\<rparr>"

section \<open>Validation and compilation\<close>

definition assignment_scopes :: "string list" where
  "assignment_scopes = [''organization'', ''site'', ''building'', ''floor'', ''rack'', ''vendor'',
     ''platform'', ''device_type'', ''device'']"

text \<open>
  One call of \<open>_walk_inheritance\<close>: the stack is empty before and after every call, and the identifier
  is never found among the integers of \<open>visited\<close>, so only the comparison with the policy remains.
\<close>

definition walk_inheritance :: "PolicyDefinition \<Rightarrow> uuid \<Rightarrow> policy_error + unit" where
  "walk_inheritance p parent = (if parent = def_id p then Inl CircularInheritanceError else Inr ())"

fun validate_inheritance :: "PolicyDefinition \<Rightarrow> uuid list \<Rightarrow> policy_error + unit" where
  "validate_inheritance p [] = Inr ()"
| "validate_inheritance p (i # is) = bind_result (walk_inheritance p i) (\<lambda>_. validate_inheritance p is)"

fun validate_assignments :: "PolicyAssignment list \<Rightarrow> policy_error + unit" where
  "validate_assignments [] = Inr ()"
| "validate_assignments (a # as) =
     (if strip (assign_value a) = [] then Inl (InvalidAssignmentError ''Assignment values are required'')
      else if assign_scope a \<notin> set assignment_scopes then Inl (InvalidAssignmentError ''Assignment scope is invalid'')
      else validate_assignments as)"

definition validate :: "PolicyDefinition \<Rightarrow> policy_error + PolicyDefinition" where
  "validate p =
     (if \<not> distinct (map ref_key (def_rules p))
      then Inl (PolicyValidationError ''Duplicate rule references are not allowed'')
      else bind_result (validate_inheritance p (def_inheritance p)) (\<lambda>_.
           if list_ex (\<lambda>b. base_key b = ''missing'') (def_baselines p) then Inl MissingBaselineError
           else bind_result (validate_assignments (def_assignments p)) (\<lambda>_. Inr p)))"

record PolicyPackage =
  pkg_id :: uuid
  pkg_key :: string
  pkg_version :: PolicyVersion
  pkg_rules :: "RuleReference list"
  pkg_baselines :: "BaselineReference list"
  pkg_assignments :: "PolicyAssignment list"
  pkg_inherited :: "uuid list"
  pkg_compiled_at :: time

definition package_of :: "time \<Rightarrow> uuid list \<Rightarrow> PolicyDefinition \<Rightarrow> PolicyPackage" where
  "package_of now inherited p =
     \<lparr>pkg_id = def_id p, pkg_key = def_key p, pkg_version = def_version p, pkg_rules = def_rules p,
      pkg_baselines = def_baselines p, pkg_assignments = def_assignments p, pkg_inherited = inherited,
      pkg_compiled_at = now\<rparr>"

text \<open>The compiler orders the parents by their text, whose fixed width orders identifiers like their numbers.\<close>

definition resolve_inheritance :: "PolicyDefinition \<Rightarrow> uuid list" where
  "resolve_inheritance p = sort (def_inheritance p)"

definition compiler_compile :: "time \<Rightarrow> PolicyDefinition \<Rightarrow> policy_error + PolicyPackage" where
  "compiler_compile now p =
     (if def_lifecycle p = PUBLISHED then Inl (PolicyValidationError ''Published policies cannot be recompiled'')
      else bind_result (validate p) (\<lambda>_. Inr (package_of now (resolve_inheritance p) p)))"

definition engine_compile :: "time \<Rightarrow> PolicyDefinition \<Rightarrow> policy_error + PolicyPackage" where
  "engine_compile now p = bind_result (validate p) (\<lambda>_. Inr (package_of now (def_inheritance p) p))"

section \<open>The repository\<close>

type_synonym policy_repository = "(string, PolicyDefinition) dict"

definition policy_add :: "PolicyDefinition \<Rightarrow> policy_repository \<Rightarrow> policy_repository" where
  "policy_add p r = dict_set (def_key p) p r"

definition policy_get :: "uuid \<Rightarrow> policy_repository \<Rightarrow> PolicyDefinition option" where
  "policy_get i r = find (\<lambda>p. def_id p = i) (dict_values r)"

definition policy_update ::
  "PolicyDefinition \<Rightarrow> PolicyDefinition \<Rightarrow> policy_repository \<Rightarrow> policy_error + policy_repository" where
  "policy_update existing updated r =
     (if def_lifecycle existing = PUBLISHED then Inl (PolicyValidationError ''Published policies cannot be modified'')
      else Inr (dict_set (def_key existing) updated r))"

section \<open>Resolution of packages\<close>

definition packages_by_key :: "PolicyPackage list \<Rightarrow> (string, PolicyPackage list) dict" where
  "packages_by_key ps =
     fold (\<lambda>p d. dict_set (pkg_key p) ((case dict_get d (pkg_key p) of None \<Rightarrow> [] | Some es \<Rightarrow> es) @ [p]) d) ps []"

definition package_by_id :: "PolicyPackage list \<Rightarrow> (uuid, PolicyPackage) dict" where
  "package_by_id ps = fold (\<lambda>p. dict_set (pkg_id p) p) ps []"

text \<open>The head of a stable sort by version, latest first: the first package of the latest version.\<close>

fun latest :: "PolicyPackage \<Rightarrow> PolicyPackage list \<Rightarrow> PolicyPackage" where
  "latest p [] = p"
| "latest p (q # qs) = latest (if version_less (pkg_version p) (pkg_version q) then q else p) qs"

text \<open>
  \<open>_resolve_inherited_packages\<close> with its mutable set \<open>visited\<close> threaded through. The recursion goes
  through the packages, which may inherit in a circle; \<open>fuel\<close> bounds its depth, \<open>None\<close> is running
  out of it.
\<close>

fun resolve_inherited ::
  "(uuid, PolicyPackage) dict \<Rightarrow> nat \<Rightarrow> PolicyPackage \<Rightarrow> uuid list \<Rightarrow> (PolicyPackage list \<times> uuid list) option"
and resolve_parents ::
  "(uuid, PolicyPackage) dict \<Rightarrow> nat \<Rightarrow> uuid list \<Rightarrow> uuid list \<Rightarrow> (PolicyPackage list \<times> uuid list) option" where
  "resolve_inherited d 0 p visited = None"
| "resolve_inherited d (Suc fuel) p visited =
     (case resolve_parents d fuel (pkg_inherited p) visited of
        None \<Rightarrow> None
      | Some (ordered, visited') \<Rightarrow> Some (ordered @ [p], visited'))"
| "resolve_parents d fuel [] visited = Some ([], visited)"
| "resolve_parents d fuel (i # is) visited =
     (if i \<in> set visited then resolve_parents d fuel is visited
      else case dict_get d i of
        None \<Rightarrow> resolve_parents d fuel is (i # visited)
      | Some parent \<Rightarrow>
          (case resolve_inherited d fuel parent (i # visited) of
             None \<Rightarrow> None
           | Some (ordered, visited1) \<Rightarrow>
               (case resolve_parents d fuel is visited1 of
                  None \<Rightarrow> None
                | Some (rest, visited2) \<Rightarrow> Some (ordered @ rest, visited2))))"

definition enough_fuel :: "(uuid, PolicyPackage) dict \<Rightarrow> nat" where
  "enough_fuel d = Suc (length d)"

definition inherited_packages :: "(uuid, PolicyPackage) dict \<Rightarrow> PolicyPackage \<Rightarrow> PolicyPackage list option" where
  "inherited_packages d p = map_option fst (resolve_inherited d (enough_fuel d) p [])"

section \<open>Inheritance is resolved completely\<close>

inductive ancestor :: "(uuid, PolicyPackage) dict \<Rightarrow> PolicyPackage \<Rightarrow> PolicyPackage \<Rightarrow> bool"
  for d :: "(uuid, PolicyPackage) dict" and p :: PolicyPackage where
  parent: "i \<in> set (pkg_inherited p) \<Longrightarrow> dict_get d i = Some q \<Longrightarrow> ancestor d p q"
| step: "ancestor d p q \<Longrightarrow> i \<in> set (pkg_inherited q) \<Longrightarrow> dict_get d i = Some r \<Longrightarrow> ancestor d p r"

lemma ancestor_of_parent:
  "ancestor d q r \<Longrightarrow> i \<in> set (pkg_inherited p) \<Longrightarrow> dict_get d i = Some q \<Longrightarrow> ancestor d p r"
  by (induction rule: ancestor.induct) (blast intro: ancestor.intros)+

text \<open>What a resolution has done: it left every parent of a listed package visited and listed.\<close>

definition closed_under ::
  "(uuid, PolicyPackage) dict \<Rightarrow> uuid list \<Rightarrow> PolicyPackage list \<Rightarrow> uuid list \<Rightarrow> bool" where
  "closed_under d v ps v' \<longleftrightarrow>
     set v \<subseteq> set v' \<and> (\<forall>q \<in> set ps. set (pkg_inherited q) \<subseteq> set v') \<and>
     (\<forall>i \<in> set v' - set v. \<forall>q. dict_get d i = Some q \<longrightarrow> q \<in> set ps)"

lemma closed_under_trans:
  "closed_under d v ps v1 \<Longrightarrow> closed_under d v1 qs v2 \<Longrightarrow> closed_under d v (ps @ qs) v2"
  unfolding closed_under_def by auto

lemma resolve_sound:
  shows "resolve_inherited d n p v = Some (ps, v') \<Longrightarrow>
      closed_under d v ps v' \<and> (\<exists>init. ps = init @ [p]) \<and> (\<forall>q \<in> set ps. q = p \<or> ancestor d p q)"
    and "resolve_parents d n is v = Some (ps, v') \<Longrightarrow>
      closed_under d v ps v' \<and> set is \<subseteq> set v' \<and>
      (\<forall>q \<in> set ps. \<exists>i \<in> set is. \<exists>r. dict_get d i = Some r \<and> (q = r \<or> ancestor d r q))"
proof (induction d n p v and d n "is" v arbitrary: ps v' and ps v' rule: resolve_inherited_resolve_parents.induct)
  case (2 d fuel p visited)
  then obtain qs where r: "resolve_parents d fuel (pkg_inherited p) visited = Some (qs, v')" and ps: "ps = qs @ [p]"
    by (auto split: option.splits)
  from "2.IH" [OF r] show ?case
    by (auto simp: ps closed_under_def intro: ancestor.parent ancestor_of_parent)
next
  case (4 d fuel i "is" visited)
  show ?case
  proof (cases "i \<in> set visited")
    case True
    with 4 have "resolve_parents d fuel is visited = Some (ps, v')" by simp
    from "4.IH"(1) [OF True this] True show ?thesis by (auto simp: closed_under_def)
  next
    case new: False
    show ?thesis
    proof (cases "dict_get d i")
      case None
      with 4 new have "resolve_parents d fuel is (i # visited) = Some (ps, v')" by simp
      from "4.IH"(2) [OF new None this] None show ?thesis by (auto simp: closed_under_def)
    next
      case (Some q)
      with "4.prems" new obtain qs v1 rs where
          r1: "resolve_inherited d fuel q (i # visited) = Some (qs, v1)"
          and r2: "resolve_parents d fuel is v1 = Some (rs, v')" and ps: "ps = qs @ rs"
        by (auto split: option.splits)
      note h1 = "4.IH"(3) [OF new Some r1] and h2 = "4.IH"(4) [OF new Some r1 refl r2]
      have "closed_under d (i # visited) ps v'"
        using closed_under_trans h1 h2 unfolding ps by blast
      then have "closed_under d visited ps v'"
        using h1 Some unfolding closed_under_def ps by auto
      moreover have "\<exists>j \<in> set (i # is). \<exists>r. dict_get d j = Some r \<and> (x = r \<or> ancestor d r x)" if "x \<in> set ps" for x
        using that h1 h2 Some unfolding ps by auto
      moreover have "set (i # is) \<subseteq> set v'" using h1 h2 by (auto simp: closed_under_def)
      ultimately show ?thesis by blast
    qed
  qed
qed (auto simp: closed_under_def)

lemma resolve_terminates:
  shows "card (set (dict_keys d) - set v) < n \<Longrightarrow> resolve_inherited d n p v \<noteq> None"
    and "card (set (dict_keys d) - set v) \<le> n \<Longrightarrow> resolve_parents d n is v \<noteq> None"
proof (induction d n p v and d n "is" v rule: resolve_inherited_resolve_parents.induct)
  case (2 d fuel p visited)
  then show ?case by (auto split: option.splits)
next
  case (4 d fuel i "is" visited)
  let ?open = "\<lambda>v. set (dict_keys d) - set v"
  have mono: "card (?open w) \<le> card (?open v)" if "set v \<subseteq> set w" for v w
    using that by (intro card_mono) auto
  show ?case
  proof (cases "i \<in> set visited")
    case True
    then show ?thesis using "4.IH"(1) "4.prems" by simp
  next
    case new: False
    show ?thesis
    proof (cases "dict_get d i")
      case None
      have "card (?open (i # visited)) \<le> fuel" by (rule order_trans [OF mono "4.prems"]) auto
      then show ?thesis using "4.IH"(2) [OF new None] new None by auto
    next
      case (Some q)
      have "i \<in> ?open visited" using Some new dict_get_None_iff [of d i] by auto
      then have "card (?open (i # visited)) < card (?open visited)"
        by (intro psubset_card_mono) auto
      then obtain qs v1 where r1: "resolve_inherited d fuel q (i # visited) = Some (qs, v1)"
        using "4.IH"(3) [OF new Some] "4.prems" by fastforce
      have "set visited \<subseteq> set v1" using resolve_sound(1) [OF r1] by (auto simp: closed_under_def)
      then have "resolve_parents d fuel is v1 \<noteq> None"
        using "4.IH"(4) [OF new Some r1 refl] "4.prems" mono order_trans by blast
      then show ?thesis using new Some r1 by auto
    qed
  qed
qed auto


section \<open>Versions\<close>

text \<open>
  The text of a version reads back as that version: parsing \<open>as_string\<close> of any version succeeds
  and gives the same three numbers, with the history that was asked for.
\<close>

theorem version_round_trip:
  "version_create (as_string v) hist =
     Inr (PolicyVersion (major v) (minor v) (patch v) (case hist of None \<Rightarrow> [] | Some h \<Rightarrow> h))"
proof -
  have dot: "CHR ''.'' \<notin> set (str_nat n)" for n by (rule str_nat_no_char) (simp add: is_digit_def)
  have "split_on (CHR ''.'') (as_string v) = [str_nat (major v), str_nat (minor v), str_nat (patch v)]"
    by (simp add: as_string_def split_on_append_sep split_on_no_sep dot)
  then show ?thesis by (simp add: version_create_def)
qed

text \<open>
  A minor or patch change moves the version forward; a major change keeps the major number and
  resets the others, so the new version is never later than the old one, and earlier unless it was
  already \<open>n.0.0\<close>.
\<close>

lemma bump_moves_forward:
  "change \<noteq> MAJOR \<Longrightarrow> version_less (def_version p) (def_version (bump_version change p))"
  by (cases change)
    (simp_all add: version_less_def version_tuple_def bump_version_def next_version_def Let_def less_prod_def)

lemma major_bump_goes_back:
  "\<not> version_less (def_version p) (def_version (bump_version MAJOR p))"
  "version_less (def_version (bump_version MAJOR p)) (def_version p) \<longleftrightarrow>
     minor (def_version p) \<noteq> 0 \<or> patch (def_version p) \<noteq> 0"
  by (auto simp: version_less_def version_tuple_def bump_version_def next_version_def Let_def less_prod_def)

text \<open>Of two policies that inherit from each other, validation accepts both.\<close>

lemma mutual_inheritance_accepted:
  assumes "def_id q \<noteq> def_id p" "def_inheritance p = [def_id q]" "def_inheritance q = [def_id p]"
    "def_rules p = []" "def_rules q = []" "def_baselines p = []" "def_baselines q = []"
    "def_assignments p = []" "def_assignments q = []"
  shows "validate p = Inr p \<and> validate q = Inr q"
  using assms by (auto simp: validate_def walk_inheritance_def)

end
