(* ===== verification/Compliance_Evaluation.thy ===== *)
theory Compliance_Evaluation
  imports Inventory_Comparison Policy_Packages
begin

text \<open>
  \<^verbatim>\<open>evaluation/\<close>, the compliance models it reads, the resolution of policy packages into
  executable policies (\<^verbatim>\<open>policies/evaluation.py\<close>): rules are selected, executed on
  the differences of a comparison, scored, and grouped by policy. Three library services
  are parameters (\<open>text_lib\<close>): the text of lists and dictionaries, regular expression search, and
  reading a float. Averages are exact fractions.
\<close>

section \<open>Rules, exceptions and policies\<close>

datatype RuleType =
  RT_EQUALS | RT_NOT_EQUALS | RT_EXISTS | RT_MISSING | RT_REGEX | RT_CONTAINS | RT_GREATER_THAN |
  RT_LESS_THAN | RT_VERSION_COMPARE | RT_BOOLEAN_COMPARE

definition rule_types :: "(string \<times> RuleType) list" where
  "rule_types =
     [(''equals'', RT_EQUALS), (''not_equals'', RT_NOT_EQUALS), (''exists'', RT_EXISTS),
      (''missing'', RT_MISSING), (''regex'', RT_REGEX), (''contains'', RT_CONTAINS),
      (''greater_than'', RT_GREATER_THAN), (''less_than'', RT_LESS_THAN),
      (''version_compare'', RT_VERSION_COMPARE), (''boolean_compare'', RT_BOOLEAN_COMPARE)]"

datatype EvaluationStatus = COMPLIANT | NON_COMPLIANT | WAIVED | NOT_APPLICABLE | EVAL_ERROR

record EvaluationException =
  exn_key :: string
  exn_reason :: string
  exn_approved_by :: string
  exn_subject_type :: "string option"
  exn_subject_id :: "string option"
  exn_rule_key :: "string option"
  exn_expires_at :: "time option"
  exn_approved_at :: time

definition applies_to :: "time \<Rightarrow> EvaluationException \<Rightarrow> string \<Rightarrow> Difference \<Rightarrow> bool" where
  "applies_to now e key d \<longleftrightarrow>
     (case exn_expires_at e of None \<Rightarrow> True | Some t \<Rightarrow> \<not> t \<le> now) \<and>
     (case exn_rule_key e of None \<Rightarrow> True | Some k \<Rightarrow> k = key) \<and>
     (case exn_subject_type e of None \<Rightarrow> True | Some s \<Rightarrow> s = subject_type d) \<and>
     (case exn_subject_id e of None \<Rightarrow> True | Some s \<Rightarrow> s = subject_id d)"

record Rule =
  rule_id :: uuid
  rule_key :: string
  rule_name :: string
  rule_description :: "string option"
  rule_tags :: "string list"
  rule_expected :: "(string, pyval) dict"

record Policy =
  pol_id :: uuid
  pol_name :: string
  pol_description :: "string option"
  pol_rules :: "Rule list"
  pol_enabled :: bool
  pol_tags :: "string list"
  pol_created_at :: time

text \<open>Each error carries the value its message names.\<close>

datatype eval_error =
    RuleEvaluationError string
  | RuleRegistrationError string
  | ScoreValueError string

record text_lib =
  lib_container :: "pyval \<Rightarrow> string"
  lib_search :: "string \<Rightarrow> string \<Rightarrow> bool option"
  lib_float :: "string \<Rightarrow> rat option"

fun str_of :: "text_lib \<Rightarrow> pyval \<Rightarrow> string" where
  "str_of lib PNone = ''None''"
| "str_of lib (PBool b) = (if b then ''True'' else ''False'')"
| "str_of lib (PInt i) = str_int i"
| "str_of lib (PStr s) = s"
| "str_of lib v = lib_container lib v"

section \<open>Scores\<close>

definition clamp :: "int \<Rightarrow> int" where
  "clamp v = max 0 (min 100 v)"

fun difference_weight :: "DifferenceType \<Rightarrow> int" where
  "difference_weight MISSING = 80"
| "difference_weight CONFLICT = 85"
| "difference_weight DUPLICATE = 75"
| "difference_weight MODIFIED = 50"
| "difference_weight UNEXPECTED = 45"
| "difference_weight UNSUPPORTED = 15"
| "difference_weight UNKNOWN = 25"

definition get_field :: "string \<Rightarrow> (string, pyval) dict \<Rightarrow> pyval" where
  "get_field k d = (case dict_get d k of None \<Rightarrow> PNone | Some v \<Rightarrow> v)"

definition risk_score_of :: "text_lib \<Rightarrow> Rule \<Rightarrow> Difference \<Rightarrow> eval_error + int" where
  "risk_score_of lib rule d =
     (let explicit = get_field ''risk_score'' (rule_expected rule)
      in if explicit \<noteq> PNone
         then (case int_of_text (str_of lib explicit) of
                 None \<Rightarrow> Inl (ScoreValueError (str_of lib explicit))
               | Some i \<Rightarrow> Inr (clamp i))
         else Inr (difference_weight (difference_type d)))"

definition severity_for_score :: "int \<Rightarrow> Severity" where
  "severity_for_score score =
     (let s = clamp score
      in if s \<ge> 90 then \<lparr>sev_level = CRITICAL, sev_score = s, sev_label = Some ''Critical''\<rparr>
         else if s \<ge> 70 then \<lparr>sev_level = HIGH, sev_score = s, sev_label = Some ''High''\<rparr>
         else if s \<ge> 40 then \<lparr>sev_level = MEDIUM, sev_score = s, sev_label = Some ''Medium''\<rparr>
         else if s > 0 then \<lparr>sev_level = LOW, sev_score = s, sev_label = Some ''Low''\<rparr>
         else \<lparr>sev_level = INFO, sev_score = 0, sev_label = Some ''Info''\<rparr>)"

text \<open>\<open>round\<close> of a quotient of integers: nearest, ties to even.\<close>

definition round_quotient :: "int \<Rightarrow> int \<Rightarrow> int" where
  "round_quotient a b =
     (let q = a div b; r = a mod b
      in if 2 * r < b \<or> (2 * r = b \<and> even q) then q else q + 1)"

definition compliance_score_of :: "int list \<Rightarrow> int" where
  "compliance_score_of risks =
     (if risks = [] then 100
      else max 0 (min 100 (round_quotient (100 * int (length risks) - sum_list risks) (int (length risks)))))"

section \<open>Executing one rule\<close>

record RuleEvaluationResult =
  rr_rule_id :: uuid
  rr_rule_key :: string
  rr_difference :: Difference
  rr_status :: EvaluationStatus
  rr_passed :: bool
  rr_risk_score :: int
  rr_severity :: Severity
  rr_evidence :: "Evidence list"
  rr_recommendation :: "Recommendation option"
  rr_exception :: "EvaluationException option"
  rr_message :: string

definition rule_type_of :: "text_lib \<Rightarrow> Rule \<Rightarrow> eval_error + RuleType" where
  "rule_type_of lib rule =
     (let v = (case dict_get (rule_expected rule) ''rule_type'' of None \<Rightarrow> PStr ''equals'' | Some v \<Rightarrow> v)
      in case map_of rule_types (str_of lib v) of
           None \<Rightarrow> Inl (RuleEvaluationError (str_of lib v))
         | Some t \<Rightarrow> Inr t)"

definition normalize_value :: "text_lib \<Rightarrow> pyval \<Rightarrow> string" where
  "normalize_value lib v = (if v = PNone then [] else normalize_text (str_of lib v))"

text \<open>\<open>re.findall(\d+)\<close>: the maximal runs of digits, as numbers.\<close>

fun digit_runs :: "string \<Rightarrow> string \<Rightarrow> string list" where
  "digit_runs run [] = (if run = [] then [] else [rev run])"
| "digit_runs run (c # cs) =
     (if is_digit c then digit_runs (c # run) cs
      else (if run = [] then [] else [rev run]) @ digit_runs [] cs)"

definition version_numbers :: "text_lib \<Rightarrow> pyval \<Rightarrow> nat list" where
  "version_numbers lib v = map (\<lambda>s. the (parse_number 10 s)) (digit_runs [] (str_of lib v))"

fun bool_of :: "text_lib \<Rightarrow> pyval \<Rightarrow> bool option" where
  "bool_of lib (PBool b) = Some b"
| "bool_of lib PNone = None"
| "bool_of lib v =
     (let n = normalize_text (str_of lib v)
      in if n \<in> set [''true'', ''yes'', ''enabled'', ''up'', ''1''] then Some True
         else if n \<in> set [''false'', ''no'', ''disabled'', ''down'', ''0''] then Some False
         else None)"

definition compare_numbers :: "(rat \<Rightarrow> rat \<Rightarrow> bool) \<Rightarrow> text_lib \<Rightarrow> pyval \<Rightarrow> pyval \<Rightarrow> bool option" where
  "compare_numbers rel lib e ob =
     (if e = PNone \<or> ob = PNone then Some False
      else case (lib_float lib (str_of lib ob), lib_float lib (str_of lib e)) of
             (Some x, Some y) \<Rightarrow> Some (rel x y)
           | _ \<Rightarrow> None)"

text \<open>The handler of a rule type; \<open>None\<close> is an exception inside it.\<close>

definition run_handler :: "text_lib \<Rightarrow> RuleType \<Rightarrow> pyval \<Rightarrow> pyval \<Rightarrow> bool option" where
  "run_handler lib t e ob =
     (case t of
        RT_EQUALS \<Rightarrow> Some (normalize_value lib e = normalize_value lib ob)
      | RT_NOT_EQUALS \<Rightarrow> Some (normalize_value lib e \<noteq> normalize_value lib ob)
      | RT_EXISTS \<Rightarrow> Some (ob \<noteq> PNone \<and> strip (str_of lib ob) \<noteq> [])
      | RT_MISSING \<Rightarrow> Some (ob = PNone \<or> strip (str_of lib ob) = [])
      | RT_REGEX \<Rightarrow> if e = PNone \<or> ob = PNone then Some False
                     else lib_search lib (str_of lib e) (str_of lib ob)
      | RT_CONTAINS \<Rightarrow> Some (contains (str_of lib e) (str_of lib ob))
      | RT_GREATER_THAN \<Rightarrow> compare_numbers (>) lib e ob
      | RT_LESS_THAN \<Rightarrow> compare_numbers (<) lib e ob
      | RT_VERSION_COMPARE \<Rightarrow>
          Some (if e = PNone \<or> ob = PNone then False else version_numbers lib ob \<ge> version_numbers lib e)
      | RT_BOOLEAN_COMPARE \<Rightarrow> Some (bool_of lib e = bool_of lib ob))"

definition rule_type_value :: "RuleType \<Rightarrow> string" where
  "rule_type_value t = (case find (\<lambda>(n, u). u = t) rule_types of None \<Rightarrow> [] | Some (n, u) \<Rightarrow> n)"

definition evaluate_rule ::
  "text_lib \<Rightarrow> RuleType \<Rightarrow> (string, pyval) dict \<Rightarrow> Difference \<Rightarrow> eval_error + bool" where
  "evaluate_rule lib t state d =
     (let e = (case dict_get state ''expected'' of None \<Rightarrow> expected d | Some v \<Rightarrow> v)
      in case run_handler lib t e (observed d) of
           None \<Rightarrow> Inl (RuleEvaluationError (rule_type_value t))
         | Some b \<Rightarrow> Inr b)"

definition rule_evidence :: "Rule \<Rightarrow> Difference \<Rightarrow> bool \<Rightarrow> Evidence" where
  "rule_evidence rule d passed =
     \<lparr>evidence_source = ''evaluation-engine'',
      evidence_description = ''Rule '' @ rule_key rule @ (if passed then '' passed'' else '' failed'') @
        '' for '' @ difference_key d @ ''.'',
      evidence_reference = ''evaluation:'' @ rule_key rule @ '':'' @ difference_key d,
      evidence_details = [(''rule_id'', PInt (int (rule_id rule))), (''rule_key'', PStr (rule_key rule)),
        (''difference_key'', PStr (difference_key d)), (''expected'', expected d),
        (''observed'', observed d), (''passed'', PBool passed)]\<rparr>"

fun severity_value :: "SeverityLevel \<Rightarrow> string" where
  "severity_value CRITICAL = ''critical''"
| "severity_value HIGH = ''high''"
| "severity_value MEDIUM = ''medium''"
| "severity_value LOW = ''low''"
| "severity_value INFO = ''info''"

definition build_recommendation :: "Rule \<Rightarrow> Difference \<Rightarrow> Severity \<Rightarrow> Recommendation" where
  "build_recommendation rule d sev =
     \<lparr>rec_summary = ''Remediate '' @ subject_type d @ '' drift for '' @ subject_id d @ ''.'',
      rec_rationale = Some (''Rule '' @ rule_key rule @ '' failed with severity '' @
        (case sev_label sev of None \<Rightarrow> severity_value (sev_level sev)
           | Some l \<Rightarrow> if l = [] then severity_value (sev_level sev) else l) @ ''.''),
      rec_steps = [''Validate NetBox source-of-truth data.'', ''Validate live observed device state.'',
        ''Apply an approved operational change outside this platform.'', ''Run discovery and comparison again.'']\<rparr>"

definition waived_result :: "Rule \<Rightarrow> Difference \<Rightarrow> EvaluationException \<Rightarrow> RuleEvaluationResult" where
  "waived_result rule d e =
     \<lparr>rr_rule_id = rule_id rule, rr_rule_key = rule_key rule, rr_difference = d, rr_status = WAIVED,
      rr_passed = True, rr_risk_score = 0, rr_severity = severity_for_score 0,
      rr_evidence = [rule_evidence rule d True], rr_recommendation = None, rr_exception = Some e,
      rr_message = ''Rule waived by '' @ exn_approved_by e @ '': '' @ exn_reason e\<rparr>"

definition execute_rule ::
  "text_lib \<Rightarrow> Rule \<Rightarrow> Difference \<Rightarrow> EvaluationException option \<Rightarrow> eval_error + RuleEvaluationResult" where
  "execute_rule lib rule d waiver =
     bind_result (rule_type_of lib rule) (\<lambda>t.
     case waiver of
       Some e \<Rightarrow> Inr (waived_result rule d e)
     | None \<Rightarrow>
         bind_result (evaluate_rule lib t (rule_expected rule) d) (\<lambda>passed.
         bind_result (if passed then Inr 0 else risk_score_of lib rule d) (\<lambda>risk.
         let sev = severity_for_score risk
         in Inr \<lparr>rr_rule_id = rule_id rule, rr_rule_key = rule_key rule, rr_difference = d,
              rr_status = (if passed then COMPLIANT else NON_COMPLIANT), rr_passed = passed,
              rr_risk_score = risk, rr_severity = sev, rr_evidence = [rule_evidence rule d passed],
              rr_recommendation = (if passed then None else Some (build_recommendation rule d sev)),
              rr_exception = None,
              rr_message = (if passed then ''Rule passed.'' else ''Rule failed.'')\<rparr>)))"

section \<open>Selecting rules\<close>

record EvaluationContext =
  ctx_differences :: "Difference list"
  ctx_metadata :: "(string, pyval) dict"
  ctx_exceptions :: "EvaluationException list"

definition context_text :: "text_lib \<Rightarrow> EvaluationContext \<Rightarrow> string \<Rightarrow> string option" where
  "context_text lib ctx key =
     (let v = get_field key (ctx_metadata ctx)
      in if v = PNone then None
         else let t = strip (str_of lib v) in if t = [] then None else Some t)"

text \<open>\<open>tag.split(":", 1)\<close> of a tag with a colon.\<close>

definition split_tag :: "string \<Rightarrow> (string \<times> string) option" where
  "split_tag tag =
     (if CHR '':'' \<in> set tag
      then Some (takeWhile (\<lambda>c. c \<noteq> CHR '':'') tag, tl (dropWhile (\<lambda>c. c \<noteq> CHR '':'') tag))
      else None)"

definition required_tags :: "string list \<Rightarrow> (string, string) dict" where
  "required_tags tags = fold (\<lambda>(k, v). dict_set k v) (List.map_filter split_tag tags) []"

definition tags_apply :: "text_lib \<Rightarrow> string list \<Rightarrow> EvaluationContext \<Rightarrow> bool" where
  "tags_apply lib tags ctx =
     (let required = required_tags tags;
          ok = (\<lambda>tag key. case dict_get required tag of None \<Rightarrow> True | Some v \<Rightarrow> context_text lib ctx key = Some v)
      in tags = [] \<or>
         (ok ''site'' ''site'' \<and> ok ''role'' ''device_role'' \<and> ok ''platform'' ''platform'' \<and>
          ok ''vendor'' ''vendor'' \<and> ok ''device_type'' ''device_type''))"

fun select_rules ::
  "text_lib \<Rightarrow> EvaluationContext \<Rightarrow> Policy \<Rightarrow> string list \<Rightarrow> Rule list \<Rightarrow> (Rule \<times> Policy) list \<times> string list" where
  "select_rules lib ctx p seen [] = ([], seen)"
| "select_rules lib ctx p seen (r # rs) =
     (if tags_apply lib (rule_tags r) ctx \<and> rule_key r \<notin> set seen
      then let (more, seen') = select_rules lib ctx p (rule_key r # seen) rs in ((r, p) # more, seen')
      else select_rules lib ctx p seen rs)"

fun applicable_rules ::
  "text_lib \<Rightarrow> EvaluationContext \<Rightarrow> string list \<Rightarrow> Policy list \<Rightarrow> (Rule \<times> Policy) list" where
  "applicable_rules lib ctx seen [] = []"
| "applicable_rules lib ctx seen (p # ps) =
     (if \<not> pol_enabled p \<or> \<not> tags_apply lib (pol_tags p) ctx then applicable_rules lib ctx seen ps
      else let (rs, seen') = select_rules lib ctx p seen (pol_rules p)
           in rs @ applicable_rules lib ctx seen' ps)"

definition rule_fits :: "text_lib \<Rightarrow> Difference \<Rightarrow> Rule \<Rightarrow> bool" where
  "rule_fits lib d r \<longleftrightarrow>
     (let st = get_field ''subject_type'' (rule_expected r); f = get_field ''field_name'' (rule_expected r);
          dt = get_field ''difference_type'' (rule_expected r)
      in (st = PNone \<or> st = PStr (subject_type d)) \<and>
         (f = PNone \<or> f = text_value (field_name d)) \<and>
         (dt = PNone \<or> str_of lib dt = difference_value (difference_type d)))"

definition rules_for_difference :: "text_lib \<Rightarrow> Rule list \<Rightarrow> Difference \<Rightarrow> Rule list" where
  "rules_for_difference lib rules d = filter (rule_fits lib d) rules"

definition exception_for :: "time \<Rightarrow> EvaluationContext \<Rightarrow> Rule \<Rightarrow> Difference \<Rightarrow> EvaluationException option" where
  "exception_for now ctx r d = find (\<lambda>e. applies_to now e (rule_key r) d) (ctx_exceptions ctx)"

section \<open>Policy packages\<close>

datatype policy_item = Object_Policy Policy | Package_Item PolicyPackage

type_synonym rule_registry = "(string, Rule) dict"

definition registry_register :: "Rule \<Rightarrow> rule_registry \<Rightarrow> eval_error + rule_registry" where
  "registry_register r reg =
     (if dict_get reg (rule_key r) \<noteq> None then Inl (RuleRegistrationError (rule_key r))
      else Inr (dict_set (rule_key r) r reg))"

definition registry_get :: "rule_registry \<Rightarrow> string \<Rightarrow> eval_error + Rule" where
  "registry_get reg k = (case dict_get reg k of None \<Rightarrow> Inl (RuleRegistrationError k) | Some r \<Rightarrow> Inr r)"

fun map_result :: "('a \<Rightarrow> 'e + 'b) \<Rightarrow> 'a list \<Rightarrow> 'e + 'b list" where
  "map_result f [] = Inr []"
| "map_result f (x # xs) = bind_result (f x) (\<lambda>y. bind_result (map_result f xs) (\<lambda>ys. Inr (y # ys)))"

definition assignment_to_tag :: "PolicyAssignment \<Rightarrow> string option" where
  "assignment_to_tag a =
     (if assign_scope a \<in> set assignment_scopes \<and> strip (assign_value a) \<noteq> []
      then Some (assign_scope a @ CHR '':'' # strip (assign_value a)) else None)"

text \<open>An unknown rule raises the registry's own error, which the handler of \<open>KeyError\<close> lets through.\<close>

definition build_policy ::
  "rule_registry \<Rightarrow> (uuid, PolicyPackage) dict \<Rightarrow> PolicyPackage \<Rightarrow> eval_error + Policy" where
  "build_policy reg byid p =
     (let ordered = the (inherited_packages byid p);
          keys = fromkeys (concat (map (\<lambda>q. map ref_key (pkg_rules q)) ordered))
      in bind_result (map_result (registry_get reg) keys) (\<lambda>rules.
         Inr \<lparr>pol_id = pkg_id p, pol_name = pkg_key p,
              pol_description = Some (''Compiled policy package '' @ pkg_key p @ ''@'' @ as_string (pkg_version p)),
              pol_rules = rules, pol_enabled = True,
              pol_tags = List.map_filter assignment_to_tag (pkg_assignments p),
              pol_created_at = pkg_compiled_at p\<rparr>))"

definition resolve_with_versions ::
  "rule_registry \<Rightarrow> PolicyPackage list \<Rightarrow> eval_error + (Policy \<times> string) list" where
  "resolve_with_versions reg ps =
     map_result (\<lambda>(_, entries).
       let p = latest (hd entries) (tl entries)
       in bind_result (build_policy reg (package_by_id ps) p) (\<lambda>pol. Inr (pol, as_string (pkg_version p))))
       (packages_by_key ps)"

definition resolve_policy_packages ::
  "rule_registry \<Rightarrow> policy_item list \<Rightarrow> eval_error + Policy list \<times> (uuid, string) dict" where
  "resolve_policy_packages reg items =
     (let packages = List.map_filter (\<lambda>i. case i of Package_Item p \<Rightarrow> Some p | _ \<Rightarrow> None) items;
          objects = List.map_filter (\<lambda>i. case i of Object_Policy p \<Rightarrow> Some p | _ \<Rightarrow> None) items
      in if packages = [] then Inr (objects, [])
         else bind_result (resolve_with_versions reg packages) (\<lambda>compiled.
           Inr (objects @ map fst compiled, fold (\<lambda>(p, v). dict_set (pol_id p) v) compiled [])))"

section \<open>The evaluation engine\<close>

record PolicyEvaluationResult =
  pr_policy_id :: uuid
  pr_policy_key :: string
  pr_version :: string
  pr_status :: EvaluationStatus
  pr_risk_score :: int
  pr_compliance_score :: int
  pr_rule_results :: "RuleEvaluationResult list"

record EvaluationMetrics =
  em_total_rules :: nat
  em_evaluated_rules :: nat
  em_count :: "EvaluationStatus \<Rightarrow> nat"
  em_risk_score :: int
  em_compliance_score :: int

record EvaluationDecision =
  dec_status :: EvaluationStatus
  dec_risk_score :: int
  dec_compliance_score :: int
  dec_severity :: Severity
  dec_recommendations :: "Recommendation list"
  dec_evidence :: "Evidence list"
  dec_rule_results :: "RuleEvaluationResult list"
  dec_policy_results :: "PolicyEvaluationResult list"
  dec_metrics :: EvaluationMetrics

definition overall_status :: "RuleEvaluationResult list \<Rightarrow> EvaluationStatus" where
  "overall_status rs =
     (if rs = [] then NOT_APPLICABLE
      else if list_ex (\<lambda>r. rr_status r = NON_COMPLIANT) rs then NON_COMPLIANT
      else if list_all (\<lambda>r. rr_status r = WAIVED) rs then WAIVED
      else COMPLIANT)"

definition max_risk :: "int list \<Rightarrow> int" where
  "max_risk xs = (if xs = [] then 0 else Max (set xs))"

definition evaluation_metrics :: "nat \<Rightarrow> RuleEvaluationResult list \<Rightarrow> int \<Rightarrow> int \<Rightarrow> EvaluationMetrics" where
  "evaluation_metrics n rs risk score =
     \<lparr>em_total_rules = n, em_evaluated_rules = length rs,
      em_count = (\<lambda>s. length (filter (\<lambda>r. rr_status r = s) rs)),
      em_risk_score = risk, em_compliance_score = score\<rparr>"

text \<open>The results of each policy, in the order in which policies first have one.\<close>

definition group_results ::
  "(string, Policy) dict \<Rightarrow> RuleEvaluationResult list \<Rightarrow> (uuid, Policy \<times> RuleEvaluationResult list) dict" where
  "group_results owner rs =
     fold (\<lambda>r d. case dict_get owner (rr_rule_key r) of
         None \<Rightarrow> d
       | Some p \<Rightarrow> dict_set (pol_id p)
           (p, (case dict_get d (pol_id p) of None \<Rightarrow> [] | Some (_, old) \<Rightarrow> old) @ [r]) d) rs []"

definition policy_result ::
  "(uuid, string) dict \<Rightarrow> Policy \<times> RuleEvaluationResult list \<Rightarrow> PolicyEvaluationResult" where
  "policy_result versions = (\<lambda>(p, rs).
     \<lparr>pr_policy_id = pol_id p, pr_policy_key = pol_name p,
      pr_version = (case dict_get versions (pol_id p) of None \<Rightarrow> ''unknown'' | Some v \<Rightarrow> v),
      pr_status = overall_status rs, pr_risk_score = max_risk (map rr_risk_score rs),
      pr_compliance_score = compliance_score_of (map rr_risk_score rs), pr_rule_results = rs\<rparr>)"

definition policy_results ::
  "(string, Policy) dict \<Rightarrow> RuleEvaluationResult list \<Rightarrow> (uuid, string) dict \<Rightarrow> PolicyEvaluationResult list" where
  "policy_results owner rs versions = map (policy_result versions) (dict_values (group_results owner rs))"

definition evaluate ::
  "text_lib \<Rightarrow> time \<Rightarrow> rule_registry \<Rightarrow> EvaluationContext \<Rightarrow> policy_item list \<Rightarrow> eval_error + EvaluationDecision" where
  "evaluate lib now reg ctx items =
     bind_result (resolve_policy_packages reg items) (\<lambda>(policies, versions).
     let entries = applicable_rules lib ctx [] policies;
         rules = map fst entries;
         owner = fold (\<lambda>(r, p). dict_set (rule_key r) p) entries [];
         pairs = concat (map (\<lambda>d. map (\<lambda>r. (r, d)) (rules_for_difference lib rules d)) (ctx_differences ctx))
     in bind_result (map_result (\<lambda>(r, d). execute_rule lib r d (exception_for now ctx r d)) pairs) (\<lambda>rs.
        let risks = map rr_risk_score rs; risk = max_risk risks; score = compliance_score_of risks
        in Inr \<lparr>dec_status = overall_status rs, dec_risk_score = risk, dec_compliance_score = score,
             dec_severity = severity_for_score risk,
             dec_recommendations = List.map_filter rr_recommendation rs,
             dec_evidence = concat (map rr_evidence rs), dec_rule_results = rs,
             dec_policy_results = policy_results owner rs versions,
             dec_metrics = evaluation_metrics (length rules) rs risk score\<rparr>))"

section \<open>Scores are bounded\<close>

lemma clamp_bounds [simp]: "0 \<le> clamp v" "clamp v \<le> 100"
  by (simp_all add: clamp_def)

lemma difference_weight_bounds: "0 < difference_weight t" "difference_weight t \<le> 100"
  by (cases t; simp)+

lemma risk_score_bounds: "risk_score_of lib rule d = Inr risk \<Longrightarrow> 0 \<le> risk \<and> risk \<le> 100"
  using difference_weight_bounds [of "difference_type d"]
  by (auto simp: risk_score_of_def Let_def split: if_splits option.splits)

lemma compliance_score_bounds: "0 \<le> compliance_score_of risks" "compliance_score_of risks \<le> 100"
  by (simp_all add: compliance_score_of_def)

lemma compliance_score_full: "(\<forall>r \<in> set risks. r = 0) \<Longrightarrow> compliance_score_of risks = 100"
proof (cases "risks = []")
  case False
  assume zero: "\<forall>r \<in> set risks. r = 0"
  then have "sum_list risks = 0" by (induction risks) auto
  moreover have "round_quotient (100 * n) n = 100" if "0 < n" for n
    using that by (simp add: round_quotient_def)
  ultimately show ?thesis using False by (simp add: compliance_score_of_def)
qed (simp add: compliance_score_of_def)

lemma max_risk_bounds:
  assumes "\<forall>r \<in> set risks. 0 \<le> r \<and> r \<le> 100"
  shows "0 \<le> max_risk risks \<and> max_risk risks \<le> 100 \<and> (\<forall>r \<in> set risks. r \<le> max_risk risks)"
proof (cases "risks = []")
  case False
  then have "Max (set risks) \<in> set risks" by (intro Max_in) auto
  then show ?thesis using assms False by (auto simp: max_risk_def)
qed (simp add: max_risk_def)

section \<open>Every rule result is coherent\<close>

text \<open>
  A waived result carries an exception that applies and has not expired; a compliant one carries no
  risk; only a non-compliant one carries a risk and a recommendation; no result is an error.
\<close>

definition coherent_result :: "time \<Rightarrow> EvaluationContext \<Rightarrow> RuleEvaluationResult \<Rightarrow> bool" where
  "coherent_result now ctx r \<longleftrightarrow>
     (case rr_status r of
        COMPLIANT \<Rightarrow> rr_passed r \<and> rr_risk_score r = 0 \<and> rr_recommendation r = None \<and> rr_exception r = None
      | WAIVED \<Rightarrow> rr_passed r \<and> rr_risk_score r = 0 \<and> rr_recommendation r = None \<and>
          (\<exists>e \<in> set (ctx_exceptions ctx). rr_exception r = Some e \<and>
             applies_to now e (rr_rule_key r) (rr_difference r))
      | NON_COMPLIANT \<Rightarrow> \<not> rr_passed r \<and> 0 \<le> rr_risk_score r \<and> rr_risk_score r \<le> 100 \<and>
          rr_recommendation r \<noteq> None \<and> rr_exception r = None \<and>
          (\<forall>e \<in> set (ctx_exceptions ctx). \<not> applies_to now e (rr_rule_key r) (rr_difference r))
      | _ \<Rightarrow> False)"

lemma find_Some_in: "find P xs = Some x \<Longrightarrow> x \<in> set xs \<and> P x"
  by (auto simp: find_Some_iff)

lemma execute_coherent:
  assumes "execute_rule lib rule d (exception_for now ctx rule d) = Inr r"
  shows "coherent_result now ctx r"
proof (cases "exception_for now ctx rule d")
  case (Some e)
  then have "e \<in> set (ctx_exceptions ctx)" "applies_to now e (rule_key rule) d"
    using find_Some_in by (fastforce simp: exception_for_def)+
  then show ?thesis using assms Some
    by (auto simp: execute_rule_def bind_result_Inr_iff waived_result_def coherent_result_def)
next
  case None
  then have "\<forall>e \<in> set (ctx_exceptions ctx). \<not> applies_to now e (rule_key rule) d"
    by (simp add: exception_for_def find_None_iff)
  then show ?thesis using assms None risk_score_bounds
    by (auto simp: execute_rule_def bind_result_Inr_iff coherent_result_def Let_def split: if_splits)
qed

lemma map_result_Inr:
  "map_result f xs = Inr ys \<Longrightarrow> list_all2 (\<lambda>x y. f x = Inr y) xs ys"
proof (induction xs arbitrary: ys)
  case (Cons x xs)
  then show ?case by (auto simp: bind_result_Inr_iff)
qed simp

lemma list_all2_origin: "list_all2 P xs ys \<Longrightarrow> y \<in> set ys \<Longrightarrow> \<exists>x \<in> set xs. P x y"
  by (induction rule: list_all2_induct) auto

lemma execute_key:
  "execute_rule lib rule d waiver = Inr r \<Longrightarrow> rr_rule_key r = rule_key rule \<and> rr_difference r = d"
  by (cases waiver) (auto simp: execute_rule_def bind_result_Inr_iff waived_result_def Let_def)

text \<open>What an evaluation that returned is made of.\<close>

lemma evaluate_Inr:
  assumes "evaluate lib now reg ctx items = Inr dec"
  obtains entries :: "(Rule \<times> Policy) list" and versions rs where "dec_rule_results dec = rs"
    "\<And>r. r \<in> set rs \<Longrightarrow> coherent_result now ctx r \<and> rr_rule_key r \<in> rule_key ` fst ` set entries \<and>
       rr_difference r \<in> set (ctx_differences ctx)"
    "dec_status dec = overall_status rs" "dec_risk_score dec = max_risk (map rr_risk_score rs)"
    "dec_compliance_score dec = compliance_score_of (map rr_risk_score rs)"
    "em_evaluated_rules (dec_metrics dec) = length rs"
    "em_count (dec_metrics dec) = (\<lambda>s. length (filter (\<lambda>r. rr_status r = s) rs))"
    "dec_policy_results dec = policy_results (fold (\<lambda>(r, p). dict_set (rule_key r) p) entries []) rs versions"
proof -
  from assms obtain policies versions rs where
      run: "map_result (\<lambda>(r, d). execute_rule lib r d (exception_for now ctx r d))
        (concat (map (\<lambda>d. map (\<lambda>r. (r, d)) (rules_for_difference lib (map fst (applicable_rules lib ctx [] policies)) d))
          (ctx_differences ctx))) = Inr rs"
      and dec: "dec_rule_results dec = rs" "dec_status dec = overall_status rs"
        "dec_risk_score dec = max_risk (map rr_risk_score rs)"
        "dec_compliance_score dec = compliance_score_of (map rr_risk_score rs)"
        "em_evaluated_rules (dec_metrics dec) = length rs"
        "em_count (dec_metrics dec) = (\<lambda>s. length (filter (\<lambda>r. rr_status r = s) rs))"
        "dec_policy_results dec = policy_results
          (fold (\<lambda>(r, p). dict_set (rule_key r) p) (applicable_rules lib ctx [] policies) []) rs versions"
    by (auto simp: evaluate_def bind_result_Inr_iff Let_def evaluation_metrics_def)
  have "coherent_result now ctx r \<and> rr_rule_key r \<in> rule_key ` fst ` set (applicable_rules lib ctx [] policies) \<and>
      rr_difference r \<in> set (ctx_differences ctx)" if r: "r \<in> set rs" for r
  proof -
    from list_all2_origin [OF map_result_Inr [OF run] r] obtain rule d where
        ex: "execute_rule lib rule d (exception_for now ctx rule d) = Inr r"
        and d: "d \<in> set (ctx_differences ctx)"
        and rule: "rule \<in> set (map fst (applicable_rules lib ctx [] policies))"
      unfolding rules_for_difference_def by auto
    show ?thesis using execute_coherent [OF ex] execute_key [OF ex] d rule by simp
  qed
  then show ?thesis by (intro that [OF dec(1) _ dec(2-7)])
qed

lemma coherent_statuses:
  "coherent_result now ctx r \<Longrightarrow> rr_status r \<in> {COMPLIANT, NON_COMPLIANT, WAIVED} \<and>
     0 \<le> rr_risk_score r \<and> rr_risk_score r \<le> 100"
  by (auto simp: coherent_result_def split: EvaluationStatus.splits)

lemma status_counts:
  assumes "\<forall>r \<in> set rs. rr_status r \<in> {COMPLIANT, NON_COMPLIANT, WAIVED}"
  shows "length (filter (\<lambda>r. rr_status r = COMPLIANT) rs) + length (filter (\<lambda>r. rr_status r = NON_COMPLIANT) rs) +
    length (filter (\<lambda>r. rr_status r = WAIVED) rs) = length rs"
  using assms by (induction rs) auto

text \<open>
  C20: An evaluation that returns is coherent: every rule result is compliant, non-compliant or waived
  with the risk, recommendation and unexpired exception that belong to it, never an error; scores lie
  between 0 and 100 and the overall risk is the largest; the decision is non-compliant exactly when a
  result is, and then no exception covers that result; without risk the compliance score is 100; the
  three counters add up to the results and the error counter is zero.
\<close>

theorem evaluation_is_coherent:
  assumes "evaluate lib now reg ctx items = Inr dec"
  shows "(\<forall>r \<in> set (dec_rule_results dec). coherent_result now ctx r \<and> rr_risk_score r \<le> dec_risk_score dec) \<and>
    0 \<le> dec_risk_score dec \<and> dec_risk_score dec \<le> 100 \<and>
    0 \<le> dec_compliance_score dec \<and> dec_compliance_score dec \<le> 100 \<and>
    (dec_status dec = NON_COMPLIANT \<longleftrightarrow> (\<exists>r \<in> set (dec_rule_results dec). rr_status r = NON_COMPLIANT)) \<and>
    (dec_status dec = NOT_APPLICABLE \<longleftrightarrow> dec_rule_results dec = []) \<and>
    (dec_risk_score dec = 0 \<longrightarrow> dec_compliance_score dec = 100) \<and>
    em_count (dec_metrics dec) COMPLIANT + em_count (dec_metrics dec) NON_COMPLIANT +
      em_count (dec_metrics dec) WAIVED = em_evaluated_rules (dec_metrics dec) \<and>
    em_count (dec_metrics dec) EVAL_ERROR = 0"
proof -
  from assms obtain entries versions rs where rs: "dec_rule_results dec = rs"
      and coherent: "\<And>r. r \<in> set rs \<Longrightarrow> coherent_result now ctx r"
      and parts: "dec_status dec = overall_status rs" "dec_risk_score dec = max_risk (map rr_risk_score rs)"
        "dec_compliance_score dec = compliance_score_of (map rr_risk_score rs)"
        "em_evaluated_rules (dec_metrics dec) = length rs"
        "em_count (dec_metrics dec) = (\<lambda>s. length (filter (\<lambda>r. rr_status r = s) rs))"
    by (rule evaluate_Inr) blast
  have statuses: "\<forall>r \<in> set rs. rr_status r \<in> {COMPLIANT, NON_COMPLIANT, WAIVED}"
    and risks: "\<forall>x \<in> set (map rr_risk_score rs). 0 \<le> x \<and> x \<le> 100"
    using coherent coherent_statuses by fastforce+
  note max = max_risk_bounds [OF risks]
  have "max_risk (map rr_risk_score rs) = 0 \<Longrightarrow> compliance_score_of (map rr_risk_score rs) = 100"
    using max risks by (intro compliance_score_full) force
  moreover have "overall_status rs = NON_COMPLIANT \<longleftrightarrow> (\<exists>r \<in> set rs. rr_status r = NON_COMPLIANT)"
    "overall_status rs = NOT_APPLICABLE \<longleftrightarrow> rs = []"
    by (auto simp: overall_status_def list_ex_iff)
  moreover have "length (filter (\<lambda>r. rr_status r = EVAL_ERROR) rs) = 0"
    using statuses by (auto simp: filter_empty_conv)
  ultimately show ?thesis
    using coherent max compliance_score_bounds status_counts [OF statuses] unfolding rs parts by auto
qed

text \<open>One device is missing, one rule expects it to exist and no exception covers it.\<close>

definition sample_lib :: text_lib where
  "sample_lib = \<lparr>lib_container = (\<lambda>_. []), lib_search = (\<lambda>_ _. None), lib_float = (\<lambda>_. None)\<rparr>"

definition sample_rule :: Rule where
  "sample_rule = \<lparr>rule_id = 7, rule_key = ''present'', rule_name = ''present'', rule_description = None,
     rule_tags = [], rule_expected = [(''rule_type'', PStr ''exists'')]\<rparr>"

definition sample_difference :: Difference where
  "sample_difference = build_missing ''device'' ''sw1'' (PStr ''sw1'') ''Device is missing.''"

definition sample_policy :: Policy where
  "sample_policy = \<lparr>pol_id = 3, pol_name = ''inventory'', pol_description = None, pol_rules = [sample_rule],
     pol_enabled = True, pol_tags = [], pol_created_at = 0\<rparr>"

definition sample_context :: EvaluationContext where
  "sample_context = \<lparr>ctx_differences = [sample_difference], ctx_metadata = [], ctx_exceptions = []\<rparr>"

lemma sample_executes:
  obtains r where "execute_rule sample_lib sample_rule sample_difference None = Inr r"
    "rr_status r = NON_COMPLIANT" "rr_risk_score r = 80" "rr_rule_key r = ''present''"
  by (simp add: execute_rule_def rule_type_of_def rule_types_def evaluate_rule_def run_handler_def
      risk_score_of_def get_field_def sample_rule_def sample_difference_def build_missing_def dict_get_def Let_def)

lemma sample_rule_fits: "rule_fits sample_lib sample_difference sample_rule"
  by (simp add: rule_fits_def get_field_def sample_rule_def dict_get_def)

lemma sample_selected: "applicable_rules sample_lib sample_context [] [sample_policy] = [(sample_rule, sample_policy)]"
  by (simp add: sample_policy_def tags_apply_def sample_rule_def)

lemma sample_evaluates:
  "\<exists>dec. evaluate sample_lib 0 [] sample_context [Object_Policy sample_policy] = Inr dec \<and>
     dec_status dec = NON_COMPLIANT \<and> map pr_policy_id (dec_policy_results dec) = [3] \<and>
     map pr_status (dec_policy_results dec) = [NON_COMPLIANT]"
proof -
  obtain r where r: "execute_rule sample_lib sample_rule sample_difference None = Inr r"
    "rr_status r = NON_COMPLIANT" "rr_rule_key r = ''present''" by (rule sample_executes)
  have "rule_key sample_rule = ''present''" "pol_id sample_policy = 3"
    by (simp_all add: sample_rule_def sample_policy_def)
  moreover have "ctx_differences sample_context = [sample_difference]"
    "exception_for 0 sample_context sample_rule sample_difference = None"
    by (simp_all add: sample_context_def exception_for_def)
  ultimately show ?thesis using r sample_rule_fits sample_selected
    by (simp add: evaluate_def resolve_policy_packages_def map_filter_simps rules_for_difference_def
        overall_status_def policy_results_def group_results_def policy_result_def dict_values_def dict_get_def Let_def)
qed

theorem evaluation_is_coherent_witness:
  "\<exists>dec. evaluate sample_lib 0 [] sample_context [Object_Policy sample_policy] = Inr dec \<and>
     (\<exists>r \<in> set (dec_rule_results dec). coherent_result 0 sample_context r \<and> rr_status r = NON_COMPLIANT) \<and>
     dec_status dec = NON_COMPLIANT \<and> em_count (dec_metrics dec) EVAL_ERROR = 0"
proof -
  from sample_evaluates obtain dec where
      dec: "evaluate sample_lib 0 [] sample_context [Object_Policy sample_policy] = Inr dec"
      "dec_status dec = NON_COMPLIANT" by blast
  show ?thesis using evaluation_is_coherent [OF dec(1)] dec by blast
qed

end
