(* ===== verification/Decision_Engine.thy ===== *)
theory Decision_Engine
  imports Compliance_Evaluation "HOL-Library.Multiset"
begin

text \<open>
  \<^verbatim>\<open>decision/\<close>: the registry of decision rules with its defaults and the decision the engine derives
  from the result of each policy. The properties follow the results of an evaluation into the
  decisions.
\<close>

section \<open>Decisions\<close>

datatype DecisionStatus = DS_PASS | DS_FAIL | DS_WARNING | DS_UNKNOWN | DS_NOT_APPLICABLE

record DecisionRuleDefinition =
  drd_code :: string
  drd_description :: string
  drd_status :: DecisionStatus
  drd_confidence :: int
  drd_match_policy_statuses :: "EvaluationStatus list"
  drd_match_rule_statuses :: "EvaluationStatus list"
  drd_priority :: int

record DecisionReason =
  reason_code :: string
  reason_message :: string
  reason_details :: "string option"

record DecisionRule =
  dr_rule_id :: uuid
  dr_rule_key :: string
  dr_status :: EvaluationStatus
  dr_risk_score :: int
  dr_confidence :: int
  dr_reason :: string

record DecisionTrace =
  trace_reasons :: "DecisionReason list"
  trace_rules :: "DecisionRule list"

record DecisionResult =
  dres_policy_id :: uuid
  dres_policy_version :: string
  dres_evaluation_id :: uuid
  dres_evaluation_timestamp :: time
  dres_decision_timestamp :: time
  dres_decision_status :: DecisionStatus
  dres_confidence :: int
  dres_reasoning :: string
  dres_triggered_rules :: "string list"
  dres_evaluator_version :: string
  dres_trace :: DecisionTrace

record DecisionContext =
  dctx_evaluation_id :: uuid
  dctx_evaluation_timestamp :: time
  dctx_decision_timestamp :: time
  dctx_policy_results :: "PolicyEvaluationResult list"
  dctx_evaluator_version :: string

section \<open>The registry of decision rules\<close>

type_synonym DecisionRegistry = "(string, DecisionRuleDefinition) dict"

datatype decision_error = AlreadyRegistered string | UnknownDecisionRule string

definition decision_register ::
  "DecisionRuleDefinition \<Rightarrow> DecisionRegistry \<Rightarrow> decision_error + DecisionRegistry" where
  "decision_register r reg =
     (if drd_code r \<in> set (dict_keys reg) then Inl (AlreadyRegistered (drd_code r))
      else Inr (dict_set (drd_code r) r reg))"

definition decision_get :: "DecisionRegistry \<Rightarrow> string \<Rightarrow> decision_error + DecisionRuleDefinition" where
  "decision_get reg code =
     (case dict_get reg code of None \<Rightarrow> Inl (UnknownDecisionRule code) | Some r \<Rightarrow> Inr r)"

definition default_rules :: "DecisionRuleDefinition list" where
  "default_rules =
     [\<lparr>drd_code = ''policy_not_applicable'',
        drd_description = ''No policy rules were applicable during evaluation.'',
        drd_status = DS_NOT_APPLICABLE, drd_confidence = 0, drd_match_policy_statuses = [NOT_APPLICABLE],
        drd_match_rule_statuses = [], drd_priority = 100\<rparr>,
      \<lparr>drd_code = ''policy_non_compliant'',
        drd_description = ''The evaluation result contains non-compliant rule outcomes.'',
        drd_status = DS_FAIL, drd_confidence = 100, drd_match_policy_statuses = [NON_COMPLIANT],
        drd_match_rule_statuses = [], drd_priority = 90\<rparr>,
      \<lparr>drd_code = ''policy_error'',
        drd_description = ''The evaluation result contains errors and could not reach full compliance.'',
        drd_status = DS_WARNING, drd_confidence = 50, drd_match_policy_statuses = [EVAL_ERROR],
        drd_match_rule_statuses = [], drd_priority = 80\<rparr>,
      \<lparr>drd_code = ''policy_pass'',
        drd_description = ''The evaluation result is compliant or waived and supports a passing decision.'',
        drd_status = DS_PASS, drd_confidence = 100, drd_match_policy_statuses = [COMPLIANT, WAIVED],
        drd_match_rule_statuses = [], drd_priority = 70\<rparr>,
      \<lparr>drd_code = ''policy_unknown'',
        drd_description = ''The evaluation result could not be mapped to a deterministic decision.'',
        drd_status = DS_UNKNOWN, drd_confidence = 25, drd_match_policy_statuses = [],
        drd_match_rule_statuses = [], drd_priority = 0\<rparr>]"

fun load_missing :: "DecisionRuleDefinition list \<Rightarrow> DecisionRegistry \<Rightarrow> decision_error + DecisionRegistry" where
  "load_missing [] reg = Inr reg"
| "load_missing (r # rs) reg =
     (if drd_code r \<notin> set (map drd_code (dict_values reg))
      then bind_result (decision_register r reg) (load_missing rs) else load_missing rs reg)"

definition load_defaults :: "DecisionRegistry \<Rightarrow> decision_error + DecisionRegistry" where
  "load_defaults = load_missing default_rules"

section \<open>The engine\<close>

definition determine_status :: "PolicyEvaluationResult \<Rightarrow> RuleEvaluationResult list \<Rightarrow> DecisionStatus" where
  "determine_status p rs =
     (if rs = [] then DS_NOT_APPLICABLE
      else if list_ex (\<lambda>r. rr_status r = NON_COMPLIANT) rs then DS_FAIL
      else if list_ex (\<lambda>r. rr_status r = EVAL_ERROR) rs then DS_WARNING
      else if pr_status p = COMPLIANT \<or> pr_status p = WAIVED then DS_PASS
      else DS_UNKNOWN)"

fun evaluation_value :: "EvaluationStatus \<Rightarrow> string" where
  "evaluation_value COMPLIANT = ''compliant''"
| "evaluation_value NON_COMPLIANT = ''non_compliant''"
| "evaluation_value WAIVED = ''waived''"
| "evaluation_value NOT_APPLICABLE = ''not_applicable''"
| "evaluation_value EVAL_ERROR = ''error''"

definition policy_reasons ::
  "PolicyEvaluationResult \<Rightarrow> RuleEvaluationResult list \<Rightarrow> DecisionStatus \<Rightarrow> DecisionReason list" where
  "policy_reasons p rs st =
     (case st of
        DS_NOT_APPLICABLE \<Rightarrow>
          [\<lparr>reason_code = ''policy_not_applicable'',
            reason_message = ''No policy rules were applicable during evaluation.'',
            reason_details = Some ''The policy did not apply to the evaluated inventory.''\<rparr>]
      | DS_FAIL \<Rightarrow>
          [\<lparr>reason_code = ''policy_failure'',
            reason_message = ''One or more evaluated rules are non-compliant.'',
            reason_details = Some (str_nat (length (filter (\<lambda>r. rr_status r = NON_COMPLIANT) rs)) @
              '' rule(s) failed compliance.'')\<rparr>]
      | DS_WARNING \<Rightarrow>
          [\<lparr>reason_code = ''policy_warning'',
            reason_message = ''The evaluation encountered errors that prevent a fully passing decision.'',
            reason_details = Some (str_nat (length (filter (\<lambda>r. rr_status r = EVAL_ERROR) rs)) @
              '' rule(s) returned errors.'')\<rparr>]
      | DS_PASS \<Rightarrow>
          [\<lparr>reason_code = ''policy_pass'',
            reason_message = ''The evaluation result is compliant or waived.'',
            reason_details = Some ''All evaluated rules support a passing decision.''\<rparr>]
      | DS_UNKNOWN \<Rightarrow>
          [\<lparr>reason_code = ''policy_unknown'',
            reason_message = ''The decision engine could not determine a stable decision from evaluation results.'',
            reason_details = Some (''Policy evaluation status: '' @ evaluation_value (pr_status p) @ ''.'')\<rparr>])"

fun rule_reason :: "EvaluationStatus \<Rightarrow> string" where
  "rule_reason NON_COMPLIANT = ''Rule evaluated as non-compliant.''"
| "rule_reason EVAL_ERROR = ''Rule evaluation produced an error.''"
| "rule_reason WAIVED = ''Rule evaluation was waived.''"
| "rule_reason COMPLIANT = ''Rule evaluated as compliant.''"
| "rule_reason NOT_APPLICABLE = ''Rule was not applicable.''"

text \<open>The one method \<open>_confidence\<close> serves both enumerations.\<close>

fun confidence :: "DecisionStatus + EvaluationStatus \<Rightarrow> int" where
  "confidence (Inl DS_NOT_APPLICABLE) = 0"
| "confidence (Inr NOT_APPLICABLE) = 0"
| "confidence (Inl DS_FAIL) = 100"
| "confidence (Inr NON_COMPLIANT) = 100"
| "confidence (Inl DS_WARNING) = 50"
| "confidence (Inr EVAL_ERROR) = 50"
| "confidence (Inl DS_PASS) = 100"
| "confidence (Inr COMPLIANT) = 100"
| "confidence (Inr WAIVED) = 100"
| "confidence (Inl DS_UNKNOWN) = 25"

definition summarize_rule :: "RuleEvaluationResult \<Rightarrow> DecisionRule" where
  "summarize_rule r =
     \<lparr>dr_rule_id = rr_rule_id r, dr_rule_key = rr_rule_key r, dr_status = rr_status r,
      dr_risk_score = rr_risk_score r, dr_confidence = confidence (Inr (rr_status r)),
      dr_reason = rule_reason (rr_status r)\<rparr>"

definition build_trace ::
  "PolicyEvaluationResult \<Rightarrow> RuleEvaluationResult list \<Rightarrow> DecisionStatus \<Rightarrow> DecisionTrace" where
  "build_trace p rs st = \<lparr>trace_reasons = policy_reasons p rs st, trace_rules = map summarize_rule rs\<rparr>"

fun aggregate_reasoning :: "DecisionReason list \<Rightarrow> string" where
  "aggregate_reasoning [] = []"
| "aggregate_reasoning [r] = reason_message r"
| "aggregate_reasoning (r # rs) = reason_message r @ '' '' @ aggregate_reasoning rs"

definition build_decision :: "DecisionContext \<Rightarrow> PolicyEvaluationResult \<Rightarrow> DecisionResult" where
  "build_decision ctx p =
     (let rs = pr_rule_results p; st = determine_status p rs; trace = build_trace p rs st
      in \<lparr>dres_policy_id = pr_policy_id p, dres_policy_version = pr_version p,
          dres_evaluation_id = dctx_evaluation_id ctx,
          dres_evaluation_timestamp = dctx_evaluation_timestamp ctx,
          dres_decision_timestamp = dctx_decision_timestamp ctx,
          dres_decision_status = st, dres_confidence = confidence (Inl st),
          dres_reasoning = aggregate_reasoning (trace_reasons trace),
          dres_triggered_rules = map rr_rule_key rs,
          dres_evaluator_version = dctx_evaluator_version ctx, dres_trace = trace\<rparr>)"

definition decide :: "DecisionContext \<Rightarrow> DecisionResult list" where
  "decide ctx = map (build_decision ctx) (dctx_policy_results ctx)"

section \<open>The default decision rules\<close>

text \<open>
  Loading the defaults never raises on a registry filed under the codes of its rules, keeps every
  rule that was there, and every default code is there afterwards.
\<close>

definition filed :: "DecisionRegistry \<Rightarrow> bool" where
  "filed reg \<longleftrightarrow> (\<forall>(code, r) \<in> set reg. drd_code r = code)"

lemma filed_codes: "filed reg \<Longrightarrow> map drd_code (dict_values reg) = dict_keys reg"
  by (auto simp: filed_def dict_values_def dict_keys_def)

lemma filed_set: "filed reg \<Longrightarrow> filed (dict_set (drd_code r) r reg)"
  by (induction "drd_code r" r reg rule: dict_set.induct) (auto simp: filed_def)

lemma load_missing_loads:
  assumes "filed reg"
  shows "\<exists>reg'. load_missing rs reg = Inr reg' \<and> filed reg' \<and>
    (\<forall>code \<in> set (dict_keys reg). dict_get reg' code = dict_get reg code) \<and>
    set (dict_keys reg') = set (dict_keys reg) \<union> drd_code ` set rs"
  using assms
proof (induction rs arbitrary: reg)
  case (Cons r rs)
  show ?case
  proof (cases "drd_code r \<in> set (dict_keys reg)")
    case True
    then show ?thesis using Cons.IH [OF Cons.prems] filed_codes [OF Cons.prems] by auto
  next
    case False
    then show ?thesis using Cons.IH [OF filed_set [OF Cons.prems, of r]] filed_codes [OF Cons.prems]
      by (auto simp: decision_register_def keys_dict_set dict_get_set)
  qed
qed simp

section \<open>The results of an evaluation reach exactly one decision\<close>

definition grouped :: "(uuid, Policy \<times> RuleEvaluationResult list) dict \<Rightarrow> RuleEvaluationResult list" where
  "grouped d = concat (map (\<lambda>(k, p, rs). rs) d)"

lemma grouped_set:
  "mset (grouped (dict_set k (p, (case dict_get d k of None \<Rightarrow> [] | Some (q, old) \<Rightarrow> old) @ [r]) d)) =
     add_mset r (mset (grouped d))"
  by (induction d) (auto simp: grouped_def dict_get_def)

lemma grouped_set_nonempty:
  "(\<forall>(k, p, rs) \<in> set d. rs \<noteq> []) \<Longrightarrow> rs' \<noteq> [] \<Longrightarrow> (\<forall>(k, p, rs) \<in> set (dict_set k' (p', rs') d). rs \<noteq> [])"
  by (induction d) (auto split: if_splits)

lemma group_results_partition:
  assumes "\<forall>r \<in> set rs. dict_get owner (rr_rule_key r) \<noteq> None"
  shows "mset (grouped (group_results owner rs)) = mset rs \<and>
    (\<forall>(k, p, gs) \<in> set (group_results owner rs). gs \<noteq> [])"
proof -
  define f where "f = (\<lambda>(r :: RuleEvaluationResult) d. case dict_get owner (rr_rule_key r) of
         None \<Rightarrow> d
       | Some p \<Rightarrow> dict_set (pol_id p)
           (p, (case dict_get d (pol_id p) of None \<Rightarrow> [] | Some (_, old) \<Rightarrow> old) @ [r]) d)"
  have "mset (grouped (fold f rs d)) = mset (grouped d) + mset rs \<and> (\<forall>(k, p, gs) \<in> set (fold f rs d). gs \<noteq> [])"
    if "\<forall>(k, p, gs) \<in> set d. gs \<noteq> []" for d
    using that assms
  proof (induction rs arbitrary: d)
    case (Cons r rs)
    then obtain p where p: "dict_get owner (rr_rule_key r) = Some p" by auto
    have step: "f r d = dict_set (pol_id p) (p, (case dict_get d (pol_id p) of None \<Rightarrow> [] | Some (q, old) \<Rightarrow> old) @ [r]) d"
      by (simp add: f_def p)
    have "\<forall>(k, p, gs) \<in> set (f r d). gs \<noteq> []"
      unfolding step by (rule grouped_set_nonempty [OF Cons.prems(1)]) simp
    moreover have "mset (grouped (f r d)) = add_mset r (mset (grouped d))"
      unfolding step by (rule grouped_set)
    ultimately show ?case using Cons.IH [of "f r d"] Cons.prems(2) by simp
  qed simp
  from this [of "[]"] show ?thesis by (simp add: group_results_def f_def grouped_def)
qed

lemma owner_known:
  "k \<in> rule_key ` fst ` set entries \<Longrightarrow>
     dict_get (fold (\<lambda>(r, p). dict_set (rule_key r) p) entries d) k \<noteq> None"
proof -
  have keys: "set (dict_keys (fold (\<lambda>(r, p). dict_set (rule_key r) p) entries d)) =
      set (dict_keys d) \<union> rule_key ` fst ` set entries"
    by (induction entries arbitrary: d) (auto simp: keys_dict_set)
  assume "k \<in> rule_key ` fst ` set entries"
  then show ?thesis using keys by (simp add: dict_get_None_iff)
qed

lemma policy_results_partition:
  assumes "\<forall>r \<in> set rs. dict_get owner (rr_rule_key r) \<noteq> None"
  shows "mset (concat (map pr_rule_results (policy_results owner rs versions))) = mset rs"
    and "\<forall>p \<in> set (policy_results owner rs versions). pr_rule_results p \<noteq> [] \<and>
      pr_status p = overall_status (pr_rule_results p)"
proof -
  have "map pr_rule_results (policy_results owner rs versions) = map (\<lambda>(k, p, gs). gs) (group_results owner rs)"
    by (auto simp: policy_results_def policy_result_def dict_values_def)
  then show "mset (concat (map pr_rule_results (policy_results owner rs versions))) = mset rs"
    using group_results_partition [OF assms] by (simp add: grouped_def)
  show "\<forall>p \<in> set (policy_results owner rs versions). pr_rule_results p \<noteq> [] \<and>
      pr_status p = overall_status (pr_rule_results p)"
    using group_results_partition [OF assms] by (auto simp: policy_results_def policy_result_def dict_values_def)
qed

lemma decision_of_group:
  assumes "pr_rule_results p \<noteq> []" "pr_status p = overall_status (pr_rule_results p)"
    and "\<forall>r \<in> set (pr_rule_results p). rr_status r \<in> {COMPLIANT, NON_COMPLIANT, WAIVED}"
  shows "determine_status p (pr_rule_results p) =
    (if \<exists>r \<in> set (pr_rule_results p). rr_status r = NON_COMPLIANT then DS_FAIL else DS_PASS)"
  using assms by (auto simp: determine_status_def overall_status_def list_ex_iff)

lemma decide_fields:
  "map dres_decision_status (decide ctx) = map (\<lambda>p. determine_status p (pr_rule_results p)) (dctx_policy_results ctx)"
  "map dres_triggered_rules (decide ctx) = map (\<lambda>p. map rr_rule_key (pr_rule_results p)) (dctx_policy_results ctx)"
  "map dres_policy_id (decide ctx) = map pr_policy_id (dctx_policy_results ctx)"
  by (simp_all add: decide_def build_decision_def Let_def)

text \<open>
  C21: The decisions taken on the policy results of an evaluation. There is one decision per policy
  result, in order; it is FAIL when one of the policy's rules is non-compliant and PASS otherwise,
  so an evaluation is never answered with WARNING, UNKNOWN or NOT_APPLICABLE; some decision is FAIL
  exactly when the evaluation as a whole is non-compliant; and the rule results of the evaluation are
  divided among the decisions without loss or repetition.
\<close>

theorem decisions_follow_evaluation:
  assumes evaluated: "evaluate lib now reg ctx items = Inr dec"
    and input: "dctx_policy_results dctx = dec_policy_results dec"
  shows "map dres_policy_id (decide dctx) = map pr_policy_id (dec_policy_results dec) \<and>
    map dres_decision_status (decide dctx) =
      map (\<lambda>p. if \<exists>r \<in> set (pr_rule_results p). rr_status r = NON_COMPLIANT then DS_FAIL else DS_PASS)
        (dec_policy_results dec) \<and>
    ((\<exists>d \<in> set (decide dctx). dres_decision_status d = DS_FAIL) \<longleftrightarrow> dec_status dec = NON_COMPLIANT) \<and>
    mset (concat (map dres_triggered_rules (decide dctx))) = mset (map rr_rule_key (dec_rule_results dec))"
proof -
  from evaluated obtain entries :: "(Rule \<times> Policy) list" and versions rs where rs: "dec_rule_results dec = rs"
      and ok: "\<And>r. r \<in> set rs \<Longrightarrow> coherent_result now ctx r \<and> rr_rule_key r \<in> rule_key ` fst ` set entries"
      and status: "dec_status dec = overall_status rs"
      and results: "dec_policy_results dec = policy_results (fold (\<lambda>(r, p). dict_set (rule_key r) p) entries []) rs versions"
    by (rule evaluate_Inr) blast
  have owned: "\<forall>r \<in> set rs. dict_get (fold (\<lambda>(r, p). dict_set (rule_key r) p) entries []) (rr_rule_key r) \<noteq> None"
    using ok owner_known [of _ entries "[]"] by blast
  note part = policy_results_partition [OF owned, of versions, folded results]
  from part(1) have members: "set (concat (map pr_rule_results (dec_policy_results dec))) = set rs"
    by (metis set_mset_mset)
  have decided: "map dres_decision_status (decide dctx) =
      map (\<lambda>p. if \<exists>r \<in> set (pr_rule_results p). rr_status r = NON_COMPLIANT then DS_FAIL else DS_PASS)
        (dec_policy_results dec)"
    unfolding decide_fields input
  proof (rule map_cong [OF refl])
    fix p assume p: "p \<in> set (dec_policy_results dec)"
    with members have "set (pr_rule_results p) \<subseteq> set rs" by auto
    with ok coherent_statuses have "\<forall>r \<in> set (pr_rule_results p). rr_status r \<in> {COMPLIANT, NON_COMPLIANT, WAIVED}"
      by blast
    with part(2) p show "determine_status p (pr_rule_results p) =
        (if \<exists>r \<in> set (pr_rule_results p). rr_status r = NON_COMPLIANT then DS_FAIL else DS_PASS)"
      using decision_of_group by blast
  qed
  have "(\<exists>d \<in> set (decide dctx). dres_decision_status d = DS_FAIL) \<longleftrightarrow>
      DS_FAIL \<in> set (map dres_decision_status (decide dctx))"
    by (metis image_iff list.set_map)
  also have "\<dots> \<longleftrightarrow> (\<exists>r \<in> set rs. rr_status r = NON_COMPLIANT)"
    unfolding decided members [symmetric] by auto
  also have "\<dots> \<longleftrightarrow> dec_status dec = NON_COMPLIANT"
    by (auto simp: status overall_status_def list_ex_iff)
  finally have "(\<exists>d \<in> set (decide dctx). dres_decision_status d = DS_FAIL) \<longleftrightarrow> dec_status dec = NON_COMPLIANT" .
  moreover have "mset (concat (map dres_triggered_rules (decide dctx))) = mset (map rr_rule_key rs)"
  proof -
    have "concat (map dres_triggered_rules (decide dctx)) =
        map rr_rule_key (concat (map pr_rule_results (dec_policy_results dec)))"
      unfolding decide_fields input by (simp add: map_concat comp_def)
    then show ?thesis using part(1) by (metis mset_map)
  qed
  ultimately show ?thesis using decided by (simp add: rs decide_fields input)
qed

definition sample_decision_context :: "PolicyEvaluationResult list \<Rightarrow> DecisionContext" where
  "sample_decision_context ps = \<lparr>dctx_evaluation_id = 1, dctx_evaluation_timestamp = 0,
     dctx_decision_timestamp = 0, dctx_policy_results = ps, dctx_evaluator_version = ''1.0.0''\<rparr>"

theorem decisions_follow_evaluation_witness:
  "\<exists>dec. evaluate sample_lib 0 [] sample_context [Object_Policy sample_policy] = Inr dec \<and>
     map dres_policy_id (decide (sample_decision_context (dec_policy_results dec))) = [3] \<and>
     (\<exists>d \<in> set (decide (sample_decision_context (dec_policy_results dec))). dres_decision_status d = DS_FAIL)"
proof -
  from sample_evaluates obtain dec where
      dec: "evaluate sample_lib 0 [] sample_context [Object_Policy sample_policy] = Inr dec"
      "dec_status dec = NON_COMPLIANT" "map pr_policy_id (dec_policy_results dec) = [3]"
    by (elim exE conjE) (rule that)
  have "dctx_policy_results (sample_decision_context (dec_policy_results dec)) = dec_policy_results dec"
    by (simp add: sample_decision_context_def)
  from decisions_follow_evaluation [OF dec(1) this] show ?thesis using dec by (intro exI [of _ dec]) simp
qed

end
