(* ===== verification/Resource_Repositories.thy ===== *)
theory Resource_Repositories
  imports Attempt_Repository Transport_Policy "HOL-Library.List_Lexorder" "HOL-Library.Char_ord"
begin

text \<open>
  The remaining repositories of \<^verbatim>\<open>persistence/discovery_repositories.py\<close>: targets, credential profiles
  and evidence, with the evidence contract of \<^verbatim>\<open>discovery/contracts.py\<close>. A statement that would leave a
  row referring to a deleted one raises an \<open>IntegrityError\<close>, as the foreign keys of
  \<^verbatim>\<open>persistence/models.py\<close> have no cascade.
\<close>

section \<open>References between the tables\<close>

definition job_refs_ok :: "store \<Rightarrow> DiscoveryJobRecord \<Rightarrow> bool" where
  "job_refs_ok st j \<longleftrightarrow>
     job_target_id j \<in> set (map target_id (targets st)) \<and> job_run_id j \<in> set (map run_id (runs st)) \<and>
     (\<forall>p \<in> set_option (parent_job_id j). p \<in> set (map job_id (jobs st)))"

definition result_refs_ok :: "store \<Rightarrow> DiscoveryDeviceResultRecord \<Rightarrow> bool" where
  "result_refs_ok st r \<longleftrightarrow>
     discovery_job_id r \<in> set (map job_id (jobs st)) \<and> child_job_id r \<in> set (map job_id (jobs st))"

definition attempt_refs_ok :: "store \<Rightarrow> DiscoveryTransportAttemptRecord \<Rightarrow> bool" where
  "attempt_refs_ok st a \<longleftrightarrow> attempt_device_result_id a \<in> set (map result_id (device_results st))"

definition evidence_refs_ok :: "store \<Rightarrow> DiscoveryEvidenceRecord \<Rightarrow> bool" where
  "evidence_refs_ok st e \<longleftrightarrow>
     evidence_job_id e \<in> set (map job_id (jobs st)) \<and>
     evidence_target_id e \<in> set (map target_id (targets st)) \<and>
     evidence_run_id e \<in> set (map run_id (runs st))"

definition refs_ok :: "store \<Rightarrow> bool" where
  "refs_ok st \<longleftrightarrow>
     list_all (job_refs_ok st) (jobs st) \<and> list_all (result_refs_ok st) (device_results st) \<and>
     list_all (attempt_refs_ok st) (transport_attempts st) \<and> list_all (evidence_refs_ok st) (evidence st)"

section \<open>Targets\<close>

text \<open>\<open>sort_desc\<close>: \<open>ORDER BY \<dots> DESC\<close>, equal keys in table order.\<close>

definition sort_desc :: "('r \<Rightarrow> int) \<Rightarrow> 'r list \<Rightarrow> 'r list" where
  "sort_desc k rows = sort_key (\<lambda>r. - k r) rows"

text \<open>The target to insert is given without its identifier and creation time.\<close>

definition target_create :: "time \<Rightarrow> DiscoveryTargetRecord \<Rightarrow> session \<Rightarrow> DiscoveryTargetRecord outcome" where
  "target_create now draft s =
     (let (i, s1) = uuid4 s;
          record = draft\<lparr>target_id := i, target_created_at := now, target_updated_at := now\<rparr>
      in if list_ex (\<lambda>t. target_tenant_id t = target_tenant_id record \<and>
                         target_identifier t = target_identifier record) (targets (work s1))
         then (rollback s1, Inl (DiscoveryPersistenceError
                 ''A target with this identifier already exists for the tenant.''))
         else (put_targets (targets (work s1) @ [record]) s1, Inr record))"

definition target_where :: "string \<Rightarrow> uuid \<Rightarrow> DiscoveryTargetRecord \<Rightarrow> bool" where
  "target_where tenant i t \<longleftrightarrow> target_id t = i \<and> target_tenant_id t = tenant"

definition target_get :: "string \<Rightarrow> uuid \<Rightarrow> session \<Rightarrow> DiscoveryTargetRecord option" where
  "target_get tenant i s = sql_first (target_where tenant i) (targets (work s))"

definition target_list :: "string \<Rightarrow> session \<Rightarrow> DiscoveryTargetRecord list" where
  "target_list tenant s =
     sort_desc target_created_at (sql_select (\<lambda>t. target_tenant_id t = tenant) (targets (work s)))"

text \<open>\<open>changes\<close> sets the given columns; the column \<open>updated_at\<close> follows every UPDATE.\<close>

definition target_update ::
  "time \<Rightarrow> string \<Rightarrow> uuid \<Rightarrow> (DiscoveryTargetRecord \<Rightarrow> DiscoveryTargetRecord) \<Rightarrow> session \<Rightarrow>
   DiscoveryTargetRecord outcome" where
  "target_update now tenant i changes s =
     (case target_get tenant i s of
        None \<Rightarrow> (s, Inl (DiscoveryResourceNotFoundError ''Discovery target was not found.''))
      | Some t \<Rightarrow>
          let t' = (changes t)\<lparr>target_updated_at := now\<rparr>
          in (put_targets (sql_update (target_where tenant i) (\<lambda>_. t') (targets (work s))) s, Inr t'))"

section \<open>Deleting a target\<close>

definition checked_delete :: "(store \<Rightarrow> store) \<Rightarrow> session \<Rightarrow> unit outcome" where
  "checked_delete f s =
     (if refs_ok (f (work s)) then (s\<lparr>work := f (work s)\<rparr>, Inr ())
      else (s, Inl (IntegrityError ''FOREIGN KEY constraint failed'')))"

fun run_deletes :: "(store \<Rightarrow> store) list \<Rightarrow> session \<Rightarrow> unit outcome" where
  "run_deletes [] s = (s, Inr ())"
| "run_deletes (f # fs) s =
     (case checked_delete f s of (s', Inl e) \<Rightarrow> (s', Inl e) | (s', Inr _) \<Rightarrow> run_deletes fs s')"

definition target_job_ids :: "string \<Rightarrow> uuid \<Rightarrow> store \<Rightarrow> uuid list" where
  "target_job_ids tenant i st =
     map job_id (sql_select (\<lambda>j. job_tenant_id j = tenant \<and> job_target_id j = i) (jobs st))"

definition job_result_ids :: "uuid list \<Rightarrow> store \<Rightarrow> uuid list" where
  "job_result_ids js st =
     map result_id (sql_select (\<lambda>r. discovery_job_id r \<in> set js \<or> child_job_id r \<in> set js) (device_results st))"

definition delete_attempts :: "uuid list \<Rightarrow> store \<Rightarrow> store" where
  "delete_attempts rs st =
     st\<lparr>transport_attempts := sql_delete (\<lambda>a. attempt_device_result_id a \<in> set rs) (transport_attempts st)\<rparr>"

definition delete_results :: "uuid list \<Rightarrow> store \<Rightarrow> store" where
  "delete_results rs st = st\<lparr>device_results := sql_delete (\<lambda>r. result_id r \<in> set rs) (device_results st)\<rparr>"

definition delete_evidence :: "uuid \<Rightarrow> uuid list \<Rightarrow> store \<Rightarrow> store" where
  "delete_evidence i js st =
     st\<lparr>evidence := sql_delete (\<lambda>e. evidence_target_id e = i \<or> evidence_job_id e \<in> set js) (evidence st)\<rparr>"

definition delete_jobs :: "uuid list \<Rightarrow> store \<Rightarrow> store" where
  "delete_jobs js st = st\<lparr>jobs := sql_delete (\<lambda>j. job_id j \<in> set js) (jobs st)\<rparr>"

definition delete_target_row :: "uuid \<Rightarrow> store \<Rightarrow> store" where
  "delete_target_row i st = st\<lparr>targets := sql_delete (\<lambda>t. target_id t = i) (targets st)\<rparr>"

definition target_delete :: "string \<Rightarrow> uuid \<Rightarrow> session \<Rightarrow> bool outcome" where
  "target_delete tenant i s =
     (case target_get tenant i s of
        None \<Rightarrow> (s, Inr False)
      | Some t \<Rightarrow>
          let js = target_job_ids tenant i (work s); rs = job_result_ids js (work s);
              dependents =
                (if js \<noteq> []
                 then (if rs \<noteq> [] then [delete_attempts rs, delete_results rs] else []) @
                      [delete_evidence i js, delete_jobs js]
                 else [delete_evidence i []])
          in (case run_deletes (dependents @ [delete_target_row i]) s of
                (s', Inl e) \<Rightarrow> (s', Inl e)
              | (s', Inr _) \<Rightarrow> (s', Inr True)))"

section \<open>Credential profiles\<close>

text \<open>The table of profiles is state of its own; no foreign key refers to it.\<close>

type_synonym profile_table = "CredentialProfileRecord list"

definition profile_create ::
  "time \<Rightarrow> uuid \<Rightarrow> CredentialProfileRecord \<Rightarrow> profile_table \<Rightarrow> profile_table \<times> CredentialProfileRecord" where
  "profile_create now i draft ps =
     (let record = draft\<lparr>profile_id := i, secret_status := ''configured'', profile_enabled := True,
            profile_created_at := now, profile_updated_at := now\<rparr>
      in (ps @ [record], record))"

definition profile_where :: "string \<Rightarrow> uuid \<Rightarrow> CredentialProfileRecord \<Rightarrow> bool" where
  "profile_where tenant i p \<longleftrightarrow> profile_id p = i \<and> profile_tenant_id p = tenant"

definition profile_get :: "profile_table \<Rightarrow> string \<Rightarrow> uuid \<Rightarrow> CredentialProfileRecord option" where
  "profile_get ps tenant i = sql_first (profile_where tenant i) ps"

definition profile_update ::
  "time \<Rightarrow> string \<Rightarrow> uuid \<Rightarrow> (CredentialProfileRecord \<Rightarrow> CredentialProfileRecord) \<Rightarrow> profile_table \<Rightarrow>
   profile_table \<times> (persistence_error + CredentialProfileRecord)" where
  "profile_update now tenant i changes ps =
     (case profile_get ps tenant i of
        None \<Rightarrow> (ps, Inl (DiscoveryResourceNotFoundError ''Credential profile was not found.''))
      | Some p \<Rightarrow>
          let p' = (changes p)\<lparr>profile_updated_at := now\<rparr>
          in (sql_update (profile_where tenant i) (\<lambda>_. p') ps, Inr p'))"

definition profile_delete :: "string \<Rightarrow> uuid \<Rightarrow> profile_table \<Rightarrow> profile_table \<times> bool" where
  "profile_delete tenant i ps =
     (case profile_get ps tenant i of
        None \<Rightarrow> (ps, False) | Some p \<Rightarrow> (sql_delete (profile_where tenant i) ps, True))"

definition profile_list :: "string \<Rightarrow> profile_table \<Rightarrow> CredentialProfileRecord list" where
  "profile_list tenant ps =
     sort_key profile_name (sql_select (\<lambda>p. profile_tenant_id p = tenant \<and> profile_enabled p) ps)"

section \<open>What deleting a target leaves behind\<close>

lemma delete_nothing [simp]:
  "delete_attempts [] st = st" "delete_results [] st = st" "delete_jobs [] st = st"
  by (simp_all add: delete_attempts_def delete_results_def delete_jobs_def sql_delete_def)

lemmas delete_defs = delete_attempts_def delete_results_def delete_evidence_def delete_jobs_def
  delete_target_row_def sql_delete_def
lemmas refs_defs = refs_ok_def job_refs_ok_def result_refs_ok_def attempt_refs_ok_def evidence_refs_ok_def

lemma image_kept [simp]:
  "f ` {x \<in> S. f x \<notin> A} = f ` S - A" "f ` {x \<in> S. f x \<noteq> a} = f ` S - {a}"
  by auto

lemma refs_delete_attempts: "refs_ok st \<Longrightarrow> refs_ok (delete_attempts rs st)"
  by (simp add: refs_defs delete_defs list_all_iff)

lemma refs_delete_evidence: "refs_ok st \<Longrightarrow> refs_ok (delete_evidence i js st)"
  by (simp add: refs_defs delete_defs list_all_iff)

lemma refs_delete_results:
  assumes "refs_ok st" and "\<forall>a \<in> set (transport_attempts st). attempt_device_result_id a \<notin> set rs"
  shows "refs_ok (delete_results rs st)"
  using assms unfolding refs_defs delete_defs list_all_iff by auto

text \<open>Jobs can go exactly when no job that stays is a child of one that goes.\<close>

lemma refs_delete_jobs:
  assumes ok: "refs_ok st"
    and results: "\<forall>r \<in> set (device_results st). discovery_job_id r \<notin> set js \<and> child_job_id r \<notin> set js"
    and evidence: "\<forall>e \<in> set (evidence st). evidence_job_id e \<notin> set js"
  shows "refs_ok (delete_jobs js st) \<longleftrightarrow>
    (\<forall>j \<in> set (jobs st). job_id j \<notin> set js \<longrightarrow> (\<forall>p \<in> set js. parent_job_id j \<noteq> Some p))"
proof
  assume "refs_ok (delete_jobs js st)"
  then show "\<forall>j \<in> set (jobs st). job_id j \<notin> set js \<longrightarrow> (\<forall>p \<in> set js. parent_job_id j \<noteq> Some p)"
    by (auto simp: refs_ok_def job_refs_ok_def delete_defs list_all_iff)
next
  assume stay: "\<forall>j \<in> set (jobs st). job_id j \<notin> set js \<longrightarrow> (\<forall>p \<in> set js. parent_job_id j \<noteq> Some p)"
  have "list_all (job_refs_ok (delete_jobs js st)) (jobs (delete_jobs js st))"
    using ok stay by (auto simp: refs_ok_def job_refs_ok_def delete_defs list_all_iff)
  moreover have "list_all (result_refs_ok (delete_jobs js st)) (device_results (delete_jobs js st))"
    using ok results by (auto simp: refs_ok_def result_refs_ok_def delete_defs list_all_iff)
  moreover have "list_all (evidence_refs_ok (delete_jobs js st)) (evidence (delete_jobs js st))"
    using ok evidence by (auto simp: refs_ok_def evidence_refs_ok_def delete_defs list_all_iff)
  moreover have "list_all (attempt_refs_ok (delete_jobs js st)) (transport_attempts (delete_jobs js st))"
    using ok by (simp add: refs_ok_def attempt_refs_ok_def delete_defs list_all_iff)
  ultimately show "refs_ok (delete_jobs js st)" by (simp add: refs_ok_def)
qed

lemma refs_delete_target:
  assumes "refs_ok st" and "\<forall>j \<in> set (jobs st). job_target_id j \<noteq> i"
    and "\<forall>e \<in> set (evidence st). evidence_target_id e \<noteq> i"
  shows "refs_ok (delete_target_row i st)"
  using assms unfolding refs_defs delete_defs list_all_iff by auto

text \<open>The store without the target, its jobs and everything that refers to them.\<close>

definition without_target :: "uuid \<Rightarrow> uuid list \<Rightarrow> uuid list \<Rightarrow> store \<Rightarrow> store" where
  "without_target i js rs st =
     st\<lparr>targets := filter (\<lambda>t. target_id t \<noteq> i) (targets st),
        jobs := filter (\<lambda>j. job_id j \<notin> set js) (jobs st),
        device_results := filter (\<lambda>r. result_id r \<notin> set rs) (device_results st),
        transport_attempts := filter (\<lambda>a. attempt_device_result_id a \<notin> set rs) (transport_attempts st),
        evidence := filter (\<lambda>e. evidence_target_id e \<noteq> i \<and> evidence_job_id e \<notin> set js) (evidence st)\<rparr>"

lemma without_target_results:
  "device_results (without_target i js rs st) = filter (\<lambda>r. result_id r \<notin> set rs) (device_results st)"
  by (simp add: without_target_def)

lemma deletes_compose:
  "delete_target_row i (delete_jobs js (delete_evidence i js (delete_results rs (delete_attempts rs st)))) =
     without_target i js rs st"
  by (simp add: delete_defs without_target_def)

text \<open>The statements the deletion runs, whichever tables are empty.\<close>

lemma target_delete_runs:
  assumes "target_get tenant i s = Some t" and ok: "refs_ok (work s)"
    and js: "js = target_job_ids tenant i (work s)" and rs: "rs = job_result_ids js (work s)"
  shows "target_delete tenant i s =
    (case run_deletes [delete_attempts rs, delete_results rs, delete_evidence i js, delete_jobs js, delete_target_row i] s of
       (s', Inl e) \<Rightarrow> (s', Inl e) | (s', Inr _) \<Rightarrow> (s', Inr True))"
proof -
  have none: "js = [] \<Longrightarrow> rs = []" by (simp add: rs job_result_ids_def sql_select_def)
  have drop: "checked_delete (delete_attempts []) s = (s, Inr ())" "checked_delete (delete_results []) s = (s, Inr ())"
    using ok by (simp_all add: checked_delete_def)
  have jobless: "checked_delete (delete_jobs []) s' = (s', Inr ())" if "refs_ok (work s')" for s'
    using that by (simp add: checked_delete_def)
  have kept: "checked_delete f s' = (s'', Inr u) \<Longrightarrow> refs_ok (work s'')" for f s' s'' u
    by (auto simp: checked_delete_def split: if_splits)
  show ?thesis
  proof (cases "js = []")
    case True
    with none have empty: "js = []" "rs = []" by simp_all
    have "target_delete tenant i s =
        (case run_deletes [delete_evidence i [], delete_target_row i] s of
           (s', Inl e) \<Rightarrow> (s', Inl e) | (s', Inr _) \<Rightarrow> (s', Inr True))"
      using assms(1) empty(1) by (simp add: target_delete_def Let_def js [symmetric] del: run_deletes.simps)
    moreover have "run_deletes [delete_evidence i [], delete_jobs [], delete_target_row i] s =
        run_deletes [delete_evidence i [], delete_target_row i] s"
    proof (cases "checked_delete (delete_evidence i []) s")
      case (Pair s' r)
      then show ?thesis using jobless kept by (cases r) auto
    qed
    ultimately show ?thesis by (simp add: empty drop del: run_deletes.simps(1))
  next
    case False
    then show ?thesis using assms(1)
      by (cases "rs = []") (simp_all add: target_delete_def Let_def drop js [symmetric] rs [symmetric])
  qed
qed

lemma refs_before_jobs:
  fixes i :: uuid
  assumes ok: "refs_ok st" and rs: "rs = job_result_ids js st"
  defines "st1 \<equiv> delete_attempts rs st" and "st2 \<equiv> delete_results rs (delete_attempts rs st)"
    and "st3 \<equiv> delete_evidence i js (delete_results rs (delete_attempts rs st))"
  shows "refs_ok st1" "refs_ok st2" "refs_ok st3"
    "\<forall>r \<in> set (device_results st3). discovery_job_id r \<notin> set js \<and> child_job_id r \<notin> set js"
    "\<forall>e \<in> set (evidence st3). evidence_job_id e \<notin> set js \<and> evidence_target_id e \<noteq> i"
    "jobs st3 = jobs st"
proof -
  show 1: "refs_ok st1" unfolding st1_def by (rule refs_delete_attempts [OF ok])
  have "\<forall>a \<in> set (transport_attempts (delete_attempts rs st)). attempt_device_result_id a \<notin> set rs"
    by (simp add: delete_attempts_def sql_delete_def)
  with 1 show 2: "refs_ok st2" unfolding st1_def st2_def by (rule refs_delete_results)
  then show "refs_ok st3" unfolding st2_def st3_def by (rule refs_delete_evidence)
  show "\<forall>r \<in> set (device_results st3). discovery_job_id r \<notin> set js \<and> child_job_id r \<notin> set js"
    by (auto simp: st3_def delete_defs rs job_result_ids_def sql_select_def)
  show "\<forall>e \<in> set (evidence st3). evidence_job_id e \<notin> set js \<and> evidence_target_id e \<noteq> i"
    by (simp add: st3_def delete_defs)
  show "jobs st3 = jobs st" by (simp add: st3_def delete_defs)
qed

text \<open>When every job of the target is in the tenant, the jobs to delete are those of the target.\<close>

lemma target_job_ids_mine:
  assumes tenants: "\<forall>j \<in> set (jobs st). job_target_id j = i \<longrightarrow> job_tenant_id j = tenant"
    and unique: "distinct (map job_id (jobs st))" and j: "j \<in> set (jobs st)"
  shows "job_id j \<in> set (target_job_ids tenant i st) \<longleftrightarrow> job_target_id j = i"
proof
  assume "job_id j \<in> set (target_job_ids tenant i st)"
  then obtain j' where j': "j' \<in> set (jobs st)" "job_target_id j' = i" "job_id j' = job_id j"
    by (auto simp: target_job_ids_def sql_select_def)
  then have "j' = j" using unique j by (auto simp: distinct_map dest: inj_onD)
  with j' show "job_target_id j = i" by simp
next
  assume "job_target_id j = i"
  with tenants j show "job_id j \<in> set (target_job_ids tenant i st)"
    by (auto simp: target_job_ids_def sql_select_def)
qed

text \<open>A job of another target whose parent is a job of this one: what a fan-out leaves behind.\<close>

definition foreign_child :: "uuid \<Rightarrow> store \<Rightarrow> bool" where
  "foreign_child i st \<longleftrightarrow>
     (\<exists>c \<in> set (jobs st). \<exists>j \<in> set (jobs st).
        job_target_id c \<noteq> i \<and> job_target_id j = i \<and> parent_job_id c = Some (job_id j))"

lemma refs_delete_jobs_of_target:
  assumes tenants: "\<forall>j \<in> set (jobs st). job_target_id j = i \<longrightarrow> job_tenant_id j = tenant"
    and unique: "distinct (map job_id (jobs st))" and js: "js = target_job_ids tenant i st"
    and ok: "refs_ok st'" and same: "jobs st' = jobs st"
    and results: "\<forall>r \<in> set (device_results st'). discovery_job_id r \<notin> set js \<and> child_job_id r \<notin> set js"
    and evidence: "\<forall>e \<in> set (evidence st'). evidence_job_id e \<notin> set js"
  shows "refs_ok (delete_jobs js st') \<longleftrightarrow> \<not> foreign_child i st"
    "jobs (delete_jobs js st') = filter (\<lambda>j. job_target_id j \<noteq> i) (jobs st)"
proof -
  note mine = target_job_ids_mine [OF tenants unique, folded js]
  have "{j \<in> set (jobs st). job_tenant_id j = tenant \<and> job_target_id j = i} =
      {j \<in> set (jobs st). job_target_id j = i}" using tenants by blast
  then have ids: "set js = job_id ` {j \<in> set (jobs st). job_target_id j = i}"
    by (simp add: js target_job_ids_def sql_select_def)
  have "refs_ok (delete_jobs js st') \<longleftrightarrow>
      (\<forall>j \<in> set (jobs st). job_id j \<notin> set js \<longrightarrow> (\<forall>p \<in> set js. parent_job_id j \<noteq> Some p))"
    using refs_delete_jobs [OF ok results evidence] same by simp
  also have "\<dots> \<longleftrightarrow> (\<forall>c \<in> set (jobs st). job_target_id c \<noteq> i \<longrightarrow>
      (\<forall>j \<in> set (jobs st). job_target_id j = i \<longrightarrow> parent_job_id c \<noteq> Some (job_id j)))"
    using mine ids by auto
  finally show "refs_ok (delete_jobs js st') \<longleftrightarrow> \<not> foreign_child i st"
    unfolding foreign_child_def by blast
  show "jobs (delete_jobs js st') = filter (\<lambda>j. job_target_id j \<noteq> i) (jobs st)"
    using mine same by (auto simp: delete_jobs_def sql_delete_def intro: filter_cong)
qed

text \<open>
  C24: Deleting a target. With intact references, and jobs in the tenant of their target, the deletion
  either refuses as a whole or leaves intact references: it raises exactly when a job of another target
  is the child of a job of this one, as for every fan-out target that ran; otherwise it returns True, and
  the store has lost the target, its jobs, and the results, attempts and evidence that refer to them, and
  nothing else.
\<close>

theorem target_delete_complete:
  assumes found: "target_get tenant i s = Some t" and ok: "refs_ok (work s)"
    and tenants: "\<forall>j \<in> set (jobs (work s)). job_target_id j = i \<longrightarrow> job_tenant_id j = tenant"
    and unique: "distinct (map job_id (jobs (work s)))"
  shows "(if foreign_child i (work s)
          then \<exists>s' m. target_delete tenant i s = (s', Inl (IntegrityError m))
          else \<exists>s'. target_delete tenant i s = (s', Inr True) \<and> committed s' = committed s \<and> refs_ok (work s') \<and>
            work s' = without_target i (target_job_ids tenant i (work s))
              (job_result_ids (target_job_ids tenant i (work s)) (work s)) (work s) \<and>
            jobs (work s') = filter (\<lambda>j. job_target_id j \<noteq> i) (jobs (work s)))"
proof -
  define js where "js = target_job_ids tenant i (work s)"
  define rs where "rs = job_result_ids js (work s)"
  define st1 where "st1 = delete_attempts rs (work s)"
  define st2 where "st2 = delete_results rs st1"
  define st3 where "st3 = delete_evidence i js st2"
  define st4 where "st4 = delete_jobs js st3"
  note early = refs_before_jobs(1,2) [OF ok rs_def, folded st1_def, folded st2_def]
  note before = refs_before_jobs(3-6) [OF ok rs_def, of i, folded st1_def, folded st2_def, folded st3_def]
  have rest: "\<forall>e \<in> set (evidence st3). evidence_job_id e \<notin> set js" using before(3) by blast
  note go = refs_delete_jobs_of_target [OF tenants unique js_def before(1,4,2) rest, folded st4_def]
  have runs: "target_delete tenant i s =
      (case run_deletes [delete_jobs js, delete_target_row i] (s\<lparr>work := st3\<rparr>) of
         (s', Inl e) \<Rightarrow> (s', Inl e) | (s', Inr _) \<Rightarrow> (s', Inr True))"
    unfolding target_delete_runs [OF found ok js_def rs_def]
    using early before(1) by (simp add: checked_delete_def st1_def st2_def st3_def)
  show ?thesis
  proof (cases "foreign_child i (work s)")
    case True
    with go(1) show ?thesis unfolding runs by (simp add: checked_delete_def st4_def)
  next
    case False
    have "\<forall>e \<in> set (evidence st4). evidence_target_id e \<noteq> i"
      using before(3) by (simp add: st4_def delete_jobs_def)
    then have ok5: "refs_ok (delete_target_row i st4)"
      by (intro refs_delete_target) (use go False in simp_all)
    have "delete_target_row i st4 = without_target i js rs (work s)"
      unfolding st4_def st3_def st2_def st1_def by (rule deletes_compose)
    moreover have "jobs (delete_target_row i st4) = filter (\<lambda>j. job_target_id j \<noteq> i) (jobs (work s))"
      using go(2) by (simp add: delete_target_row_def)
    moreover have "target_delete tenant i s = (s\<lparr>work := delete_target_row i st4\<rparr>, Inr True)"
      unfolding runs using go(1) False ok5 by (simp add: checked_delete_def st4_def)
    ultimately show ?thesis
      using ok5 False unfolding js_def [symmetric] rs_def [symmetric] by simp
  qed
qed

section \<open>Evidence\<close>

record DiscoveryTraceability =
  trace_tenant_id :: string
  trace_target_id :: uuid
  trace_job_id :: uuid
  trace_run_id :: uuid

record DiscoveryEvidence =
  traceability :: DiscoveryTraceability
  collector_name :: string
  ev_platform :: string
  ev_transport :: string
  ev_type :: string
  ev_command :: string
  ev_payload :: "(string, pyval) dict"
  ev_captured_at :: time
  ev_sequence :: int
  ev_parser_version :: "string option"
  ev_normalization_version :: "string option"
  ev_id :: uuid
  content_hash :: string

text \<open>\<open>__post_init__\<close>: the message of the \<open>ValueError\<close>. Times of the model are always in UTC.\<close>

definition new_traceability :: "string \<Rightarrow> uuid \<Rightarrow> uuid \<Rightarrow> uuid \<Rightarrow> string + DiscoveryTraceability" where
  "new_traceability tenant target job run =
     (if strip tenant = [] then Inl ''Tenant ID is required for discovery traceability.''
      else Inr \<lparr>trace_tenant_id = tenant, trace_target_id = target, trace_job_id = job, trace_run_id = run\<rparr>)"

text \<open>\<open>digest\<close> is SHA-256 of the canonical JSON text of a payload.\<close>

definition make_evidence ::
  "((string, pyval) dict \<Rightarrow> string) \<Rightarrow> DiscoveryEvidence \<Rightarrow> string + DiscoveryEvidence" where
  "make_evidence digest e =
     (if ev_sequence e < 0 then Inl ''Evidence sequence cannot be negative.''
      else if strip (collector_name e) = [] \<or> strip (ev_type e) = []
      then Inl ''Evidence collector and type are required.''
      else Inr (if content_hash e = [] then e\<lparr>content_hash := digest (ev_payload e)\<rparr> else e))"

definition verify_hash :: "((string, pyval) dict \<Rightarrow> string) \<Rightarrow> DiscoveryEvidence \<Rightarrow> bool" where
  "verify_hash digest e \<longleftrightarrow> content_hash e = digest (ev_payload e)"

definition put_evidence :: "DiscoveryEvidenceRecord list \<Rightarrow> session \<Rightarrow> session" where
  "put_evidence es s = s\<lparr>work := (work s)\<lparr>evidence := es\<rparr>\<rparr>"

definition evidence_row :: "string \<Rightarrow> DiscoveryEvidence \<Rightarrow> string option \<Rightarrow> DiscoveryEvidenceRecord" where
  "evidence_row hash e version =
     \<lparr>evidence_id = ev_id e, evidence_tenant_id = trace_tenant_id (traceability e),
      evidence_job_id = trace_job_id (traceability e), evidence_target_id = trace_target_id (traceability e),
      evidence_run_id = trace_run_id (traceability e), evidence_type = ev_type e,
      evidence_source = collector_name e, observed_at = ev_captured_at e, evidence_payload = ev_payload e,
      payload_hash = hash, evidence_collector = collector_name e, collector_version = version,
      command_or_probe = ev_command e, evidence_sequence = ev_sequence e,
      parser_version = ev_parser_version e, normalization_version = ev_normalization_version e\<rparr>"

definition evidence_create ::
  "((string, pyval) dict \<Rightarrow> string) \<Rightarrow> DiscoveryEvidence \<Rightarrow> string option \<Rightarrow> session \<Rightarrow>
   DiscoveryEvidenceRecord outcome" where
  "evidence_create digest e version s =
     (let tenant = trace_tenant_id (traceability e)
      in case get_job s (trace_job_id (traceability e)) of
           None \<Rightarrow> (s, Inl (DiscoveryResourceNotFoundError ''Discovery job was not found.''))
         | Some job \<Rightarrow>
      if job_tenant_id job \<noteq> tenant
      then (s, Inl (DiscoveryResourceNotFoundError ''Discovery job was not found.''))
      else case get_target s (trace_target_id (traceability e)) of
           None \<Rightarrow> (s, Inl (DiscoveryResourceNotFoundError ''Discovery target was not found.''))
         | Some target \<Rightarrow>
      if target_tenant_id target \<noteq> tenant
      then (s, Inl (DiscoveryResourceNotFoundError ''Discovery target was not found.''))
      else case get_run s (trace_run_id (traceability e)) of
           None \<Rightarrow> (s, Inl (DiscoveryResourceNotFoundError ''Discovery run was not found.''))
         | Some run \<Rightarrow>
      if run_tenant_id run \<notin> {None, Some tenant}
      then (s, Inl (DiscoveryResourceNotFoundError ''Discovery run was not found.''))
      else if job_target_id job \<noteq> target_id target \<or> job_run_id job \<noteq> run_id run
      then (s, Inl (DiscoveryPersistenceError ''Evidence relationships do not match the discovery job.''))
      else if digest (ev_payload e) \<noteq> content_hash e
      then (s, Inl (DiscoveryPersistenceError ''Evidence payload hash does not match.''))
      else let row = evidence_row (digest (ev_payload e)) e version
           in (put_evidence (evidence (work s) @ [row]) s, Inr row))"

definition evidence_get :: "string \<Rightarrow> uuid \<Rightarrow> session \<Rightarrow> DiscoveryEvidenceRecord option" where
  "evidence_get tenant i s =
     sql_first (\<lambda>e. evidence_id e = i \<and> evidence_tenant_id e = tenant) (evidence (work s))"

text \<open>The join with the job of each row: rows of the job itself and of its children, in sequence.\<close>

definition list_for_job :: "string \<Rightarrow> uuid \<Rightarrow> session \<Rightarrow> DiscoveryEvidenceRecord list" where
  "list_for_job tenant i s =
     sort_key evidence_sequence
       (sql_select (\<lambda>e. evidence_tenant_id e = tenant \<and>
          (case get_job s (evidence_job_id e) of
             None \<Rightarrow> False | Some j \<Rightarrow> evidence_job_id e = i \<or> parent_job_id j = Some i))
          (evidence (work s)))"

section \<open>Evidence is appended, verified and found again\<close>

lemma put_evidence_simps [simp]:
  "evidence (work (put_evidence es s)) = es" "jobs (work (put_evidence es s)) = jobs (work s)"
  "targets (work (put_evidence es s)) = targets (work s)" "runs (work (put_evidence es s)) = runs (work s)"
  "device_results (work (put_evidence es s)) = device_results (work s)"
  "transport_attempts (work (put_evidence es s)) = transport_attempts (work s)"
  "committed (put_evidence es s) = committed s" "next_uuid (put_evidence es s) = next_uuid s"
  by (simp_all add: put_evidence_def)

lemma evidence_create_Inr:
  assumes "evidence_create digest e version s = (s', Inr row)"
  shows "s' = put_evidence (evidence (work s) @ [row]) s" "row = evidence_row (content_hash e) e version"
    "verify_hash digest e"
    "\<exists>job target run. get_job s (trace_job_id (traceability e)) = Some job \<and>
       get_target s (trace_target_id (traceability e)) = Some target \<and>
       get_run s (trace_run_id (traceability e)) = Some run \<and>
       job_tenant_id job = trace_tenant_id (traceability e) \<and>
       job_target_id job = target_id target \<and> job_run_id job = run_id run"
  using assms
  by (auto simp: evidence_create_def Let_def verify_hash_def split: option.splits if_splits)

lemma evidence_create_keeps_refs:
  assumes "refs_ok (work s)" and "evidence_create digest e version s = (s', r)"
  shows "refs_ok (work s')"
proof (cases r)
  case (Inl err)
  then have "s' = s" using assms(2) by (auto simp: evidence_create_def Let_def split: option.splits if_splits)
  with assms(1) show ?thesis by simp
next
  case (Inr row)
  with assms(2) have created: "evidence_create digest e version s = (s', Inr row)" by simp
  note row = evidence_create_Inr [OF created]
  from row(4) have "evidence_refs_ok (work s) row"
    by (auto simp: row(2) evidence_row_def evidence_refs_ok_def get_job_def get_target_def get_run_def
        dest!: sql_first_Some intro: rev_image_eqI)
  with assms(1) show ?thesis
    by (simp add: row(1) refs_defs list_all_iff)
qed


section \<open>A small store\<close>

text \<open>One finished job with a result, an attempt and evidence, and an unrelated job of another target.\<close>

definition office_target :: DiscoveryTargetRecord where
  "office_target =
     \<lparr>target_id = 1, target_tenant_id = ''acme'', target_identifier = ''sw1'',
      target_address = ''10.0.0.1'', scope_type = ''single_device'', scope_end = None,
      scope_cidr = None, target_vendor = None, target_hostname = None, platform_hint = None,
      preferred_transport = None, target_enabled = True, credential_reference = ''cred'',
      credential_profile_id = None, credential_references = [], allowed_fallback_transports = [],
      target_allow_insecure_telnet = False, target_allow_insecure_http = False,
      target_metadata = [], target_created_by = None, target_created_at = 0,
      target_updated_at = 0\<rparr>"

definition office_run :: DiscoveryRunRecord where
  "office_run =
     \<lparr>run_id = 2, run_created_at = 0, run_target_identifier = ''sw1'', run_target_address = None,
      run_tenant_id = Some ''acme'', run_status = STARTED, run_started_at = 0, run_finished_at = None,
      run_metadata = [], total_scanned = None, total_discovered = None, total_unreachable = None,
      total_reachable_no_management = None, total_authentication_failed = None,
      total_partial_discovery = None, total_unverified = None\<rparr>"

definition office_result :: DiscoveryDeviceResultRecord where
  "office_result =
     \<lparr>result_id = 6, result_tenant_id = ''acme'', discovery_job_id = 5, child_job_id = 5,
      result_address = ''10.0.0.1'', result_hostname = None, result_vendor = None,
      result_platform = None, device_state = ''running'', result_state = None,
      result_selected_transport = None, result_failure_code = None, result_failure_message = None,
      result_started_at = None, result_completed_at = None, result_correlation_id = None\<rparr>"

definition office_session :: session where
  "office_session =
     (let st = \<lparr>jobs = [new_job 0 5 ''acme'' 1 2 None None None None None, new_job 0 9 ''acme'' 8 2 None None None None None],
                targets = [office_target, office_target\<lparr>target_id := 8, target_identifier := ''sw2''\<rparr>],
                runs = [office_run], device_results = [office_result], transport_attempts = [], evidence = [], snapshots = []\<rparr>
      in \<lparr>committed = st, work = st, next_uuid = 20\<rparr>)"

lemmas office_defs = office_session_def office_target_def office_run_def office_result_def new_job_def

definition office_evidence :: DiscoveryEvidence where
  "office_evidence =
     \<lparr>traceability = \<lparr>trace_tenant_id = ''acme'', trace_target_id = 1, trace_job_id = 5, trace_run_id = 2\<rparr>,
      collector_name = ''cisco'', ev_platform = ''ios'', ev_transport = ''ssh'', ev_type = ''raw_discovery'',
      ev_command = ''collector.collect'', ev_payload = [(''hostname'', PStr ''sw1'')], ev_captured_at = 7,
      ev_sequence = 0, ev_parser_version = None, ev_normalization_version = None, ev_id = 90,
      content_hash = ''h''\<rparr>"

lemma office_refs: "refs_ok (work office_session)"
  by (simp add: refs_defs office_defs Let_def)


theorem target_delete_complete_witness:
  "\<exists>s'. target_delete ''acme'' 1 office_session = (s', Inr True) \<and> refs_ok (work s') \<and>
     map job_id (jobs (work s')) = [9] \<and> device_results (work s') = []"
proof -
  have found: "target_get ''acme'' 1 office_session = Some office_target"
    by (simp add: target_get_def target_where_def sql_first_def office_defs Let_def)
  have jobs: "jobs (work office_session) =
      [new_job 0 5 ''acme'' 1 2 None None None None None, new_job 0 9 ''acme'' 8 2 None None None None None]"
    by (simp add: office_session_def Let_def)
  have "\<forall>j \<in> set (jobs (work office_session)). job_target_id j = 1 \<longrightarrow> job_tenant_id j = ''acme''"
    "distinct (map job_id (jobs (work office_session)))"
    by (simp_all add: jobs new_job_def)
  note complete = target_delete_complete [OF found office_refs this]
  have ids: "target_job_ids ''acme'' 1 (work office_session) = [5]"
    by (simp add: target_job_ids_def sql_select_def jobs new_job_def)
  have results: "device_results (work office_session) = [office_result]"
    "job_result_ids [5] (work office_session) = [6]" "result_id office_result = 6"
    by (simp_all add: job_result_ids_def sql_select_def office_session_def office_result_def Let_def)
  from complete obtain s' where s':
      "target_delete ''acme'' 1 office_session = (s', Inr True)" "refs_ok (work s')"
      "jobs (work s') = filter (\<lambda>j. job_target_id j \<noteq> 1) (jobs (work office_session))"
      "work s' = without_target 1 (target_job_ids ''acme'' 1 (work office_session))
        (job_result_ids (target_job_ids ''acme'' 1 (work office_session)) (work office_session)) (work office_session)"
    by (auto simp: jobs new_job_def foreign_child_def)
  have "map job_id (jobs (work s')) = [9]" by (simp add: s'(3) jobs new_job_def)
  moreover have "device_results (work s') = []"
    unfolding s'(4) ids results(2) without_target_results results(1) by (simp add: results(3))
  ultimately show ?thesis using s'(1,2) by (intro exI [of _ s']) simp
qed

end
