(* ===== verification/Execution_Policy.thy ===== *)
theory Execution_Policy
  imports Multi_Transport Resource_Repositories Py_Numbers
begin

text \<open>
  The parts of \<^verbatim>\<open>discovery/execution.py\<close> that decide without touching the job table: the view of the
  target, the transport policy a job runs with, the classification of failures and the sanitised
  evidence.
\<close>

section \<open>The target of a job\<close>

record DiscoveryTargetRecordView =
  view_id :: uuid
  view_tenant_id :: string
  view_identifier :: string
  view_address :: string
  view_enabled :: bool
  view_metadata :: "(string, pyval) dict"

definition setdefault :: "'k \<Rightarrow> 'v \<Rightarrow> ('k, 'v) dict \<Rightarrow> ('k, 'v) dict" where
  "setdefault k v d = (if dict_get d k = None then dict_set k v d else d)"

fun text_or_none :: "string option \<Rightarrow> pyval" where
  "text_or_none None = PNone"
| "text_or_none (Some t) = PStr t"

definition lookup :: "(string, pyval) dict \<Rightarrow> string \<Rightarrow> pyval" where
  "lookup d k = (case dict_get d k of None \<Rightarrow> PNone | Some v \<Rightarrow> v)"

definition target_view :: "DiscoveryTargetRecord \<Rightarrow> DiscoveryTargetRecordView" where
  "target_view t =
     (let m0 = target_metadata t;
          m1 = (case platform_hint t of None \<Rightarrow> m0 | Some h \<Rightarrow> setdefault ''platform_family'' (PStr h) m0);
          m2 = (case preferred_transport t of None \<Rightarrow> m1 | Some p \<Rightarrow> setdefault ''transport_name'' (PStr p) m1);
          m3 = dict_set ''credential_reference'' (PStr (credential_reference t)) m2;
          m4 = dict_set ''credential_profile_id'' (text_or_none (credential_profile_id t)) m3;
          m5 = dict_set ''allow_insecure_telnet'' (PBool (target_allow_insecure_telnet t)) m4;
          m6 = dict_set ''allow_insecure_http''
                 (PBool (truthy (lookup m5 ''allow_insecure_http'') \<or> target_allow_insecure_http t)) m5;
          m7 = setdefault ''allowed_fallback_transports'' (PList (map PStr (allowed_fallback_transports t))) m6
      in \<lparr>view_id = target_id t, view_tenant_id = target_tenant_id t,
          view_identifier = target_identifier t, view_address = target_address t,
          view_enabled = target_enabled t, view_metadata = m7\<rparr>)"

text \<open>A \<open>DiscoveryExecutionFailureError\<close> is its code and message.\<close>

definition resolve_target ::
  "DiscoveryJobRecord \<Rightarrow> string \<Rightarrow> session \<Rightarrow> (DiscoveryFailureCode \<times> string) + DiscoveryTargetRecordView" where
  "resolve_target job tenant s =
     (case get_target s (job_target_id job) of
        None \<Rightarrow> Inl (TARGET_NOT_FOUND, ''Discovery target was not found.'')
      | Some t \<Rightarrow> if target_tenant_id t \<noteq> tenant
                  then Inl (TARGET_NOT_FOUND, ''Discovery target was not found.'')
                  else Inr (target_view t))"

section \<open>The effective transport policy\<close>

text \<open>\<open>UUID(text)\<close>: prefixes, braces and hyphens are dropped, then 32 hexadecimal digits.\<close>

definition remove_text :: "string \<Rightarrow> string \<Rightarrow> string" where
  "remove_text p s = re_sub (\<lambda>t. if starts_with p t then Some (length p, []) else None) s"

definition strip_braces :: "string \<Rightarrow> string" where
  "strip_braces s =
     (let brace = (\<lambda>c. c = CHR ''{'' \<or> c = CHR ''}'')
      in rev (dropWhile brace (rev (dropWhile brace s))))"

definition uuid_of_text :: "string \<Rightarrow> uuid option" where
  "uuid_of_text s =
     (let hex = filter (\<lambda>c. c \<noteq> CHR ''-'') (strip_braces (remove_text ''uuid:'' (remove_text ''urn:'' s)))
      in if length hex \<noteq> 32 then None else parse_number 16 hex)"

definition view_profile ::
  "CredentialProfileRecord list \<Rightarrow> DiscoveryTargetRecordView \<Rightarrow> CredentialProfileRecord option" where
  "view_profile profiles v =
     (case lookup (view_metadata v) ''credential_profile_id'' of
        PStr raw \<Rightarrow>
          if raw = [] then None
          else (case uuid_of_text raw of None \<Rightarrow> None | Some i \<Rightarrow> profile_get profiles (view_tenant_id v) i)
      | _ \<Rightarrow> None)"

text \<open>The transports of the profile that are secure or approved; SSH when none is left.\<close>

definition approved_names :: "bool \<Rightarrow> bool \<Rightarrow> TransportPolicyEntry list \<Rightarrow> string list" where
  "approved_names insecure http ts =
     map entry_name (filter (\<lambda>t. \<not> entry_insecure t \<or> entry_capability t = TELNET \<and> insecure \<or>
        entry_capability t = HTTP \<and> http) ts)"

definition base_names ::
  "CredentialProfileRecord option \<Rightarrow> bool \<Rightarrow> bool \<Rightarrow> string list + string list" where
  "base_names profile insecure http =
     (case profile of
        None \<Rightarrow> Inr [''ssh'']
      | Some p \<Rightarrow>
          bind_result (from_credential_profile p insecure http) (\<lambda>policy.
            let names = approved_names insecure http (transports policy)
            in Inr (if transports policy = [] \<or> names = [] then [''ssh''] else names)))"

text \<open>The fallbacks of the target; the text of a value that is no string names no transport.\<close>

definition fallback_names :: "DiscoveryTargetRecordView \<Rightarrow> string list" where
  "fallback_names v =
     (case lookup (view_metadata v) ''allowed_fallback_transports'' of
        PList xs \<Rightarrow> List.map_filter (\<lambda>x. case x of PStr t \<Rightarrow> Some (lower t) | _ \<Rightarrow> None) xs
      | _ \<Rightarrow> [])"

definition fallback_skipped ::
  "CredentialProfileRecord option \<Rightarrow> bool \<Rightarrow> bool \<Rightarrow> string list \<Rightarrow> string \<Rightarrow> bool" where
  "fallback_skipped profile insecure http names n \<longleftrightarrow>
     (case profile of None \<Rightarrow> False | Some p \<Rightarrow> n \<notin> lower ` set (transport_types p)) \<or> n \<in> set names \<or>
     (n = ''telnet'' \<and> \<not> insecure) \<or> (n = ''http'' \<and> \<not> http)"

fun add_fallbacks ::
  "CredentialProfileRecord option \<Rightarrow> bool \<Rightarrow> bool \<Rightarrow> string list \<Rightarrow> string list \<Rightarrow> string list" where
  "add_fallbacks profile insecure http [] names = names"
| "add_fallbacks profile insecure http (n # ns) names =
     add_fallbacks profile insecure http ns
       (if fallback_skipped profile insecure http names n
        then names else names @ [n])"

definition prefer_transport :: "pyval \<Rightarrow> string list \<Rightarrow> string list" where
  "prefer_transport v names =
     (case v of
        PStr p \<Rightarrow> if lower p \<in> set names then lower p # remove1 (lower p) names else names
      | _ \<Rightarrow> names)"

text \<open>
  One turn of the last loop. The guard tests the approval of Telnet for every insecure transport,
  plain HTTP included.
\<close>

definition execution_entry :: "bool \<Rightarrow> string option \<Rightarrow> string \<Rightarrow> TransportPolicyEntry option" where
  "execution_entry insecure ctype name =
     (case parse_capability (upper name) of
        None \<Rightarrow> None
      | Some c \<Rightarrow>
          (case capability_to_service c of
             None \<Rightarrow> None
           | Some service \<Rightarrow>
               if c \<in> INSECURE_TRANSPORTS \<and> \<not> insecure then None
               else Some \<lparr>entry_capability = c, entry_name = lower name, entry_service = service,
                          entry_insecure = c \<in> INSECURE_TRANSPORTS,
                          entry_compatible =
                            (if given ctype
                             then lower name \<in> set (compatible_transports (the ctype)) else True)\<rparr>))"

definition ordered_names :: "CredentialProfileRecord option \<Rightarrow> DiscoveryTargetRecordView \<Rightarrow> string list \<Rightarrow> string list" where
  "ordered_names profile v base =
     (let insecure = truthy (lookup (view_metadata v) ''allow_insecure_telnet'');
          http = truthy (lookup (view_metadata v) ''allow_insecure_http'')
      in prefer_transport (lookup (view_metadata v) ''transport_name'')
           (fromkeys (add_fallbacks profile insecure http (fallback_names v) base)))"

definition resolve_transport_policy ::
  "CredentialProfileRecord list \<Rightarrow> DiscoveryTargetRecordView \<Rightarrow> string list + MultiTransportPolicy" where
  "resolve_transport_policy profiles v =
     (let insecure = truthy (lookup (view_metadata v) ''allow_insecure_telnet'');
          http = truthy (lookup (view_metadata v) ''allow_insecure_http'');
          profile = view_profile profiles v;
          ctype = (case profile of None \<Rightarrow> None | Some p \<Rightarrow> credential_type p)
      in bind_result (base_names profile insecure http) (\<lambda>base.
           make_policy (List.map_filter (execution_entry insecure ctype) (ordered_names profile v base))
             insecure http (map_option profile_id profile)))"

section \<open>The policy is secure\<close>

lemma execution_entry_Some:
  assumes "execution_entry insecure ctype name = Some e"
  shows "entry_name e = lower name" "entry_insecure e \<longleftrightarrow> entry_capability e \<in> {TELNET, HTTP}"
    "capability_value (entry_capability e) = upper name" "entry_insecure e \<Longrightarrow> insecure"
  using assms
  by (auto simp: execution_entry_def INSECURE_TRANSPORTS_def parse_capability_def find_Some_iff
      split: option.splits if_splits)

text \<open>The names that may run: in lower case, Telnet and HTTP approved, and listed by the profile.\<close>

definition admissible :: "CredentialProfileRecord option \<Rightarrow> bool \<Rightarrow> bool \<Rightarrow> string \<Rightarrow> bool" where
  "admissible profile insecure http n \<longleftrightarrow>
     (n = ''telnet'' \<longrightarrow> insecure) \<and> (n = ''http'' \<longrightarrow> http) \<and>
     (case profile of None \<Rightarrow> True | Some p \<Rightarrow> n = ''ssh'' \<or> n \<in> lower ` set (transport_types p))"

lemma add_fallbacks_admissible:
  "\<forall>n \<in> set names. admissible profile insecure http n \<Longrightarrow>
     \<forall>n \<in> set (add_fallbacks profile insecure http ns names). admissible profile insecure http n"
proof (induction ns arbitrary: names)
  case (Cons n ns)
  have "\<not> fallback_skipped profile insecure http names n \<Longrightarrow> admissible profile insecure http n"
    by (cases profile) (auto simp: fallback_skipped_def admissible_def)
  then have "\<forall>m \<in> set (if fallback_skipped profile insecure http names n then names else names @ [n]).
      admissible profile insecure http m"
    using Cons.prems by (cases "fallback_skipped profile insecure http names n") simp_all
  then show ?case unfolding add_fallbacks.simps by (rule Cons.IH)
qed simp

lemma lower_upper: "lower (upper s) = lower s"
proof -
  have "lower_char (upper_char c) = lower_char c" for c
  proof -
    let ?n = "of_char c :: nat"
    have "?n mod 256 = ?n" by (rule of_char_mod_256)
    then have bound: "?n < 256" by (metis mod_less_divisor zero_less_numeral)
    show ?thesis
    proof (cases "97 \<le> ?n \<and> ?n \<le> 122")
      case True
      then have up: "upper_char c = char_of (?n - 32)" by (simp add: upper_char_def)
      from bound have "?n - 32 < 256" by linarith
      then have "of_char (char_of (?n - 32) :: char) = ?n - 32" by simp
      moreover from True have "65 \<le> ?n - 32 \<and> ?n - 32 \<le> 90" by linarith
      ultimately have "lower_char (upper_char c) = char_of (?n - 32 + 32)"
        unfolding lower_char_def up Let_def by simp
      moreover from True have "?n - 32 + 32 = ?n" by linarith
      ultimately show ?thesis using True by (simp add: lower_char_def)
    next
      case False
      then have "upper_char c = c" unfolding upper_char_def Let_def by (rule if_not_P)
      then show ?thesis by simp
    qed
  qed
  then show ?thesis by (simp add: lower_def upper_def)
qed

lemma lower_lower [simp]: "lower (lower s) = lower s"
proof -
  have "lower_char (lower_char c) = lower_char c" for c
  proof (cases "65 \<le> (of_char c :: nat) \<and> (of_char c :: nat) \<le> 90")
    case True
    then have low: "lower_char c = char_of (of_char c + 32 :: nat)" by (simp add: lower_char_def)
    from True have "(of_char c + 32 :: nat) < 256" by linarith
    then have "of_char (char_of (of_char c + 32 :: nat) :: char) = (of_char c + 32 :: nat)" by simp
    moreover from True have "\<not> (of_char c + 32 \<le> (90 :: nat))" by linarith
    ultimately show ?thesis unfolding low by (simp add: lower_char_def Let_def)
  next
    case False
    then have "lower_char c = c" unfolding lower_char_def Let_def by (rule if_not_P)
    then show ?thesis by simp
  qed
  then show ?thesis by (simp add: lower_def)
qed

lemma set_add_fallbacks:
  "set (add_fallbacks profile insecure http ns names) \<subseteq> set names \<union> set ns"
  by (induction profile insecure http ns names rule: add_fallbacks.induct) auto

lemma fallback_names_lower: "n \<in> set (fallback_names v) \<Longrightarrow> lower n = n"
proof -
  assume "n \<in> set (fallback_names v)"
  then obtain x where "(case x of PStr t \<Rightarrow> Some (lower t) | _ \<Rightarrow> None) = Some n"
    by (auto simp: fallback_names_def set_map_filter split: pyval.splits)
  then show "lower n = n" by (cases x) auto
qed

lemma set_move_front: "x \<in> set xs \<Longrightarrow> insert x (set (remove1 x xs)) = set xs"
  by (induction xs) auto

lemma set_prefer [simp]: "set (prefer_transport v names) = set names"
  by (simp add: prefer_transport_def set_move_front split: pyval.splits)

lemma distinct_prefer: "distinct names \<Longrightarrow> distinct (prefer_transport v names)"
  by (auto simp: prefer_transport_def split: pyval.splits)

lemma lower_capability:
  "lower (capability_value c) = ''telnet'' \<longleftrightarrow> c = TELNET" "lower (capability_value c) = ''http'' \<longleftrightarrow> c = HTTP"
proof -
  have "lower (capability_value c) =
      (case c of SSH \<Rightarrow> ''ssh'' | SNMP \<Rightarrow> ''snmp'' | TELNET \<Rightarrow> ''telnet'' | ICMP \<Rightarrow> ''icmp''
       | HTTP \<Rightarrow> ''http'' | HTTPS \<Rightarrow> ''https'')"
    by (cases c; hypsubst; code_simp)
  then show "lower (capability_value c) = ''telnet'' \<longleftrightarrow> c = TELNET"
    "lower (capability_value c) = ''http'' \<longleftrightarrow> c = HTTP" by (cases c; simp)+
qed

lemma approved_admissible:
  assumes policy: "from_credential_profile p insecure http = Inr policy" and n: "n \<in> set (approved_names insecure http (transports policy))"
  shows "admissible (Some p) insecure http n" "lower n = n"
proof -
  obtain policy' where policy': "from_credential_profile p insecure http = Inr policy'"
    "transports policy' = unique_entries []
       (List.map_filter (profile_entry insecure http (credential_type p)) (profile_names p))"
    by (rule from_credential_profile_Inr)
  from n obtain e where e: "e \<in> set (transports policy)" "entry_name e = n"
    by (auto simp: approved_names_def)
  then obtain m where m: "m \<in> set (profile_names p)"
    "profile_entry insecure http (credential_type p) m = Some e"
    using policy policy' unique_entries_set [of e "[]" "List.map_filter
      (profile_entry insecure http (credential_type p)) (profile_names p)"]
    unfolding set_map_filter by auto
  note entry = profile_entry_Some [OF m(2)]
  have ssh: "lower ''ssh'' = ''ssh''" by code_simp
  have listed: "n = ''ssh'' \<or> n \<in> lower ` set (transport_types p)"
    using m(1) entry(2) e(2) ssh by (auto simp: profile_names_def split: if_splits)
  have name: "n = lower (capability_value (entry_capability e))"
    using entry(2,4) e(2) lower_upper by metis
  have cap: "n = ''telnet'' \<Longrightarrow> entry_capability e = TELNET" "n = ''http'' \<Longrightarrow> entry_capability e = HTTP"
    unfolding name using lower_capability by metis+
  show "lower n = n" using entry(2) e(2) by simp
  show "admissible (Some p) insecure http n"
    using cap entry(1,3) listed by (auto simp: admissible_def refused_entry_def)
qed

lemma base_names_Inr:
  "\<exists>base. base_names profile insecure http = Inr base \<and>
     (\<forall>n \<in> set base. admissible profile insecure http n \<and> lower n = n)"
proof (cases profile)
  case None
  have "lower ''ssh'' = ''ssh''" by code_simp
  then show ?thesis by (simp add: base_names_def admissible_def None)
next
  case (Some p)
  obtain policy where policy: "from_credential_profile p insecure http = Inr policy"
    by (rule from_credential_profile_Inr)
  have "admissible (Some p) insecure http ''ssh''" by (simp add: admissible_def)
  moreover have "lower ''ssh'' = ''ssh''" by code_simp
  ultimately show ?thesis using approved_admissible [OF policy]
    by (simp add: base_names_def Some policy Let_def)
qed

lemma ordered_names_admissible:
  assumes "\<forall>n \<in> set base. admissible profile insecure http n \<and> lower n = n"
    and "insecure = truthy (lookup (view_metadata v) ''allow_insecure_telnet'')"
    and "http = truthy (lookup (view_metadata v) ''allow_insecure_http'')"
    and "n \<in> set (ordered_names profile v base)"
  shows "admissible profile insecure http n" "lower n = n"
proof -
  have n: "n \<in> set (add_fallbacks profile insecure http (fallback_names v) base)"
    using assms(2-4) by (simp add: ordered_names_def)
  then show "admissible profile insecure http n" using add_fallbacks_admissible assms(1) by blast
  show "lower n = n" using n set_add_fallbacks fallback_names_lower assms(1) by blast
qed

lemma distinct_ordered_names: "distinct (ordered_names profile v base)"
  by (simp add: ordered_names_def distinct_prefer)

lemma execution_entry_secure:
  assumes "execution_entry insecure ctype n = Some e" and "admissible profile insecure http n" and "lower n = n"
  shows "entry_capability e = TELNET \<Longrightarrow> insecure" "entry_capability e = HTTP \<Longrightarrow> http \<and> insecure"
    "entry_name e = n" "\<not> refused_entry insecure http e"
proof -
  note entry = execution_entry_Some [OF assms(1)]
  have n: "lower (capability_value (entry_capability e)) = n"
    using entry(3) lower_upper assms(3) by metis
  show telnet: "entry_capability e = TELNET \<Longrightarrow> insecure" using entry(2,4) by simp
  show http: "entry_capability e = HTTP \<Longrightarrow> http \<and> insecure"
  proof -
    assume cap: "entry_capability e = HTTP"
    with n lower_capability(2) have "n = ''http''" by blast
    then show "http \<and> insecure" using cap assms(2) entry(2,4) by (simp add: admissible_def)
  qed
  show "entry_name e = n" using entry(1) assms(3) by simp
  show "\<not> refused_entry insecure http e" using telnet http unfolding refused_entry_def by blast
qed

lemma distinct_map_filter_names:
  assumes "distinct ns" and "\<And>n e. n \<in> set ns \<Longrightarrow> f n = Some e \<Longrightarrow> g e = n"
  shows "distinct (map g (List.map_filter f ns))"
  using assms
proof (induction ns)
  case (Cons n ns)
  then have "n \<notin> g ` set (List.map_filter f ns)" by (auto simp: set_map_filter)
  with Cons show ?case by (auto simp: map_filter_simps split: option.splits)
qed (simp add: map_filter_simps)

text \<open>The entries of the policy come from the ordered names, which are admissible.\<close>

lemma resolve_transport_policy_Inr:
  assumes insecure: "insecure = truthy (lookup (view_metadata v) ''allow_insecure_telnet'')"
    and http: "http = truthy (lookup (view_metadata v) ''allow_insecure_http'')"
    and profile: "profile = view_profile profiles v"
  obtains base ctype es where
    "resolve_transport_policy profiles v =
       Inr \<lparr>transports = es, allow_insecure = insecure, allow_insecure_http = http,
            policy_profile_id = map_option profile_id profile\<rparr>"
    "es = List.map_filter (execution_entry insecure ctype) (ordered_names profile v base)"
    "\<forall>n \<in> set (ordered_names profile v base). admissible profile insecure http n \<and> lower n = n"
proof -
  define ctype where "ctype = (case profile of None \<Rightarrow> None | Some p \<Rightarrow> credential_type p)"
  obtain base where base: "base_names profile insecure http = Inr base"
      "\<forall>n \<in> set base. admissible profile insecure http n \<and> lower n = n"
    using base_names_Inr by blast
  define es where "es = List.map_filter (execution_entry insecure ctype) (ordered_names profile v base)"
  have ok: "admissible profile insecure http n \<and> lower n = n" if "n \<in> set (ordered_names profile v base)" for n
    using ordered_names_admissible [OF base(2) insecure http that] by blast
  have "\<not> refused_entry insecure http e" if "e \<in> set es" for e
    using that ok execution_entry_secure(4) unfolding es_def set_map_filter by blast
  then have "filter (refused_entry insecure http) es = []" by (simp add: filter_empty_conv)
  then have "resolve_transport_policy profiles v =
      Inr \<lparr>transports = es, allow_insecure = insecure, allow_insecure_http = http,
           policy_profile_id = map_option profile_id profile\<rparr>"
    unfolding resolve_transport_policy_def Let_def insecure [symmetric] http [symmetric]
      profile [symmetric] ctype_def [symmetric] base(1) bind_result.simps
      es_def [symmetric] make_policy_def by simp
  then show ?thesis using that es_def ok by blast
qed

text \<open>The preferred transport, once it is an entry, is the first.\<close>

lemma preferred_first:
  assumes es: "es = List.map_filter (execution_entry insecure ctype) (ordered_names profile v base)"
    and ok: "\<forall>n \<in> set (ordered_names profile v base). lower n = n"
    and t: "lookup (view_metadata v) ''transport_name'' = PStr t" and run: "lower t \<in> set (map entry_name es)"
  shows "hd (map entry_name es) = lower t"
proof -
  from run obtain e where e: "e \<in> set es" "entry_name e = lower t" by auto
  then obtain n where n: "n \<in> set (ordered_names profile v base)" "execution_entry insecure ctype n = Some e"
    unfolding es set_map_filter by blast
  have "n = lower t" using execution_entry_Some(1) [OF n(2)] ok n(1) e(2) by metis
  with n(1) obtain rest where "ordered_names profile v base = lower t # rest"
    unfolding ordered_names_def t prefer_transport_def Let_def by (auto split: if_splits)
  then show ?thesis unfolding es using n(2) \<open>n = lower t\<close> e(2) by (simp add: map_filter_simps)
qed

text \<open>
  C22: The policy a job runs with. Resolving it never raises. No transport occurs twice; Telnet runs only
  when the target approved it; plain HTTP only when the target approved both HTTP and Telnet (the guard
  of the last loop is stricter than the approval of HTTP); with a credential profile every transport is
  SSH or one the profile lists; and the target's preferred transport, if it may run, is tried first.
\<close>

theorem execution_policy_secure:
  "\<exists>p. resolve_transport_policy profiles v = Inr p \<and>
     distinct (transport_names p) \<and>
     (\<forall>e \<in> set (transports p).
        (entry_capability e = TELNET \<longrightarrow> truthy (lookup (view_metadata v) ''allow_insecure_telnet'')) \<and>
        (entry_capability e = HTTP \<longrightarrow> truthy (lookup (view_metadata v) ''allow_insecure_http'') \<and>
           truthy (lookup (view_metadata v) ''allow_insecure_telnet'')) \<and>
        (\<forall>profile. view_profile profiles v = Some profile \<longrightarrow>
           entry_name e = ''ssh'' \<or> entry_name e \<in> lower ` set (transport_types profile))) \<and>
     (\<forall>t. lookup (view_metadata v) ''transport_name'' = PStr t \<and> lower t \<in> set (transport_names p) \<longrightarrow>
        hd (transport_names p) = lower t)"
proof -
  define insecure where "insecure = truthy (lookup (view_metadata v) ''allow_insecure_telnet'')"
  define http where "http = truthy (lookup (view_metadata v) ''allow_insecure_http'')"
  define profile where "profile = view_profile profiles v"
  obtain base ctype es where policy: "resolve_transport_policy profiles v =
       Inr \<lparr>transports = es, allow_insecure = insecure, allow_insecure_http = http,
            policy_profile_id = map_option profile_id profile\<rparr>"
    and es: "es = List.map_filter (execution_entry insecure ctype) (ordered_names profile v base)"
    and ok: "\<forall>n \<in> set (ordered_names profile v base). admissible profile insecure http n \<and> lower n = n"
    by (rule resolve_transport_policy_Inr [OF insecure_def http_def profile_def])
  have distinct: "distinct (map entry_name es)"
    unfolding es by (rule distinct_map_filter_names [OF distinct_ordered_names])
      (use ok execution_entry_secure(3) in blast)
  have secure: "(entry_capability e = TELNET \<longrightarrow> insecure) \<and> (entry_capability e = HTTP \<longrightarrow> http \<and> insecure) \<and>
      (\<forall>p. profile = Some p \<longrightarrow> entry_name e = ''ssh'' \<or> entry_name e \<in> lower ` set (transport_types p))"
    if "e \<in> set es" for e
  proof -
    from that obtain n where n: "n \<in> set (ordered_names profile v base)" "execution_entry insecure ctype n = Some e"
      unfolding es set_map_filter by blast
    show ?thesis using execution_entry_secure [OF n(2), of profile http] ok n(1)
      unfolding admissible_def by (auto split: option.splits)
  qed
  have first: "\<forall>t. lookup (view_metadata v) ''transport_name'' = PStr t \<and> lower t \<in> set (map entry_name es) \<longrightarrow>
      hd (map entry_name es) = lower t"
    using preferred_first [OF es] ok by blast
  show ?thesis
    unfolding policy transport_names_def insecure_def [symmetric] http_def [symmetric] profile_def [symmetric]
    using distinct secure first by simp
qed

section \<open>Failures\<close>

text \<open>
  What can be raised while a job runs: a coded failure of the service, an exception of a collector or
  a library, an error of the repositories, and the two internal signals.
\<close>

datatype execution_error =
    ExecutionFailure DiscoveryFailureCode string
  | Raised_Exc exc
  | Repository_Error persistence_error
  | CancellationRequested
  | LeaseLost

definition secret_provider_errors :: "string list" where
  "secret_provider_errors =
     [''SecretProviderError'', ''SecretNotFoundError'', ''ProviderUnavailableError'',
      ''ProviderPermissionDeniedError'', ''InvalidSecretReferenceError'', ''ProviderConfigurationError'']"

text \<open>The texts of repository errors that carry none in the model are given by \<open>other\<close>.\<close>

fun persistence_text :: "(persistence_error \<Rightarrow> string) \<Rightarrow> persistence_error \<Rightarrow> string" where
  "persistence_text other (DuplicateActiveDiscoveryError m) = m"
| "persistence_text other (DiscoveryResourceNotFoundError m) = m"
| "persistence_text other (InvalidDiscoveryTransitionError m) = m"
| "persistence_text other (DiscoveryCancellationConflictError m) = m"
| "persistence_text other (DiscoveryPersistenceError m) = m"
| "persistence_text other e = other e"

fun error_text :: "(persistence_error \<Rightarrow> string) \<Rightarrow> execution_error \<Rightarrow> string" where
  "error_text other (ExecutionFailure c m) = m"
| "error_text other (Raised_Exc e) = exc_text e"
| "error_text other (Repository_Error e) = persistence_text other e"
| "error_text other CancellationRequested = []"
| "error_text other LeaseLost = []"

definition code_of_text :: "string \<Rightarrow> DiscoveryFailureCode" where
  "code_of_text text =
     (let message = lower text
      in if contains ''authentication'' message \<or> contains ''unauthorized'' message \<or> contains ''credential'' message
         then DiscoveryFailureCode.AUTHENTICATION_FAILED
         else if contains ''timeout'' message \<or> contains ''timed out'' message then CONNECTION_TIMEOUT
         else if contains ''refused'' message then CONNECTION_REFUSED
         else if contains ''transport'' message \<or> contains ''connection'' message then TRANSPORT_UNAVAILABLE
         else DISCOVERY_FAILED)"

fun is_persistence_error :: "persistence_error \<Rightarrow> bool" where
  "is_persistence_error (ScopeFailure e) = False"
| "is_persistence_error MultipleResultsFound = False"
| "is_persistence_error MetadataError = False"
| "is_persistence_error e = True"

definition failure_code_of :: "(persistence_error \<Rightarrow> string) \<Rightarrow> execution_error \<Rightarrow> DiscoveryFailureCode" where
  "failure_code_of other e =
     (case e of
        ExecutionFailure c m \<Rightarrow> c
      | Raised_Exc x \<Rightarrow>
          (case exc_class x of
             CredentialResolutionError \<Rightarrow> CREDENTIAL_RESOLUTION_FAILED
           | TransportDependencyError \<Rightarrow> TRANSPORT_UNAVAILABLE
           | TransportUnavailableError \<Rightarrow> TRANSPORT_UNAVAILABLE
           | TransportAuthenticationError \<Rightarrow> code_of_text (exc_text x)
           | OtherException n \<Rightarrow>
               if n \<in> set secret_provider_errors then CREDENTIAL_RESOLUTION_FAILED
               else if n = ''TimeoutError'' then DISCOVERY_TIMEOUT
               else code_of_text (exc_text x))
      | Repository_Error p \<Rightarrow>
          if is_persistence_error p then EVIDENCE_PERSISTENCE_FAILED else code_of_text (persistence_text other p)
      | _ \<Rightarrow> code_of_text (error_text other e))"

definition default_failure_message :: string where
  "default_failure_message = ''Discovery execution failed.''"

definition safe_execution_message :: "string \<Rightarrow> string" where
  "safe_execution_message text =
     (let message = strip text
      in if message = [] then default_failure_message
         else let redacted = take 1000 (re_sub match_reference (re_sub match_assignment message))
              in if redacted = [] then default_failure_message else redacted)"

section \<open>Evidence\<close>

definition sensitive_terms :: "string list" where
  "sensitive_terms =
     [''password'', ''secret'', ''token'', ''credential'', ''api_key'', ''auth_pass'', ''enable_pass'', ''community'']"

definition sensitive_key :: "string \<Rightarrow> bool" where
  "sensitive_key k \<longleftrightarrow> list_ex (\<lambda>t. contains t (lower k)) sensitive_terms"

text \<open>\<open>(password|secret)\s+(\S+)\<close>: the first word after the key word is replaced.\<close>

definition match_cli_secret :: matcher where
  "match_cli_secret s =
     (case keyword_at [''password'', ''secret''] s of
        None \<Rightarrow> None
      | Some n \<Rightarrow>
          let body = dropWhile is_space (drop n s); after = dropWhile (\<lambda>c. \<not> is_space c) body
          in if length body = length (drop n s) \<or> body = [] then None
             else Some (length s - length after, take n s @ '' [REDACTED]''))"

fun sanitize_payload :: "pyval \<Rightarrow> pyval" where
  "sanitize_payload (PDict d) =
     PDict (map (\<lambda>(k, v). (k, if sensitive_key k then PStr ''[REDACTED]'' else sanitize_payload v)) d)"
| "sanitize_payload (PList vs) = PList (map sanitize_payload vs)"
| "sanitize_payload (PStr s) = PStr (re_sub match_cli_secret s)"
| "sanitize_payload PNone = PNone"
| "sanitize_payload (PBool b) = PBool b"
| "sanitize_payload (PInt i) = PInt i"

definition evidence_payload_of :: "payload \<Rightarrow> payload" where
  "evidence_payload_of p = (case sanitize_payload (PDict p) of PDict d \<Rightarrow> d | v \<Rightarrow> [(''data'', v)])"

text \<open>\<open>_payload_string\<close>; \<open>text\<close> is Python's \<open>str\<close>.\<close>

definition payload_string :: "(pyval \<Rightarrow> string) \<Rightarrow> payload \<Rightarrow> string \<Rightarrow> pyval \<Rightarrow> string option" where
  "payload_string text p key fallback =
     (let v = (case dict_get p key of None \<Rightarrow> fallback | Some v \<Rightarrow> v)
      in if v = PNone then None else Some (text v))"

section \<open>No sensitive key keeps its value\<close>

text \<open>The dictionaries of a value, at any depth.\<close>

inductive inside :: "payload \<Rightarrow> pyval \<Rightarrow> bool" where
  inside_here: "inside d (PDict d)"
| inside_item: "v \<in> set vs \<Longrightarrow> inside d v \<Longrightarrow> inside d (PList vs)"
| inside_value: "(k, v) \<in> set e \<Longrightarrow> inside d v \<Longrightarrow> inside d (PDict e)"

inductive_simps inside_PDict: "inside d (PDict e)"
inductive_simps inside_PList: "inside d (PList vs)"
inductive_simps inside_leaf [simp]:
  "inside d PNone" "inside d (PBool b)" "inside d (PInt i)" "inside d (PStr s)"

lemma sanitized_keys:
  "inside d (sanitize_payload v) \<Longrightarrow> (k, x) \<in> set d \<Longrightarrow> sensitive_key k \<Longrightarrow> x = PStr ''[REDACTED]''"
proof (induction v rule: sanitize_payload.induct)
  case (1 e)
  note IH = "1.IH" and entry = "1.prems"(2,3)
  have "inside d (PDict (map (\<lambda>(k, v). (k, if sensitive_key k then PStr ''[REDACTED]'' else sanitize_payload v)) e))"
    using "1.prems"(1) by simp
  then consider "d = map (\<lambda>(k, v). (k, if sensitive_key k then PStr ''[REDACTED]'' else sanitize_payload v)) e"
    | k' v' where "(k', v') \<in> set e" "\<not> sensitive_key k'" "inside d (sanitize_payload v')"
    unfolding inside_PDict by (auto split: if_splits)
  then show ?case
  proof cases
    case 1
    with entry show ?thesis by auto
  next
    case (2 k' v')
    then show ?thesis using IH [OF 2(1) refl] entry by blast
  qed
next
  case (2 vs)
  then show ?case by (auto simp: inside_PList)
qed simp_all

text \<open>
  C23: No dictionary of a stored evidence payload, at any depth, keeps a value under a key that names a
  password, secret, token, credential, key or community; and the payload keeps its keys in their order.
\<close>

theorem evidence_is_sanitized:
  "map fst (evidence_payload_of p) = map fst p \<and>
     (\<forall>d k v. inside d (PDict (evidence_payload_of p)) \<and> (k, v) \<in> set d \<and> sensitive_key k \<longrightarrow>
        v = PStr ''[REDACTED]'')"
proof -
  have "PDict (evidence_payload_of p) = sanitize_payload (PDict p)" by (simp add: evidence_payload_of_def)
  then have "inside d (PDict (evidence_payload_of p)) \<Longrightarrow> (k, v) \<in> set d \<Longrightarrow> sensitive_key k \<Longrightarrow>
      v = PStr ''[REDACTED]''" for d k v using sanitized_keys by metis
  moreover have "map fst (evidence_payload_of p) = map fst p"
    by (simp add: evidence_payload_of_def comp_def case_prod_unfold)
  ultimately show ?thesis by blast
qed

text \<open>
  In command output only one word is replaced: after the type digit of a Cisco password the hash stays.
\<close>

lemma cisco_hash_survives:
  "sanitize_payload (PStr ''enable secret 5 $1$hash'') = PStr ''enable secret [REDACTED] $1$hash''"
proof -
  have "re_sub match_cli_secret ''enable secret 5 $1$hash'' = ''enable secret [REDACTED] $1$hash''" by code_simp
  then show ?thesis by simp
qed

definition snmp_payload :: payload where
  "snmp_payload = [(''facts'', PList [PDict [(''SNMP-Community'', PStr ''public''), (''port'', PInt 161)]])]"

theorem evidence_is_sanitized_witness:
  "\<exists>d v. inside d (PDict (evidence_payload_of snmp_payload)) \<and> (''SNMP-Community'', v) \<in> set d \<and>
     sensitive_key ''SNMP-Community'' \<and> v = PStr ''[REDACTED]''"
proof -
  have key: "sensitive_key ''SNMP-Community''" by code_simp
  have "\<not> sensitive_key ''facts''" by code_simp
  then obtain v d where d: "evidence_payload_of snmp_payload = [(''facts'', PList [PDict d])]"
      "(''SNMP-Community'', v) \<in> set d"
    by (simp add: evidence_payload_of_def snmp_payload_def)
  have "inside d (PDict (evidence_payload_of snmp_payload))"
    unfolding d(1) by (rule inside_value, simp, rule inside_item, simp, rule inside_here)
  then show ?thesis using evidence_is_sanitized [of snmp_payload] d(2) key by blast
qed

definition http_target :: DiscoveryTargetRecordView where
  "http_target = \<lparr>view_id = 1, view_tenant_id = ''acme'', view_identifier = ''sw1'',
     view_address = ''10.0.0.1'', view_enabled = True,
     view_metadata = [(''allow_insecure_http'', PBool True), (''transport_name'', PStr ''snmp''),
       (''allowed_fallback_transports'', PList [PStr ''SNMP'', PStr ''http''])]\<rparr>"

lemma demo_policy:
  "map_option transport_names (case resolve_transport_policy [] http_target of Inl e \<Rightarrow> None | Inr p \<Rightarrow> Some p) =
     Some [''snmp'', ''ssh'']"
  by code_simp

theorem execution_policy_secure_witness:
  "\<exists>p. resolve_transport_policy [] http_target = Inr p \<and> transport_names p = [''snmp'', ''ssh''] \<and>
     distinct (transport_names p) \<and> hd (transport_names p) = lower ''snmp'' \<and>
     HTTP \<notin> entry_capability ` set (transports p)"
proof -
  obtain p where p: "resolve_transport_policy [] http_target = Inr p" "transport_names p = [''snmp'', ''ssh'']"
    using demo_policy by (cases "resolve_transport_policy [] http_target") auto
  have low: "lookup (view_metadata http_target) ''transport_name'' = PStr ''snmp''"
    "\<not> truthy (lookup (view_metadata http_target) ''allow_insecure_telnet'')"
    by (simp_all add: http_target_def lookup_def dict_get_def)
  have "lower ''snmp'' = ''snmp''" by code_simp
  then show ?thesis using execution_policy_secure [of "[]" http_target] p low by auto
qed

end
