(* ===== verification/Execution_Runtime.thy ===== *)
theory Execution_Runtime
  imports Execution_Policy Job_Cancellation Actions
begin

text \<open>
  What the run of a discovery job works with: the collectors and their registry
  (\<^verbatim>\<open>collectors/registry.py\<close>, \<^verbatim>\<open>collectors/base.py\<close>, \<^verbatim>\<open>collectors/context.py\<close>,
  \<^verbatim>\<open>discovery/capabilities.py\<close>), the state of the run, its environment, and the statements the service
  issues. A collector is given by how its calls end.
\<close>

section \<open>Collectors\<close>

datatype CollectorCapability =
    CAP_SSH | CAP_TELNET | CAP_SNMP | CAP_HTTP | CAP_HTTPS | CAP_CDP | CAP_LLDP | CAP_CONFIG_BACKUP
  | CAP_INTERFACES | CAP_VLANS | CAP_MAC_TABLE | CAP_ARP_TABLE | CAP_POWER | CAP_POE

fun cap_value :: "CollectorCapability \<Rightarrow> string" where
  "cap_value CAP_SSH = ''SSH''"
| "cap_value CAP_TELNET = ''TELNET''"
| "cap_value CAP_SNMP = ''SNMP''"
| "cap_value CAP_HTTP = ''HTTP''"
| "cap_value CAP_HTTPS = ''HTTPS''"
| "cap_value CAP_CDP = ''CDP''"
| "cap_value CAP_LLDP = ''LLDP''"
| "cap_value CAP_CONFIG_BACKUP = ''CONFIG_BACKUP''"
| "cap_value CAP_INTERFACES = ''INTERFACES''"
| "cap_value CAP_VLANS = ''VLANS''"
| "cap_value CAP_MAC_TABLE = ''MAC_TABLE''"
| "cap_value CAP_ARP_TABLE = ''ARP_TABLE''"
| "cap_value CAP_POWER = ''POWER''"
| "cap_value CAP_POE = ''POE''"

definition all_caps :: "CollectorCapability list" where
  "all_caps = [CAP_SSH, CAP_TELNET, CAP_SNMP, CAP_HTTP, CAP_HTTPS, CAP_CDP, CAP_LLDP, CAP_CONFIG_BACKUP,
     CAP_INTERFACES, CAP_VLANS, CAP_MAC_TABLE, CAP_ARP_TABLE, CAP_POWER, CAP_POE]"

definition parse_cap :: "string \<Rightarrow> CollectorCapability option" where
  "parse_cap s = find (\<lambda>c. cap_value c = s) all_caps"

definition TRANSPORT_TO_COLLECTOR_CAPABILITY :: "(string, CollectorCapability) dict" where
  "TRANSPORT_TO_COLLECTOR_CAPABILITY =
     [(''ssh'', CAP_SSH), (''telnet'', CAP_TELNET), (''snmp'', CAP_SNMP), (''http'', CAP_HTTP),
      (''https'', CAP_HTTPS)]"

record CollectorContext =
  ctx_identifier :: string
  ctx_address :: string
  ctx_tenant_id :: string
  ctx_capabilities :: "CollectorCapability list"
  ctx_run_id :: uuid
  ctx_metadata :: payload

text \<open>
  \<open>coll_parser\<close> is the attribute \<open>parser\<close>, if there is one, by its name; \<open>coll_checkpoints\<close> how often
  \<open>collect\<close> calls the cancellation check of its context.
\<close>

record Collector =
  coll_name :: string
  coll_capabilities :: "CollectorCapability list"
  coll_parser :: "string option"
  coll_checkpoints :: nat
  run_health :: "CollectorContext \<Rightarrow> exc option"
  run_collect :: "CollectorContext \<Rightarrow> exc + payload"
  run_normalize :: "CollectorContext \<Rightarrow> payload \<Rightarrow> exc + LiveInventorySnapshot"

type_synonym collector_registry = "(string, Collector) dict"

definition collector_register :: "Collector \<Rightarrow> collector_registry \<Rightarrow> collector_registry" where
  "collector_register c reg = dict_set (coll_name c) c reg"

definition collector_get :: "collector_registry \<Rightarrow> string \<Rightarrow> exc + Collector" where
  "collector_get reg name =
     (case dict_get reg name of
        None \<Rightarrow> Inl \<lparr>exc_class = OtherException ''KeyError'', exc_text = repr_text (''Unknown collector: '' @ name)\<rparr>
      | Some c \<Rightarrow> Inr c)"

definition collector_alias :: "string \<Rightarrow> string \<Rightarrow> collector_registry \<Rightarrow> exc + collector_registry" where
  "collector_alias alias name reg =
     (if dict_get reg alias \<noteq> None
      then Inl \<lparr>exc_class = OtherException ''ValueError'',
                exc_text = ''Collector alias '' @ [CHR 0x27] @ alias @ [CHR 0x27] @ '' is already registered.''\<rparr>
      else bind_result (collector_get reg name) (\<lambda>c. Inr (dict_set alias c reg)))"

definition collector_select :: "collector_registry \<Rightarrow> CollectorCapability list \<Rightarrow> Collector list" where
  "collector_select reg caps = filter (\<lambda>c. set caps \<subseteq> set (coll_capabilities c)) (dict_values reg)"

text \<open>\<open>build_context\<close>: the metadata of the target, then the identifier of the job.\<close>

definition build_context ::
  "Collector \<Rightarrow> string \<Rightarrow> payload \<Rightarrow> DiscoveryTargetRecordView \<Rightarrow> DiscoveryJobRecord \<Rightarrow> CollectorContext" where
  "build_context c identifier metadata target job =
     \<lparr>ctx_identifier = identifier, ctx_address = view_address target, ctx_tenant_id = view_tenant_id target,
      ctx_capabilities = coll_capabilities c, ctx_run_id = job_run_id job,
      ctx_metadata = dict_set ''job_id'' (PStr (uuid_text (job_id job))) metadata\<rparr>"

text \<open>The capabilities a job requests; iterating over a value that is no collection raises.\<close>

definition requested_texts :: "DiscoveryJobRecord \<Rightarrow> exc + string list" where
  "requested_texts job =
     (let not_iterable = (\<lambda>t. Inl \<lparr>exc_class = OtherException ''TypeError'',
            exc_text = [CHR 0x27] @ t @ [CHR 0x27] @ '' object is not iterable''\<rparr>)
      in case dict_get (requested_capabilities job) ''capabilities'' of
           None \<Rightarrow> Inr []
         | Some (PList vs) \<Rightarrow> Inr (map py_str vs)
         | Some (PStr s) \<Rightarrow> Inr (map (\<lambda>c. [c]) s)
         | Some (PDict d) \<Rightarrow> Inr (map fst d)
         | Some PNone \<Rightarrow> not_iterable ''NoneType''
         | Some (PBool b) \<Rightarrow> not_iterable ''bool''
         | Some (PInt i) \<Rightarrow> not_iterable ''int'')"

definition requested_caps :: "DiscoveryJobRecord \<Rightarrow> exc + CollectorCapability list" where
  "requested_caps job = bind_result (requested_texts job) (\<lambda>ts. Inr (List.map_filter parse_cap ts))"

definition requested_name :: "DiscoveryJobRecord \<Rightarrow> string option" where
  "requested_name job =
     (case dict_get (requested_capabilities job) ''collector_name'' of
        Some (PStr s) \<Rightarrow> if s = [] then None else Some s
      | _ \<Rightarrow> None)"

definition resolve_collector ::
  "collector_registry \<Rightarrow> DiscoveryJobRecord \<Rightarrow> DiscoveryTargetRecordView \<Rightarrow>
   execution_error + Collector \<times> CollectorContext" where
  "resolve_collector reg job target =
     (case requested_caps job of
        Inl e \<Rightarrow> Inl (Raised_Exc e)
      | Inr caps \<Rightarrow>
          bind_result
            (case requested_name job of
               Some name \<Rightarrow>
                 (case collector_get reg name of
                    Inl e \<Rightarrow> Inl (ExecutionFailure UNSUPPORTED_PLATFORM
                                ''No supported collector was found for the target.'')
                  | Inr c \<Rightarrow> Inr c)
             | None \<Rightarrow>
                 (case collector_select reg caps of
                    [] \<Rightarrow> Inl (ExecutionFailure UNSUPPORTED_CAPABILITY
                              ''No collector supports the requested capabilities.'')
                  | c # _ \<Rightarrow> Inr c))
            (\<lambda>c. Inr (c, build_context c (view_identifier target) (view_metadata target) target job)))"

section \<open>The run of a job and its environment\<close>

text \<open>
  The run numbers its statements. \<open>others k\<close> is what other transactions commit before statement \<open>k\<close>,
  \<open>clock_at k\<close> the clock then, \<open>lease_gone k\<close> the answer of \<open>lease_lost\<close>; \<open>attempt_clock\<close> gives start and
  end of the attempts of a fallback. \<open>process_payload\<close> is the parser and normalisation pipeline,
  \<open>sha256\<close> the digest of a payload, \<open>error_string\<close> the text of a repository error that has none in the
  model, \<open>prober\<close> the service prober.
\<close>

record exec_world =
  clock_at :: "nat \<Rightarrow> time"
  others :: "nat \<Rightarrow> environment"
  lease_gone :: "nat \<Rightarrow> bool"
  attempt_clock :: "int \<Rightarrow> time \<times> time"
  synchronized_session :: bool
  sha256 :: "payload \<Rightarrow> string"
  error_string :: "persistence_error \<Rightarrow> string"
  prober :: "TransportService list \<Rightarrow> exc + HostProbeResult"
  process_payload :: "string \<Rightarrow> string option \<Rightarrow> uuid \<Rightarrow> payload \<Rightarrow> payload \<Rightarrow> exc + LiveInventorySnapshot"

record exec_state =
  exec_session :: session
  exec_steps :: nat
  exec_attempt :: "DiscoveryTransportAttemptRecord option"

type_synonym 'a exec = "(exec_state, execution_error, 'a) action"

definition on_session :: "(session \<Rightarrow> session) \<Rightarrow> exec_state \<Rightarrow> exec_state" where
  "on_session f x = x\<lparr>exec_session := f (exec_session x)\<rparr>"

definition db_read :: "(session \<Rightarrow> 'a) \<Rightarrow> 'a exec" where
  "db_read f = reads (\<lambda>x. f (exec_session x))"

definition db_write :: "(session \<Rightarrow> session) \<Rightarrow> unit exec" where
  "db_write f = modify (on_session f)"

definition read_clock :: "exec_world \<Rightarrow> time exec" where
  "read_clock w x = (x\<lparr>exec_steps := Suc (exec_steps x)\<rparr>, Inr (clock_at w (exec_steps x)))"

text \<open>Waiting: other transactions may commit meanwhile.\<close>

definition pause :: "exec_world \<Rightarrow> unit exec" where
  "pause w x =
     ((on_session (others w (exec_steps x)) x)\<lparr>exec_steps := Suc (exec_steps x)\<rparr>, Inr ())"

text \<open>A repository operation, with what others commit between its read and its write.\<close>

definition repo_op :: "exec_world \<Rightarrow> (environment \<Rightarrow> time \<Rightarrow> session \<Rightarrow> 'a outcome) \<Rightarrow> 'a exec" where
  "repo_op w f x =
     (case f (others w (exec_steps x)) (clock_at w (exec_steps x)) (exec_session x) of
        (s, Inl e) \<Rightarrow> (x\<lparr>exec_session := s, exec_steps := Suc (exec_steps x)\<rparr>, Inl (Repository_Error e))
      | (s, Inr a) \<Rightarrow> (x\<lparr>exec_session := s, exec_steps := Suc (exec_steps x)\<rparr>, Inr a))"

definition lift :: "execution_error + 'a \<Rightarrow> 'a exec" where
  "lift r x = (x, r)"

definition lift_exc :: "exc + 'a \<Rightarrow> 'a exec" where
  "lift_exc r = (case r of Inl e \<Rightarrow> raises (Raised_Exc e) | Inr a \<Rightarrow> returns a)"

section \<open>Statements of the service\<close>

definition copy_cancellation ::
  "exec_world \<Rightarrow> string \<Rightarrow> uuid \<Rightarrow> DiscoveryJobRecord option \<Rightarrow> unit exec" where
  "copy_cancellation w tenant i parent =
     (case parent of
        None \<Rightarrow> returns ()
      | Some p \<Rightarrow>
          (case cancellation_requested_by p of
             None \<Rightarrow> returns ()
           | Some user \<Rightarrow>
               and_then (repo_op w (\<lambda>env now.
                 request_cancellation env (synchronized_session w) now tenant i user (cancel_message p)))
               (\<lambda>_. returns ())))"

definition check_cancelled :: "exec_world \<Rightarrow> string \<Rightarrow> uuid \<Rightarrow> uuid option \<Rightarrow> unit exec" where
  "check_cancelled w tenant i parent =
     and_then (reads (\<lambda>x. lease_gone w (exec_steps x))) (\<lambda>gone.
     and_then (pause w) (\<lambda>_.
     if gone then raises LeaseLost
     else and_then (db_read (cancellation_requested tenant i)) (\<lambda>mine.
       if mine then raises CancellationRequested
       else (case parent of
               None \<Rightarrow> returns ()
             | Some p \<Rightarrow>
                 and_then (db_read (cancellation_requested tenant p)) (\<lambda>theirs.
                   if \<not> theirs then returns ()
                   else and_then (db_read (repo_get tenant p)) (\<lambda>pj.
                        and_then (copy_cancellation w tenant i pj) (\<lambda>_. raises CancellationRequested)))))))"

definition find_result :: "string \<Rightarrow> uuid \<Rightarrow> session \<Rightarrow> DiscoveryDeviceResultRecord option" where
  "find_result tenant i s =
     sql_first (\<lambda>r. child_job_id r = i \<and> result_tenant_id r = tenant) (device_results (work s))"

text \<open>The INSERT of a device result is checked against its foreign keys and the unique child.\<close>

definition result_insert ::
  "(uuid \<Rightarrow> DiscoveryDeviceResultRecord) \<Rightarrow> session \<Rightarrow> DiscoveryDeviceResultRecord outcome" where
  "result_insert draft s =
     (let (i, s1) = uuid4 s; r = draft i
      in if result_refs_ok (work s1) r \<and> child_job_id r \<notin> set (map child_job_id (device_results (work s1)))
         then (put_results (device_results (work s1) @ [r]) s1, Inr r)
         else (s1, Inl (IntegrityError ''constraint failed'')))"

definition set_result ::
  "uuid \<Rightarrow> (DiscoveryDeviceResultRecord \<Rightarrow> DiscoveryDeviceResultRecord) \<Rightarrow> session \<Rightarrow> session" where
  "set_result i f s = put_results (sql_update (\<lambda>r. result_id r = i) f (device_results (work s))) s"

definition blank_result ::
  "string \<Rightarrow> uuid \<Rightarrow> DiscoveryJobRecord \<Rightarrow> string \<Rightarrow> string \<Rightarrow> time option \<Rightarrow> uuid \<Rightarrow>
   DiscoveryDeviceResultRecord" where
  "blank_result tenant parent job address state started i =
     \<lparr>result_id = i, result_tenant_id = tenant, discovery_job_id = parent, child_job_id = job_id job,
      result_address = address, result_hostname = None, result_vendor = None, result_platform = None,
      device_state = state, result_state = None, result_selected_transport = None,
      result_failure_code = None, result_failure_message = None, result_started_at = started,
      result_completed_at = None, result_correlation_id = job_correlation_id job\<rparr>"

text \<open>\<open>str(metadata.get(key, fallback))\<close>\<close>

definition metadata_text :: "payload \<Rightarrow> string \<Rightarrow> string \<Rightarrow> string" where
  "metadata_text d key fallback = (case dict_get d key of None \<Rightarrow> fallback | Some v \<Rightarrow> py_str v)"

definition start_transport_attempt ::
  "exec_world \<Rightarrow> DiscoveryJobRecord \<Rightarrow> DiscoveryTargetRecordView \<Rightarrow> unit exec" where
  "start_transport_attempt w job target =
     and_then (db_read (find_result (view_tenant_id target) (job_id job))) (\<lambda>found.
     and_then (case found of
                 Some r \<Rightarrow> returns r
               | None \<Rightarrow> repo_op w (\<lambda>_ now. result_insert (blank_result (view_tenant_id target) (job_id job) job
                           (view_address target) (status_value RUNNING) (Some now)))) (\<lambda>r.
     and_then (repo_op w (\<lambda>_ now. attempt_start now (view_tenant_id target) (result_id r)
                 (metadata_text (view_metadata target) ''transport_name'' ''unknown'') 1 (job_correlation_id job))) (\<lambda>a.
     modify (\<lambda>x. x\<lparr>exec_attempt := Some a\<rparr>))))"

definition finish_attempt ::
  "exec_world \<Rightarrow> string \<Rightarrow> DiscoveryFailureCode option \<Rightarrow> string option \<Rightarrow> unit exec" where
  "finish_attempt w result code message =
     and_then (reads exec_attempt) (\<lambda>attempt.
       case attempt of
         None \<Rightarrow> returns ()
       | Some a \<Rightarrow>
           and_then (repo_op w (\<lambda>_ now. attempt_finish now a result (map_option code_value code) message))
             (\<lambda>_. returns ()))"

text \<open>The evidence of a collection.\<close>

definition build_evidence ::
  "exec_world \<Rightarrow> DiscoveryJobRecord \<Rightarrow> DiscoveryTargetRecordView \<Rightarrow> Collector \<Rightarrow> payload \<Rightarrow> DiscoveryEvidence exec" where
  "build_evidence w job target c payload =
     and_then (read_clock w) (\<lambda>now x.
       let part = (\<lambda>key fallback. case dict_get payload key of
             Some v \<Rightarrow> py_str v | None \<Rightarrow> metadata_text (view_metadata target) fallback ''unknown'');
           (i, s) = uuid4 (exec_session x);
           message = (\<lambda>m. Raised_Exc \<lparr>exc_class = OtherException ''ValueError'', exc_text = m\<rparr>)
       in (x\<lparr>exec_session := s\<rparr>,
           map_sum message (\<lambda>e. e)
             (bind_result (new_traceability (view_tenant_id target) (view_id target) (job_id job) (job_run_id job))
               (\<lambda>trace. make_evidence (sha256 w)
                 \<lparr>traceability = trace, collector_name = coll_name c,
                  ev_platform = part ''platform_family'' ''platform_family'',
                  ev_transport = part ''transport'' ''transport_name'', ev_type = ''raw_discovery'',
                  ev_command = ''collector.collect'', ev_payload = evidence_payload_of payload,
                  ev_captured_at = now, ev_sequence = 0, ev_parser_version = None,
                  ev_normalization_version = None, ev_id = i, content_hash = []\<rparr>))))"

definition add_live_snapshot ::
  "string \<Rightarrow> uuid option \<Rightarrow> LiveInventorySnapshot \<Rightarrow> time \<Rightarrow> session \<Rightarrow> SnapshotRecord outcome" where
  "add_live_snapshot tenant run snapshot now s =
     (let row = live_snapshot_record now (next_uuid s) tenant run snapshot;
          s1 = s\<lparr>next_uuid := next_uuid s + live_rows snapshot\<rparr>
      in (s1\<lparr>work := (work s1)\<lparr>snapshots := snapshots (work s1) @ [row]\<rparr>\<rparr>, Inr row))"

definition result_values_of ::
  "DeviceSnapshot option \<Rightarrow> DiscoveryTargetRecordView \<Rightarrow> string option \<Rightarrow> string \<Rightarrow> time \<Rightarrow>
   DiscoveryDeviceResultRecord \<Rightarrow> DiscoveryDeviceResultRecord" where
  "result_values_of device target transport state now r =
     r\<lparr>result_address := (case device of None \<Rightarrow> view_address target
          | Some d \<Rightarrow> if given (ds_management_ip d) then the (ds_management_ip d) else view_address target),
       result_hostname := map_option ds_name device,
       result_vendor := (case device of None \<Rightarrow> None | Some d \<Rightarrow> ds_manufacturer d),
       result_platform := (case device of None \<Rightarrow> None | Some d \<Rightarrow> ds_platform d),
       device_state := status_value SUCCEEDED, result_selected_transport := transport,
       result_failure_code := None, result_failure_message := None, result_state := Some state,
       result_completed_at := Some now\<rparr>"

definition record_device_result ::
  "exec_world \<Rightarrow> DiscoveryJobRecord \<Rightarrow> DiscoveryTargetRecordView \<Rightarrow> DeviceSnapshot list \<Rightarrow> string option \<Rightarrow>
   string \<Rightarrow> unit exec" where
  "record_device_result w job target devices transport state =
     and_then (db_read (find_result (view_tenant_id target) (job_id job))) (\<lambda>found.
     and_then (read_clock w) (\<lambda>now.
       let f = result_values_of (case devices of [] \<Rightarrow> None | d # _ \<Rightarrow> Some d) target transport state now
       in case found of
            Some r \<Rightarrow> db_write (set_result (result_id r) f)
          | None \<Rightarrow>
              and_then (repo_op w (\<lambda>_ _. result_insert (\<lambda>i. f (blank_result (view_tenant_id target) (job_id job) job
                (view_address target) (status_value SUCCEEDED) (job_started_at job) i))))
              (\<lambda>_. returns ())))"

definition state_of_failure :: "DiscoveryFailureCode \<Rightarrow> DiscoveryResultState" where
  "state_of_failure code =
     (if code \<in> {CONNECTION_FAILED, CONNECTION_TIMEOUT, HOST_UNREACHABLE, DISCOVERY_TIMEOUT} then UNREACHABLE
      else if code = DiscoveryFailureCode.AUTHENTICATION_FAILED then DiscoveryResultState.AUTHENTICATION_FAILED
      else REACHABLE_NO_MANAGEMENT)"

definition failure_values ::
  "DiscoveryTargetRecordView \<Rightarrow> DiscoveryFailureCode \<Rightarrow> string option \<Rightarrow> string option \<Rightarrow> time \<Rightarrow>
   DiscoveryDeviceResultRecord \<Rightarrow> DiscoveryDeviceResultRecord" where
  "failure_values target code message transport now r =
     r\<lparr>result_address := view_address target, device_state := status_value FAILED,
       result_state := Some (result_value (state_of_failure code)), result_selected_transport := transport,
       result_failure_code := Some (code_value code), result_failure_message := message,
       result_completed_at := Some now\<rparr>"

definition started_or_now :: "DiscoveryJobRecord \<Rightarrow> time \<Rightarrow> time option" where
  "started_or_now job now = (case job_started_at job of Some t \<Rightarrow> Some t | None \<Rightarrow> Some now)"

definition ensure_device_result_for_failure ::
  "exec_world \<Rightarrow> DiscoveryJobRecord \<Rightarrow> DiscoveryTargetRecordView \<Rightarrow> DiscoveryFailureCode \<Rightarrow> string option \<Rightarrow>
   string option \<Rightarrow> unit exec" where
  "ensure_device_result_for_failure w job target code message transport =
     and_then (db_read (find_result (view_tenant_id target) (job_id job))) (\<lambda>found.
     and_then (read_clock w) (\<lambda>now.
       let f = failure_values target code message transport now
       in case found of
            Some r \<Rightarrow> db_write (set_result (result_id r) f)
          | None \<Rightarrow>
              and_then (repo_op w (\<lambda>_ now. result_insert (\<lambda>i. f (blank_result (view_tenant_id target) (job_id job) job
                (view_address target) (status_value FAILED) (started_or_now job now) i))))
              (\<lambda>_. returns ())))"

definition single_run_values ::
  "time \<Rightarrow> DiscoveryResultState \<Rightarrow> DiscoveryRunRecord \<Rightarrow> DiscoveryRunRecord" where
  "single_run_values now state r =
     (let one = (\<lambda>s. Some (if state = s then 1 else 0 :: nat))
      in r\<lparr>total_scanned := Some 1, total_discovered := one DISCOVERED, total_unreachable := one UNREACHABLE,
           total_reachable_no_management := one REACHABLE_NO_MANAGEMENT,
           total_authentication_failed := one DiscoveryResultState.AUTHENTICATION_FAILED,
           total_partial_discovery := one PARTIAL_DISCOVERY,
           run_status := (if state = DISCOVERED then RUN_SUCCEEDED else RUN_FAILED),
           run_finished_at := Some now\<rparr>)"

definition finalize_single_device_run :: "exec_world \<Rightarrow> uuid \<Rightarrow> DiscoveryResultState \<Rightarrow> unit exec" where
  "finalize_single_device_run w i state =
     and_then (db_read (\<lambda>s. get_run s i)) (\<lambda>found.
       if found = None then returns ()
       else and_then (read_clock w) (\<lambda>now.
              db_write (\<lambda>s. put_runs (sql_update (\<lambda>r. run_id r = i) (single_run_values now state) (runs (work s))) s)))"

end
