(* ===== verification/Discovery_Execution.thy ===== *)
theory Discovery_Execution
  imports Execution_Runtime
begin

text \<open>
  \<open>DiscoveryExecutionService\<close> of \<^verbatim>\<open>discovery/execution.py\<close>: the claim, the run over one transport, the run
  over several with fallback, and the handlers that finish a job that was cancelled, lost its lease
  or failed. \<open>reg\<close> is the collector registry, \<open>profiles\<close> the table of credential profiles.
\<close>

record DiscoveryExecutionOutcome =
  outcome_job :: "DiscoveryJobRecord option"
  executed :: bool
  evidence_count :: nat

definition outcome_of :: "DiscoveryJobRecord option \<Rightarrow> bool \<Rightarrow> nat \<Rightarrow> DiscoveryExecutionOutcome" where
  "outcome_of job done n = \<lparr>outcome_job = job, executed = done, evidence_count = n\<rparr>"

section \<open>Transport configurations\<close>

text \<open>The payload check of a collector with a parser: the identity of the first device, if it has one.\<close>

definition device_identity :: "DeviceSnapshot \<Rightarrow> payload" where
  "device_identity d =
     List.map_filter (\<lambda>(k, v). if given v then Some (k, PStr (the v)) else None)
       [(''model'', ds_model d), (''serial_number'', ds_serial_number d),
        (''software_version'', ds_software_version d), (''product_id'', ds_product_id d),
        (''base_mac'', ds_base_mac d), (''uptime'', ds_uptime d),
        (''hardware_revision'', ds_hardware_revision d)]"

definition validate_of :: "Collector \<Rightarrow> CollectorContext \<Rightarrow> payload \<Rightarrow> exc + payload option" where
  "validate_of c ctx payload =
     bind_result (run_normalize c ctx payload) (\<lambda>snapshot.
       case live_devices snapshot of
         [] \<Rightarrow> Inr None
       | d # _ \<Rightarrow> Inr (if device_identity d = [] then None else Some (device_identity d)))"

definition select_collector ::
  "collector_registry \<Rightarrow> DiscoveryJobRecord \<Rightarrow> CollectorCapability list \<Rightarrow> Collector option" where
  "select_collector reg job caps =
     (let named = (case requested_name job of
                     None \<Rightarrow> None
                   | Some n \<Rightarrow> (case collector_get reg n of Inl e \<Rightarrow> None | Inr c \<Rightarrow> Some c));
          first = (\<lambda>cs. case cs of [] \<Rightarrow> None | c # _ \<Rightarrow> Some c)
      in case named of
           Some c \<Rightarrow> Some c
         | None \<Rightarrow>
             (case first (collector_select reg caps) of
                Some c \<Rightarrow> Some c
              | None \<Rightarrow> first (collector_select reg [])))"

definition transport_config ::
  "collector_registry \<Rightarrow> DiscoveryJobRecord \<Rightarrow> DiscoveryTargetRecordView \<Rightarrow> MultiTransportPolicy \<Rightarrow>
   TransportPolicyEntry \<Rightarrow> (TransportAttemptConfig \<times> Collector) option" where
  "transport_config reg job target policy e =
     (if entry_capability e = TELNET \<and> \<not> allow_insecure policy \<or>
         entry_capability e = HTTP \<and> \<not> allow_insecure_http policy then None
      else
        case (case dict_get TRANSPORT_TO_COLLECTOR_CAPABILITY (lower (entry_name e)) of
                Some c \<Rightarrow> Inr [c] | None \<Rightarrow> requested_caps job) of
          Inl err \<Rightarrow> None
        | Inr caps \<Rightarrow>
            (case select_collector reg job caps of
               None \<Rightarrow> None
             | Some c \<Rightarrow>
                 let ctx = build_context c (view_identifier target @ '':'' @ entry_name e)
                       (dict_set ''transport_name'' (PStr (entry_name e)) (view_metadata target)) target job
                 in Some (\<lparr>config_name = entry_name e, config_capability = entry_capability e,
                           config_insecure = entry_insecure e, health_check = run_health c ctx,
                           collect = map_sum (\<lambda>err. err) PDict (run_collect c ctx),
                           validate_payload = (if coll_parser c = None then None else Some (validate_of c ctx))\<rparr>, c)))"

definition record_unsupported_credential_attempt ::
  "exec_world \<Rightarrow> DiscoveryJobRecord \<Rightarrow> DiscoveryTargetRecordView \<Rightarrow> string \<Rightarrow> unit exec" where
  "record_unsupported_credential_attempt w job target transport =
     catches
       (and_then (db_read (find_result (view_tenant_id target) (job_id job))) (\<lambda>found.
          case found of
            None \<Rightarrow> returns ()
          | Some r \<Rightarrow>
              and_then (db_read (\<lambda>s. sql_first (\<lambda>a. attempt_device_result_id a = result_id r \<and>
                  attempt_transport a = transport) (transport_attempts (work s)))) (\<lambda>existing.
              if existing \<noteq> None then returns ()
              else
                and_then (repo_op w (\<lambda>_ now. attempt_start now (view_tenant_id target) (result_id r) transport 0
                            (job_correlation_id job))) (\<lambda>a.
                and_then (repo_op w (\<lambda>_ now. attempt_finish now a ''failed''
                            (Some (code_value UNSUPPORTED_CREDENTIAL)) None))
                  (\<lambda>_. returns ())))))
       (\<lambda>_. returns ())"

fun build_transport_configs ::
  "exec_world \<Rightarrow> collector_registry \<Rightarrow> DiscoveryJobRecord \<Rightarrow> DiscoveryTargetRecordView \<Rightarrow> MultiTransportPolicy \<Rightarrow>
   TransportPolicyEntry list \<Rightarrow> (TransportAttemptConfig \<times> Collector) list exec" where
  "build_transport_configs w reg job target policy [] = returns []"
| "build_transport_configs w reg job target policy (e # es) =
     (if \<not> entry_compatible e
      then and_then (record_unsupported_credential_attempt w job target (entry_name e)) (\<lambda>_.
             build_transport_configs w reg job target policy es)
      else and_then (build_transport_configs w reg job target policy es) (\<lambda>cs.
             returns (case transport_config reg job target policy e of None \<Rightarrow> cs | Some c \<Rightarrow> c # cs)))"

section \<open>Several transports\<close>

definition begin_result ::
  "exec_world \<Rightarrow> string \<Rightarrow> DiscoveryJobRecord \<Rightarrow> DiscoveryTargetRecordView \<Rightarrow> uuid option \<Rightarrow>
   DiscoveryDeviceResultRecord exec" where
  "begin_result w tenant job target parent =
     and_then (db_read (find_result tenant (job_id job))) (\<lambda>found.
     and_then (read_clock w) (\<lambda>now.
       case found of
         None \<Rightarrow> repo_op w (\<lambda>_ _. result_insert (blank_result tenant
                   (case parent of Some p \<Rightarrow> p | None \<Rightarrow> job_id job) job (view_address target)
                   (status_value RUNNING) (Some now)))
       | Some r \<Rightarrow>
           and_then (db_write (set_result (result_id r) (\<lambda>x. x\<lparr>result_started_at := Some now\<rparr>))) (\<lambda>_.
           returns (r\<lparr>result_started_at := Some now\<rparr>))))"

text \<open>
  The orchestrator counts whatever a collector raises, a cancellation request among it, as a failed
  attempt.
\<close>

definition run_fallback ::
  "exec_world \<Rightarrow> DiscoveryTargetRecordView \<Rightarrow> DiscoveryDeviceResultRecord \<Rightarrow>
   TransportAttemptConfig list \<Rightarrow> MultiTransportDiscoveryResult exec" where
  "run_fallback w target device configs x =
     (let (mt, s) = discover_with_fallback \<lparr>enable_service_probing = False, allow_reorder_transports = False\<rparr>
            (prober w) (attempt_clock w) (view_address target) configs (Some device) (Some False) (exec_session x)
      in (x\<lparr>exec_session := s\<rparr>, Inr mt))"

text \<open>The code and message of a failed discovery.\<close>

definition last_failure :: "TransportAttemptResult list \<Rightarrow> TransportAttemptResult option" where
  "last_failure rs = find (\<lambda>r. \<not> success r \<and> failure_code r \<noteq> None) (rev rs)"

definition workflow_codes :: "DiscoveryFailureCode set" where
  "workflow_codes =
     {DISCOVERY_FAILED, COLLECTOR_FAILED, PARSER_FAILED, NORMALIZATION_FAILED, EVIDENCE_PERSISTENCE_FAILED,
      SNAPSHOT_PERSISTENCE_FAILED}"

definition failure_of_attempt :: "TransportAttemptResult list \<Rightarrow> DiscoveryFailureCode \<times> string" where
  "failure_of_attempt rs =
     (let message = (\<lambda>r fallback. if given (failure_message r) then the (failure_message r) else fallback)
      in case last_failure rs of
           None \<Rightarrow> (DISCOVERY_FAILED, ''Discovery did not complete successfully.'')
         | Some r \<Rightarrow> (the (failure_code r), message r ''Discovery did not complete successfully.''))"

definition multi_failure :: "DiscoveryResultState \<Rightarrow> TransportAttemptResult list \<Rightarrow> DiscoveryFailureCode \<times> string" where
  "multi_failure state rs =
     (if state = UNREACHABLE
      then (CONNECTION_FAILED, ''Host was unreachable for all configured transports.'')
      else if state = REACHABLE_NO_MANAGEMENT
      then (case last_failure rs of
              Some r \<Rightarrow>
                if the (failure_code r) \<in> workflow_codes
                then (the (failure_code r),
                      if given (failure_message r) then the (failure_message r)
                      else ''Discovery failed on a reachable host.'')
                else (TRANSPORT_UNAVAILABLE,
                      ''Host is reachable but no configured management transport succeeded.'')
            | None \<Rightarrow> (TRANSPORT_UNAVAILABLE,
                      ''Host is reachable but no configured management transport succeeded.''))
      else if state = DiscoveryResultState.AUTHENTICATION_FAILED
      then (DiscoveryFailureCode.AUTHENTICATION_FAILED,
            ''Authentication failed for all applicable management transports.'')
      else if state = PARTIAL_DISCOVERY
      then (DISCOVERY_FAILED, ''Partial discovery data collected but full discovery did not complete.'')
      else failure_of_attempt rs)"

definition finish_failed_multi ::
  "exec_world \<Rightarrow> string \<Rightarrow> DiscoveryJobRecord \<Rightarrow> DiscoveryTargetRecordView \<Rightarrow> DiscoveryDeviceResultRecord \<Rightarrow>
   MultiTransportDiscoveryResult \<Rightarrow> DiscoveryExecutionOutcome exec" where
  "finish_failed_multi w tenant job target device mt =
     (let (code, message) = multi_failure (mt_result_state mt) (mt_attempts mt)
      in and_then (db_write (set_result (result_id device) (\<lambda>r. r\<lparr>device_state := status_value FAILED,
              result_failure_code := Some (code_value code), result_failure_message := Some message,
              result_state := Some (result_value (mt_result_state mt))\<rparr>))) (\<lambda>_.
         and_then (repo_op w (\<lambda>env now. mark_failed_after_rollback env now tenant (job_id job)
              (code_value code) message None)) (\<lambda>failed.
         and_then (finalize_single_device_run w (job_run_id job) (mt_result_state mt)) (\<lambda>_.
         and_then (ensure_device_result_for_failure w job target code (Some message)
              (mt_selected_transport mt)) (\<lambda>_.
         and_then (db_write commit) (\<lambda>_.
         returns (outcome_of failed True 0)))))))"

definition finish_discovered ::
  "exec_world \<Rightarrow> string \<Rightarrow> DiscoveryJobRecord \<Rightarrow> DiscoveryTargetRecordView \<Rightarrow> uuid option \<Rightarrow>
   DiscoveryDeviceResultRecord \<Rightarrow> (TransportAttemptConfig \<times> Collector) list \<Rightarrow>
   MultiTransportDiscoveryResult \<Rightarrow> payload \<Rightarrow> DiscoveryExecutionOutcome exec" where
  "finish_discovered w tenant job target parent device configs mt payload =
     (let check = check_cancelled w tenant (job_id job) parent;
          state = result_value (mt_result_state mt);
          coll = (case find (\<lambda>c. Some (config_name (fst c)) = mt_selected_transport mt) configs of
                    Some c \<Rightarrow> snd c | None \<Rightarrow> snd (last configs))
      in and_then (repo_op w (\<lambda>env now. record_selection env now tenant (job_id job)
              (mt_selected_transport mt)
              (payload_string py_str payload ''platform_family'' (lookup (view_metadata target) ''platform_family'')))) (\<lambda>_.
         and_then check (\<lambda>_.
         and_then (build_evidence w job target coll payload) (\<lambda>e.
         and_then (repo_op w (\<lambda>_ _. evidence_create (sha256 w) e None)) (\<lambda>_.
         and_then (db_write commit) (\<lambda>_.
         and_then check (\<lambda>_.
         and_then (lift_exc (process_payload w (view_identifier target) (coll_parser coll) (job_run_id job)
              (view_metadata target) payload)) (\<lambda>snapshot.
         and_then check (\<lambda>_.
         and_then (repo_op w (\<lambda>_ now. add_live_snapshot tenant (Some (job_run_id job)) snapshot now)) (\<lambda>_.
         and_then (record_device_result w job target (live_devices snapshot) (mt_selected_transport mt) state) (\<lambda>_.
         and_then (repo_op w (\<lambda>env now. transition env now tenant (job_id job) SUCCEEDED None None True None)) (\<lambda>completed.
         and_then (finalize_single_device_run w (job_run_id job) DISCOVERED) (\<lambda>_.
         and_then (db_write commit) (\<lambda>_.
         and_then (db_write (set_result (result_id device) (\<lambda>r. r\<lparr>device_state := status_value SUCCEEDED\<rparr>))) (\<lambda>_.
         returns (outcome_of completed True 1))))))))))))))))"

fun is_signal :: "execution_error \<Rightarrow> bool" where
  "is_signal CancellationRequested = True"
| "is_signal LeaseLost = True"
| "is_signal e = False"

definition execute_multi_transport ::
  "exec_world \<Rightarrow> collector_registry \<Rightarrow> profile_table \<Rightarrow> string \<Rightarrow> DiscoveryJobRecord \<Rightarrow>
   DiscoveryTargetRecordView \<Rightarrow> uuid option \<Rightarrow> DiscoveryExecutionOutcome exec" where
  "execute_multi_transport w reg profiles tenant job target parent =
     (let value_error = (\<lambda>names. \<lparr>exc_class = OtherException ''ValueError'',
            exc_text = ''Insecure transports require explicit allow_insecure=True: '' @
              py_repr (PList (map PStr names))\<rparr>)
      in and_then (lift_exc (map_sum value_error (\<lambda>p. p) (resolve_transport_policy profiles target))) (\<lambda>policy.
         and_then (begin_result w tenant job target parent) (\<lambda>device.
         and_then (build_transport_configs w reg job target policy (transports policy)) (\<lambda>configs.
         if configs = []
         then and_then (db_write commit) (\<lambda>_. raises (ExecutionFailure UNSUPPORTED_CAPABILITY
                ''No transport configurations available for the credential profile.''))
         else
           and_then (pause w) (\<lambda>_.
           and_then (run_fallback w target device (map fst configs)) (\<lambda>mt.
           and_then (db_write commit) (\<lambda>_.
           and_then (read_clock w) (\<lambda>now.
           and_then (db_write (set_result (result_id device) (\<lambda>r. r\<lparr>
                result_state := Some (result_value (mt_result_state mt)),
                result_selected_transport := mt_selected_transport mt, result_completed_at := Some now\<rparr>))) (\<lambda>_.
           and_then (if is_discovered (mt_result_state mt) \<and> mt_payload mt \<noteq> None
                     then catches
                            (and_then (finish_discovered w tenant job target parent device configs mt
                               (the (mt_payload mt))) (\<lambda>out. returns (Some out)))
                            (\<lambda>e. if is_signal e then raises e else returns None)
                     else returns None) (\<lambda>finished.
             case finished of
               Some out \<Rightarrow> returns out
             | None \<Rightarrow> finish_failed_multi w tenant job target device mt))))))))))"

section \<open>One transport\<close>

definition execute_single_transport ::
  "exec_world \<Rightarrow> collector_registry \<Rightarrow> string \<Rightarrow> uuid \<Rightarrow> DiscoveryJobRecord \<Rightarrow>
   DiscoveryTargetRecordView \<Rightarrow> uuid option \<Rightarrow> DiscoveryExecutionOutcome exec" where
  "execute_single_transport w reg tenant owner job target parent =
     (let check = check_cancelled w tenant (job_id job) parent;
          transport_of = (\<lambda>payload. payload_string py_str payload ''transport''
            (lookup (view_metadata target) ''transport_name''))
      in and_then (lift (resolve_collector reg job target)) (\<lambda>(coll, ctx).
         and_then (start_transport_attempt w job target) (\<lambda>_.
         and_then check (\<lambda>_.
         and_then (pause w) (\<lambda>_.
         and_then (case run_health coll ctx of None \<Rightarrow> returns () | Some e \<Rightarrow> raises (Raised_Exc e)) (\<lambda>_.
         and_then check (\<lambda>_.
         and_then (repeats (coll_checkpoints coll) check) (\<lambda>_.
         and_then (pause w) (\<lambda>_.
         and_then (lift_exc (run_collect coll ctx)) (\<lambda>payload.
         and_then (finish_attempt w ''success'' None None) (\<lambda>_.
         and_then (repo_op w (\<lambda>env now. record_selection env now tenant (job_id job) (transport_of payload)
              (payload_string py_str payload ''platform_family'' (lookup (view_metadata target) ''platform_family'')))) (\<lambda>_.
         and_then check (\<lambda>_.
         and_then (build_evidence w job target coll payload) (\<lambda>e.
         and_then (repo_op w (\<lambda>_ _. evidence_create (sha256 w) e None)) (\<lambda>_.
         and_then (db_write commit) (\<lambda>_.
         and_then check (\<lambda>_.
         and_then (lift_exc (process_payload w (view_identifier target) (coll_parser coll) (job_run_id job)
              (ctx_metadata ctx) payload)) (\<lambda>snapshot.
         and_then check (\<lambda>_.
         and_then (repo_op w (\<lambda>_ now. add_live_snapshot tenant (Some (job_run_id job)) snapshot now)) (\<lambda>_.
         and_then (record_device_result w job target (live_devices snapshot) (transport_of payload)
              (result_value DISCOVERED)) (\<lambda>_.
         and_then check (\<lambda>_.
         and_then (repo_op w (\<lambda>env now. transition env now tenant (job_id job) SUCCEEDED None None True (Some owner))) (\<lambda>completed.
         and_then (db_write commit) (\<lambda>_.
         returns (outcome_of completed True 1)))))))))))))))))))))))))"

section \<open>Claim, run and handlers\<close>

definition failure_error :: "(DiscoveryFailureCode \<times> string) + 'a \<Rightarrow> execution_error + 'a" where
  "failure_error r = map_sum (\<lambda>(code, m). ExecutionFailure code m) (\<lambda>x. x) r"

definition read_target :: "DiscoveryJobRecord \<Rightarrow> string \<Rightarrow> DiscoveryTargetRecordView exec" where
  "read_target job tenant =
     and_then (db_read (resolve_target job tenant)) (\<lambda>r. lift (failure_error r))"

definition run_job ::
  "exec_world \<Rightarrow> collector_registry \<Rightarrow> profile_table \<Rightarrow> string \<Rightarrow> uuid \<Rightarrow> uuid option \<Rightarrow> DiscoveryJobRecord \<Rightarrow>
   DiscoveryExecutionOutcome exec" where
  "run_job w reg profiles tenant owner parent job =
     and_then (read_target job tenant) (\<lambda>target.
     and_then (check_cancelled w tenant (job_id job) parent) (\<lambda>_.
       if \<not> view_enabled target
       then raises (ExecutionFailure TARGET_DISABLED ''Discovery target is disabled.'')
       else if lookup (view_metadata target) ''credential_profile_id'' \<noteq> PNone \<or>
               truthy (lookup (view_metadata target) ''allowed_fallback_transports'')
       then execute_multi_transport w reg profiles tenant job target parent
       else execute_single_transport w reg tenant owner job target parent))"

definition cancelled_result :: "exec_world \<Rightarrow> string \<Rightarrow> DiscoveryJobRecord \<Rightarrow> unit exec" where
  "cancelled_result w tenant job =
     catches
       (and_then (read_target job tenant) (\<lambda>target.
        and_then (db_read (find_result (view_tenant_id target) (job_id job))) (\<lambda>found.
        and_then (read_clock w) (\<lambda>now.
          case found of
            None \<Rightarrow>
              and_then (repo_op w (\<lambda>_ _. result_insert (\<lambda>i.
                (blank_result (view_tenant_id target) (job_id job) job (view_address target)
                   (status_value DiscoveryJobStatus.CANCELLED) (started_or_now job now) i)
                \<lparr>result_completed_at := Some now, result_state := Some (result_value UNREACHABLE)\<rparr>)))
              (\<lambda>_. returns ())
          | Some r \<Rightarrow> db_write (set_result (result_id r) (\<lambda>r. r\<lparr>
                device_state := status_value DiscoveryJobStatus.CANCELLED, result_completed_at := Some now\<rparr>))))))
       (\<lambda>_. returns ())"

definition finish_cancelled ::
  "exec_world \<Rightarrow> string \<Rightarrow> uuid \<Rightarrow> DiscoveryJobRecord \<Rightarrow> DiscoveryExecutionOutcome exec" where
  "finish_cancelled w tenant owner job =
     and_then (repo_op w (\<lambda>env now. finalise_cancellation env now tenant (job_id job) (Some owner))) (\<lambda>cancelled.
     and_then (db_write commit) (\<lambda>_.
     returns (outcome_of cancelled True 0)))"

definition on_cancellation ::
  "exec_world \<Rightarrow> string \<Rightarrow> uuid \<Rightarrow> DiscoveryJobRecord \<Rightarrow> DiscoveryExecutionOutcome exec" where
  "on_cancellation w tenant owner job =
     and_then (finish_attempt w ''cancelled'' (Some DiscoveryFailureCode.CANCELLED) None) (\<lambda>_.
     and_then (cancelled_result w tenant job) (\<lambda>_.
     finish_cancelled w tenant owner job))"

definition not_found :: execution_error where
  "not_found = Repository_Error (DiscoveryResourceNotFoundError ''Discovery job was not found.'')"

definition not_executed :: "string \<Rightarrow> uuid \<Rightarrow> DiscoveryExecutionOutcome exec" where
  "not_executed tenant i =
     and_then (db_write rollback) (\<lambda>_.
     and_then (db_read (repo_get tenant i)) (\<lambda>current.
       if current = None then raises not_found else returns (outcome_of current False 0)))"

definition on_failure ::
  "exec_world \<Rightarrow> string \<Rightarrow> uuid \<Rightarrow> DiscoveryJobRecord \<Rightarrow> execution_error \<Rightarrow> DiscoveryExecutionOutcome exec" where
  "on_failure w tenant owner job e =
     and_then (db_read (cancellation_requested tenant (job_id job))) (\<lambda>requested.
       if requested
       then and_then (finish_attempt w ''cancelled'' (Some DiscoveryFailureCode.CANCELLED) None) (\<lambda>_.
            finish_cancelled w tenant owner job)
       else
         let code = failure_code_of (error_string w) e;
             message = safe_execution_message (error_text (error_string w) e)
         in and_then (finish_attempt w ''failed'' (Some code) (Some message)) (\<lambda>_.
            and_then (read_target job tenant) (\<lambda>target.
            catches
              (and_then (repo_op w (\<lambda>env now. mark_failed_after_rollback env now tenant (job_id job)
                   (code_value code) message (Some owner))) (\<lambda>failed.
               and_then (ensure_device_result_for_failure w job target code (Some message)
                   (Some (metadata_text (view_metadata target) ''transport_name'' ''unknown''))) (\<lambda>_.
               and_then (db_write commit) (\<lambda>_.
               returns (outcome_of failed True 0)))))
              (\<lambda>err. and_then (db_write rollback) (\<lambda>_. raises err)))))"

definition claim_job ::
  "exec_world \<Rightarrow> string \<Rightarrow> uuid \<Rightarrow> uuid \<Rightarrow> duration \<Rightarrow> bool \<Rightarrow> DiscoveryJobRecord option exec" where
  "claim_job w tenant i owner lease already_claimed =
     (if already_claimed
      then and_then (db_read (owned_running_job tenant i owner)) (\<lambda>job.
             if job = None
             then raises (Repository_Error (InvalidDiscoveryTransitionError
                    ''Discovery job is not owned by this worker.''))
             else returns job)
      else and_then (repo_op w (\<lambda>env now. claim env now tenant i (Some owner) lease)) (\<lambda>job.
           and_then (db_write commit) (\<lambda>_. returns job)))"

fun is_transition_error :: "execution_error \<Rightarrow> bool" where
  "is_transition_error (Repository_Error (InvalidDiscoveryTransitionError m)) = True"
| "is_transition_error e = False"

text \<open>A claim that returns no row would raise an \<open>AttributeError\<close> at its first use.\<close>

definition attribute_error :: execution_error where
  "attribute_error = Raised_Exc \<lparr>exc_class = OtherException ''AttributeError'', exc_text = []\<rparr>"

definition execute_claimed ::
  "exec_world \<Rightarrow> collector_registry \<Rightarrow> profile_table \<Rightarrow> string \<Rightarrow> uuid \<Rightarrow> uuid option \<Rightarrow> DiscoveryJobRecord \<Rightarrow>
   DiscoveryExecutionOutcome exec" where
  "execute_claimed w reg profiles tenant owner parent job =
     catches (run_job w reg profiles tenant owner parent job)
       (\<lambda>e. case e of
              CancellationRequested \<Rightarrow> on_cancellation w tenant owner job
            | LeaseLost \<Rightarrow> not_executed tenant (job_id job)
            | _ \<Rightarrow> on_failure w tenant owner job e)"

definition execute_job ::
  "exec_world \<Rightarrow> collector_registry \<Rightarrow> profile_table \<Rightarrow> string \<Rightarrow> uuid \<Rightarrow> uuid option \<Rightarrow> uuid \<Rightarrow> duration \<Rightarrow> bool \<Rightarrow>
   DiscoveryExecutionOutcome exec" where
  "execute_job w reg profiles tenant i parent owner lease already_claimed =
     and_then (catches (and_then (claim_job w tenant i owner lease already_claimed) (\<lambda>job. returns (Inl job)))
       (\<lambda>e. if is_transition_error e then and_then (not_executed tenant i) (\<lambda>out. returns (Inr out)) else raises e)) (\<lambda>r.
     case r of
       Inr out \<Rightarrow> returns out
     | Inl None \<Rightarrow> raises attribute_error
     | Inl (Some job) \<Rightarrow> execute_claimed w reg profiles tenant owner parent job)"

end
