(* ===== verification/Fanout_Execution.thy ===== *)
theory Fanout_Execution
  imports Discovery_Execution
begin

text \<open>
  \<open>DiscoveryFanoutService.execute\<close> of \<^verbatim>\<open>discovery/fanout.py\<close>: the expansion of a scope, the creation of its
  child jobs, their run and the reconciliation of the parent. The coroutines of the children share one
  session and take turns at their waits. The model runs them in the order of the addresses; what the
  others of them do between two statements of one child is part of \<open>others\<close>, as are other
  transactions. An attribute of a loaded object is read from its row.
\<close>

section \<open>Statements\<close>

definition value_error :: "string \<Rightarrow> execution_error" where
  "value_error m = Raised_Exc \<lparr>exc_class = OtherException ''ValueError'', exc_text = m\<rparr>"

text \<open>The row of a loaded object; the ORM raises when it was deleted meanwhile.\<close>

definition object_deleted :: execution_error where
  "object_deleted = Raised_Exc \<lparr>exc_class = OtherException ''ObjectDeletedError'', exc_text = []\<rparr>"

definition reload :: "(session \<Rightarrow> 'a option) \<Rightarrow> 'a exec" where
  "reload f =
     and_then (db_read f) (\<lambda>found. case found of None \<Rightarrow> raises object_deleted | Some r \<Rightarrow> returns r)"

definition get_result :: "uuid \<Rightarrow> session \<Rightarrow> DiscoveryDeviceResultRecord option" where
  "get_result i s = sql_first (\<lambda>r. result_id r = i) (device_results (work s))"

text \<open>\<open>_cancel_child\<close>\<close>

definition cancelled_values ::
  "time \<Rightarrow> string \<Rightarrow> DiscoveryDeviceResultRecord \<Rightarrow> DiscoveryDeviceResultRecord" where
  "cancelled_values now reason r =
     r\<lparr>result_failure_code := Some ''CANCELLED'', result_failure_message := Some reason,
       result_state := Some ''cancelled'', result_completed_at := Some now\<rparr>"

definition cancel_child ::
  "exec_world \<Rightarrow> uuid \<Rightarrow> uuid \<Rightarrow> uuid \<Rightarrow> unit exec" where
  "cancel_child w parent_i child_i result_i =
     and_then (reload (\<lambda>s. get_job s parent_i)) (\<lambda>parent.
       let reason = cancel_message parent;
           close = (\<lambda>state. and_then (read_clock w) (\<lambda>now.
             and_then (db_write (set_result result_i (\<lambda>r. cancelled_values now reason (r\<lparr>device_state := state\<rparr>)))) (\<lambda>_.
             db_write commit)))
       in case cancellation_requested_by parent of
            None \<Rightarrow> close ''cancelled''
          | Some user \<Rightarrow>
              and_then
                (catches
                  (and_then (repo_op w (\<lambda>env now. request_cancellation env (synchronized_session w) now
                     (job_tenant_id parent) child_i user reason)) (\<lambda>(job, _). returns (Some job)))
                  (\<lambda>e. case e of
                         Repository_Error (DiscoveryCancellationConflictError m) \<Rightarrow> returns None
                       | _ \<Rightarrow> raises e))
                (\<lambda>answer. case answer of
                    None \<Rightarrow> returns ()
                  | Some None \<Rightarrow> raises attribute_error
                  | Some (Some job) \<Rightarrow> close (status_value (job_state job))))"

text \<open>The state of a result that its execution left without one.\<close>

definition default_result_state :: "DiscoveryJobRecord \<Rightarrow> string" where
  "default_result_state job =
     (let among = (\<lambda>codes. job_failure_code job \<in> Some ` set codes)
      in if job_state job = SUCCEEDED then result_value DISCOVERED
         else if among [''AUTHENTICATION_FAILED''] then result_value DiscoveryResultState.AUTHENTICATION_FAILED
         else if among [''TRANSPORT_UNAVAILABLE''] then result_value UNVERIFIED
         else if among [''CONNECTION_REFUSED'', ''UNSUPPORTED_CAPABILITY'', ''UNSUPPORTED_CREDENTIAL'',
                        ''UNSUPPORTED_PLATFORM''] then result_value REACHABLE_NO_MANAGEMENT
         else if among [''CONNECTION_FAILED'', ''CONNECTION_TIMEOUT'', ''HOST_UNREACHABLE'',
                        ''DISCOVERY_TIMEOUT''] then result_value UNREACHABLE
         else result_value REACHABLE_NO_MANAGEMENT)"

definition child_values ::
  "time \<Rightarrow> DiscoveryJobRecord \<Rightarrow> DiscoveryDeviceResultRecord \<Rightarrow> DiscoveryDeviceResultRecord" where
  "child_values now job r =
     r\<lparr>device_state := status_value (job_state job), result_selected_transport := job_selected_transport job,
       result_failure_code := job_failure_code job, result_failure_message := job_failure_message job,
       result_completed_at := Some now,
       result_state := (case result_state r of None \<Rightarrow> Some (default_result_state job) | Some t \<Rightarrow> Some t)\<rparr>"

section \<open>Running the children\<close>

text \<open>A call of \<open>execute\<close> starts without an attempt of its own.\<close>

definition execute_child ::
  "exec_world \<Rightarrow> collector_registry \<Rightarrow> profile_table \<Rightarrow> string \<Rightarrow> uuid \<Rightarrow> uuid \<Rightarrow> uuid \<Rightarrow> duration \<Rightarrow>
   DiscoveryExecutionOutcome exec" where
  "execute_child w reg profiles tenant child_i parent_i owner lease =
     and_then (modify (\<lambda>x. x\<lparr>exec_attempt := None\<rparr>)) (\<lambda>_.
     execute_job w reg profiles tenant child_i (Some parent_i) owner lease False)"

definition run_child ::
  "exec_world \<Rightarrow> collector_registry \<Rightarrow> profile_table \<Rightarrow> string \<Rightarrow> uuid \<Rightarrow> uuid \<Rightarrow> duration \<Rightarrow>
   uuid \<times> uuid \<Rightarrow> unit exec" where
  "run_child w reg profiles tenant parent_i owner lease = (\<lambda>(child_i, result_i).
     and_then (pause w) (\<lambda>_.
     and_then (db_read (cancellation_requested tenant parent_i)) (\<lambda>before.
     if before then cancel_child w parent_i child_i result_i
     else
       and_then (pause w) (\<lambda>_.
       and_then (db_read (cancellation_requested tenant parent_i)) (\<lambda>requested.
       if requested then cancel_child w parent_i child_i result_i
       else
         and_then (read_clock w) (\<lambda>started.
         and_then (db_write (set_result result_i (\<lambda>r. r\<lparr>device_state := ''discovering'',
              result_started_at := Some started\<rparr>))) (\<lambda>_.
         and_then (db_write commit) (\<lambda>_.
         and_then (execute_child w reg profiles tenant child_i parent_i owner lease) (\<lambda>out.
         and_then (reload (get_result result_i)) (\<lambda>_.
           case outcome_job out of
             None \<Rightarrow> raises attribute_error
           | Some job \<Rightarrow>
               and_then (read_clock w) (\<lambda>now.
               and_then (db_write (set_result result_i (child_values now job))) (\<lambda>_.
               db_write commit))))))))))))"

fun in_turn :: "('a \<Rightarrow> unit exec) \<Rightarrow> 'a list \<Rightarrow> unit exec" where
  "in_turn f [] = returns ()"
| "in_turn f (x # xs) = and_then (f x) (\<lambda>_. in_turn f xs)"

fun create_children ::
  "exec_world \<Rightarrow> string \<Rightarrow> uuid \<Rightarrow> uuid \<Rightarrow> string list \<Rightarrow> (uuid \<times> uuid) list exec" where
  "create_children w tenant parent_i target_i [] = returns []"
| "create_children w tenant parent_i target_i (a # as) =
     and_then (reload (\<lambda>s. get_job s parent_i)) (\<lambda>parent.
     and_then (reload (\<lambda>s. get_target s target_i)) (\<lambda>target.
     and_then (repo_op w (\<lambda>env now. create_child env now tenant parent target a)) (\<lambda>(child, result).
     and_then (create_children w tenant parent_i target_i as) (\<lambda>rest.
     returns ((job_id child, result_id result) # rest)))))"

section \<open>The service\<close>

definition reconcile :: "exec_world \<Rightarrow> string \<Rightarrow> uuid \<Rightarrow> bool \<Rightarrow> int \<Rightarrow> DiscoveryDeviceResultRecord list exec" where
  "reconcile w tenant parent_i interrupted max_targets =
     repo_op w (\<lambda>_ now. reconcile_parent_job now tenant parent_i interrupted max_targets)"

definition fanout_execute ::
  "exec_world \<Rightarrow> collector_registry \<Rightarrow> profile_table \<Rightarrow> string \<Rightarrow> uuid \<Rightarrow> uuid \<Rightarrow> duration \<Rightarrow> int \<Rightarrow>
   DiscoveryDeviceResultRecord list exec" where
  "fanout_execute w reg profiles tenant parent_i owner lease max_targets =
     and_then (db_read (\<lambda>s. get_job s parent_i)) (\<lambda>found.
     case found of
       None \<Rightarrow> raises (value_error ''Discovery parent job was not found.'')
     | Some parent \<Rightarrow>
     if job_tenant_id parent \<noteq> tenant then raises (value_error ''Discovery parent job was not found.'')
     else
       and_then (db_read (\<lambda>s. get_target s (job_target_id parent))) (\<lambda>found.
       case found of
         None \<Rightarrow> raises (value_error ''Discovery scope target was not found.'')
       | Some target \<Rightarrow>
       and_then (db_read (cancellation_requested tenant parent_i)) (\<lambda>requested.
       if requested then reconcile w tenant parent_i False max_targets
       else
         and_then (lift (map_sum Repository_Error (\<lambda>a. a) (expand_target max_targets target))) (\<lambda>addresses.
         and_then (db_write (persist_expected_addresses parent addresses)) (\<lambda>_.
         and_then (db_write commit) (\<lambda>_.
         and_then (create_children w tenant parent_i (target_id target) addresses) (\<lambda>children.
         and_then (db_write commit) (\<lambda>_.
         and_then (in_turn (run_child w reg profiles tenant parent_i owner lease) children) (\<lambda>_.
         and_then (db_read (cancellation_requested tenant parent_i)) (\<lambda>cancelled.
         and_then (reconcile w tenant parent_i (\<not> cancelled) max_targets) (\<lambda>_.
         db_read (rows_with_ids (map snd children)))))))))))))"

end
