(* ===== verification/Discovery_Worker.thy ===== *)
theory Discovery_Worker
  imports Fanout_Execution
begin

text \<open>
  \<open>DiscoveryJobWorker\<close> and \<open>execute_discovery_job\<close> of \<^verbatim>\<open>discovery/worker.py\<close>, with the lease policy of
  \<^verbatim>\<open>discovery/leases.py\<close>: polling, recovery of expired leases, claims, the heartbeat beside a running
  job and what happens to a job whose execution raised or lost its lease.
\<close>

section \<open>Configuration\<close>

definition DISCOVERY_JOB_LEASE_SECONDS :: duration where "DISCOVERY_JOB_LEASE_SECONDS = 120 * 1000000"
definition DISCOVERY_JOB_HEARTBEAT_INTERVAL_SECONDS :: duration where
  "DISCOVERY_JOB_HEARTBEAT_INTERVAL_SECONDS = 30 * 1000000"
definition DISCOVERY_JOB_CLAIM_LIMIT :: nat where "DISCOVERY_JOB_CLAIM_LIMIT = 8"

text \<open>\<open>worker_pipeline\<close> processes the payload of a single device, \<open>default_pipeline\<close> that of a child.\<close>

record DiscoveryJobWorker =
  worker_registry :: collector_registry
  worker_profiles :: profile_table
  lease_seconds :: duration
  heartbeat_interval_seconds :: duration
  claim_limit :: nat
  worker_pipeline :: "string \<Rightarrow> string option \<Rightarrow> uuid \<Rightarrow> payload \<Rightarrow> payload \<Rightarrow> exc + LiveInventorySnapshot"
  default_pipeline :: "string \<Rightarrow> string option \<Rightarrow> uuid \<Rightarrow> payload \<Rightarrow> payload \<Rightarrow> exc + LiveInventorySnapshot"

definition make_worker :: "DiscoveryJobWorker \<Rightarrow> execution_error + DiscoveryJobWorker" where
  "make_worker v =
     (if heartbeat_interval_seconds v * 2 \<ge> lease_seconds v
      then Inl (value_error ''Discovery heartbeat interval must be less than half the lease.'')
      else Inr v)"

section \<open>Sessions\<close>

text \<open>A session of its own: it sees the committed rows, and what it did not commit is lost on \<open>close\<close>.\<close>

definition in_session :: "'a exec \<Rightarrow> 'a exec" where
  "in_session m x =
     (let (y, r) = m (on_session rollback x) in (on_session rollback y, r))"

text \<open>\<open>commit\<close> after the call, or \<open>rollback\<close> and a log entry.\<close>

definition committed_call :: "'a exec \<Rightarrow> 'a exec" where
  "committed_call m = and_then m (\<lambda>r. and_then (db_write commit) (\<lambda>_. returns r))"

definition logged :: "unit exec \<Rightarrow> unit exec" where
  "logged m = catches m (\<lambda>_. db_write rollback)"

section \<open>Polling\<close>

fun in_order :: "('a \<Rightarrow> 'b option exec) \<Rightarrow> 'a list \<Rightarrow> 'b list exec" where
  "in_order f [] = returns []"
| "in_order f (x # xs) =
     and_then (f x) (\<lambda>y. and_then (in_order f xs) (\<lambda>ys.
       returns (case y of None \<Rightarrow> ys | Some z \<Rightarrow> z # ys)))"

definition recover_one :: "exec_world \<Rightarrow> string \<times> uuid \<Rightarrow> unit exec" where
  "recover_one w = (\<lambda>(tenant, i).
     if is_protected i then returns ()
     else and_then (pause w) (\<lambda>_. in_session (logged
            (and_then (read_clock w) (\<lambda>stale_before.
             and_then (committed_call (repo_op w (\<lambda>_ now. recover_expired_owned_job id now tenant i stale_before)))
               (\<lambda>_. returns ()))))))"

definition recover_expired_jobs :: "exec_world \<Rightarrow> unit exec" where
  "recover_expired_jobs w =
     and_then (pause w) (\<lambda>_.
     and_then (read_clock w) (\<lambda>now.
     and_then (in_session (db_read (recover_expired_owned_jobs now))) (\<lambda>expired.
     in_turn (recover_one w) expired)))"

definition new_owner :: "session \<Rightarrow> uuid outcome" where
  "new_owner s = (let (owner, t) = uuid4 s in (t, Inr owner))"

definition claim_one ::
  "exec_world \<Rightarrow> DiscoveryJobWorker \<Rightarrow> string \<times> uuid \<Rightarrow> (string \<times> uuid \<times> uuid) option exec" where
  "claim_one w v = (\<lambda>(tenant, i).
     if is_protected i then returns None
     else and_then (repo_op w (\<lambda>_ _. new_owner)) (\<lambda>owner.
          and_then (pause w) (\<lambda>_.
          in_session (catches
            (and_then (committed_call (repo_op w (\<lambda>env now. claim env now tenant i (Some owner) (lease_seconds v))))
              (\<lambda>_. returns (Some (tenant, i, owner))))
            (\<lambda>_. and_then (db_write rollback) (\<lambda>_. returns None))))))"

definition claim_queued_jobs :: "exec_world \<Rightarrow> DiscoveryJobWorker \<Rightarrow> (string \<times> uuid \<times> uuid) list exec" where
  "claim_queued_jobs w v =
     and_then (pause w) (\<lambda>_.
     and_then (in_session (db_read (list_queued_roots (claim_limit v)))) (\<lambda>candidates.
     in_order (claim_one w v) candidates))"

section \<open>Executing one job\<close>

definition fanout_target :: "DiscoveryTargetRecord option \<Rightarrow> bool" where
  "fanout_target target =
     (case target of None \<Rightarrow> False | Some t \<Rightarrow> scope_type t \<in> {''ip_range'', ''cidr_network''})"

text \<open>The result of a fan-out parent: the states its children ended in decide it.\<close>

definition fanout_state :: "DiscoveryDeviceResultRecord list \<Rightarrow> DiscoveryJobStatus" where
  "fanout_state results =
     (if list_ex (\<lambda>r. device_state r = ''succeeded'') results then SUCCEEDED else FAILED)"

definition run_fanout_job ::
  "exec_world \<Rightarrow> DiscoveryJobWorker \<Rightarrow> string \<Rightarrow> uuid \<Rightarrow> uuid \<Rightarrow> bool \<Rightarrow> DiscoveryJobRecord option exec" where
  "run_fanout_job w v tenant i owner already_claimed =
     (let finalise = repo_op w (\<lambda>env now. finalise_cancellation env now tenant i (Some owner));
          claim_it = (if already_claimed then returns None
            else committed_call (repo_op w (\<lambda>env now. claim env now tenant i (Some owner) (lease_seconds v))))
      in and_then
           (catches
             (and_then claim_it (\<lambda>_.
              and_then (fanout_execute (w\<lparr>process_payload := default_pipeline v\<rparr>) (worker_registry v)
                (worker_profiles v) tenant i owner (lease_seconds v) DEFAULT_MAX_TARGETS) (\<lambda>results.
              and_then (db_read (cancellation_requested tenant i)) (\<lambda>requested.
              and_then (if requested then finalise
                        else repo_op w (\<lambda>env now. transition env now tenant i (fanout_state results) None None
                               True (Some owner))) (\<lambda>_.
              and_then (db_write commit) (\<lambda>_. returns None))))))
             (\<lambda>e. if \<not> is_transition_error e then raises e
              else
                and_then (db_write rollback) (\<lambda>_.
                and_then (db_read (repo_get tenant i)) (\<lambda>current.
                if map_option job_state current = Some DiscoveryJobStatus.CANCELLED then returns current
                else
                  and_then (db_read (cancellation_requested tenant i)) (\<lambda>requested.
                  if \<not> requested then raises e
                  else and_then finalise (\<lambda>_. and_then (db_write commit) (\<lambda>_. returns None)))))))
           (\<lambda>early. case early of
               Some job \<Rightarrow> returns (Some job)
             | None \<Rightarrow> db_read (repo_get tenant i)))"

definition execute_discovery_job ::
  "exec_world \<Rightarrow> DiscoveryJobWorker \<Rightarrow> string \<Rightarrow> uuid \<Rightarrow> uuid \<Rightarrow> bool \<Rightarrow> DiscoveryJobRecord option exec" where
  "execute_discovery_job w v tenant i owner already_claimed =
     in_session
       (and_then (db_read (repo_get tenant i)) (\<lambda>found.
        case found of
          None \<Rightarrow> returns None
        | Some job \<Rightarrow>
            if job_state job = DiscoveryJobStatus.CANCELLED then returns (Some job)
            else
              and_then (db_read (target_get tenant (job_target_id job))) (\<lambda>target.
              if fanout_target target
              then run_fanout_job w v tenant i owner already_claimed
              else
                and_then (modify (\<lambda>x. x\<lparr>exec_attempt := None\<rparr>)) (\<lambda>_.
                and_then (execute_job (w\<lparr>process_payload := worker_pipeline v\<rparr>) (worker_registry v)
                  (worker_profiles v) tenant i None owner (lease_seconds v) already_claimed) (\<lambda>out.
                returns (outcome_job out))))))"

section \<open>Heartbeat, failure and abandonment\<close>

definition abandon_if_owned :: "exec_world \<Rightarrow> string \<Rightarrow> uuid \<Rightarrow> uuid \<Rightarrow> unit exec" where
  "abandon_if_owned w tenant i owner =
     in_session (logged (and_then (committed_call
       (repo_op w (\<lambda>_ now. abandon_owned_job id now tenant i owner HEARTBEAT_LOST_MESSAGE))) (\<lambda>_. returns ())))"

text \<open>One beat: whether the lease is still held. A beat that fails counts as a lost lease.\<close>

definition heartbeat_beat :: "exec_world \<Rightarrow> DiscoveryJobWorker \<Rightarrow> string \<Rightarrow> uuid \<Rightarrow> uuid \<Rightarrow> bool exec" where
  "heartbeat_beat w v tenant i owner =
     and_then
       (catches (in_session (committed_call (repo_op w (\<lambda>_ now. renew_lease now tenant i owner (lease_seconds v)))))
         (\<lambda>_. returns False))
       (\<lambda>renewed. if renewed then returns True
         else and_then (abandon_if_owned w tenant i owner) (\<lambda>_. returns False))"

text \<open>
  The heartbeat until the run ends, which cancels it while it sleeps before beat \<open>n\<close>; it returns whether
  the lease was lost.
\<close>

fun heartbeat ::
  "exec_world \<Rightarrow> DiscoveryJobWorker \<Rightarrow> (nat \<Rightarrow> bool) \<Rightarrow> string \<Rightarrow> uuid \<Rightarrow> uuid \<Rightarrow> nat \<Rightarrow> bool exec" where
  "heartbeat w v stopped tenant i owner 0 = returns False"
| "heartbeat w v stopped tenant i owner (Suc n) =
     and_then (pause w) (\<lambda>_.
     and_then (reads (\<lambda>x. stopped (exec_steps x))) (\<lambda>stop.
     if stop then returns False
     else
       and_then (heartbeat_beat w v tenant i owner) (\<lambda>held.
       if held then heartbeat w v stopped tenant i owner n else returns True)))"

text \<open>\<open>_fail_owned_job\<close>\<close>

definition failed_job_message :: "exec_world \<Rightarrow> execution_error \<Rightarrow> string" where
  "failed_job_message w e =
     (let m = strip (error_text (error_string w) e)
      in take 1000 (if m = [] then ''Discovery execution failed.'' else m))"

definition fail_owned_job :: "exec_world \<Rightarrow> string \<Rightarrow> uuid \<Rightarrow> uuid \<Rightarrow> execution_error \<Rightarrow> unit exec" where
  "fail_owned_job w tenant i owner e =
     in_session (logged
       (and_then (db_read (repo_get tenant i)) (\<lambda>current.
        case current of
          None \<Rightarrow> returns ()
        | Some job \<Rightarrow>
            if job_state job \<noteq> RUNNING \<or> execution_owner job \<noteq> Some owner then returns ()
            else
              and_then (repo_op w (\<lambda>env now. transition env now tenant i FAILED
                (Some (code_value DISCOVERY_FAILED)) (Some (failed_job_message w e)) False (Some owner))) (\<lambda>_.
              and_then (db_read (target_get tenant (job_target_id job))) (\<lambda>target.
              if fanout_target target
              then and_then (reconcile w tenant i True DEFAULT_MAX_TARGETS) (\<lambda>_. returns ())
              else db_write commit)))))"

section \<open>The worker\<close>

text \<open>
  \<open>lost k\<close> says whether the heartbeat has lost the lease at statement \<open>k\<close>, \<open>stopped k\<close> whether the worker
  was asked to stop. The beats themselves are transactions beside the run.
\<close>

definition run_owned_job ::
  "exec_world \<Rightarrow> DiscoveryJobWorker \<Rightarrow> (nat \<Rightarrow> bool) \<Rightarrow> (nat \<Rightarrow> bool) \<Rightarrow> string \<times> uuid \<times> uuid \<Rightarrow> unit exec" where
  "run_owned_job w v lost stopped = (\<lambda>(tenant, i, owner).
     and_then
       (catches
         (and_then (execute_discovery_job (w\<lparr>lease_gone := \<lambda>k. lost k \<or> stopped k\<rparr>) v tenant i owner True)
           (\<lambda>_. returns ()))
         (\<lambda>e. and_then (reads (\<lambda>x. lost (exec_steps x))) (\<lambda>gone.
            if gone then returns () else fail_owned_job w tenant i owner e)))
       (\<lambda>_. and_then (reads (\<lambda>x. lost (exec_steps x))) (\<lambda>gone.
          if gone then abandon_if_owned w tenant i owner else returns ())))"

text \<open>One turn of \<open>run\<close>; a failing poll claims nothing.\<close>

definition discovery_turn ::
  "exec_world \<Rightarrow> DiscoveryJobWorker \<Rightarrow> (nat \<Rightarrow> bool) \<Rightarrow> (nat \<Rightarrow> bool) \<Rightarrow> unit exec" where
  "discovery_turn w v lost stopped =
     and_then
       (catches (and_then (recover_expired_jobs w) (\<lambda>_. claim_queued_jobs w v)) (\<lambda>_. returns []))
       (\<lambda>claimed. if claimed = [] then pause w else in_turn (run_owned_job w v lost stopped) claimed)"

text \<open>\<open>n\<close> turns, or fewer when the worker is asked to stop.\<close>

fun worker_run ::
  "exec_world \<Rightarrow> DiscoveryJobWorker \<Rightarrow> (nat \<Rightarrow> bool) \<Rightarrow> (nat \<Rightarrow> bool) \<Rightarrow> nat \<Rightarrow> unit exec" where
  "worker_run w v lost stopped 0 = returns ()"
| "worker_run w v lost stopped (Suc n) =
     and_then (reads (\<lambda>x. stopped (exec_steps x))) (\<lambda>stop.
     if stop then returns ()
     else and_then (discovery_turn w v lost stopped) (\<lambda>_. worker_run w v lost stopped n))"

end
