(* ===== verification/Execution_Safety.thy ===== *)
theory Execution_Safety
  imports Discovery_Execution
begin

text \<open>
  What a run of a job can do to the job table while other transactions interfere. Nothing is assumed of
  the others beyond the life cycle of jobs, and nothing of the collectors, the parsers and the lease.
\<close>

section \<open>Moving along the life cycle\<close>

text \<open>
  In the middle of a run the view of the session and the committed store differ. Both descend from every
  table that both of them descended from before.
\<close>

definition ahead :: "DiscoveryJobRecord list \<Rightarrow> session \<Rightarrow> bool" where
  "ahead js s \<longleftrightarrow> jobs_step\<^sup>*\<^sup>* js (jobs (work s)) \<and> jobs_step\<^sup>*\<^sup>* js (jobs (committed s))"

definition forward :: "session \<Rightarrow> session \<Rightarrow> bool" where
  "forward s t \<longleftrightarrow> (\<forall>js. job_table_ok js \<and> ahead js s \<longrightarrow> ahead js t)"

definition forwards :: "(session \<Rightarrow> 'a outcome) \<Rightarrow> bool" where
  "forwards f \<longleftrightarrow> (\<forall>s. forward s (fst (f s)))"

definition lawful :: "environment \<Rightarrow> bool" where
  "lawful env \<longleftrightarrow> (\<forall>s. forward s (env s))"

named_theorems moves \<open>operations that move the job table along the life cycle\<close>

lemma forward_refl [simp]: "forward s s"
  by (simp add: forward_def)

lemma forward_trans: "forward s t \<Longrightarrow> forward t u \<Longrightarrow> forward s u"
  by (auto simp: forward_def)

lemma forward_same: "jobs (work t) = jobs (work s) \<Longrightarrow> jobs (committed t) = jobs (committed s) \<Longrightarrow> forward s t"
  by (simp add: forward_def ahead_def)

lemma forward_commit: "forward s (commit s)"
  by (simp add: forward_def ahead_def)

lemma forward_rollback: "forward s (rollback s)"
  by (simp add: forward_def ahead_def)

lemma forward_work:
  assumes "job_table_ok (jobs (work s)) \<Longrightarrow> jobs_step\<^sup>*\<^sup>* (jobs (work s)) (jobs (work t))"
    and "committed t = committed s"
  shows "forward s t"
  unfolding forward_def ahead_def using assms job_table.steps_inv by (auto intro: rtranclp_trans)

lemma forward_update:
  assumes "\<And>j. p j \<Longrightarrow> row_step j (f j)"
  shows "forward s (put_jobs (sql_update p f (jobs (work s))) s)"
  by (rule forward_work) (auto intro: jobs_step.updated assms)

lemma forwardsI: "(\<And>s t r. f s = (t, r) \<Longrightarrow> forward s t) \<Longrightarrow> forwards f"
  unfolding forwards_def by (metis prod.collapse)

lemma forwardsD: "forwards f \<Longrightarrow> f s = (t, r) \<Longrightarrow> forward s t"
  unfolding forwards_def by (metis fst_conv)

lemma lawful_id [simp]: "lawful id" "lawful (\<lambda>s. s)"
  by (simp_all add: lawful_def)

lemma forward_update_returning:
  assumes "\<And>j. p j \<Longrightarrow> row_step j (f j)" and "update_returning p f s = (t, ids)"
  shows "forward s t"
  using forward_update [of p f s] assms by (auto simp: update_returning_def)

lemma forward_guarded_update:
  assumes "\<And>j. p j \<Longrightarrow> row_step j (f j)" and "guarded_update p f conflict tenant i s = (t, r)"
  shows "forward s t"
proof -
  obtain s1 ids where upd: "update_returning p f s = (s1, ids)" by fastforce
  have "t = s1 \<or> t = rollback s1"
    using assms(2) upd by (auto simp: guarded_update_def split: sum.splits option.splits)
  then show ?thesis
    using forward_update_returning [OF assms(1) upd] forward_rollback forward_trans by blast
qed

section \<open>Repository operations\<close>

lemma transition_moves [moves]:
  assumes "lawful env" shows "forwards (transition env now tenant i t code msg nc owner)"
proof (rule forwardsI)
  fix s u r assume op: "transition env now tenant i t code msg nc owner s = (u, r)"
  have row: "row_step j (transition_values now t code msg j)"
    if "transition_job st t = Inr v" and "transition_where tenant i st nc owner j" for v j st
    using that by (auto simp: transition_job_Inr transition_where_def intro: row_step.moved)
  show "forward s u"
  proof (cases "u = s")
    case False
    with op obtain st v conflict where "transition_job st t = Inr v"
        "guarded_update (transition_where tenant i st nc owner) (transition_values now t code msg)
           conflict tenant i (env s) = (u, r)"
      by (auto simp: transition_def split: option.splits sum.splits)
    then have "forward (env s) u" using forward_guarded_update row by blast
    with assms show ?thesis unfolding lawful_def using forward_trans by blast
  qed simp
qed

lemma mark_failed_moves [moves]:
  assumes "lawful env" shows "forwards (mark_failed_after_rollback env now tenant i code msg owner)"
proof (rule forwardsI)
  fix s u r assume "mark_failed_after_rollback env now tenant i code msg owner s = (u, r)"
  then have "forward (rollback s) u"
    unfolding mark_failed_after_rollback_def by (rule forwardsD [OF transition_moves [OF assms]])
  with forward_rollback show "forward s u" by (rule forward_trans)
qed

lemma finalise_cancellation_moves [moves]:
  assumes "lawful env" shows "forwards (finalise_cancellation env now tenant i owner)"
  by (rule forwardsI)
     (auto simp: finalise_cancellation_def dest: forwardsD [OF transition_moves [OF assms]]
       split: option.splits if_splits)

lemma claim_moves [moves]:
  assumes "lawful env" shows "forwards (claim env now tenant i (Some owner) lease)"
proof (rule forwardsI)
  fix s u r assume op: "claim env now tenant i (Some owner) lease s = (u, r)"
  show "forward s u"
  proof (cases "u = s")
    case False
    with op obtain conflict where "guarded_update (\<lambda>j. job_where tenant i j \<and> claimable j)
        (claim_values now owner lease) conflict tenant i (env s) = (u, r)"
      by (auto simp: claim_def split: option.splits if_splits)
    then have "forward (env s) u" by (rule forward_guarded_update [rotated]) (simp add: row_step.claimed)
    with assms show ?thesis unfolding lawful_def using forward_trans by blast
  qed simp
qed

lemma record_selection_moves [moves]:
  assumes "lawful env" shows "forwards (record_selection env now tenant i transport platform)"
proof (rule forwardsI)
  fix s u r assume op: "record_selection env now tenant i transport platform s = (u, r)"
  have "forward (env s) (put_jobs (sql_update (job_where tenant i) (selection_values now transport platform)
      (jobs (work (env s)))) (env s))"
    by (rule forward_update) (rule row_step.selected)
  then have "forward s (put_jobs (sql_update (job_where tenant i) (selection_values now transport platform)
      (jobs (work (env s)))) (env s))"
    using assms unfolding lawful_def using forward_trans by blast
  then show "forward s u"
    using op by (auto simp: record_selection_def Let_def split: option.splits if_splits)
qed

text \<open>Reconciling the parent of a child that is cancelled while queued.\<close>

lemma forward_create_child:
  assumes "create_child id now tenant parent scope a s = (t, r)"
  shows "forward s t"
proof (cases r)
  case (Inr cr)
  obtain child res where "cr = (child, res)" by fastforce
  with Inr assms have made: "create_child id now tenant parent scope a s = (t, Inr (child, res))" by simp
  show ?thesis
    by (rule forward_work) (use create_child_Inr(2,4) [OF made] in auto)
next
  case (Inl e)
  obtain target s1 where target: "ensure_target id now tenant scope a s = (target, s1)" by fastforce
  have same: "jobs (work s1) = jobs (work s)" "committed s1 = committed s"
    using ensure_target_frame [of now tenant scope a s] target by simp_all
  have "jobs (work t) \<in> {jobs (work s), jobs (committed s)} \<and> committed t = committed s"
    using assms same Inl target
    by (auto simp: create_child_def Let_def uuid4_def split: prod.splits sum.splits dest!: job_create_cases)
  then show ?thesis by (auto simp: forward_def ahead_def)
qed

lemma forward_settled:
  "forward s (update_result i (settle_result now interrupted) (close_child now tenant interrupted c s))"
proof (rule forward_work)
  assume ok: "job_table_ok (jobs (work s))"
  have "progress s (update_result i (settle_result now interrupted) (close_child now tenant interrupted c s))"
    by (rule progress_trans [OF close_child_progress [OF ok] update_result_progress])
  then show "jobs_step\<^sup>*\<^sup>* (jobs (work s))
      (jobs (work (update_result i (settle_result now interrupted) (close_child now tenant interrupted c s))))"
    by (simp add: progress_def)
qed (simp add: update_result_def close_child_def split: option.split)

lemma forward_reconcile_addresses:
  "reconcile_addresses now tenant interrupted parent target by_address as ids s = (t, r) \<Longrightarrow> forward s t"
proof (induction "as" arbitrary: ids s)
  case (Cons a "as")
  let ?fin = "\<lambda>r s. update_result (result_id r) (settle_result now interrupted)
    (close_child now tenant interrupted (child_job_id r) s)"
  have rest: "forward s t" if "forward s s1"
      "reconcile_addresses now tenant interrupted parent target by_address as ids1 (?fin r1 s1) = (t, r)"
    for s1 r1 ids1
    using that(1) forward_settled Cons.IH [OF that(2)] forward_trans by blast
  show ?case
  proof (cases "dict_get by_address a")
    case (Some r1)
    with Cons.prems show ?thesis by (intro rest [OF forward_refl]) (auto simp: Let_def)
  next
    case None
    obtain s1 made where c: "create_child id now tenant parent target a s = (s1, made)" by fastforce
    note step = forward_create_child [OF c]
    show ?thesis
    proof (cases made)
      case (Inl e)
      with None c Cons.prems step show ?thesis by (simp add: Let_def)
    next
      case (Inr cr)
      with None c Cons.prems show ?thesis
        by (cases cr) (auto simp: Let_def intro: rest [OF step])
    qed
  qed
qed simp

lemma forward_reconcile_parent:
  assumes "reconcile_parent_job now tenant parent_i interrupted max_targets s = (t, r)"
  shows "forward s t"
proof (cases rule: reconcile_parent_cases [of now tenant parent_i interrupted max_targets s])
  case (works parent target addresses)
  show ?thesis
  proof (rule reconcile_parent_whole [OF works, of now interrupted])
    fix s1
    assume same: "jobs (work s1) = jobs (work s)" "committed s1 = committed s"
      and whole: "reconcile_parent_job now tenant parent_i interrupted max_targets s =
      (case reconcile_addresses now tenant interrupted parent target
              (fold (\<lambda>r d. dict_set (result_address r) r d) (results_of tenant parent_i s1) []) addresses
              (map result_id (results_of tenant parent_i s1)) s1 of
         (s2, Inl e) \<Rightarrow> (s2, Inl e)
       | (s2, Inr ids) \<Rightarrow>
           (commit (finalize_parent_run now parent (length addresses) (rows_with_ids ids s2) s2),
            Inr (rows_with_ids ids s2)))"
    obtain s2 out where run: "reconcile_addresses now tenant interrupted parent target
              (fold (\<lambda>r d. dict_set (result_address r) r d) (results_of tenant parent_i s1) []) addresses
              (map result_id (results_of tenant parent_i s1)) s1 = (s2, out)" by fastforce
    have "forward s s1" by (rule forward_same) (simp_all add: same)
    then have two: "forward s s2" using forward_reconcile_addresses [OF run] by (rule forward_trans)
    have "forward s2 (commit (finalize_parent_run now parent (length addresses) (rows_with_ids ids s2) s2))" for ids
      by (simp add: forward_def ahead_def)
    then show ?thesis
      using assms whole run two forward_trans by (cases out) (auto split: prod.splits sum.splits)
  qed
qed (use assms in \<open>auto intro: forward_same\<close>)

lemma request_cancellation_moves [moves]:
  assumes "lawful env" shows "forwards (request_cancellation env synchronized now tenant i user reason)"
proof (rule forwardsI)
  fix s u r assume op: "request_cancellation env synchronized now tenant i user reason s = (u, r)"
  show "forward s u"
  proof (cases "repo_get tenant i s")
    case None
    with op show ?thesis by (simp add: request_cancellation_def)
  next
    case (Some job)
    show ?thesis
    proof (cases "is_terminal (job_state job) \<or> cancellation_requested_at job \<noteq> None")
      case True
      with Some op show ?thesis by (auto simp: request_cancellation_def split: if_splits)
    next
      case False
      obtain s1 ids where upd: "update_returning (\<lambda>j. job_where tenant i j \<and> job_state j = job_state job)
          (cancel_values now user reason (job_state job)) (env s) = (s1, ids)" by fastforce
      have "forward (env s) s1"
        by (rule forward_update_returning [OF _ upd]) (use False cancel_row_step in blast)
      then have mid: "forward s s1" using assms unfolding lawful_def using forward_trans by blast
      have fan: "forward s1 s2" if "reconcile_if_fanout now tenant job False s1 = (s2, out)" for s2 out
        using that by (auto simp: reconcile_if_fanout_def dest: forward_reconcile_parent
            split: option.splits if_splits prod.splits sum.splits)
      have "forward s (rollback s1)" using mid forward_rollback forward_trans by blast
      then show ?thesis
        using op Some False upd mid fan forward_trans [OF mid]
        by (cases ids rule: scalar_one_or_none.cases)
           (auto simp: request_cancellation_def Let_def split: if_splits option.splits prod.splits sum.splits)
    qed
  qed
qed

section \<open>The statements of a run\<close>

definition goes :: "exec_state \<Rightarrow> exec_state \<Rightarrow> bool" where
  "goes x y \<longleftrightarrow> forward (exec_session x) (exec_session y)"

definition lawful_world :: "exec_world \<Rightarrow> bool" where
  "lawful_world w \<longleftrightarrow> (\<forall>k. lawful (others w k))"

interpretation goes: kept_relation goes
proof unfold_locales
  show "goes s t \<Longrightarrow> goes t u \<Longrightarrow> goes s u" for s t u unfolding goes_def by (rule forward_trans)
qed (simp add: goes_def)

named_theorems going \<open>pieces of a run that move the job table along the life cycle\<close>

lemmas [going] = goes.kept_basic goes.kept_and_then goes.kept_catches goes.kept_repeats

lemma goes_read [going]: "keeps goes (db_read f)"
  by (simp add: db_read_def goes.kept_reads)

lemma goes_write: "(\<And>s. forward s (f s)) \<Longrightarrow> keeps goes (db_write f)"
  unfolding db_write_def by (rule goes.kept_modify) (simp add: goes_def on_session_def)

lemma goes_plain [going]:
  "keeps goes (db_write commit)" "keeps goes (db_write rollback)" "keeps goes (db_write (set_result i f))"
  "keeps goes (read_clock w)" "keeps goes (lift r)" "keeps goes (lift_exc q)"
  by (rule goes_write forward_commit forward_rollback forward_same
      | simp add: set_result_def read_clock_def lift_def lift_exc_def keeps_def goes_def split: sum.split)+

lemma goes_pause [going]: "lawful_world w \<Longrightarrow> keeps goes (pause w)"
  by (simp add: keeps_def goes_def pause_def on_session_def lawful_world_def lawful_def)

lemma goes_repo_op:
  assumes "\<And>k. forwards (f (others w k) (clock_at w k))"
  shows "keeps goes (repo_op w f)"
proof (rule keepsI)
  fix x y r assume run: "repo_op w f x = (y, r)"
  obtain s q where op: "f (others w (exec_steps x)) (clock_at w (exec_steps x)) (exec_session x) = (s, q)"
    by fastforce
  from run op have "exec_session y = s" by (auto simp: repo_op_def split: sum.splits)
  with forwardsD [OF assms op] show "goes x y" by (simp add: goes_def)
qed

lemma goes_job_op [going]:
  assumes "lawful_world w"
  shows "keeps goes (repo_op w (\<lambda>env now. transition env now tenant i t code msg nc owner))"
    "keeps goes (repo_op w (\<lambda>env now. mark_failed_after_rollback env now tenant i failure text owner))"
    "keeps goes (repo_op w (\<lambda>env now. finalise_cancellation env now tenant i owner))"
    "keeps goes (repo_op w (\<lambda>env now. claim env now tenant i (Some worker) lease))"
    "keeps goes (repo_op w (\<lambda>env now. record_selection env now tenant i transport platform))"
    "keeps goes (repo_op w (\<lambda>env now. request_cancellation env synchronized now tenant i user reason))"
  using assms unfolding lawful_world_def by (auto intro!: goes_repo_op moves)

text \<open>Operations on the other tables.\<close>

lemma forwards_tables:
  "forwards (result_insert draft)" "forwards (attempt_start now tenant result_i transport order corr)"
  "forwards (attempt_finish now a result code message)" "forwards (evidence_create digest e version)"
  "forwards (add_live_snapshot tenant run snapshot now)"
  by (auto simp: forwards_def result_insert_def attempt_start_def attempt_finish_def evidence_create_def
      add_live_snapshot_def Let_def uuid4_def intro!: forward_same split: option.split)

lemma goes_table_op [going]:
  "keeps goes (repo_op w (\<lambda>env now. result_insert (draft env now)))"
  "keeps goes (repo_op w (\<lambda>env now. attempt_start now tenant result_i transport order corr))"
  "keeps goes (repo_op w (\<lambda>env now. attempt_finish now a result code message))"
  "keeps goes (repo_op w (\<lambda>env now. evidence_create digest e version))"
  "keeps goes (repo_op w (\<lambda>env now. add_live_snapshot tenant run snapshot now))"
  by (rule goes_repo_op, rule forwards_tables)+

lemma goes_attempt [going]: "keeps goes (modify (\<lambda>x. x\<lparr>exec_attempt := a\<rparr>))"
  by (rule goes.kept_modify) (simp add: goes_def)

lemma goes_runs [going]: "keeps goes (db_write (\<lambda>s. put_runs (g s) s))"
  by (rule goes_write, rule forward_same) simp_all

text \<open>The fallback over several transports only writes attempts.\<close>

definition attempts_only :: "session \<Rightarrow> session \<Rightarrow> bool" where
  "attempts_only s t \<longleftrightarrow> committed t = committed s \<and>
     (\<exists>ts. work t = (work s)\<lparr>transport_attempts := ts\<rparr>)"

lemma attempts_only_refl: "attempts_only s s"
  unfolding attempts_only_def by (intro conjI exI [of _ "transport_attempts (work s)"]) simp_all

lemma attempts_only_trans: "attempts_only s t \<Longrightarrow> attempts_only t u \<Longrightarrow> attempts_only s u"
  by (auto simp: attempts_only_def)

lemma record_frame:
  "attempts_only s (snd (record_start device now transport order s))"
  "attempts_only s (record_finish record now r s)"
proof -
  have "attempts_only s (fst (attempt_start now tenant i transport order corr s))" for tenant i corr
    using attempts_only_refl [of s]
    by (auto simp: attempt_start_def uuid4_def Let_def put_attempts_def attempts_only_def)
  then show "attempts_only s (snd (record_start device now transport order s))"
    using attempts_only_refl
    by (auto simp: record_start_def split: option.split prod.split sum.split) (metis fst_conv)+
  have "attempts_only s (fst (attempt_finish now a result code message s))" for a result code message
    by (auto simp: attempt_finish_def put_attempts_def attempts_only_def)
  then show "attempts_only s (record_finish record now r s)"
    using attempts_only_refl by (auto simp: record_finish_def split: option.split)
qed

lemma fallback_loop_frame:
  "fallback_loop clock device k configs fb s = (fb', s') \<Longrightarrow> attempts_only s s'"
proof (induction configs arbitrary: k fb s)
  case (Cons c cs)
  obtain t0 t1 where clock: "clock k = (t0, t1)" by fastforce
  obtain a s1 where start: "record_start device t0 (config_name c) k s = (a, s1)" by fastforce
  define r where "r = execute_transport_attempt c k t0 t1"
  define s2 where "s2 = record_finish a t1 r s1"
  have two: "attempts_only s s2"
    using record_frame(1) [of s device t0 "config_name c" k] record_frame(2) [of s1 a t1 r] start
    unfolding s2_def by (auto intro: attempts_only_trans)
  show ?case
  proof (cases "success r")
    case True
    with Cons.prems two show ?thesis by (simp add: clock start r_def s2_def Let_def)
  next
    case False
    with Cons.prems obtain fb2 where "fallback_loop clock device (k + 1) cs fb2 s2 = (fb', s')"
      by (simp add: clock start r_def s2_def Let_def)
    with Cons.IH two show ?thesis by (blast intro: attempts_only_trans)
  qed
qed (simp add: attempts_only_refl)

lemma run_fallback_frame:
  "run_fallback w target device configs x = (y, r) \<Longrightarrow> attempts_only (exec_session x) (exec_session y) \<and> is_ok r"
  unfolding run_fallback_def discover_with_fallback_def
  by (auto split: prod.splits dest!: fallback_loop_frame)

lemma forward_attempts: "attempts_only s t \<Longrightarrow> forward s t"
  by (auto simp: attempts_only_def intro!: forward_same)

lemma goes_fallback [going]: "keeps goes (run_fallback w target device configs)"
  by (rule keepsI) (auto simp: goes_def dest: run_fallback_frame intro: forward_attempts)

section \<open>The parts of a run\<close>

lemma goes_build_evidence [going]: "keeps goes (build_evidence w job target c payload)"
proof (rule keepsI)
  fix x y r assume "build_evidence w job target c payload x = (y, r)"
  then have "jobs (work (exec_session y)) = jobs (work (exec_session x))"
    "jobs (committed (exec_session y)) = jobs (committed (exec_session x))"
    by (auto simp: build_evidence_def and_then_def read_clock_def Let_def uuid4_def)
  then show "goes x y" unfolding goes_def by (rule forward_same)
qed

lemmas run_parts = copy_cancellation_def check_cancelled_def start_transport_attempt_def finish_attempt_def
  record_device_result_def ensure_device_result_for_failure_def finalize_single_device_run_def
  record_unsupported_credential_attempt_def begin_result_def read_target_def cancelled_result_def

lemma goes_parts [going]:
  assumes "lawful_world w"
  shows "keeps goes (copy_cancellation w tenant i pj)"
    "keeps goes (start_transport_attempt w job target)" "keeps goes (finish_attempt w result code message)"
    "keeps goes (record_device_result w job target devices transport state)"
    "keeps goes (ensure_device_result_for_failure w job target failure message transport)"
    "keeps goes (finalize_single_device_run w run_i final)"
    "keeps goes (record_unsupported_credential_attempt w job target name)"
    "keeps goes (begin_result w tenant job target parent)" "keeps goes (read_target job tenant)"
    "keeps goes (cancelled_result w tenant job)"
  using assms unfolding run_parts Let_def
  by (auto intro!: going split: option.split)

lemma goes_check [going]: "lawful_world w \<Longrightarrow> keeps goes (check_cancelled w tenant i parent)"
  unfolding check_cancelled_def by (auto intro!: going split: option.split)

lemma goes_configs [going]:
  "lawful_world w \<Longrightarrow> keeps goes (build_transport_configs w reg job target policy es)"
  by (induction es) (auto intro!: going)

lemma goes_endings [going]:
  assumes "lawful_world w"
  shows "keeps goes (finish_failed_multi w tenant job target device mt)"
    "keeps goes (finish_cancelled w tenant owner job)" "keeps goes (not_executed tenant i)"
  using assms unfolding finish_failed_multi_def finish_cancelled_def not_executed_def
  by (auto intro!: going split: prod.split)

lemma goes_handlers [going]:
  assumes "lawful_world w"
  shows "keeps goes (on_cancellation w tenant owner job)" "keeps goes (on_failure w tenant owner job e)"
    "keeps goes (claim_job w tenant i owner lease claimed)"
  using assms unfolding on_cancellation_def on_failure_def claim_job_def Let_def
  by (auto intro!: going)

lemma goes_discovered [going]:
  "lawful_world w \<Longrightarrow> keeps goes (finish_discovered w tenant job target parent device configs mt payload)"
  unfolding finish_discovered_def Let_def by (intro going)

lemma goes_multi [going]:
  assumes "lawful_world w"
  shows "keeps goes (execute_multi_transport w reg profiles tenant job target parent)"
  using assms unfolding execute_multi_transport_def Let_def
  by (auto intro!: going split: option.split)

lemma goes_single [going]:
  assumes "lawful_world w"
  shows "keeps goes (execute_single_transport w reg tenant owner job target parent)"
  using assms unfolding execute_single_transport_def Let_def
  by (auto intro!: going split: option.split prod.split)

lemma goes_run_job [going]:
  "lawful_world w \<Longrightarrow> keeps goes (run_job w reg profiles tenant owner parent job)"
  unfolding run_job_def by (auto intro!: going)

lemma goes_claimed [going]:
  "lawful_world w \<Longrightarrow> keeps goes (execute_claimed w reg profiles tenant owner parent job)"
  unfolding execute_claimed_def by (auto intro!: going split: execution_error.split)

lemma goes_execute:
  "lawful_world w \<Longrightarrow> keeps goes (execute_job w reg profiles tenant i parent owner lease claimed)"
  unfolding execute_job_def by (auto intro!: going split: sum.split option.split)

text \<open>
  A run of a discovery job, whatever its collectors, parsers and lease do and whatever lawful
  transactions commit in between, leaves a committed job table that the life cycle reaches from the one it
  found, and so one that satisfies the table invariant; this holds when it returns and when it raises.
\<close>

theorem execution_keeps_life_cycle:
  assumes "lawful_world w" and "sound (exec_session x)"
    and "execute_job w reg profiles tenant i parent owner lease claimed x = (y, r)"
  shows "jobs_step\<^sup>*\<^sup>* (jobs (work (exec_session x))) (jobs (committed (exec_session y))) \<and>
    job_table_ok (jobs (committed (exec_session y)))"
proof -
  have "forward (exec_session x) (exec_session y)"
    using keepsD [OF goes_execute [OF assms(1)] assms(3)] by (simp add: goes_def)
  moreover have ok: "job_table_ok (jobs (work (exec_session x)))" using assms(2) by (simp add: sound_def)
  moreover have "ahead (jobs (work (exec_session x))) (exec_session x)"
    using clean_committed [of "exec_session x"] assms(2) by (simp add: ahead_def sound_def)
  ultimately have "jobs_step\<^sup>*\<^sup>* (jobs (work (exec_session x))) (jobs (committed (exec_session y)))"
    unfolding forward_def ahead_def by blast
  then show ?thesis using ok job_table.steps_inv by blast
qed

section \<open>A run that reports success left a terminal row\<close>

definition closed_row :: "string \<Rightarrow> uuid \<Rightarrow> DiscoveryJobRecord option \<Rightarrow> DiscoveryJobRecord list \<Rightarrow> bool" where
  "closed_row tenant i r js \<longleftrightarrow>
     (\<exists>j \<in> set js. r = Some j \<and> job_where tenant i j \<and> is_terminal (job_state j))"

definition tabled :: "session \<Rightarrow> bool" where
  "tabled s \<longleftrightarrow> (\<exists>js. job_table_ok js \<and> ahead js s)"

lemma tabled_ok: "tabled s \<Longrightarrow> job_table_ok (jobs (work s))"
  unfolding tabled_def ahead_def using job_table.steps_inv by blast

lemma forward_tabled: "forward s t \<Longrightarrow> tabled s \<Longrightarrow> tabled t"
  unfolding forward_def tabled_def by blast

lemma tabled_rollback: "tabled s \<Longrightarrow> tabled (rollback s)"
  using forward_rollback forward_tabled by blast

lemma transition_closes_row:
  assumes "transition env now tenant i t code msg nc owner s = (u, Inr r)" and "is_terminal t"
    and "lawful env" and "tabled s"
  shows "closed_row tenant i r (jobs (work u))"
proof -
  obtain st conflict where upd: "guarded_update (transition_where tenant i st nc owner)
      (transition_values now t code msg) conflict tenant i (env s) = (u, Inr r)"
    using assms(1) by (auto simp: transition_def split: option.splits sum.splits)
  note upd = guarded_update_Inr [OF upd]
  from upd obtain j where "filter (transition_where tenant i st nc owner) (jobs (work (env s))) = [j]" by blast
  then have "j \<in> set (filter (transition_where tenant i st nc owner) (jobs (work (env s))))" by simp
  then have j: "j \<in> set (jobs (work (env s)))" "transition_where tenant i st nc owner j" by simp_all
  let ?j = "transition_values now t code msg j"
  have ids: "job_where tenant i ?j" using j(2) by (simp add: transition_where_def job_where_def)
  have mem: "?j \<in> set (jobs (work u))" using j upd by (auto simp: set_sql_update)
  have "forward s u" using forwardsD [OF transition_moves [OF assms(3)] assms(1)] .
  then have "job_table_ok (jobs (work u))" using assms(4) forward_tabled tabled_ok by blast
  then have "repo_get tenant i u = Some ?j" using mem ids by (intro repo_getI) (simp_all add: job_where_def)
  with upd mem ids assms(2) show ?thesis by (auto simp: closed_row_def)
qed

lemma finalise_closes_row:
  assumes "finalise_cancellation env now tenant i owner s = (u, Inr r)" and "lawful env" and "tabled s"
  shows "closed_row tenant i r (jobs (work u))"
proof -
  from assms(1) obtain job where job: "repo_get tenant i s = Some job"
    by (auto simp: finalise_cancellation_def split: option.splits)
  show ?thesis
  proof (cases "job_state job = DiscoveryJobStatus.CANCELLED")
    case True
    with job assms(1) have "u = s" "r = Some job" by (simp_all add: finalise_cancellation_def)
    with True repo_get_Some [OF job] show ?thesis
      by (auto simp: closed_row_def job_where_def is_terminal_def)
  next
    case False
    with job assms(1) show ?thesis
      by (intro transition_closes_row [OF _ _ assms(2,3)])
         (auto simp: finalise_cancellation_def is_terminal_def split: if_splits)
  qed
qed

lemma mark_failed_closes_row:
  assumes "mark_failed_after_rollback env now tenant i code msg owner s = (u, Inr r)"
    and "lawful env" and "tabled s"
  shows "closed_row tenant i r (jobs (work u))"
  using transition_closes_row [OF _ _ assms(2) tabled_rollback [OF assms(3)]] assms(1)
  by (simp add: mark_failed_after_rollback_def is_terminal_def)

text \<open>What follows the closing statement leaves the jobs of the session and commits them.\<close>

definition same_rows :: "exec_state \<Rightarrow> exec_state \<Rightarrow> bool" where
  "same_rows x y \<longleftrightarrow> jobs (work (exec_session y)) = jobs (work (exec_session x))"

interpretation rows: kept_relation same_rows
  by unfold_locales (simp_all add: same_rows_def)

lemma rows_op:
  assumes "\<And>env now s. jobs (work (fst (f env now s))) = jobs (work s)"
  shows "keeps same_rows (repo_op w f)"
  by (rule keepsI) (use assms in \<open>auto simp: repo_op_def same_rows_def split: prod.splits sum.splits; metis fst_conv\<close>)

lemma same_rows_basic:
  "keeps same_rows (db_read f)" "keeps same_rows (read_clock w)" "keeps same_rows (db_write (set_result k g))"
  "keeps same_rows (db_write (\<lambda>s. put_runs (h s) s))"
  by (auto simp: keeps_def db_read_def db_write_def on_session_def same_rows_def read_clock_def set_result_def)

lemma same_rows_insert: "keeps same_rows (repo_op w (\<lambda>env now. result_insert (draft env now)))"
  by (rule rows_op) (simp add: result_insert_def uuid4_def Let_def)

lemma same_rows_parts:
  "keeps same_rows (finalize_single_device_run w run_i final)"
  "keeps same_rows (ensure_device_result_for_failure w job target failure message transport)"
  unfolding finalize_single_device_run_def ensure_device_result_for_failure_def Let_def
  by (auto intro!: rows.kept_basic rows.kept_and_then same_rows_basic same_rows_insert split: option.split)

definition publishes :: "DiscoveryJobRecord option \<Rightarrow> DiscoveryExecutionOutcome exec \<Rightarrow> bool" where
  "publishes r m \<longleftrightarrow>
     (\<forall>x y out. m x = (y, Inr out) \<longrightarrow> outcome_job out = r \<and>
        jobs (committed (exec_session y)) = jobs (work (exec_session x)))"

lemma publishes_commit:
  "publishes r (and_then (db_write commit) (\<lambda>_. returns (outcome_of r done n)))"
  "publishes r (and_then (db_write commit) (\<lambda>_. and_then (db_write (set_result k g)) (\<lambda>_.
     returns (outcome_of r done n))))"
  by (simp_all add: publishes_def db_write_def on_session_def outcome_of_def set_result_def put_results_def)

lemma publishes_step: "keeps same_rows m \<Longrightarrow> publishes r k \<Longrightarrow> publishes r (and_then m (\<lambda>_. k))"
  unfolding publishes_def
  by (intro allI impI, elim and_then_InrE) (auto dest!: keepsD simp: same_rows_def)

definition settles :: "string \<Rightarrow> uuid \<Rightarrow> DiscoveryExecutionOutcome exec \<Rightarrow> bool" where
  "settles tenant i m \<longleftrightarrow>
     (\<forall>x y out. tabled (exec_session x) \<and> m x = (y, Inr out) \<and> executed out \<longrightarrow>
        closed_row tenant i (outcome_job out) (jobs (committed (exec_session y))))"

lemma settles_and_then:
  assumes "keeps goes m" and "\<And>a. settles tenant i (f a)"
  shows "settles tenant i (and_then m f)"
  unfolding settles_def
proof (intro allI impI, elim conjE)
  fix x y out assume x: "tabled (exec_session x)" and run: "and_then m f x = (y, Inr out)" and "executed out"
  from run obtain x' a where first: "m x = (x', Inr a)" and rest: "f a x' = (y, Inr out)" by (rule and_then_InrE)
  have "tabled (exec_session x')" using keepsD [OF assms(1) first] x forward_tabled by (simp add: goes_def)
  with rest \<open>executed out\<close> assms(2) show "closed_row tenant i (outcome_job out) (jobs (committed (exec_session y)))"
    unfolding settles_def by blast
qed

lemma settles_catches:
  assumes "keeps goes m" and "settles tenant i m" and "\<And>e. settles tenant i (h e)"
  shows "settles tenant i (catches m h)"
  unfolding settles_def
proof (intro allI impI, elim conjE)
  fix x y out assume x: "tabled (exec_session x)" and run: "catches m h x = (y, Inr out)" and "executed out"
  from run show "closed_row tenant i (outcome_job out) (jobs (committed (exec_session y)))"
  proof (cases rule: catches_cases)
    case (raised x' e)
    have "tabled (exec_session x')" using keepsD [OF assms(1) raised(1)] x forward_tabled by (simp add: goes_def)
    with raised \<open>executed out\<close> assms(3) show ?thesis unfolding settles_def by blast
  next
    case (returned a)
    with x \<open>executed out\<close> assms(2) show ?thesis unfolding settles_def by blast
  qed
qed

lemma settles_ending:
  assumes w: "lawful_world w"
    and op: "\<And>env now s u r. f env now s = (u, Inr r) \<Longrightarrow> lawful env \<Longrightarrow> tabled s \<Longrightarrow>
      closed_row tenant i r (jobs (work u))"
    and tail: "\<And>r. publishes r (k r)"
  shows "settles tenant i (and_then (repo_op w f) k)"
  unfolding settles_def
proof (intro allI impI, elim conjE)
  fix x y out assume x: "tabled (exec_session x)" and run: "and_then (repo_op w f) k x = (y, Inr out)"
  from run obtain x' r where first: "repo_op w f x = (x', Inr r)" and rest: "k r x' = (y, Inr out)"
    by (rule and_then_InrE)
  from first have "f (others w (exec_steps x)) (clock_at w (exec_steps x)) (exec_session x) = (exec_session x', Inr r)"
    by (auto simp: repo_op_def split: prod.splits sum.splits)
  then have "closed_row tenant i r (jobs (work (exec_session x')))"
    using op w x unfolding lawful_world_def by blast
  with rest tail [of r] show "closed_row tenant i (outcome_job out) (jobs (committed (exec_session y)))"
    unfolding publishes_def by fastforce
qed

lemma settles_raises [simp]: "settles tenant i (raises e)"
  by (simp add: settles_def)

lemma settles_not_executed: "settles tenant i (not_executed t k)"
  by (auto simp: settles_def not_executed_def outcome_of_def and_then_def db_write_def db_read_def raises_def
      returns_def split: if_splits sum.splits prod.splits)

lemma settles_cancelled:
  "lawful_world w \<Longrightarrow> settles tenant (job_id job) (finish_cancelled w tenant owner job)"
  unfolding finish_cancelled_def
  by (rule settles_ending) (auto dest: finalise_closes_row intro: publishes_commit)

lemma settles_success:
  assumes w: "lawful_world w" and tail: "\<And>r. publishes r (k r)"
  shows "settles tenant i (and_then (repo_op w (\<lambda>env now.
    transition env now tenant i SUCCEEDED None None nc own)) k)"
proof (rule settles_ending [OF w _ tail])
  fix env now s u r
  assume "transition env now tenant i SUCCEEDED None None nc own s = (u, Inr r)" "lawful env" "tabled s"
  moreover have "is_terminal SUCCEEDED" by (simp add: is_terminal_def)
  ultimately show "closed_row tenant i r (jobs (work u))" by (intro transition_closes_row)
qed

lemma settles_failure:
  assumes w: "lawful_world w" and tail: "\<And>r. publishes r (k r)"
  shows "settles tenant i (and_then (repo_op w (\<lambda>env now.
    mark_failed_after_rollback env now tenant i code message own)) k)"
  by (rule settles_ending [OF w mark_failed_closes_row tail])

lemma goes_raise_some [going]: "keeps goes (case q of None \<Rightarrow> returns () | Some e \<Rightarrow> raises (Raised_Exc e))"
  by (cases q) (simp_all add: going)

text \<open>The pieces before the closing statement settle nothing; the ones after it publish the row.\<close>

lemmas publishing = publishes_commit publishes_step same_rows_parts

lemma settles_failed_multi:
  assumes w: "lawful_world w"
  shows "settles tenant (job_id job) (finish_failed_multi w tenant job target device mt)"
proof (cases "multi_failure (mt_result_state mt) (mt_attempts mt)")
  case (Pair code message)
  show ?thesis unfolding finish_failed_multi_def Pair Let_def prod.case
    by (rule settles_failure [OF w] settles_and_then publishing going w)+
qed

lemma settles_handlers:
  assumes w: "lawful_world w"
  shows "settles tenant (job_id job) (on_cancellation w tenant owner job)"
    "settles tenant (job_id job) (on_failure w tenant owner job e)"
proof -
  show "settles tenant (job_id job) (on_cancellation w tenant owner job)"
    unfolding on_cancellation_def by (rule settles_cancelled [OF w] settles_and_then going w)+
  show "settles tenant (job_id job) (on_failure w tenant owner job e)"
    unfolding on_failure_def Let_def
    by (rule settles_failure [OF w] settles_cancelled [OF w] settles_catches settles_and_then publishing
        settles_raises going w | split if_split, intro conjI impI)+
qed

lemma settles_discovered:
  assumes w: "lawful_world w"
  shows "settles tenant (job_id job) (finish_discovered w tenant job target parent device configs mt payload)"
  unfolding finish_discovered_def Let_def
  by (rule settles_success [OF w] settles_and_then publishing going w)+

lemma settles_single:
  assumes w: "lawful_world w"
  shows "settles tenant (job_id job) (execute_single_transport w reg tenant owner job target parent)"
  unfolding execute_single_transport_def Let_def
  by (rule settles_success [OF w] settles_and_then publishing going w | split prod.split, intro allI impI)+

text \<open>An attempt whose errors, the two signals apart, lead to another piece of code.\<close>

lemma attempt_or_else:
  "and_then (catches (and_then m (\<lambda>out. returns (Some out))) (\<lambda>e. if is_signal e then raises e else returns None))
     (\<lambda>finished. case finished of Some out \<Rightarrow> returns out | None \<Rightarrow> k) =
   catches m (\<lambda>e. if is_signal e then raises e else k)"
  by (auto simp: and_then_def catches_def returns_def raises_def fun_eq_iff split: prod.splits sum.splits)

lemma settles_attempt:
  assumes "keeps goes m" and "settles tenant i m" and "settles tenant i k"
  shows "settles tenant i
    (and_then (if found then catches (and_then m (\<lambda>out. returns (Some out)))
         (\<lambda>e. if is_signal e then raises e else returns None) else returns None)
       (\<lambda>finished. case finished of Some out \<Rightarrow> returns out | None \<Rightarrow> k))"
proof (cases found)
  case True
  have "settles tenant i (catches m (\<lambda>e. if is_signal e then raises e else k))"
    by (rule settles_catches [OF assms(1,2)]) (simp add: assms(3))
  with True show ?thesis by (simp add: attempt_or_else)
next
  case False
  with assms(3) show ?thesis by (simp add: and_then_simps(1))
qed

lemma settles_multi:
  assumes w: "lawful_world w"
  shows "settles tenant (job_id job) (execute_multi_transport w reg profiles tenant job target parent)"
  unfolding execute_multi_transport_def Let_def
  by (rule settles_attempt settles_discovered [OF w] settles_failed_multi [OF w] settles_and_then
      settles_raises going w | split if_split, intro conjI impI)+

lemma settles_claimed:
  assumes w: "lawful_world w"
  shows "settles tenant (job_id job) (execute_claimed w reg profiles tenant owner parent job)"
proof -
  have run: "settles tenant (job_id job) (run_job w reg profiles tenant owner parent job)"
    unfolding run_job_def
    by (rule settles_multi [OF w] settles_single [OF w] settles_and_then settles_raises going w
        | split if_split, intro conjI impI)+
  show ?thesis unfolding execute_claimed_def
    by (rule settles_catches [OF goes_run_job [OF w] run])
      (auto split: execution_error.split intro: settles_handlers [OF w] settles_not_executed)
qed

lemma claim_job_row:
  assumes "claim_job w tenant i owner lease claimed x = (y, Inr (Some job))"
  shows "job_id job = i"
proof -
  have "repo_get tenant i s = Some job \<Longrightarrow> job_id job = i" for s
    by (drule repo_get_Some) simp
  then show ?thesis using assms
    by (auto simp: claim_job_def and_then_def db_read_def reads_def returns_def raises_def repo_op_def db_write_def
        modify_def owned_running_job_def job_where_def claim_def
        dest!: sql_first_Some guarded_update_Inr split: if_splits sum.splits prod.splits option.splits)
qed

lemma executed_row:
  assumes "lawful_world w" and "sound (exec_session x)"
    and "execute_job w reg profiles tenant i parent owner lease claimed x = (y, Inr out)" and "executed out"
  shows "closed_row tenant i (outcome_job out) (jobs (committed (exec_session y)))"
proof -
  let ?claim = "catches (and_then (claim_job w tenant i owner lease claimed) (\<lambda>job. returns (Inl job)))
       (\<lambda>e. if is_transition_error e then and_then (not_executed tenant i) (\<lambda>out. returns (Inr out)) else raises e)"
  have go: "keeps goes ?claim" by (rule going assms(1) | split if_split, intro conjI impI)+
  obtain x' r where first: "?claim x = (x', Inr r)"
    and rest: "(case r of Inr out \<Rightarrow> returns out | Inl None \<Rightarrow> raises attribute_error
       | Inl (Some job) \<Rightarrow> execute_claimed w reg profiles tenant owner parent job) x' = (y, Inr out)"
    using assms(3) unfolding execute_job_def by (rule and_then_InrE)
  have "tabled (exec_session x)"
    using assms(2) clean_committed [of "exec_session x"] unfolding tabled_def ahead_def sound_def by auto
  then have x': "tabled (exec_session x')" using keepsD [OF go first] forward_tabled by (simp add: goes_def)
  show ?thesis
  proof (cases r)
    case (Inl job)
    with rest obtain row where row: "job = Some row" by (cases job) simp_all
    then have "job_id row = i"
      using first Inl by (auto elim!: catches_cases and_then_InrE dest!: claim_job_row split: if_splits)
    with settles_claimed [OF assms(1), of tenant row] rest Inl row x' assms(4)
    show ?thesis unfolding settles_def by simp
  next
    case (Inr out')
    then have "\<not> executed out'"
      using first by (auto elim!: catches_cases and_then_InrE simp: not_executed_def outcome_of_def split: if_splits)
    with Inr rest assms(4) show ?thesis by simp
  qed
qed

text \<open>
  C26: When a run of a job returns that it executed the job, the job is finished: the committed table
  holds the row it returns, under the tenant and identifier of the call, in a terminal state. This holds
  whatever the collectors, parsers and other transactions did.
\<close>

theorem executed_job_is_terminal:
  assumes "lawful_world w" and "sound (exec_session x)"
    and "execute_job w reg profiles tenant i parent owner lease claimed x = (y, Inr out)" and "executed out"
  shows "\<exists>j \<in> set (jobs (committed (exec_session y))).
    outcome_job out = Some j \<and> job_id j = i \<and> job_tenant_id j = tenant \<and> is_terminal (job_state j)"
  using executed_row [OF assms] by (auto simp: closed_row_def job_where_def)

end
