(* ===== verification/Worker_Safety.thy ===== *)
theory Worker_Safety
  imports Discovery_Worker Execution_Safety Job_Protocol
begin

text \<open>
  The worker composes every operation on jobs: polling, claims, the heartbeat, the run of single and
  fan-out jobs and the handlers. Whatever runs beside it, it moves the job table along the life cycle.
\<close>

lemma forward_committed:
  assumes "forward s t" and "sound s"
  shows "jobs_step\<^sup>*\<^sup>* (jobs (work s)) (jobs (committed t)) \<and> job_table_ok (jobs (committed t))"
proof -
  have ok: "job_table_ok (jobs (work s))" and "ahead (jobs (work s)) s"
    using assms(2) clean_committed [of s] by (simp_all add: sound_def ahead_def)
  with assms(1) have "jobs_step\<^sup>*\<^sup>* (jobs (work s)) (jobs (committed t))"
    unfolding forward_def ahead_def by blast
  then show ?thesis using ok job_table.steps_inv by blast
qed

section \<open>Fan-out\<close>

lemma forward_env: "lawful env \<Longrightarrow> forward s t \<Longrightarrow> forward s (env t)"
  unfolding lawful_def using forward_trans by blast

lemma forward_uuid4: "forward s (snd (uuid4 s))"
  by (rule forward_same) simp_all

lemma job_create_moves [moves]:
  assumes "lawful env" shows "forwards (job_create env now tenant target run parent creator caps timeout corr)"
proof (rule forwardsI)
  fix s t r assume run: "job_create env now tenant target run parent creator caps timeout corr s = (t, r)"
  let ?u = "env (snd (uuid4 s))"
  note u = forward_env [OF assms forward_uuid4, of s]
  have "forward ?u (put_jobs (jobs (work ?u) @ [j]) ?u)"
    if "j = new_job now i tenant target run parent creator caps timeout corr" "job_insert_ok (work ?u) j" for i j
    by (rule forward_work) (use that insert_steps in auto)
  with job_create_cases [OF run] u show "forward s t"
    using forward_trans [OF u] forward_rollback by fastforce
qed

lemma create_child_moves [moves]:
  assumes "lawful env" shows "forwards (create_child env now tenant parent scope a)"
proof (rule forwardsI)
  fix s t r assume run: "create_child env now tenant parent scope a s = (t, r)"
  obtain target s1 where target: "ensure_target env now tenant scope a s = (target, s1)" by fastforce
  have same: "forward s u \<Longrightarrow> jobs (work v) = jobs (work u) \<Longrightarrow> committed v = committed u \<Longrightarrow> forward s v" for u v
    using forward_trans forward_same by metis
  have "forward s s1"
    using target forward_env [OF assms forward_uuid4, of s]
    by (auto simp: ensure_target_def Let_def uuid4_def split: option.splits intro: same [OF forward_refl] same)
  then have mid: "forward s (snd (uuid4 (put_runs rs (snd (uuid4 s1)))))" for rs by (rule same) simp_all
  have made: "forward s (fst (job_create env now tenant ti ri p c caps secs corr u))" if "forward s u"
    for ti ri p c caps secs corr u
    using job_create_moves [OF assms] that forward_trans unfolding forwards_def by blast
  obtain ti ri p c caps secs corr rs v where
    v: "v = fst (job_create env now tenant ti ri p c caps secs corr (snd (uuid4 (put_runs rs (snd (uuid4 s1))))))"
    and t: "t = v \<or> (\<exists>rows. t = put_results rows (snd (uuid4 v)))"
    using run target by (fastforce simp: create_child_def Let_def case_prod_beta split: sum.splits)
  have "forward s v" unfolding v by (rule made [OF mid])
  with t show "forward s t" by (auto intro: same)
qed

lemma goes_reload [going]: "keeps goes (reload f)"
  unfolding reload_def by (auto intro!: going split: option.split)

lemma goes_case_prod [going]: "(\<And>a b. keeps goes (f a b)) \<Longrightarrow> keeps goes (case p of (a, b) \<Rightarrow> f a b)"
  by (cases p) simp

lemma goes_children [going]:
  assumes "lawful_world w"
  shows "keeps goes (repo_op w (\<lambda>env now. create_child env now tenant parent target a))"
    "keeps goes (reconcile w tenant parent_i interrupted max_targets)"
    "keeps goes (cancel_child w parent_i child_i result_i)"
    "keeps goes (execute_child w reg profiles tenant child_i parent_i owner lease)"
proof -
  show "keeps goes (repo_op w (\<lambda>env now. create_child env now tenant parent target a))"
    using assms unfolding lawful_world_def by (auto intro!: goes_repo_op moves)
  show "keeps goes (reconcile w tenant parent_i interrupted max_targets)"
    unfolding reconcile_def by (rule goes_repo_op, rule forwardsI, erule forward_reconcile_parent)
  show "keeps goes (cancel_child w parent_i child_i result_i)"
    using assms unfolding cancel_child_def Let_def
    by (auto intro!: going split: option.split execution_error.split persistence_error.split)
  show "keeps goes (execute_child w reg profiles tenant child_i parent_i owner lease)"
    using assms unfolding execute_child_def by (intro going goes_execute)
qed

lemma goes_run_child [going]:
  assumes "lawful_world w"
  shows "keeps goes (run_child w reg profiles tenant parent_i owner lease c)"
  using assms unfolding run_child_def by (cases c) (auto intro!: going split: option.split)

lemma goes_in_turn [going]: "(\<And>a. keeps goes (f a)) \<Longrightarrow> keeps goes (in_turn f xs)"
  by (induction xs) (auto intro!: going)

lemma goes_create_children [going]:
  "lawful_world w \<Longrightarrow> keeps goes (create_children w tenant parent_i target_i as)"
  by (induction "as") (auto intro!: going)

lemma goes_expected [going]: "keeps goes (db_write (persist_expected_addresses parent addresses))"
  by (rule goes_write, rule forward_same) (simp_all add: persist_expected_addresses_def set_run_metadata_def split: option.split)

lemma goes_fanout [going]:
  "lawful_world w \<Longrightarrow> keeps goes (fanout_execute w reg profiles tenant parent_i owner lease max_targets)"
  unfolding fanout_execute_def by (auto intro!: going split: option.split)

section \<open>Transactions of the worker\<close>

text \<open>What code does that starts in a session of its own.\<close>

definition fresh_goes :: "'a exec \<Rightarrow> bool" where
  "fresh_goes m \<longleftrightarrow> (\<forall>x. clean (exec_session x) \<longrightarrow> goes x (fst (m x)))"

lemma goes_session [simp]: "exec_session (on_session f x) = f (exec_session x)"
  by (simp add: on_session_def)

lemma goes_in_session: "fresh_goes m \<Longrightarrow> keeps goes (in_session m)"
proof (rule keepsI)
  fix x y r assume fresh: "fresh_goes m" and run: "in_session m x = (y, r)"
  obtain z where z: "m (on_session rollback x) = (z, r)" "y = on_session rollback z"
    using run by (auto simp: in_session_def split: prod.splits)
  have "clean (rollback (exec_session x))" by (simp add: clean_def)
  then have "forward (rollback (exec_session x)) (exec_session z)"
    using fresh z(1) unfolding fresh_goes_def goes_def by (metis fst_conv goes_session)
  then show "goes x y"
    unfolding goes_def z(2) goes_session using forward_rollback forward_trans by meson
qed

lemma fresh_keeps: "keeps goes m \<Longrightarrow> fresh_goes m"
  by (simp add: fresh_goes_def keeps_def)

lemma transact_forward:
  assumes "guarantee op" and "clean s"
  shows "forward s (fst (transact op s))"
proof -
  have "committed (fst (transact op s)) = work (fst (transact op s))"
    by (auto simp: transact_def split: prod.split sum.split)
  then show ?thesis
    using assms unfolding forward_def ahead_def guarantee_def sound_def
    by (metis rtranclp_trans job_table.steps_inv)
qed

lemma fresh_transaction:
  assumes "\<And>now. guarantee (op now)"
  shows "fresh_goes (logged (and_then (committed_call (repo_op w (\<lambda>_ now. op now))) (\<lambda>_. returns ())))"
  unfolding fresh_goes_def
proof (intro allI impI)
  fix x :: exec_state assume clean: "clean (exec_session x)"
  let ?s = "exec_session x" let ?op = "op (clock_at w (exec_steps x))"
  have "exec_session (fst (logged (and_then (committed_call (repo_op w (\<lambda>_ now. op now))) (\<lambda>_. returns ())) x))
      = fst (transact ?op ?s)"
    by (cases "?op ?s")
       (auto simp: logged_def committed_call_def repo_op_def catches_def and_then_def db_write_def transact_def
         split: sum.splits)
  then show "goes x (fst (logged (and_then (committed_call (repo_op w (\<lambda>_ now. op now))) (\<lambda>_. returns ())) x))"
    using transact_forward [OF assms clean] by (simp add: goes_def)
qed

lemma fresh_after_clock:
  assumes "\<And>t. fresh_goes (logged (f t))"
  shows "fresh_goes (logged (and_then (read_clock w) f))"
proof -
  have "logged (and_then (read_clock w) f) x =
      logged (f (clock_at w (exec_steps x))) (x\<lparr>exec_steps := Suc (exec_steps x)\<rparr>)" for x
    by (simp add: logged_def catches_def and_then_def read_clock_def)
  moreover have "goes (x\<lparr>exec_steps := k\<rparr>) y = goes x y" for x y k by (simp add: goes_def)
  ultimately show ?thesis
    using assms unfolding fresh_goes_def by (metis exec_state.select_convs(1) exec_state.surjective exec_state.update_convs(2))
qed

lemma goes_recover [going]: "lawful_world w \<Longrightarrow> keeps goes (recover_one w c)"
  unfolding recover_one_def
  by (cases c) (auto intro!: going goes_in_session fresh_after_clock fresh_transaction recover_guarantee)

lemma goes_abandon [going]: "keeps goes (abandon_if_owned w tenant i owner)"
  unfolding abandon_if_owned_def by (intro goes_in_session fresh_transaction abandon_guarantee)

lemma goes_committed_call [going]: "keeps goes m \<Longrightarrow> keeps goes (committed_call m)"
  unfolding committed_call_def by (intro going)

lemma goes_logged [going]: "keeps goes m \<Longrightarrow> keeps goes (logged m)"
  unfolding logged_def by (intro going)

lemmas goes_session_of [going] = goes_in_session [OF fresh_keeps]

lemma goes_in_order [going]: "(\<And>a. keeps goes (f a)) \<Longrightarrow> keeps goes (in_order f xs)"
  by (induction xs) (auto intro!: going)

lemma renew_moves: "forwards (renew_lease now tenant i owner lease)"
proof (rule forwardsI)
  fix s t r assume run: "renew_lease now tenant i owner lease s = (t, r)"
  obtain s1 ids where upd: "update_returning (renewable tenant i owner) (renew_values now lease) s = (s1, ids)"
    by fastforce
  have "forward s s1"
    by (rule forward_update_returning [OF _ upd]) (auto simp: renewable_def intro: row_step.renewed)
  then show "forward s t"
    using run upd forward_trans forward_rollback by (auto simp: renew_lease_def split: if_splits)
qed

lemma goes_lease_ops [going]:
  "keeps goes (repo_op w (\<lambda>_ _. new_owner))"
  "keeps goes (repo_op w (\<lambda>_ now. renew_lease now tenant i owner lease))"
  by (rule goes_repo_op, simp add: new_owner_def forwards_def uuid4_def forward_same)
     (rule goes_repo_op, rule renew_moves)

lemma lawful_variants [simp]:
  "lawful_world (w\<lparr>process_payload := p\<rparr>) = lawful_world w"
  "lawful_world (w\<lparr>lease_gone := l\<rparr>) = lawful_world w"
  by (simp_all add: lawful_world_def)

lemma goes_worker_parts [going]:
  assumes "lawful_world w"
  shows "keeps goes (recover_expired_jobs w)" "keeps goes (claim_queued_jobs w v)"
    "keeps goes (execute_discovery_job w v tenant i owner claimed)"
    "keeps goes (heartbeat_beat w v tenant i owner)" "keeps goes (fail_owned_job w tenant i owner e)"
  using assms
  unfolding recover_expired_jobs_def claim_queued_jobs_def claim_one_def execute_discovery_job_def
    run_fanout_job_def heartbeat_beat_def fail_owned_job_def Let_def
  by (auto intro!: going goes_execute split: option.split)

lemma goes_run_owned [going]:
  assumes "lawful_world w"
  shows "keeps goes (run_owned_job w v lost stopped c)"
  using assms unfolding run_owned_job_def by (cases c) (auto intro!: going)

lemma goes_heartbeat: "lawful_world w \<Longrightarrow> keeps goes (heartbeat w v stopped tenant i owner n)"
  by (induction n) (auto intro!: going)

lemma goes_worker_turn [going]: "lawful_world w \<Longrightarrow> keeps goes (discovery_turn w v lost stopped)"
  unfolding discovery_turn_def by (auto intro!: going)

lemma goes_worker: "lawful_world w \<Longrightarrow> keeps goes (worker_run w v lost stopped n)"
  by (induction n) (auto intro!: going)

section \<open>The worker survives\<close>

definition survives :: "'a exec \<Rightarrow> bool" where
  "survives m \<longleftrightarrow> (\<forall>x. is_ok (snd (m x)))"

named_theorems surviving \<open>code that returns whatever happens\<close>

lemma survives_basic [surviving]:
  "survives (returns a)" "survives (pause w)" "survives (db_write f)" "survives (reads g)"
  by (simp_all add: survives_def pause_def db_write_def)

lemma survives_and_then [surviving]: "survives m \<Longrightarrow> (\<And>a. survives (f a)) \<Longrightarrow> survives (and_then m f)"
  unfolding survives_def and_then_def by (auto simp: is_ok_iff split: prod.split sum.split) (metis Inl_Inr_False snd_conv)

lemma survives_catches [surviving]: "(\<And>e. survives (h e)) \<Longrightarrow> survives (catches m h)"
  unfolding survives_def catches_def by (simp split: prod.split sum.split)

lemma survives_in_session [surviving]: "survives m \<Longrightarrow> survives (in_session m)"
  unfolding survives_def in_session_def by (metis (mono_tags, lifting) case_prod_conv snd_conv surj_pair)

lemma survives_in_turn [surviving]: "(\<And>a. survives (f a)) \<Longrightarrow> survives (in_turn f as)"
  by (induction "as") (auto intro!: surviving)

lemma survives_worker: "survives (worker_run w v lost stopped n)"
proof -
  have logged: "survives (logged m)" for m unfolding logged_def by (intro surviving)
  have "survives (run_owned_job w v lost stopped c)" for c
    unfolding run_owned_job_def fail_owned_job_def abandon_if_owned_def
    by (cases c) (auto intro!: surviving logged)
  then show ?thesis by (induction n) (auto simp: discovery_turn_def intro!: surviving)
qed


end
