(* ===== verification/Execution_Progress.thy ===== *)
theory Execution_Progress
  imports Execution_Safety Job_Protocol
begin

text \<open>
  Runs that nobody disturbs: no other transaction commits, the lease is kept, nobody cancels. Such a
  run always returns, whatever the collectors and parsers do, and leaves the job finished.
\<close>

definition quiet :: "exec_world \<Rightarrow> bool" where
  "quiet w \<longleftrightarrow> (\<forall>k. others w k = id) \<and> (\<forall>k. \<not> lease_gone w k)"

lemma quiet_lawful: "quiet w \<Longrightarrow> lawful_world w"
  by (simp add: quiet_def lawful_world_def)

section \<open>A store in which the job can run\<close>

definition uncancelled :: "string \<Rightarrow> uuid \<Rightarrow> store \<Rightarrow> bool" where
  "uncancelled tenant i st \<longleftrightarrow>
     (\<forall>j \<in> set (jobs st). job_where tenant i j \<longrightarrow>
        cancellation_requested_at j = None \<and> job_state j \<noteq> DiscoveryJobStatus.CANCELLED)"

definition own_results :: "DiscoveryJobRecord \<Rightarrow> store \<Rightarrow> bool" where
  "own_results job st \<longleftrightarrow>
     job_id job \<in> set (map job_id (jobs st)) \<and>
     (\<forall>r \<in> set (device_results st). child_job_id r = job_id job \<longrightarrow> result_tenant_id r = job_tenant_id job)"

definition ready :: "DiscoveryJobRecord \<Rightarrow> uuid \<Rightarrow> uuid option \<Rightarrow> store \<Rightarrow> bool" where
  "ready job owner parent st \<longleftrightarrow>
     job_table_ok (jobs st) \<and> own_results job st \<and>
     (\<exists>j \<in> set (jobs st). job_where (job_tenant_id job) (job_id job) j \<and> job_state j = RUNNING \<and>
        execution_owner j = Some owner) \<and>
     uncancelled (job_tenant_id job) (job_id job) st \<and>
     (\<forall>p \<in> set_option parent. uncancelled (job_tenant_id job) p st) \<and>
     (\<exists>t. sql_first (\<lambda>t. target_id t = job_target_id job) (targets st) = Some t \<and>
        target_tenant_id t = job_tenant_id job)"

definition standing :: "DiscoveryJobRecord \<Rightarrow> uuid \<Rightarrow> uuid option \<Rightarrow> session \<Rightarrow> bool" where
  "standing job owner parent s \<longleftrightarrow> ready job owner parent (work s) \<and> ready job owner parent (committed s)"

lemma standing_commit: "standing job owner parent s \<Longrightarrow> standing job owner parent (commit s)"
  by (simp add: standing_def)

lemma standing_rollback: "standing job owner parent s \<Longrightarrow> standing job owner parent (rollback s)"
  by (simp add: standing_def)

text \<open>Writes that keep the job ready: other tables, results of the job itself, its selection.\<close>

lemma ready_tables:
  assumes "ready job owner parent st" and "jobs st' = jobs st" and "targets st' = targets st"
    and "\<And>r. r \<in> set (device_results st') \<Longrightarrow> child_job_id r = job_id job \<Longrightarrow>
      (\<exists>r0 \<in> set (device_results st). child_job_id r0 = child_job_id r \<and> result_tenant_id r0 = result_tenant_id r) \<or>
      result_tenant_id r = job_tenant_id job"
  shows "ready job owner parent st'"
proof -
  have "own_results job st'"
    using assms unfolding ready_def own_results_def by metis
  with assms(1-3) show ?thesis by (simp add: ready_def uncancelled_def)
qed

lemma standing_tables:
  assumes "standing job owner parent s" and "committed s' = committed s"
    and "jobs (work s') = jobs (work s)" and "targets (work s') = targets (work s)"
    and "\<And>r. r \<in> set (device_results (work s')) \<Longrightarrow> child_job_id r = job_id job \<Longrightarrow>
      (\<exists>r0 \<in> set (device_results (work s)). child_job_id r0 = child_job_id r \<and> result_tenant_id r0 = result_tenant_id r) \<or>
      result_tenant_id r = job_tenant_id job"
  shows "standing job owner parent s'"
  using assms ready_tables [of job owner parent "work s" "work s'"] by (simp add: standing_def)

lemma ready_selection:
  assumes "ready job owner parent st"
    and "st' = st\<lparr>jobs := sql_update (job_where t i) (selection_values now transport platform) (jobs st)\<rparr>"
  shows "ready job owner parent st'"
proof -
  have jobs: "jobs st' = sql_update (job_where t i) (selection_values now transport platform) (jobs st)"
    by (simp add: assms(2))
  have "jobs_step (jobs st) (jobs st')" unfolding jobs by (rule jobs_step.updated) (rule row_step.selected)
  then have ok: "job_table_ok (jobs st')" using assms(1) by (auto simp: ready_def intro: jobs_step_ok)
  define g where "g = (\<lambda>j. if job_where t i j then selection_values now transport platform j else j)"
  have rows: "jobs st' = map g (jobs st)" by (simp add: jobs sql_update_def g_def)
  have g: "job_where t' i' (g j) = job_where t' i' j" "job_state (g j) = job_state j" "job_id (g j) = job_id j"
    "execution_owner (g j) = execution_owner j" "cancellation_requested_at (g j) = cancellation_requested_at j"
    for t' i' j by (simp_all add: g_def job_where_def selection_values_def)
  have "uncancelled t' i' st \<Longrightarrow> uncancelled t' i' st'" for t' i'
    by (simp add: uncancelled_def rows g)
  moreover have "device_results st' = device_results st" by (simp add: assms(2))
  then have "own_results job st'"
    using assms(1) by (simp add: ready_def own_results_def rows image_image g)
  moreover have "\<exists>j \<in> set (jobs st'). job_where (job_tenant_id job) (job_id job) j \<and> job_state j = RUNNING \<and>
      execution_owner j = Some owner"
    using assms(1) by (simp add: ready_def rows g)
  ultimately show ?thesis using assms(1) ok by (auto simp: ready_def assms(2))
qed


section \<open>Pieces that keep the job ready\<close>

text \<open>They may raise, but neither of the two signals.\<close>

definition calm :: "DiscoveryJobRecord \<Rightarrow> uuid \<Rightarrow> uuid option \<Rightarrow> 'a exec \<Rightarrow> bool" where
  "calm job owner parent m \<longleftrightarrow>
     triple (\<lambda>x. standing job owner parent (exec_session x)) m (\<lambda>_ x. standing job owner parent (exec_session x))
       (\<lambda>e x. standing job owner parent (exec_session x) \<and> \<not> is_signal e)"

named_theorems calms \<open>pieces of an undisturbed run that keep the job ready\<close>

lemma calmI:
  assumes "\<And>x y r. standing job owner parent (exec_session x) \<Longrightarrow> m x = (y, r) \<Longrightarrow>
    standing job owner parent (exec_session y) \<and> (\<forall>e. r = Inl e \<longrightarrow> \<not> is_signal e)"
  shows "calm job owner parent m"
  unfolding calm_def using assms by (intro tripleI) blast+

lemma calm_basic [calms]:
  "calm job owner parent (returns a)" "calm job owner parent (db_read f)" "calm job owner parent (read_clock w)"
  "calm job owner parent (db_write commit)" "calm job owner parent (db_write rollback)"
  "calm job owner parent (reads g)" "calm job owner parent (modify (\<lambda>x. x\<lparr>exec_attempt := att\<rparr>))"
  "calm job owner parent (lift_exc q)"
  by (rule calmI; auto simp: db_read_def db_write_def on_session_def read_clock_def lift_exc_def
      standing_commit standing_rollback split: sum.splits)+

lemma calm_raises [calms]: "\<not> is_signal e \<Longrightarrow> calm job owner parent (raises e)"
  by (rule calmI) simp

lemma calm_and_then [calms]:
  "calm job owner parent m \<Longrightarrow> (\<And>a. calm job owner parent (f a)) \<Longrightarrow> calm job owner parent (and_then m f)"
  unfolding calm_def by (rule triple_and_then)

lemma calm_catches [calms]:
  assumes "calm job owner parent m" and "\<And>e. calm job owner parent (h e)"
  shows "calm job owner parent (catches m h)"
  using assms unfolding calm_def
  by (intro triple_catches) (auto intro: triple_weaken)

lemma calm_repeats [calms]: "calm job owner parent m \<Longrightarrow> calm job owner parent (repeats n m)"
  by (induction n) (simp_all add: calms)

lemma calm_op:
  assumes w: "quiet w"
    and op: "\<And>now s s' r. standing job owner parent s \<Longrightarrow> f id now s = (s', r) \<Longrightarrow> standing job owner parent s'"
  shows "calm job owner parent (repo_op w f)"
proof (rule calmI)
  fix x y r assume x: "standing job owner parent (exec_session x)" and run: "repo_op w f x = (y, r)"
  obtain s q where q: "f id (clock_at w (exec_steps x)) (exec_session x) = (s, q)" by fastforce
  from run q w show "standing job owner parent (exec_session y) \<and> (\<forall>e. r = Inl e \<longrightarrow> \<not> is_signal e)"
    using op [OF x q] by (auto simp: repo_op_def quiet_def split: sum.splits)
qed

lemma calm_attempt_ops [calms]:
  assumes "quiet w"
  shows "calm job owner parent (repo_op w (\<lambda>env now. attempt_start now tenant result_i transport order corr))"
    "calm job owner parent (repo_op w (\<lambda>env now. attempt_finish now a result code message))"
    "calm job owner parent (repo_op w (\<lambda>env now. evidence_create digest e version))"
    "calm job owner parent (repo_op w (\<lambda>env now. add_live_snapshot tenant run snapshot now))"
  by (rule calm_op [OF assms]; erule standing_tables;
      auto simp: attempt_start_def attempt_finish_def evidence_create_def add_live_snapshot_def put_attempts_def
        put_evidence_def uuid4_def Let_def split: if_splits option.splits)+

lemma calm_insert [calms]:
  assumes "quiet w" and "\<And>env now i. result_tenant_id (draft env now i) = job_tenant_id job"
  shows "calm job owner parent (repo_op w (\<lambda>env now. result_insert (draft env now)))"
  by (rule calm_op [OF assms(1)]; erule standing_tables)
    (auto simp: result_insert_def uuid4_def Let_def assms(2) split: if_splits)

lemma calm_set_result [calms]:
  assumes "\<And>r. child_job_id (f r) = child_job_id r" "\<And>r. result_tenant_id (f r) = result_tenant_id r"
  shows "calm job owner parent (db_write (set_result k f))"
proof (rule calmI)
  fix x y :: exec_state and r :: "execution_error + unit"
  assume x: "standing job owner parent (exec_session x)" and run: "db_write (set_result k f) x = (y, r)"
  from run have y: "exec_session y = set_result k f (exec_session x)" "r = Inr ()"
    by (auto simp: db_write_def on_session_def)
  have "standing job owner parent (set_result k f (exec_session x))"
    by (rule standing_tables [OF x]) (auto simp: set_result_def set_sql_update assms split: if_splits)
  with y show "standing job owner parent (exec_session y) \<and> (\<forall>e. r = Inl e \<longrightarrow> \<not> is_signal e)" by simp
qed

lemma calm_runs [calms]: "calm job owner parent (db_write (\<lambda>s. put_runs (g s) s))"
proof (rule calmI)
  fix x y :: exec_state and r :: "execution_error + unit"
  assume x: "standing job owner parent (exec_session x)" and run: "db_write (\<lambda>s. put_runs (g s) s) x = (y, r)"
  have "standing job owner parent (put_runs (g (exec_session x)) (exec_session x))"
    by (rule standing_tables [OF x]) auto
  with run show "standing job owner parent (exec_session y) \<and> (\<forall>e. r = Inl e \<longrightarrow> \<not> is_signal e)"
    by (auto simp: db_write_def on_session_def)
qed

lemma calm_selection [calms]:
  assumes "quiet w"
  shows "calm job owner parent (repo_op w (\<lambda>env now. record_selection env now tenant i transport platform))"
proof (rule calm_op [OF assms])
  fix now s s' r
  assume s: "standing job owner parent s" and op: "record_selection id now tenant i transport platform s = (s', r)"
  let ?st = "(work s)\<lparr>jobs := sql_update (job_where tenant i) (selection_values now transport platform) (jobs (work s))\<rparr>"
  have "s' = s \<or> s' = s\<lparr>work := ?st\<rparr>"
    using op by (auto simp: record_selection_def Let_def put_jobs_def split: option.splits if_splits)
  moreover have "ready job owner parent ?st" using s ready_selection unfolding standing_def by blast
  ultimately show "standing job owner parent s'" using s by (auto simp: standing_def)
qed

lemma calm_pause [calms]: "quiet w \<Longrightarrow> calm job owner parent (pause w)"
  by (rule calmI) (auto simp: pause_def on_session_def quiet_def)

lemma calm_fallback [calms]: "calm job owner parent (run_fallback w target device configs)"
proof (rule calmI)
  fix x y r assume x: "standing job owner parent (exec_session x)"
    and run: "run_fallback w target device configs x = (y, r)"
  have "standing job owner parent (exec_session y)"
    using run_fallback_frame [OF run] by (intro standing_tables [OF x]) (auto simp: attempts_only_def)
  then show "standing job owner parent (exec_session y) \<and> (\<forall>e. r = Inl e \<longrightarrow> \<not> is_signal e)"
    using run_fallback_frame [OF run] by auto
qed

lemma calm_build_evidence [calms]: "calm job owner parent (build_evidence w job' target c payload)"
proof (rule calmI)
  fix x y r assume x: "standing job owner parent (exec_session x)"
    and run: "build_evidence w job' target c payload x = (y, r)"
  from run have y: "work (exec_session y) = work (exec_session x)" "committed (exec_session y) = committed (exec_session x)"
    by (auto simp: build_evidence_def and_then_def read_clock_def Let_def uuid4_def)
  have "\<forall>e. r = Inl e \<longrightarrow> \<not> is_signal e"
    using run by (auto simp: build_evidence_def and_then_def read_clock_def Let_def uuid4_def
        map_sum_def split: sum.splits)
  with x y show "standing job owner parent (exec_session y) \<and> (\<forall>e. r = Inl e \<longrightarrow> \<not> is_signal e)"
    by (simp add: standing_def)
qed

lemma cancellation_requested_uncancelled: "uncancelled tenant i (work s) \<Longrightarrow> \<not> cancellation_requested tenant i s"
  by (auto simp: cancellation_requested_def uncancelled_def repo_get_def dest!: sql_first_Some split: option.split)

lemma check_passes:
  assumes "quiet w" and "standing job owner parent (exec_session x)"
  obtains y where "check_cancelled w (job_tenant_id job) (job_id job) parent x = (y, Inr ())"
    "exec_session y = exec_session x"
proof -
  have "\<not> cancellation_requested (job_tenant_id job) (job_id job) (exec_session x)"
    "\<And>p. parent = Some p \<Longrightarrow> \<not> cancellation_requested (job_tenant_id job) p (exec_session x)"
    using assms(2) by (auto simp: standing_def ready_def intro!: cancellation_requested_uncancelled)
  then have "check_cancelled w (job_tenant_id job) (job_id job) parent x =
      (x\<lparr>exec_steps := Suc (exec_steps x)\<rparr>, Inr ())"
    using assms(1)
    by (cases parent) (auto simp: check_cancelled_def and_then_def pause_def db_read_def on_session_def quiet_def
        returns_def)
  then show ?thesis by (rule that) simp
qed

lemma calm_check [calms]:
  "quiet w \<Longrightarrow> calm job owner parent (check_cancelled w (job_tenant_id job) (job_id job) parent)"
  by (rule calmI) (erule (1) check_passes, auto)

lemma blank_result_fields [simp]:
  "result_tenant_id (blank_result tenant p job address state started i) = tenant"
  "child_job_id (blank_result tenant p job address state started i) = job_id job"
  "discovery_job_id (blank_result tenant p job address state started i) = p"
  by (simp_all add: blank_result_def)

lemma result_updates [simp]:
  "child_job_id (result_values_of device target transport state now r) = child_job_id r"
  "result_tenant_id (result_values_of device target transport state now r) = result_tenant_id r"
  "discovery_job_id (result_values_of device target transport state now r) = discovery_job_id r"
  "child_job_id (failure_values target code message transport now r) = child_job_id r"
  "result_tenant_id (failure_values target code message transport now r) = result_tenant_id r"
  "discovery_job_id (failure_values target code message transport now r) = discovery_job_id r"
  by (simp_all add: result_values_of_def failure_values_def)

lemma calm_parts [calms]:
  assumes "quiet w" and "view_tenant_id target = job_tenant_id job"
  shows "calm job owner parent (start_transport_attempt w job target)"
    "calm job owner parent (finish_attempt w result code message)"
    "calm job owner parent (record_device_result w job target devices transport state)"
    "calm job owner parent (ensure_device_result_for_failure w job target failure message transport)"
    "calm job owner parent (finalize_single_device_run w run_i final)"
    "calm job owner parent (record_unsupported_credential_attempt w job target name)"
    "calm job owner parent (begin_result w (job_tenant_id job) job target parent)"
  using assms unfolding run_parts Let_def
  by (auto intro!: calms split: option.split)

lemma calm_configs [calms]:
  "quiet w \<Longrightarrow> view_tenant_id target = job_tenant_id job \<Longrightarrow>
     calm job owner parent (build_transport_configs w reg job target policy es)"
  by (induction es) (auto intro!: calms)

section \<open>Pieces that end the run\<close>

definition ends :: "DiscoveryJobRecord \<Rightarrow> uuid \<Rightarrow> uuid option \<Rightarrow> DiscoveryExecutionOutcome exec \<Rightarrow> bool" where
  "ends job owner parent m \<longleftrightarrow>
     triple (\<lambda>x. standing job owner parent (exec_session x)) m (\<lambda>out _. executed out)
       (\<lambda>e x. standing job owner parent (exec_session x) \<and> \<not> is_signal e)"

text \<open>Code that finishes always returns, from any state in \<open>P\<close>.\<close>

definition finishes :: "(session \<Rightarrow> bool) \<Rightarrow> DiscoveryExecutionOutcome exec \<Rightarrow> bool" where
  "finishes P m \<longleftrightarrow> triple (\<lambda>x. P (exec_session x)) m (\<lambda>out _. executed out) (\<lambda>_ _. False)"

lemma ends_and_then: "calm job owner parent m \<Longrightarrow> (\<And>a. ends job owner parent (f a)) \<Longrightarrow>
    ends job owner parent (and_then m f)"
  unfolding calm_def ends_def by (rule triple_and_then)

lemma ends_raises: "\<not> is_signal e \<Longrightarrow> ends job owner parent (raises e)"
  unfolding ends_def by (rule triple_raises) simp

lemma ends_finishes: "finishes (standing job owner parent) m \<Longrightarrow> ends job owner parent m"
  unfolding ends_def finishes_def by (erule triple_weaken) simp_all

lemma guarded_update_state:
  assumes "guarded_update p f conflict tenant i s = (s', Inr x)"
  shows "s' = put_jobs (sql_update p f (jobs (work s))) s"
proof -
  obtain ids where ids: "ids = map job_id (filter p (jobs (work s)))" by blast
  with assms show ?thesis
    by (cases ids rule: scalar_one_or_none.cases)
       (auto simp: guarded_update_def update_returning_def sql_select_def)
qed

text \<open>The closing transition of an undisturbed run succeeds.\<close>

lemma transition_passes:
  assumes s: "standing job owner parent s" and t: "t \<in> {SUCCEEDED, FAILED}" and own: "own \<in> {None, Some owner}"
  shows "\<exists>s' r. transition id now (job_tenant_id job) (job_id job) t code msg True own s = (s', Inr r) \<and>
    own_results job (work s')"
proof -
  let ?p = "transition_where (job_tenant_id job) (job_id job) RUNNING True own"
  let ?f = "transition_values now t code msg"
  from s obtain j where j: "j \<in> set (jobs (work s))" "job_where (job_tenant_id job) (job_id job) j"
      "job_state j = RUNNING" "execution_owner j = Some owner" "cancellation_requested_at j = None"
    by (auto simp: standing_def ready_def uncancelled_def)
  have ok: "job_table_ok (jobs (work s))" using s by (simp add: standing_def ready_def)
  have row: "repo_get (job_tenant_id job) (job_id job) s = Some j"
    using j(1,2) by (intro repo_getI [OF ok]) (simp_all add: job_where_def)
  have move: "transition_job RUNNING t = Inr t" using t by (auto simp: transition_job_def)
  define conflict where "conflict = InvalidDiscoveryTransitionError
    ''Discovery job changed state before transition could be applied.''"
  have same: "transition id now (job_tenant_id job) (job_id job) t code msg True own s =
      guarded_update ?p ?f conflict (job_tenant_id job) (job_id job) s"
    by (simp add: transition_def row j(3) move conflict_def)
  have "?p j" using j own by (auto simp: transition_where_def)
  then have "is_ok (snd (guarded_update ?p ?f conflict (job_tenant_id job) (job_id job) s))"
    using guarded_update_ok [OF ok, of ?p "job_id job" ?f conflict "job_tenant_id job"] j(1)
    by (auto simp: transition_where_def job_where_def)
  then obtain s' r where upd: "guarded_update ?p ?f conflict (job_tenant_id job) (job_id job) s = (s', Inr r)"
    using is_ok_snd by blast
  have "own_results job (work s)" using s by (simp add: standing_def ready_def)
  then have "own_results job (work s')"
    unfolding guarded_update_state [OF upd] own_results_def
    by (auto simp: sql_update_def image_iff split: if_splits)
  with upd show ?thesis by (auto simp: same)
qed

lemma finishes_transition:
  assumes "quiet w" and "own \<in> {None, Some owner}" and "\<And>r. finishes (\<lambda>s. own_results job (work s)) (k r)"
  shows "finishes (standing job owner parent) (and_then (repo_op w (\<lambda>env now.
    transition env now (job_tenant_id job) (job_id job) SUCCEEDED None None True own)) k)"
    and "finishes (standing job owner parent) (and_then (repo_op w (\<lambda>env now.
    mark_failed_after_rollback env now (job_tenant_id job) (job_id job) code msg own)) k)"
proof -
  have op: "triple (\<lambda>x. standing job owner parent (exec_session x)) (repo_op w f)
      (\<lambda>_ x. own_results job (work (exec_session x))) (\<lambda>_ _. False)"
    if "\<And>s now. standing job owner parent s \<Longrightarrow> \<exists>s' r. f id now s = (s', Inr r) \<and> own_results job (work s')" for f
  proof (rule tripleI)
    fix x y r assume "standing job owner parent (exec_session x)" "repo_op w f x = (y, Inr r)"
    with that [of "exec_session x" "clock_at w (exec_steps x)"] assms(1)
    show "own_results job (work (exec_session y))" by (auto simp: repo_op_def quiet_def)
  next
    fix x y e assume "standing job owner parent (exec_session x)" "repo_op w f x = (y, Inl e)"
    with that [of "exec_session x" "clock_at w (exec_steps x)"] assms(1)
    show False by (auto simp: repo_op_def quiet_def)
  qed
  have tail: "triple (\<lambda>x. own_results job (work (exec_session x))) (k r) (\<lambda>out _. executed out) (\<lambda>_ _. False)" for r
    using assms(3) by (simp add: finishes_def)
  show "finishes (standing job owner parent) (and_then (repo_op w (\<lambda>env now.
      transition env now (job_tenant_id job) (job_id job) SUCCEEDED None None True own)) k)"
    unfolding finishes_def
    by (rule triple_and_then [OF op tail]) (rule transition_passes [OF _ _ assms(2)]; simp)
  show "finishes (standing job owner parent) (and_then (repo_op w (\<lambda>env now.
      mark_failed_after_rollback env now (job_tenant_id job) (job_id job) code msg own)) k)"
    unfolding finishes_def mark_failed_after_rollback_def
    by (rule triple_and_then [OF op tail]) (rule transition_passes [OF standing_rollback _ assms(2)]; simp)
qed

text \<open>After it nothing raises: an INSERT of the device result satisfies its constraints.\<close>

lemma finishes_returns: "executed out \<Longrightarrow> finishes P (returns out)"
  by (simp add: finishes_def triple_returns)

definition steady :: "DiscoveryJobRecord \<Rightarrow> unit exec \<Rightarrow> bool" where
  "steady job m \<longleftrightarrow> triple (\<lambda>x. own_results job (work (exec_session x))) m
     (\<lambda>_ x. own_results job (work (exec_session x))) (\<lambda>_ _. False)"

lemma finishes_steady:
  "steady job m \<Longrightarrow> finishes (\<lambda>s. own_results job (work s)) k \<Longrightarrow>
     finishes (\<lambda>s. own_results job (work s)) (and_then m (\<lambda>_. k))"
  unfolding steady_def finishes_def by (rule triple_and_then)

lemma steady_writes:
  "steady job (db_write commit)" "steady job (db_write (\<lambda>s. put_runs (g s) s))" "steady job (returns ())"
  by (auto simp: steady_def db_write_def on_session_def own_results_def intro!: triples)

lemma steady_set_result:
  assumes "\<And>r. child_job_id (f r) = child_job_id r" "\<And>r. result_tenant_id (f r) = result_tenant_id r"
  shows "steady job (db_write (set_result k f))"
  unfolding steady_def db_write_def
  by (rule triple_modify)
    (auto simp: on_session_def own_results_def set_result_def set_sql_update assms split: if_splits)

lemma steady_then: "steady job m \<Longrightarrow> (\<And>a. steady job (f a)) \<Longrightarrow> steady job (and_then m f)"
  unfolding steady_def by (rule triple_and_then)

lemma steady_reads:
  "(\<And>a. steady job (f a)) \<Longrightarrow> steady job (and_then (db_read g) f)"
  "(\<And>now. steady job (h now)) \<Longrightarrow> steady job (and_then (read_clock w) h)"
  by (auto simp: steady_def triple_def and_then_def db_read_def read_clock_def split: prod.splits sum.splits)

lemma result_insert_passes:
  assumes own: "own_results job (work s)" and none: "find_result (job_tenant_id job) (job_id job) s = None"
    and draft: "\<And>i. child_job_id (draft i) = job_id job" "\<And>i. discovery_job_id (draft i) = job_id job"
      "\<And>i. result_tenant_id (draft i) = job_tenant_id job"
  shows "\<exists>s' r. result_insert draft s = (s', Inr r) \<and> own_results job (work s')"
proof -
  have "job_id job \<notin> set (map child_job_id (device_results (work s)))"
    using none own by (auto simp: find_result_def sql_first_None own_results_def)
  then show ?thesis
    using own by (auto simp: result_insert_def uuid4_def Let_def result_refs_ok_def draft own_results_def)
qed

lemma steady_ensure:
  assumes "view_tenant_id target = job_tenant_id job"
  shows "steady job (ensure_device_result_for_failure w job target code message transport)"
  unfolding steady_def
proof (rule tripleI)
  fix x y :: exec_state and u :: unit
  let ?f = "failure_values target code message transport (clock_at w (exec_steps x))"
  let ?draft = "\<lambda>i. ?f (blank_result (view_tenant_id target) (job_id job) job (view_address target)
      (status_value FAILED) (started_or_now job (clock_at w (Suc (exec_steps x)))) i)"
  assume own: "own_results job (work (exec_session x))"
  have set: "own_results job (work (set_result k ?f (exec_session x)))" for k
    using own by (auto simp: own_results_def set_result_def set_sql_update split: if_splits)
  have insert: "find_result (job_tenant_id job) (job_id job) (exec_session x) = None \<Longrightarrow>
      \<exists>s' r. result_insert ?draft (exec_session x) = (s', Inr r) \<and> own_results job (work s')"
    by (rule result_insert_passes [OF own]) (simp_all add: assms)
  have run: "\<exists>z. ensure_device_result_for_failure w job target code message transport x = (z, Inr ()) \<and>
      own_results job (work (exec_session z))"
  proof (cases "find_result (job_tenant_id job) (job_id job) (exec_session x)")
    case None
    with insert show ?thesis
      by (auto simp: ensure_device_result_for_failure_def and_then_def db_read_def read_clock_def Let_def assms
          repo_op_def returns_def)
  next
    case (Some r)
    with set show ?thesis
      by (simp add: ensure_device_result_for_failure_def and_then_def db_read_def read_clock_def Let_def assms
          db_write_def on_session_def)
  qed
  then show "ensure_device_result_for_failure w job target code message transport x = (y, Inr u) \<Longrightarrow>
      own_results job (work (exec_session y))" by auto
  from run show "ensure_device_result_for_failure w job target code message transport x = (y, Inl e) \<Longrightarrow> False"
    for e by auto
qed

lemma steady_finalize: "steady job (finalize_single_device_run w run_i final)"
  unfolding finalize_single_device_run_def
  by (rule steady_reads steady_writes steady_then | split if_split, intro conjI impI)+

lemmas finishing = finishes_transition finishes_steady steady_writes steady_set_result steady_ensure
  steady_finalize finishes_returns

lemma executed_outcome_of [simp]: "executed (outcome_of r done n) = done"
  by (simp add: outcome_of_def)

lemma finishes_failed_multi:
  assumes "quiet w" and "view_tenant_id target = job_tenant_id job"
  shows "ends job owner parent (finish_failed_multi w (job_tenant_id job) job target device mt)"
proof (cases "multi_failure (mt_result_state mt) (mt_attempts mt)")
  case (Pair code message)
  show ?thesis unfolding finish_failed_multi_def Pair Let_def prod.case
    by (rule ends_and_then calms ends_finishes finishing assms | simp)+
qed

lemma ends_discovered:
  assumes "quiet w" and "view_tenant_id target = job_tenant_id job"
  shows "ends job owner parent (finish_discovered w (job_tenant_id job) job target parent device configs mt payload)"
  unfolding finish_discovered_def Let_def
  by (rule ends_finishes [OF finishes_transition(1)] ends_and_then calms finishing assms | simp)+

lemma ends_attempt:
  assumes "ends job owner parent m" and "ends job owner parent k"
  shows "ends job owner parent
    (and_then (if found then catches (and_then m (\<lambda>out. returns (Some out)))
         (\<lambda>e. if is_signal e then raises e else returns None) else returns None)
       (\<lambda>finished. case finished of Some out \<Rightarrow> returns out | None \<Rightarrow> k))"
proof (cases found)
  case True
  have "ends job owner parent (catches m (\<lambda>e. if is_signal e then raises e else k))"
    unfolding ends_def
  proof (rule triple_catches)
    show "triple (\<lambda>x. standing job owner parent (exec_session x)) m (\<lambda>out _. executed out)
        (\<lambda>e x. standing job owner parent (exec_session x) \<and> \<not> is_signal e)"
      using assms(1) by (simp add: ends_def)
    show "triple (\<lambda>x. standing job owner parent (exec_session x) \<and> \<not> is_signal e) (if is_signal e then raises e else k)
        (\<lambda>out _. executed out) (\<lambda>e x. standing job owner parent (exec_session x) \<and> \<not> is_signal e)" for e
      using assms(2) unfolding ends_def by (auto simp: triple_def)
  qed
  with True show ?thesis by (simp add: attempt_or_else)
qed (simp add: assms(2))

lemma ends_multi:
  assumes "quiet w" and "view_tenant_id target = job_tenant_id job"
  shows "ends job owner parent (execute_multi_transport w reg profiles (job_tenant_id job) job target parent)"
  unfolding execute_multi_transport_def Let_def
  by (rule ends_attempt ends_discovered finishes_failed_multi ends_raises ends_and_then calms assms
      | split if_split, intro conjI impI | simp)+

lemma ends_single:
  assumes "quiet w" and "view_tenant_id target = job_tenant_id job"
  shows "ends job owner parent (execute_single_transport w reg (job_tenant_id job) owner job target parent)"
proof -
  have lift: "calm job owner parent (lift (resolve_collector reg job target))"
    by (rule calmI) (auto simp: lift_def resolve_collector_def split: sum.splits option.splits list.splits)
  have health: "calm job owner parent (case q of None \<Rightarrow> returns () | Some e \<Rightarrow> raises (Raised_Exc e))" for q :: "exc option"
    by (cases q) (auto intro: calms)
  show ?thesis
    unfolding execute_single_transport_def Let_def
    by (rule ends_finishes [OF finishes_transition(1)] ends_and_then lift health calms finishing assms
        | split prod.split, intro allI impI | simp)+
qed

section \<open>The whole run\<close>

lemma target_view_tenant [simp]: "view_tenant_id (target_view t) = target_tenant_id t"
  by (simp add: target_view_def Let_def)

lemma read_target_passes:
  assumes "standing job owner parent (exec_session x)"
  obtains t where "read_target job (job_tenant_id job) x = (x, Inr (target_view t))"
    "target_tenant_id t = job_tenant_id job"
proof -
  from assms obtain t where "sql_first (\<lambda>t. target_id t = job_target_id job) (targets (work (exec_session x))) = Some t"
      "target_tenant_id t = job_tenant_id job"
    by (auto simp: standing_def ready_def)
  then show ?thesis
    by (intro that) (auto simp: read_target_def and_then_def db_read_def lift_def resolve_target_def get_target_def
        failure_error_def)
qed

lemma read_target_ready:
  "triple (\<lambda>x. standing job owner parent (exec_session x)) (read_target job (job_tenant_id job))
     (\<lambda>v x. standing job owner parent (exec_session x) \<and> view_tenant_id v = job_tenant_id job) (\<lambda>_ _. False)"
  unfolding triple_def
proof (intro allI impI)
  fix x :: exec_state
  assume x: "standing job owner parent (exec_session x)"
  show "case read_target job (job_tenant_id job) x of (t, Inl e) \<Rightarrow> False
      | (t, Inr v) \<Rightarrow> standing job owner parent (exec_session t) \<and> view_tenant_id v = job_tenant_id job"
    by (rule read_target_passes [OF x]) (simp add: x)
qed

lemma ends_run_job:
  assumes "quiet w"
  shows "ends job owner parent (run_job w reg profiles (job_tenant_id job) owner parent job)"
proof -
  let ?S = "\<lambda>x. standing job owner parent (exec_session x)"
  have read: "triple ?S (read_target job (job_tenant_id job))
      (\<lambda>v x. ?S x \<and> view_tenant_id v = job_tenant_id job) (\<lambda>e x. ?S x \<and> \<not> is_signal e)"
    by (rule triple_weaken [OF read_target_ready]) simp_all
  have rest: "ends job owner parent (and_then (check_cancelled w (job_tenant_id job) (job_id job) parent) (\<lambda>_.
       if \<not> view_enabled v
       then raises (ExecutionFailure TARGET_DISABLED ''Discovery target is disabled.'')
       else if lookup (view_metadata v) ''credential_profile_id'' \<noteq> PNone \<or>
               truthy (lookup (view_metadata v) ''allowed_fallback_transports'')
       then execute_multi_transport w reg profiles (job_tenant_id job) job v parent
       else execute_single_transport w reg (job_tenant_id job) owner job v parent))"
    if "view_tenant_id v = job_tenant_id job" for v
    by (rule ends_multi ends_single ends_raises ends_and_then calm_check assms that
        | split if_split, intro conjI impI | simp)+
  show ?thesis unfolding ends_def run_job_def
    by (rule triple_and_then [OF read]) (use rest in \<open>auto simp: ends_def triple_def\<close>)
qed

lemma finish_attempt_passes:
  "triple (\<lambda>x. standing job owner parent (exec_session x)) (finish_attempt w result code message)
     (\<lambda>_ x. standing job owner parent (exec_session x)) (\<lambda>_ _. False)"
proof (rule tripleI)
  fix x y :: exec_state and u :: unit
  assume x: "standing job owner parent (exec_session x)"
    and run: "finish_attempt w result code message x = (y, Inr u)"
  from run have "attempts_only (exec_session x) (exec_session y)"
    using attempts_only_refl
    by (auto simp: finish_attempt_def and_then_def reads_def returns_def repo_op_def attempt_finish_def
        put_attempts_def attempts_only_def split: option.splits)
  then show "standing job owner parent (exec_session y)"
    by (intro standing_tables [OF x]) (auto simp: attempts_only_def)
next
  fix x y :: exec_state and e :: execution_error
  assume "finish_attempt w result code message x = (y, Inl e)"
  then show False
    by (auto simp: finish_attempt_def and_then_def reads_def returns_def repo_op_def attempt_finish_def
        split: option.splits)
qed

lemma finishes_on_failure:
  assumes "quiet w"
  shows "finishes (standing job owner parent) (on_failure w (job_tenant_id job) owner job e)"
proof -
  let ?S = "\<lambda>x. standing job owner parent (exec_session x)"
  let ?code = "failure_code_of (error_string w) e"
  let ?message = "safe_execution_message (error_text (error_string w) e)"
  let ?last = "\<lambda>target. and_then (repo_op w (\<lambda>env now. mark_failed_after_rollback env now (job_tenant_id job) (job_id job)
                   (code_value ?code) ?message (Some owner))) (\<lambda>failed.
               and_then (ensure_device_result_for_failure w job target ?code (Some ?message)
                   (Some (metadata_text (view_metadata target) ''transport_name'' ''unknown''))) (\<lambda>_.
               and_then (db_write commit) (\<lambda>_.
               returns (outcome_of failed True 0))))"
  have last: "triple ?S (?last target) (\<lambda>out _. executed out) (\<lambda>_ _. False)"
    if "view_tenant_id target = job_tenant_id job" for target
  proof -
    have "finishes (standing job owner parent) (?last target)"
      by (rule finishes_transition(2) finishing assms that | simp)+
    then show ?thesis by (simp add: finishes_def)
  qed
  have closing: "triple ?S (catches (?last target) (\<lambda>err. and_then (db_write rollback) (\<lambda>_. raises err)))
      (\<lambda>out _. executed out) (\<lambda>_ _. False)" if "view_tenant_id target = job_tenant_id job" for target
    by (rule triple_catches [OF last [OF that]]) (simp add: triple_def)
  have "triple ?S (and_then (finish_attempt w ''failed'' (Some ?code) (Some ?message)) (\<lambda>_.
      and_then (read_target job (job_tenant_id job)) (\<lambda>target.
      catches (?last target) (\<lambda>err. and_then (db_write rollback) (\<lambda>_. raises err)))))
    (\<lambda>out _. executed out) (\<lambda>_ _. False)"
    by (rule triple_and_then [OF finish_attempt_passes], rule triple_and_then [OF read_target_ready])
      (use closing in \<open>auto simp: triple_def\<close>)
  then show ?thesis
    unfolding finishes_def on_failure_def Let_def triple_def
    by (auto simp: and_then_def db_read_def standing_def ready_def dest: cancellation_requested_uncancelled)
qed

lemma finishes_claimed:
  assumes "quiet w"
  shows "finishes (standing job owner parent) (execute_claimed w reg profiles (job_tenant_id job) owner parent job)"
  unfolding finishes_def execute_claimed_def
proof (rule triple_catches)
  show "triple (\<lambda>x. standing job owner parent (exec_session x))
      (run_job w reg profiles (job_tenant_id job) owner parent job) (\<lambda>out _. executed out)
      (\<lambda>e x. standing job owner parent (exec_session x) \<and> \<not> is_signal e)"
    using ends_run_job [OF assms] by (simp add: ends_def)
  show "triple (\<lambda>x. standing job owner parent (exec_session x) \<and> \<not> is_signal e)
      (case e of CancellationRequested \<Rightarrow> on_cancellation w (job_tenant_id job) owner job
       | LeaseLost \<Rightarrow> not_executed (job_tenant_id job) (job_id job)
       | _ \<Rightarrow> on_failure w (job_tenant_id job) owner job e) (\<lambda>out _. executed out) (\<lambda>_ _. False)" for e
    using finishes_on_failure [OF assms, of job owner parent e]
    by (cases e) (auto simp: finishes_def triple_def)
qed

text \<open>What an undisturbed run finds: the job to claim or already owned, its target, nobody cancelling.\<close>

definition runnable ::
  "string \<Rightarrow> uuid \<Rightarrow> uuid \<Rightarrow> uuid option \<Rightarrow> duration \<Rightarrow> bool \<Rightarrow> session \<Rightarrow> bool" where
  "runnable tenant i owner parent lease claimed s \<longleftrightarrow>
     (\<exists>j t. repo_get tenant i s = Some j \<and>
        (if claimed then job_state j = RUNNING \<and> execution_owner j = Some owner
         else claimable j \<and> \<not> is_protected i \<and> 0 < lease) \<and>
        get_target s (job_target_id j) = Some t \<and> target_tenant_id t = tenant) \<and>
     (\<forall>p \<in> insert i (set_option parent). \<not> cancellation_requested tenant p s) \<and>
     (\<forall>r \<in> set (device_results (work s)). child_job_id r = i \<longrightarrow> result_tenant_id r = tenant)"

lemma uncancelledI:
  assumes "job_table_ok (jobs (work s))" and "\<not> cancellation_requested tenant p s"
  shows "uncancelled tenant p (work s)"
  unfolding uncancelled_def
proof (intro ballI impI)
  fix j assume "j \<in> set (jobs (work s))" "job_where tenant p j"
  then have "repo_get tenant p s = Some j" using repo_getI [OF assms(1)] by (simp add: job_where_def)
  with assms(2) show "cancellation_requested_at j = None \<and> job_state j \<noteq> DiscoveryJobStatus.CANCELLED"
    by (simp add: cancellation_requested_def)
qed

lemma claim_passes:
  assumes ok: "job_table_ok (jobs (work s))" and j: "repo_get tenant i s = Some j" "claimable j"
    and free: "\<not> is_protected i" "0 < lease"
  shows "claim id now tenant i (Some owner) lease s =
    (put_jobs (sql_update (\<lambda>k. job_where tenant i k \<and> claimable k) (claim_values now owner lease) (jobs (work s))) s,
     Inr (Some (claim_values now owner lease j)))"
proof -
  let ?p = "\<lambda>k. job_where tenant i k \<and> claimable k" and ?f = "claim_values now owner lease"
  define conflict where "conflict = InvalidDiscoveryTransitionError ''Only queued discovery jobs can be claimed.''"
  note row = repo_get_Some [OF j(1)]
  have step: "claim id now tenant i (Some owner) lease s = guarded_update ?p ?f conflict tenant i s"
    using j free by (simp add: claim_def conflict_def)
  have "is_ok (snd (guarded_update ?p ?f conflict tenant i s))"
    using guarded_update_ok [OF ok, of ?p i ?f conflict tenant] row j(2) by (auto simp: job_where_def)
  then obtain s' x where upd: "guarded_update ?p ?f conflict tenant i s = (s', Inr x)" using is_ok_snd by blast
  have ok': "job_table_ok (jobs (work s'))"
    using table_ok_update [OF ok, of ?p ?f] unfolding guarded_update_state [OF upd] by (simp add: row_step.claimed)
  have mem: "?f j \<in> set (jobs (work s'))"
    using row j(2) unfolding guarded_update_state [OF upd]
    by (auto simp: set_sql_update job_where_def intro!: bexI [of _ j])
  have "repo_get tenant i s' = Some (?f j)" using row by (intro repo_getI [OF ok' mem]) simp_all
  then have "x = Some (?f j)" using guarded_update_Inr [OF upd] by simp
  with guarded_update_state [OF upd] upd step show ?thesis by simp
qed

lemma claim_makes_ready:
  assumes s: "sound s" and r: "runnable tenant i owner parent lease False s"
  obtains s' job where "claim id now tenant i (Some owner) lease s = (s', Inr (Some job))"
    "job_id job = i" "job_tenant_id job = tenant" "ready job owner parent (work s')"
proof -
  let ?p = "\<lambda>j. job_where tenant i j \<and> claimable j" and ?f = "claim_values now owner lease"
  from s have ok: "job_table_ok (jobs (work s))" by (simp add: sound_def)
  from r obtain j t where j: "repo_get tenant i s = Some j" "claimable j" "\<not> is_protected i" "0 < lease"
      and t: "get_target s (job_target_id j) = Some t" "target_tenant_id t = tenant"
    by (auto simp: runnable_def)
  note row = repo_get_Some [OF j(1)]
  define g where "g = (\<lambda>k. if ?p k then ?f k else k)"
  define s' where "s' = put_jobs (map g (jobs (work s))) s"
  have run: "claim id now tenant i (Some owner) lease s = (s', Inr (Some (?f j)))"
    unfolding claim_passes [OF ok j] s'_def g_def sql_update_def ..
  have ok': "job_table_ok (jobs (work s'))"
    using table_ok_update [OF ok, of ?p ?f] by (simp add: s'_def g_def sql_update_def row_step.claimed)
  have g: "job_id (g k) = job_id k" "job_where a b (g k) = job_where a b k"
    "cancellation_requested_at (g k) = cancellation_requested_at k"
    "job_state (g k) = DiscoveryJobStatus.CANCELLED \<longleftrightarrow> job_state k = DiscoveryJobStatus.CANCELLED" for k a b
    by (auto simp: g_def job_where_def claim_values_def claimable_def)
  have mine: "g j = ?f j" using row j(2) by (simp add: g_def job_where_def)
  have mem: "?f j \<in> set (jobs (work s'))" using row mine by (auto simp: s'_def intro: rev_image_eqI)
  have free: "uncancelled tenant p (work s')" if "p \<in> insert i (set_option parent)" for p
  proof -
    have "uncancelled tenant p (work s)" using that r uncancelledI [OF ok] by (auto simp: runnable_def)
    then show ?thesis by (simp add: uncancelled_def s'_def g)
  qed
  have "ready (?f j) owner parent (work s')"
    unfolding ready_def own_results_def
  proof (intro conjI)
    show "\<exists>k \<in> set (jobs (work s')). job_where (job_tenant_id (?f j)) (job_id (?f j)) k \<and> job_state k = RUNNING \<and>
        execution_owner k = Some owner"
      using mem by (intro bexI [of _ "?f j"]) (simp_all add: job_where_def)
  qed (use ok' row free r t in \<open>auto simp: s'_def image_image g runnable_def get_target_def\<close>)
  then show ?thesis using row by (intro that [OF run]) simp_all
qed

lemma claim_job_ready:
  assumes q: "quiet w" and s: "sound (exec_session x)"
    and r: "runnable tenant i owner parent lease claimed (exec_session x)"
  obtains y job where "claim_job w tenant i owner lease claimed x = (y, Inr (Some job))"
    "job_id job = i" "job_tenant_id job = tenant" "standing job owner parent (exec_session y)"
proof (cases claimed)
  case True
  let ?s = "exec_session x"
  from s have ok: "job_table_ok (jobs (work ?s))" by (simp add: sound_def)
  from r True obtain j t where j: "repo_get tenant i ?s = Some j" "job_state j = RUNNING" "execution_owner j = Some owner"
      and t: "get_target ?s (job_target_id j) = Some t" "target_tenant_id t = tenant"
    by (auto simp: runnable_def)
  note row = repo_get_Some [OF j(1)]
  have "sql_first (\<lambda>k. job_where tenant i k \<and> job_state k = RUNNING \<and> execution_owner k = Some owner) (jobs (work ?s)) = Some j"
  proof (cases "sql_first (\<lambda>k. job_where tenant i k \<and> job_state k = RUNNING \<and> execution_owner k = Some owner) (jobs (work ?s))")
    case None
    with row j show ?thesis by (auto simp: sql_first_None job_where_def)
  next
    case (Some k)
    then have "repo_get tenant i ?s = Some k"
      by (intro repo_getI [OF ok]) (auto simp: job_where_def dest: sql_first_Some)
    with Some j(1) show ?thesis by simp
  qed
  then have claim: "claim_job w tenant i owner lease claimed x = (x, Inr (Some j))"
    using True by (simp add: claim_job_def and_then_def db_read_def owned_running_job_def returns_def)
  have "ready j owner parent (work ?s)"
    using ok row r j t by (auto simp: ready_def own_results_def runnable_def get_target_def job_where_def
        intro!: uncancelledI [OF ok])
  then have "standing j owner parent ?s" using s by (simp add: standing_def sound_def clean_def)
  with claim row show ?thesis by (intro that) simp_all
next
  case False
  obtain s' job where run: "claim id (clock_at w (exec_steps x)) tenant i (Some owner) lease (exec_session x) = (s', Inr (Some job))"
    and job: "job_id job = i" "job_tenant_id job = tenant" "ready job owner parent (work s')"
    using claim_makes_ready [OF s, of tenant i owner parent lease] r False by metis
  define y where "y = on_session commit (x\<lparr>exec_session := s', exec_steps := Suc (exec_steps x)\<rparr>)"
  have "claim_job w tenant i owner lease claimed x = (y, Inr (Some job))"
    using False q run by (simp add: claim_job_def and_then_def repo_op_def quiet_def db_write_def y_def returns_def
        modify_def)
  moreover have "standing job owner parent (exec_session y)"
    using job(3) by (simp add: y_def on_session_def standing_def)
  ultimately show ?thesis using job that by blast
qed

lemma undisturbed_run_returns:
  assumes "quiet w" and "sound (exec_session x)"
    and "runnable tenant i owner parent lease claimed (exec_session x)"
  obtains y out where "execute_job w reg profiles tenant i parent owner lease claimed x = (y, Inr out)"
    "executed out" "closed_row tenant i (outcome_job out) (jobs (committed (exec_session y)))"
proof -
  obtain x' job where claim: "claim_job w tenant i owner lease claimed x = (x', Inr (Some job))"
    and job: "job_id job = i" "job_tenant_id job = tenant" and st: "standing job owner parent (exec_session x')"
    by (rule claim_job_ready [OF assms])
  have same: "execute_job w reg profiles tenant i parent owner lease claimed x =
      execute_claimed w reg profiles tenant owner parent job x'"
    using claim by (simp add: execute_job_def and_then_def catches_def returns_def)
  have "triple (\<lambda>x. standing job owner parent (exec_session x))
      (execute_claimed w reg profiles tenant owner parent job) (\<lambda>out _. executed out) (\<lambda>_ _. False)"
    using finishes_claimed [OF assms(1), of job owner parent reg profiles] job by (simp add: finishes_def)
  note done_by = tripleD [OF this st]
  obtain y r where run: "execute_claimed w reg profiles tenant owner parent job x' = (y, r)" by fastforce
  with done_by(2) obtain out where out: "r = Inr out" by (cases r) auto
  have "executed out" using done_by(1) run out by blast
  moreover have "closed_row tenant i (outcome_job out) (jobs (committed (exec_session y)))"
    using executed_row [OF quiet_lawful [OF assms(1)] assms(2)] same run out calculation by metis
  ultimately show ?thesis using that same run out by simp
qed

text \<open>
  C27: A run that nobody disturbs always returns, having executed the job, and leaves it finished in the
  committed table. The collectors, the parser pipeline, the credential profiles and the texts of the
  errors are arbitrary: every exception they raise ends in a stored failure of the job.
\<close>

theorem undisturbed_run_finishes:
  assumes "quiet w" and "sound (exec_session x)"
    and "runnable tenant i owner parent lease claimed (exec_session x)"
  shows "\<exists>y out. execute_job w reg profiles tenant i parent owner lease claimed x = (y, Inr out) \<and>
    executed out \<and>
    (\<exists>j \<in> set (jobs (committed (exec_session y))). outcome_job out = Some j \<and> job_id j = i \<and>
       job_tenant_id j = tenant \<and> is_terminal (job_state j))"
  by (rule undisturbed_run_returns [OF assms, of reg profiles]) (auto simp: closed_row_def job_where_def)

section \<open>A small world\<close>

definition demo_world :: exec_world where
  "demo_world =
     \<lparr>clock_at = int, others = (\<lambda>_. id), lease_gone = (\<lambda>_. False), attempt_clock = (\<lambda>k. (k, k + 1)),
      synchronized_session = True, sha256 = (\<lambda>_. ''h''), error_string = (\<lambda>_. []),
      prober = (\<lambda>_. Inl \<lparr>exc_class = OtherException ''OSError'', exc_text = []\<rparr>),
      process_payload = (\<lambda>_ _ _ _ _. Inr (empty_snapshot 0))\<rparr>"

text \<open>A collector whose health check fails.\<close>

definition broken_collector :: Collector where
  "broken_collector =
     \<lparr>coll_name = ''cisco'', coll_capabilities = [CAP_SSH], coll_parser = None, coll_checkpoints = 1,
      run_health = (\<lambda>_. Some \<lparr>exc_class = TransportUnavailableError, exc_text = ''no route''\<rparr>),
      run_collect = (\<lambda>_. Inr [(''hostname'', PStr ''sw1'')]),
      run_normalize = (\<lambda>_ _. Inr (empty_snapshot 0))\<rparr>"

definition office_state :: exec_state where
  "office_state = \<lparr>exec_session = office_session, exec_steps = 0, exec_attempt = None\<rparr>"

lemma demo_quiet: "quiet demo_world"
  by (simp add: quiet_def demo_world_def)

lemma office_jobs:
  "jobs (work office_session) =
     [new_job 0 5 ''acme'' 1 2 None None None None None, new_job 0 9 ''acme'' 8 2 None None None None None]"
  "committed office_session = work office_session"
  by (simp_all add: office_session_def Let_def)

lemma office_sound: "sound (exec_session office_state)"
proof -
  have "job_table_ok (jobs (work office_session))"
    unfolding job_table_ok_def office_jobs
    by (auto simp: new_job_def same_target_def job_ok_def unleased_def is_terminal_def)
  then show ?thesis by (simp add: office_state_def sound_def clean_def office_jobs(2))
qed

lemma office_runnable: "runnable ''acme'' 5 77 None 60 False (exec_session office_state)"
proof -
  have job: "repo_get ''acme'' 5 office_session = Some (new_job 0 5 ''acme'' 1 2 None None None None None)"
    by (simp add: repo_get_def office_jobs sql_first_def job_where_def new_job_def)
  have "get_target office_session 1 = Some office_target"
    by (simp add: get_target_def sql_first_def office_session_def office_target_def Let_def)
  then show ?thesis
    using job unfolding runnable_def office_state_def
    by (auto simp: new_job_def claimable_def unleased_def is_protected_def PROTECTED_DISCOVERY_JOB_ID_def
        cancellation_requested_def office_target_def office_result_def office_session_def Let_def)
qed

theorem undisturbed_run_finishes_witness:
  "\<exists>y out. execute_job demo_world [(''cisco'', broken_collector)] [] ''acme'' 5 None 77 60 False office_state = (y, Inr out) \<and>
     (\<exists>j \<in> set (jobs (committed (exec_session y))). job_id j = 5 \<and> is_terminal (job_state j))"
  using undisturbed_run_finishes [OF demo_quiet office_sound office_runnable,
      of "[(''cisco'', broken_collector)]" "[]"] by blast

theorem executed_job_is_terminal_witness:
  "\<exists>y out. execute_job demo_world [(''cisco'', broken_collector)] [] ''acme'' 5 None 77 60 False office_state = (y, Inr out) \<and>
     (\<exists>j. outcome_job out = Some j \<and> j \<in> set (jobs (committed (exec_session y))) \<and> is_terminal (job_state j))"
proof -
  obtain y out where run: "execute_job demo_world [(''cisco'', broken_collector)] [] ''acme'' 5 None 77 60 False office_state =
      (y, Inr out)" "executed out"
    by (rule undisturbed_run_returns [OF demo_quiet office_sound office_runnable])
  with executed_job_is_terminal [OF quiet_lawful [OF demo_quiet] office_sound run] show ?thesis by blast
qed

theorem execution_keeps_life_cycle_witness:
  "\<exists>y r. execute_job demo_world [(''cisco'', broken_collector)] [] ''acme'' 5 None 77 60 False office_state = (y, r) \<and>
     jobs_step\<^sup>*\<^sup>* (jobs (work office_session)) (jobs (committed (exec_session y)))"
proof -
  obtain y r where run: "execute_job demo_world [(''cisco'', broken_collector)] [] ''acme'' 5 None 77 60 False office_state = (y, r)"
    by fastforce
  from execution_keeps_life_cycle [OF quiet_lawful [OF demo_quiet] office_sound run] run
  show ?thesis by (auto simp: office_state_def)
qed

end
