(* ===== verification/Worker_Progress.thy ===== *)
theory Worker_Progress
  imports Worker_Safety Execution_Progress
begin

text \<open>
  What the worker achieves when nobody disturbs it: it claims the oldest queued roots, its heartbeat
  keeps a lease from expiring, and a turn finishes the job it claimed.
\<close>

section \<open>Claims\<close>

lemma quiet_pause: "quiet w \<Longrightarrow> pause w x = (x\<lparr>exec_steps := Suc (exec_steps x)\<rparr>, Inr ())"
  by (simp add: pause_def quiet_def on_session_def)

lemma clean_rollback [simp]: "clean s \<Longrightarrow> rollback s = s"
  by (simp add: clean_def rollback_def)

definition steps_to :: "nat \<Rightarrow> exec_state \<Rightarrow> exec_state" where
  "steps_to n x = x\<lparr>exec_steps := exec_steps x + n\<rparr>"

definition claimed_session :: "time \<Rightarrow> string \<Rightarrow> uuid \<Rightarrow> uuid \<Rightarrow> duration \<Rightarrow> session \<Rightarrow> session" where
  "claimed_session now tenant i owner lease s =
     commit (put_jobs (sql_update (\<lambda>k. job_where tenant i k \<and> claimable k) (claim_values now owner lease)
       (jobs (work s))) s)"

lemma claim_one_quiet:
  assumes q: "quiet w" and s: "sound (exec_session x)"
    and j: "repo_get tenant i (exec_session x) = Some j" "claimable j" "\<not> is_protected i" "0 < lease_seconds v"
  shows "claim_one w v (tenant, i) x =
    (x\<lparr>exec_session := claimed_session (clock_at w (exec_steps x + 2)) tenant i (next_uuid (exec_session x))
         (lease_seconds v) (snd (uuid4 (exec_session x))),
       exec_steps := exec_steps x + 3\<rparr>,
     Inr (Some (tenant, i, next_uuid (exec_session x))))"
proof -
  let ?s = "snd (uuid4 (exec_session x))"
  have table: "job_table_ok (jobs (work ?s))" using s by (simp add: sound_def)
  have clean: "clean ?s" using s by (simp add: sound_def clean_def)
  have row: "repo_get tenant i ?s = Some j" using j(1) by (simp add: repo_get_def)
  note passes = claim_passes [OF table row j(2-4)]
  have new: "new_owner (exec_session x) = (?s, Inr (next_uuid (exec_session x)))"
    by (simp add: new_owner_def Let_def uuid4_def)
  have "committed (commit u) = work (commit u)" for u by simp
  then show ?thesis
    using q j(3) clean passes new
    by (simp add: claim_one_def and_then_def repo_op_def quiet_pause in_session_def committed_call_def catches_def
        db_write_def on_session_def claimed_session_def quiet_def clean_def Let_def)
qed

lemma claimed_session_facts:
  assumes s: "sound s" and j: "repo_get tenant i s = Some j" "claimable j"
  shows "sound (claimed_session now tenant i owner lease s)"
    "claim_values now owner lease j \<in> set (jobs (work (claimed_session now tenant i owner lease s)))"
    "\<And>k. k \<in> set (jobs (work s)) \<Longrightarrow> (job_tenant_id k, job_id k) \<noteq> (tenant, i) \<Longrightarrow>
       k \<in> set (jobs (work (claimed_session now tenant i owner lease s)))"
proof -
  let ?p = "\<lambda>k. job_where tenant i k \<and> claimable k" and ?f = "claim_values now owner lease"
  have "job_table_ok (sql_update ?p ?f (jobs (work s)))"
    using s by (intro table_ok_update) (auto simp: sound_def intro: row_step.claimed)
  then show "sound (claimed_session now tenant i owner lease s)"
    by (simp add: claimed_session_def sound_def clean_def)
  show "?f j \<in> set (jobs (work (claimed_session now tenant i owner lease s)))"
    using repo_get_Some [OF j(1)] j(2)
    by (auto simp: claimed_session_def set_sql_update job_where_def intro!: bexI [of _ j])
  show "k \<in> set (jobs (work (claimed_session now tenant i owner lease s)))"
    if "k \<in> set (jobs (work s))" "(job_tenant_id k, job_id k) \<noteq> (tenant, i)" for k
    using that by (auto simp: claimed_session_def set_sql_update job_where_def intro!: bexI [of _ k])
qed

definition leased_row :: "string \<Rightarrow> uuid \<Rightarrow> uuid \<Rightarrow> DiscoveryJobRecord \<Rightarrow> bool" where
  "leased_row tenant i owner j \<longleftrightarrow>
     job_id j = i \<and> job_tenant_id j = tenant \<and> job_state j = RUNNING \<and> execution_owner j = Some owner \<and>
     attempts j = 1"

lemma claims_in_order:
  assumes "quiet w" and "0 < lease_seconds v" and "sound (exec_session x)" and "distinct (map snd cands)"
    and "\<And>t i. (t, i) \<in> set cands \<Longrightarrow>
      \<not> is_protected i \<and> (\<exists>j. repo_get t i (exec_session x) = Some j \<and> claimable j)"
  shows "\<exists>y cs. in_order (claim_one w v) cands x = (y, Inr cs) \<and> map (\<lambda>(t, i, _). (t, i)) cs = cands \<and>
    map (\<lambda>(_, _, owner). owner) cs = [next_uuid (exec_session x)..<next_uuid (exec_session x) + length cands] \<and>
    sound (exec_session y) \<and>
    (\<forall>(t, i, owner) \<in> set cs. \<exists>j \<in> set (jobs (work (exec_session y))). leased_row t i owner j) \<and>
    (\<forall>k \<in> set (jobs (work (exec_session x))). (job_tenant_id k, job_id k) \<notin> set cands \<longrightarrow>
       k \<in> set (jobs (work (exec_session y))))"
  using assms(3-)
proof (induction cands arbitrary: x)
  case (Cons c cands)
  obtain tenant i where c: "c = (tenant, i)" by (cases c)
  let ?s = "exec_session x" let ?owner = "next_uuid ?s" let ?u = "snd (uuid4 ?s)"
  from Cons.prems(3) [of tenant i] c obtain j where j: "\<not> is_protected i" "repo_get tenant i ?s = Some j" "claimable j"
    by auto
  define x1 where "x1 = x\<lparr>exec_session := claimed_session (clock_at w (exec_steps x + 2)) tenant i ?owner
      (lease_seconds v) ?u, exec_steps := exec_steps x + 3\<rparr>"
  have one: "claim_one w v c x = (x1, Inr (Some (tenant, i, ?owner)))"
    unfolding c x1_def by (rule claim_one_quiet [OF assms(1) Cons.prems(1) j(2,3,1) assms(2)])
  have u: "sound ?u" "repo_get tenant i ?u = Some j" using Cons.prems(1) j by (simp_all add: repo_get_def)
  note facts = claimed_session_facts [OF u j(3), where now = "clock_at w (exec_steps x + 2)" and owner = ?owner
      and lease = "lease_seconds v"]
  have x1: "exec_session x1 = claimed_session (clock_at w (exec_steps x + 2)) tenant i ?owner (lease_seconds v) ?u"
    by (simp add: x1_def)
  have next_x1: "next_uuid (exec_session x1) = Suc ?owner" by (simp add: x1 claimed_session_def)
  have rest: "\<not> is_protected i' \<and> (\<exists>j. repo_get t i' (exec_session x1) = Some j \<and> claimable j)"
    if "(t, i') \<in> set cands" for t i'
  proof -
    from Cons.prems(3) [of t i'] that obtain k where k: "\<not> is_protected i'" "repo_get t i' ?s = Some k" "claimable k"
      by auto
    have "i' \<noteq> i" using Cons.prems(2) that c by force
    then have "k \<in> set (jobs (work (exec_session x1)))"
      unfolding x1 using repo_get_Some [OF k(2)] by (intro facts(3)) auto
    moreover have "job_table_ok (jobs (work (exec_session x1)))" using facts(1) by (simp add: x1 sound_def)
    ultimately have "repo_get t i' (exec_session x1) = Some k"
      using repo_get_Some [OF k(2)] by (intro repo_getI) simp_all
    with k show ?thesis by blast
  qed
  obtain y cs where ih: "in_order (claim_one w v) cands x1 = (y, Inr cs)" "map (\<lambda>(t, i, _). (t, i)) cs = cands"
      "map (\<lambda>(_, _, owner). owner) cs = [Suc ?owner..<Suc ?owner + length cands]" "sound (exec_session y)"
      "\<forall>(t, i, owner) \<in> set cs. \<exists>j \<in> set (jobs (work (exec_session y))). leased_row t i owner j"
      "\<forall>k \<in> set (jobs (work (exec_session x1))). (job_tenant_id k, job_id k) \<notin> set cands \<longrightarrow>
         k \<in> set (jobs (work (exec_session y)))"
    using Cons.IH [of x1] facts(1) Cons.prems(2) rest unfolding next_x1 x1 [symmetric] by auto
  have notin: "(tenant, i) \<notin> set cands" using Cons.prems(2) c by force
  have "job_ok j"
    using job_table_okD(3) [of "jobs (work ?s)" j] repo_get_Some [OF j(2)] Cons.prems(1) by (simp add: sound_def)
  then have "leased_row tenant i ?owner (claim_values (clock_at w (exec_steps x + 2)) ?owner (lease_seconds v) j)"
    using repo_get_Some [OF j(2)] j(3) by (auto simp: leased_row_def claimable_def job_ok_def)
  moreover have "claim_values (clock_at w (exec_steps x + 2)) ?owner (lease_seconds v) j \<in> set (jobs (work (exec_session y)))"
    using ih(6) facts(2) notin repo_get_Some [OF j(2)] unfolding x1 by fastforce
  moreover have "k \<in> set (jobs (work (exec_session y)))"
    if "k \<in> set (jobs (work ?s))" "(job_tenant_id k, job_id k) \<notin> set (c # cands)" for k
    using that ih(6) facts(3) [of k] unfolding x1 c by auto
  moreover have "in_order (claim_one w v) (c # cands) x = (y, Inr ((tenant, i, ?owner) # cs))"
    using one ih(1) by (simp add: and_then_def)
  ultimately show ?case
    using ih(2-5) by (intro exI [of _ y] exI [of _ "(tenant, i, ?owner) # cs"]) (auto simp: c upt_rec)
qed simp

lemma queued_roots:
  assumes ok: "job_table_ok (jobs (work s))"
  shows "distinct (map snd (list_queued_roots n s))"
    and "(t, i) \<in> set (list_queued_roots n s) \<Longrightarrow> \<not> is_protected i \<and> (\<exists>j. repo_get t i s = Some j \<and> claimable j)"
proof -
  let ?p = "\<lambda>j. job_state j = QUEUED \<and> parent_job_id j = None \<and> \<not> is_protected (job_id j) \<and> unleased j"
  let ?sorted = "sort_key requested_at (sql_select ?p (jobs (work s)))"
  have ids: "map snd (list_queued_roots n s) = take n (map job_id ?sorted)"
    by (simp add: list_queued_roots_def take_map)
  have "distinct (map job_id (sql_select ?p (jobs (work s))))"
    using job_table_okD(1) [OF ok] by (simp add: sql_select_def distinct_map_filter)
  then have "distinct (map job_id ?sorted)" by (simp add: distinct_map)
  then show "distinct (map snd (list_queued_roots n s))" unfolding ids by simp
  assume "(t, i) \<in> set (list_queued_roots n s)"
  then obtain j where taken: "j \<in> set (take n ?sorted)" and j: "job_tenant_id j = t" "job_id j = i"
    by (auto simp: list_queued_roots_def)
  from in_set_takeD [OF taken] have "j \<in> set (jobs (work s))" "?p j" by (simp_all add: sql_select_def)
  with repo_getI [OF ok] j show "\<not> is_protected i \<and> (\<exists>j. repo_get t i s = Some j \<and> claimable j)"
    by (auto simp: claimable_def)
qed

text \<open>
  An undisturbed poll claims exactly the oldest queued root jobs, in the order they were requested
  and never more than the limit; each gets its own new owner and its first attempt, and every other job
  stays as it is.
\<close>

theorem poll_claims_oldest_roots:
  assumes "quiet w" and "sound (exec_session x)" and "0 < lease_seconds v"
  shows "\<exists>y cs. claim_queued_jobs w v x = (y, Inr cs) \<and>
    map (\<lambda>(t, i, _). (t, i)) cs = list_queued_roots (claim_limit v) (exec_session x) \<and>
    length cs \<le> claim_limit v \<and> distinct (map (\<lambda>(_, _, owner). owner) cs) \<and>
    (\<forall>(t, i, owner) \<in> set cs. \<exists>j \<in> set (jobs (committed (exec_session y))). leased_row t i owner j) \<and>
    (\<forall>k \<in> set (jobs (work (exec_session x))).
       (job_tenant_id k, job_id k) \<notin> set (list_queued_roots (claim_limit v) (exec_session x)) \<longrightarrow>
       k \<in> set (jobs (committed (exec_session y))))"
proof -
  let ?s = "exec_session x" let ?x = "x\<lparr>exec_steps := Suc (exec_steps x)\<rparr>"
  let ?roots = "list_queued_roots (claim_limit v) ?s"
  have ok: "job_table_ok (jobs (work ?s))" and clean: "clean ?s" using assms(2) by (simp_all add: sound_def)
  have start: "claim_queued_jobs w v x = in_order (claim_one w v) ?roots ?x"
    using clean by (simp add: claim_queued_jobs_def quiet_pause [OF assms(1)] and_then_def in_session_def db_read_def
        on_session_def)
  obtain y cs where run: "in_order (claim_one w v) ?roots ?x = (y, Inr cs)" "map (\<lambda>(t, i, _). (t, i)) cs = ?roots"
      "map (\<lambda>(_, _, owner). owner) cs = [next_uuid ?s..<next_uuid ?s + length ?roots]" "sound (exec_session y)"
      "\<forall>(t, i, owner) \<in> set cs. \<exists>j \<in> set (jobs (work (exec_session y))). leased_row t i owner j"
      "\<forall>k \<in> set (jobs (work ?s)). (job_tenant_id k, job_id k) \<notin> set ?roots \<longrightarrow> k \<in> set (jobs (work (exec_session y)))"
    using claims_in_order [OF assms(1,3), of ?x ?roots] assms(2) queued_roots [OF ok] by auto
  have "length cs = length ?roots" using arg_cong [OF run(2), of length] by simp
  moreover have "length ?roots \<le> claim_limit v" by (simp add: list_queued_roots_def)
  moreover have "jobs (committed (exec_session y)) = jobs (work (exec_session y))"
    using run(4) by (simp add: sound_def clean_def)
  moreover have "distinct (map (\<lambda>(_, _, owner). owner) cs)" unfolding run(3) by simp
  ultimately show ?thesis using run start by auto
qed

section \<open>The lease outlives a missed beat\<close>

definition held :: "duration \<Rightarrow> uuid \<Rightarrow> time \<Rightarrow> DiscoveryJobRecord \<Rightarrow> bool" where
  "held lease owner t j \<longleftrightarrow>
     job_state j = RUNNING \<and> execution_owner j = Some owner \<and> lease_expires_at j = Some (t + lease) \<and>
     last_heartbeat_at j = Some t"

lemma held_not_recovered:
  assumes "make_worker v = Inr u" and "repo_get tenant i s = Some j" and "held (lease_seconds v) owner t j"
    and "stale_before \<le> t + 2 * heartbeat_interval_seconds v"
  shows "recover_expired_owned_job env now tenant i stale_before s = (s, Inr None)"
  using assms by (auto simp: recover_expired_owned_job_def held_def make_worker_def split: if_splits)

lemma renewal_holds:
  assumes s: "sound s" and j: "repo_get tenant i s = Some j" "held lease owner t j"
  shows "\<exists>s' k. renew_lease now tenant i owner lease s = (s', Inr True) \<and> sound (commit s') \<and>
    repo_get tenant i s' = Some k \<and> held lease owner now k"
proof -
  let ?p = "renewable tenant i owner" and ?f = "renew_values now lease"
  let ?s = "put_jobs (sql_update ?p ?f (jobs (work s))) s"
  note row = repo_get_Some [OF j(1)]
  have mine: "?p j" using row j(2) by (simp add: renewable_def held_def)
  then have run: "renew_lease now tenant i owner lease s = (?s, Inr True)"
    using row by (auto simp: renew_lease_def update_returning_def sql_select_def filter_empty_conv)
  have ok: "job_table_ok (jobs (work ?s))"
    using table_ok_update [of "jobs (work s)" ?p ?f] s by (auto simp: sound_def renewable_def intro: row_step.renewed)
  have "?f j \<in> set (jobs (work ?s))" using row mine by (auto simp: set_sql_update intro!: bexI [of _ j])
  then have "repo_get tenant i ?s = Some (?f j)" using row by (intro repo_getI [OF ok]) simp_all
  moreover have "held lease owner now (?f j)" using j(2) by (simp add: held_def renew_values_def)
  ultimately show ?thesis using run ok by (auto simp: sound_def clean_def)
qed

text \<open>
  A worker the constructor accepts keeps its jobs from being recovered. After any number of
  undisturbed beats the heartbeat has not lost the lease, and a recovery up to two intervals after
  the last beat, so also when one beat is missed, leaves the job alone.
\<close>

theorem heartbeat_outruns_recovery:
  assumes "make_worker v = Inr u" and "quiet w" and "sound (exec_session x)"
    and "repo_get tenant i (exec_session x) = Some j" and "held (lease_seconds v) owner t j"
    and "stale_before \<le> (if n = 0 then t else clock_at w (exec_steps x + 2 * n - 1)) + 2 * heartbeat_interval_seconds v"
  shows "\<exists>y. heartbeat w v (\<lambda>_. False) tenant i owner n x = (y, Inr False) \<and>
    recover_expired_owned_job env now tenant i stale_before (exec_session y) = (exec_session y, Inr None)"
  using assms(3-)
proof (induction n arbitrary: x t j)
  case 0
  then show ?case using held_not_recovered [OF assms(1)] by simp
next
  case (Suc n)
  let ?now = "clock_at w (Suc (exec_steps x))"
  obtain s' k where renew: "renew_lease ?now tenant i owner (lease_seconds v) (exec_session x) = (s', Inr True)"
    and s': "sound (commit s')" "repo_get tenant i s' = Some k" "held (lease_seconds v) owner ?now k"
    using renewal_holds [OF Suc.prems(1-3)] by blast
  define x1 where "x1 = x\<lparr>exec_steps := Suc (Suc (exec_steps x)), exec_session := commit s'\<rparr>"
  have clean: "clean (exec_session x)" using Suc.prems(1) by (simp add: sound_def)
  have "committed (commit s') = work (commit s')" by simp
  then have beat: "heartbeat w v (\<lambda>_. False) tenant i owner (Suc n) x = heartbeat w v (\<lambda>_. False) tenant i owner n x1"
    using clean renew
    by (simp add: quiet_pause [OF assms(2)] and_then_def heartbeat_beat_def catches_def in_session_def committed_call_def
        repo_op_def db_write_def on_session_def x1_def clean_def)
  have "repo_get tenant i (commit s') = Some k" using s'(2) by (simp add: repo_get_def)
  moreover have "stale_before \<le> (if n = 0 then ?now else clock_at w (exec_steps x1 + 2 * n - 1)) +
      2 * heartbeat_interval_seconds v"
    using Suc.prems(4) by (cases "n = 0") (simp_all add: x1_def)
  ultimately show ?case
    using Suc.IH [of x1 k ?now] s' unfolding beat by (simp add: x1_def)
qed

section \<open>A turn finishes its job\<close>

definition single_device :: "string \<Rightarrow> uuid \<Rightarrow> session \<Rightarrow> bool" where
  "single_device tenant i s \<longleftrightarrow>
     (\<forall>j. repo_get tenant i s = Some j \<longrightarrow> \<not> fanout_target (target_get tenant (job_target_id j) s))"

lemma quiet_variants [simp]:
  "quiet w \<Longrightarrow> quiet (w\<lparr>process_payload := p\<rparr>)" "quiet w \<Longrightarrow> quiet (w\<lparr>lease_gone := \<lambda>_. False\<rparr>)"
  by (simp_all add: quiet_def)

lemma on_session_clean: "clean (exec_session x) \<Longrightarrow> on_session rollback x = x"
  by (simp add: on_session_def)

lemma execute_discovery_job_finishes:
  assumes q: "quiet w" and s: "sound (exec_session x)"
    and run: "runnable tenant i owner None (lease_seconds v) True (exec_session x)"
    and one: "single_device tenant i (exec_session x)"
  obtains y r where "execute_discovery_job w v tenant i owner True x = (y, Inr r)"
    "closed_row tenant i r (jobs (committed (exec_session y)))"
proof -
  obtain j where j: "repo_get tenant i (exec_session x) = Some j" "job_state j = RUNNING"
    using run by (auto simp: runnable_def)
  let ?x = "x\<lparr>exec_attempt := None\<rparr>"
  have x: "sound (exec_session ?x)" "runnable tenant i owner None (lease_seconds v) True (exec_session ?x)"
    using s run by simp_all
  obtain y out where y: "execute_job (w\<lparr>process_payload := worker_pipeline v\<rparr>) (worker_registry v) (worker_profiles v)
      tenant i None owner (lease_seconds v) True ?x = (y, Inr out)"
    "closed_row tenant i (outcome_job out) (jobs (committed (exec_session y)))"
    by (rule undisturbed_run_returns [OF quiet_variants(1) [OF q] x])
  have "\<not> fanout_target (target_get tenant (job_target_id j) (exec_session x))"
    using one j(1) by (simp add: single_device_def)
  then have "execute_discovery_job w v tenant i owner True x = (on_session rollback y, Inr (outcome_job out))"
    using j y(1) s
    by (simp add: execute_discovery_job_def in_session_def on_session_clean sound_def and_then_def db_read_def)
  then show ?thesis by (rule that) (use y(2) in simp)
qed

lemma run_owned_job_finishes:
  assumes "quiet w" and "sound (exec_session x)"
    and "runnable tenant i owner None (lease_seconds v) True (exec_session x)"
    and "single_device tenant i (exec_session x)"
  obtains y r where "run_owned_job w v (\<lambda>_. False) (\<lambda>_. False) (tenant, i, owner) x = (y, Inr ())"
    "closed_row tenant i r (jobs (committed (exec_session y)))"
proof -
  obtain y r where y: "execute_discovery_job (w\<lparr>lease_gone := \<lambda>_. False\<rparr>) v tenant i owner True x = (y, Inr r)"
    "closed_row tenant i r (jobs (committed (exec_session y)))"
    using execute_discovery_job_finishes [of "w\<lparr>lease_gone := \<lambda>_. False\<rparr>" x tenant i owner v] assms by auto
  then have "run_owned_job w v (\<lambda>_. False) (\<lambda>_. False) (tenant, i, owner) x = (y, Inr ())"
    by (simp add: run_owned_job_def and_then_def catches_def)
  then show ?thesis using y(2) by (rule that)
qed

lemma claimed_is_runnable:
  assumes s: "sound s" and r: "runnable tenant i owner None lease False s" and one: "single_device tenant i s"
    and new: "t = claimed_session now tenant i worker lease s"
  shows "runnable tenant i worker None lease True t \<and> single_device tenant i t"
proof -
  from r obtain j target where j: "repo_get tenant i s = Some j" "claimable j"
    and target: "get_target s (job_target_id j) = Some target" "target_tenant_id target = tenant"
    and calm: "\<not> cancellation_requested tenant i s"
    and own: "\<forall>r \<in> set (device_results (work s)). child_job_id r = i \<longrightarrow> result_tenant_id r = tenant"
    by (auto simp: runnable_def)
  note facts = claimed_session_facts [OF s j, where now = now and owner = worker and lease = lease, folded new]
  have "repo_get tenant i t = Some (claim_values now worker lease j)"
    using facts(1,2) repo_get_Some [OF j(1)] by (intro repo_getI) (simp_all add: sound_def)
  moreover have "targets (work t) = targets (work s)" "device_results (work t) = device_results (work s)"
    by (simp_all add: new claimed_session_def)
  ultimately show ?thesis
    using j target calm own one
    by (auto simp: runnable_def single_device_def get_target_def target_get_def cancellation_requested_def claim_values_def)
qed

text \<open>
  C29: A turn of an undisturbed worker that finds one queued root job of a single device claims it, runs
  it and leaves it finished in the committed table, whatever its collectors and parsers raise.
\<close>

theorem turn_finishes_queued_job:
  assumes q: "quiet w" and s: "sound (exec_session x)" and lease: "0 < lease_seconds v"
    and roots: "list_queued_roots (claim_limit v) (exec_session x) = [(tenant, i)]"
    and fresh: "\<And>k. recover_expired_owned_jobs (clock_at w k) (exec_session x) = []"
    and run: "runnable tenant i owner None (lease_seconds v) False (exec_session x)"
    and one: "single_device tenant i (exec_session x)"
  shows "\<exists>y. discovery_turn w v (\<lambda>_. False) (\<lambda>_. False) x = (y, Inr ()) \<and>
    (\<exists>j \<in> set (jobs (committed (exec_session y))). job_id j = i \<and> job_tenant_id j = tenant \<and> is_terminal (job_state j))"
proof -
  let ?s = "exec_session x" let ?u = "snd (uuid4 ?s)" let ?owner = "next_uuid ?s"
  have clean: "clean ?s" using s by (simp add: sound_def)
  have recover: "recover_expired_jobs w x = (x\<lparr>exec_steps := exec_steps x + 2\<rparr>, Inr ())"
    using clean fresh
    by (simp add: recover_expired_jobs_def quiet_pause [OF q] and_then_def read_clock_def in_session_def db_read_def
        on_session_def)
  let ?x = "x\<lparr>exec_steps := exec_steps x + 3\<rparr>"
  have root: "\<not> is_protected i" "\<exists>j. repo_get tenant i ?s = Some j \<and> claimable j"
    using queued_roots(2) [of ?s tenant i "claim_limit v"] s roots by (simp_all add: sound_def)
  then obtain j where j: "repo_get tenant i ?s = Some j" "claimable j" by blast
  define x1 where "x1 = ?x\<lparr>exec_session := claimed_session (clock_at w (exec_steps ?x + 2)) tenant i ?owner
      (lease_seconds v) ?u, exec_steps := exec_steps ?x + 3\<rparr>"
  have claim: "claim_queued_jobs w v (x\<lparr>exec_steps := exec_steps x + 2\<rparr>) = (x1, Inr [(tenant, i, ?owner)])"
    using claim_one_quiet [OF q, of ?x tenant i j v] s j root(1) lease clean roots
    by (simp add: claim_queued_jobs_def quiet_pause [OF q] and_then_def in_session_def db_read_def on_session_def
        x1_def numeral_3_eq_3)
  have u: "sound ?u" "runnable tenant i owner None (lease_seconds v) False ?u" "single_device tenant i ?u"
    using s run one
    by (simp_all add: runnable_def single_device_def repo_get_def get_target_def target_get_def cancellation_requested_def)
  have next_state: "sound (exec_session x1)" "runnable tenant i ?owner None (lease_seconds v) True (exec_session x1)"
      "single_device tenant i (exec_session x1)"
    using claimed_session_facts(1) [OF u(1)] claimed_is_runnable [OF u refl] j
    by (auto simp: x1_def repo_get_def)
  obtain y r where y: "run_owned_job w v (\<lambda>_. False) (\<lambda>_. False) (tenant, i, ?owner) x1 = (y, Inr ())"
    "closed_row tenant i r (jobs (committed (exec_session y)))"
    by (rule run_owned_job_finishes [OF q next_state])
  have "discovery_turn w v (\<lambda>_. False) (\<lambda>_. False) x = (y, Inr ())"
    using recover claim y(1) by (simp add: discovery_turn_def and_then_def catches_def)
  with y(2) show ?thesis by (auto simp: closed_row_def job_where_def)
qed

section \<open>A scope that cannot be expanded\<close>

lemma sql_first_update:
  assumes "\<And>x. q (if p x then f x else x) = q x"
  shows "sql_first q (sql_update p f xs) = map_option (\<lambda>x. if p x then f x else x) (sql_first q xs)"
  unfolding sql_first_def sql_update_def by (induction xs) (simp_all add: assms)

lemma transition_values_run [simp]: "job_run_id (transition_values now target code msg j) = job_run_id j"
  by (simp add: transition_values_def clear_lease_def Let_def split: option.split)

text \<open>
  The scope of a target is not expanded when the target is stored. A running job whose scope turns out to
  be too large is never closed: its recovery expands the scope once more, raises and rolls back, each time.
\<close>

lemma unexpandable_scope_sticks:
  assumes j: "repo_get tenant i s = Some j" and t: "get_target s (job_target_id j) = Some t"
    and fan: "fanout_target (Some t)" and bad: "expand_target DEFAULT_MAX_TARGETS t = Inl e"
    and stored: "\<And>r. get_run s (job_run_id j) = Some r \<Longrightarrow> stored_addresses (run_metadata r) = Inr []"
    and leaf: "\<And>k. k \<in> set (jobs (work s)) \<Longrightarrow> parent_job_id k \<noteq> Some i"
    and ok: "job_table_ok (jobs (work s))"
  shows "snd (recover_expired_owned_job id now tenant i stale_before s) = Inr None \<or>
    (\<exists>f. snd (recover_expired_owned_job id now tenant i stale_before s) = Inl f)"
proof -
  note row = repo_get_Some [OF j]
  have get: "get_job s i = Some j"
    using row unique_key [OF job_table_okD(1) [OF ok]]
    by (cases "get_job s i") (auto simp: get_job_def sql_first_None dest: sql_first_Some)
  have closed: "\<exists>f. snd (reconcile_if_fanout now tenant j interrupted s2) = Inl f"
    if moved: "transition id now tenant i target code msg False own s = (s2, Inr r)" for target code msg own s2 r interrupted
  proof -
    obtain st conflict where "target \<in> allowed_transitions st"
      and upd: "guarded_update (transition_where tenant i st False own)
        (transition_values now target code msg) conflict tenant i s = (s2, Inr r)"
      by (rule transition_id_update [OF moved])
    have s2: "s2 = put_jobs (sql_update (transition_where tenant i st False own)
        (transition_values now target code msg) (jobs (work s))) s"
      by (rule guarded_update_state [OF upd])
    then obtain k where "get_job s2 i = Some k" "job_tenant_id k = tenant" "job_target_id k = job_target_id j"
        "job_run_id k = job_run_id j"
      using get row by (auto simp: get_job_def sql_first_update split: if_splits)
    moreover have "get_target s2 (job_target_id j) = Some t" "get_run s2 (job_run_id j) = get_run s (job_run_id j)"
      using t by (simp_all add: s2 get_target_def get_run_def)
    moreover have "stored_addresses [] = Inr []" by (simp add: stored_addresses_def dict_get_def)
    ultimately show ?thesis
      using fan bad row stored
      by (cases "get_run s (job_run_id j)")
         (auto simp: reconcile_if_fanout_def reconcile_parent_job_def fanout_target_def expected_addresses_def Let_def)
  qed
  have never: False
    if "transition id now tenant i target code msg False own s = (s2, Inr r)"
      "reconcile_if_fanout now tenant j interrupted s2 = (s3, Inr u)" for target code msg own s2 r interrupted s3 u
    using closed [OF that(1), of interrupted] that(2) by simp
  have none: "sql_select (\<lambda>k. job_tenant_id k = tenant \<and> parent_job_id k = Some i \<and> is_active k) (jobs (work s)) = []"
    using leaf by (auto simp: sql_select_def filter_empty_conv)
  have "snd (reconcile_owned_tree id now tenant i own msg s) = Inr None \<or>
      (\<exists>f. snd (reconcile_owned_tree id now tenant i own msg s) = Inl f)" for own msg
    using j none
    by (auto simp: reconcile_owned_tree_def Let_def split: prod.split sum.split dest: never)
  then show ?thesis
    using j by (auto simp: recover_expired_owned_job_def split: option.split)
qed

section \<open>A small worker\<close>

definition demo_worker :: DiscoveryJobWorker where
  "demo_worker =
     \<lparr>worker_registry = [(''cisco'', broken_collector)], worker_profiles = [], lease_seconds = 120,
      heartbeat_interval_seconds = 30, claim_limit = 1,
      worker_pipeline = (\<lambda>_ _ _ _ _. Inr (empty_snapshot 0)), default_pipeline = (\<lambda>_ _ _ _ _. Inr (empty_snapshot 0))\<rparr>"


theorem poll_claims_oldest_roots_witness:
  "\<exists>y cs. claim_queued_jobs demo_world demo_worker office_state = (y, Inr cs) \<and> length cs \<le> 1"
  using poll_claims_oldest_roots [OF demo_quiet office_sound, of demo_worker] by (auto simp: demo_worker_def)

lemma office_roots: "list_queued_roots 1 (exec_session office_state) = [(''acme'', 5)]"
  by (simp add: list_queued_roots_def office_state_def office_jobs sql_select_def new_job_def is_protected_def
      PROTECTED_DISCOVERY_JOB_ID_def unleased_def)

lemma office_idle: "recover_expired_owned_jobs now (exec_session office_state) = []"
  by (simp add: recover_expired_owned_jobs_def office_state_def office_jobs sql_select_def new_job_def)

lemma office_single: "single_device ''acme'' 5 (exec_session office_state)"
proof -
  have "repo_get ''acme'' 5 (exec_session office_state) = Some (new_job 0 5 ''acme'' 1 2 None None None None None)"
    by (simp add: repo_get_def office_state_def office_jobs sql_first_def job_where_def new_job_def)
  moreover have "target_get ''acme'' 1 (exec_session office_state) = Some office_target"
    by (simp add: target_get_def target_where_def sql_first_def office_state_def office_session_def office_target_def Let_def)
  ultimately show ?thesis
    by (simp add: single_device_def fanout_target_def new_job_def office_target_def)
qed

theorem turn_finishes_queued_job_witness:
  "\<exists>y. discovery_turn demo_world demo_worker (\<lambda>_. False) (\<lambda>_. False) office_state = (y, Inr ()) \<and>
     (\<exists>j \<in> set (jobs (committed (exec_session y))). job_id j = 5 \<and> is_terminal (job_state j))"
proof -
  have v: "0 < lease_seconds demo_worker" "lease_seconds demo_worker = 120" "claim_limit demo_worker = 1"
    by (simp_all add: demo_worker_def)
  have run: "runnable ''acme'' 5 0 None (lease_seconds demo_worker) False (exec_session office_state)"
    using office_runnable by (simp add: runnable_def v)
  show ?thesis
    using turn_finishes_queued_job [OF demo_quiet office_sound v(1) _ office_idle run office_single] office_roots
    by (auto simp: v(3))
qed

text \<open>A running job, claimed at time 0.\<close>

definition beating_state :: exec_state where
  "beating_state =
     (let j = claim_values 0 77 120 (new_job 0 5 ''acme'' 1 2 None None None None None);
          st = empty_store\<lparr>jobs := [j]\<rparr>
      in \<lparr>exec_session = \<lparr>committed = st, work = st, next_uuid = 20\<rparr>, exec_steps = 0, exec_attempt = None\<rparr>)"

theorem heartbeat_outruns_recovery_witness:
  "\<exists>y. heartbeat demo_world demo_worker (\<lambda>_. False) ''acme'' 5 77 2 beating_state = (y, Inr False) \<and>
     recover_expired_owned_job id 63 ''acme'' 5 63 (exec_session y) = (exec_session y, Inr None)"
proof -
  let ?j = "claim_values 0 77 120 (new_job 0 5 ''acme'' 1 2 None None None None None)"
  have "sound (exec_session beating_state)"
    by (simp add: sound_def clean_def beating_state_def Let_def job_table_ok_def job_ok_def claim_values_def new_job_def
        is_terminal_def unleased_def)
  moreover have "repo_get ''acme'' 5 (exec_session beating_state) = Some ?j"
    by (simp add: repo_get_def beating_state_def Let_def sql_first_def job_where_def claim_values_def new_job_def)
  moreover have "held (lease_seconds demo_worker) 77 0 ?j"
    by (simp add: held_def claim_values_def demo_worker_def)
  moreover have "make_worker demo_worker = Inr demo_worker" by (simp add: make_worker_def demo_worker_def)
  ultimately show ?thesis
    using heartbeat_outruns_recovery [of demo_worker demo_worker demo_world beating_state "''acme''" 5 ?j 77 0 63 2 id 63]
      demo_quiet
    by (simp add: demo_worker_def demo_world_def beating_state_def Let_def)
qed

end
