(* ===== verification/Scheduling.thy ===== *)
theory Scheduling
  imports Actions
begin

text \<open>
  The scheduler (\<^verbatim>\<open>scheduler/models.py\<close>, \<^verbatim>\<open>scheduler/repository.py\<close>, \<^verbatim>\<open>scheduler/service.py\<close>,
  \<^verbatim>\<open>scheduler/registry.py\<close>): schedules, their two repositories behind one interface, the service that
  dispatches what is due, and the registry of workers. Instants are microseconds.
\<close>

section \<open>Schedules\<close>

datatype ScheduleState = SCHEDULE_ACTIVE | SCHEDULE_PAUSED | SCHEDULE_DISABLED
datatype ScheduleKind = KIND_DISCOVERY | KIND_REPORTING
datatype ScheduleType = INTERVAL | ONE_TIME | DAILY | WEEKLY | MONTHLY

fun schedule_state_value :: "ScheduleState \<Rightarrow> string" where
  "schedule_state_value SCHEDULE_ACTIVE = ''active''"
| "schedule_state_value SCHEDULE_PAUSED = ''paused''"
| "schedule_state_value SCHEDULE_DISABLED = ''disabled''"

fun schedule_kind_value :: "ScheduleKind \<Rightarrow> string" where
  "schedule_kind_value KIND_DISCOVERY = ''discovery''"
| "schedule_kind_value KIND_REPORTING = ''reporting''"

fun schedule_type_value :: "ScheduleType \<Rightarrow> string" where
  "schedule_type_value INTERVAL = ''interval''"
| "schedule_type_value ONE_TIME = ''one_time''"
| "schedule_type_value DAILY = ''daily''"
| "schedule_type_value WEEKLY = ''weekly''"
| "schedule_type_value MONTHLY = ''monthly''"

text \<open>\<open>ScheduleKind(text)\<close> and the like raise on an unknown text.\<close>

definition enum_of :: "('a \<Rightarrow> string) \<Rightarrow> 'a list \<Rightarrow> string \<Rightarrow> string + 'a" where
  "enum_of value members s =
     (case find (\<lambda>c. value c = s) members of None \<Rightarrow> Inl ''ValueError'' | Some c \<Rightarrow> Inr c)"

definition kind_of_text :: "string \<Rightarrow> string + ScheduleKind" where
  "kind_of_text = enum_of schedule_kind_value [KIND_DISCOVERY, KIND_REPORTING]"

definition type_of_text :: "string \<Rightarrow> string + ScheduleType" where
  "type_of_text = enum_of schedule_type_value [INTERVAL, ONE_TIME, DAILY, WEEKLY, MONTHLY]"

definition state_of_text :: "string \<Rightarrow> string + ScheduleState" where
  "state_of_text = enum_of schedule_state_value [SCHEDULE_ACTIVE, SCHEDULE_PAUSED, SCHEDULE_DISABLED]"

record Schedule =
  sched_id :: uuid
  sched_name :: string
  sched_kind :: ScheduleKind
  sched_type :: ScheduleType
  sched_enabled :: bool
  interval_seconds :: "int option"
  sched_start_at :: "time option"
  next_run_at :: "time option"
  last_run_at :: "time option"
  sched_created_at :: time
  sched_updated_at :: time
  sched_state :: ScheduleState
  sched_metadata :: "(string, pyval) dict"

record ScheduleExecution =
  execution_id :: uuid
  execution_schedule_id :: uuid
  executed_at :: time
  execution_status :: string
  execution_detail :: "string option"

record ExecutionResult =
  result_schedule_id :: uuid
  result_executed :: bool
  result_status :: string
  result_detail :: "string option"

section \<open>Repositories\<close>

text \<open>The abstract class, as the record of its operations on a store; an operation may raise.\<close>

record 'r SchedulerRepository =
  save_schedule :: "Schedule \<Rightarrow> ('r, string, Schedule) action"
  get_schedule :: "uuid \<Rightarrow> 'r \<Rightarrow> string + Schedule option"
  list_schedules :: "'r \<Rightarrow> string + Schedule list"
  delete_schedule :: "uuid \<Rightarrow> ('r, string, bool) action"
  append_execution :: "ScheduleExecution \<Rightarrow> ('r, string, ScheduleExecution) action"
  list_executions :: "uuid \<Rightarrow> 'r \<Rightarrow> string + ScheduleExecution list"

subsection \<open>In memory\<close>

record memory_store =
  memory_schedules :: "(uuid, Schedule) dict"
  memory_executions :: "ScheduleExecution list"

definition memory_save :: "Schedule \<Rightarrow> (memory_store, string, Schedule) action" where
  "memory_save s m = (m\<lparr>memory_schedules := dict_set (sched_id s) s (memory_schedules m)\<rparr>, Inr s)"

definition memory_delete :: "uuid \<Rightarrow> (memory_store, string, bool) action" where
  "memory_delete i m =
     (m\<lparr>memory_schedules := dict_pop i (memory_schedules m)\<rparr>, Inr (dict_get (memory_schedules m) i \<noteq> None))"

definition InMemorySchedulerRepository :: "memory_store SchedulerRepository" where
  "InMemorySchedulerRepository =
     \<lparr>save_schedule = memory_save, get_schedule = (\<lambda>i m. Inr (dict_get (memory_schedules m) i)),
      list_schedules = (\<lambda>m. Inr (dict_values (memory_schedules m))), delete_schedule = memory_delete,
      append_execution = (\<lambda>e m. (m\<lparr>memory_executions := memory_executions m @ [e]\<rparr>, Inr e)),
      list_executions = (\<lambda>i m. Inr (filter (\<lambda>e. execution_schedule_id e = i) (memory_executions m)))\<rparr>"

subsection \<open>In the database\<close>

text \<open>Rows hold the texts of the enumerations; a row that is saved again keeps its \<open>created_at\<close>.\<close>

record ScheduleRecord =
  srow_id :: uuid
  srow_name :: string
  srow_kind :: string
  srow_type :: string
  srow_enabled :: bool
  srow_interval :: "int option"
  srow_start_at :: "time option"
  srow_next_run_at :: "time option"
  srow_last_run_at :: "time option"
  srow_created_at :: time
  srow_updated_at :: time
  srow_state :: string
  srow_metadata :: "(string, pyval) dict"

record schedule_tables =
  schedule_rows :: "ScheduleRecord list"
  execution_rows :: "ScheduleExecution list"

definition row_of_schedule :: "time \<Rightarrow> Schedule \<Rightarrow> ScheduleRecord" where
  "row_of_schedule created s =
     \<lparr>srow_id = sched_id s, srow_name = sched_name s, srow_kind = schedule_kind_value (sched_kind s),
      srow_type = schedule_type_value (sched_type s), srow_enabled = sched_enabled s,
      srow_interval = interval_seconds s, srow_start_at = sched_start_at s, srow_next_run_at = next_run_at s,
      srow_last_run_at = last_run_at s, srow_created_at = created, srow_updated_at = sched_updated_at s,
      srow_state = schedule_state_value (sched_state s), srow_metadata = sched_metadata s\<rparr>"

definition to_schedule :: "ScheduleRecord \<Rightarrow> string + Schedule" where
  "to_schedule r =
     bind_result (kind_of_text (srow_kind r)) (\<lambda>k.
     bind_result (type_of_text (srow_type r)) (\<lambda>t.
     bind_result (state_of_text (srow_state r)) (\<lambda>st.
     Inr \<lparr>sched_id = srow_id r, sched_name = srow_name r, sched_kind = k, sched_type = t,
          sched_enabled = srow_enabled r, interval_seconds = srow_interval r, sched_start_at = srow_start_at r,
          next_run_at = srow_next_run_at r, last_run_at = srow_last_run_at r,
          sched_created_at = srow_created_at r, sched_updated_at = srow_updated_at r, sched_state = st,
          sched_metadata = srow_metadata r\<rparr>)))"

fun all_ok :: "(string + 'a) list \<Rightarrow> string + 'a list" where
  "all_ok [] = Inr []"
| "all_ok (r # rs) = bind_result r (\<lambda>x. bind_result (all_ok rs) (\<lambda>xs. Inr (x # xs)))"

definition sql_save :: "Schedule \<Rightarrow> (schedule_tables, string, Schedule) action" where
  "sql_save s t =
     (case sql_first (\<lambda>r. srow_id r = sched_id s) (schedule_rows t) of
        None \<Rightarrow>
          (let row = row_of_schedule (sched_created_at s) s
           in (t\<lparr>schedule_rows := schedule_rows t @ [row]\<rparr>, to_schedule row))
      | Some old \<Rightarrow>
          (let row = row_of_schedule (srow_created_at old) s
           in (t\<lparr>schedule_rows := sql_update (\<lambda>r. srow_id r = sched_id s) (\<lambda>_. row) (schedule_rows t)\<rparr>,
               to_schedule row)))"

definition sql_get :: "uuid \<Rightarrow> schedule_tables \<Rightarrow> string + Schedule option" where
  "sql_get i t =
     (case sql_first (\<lambda>r. srow_id r = i) (schedule_rows t) of
        None \<Rightarrow> Inr None
      | Some r \<Rightarrow> bind_result (to_schedule r) (\<lambda>s. Inr (Some s)))"

text \<open>Deleting a schedule cascades to its executions.\<close>

definition sql_delete_schedule :: "uuid \<Rightarrow> (schedule_tables, string, bool) action" where
  "sql_delete_schedule i t =
     (if sql_first (\<lambda>r. srow_id r = i) (schedule_rows t) = None then (t, Inr False)
      else (t\<lparr>schedule_rows := sql_delete (\<lambda>r. srow_id r = i) (schedule_rows t),
             execution_rows := sql_delete (\<lambda>e. execution_schedule_id e = i) (execution_rows t)\<rparr>, Inr True))"

definition sql_append :: "ScheduleExecution \<Rightarrow> (schedule_tables, string, ScheduleExecution) action" where
  "sql_append e t =
     (if execution_schedule_id e \<in> set (map srow_id (schedule_rows t))
      then (t\<lparr>execution_rows := execution_rows t @ [e]\<rparr>, Inr e)
      else (t, Inl ''IntegrityError''))"

definition SQLAlchemySchedulerRepository :: "schedule_tables SchedulerRepository" where
  "SQLAlchemySchedulerRepository =
     \<lparr>save_schedule = sql_save, get_schedule = sql_get,
      list_schedules = (\<lambda>t. all_ok (map to_schedule (schedule_rows t))), delete_schedule = sql_delete_schedule,
      append_execution = sql_append,
      list_executions = (\<lambda>i t. Inr (sql_select (\<lambda>e. execution_schedule_id e = i) (execution_rows t)))\<rparr>"

section \<open>The service\<close>

text \<open>The store of the repository, what the job manager keeps, and the source of identifiers.\<close>

record ('r, 'm) scheduler_state =
  scheduler_store :: 'r
  scheduler_jobs :: 'm
  scheduler_uuid :: uuid

type_synonym ('r, 'm, 'a) scheduling = "(('r, 'm) scheduler_state, string, 'a) action"

record ('r, 'm) SchedulerService =
  service_repository :: "'r SchedulerRepository"
  job_manager :: "((string, pyval) dict \<Rightarrow> ('m, string, unit) action) option"

definition on_store :: "('r, string, 'a) action \<Rightarrow> ('r, 'm, 'a) scheduling" where
  "on_store m x = (let (r, a) = m (scheduler_store x) in (x\<lparr>scheduler_store := r\<rparr>, a))"

definition ask_store :: "('r \<Rightarrow> string + 'a) \<Rightarrow> ('r, 'm, 'a) scheduling" where
  "ask_store f x = (x, f (scheduler_store x))"

definition fresh_uuid :: "('r, 'm, uuid) scheduling" where
  "fresh_uuid x = (x\<lparr>scheduler_uuid := Suc (scheduler_uuid x)\<rparr>, Inr (scheduler_uuid x))"

record ScheduleCreateRequest =
  create_name :: string
  create_kind :: string
  create_type :: string
  create_enabled :: bool
  create_interval :: "int option"
  create_start_at :: "time option"
  create_metadata :: "(string, pyval) dict"

record ScheduleUpdateRequest =
  update_name :: "string option"
  update_enabled :: "bool option"

definition day :: duration where "day = 86400 * 1000000"

text \<open>\<open>interval_seconds or 60\<close>: zero counts as none.\<close>

definition interval_of :: "int option \<Rightarrow> duration" where
  "interval_of i = (case i of None \<Rightarrow> 60 | Some n \<Rightarrow> if n = 0 then 60 else n) * 1000000"

definition compute_next_run :: "ScheduleCreateRequest \<Rightarrow> time \<Rightarrow> time" where
  "compute_next_run p start_at =
     (let from = (case create_start_at p of None \<Rightarrow> start_at | Some t \<Rightarrow> t)
      in if create_type p = ''one_time'' then from
         else if create_type p = ''daily'' then from + day
         else if create_type p = ''weekly'' then from + 7 * day
         else if create_type p = ''monthly'' then from + 30 * day
         else start_at + interval_of (create_interval p))"

definition compute_next_run_from_existing :: "Schedule \<Rightarrow> time \<Rightarrow> time" where
  "compute_next_run_from_existing s now =
     (case sched_type s of
        ONE_TIME \<Rightarrow> (case next_run_at s of None \<Rightarrow> now | Some t \<Rightarrow> t)
      | DAILY \<Rightarrow> now + day
      | WEEKLY \<Rightarrow> now + 7 * day
      | MONTHLY \<Rightarrow> now + 30 * day
      | INTERVAL \<Rightarrow> now + interval_of (interval_seconds s))"

definition register_schedule ::
  "('r, 'm) SchedulerService \<Rightarrow> time \<Rightarrow> ScheduleCreateRequest \<Rightarrow> ('r, 'm, Schedule) scheduling" where
  "register_schedule sv now p =
     (let start = (case create_start_at p of None \<Rightarrow> now | Some t \<Rightarrow> t)
      in and_then (\<lambda>x. (x, kind_of_text (create_kind p))) (\<lambda>k.
         and_then (\<lambda>x. (x, type_of_text (create_type p))) (\<lambda>t.
         and_then fresh_uuid (\<lambda>i.
         on_store (save_schedule (service_repository sv)
           \<lparr>sched_id = i, sched_name = create_name p, sched_kind = k, sched_type = t,
            sched_enabled = create_enabled p, interval_seconds = create_interval p, sched_start_at = Some start,
            next_run_at = Some (compute_next_run p start), last_run_at = None, sched_created_at = now,
            sched_updated_at = now,
            sched_state = (if create_enabled p then SCHEDULE_ACTIVE else SCHEDULE_DISABLED),
            sched_metadata = create_metadata p\<rparr>)))))"

text \<open>The three changes of a stored schedule.\<close>

definition change_schedule ::
  "('r, 'm) SchedulerService \<Rightarrow> uuid \<Rightarrow> (Schedule \<Rightarrow> Schedule) \<Rightarrow> ('r, 'm, Schedule) scheduling" where
  "change_schedule sv i f =
     and_then (ask_store (get_schedule (service_repository sv) i)) (\<lambda>existing.
       case existing of
         None \<Rightarrow> raises ''KeyError''
       | Some s \<Rightarrow> on_store (save_schedule (service_repository sv) (f s)))"

definition update_values :: "time \<Rightarrow> ScheduleUpdateRequest \<Rightarrow> Schedule \<Rightarrow> Schedule" where
  "update_values now p s =
     s\<lparr>sched_name := (case update_name p of None \<Rightarrow> sched_name s | Some n \<Rightarrow> if n = [] then sched_name s else n),
       sched_enabled := (case update_enabled p of None \<Rightarrow> sched_enabled s | Some b \<Rightarrow> b),
       sched_updated_at := now,
       sched_state := (if update_enabled p = Some False then SCHEDULE_DISABLED else SCHEDULE_ACTIVE)\<rparr>"

definition update_schedule ::
  "('r, 'm) SchedulerService \<Rightarrow> time \<Rightarrow> uuid \<Rightarrow> ScheduleUpdateRequest \<Rightarrow> ('r, 'm, Schedule) scheduling" where
  "update_schedule sv now i p = change_schedule sv i (update_values now p)"

definition paused :: "time \<Rightarrow> Schedule \<Rightarrow> Schedule" where
  "paused now s = s\<lparr>sched_enabled := False, sched_updated_at := now, sched_state := SCHEDULE_PAUSED\<rparr>"

definition resumed :: "time \<Rightarrow> Schedule \<Rightarrow> Schedule" where
  "resumed now s = s\<lparr>sched_enabled := True, next_run_at := Some (compute_next_run_from_existing s now),
     sched_updated_at := now, sched_state := SCHEDULE_ACTIVE\<rparr>"

definition pause_schedule :: "('r, 'm) SchedulerService \<Rightarrow> time \<Rightarrow> uuid \<Rightarrow> ('r, 'm, Schedule) scheduling" where
  "pause_schedule sv now i = change_schedule sv i (paused now)"

definition resume_schedule :: "('r, 'm) SchedulerService \<Rightarrow> time \<Rightarrow> uuid \<Rightarrow> ('r, 'm, Schedule) scheduling" where
  "resume_schedule sv now i = change_schedule sv i (resumed now)"

definition due :: "time \<Rightarrow> Schedule \<Rightarrow> bool" where
  "due now s \<longleftrightarrow> sched_enabled s \<and> (case next_run_at s of None \<Rightarrow> False | Some t \<Rightarrow> t \<le> now)"

definition dispatched :: "time \<Rightarrow> Schedule \<Rightarrow> Schedule" where
  "dispatched now s =
     s\<lparr>next_run_at := Some (compute_next_run_from_existing s now), last_run_at := Some now,
       sched_updated_at := now\<rparr>"

definition submit_scheduled ::
  "('r, 'm) SchedulerService \<Rightarrow> (string, pyval) dict \<Rightarrow> ('r, 'm, unit) scheduling" where
  "submit_scheduled sv metadata x =
     (case job_manager sv of
        None \<Rightarrow> (x, Inr ())
      | Some submit \<Rightarrow> (let (m, r) = submit metadata (scheduler_jobs x) in (x\<lparr>scheduler_jobs := m\<rparr>, r)))"

definition execution_of :: "time \<Rightarrow> uuid \<Rightarrow> Schedule \<Rightarrow> ScheduleExecution" where
  "execution_of now i s =
     \<lparr>execution_id = i, execution_schedule_id = sched_id s, executed_at = now, execution_status = ''dispatched'',
      execution_detail = Some (schedule_kind_value (sched_kind s))\<rparr>"

definition dispatch_result :: "Schedule \<Rightarrow> ExecutionResult" where
  "dispatch_result s =
     \<lparr>result_schedule_id = sched_id s, result_executed = True, result_status = ''dispatched'',
      result_detail = Some (schedule_kind_value (sched_kind s))\<rparr>"

definition dispatch_one :: "('r, 'm) SchedulerService \<Rightarrow> time \<Rightarrow> Schedule \<Rightarrow> ('r, 'm, ExecutionResult) scheduling" where
  "dispatch_one sv now s =
     and_then (submit_scheduled sv (sched_metadata s)) (\<lambda>_.
     and_then fresh_uuid (\<lambda>i.
     and_then (on_store (append_execution (service_repository sv) (execution_of now i s))) (\<lambda>_.
     and_then (on_store (save_schedule (service_repository sv) (dispatched now s))) (\<lambda>_.
     returns (dispatch_result s)))))"

fun dispatch_all ::
  "('r, 'm) SchedulerService \<Rightarrow> time \<Rightarrow> Schedule list \<Rightarrow> ('r, 'm, ExecutionResult list) scheduling" where
  "dispatch_all sv now [] = returns []"
| "dispatch_all sv now (s # ss) =
     (if due now s
      then and_then (dispatch_one sv now s) (\<lambda>r. and_then (dispatch_all sv now ss) (\<lambda>rs. returns (r # rs)))
      else dispatch_all sv now ss)"

definition dispatch_due_jobs :: "('r, 'm) SchedulerService \<Rightarrow> time \<Rightarrow> ('r, 'm, ExecutionResult list) scheduling" where
  "dispatch_due_jobs sv now =
     and_then (ask_store (list_schedules (service_repository sv))) (dispatch_all sv now)"

section \<open>Workers\<close>

record WorkerInfo =
  winfo_id :: string
  winfo_kind :: string
  winfo_status :: string
  winfo_registered_at :: time
  winfo_last_heartbeat_at :: time
  winfo_metadata :: "(string, pyval) dict"

record WorkerMetrics =
  metrics_active :: int
  metrics_completed :: int
  metrics_failed :: int
  metrics_updated_at :: time

record WorkerRegistry =
  heartbeat_ttl :: duration
  registered_workers :: "(string, WorkerInfo) dict"
  worker_metrics :: "(string, WorkerMetrics) dict"

definition register_worker :: "time \<Rightarrow> string \<Rightarrow> string \<Rightarrow> WorkerRegistry \<Rightarrow> WorkerRegistry \<times> WorkerInfo" where
  "register_worker now i kind g =
     (let worker = \<lparr>winfo_id = i, winfo_kind = kind, winfo_status = ''alive'', winfo_registered_at = now,
            winfo_last_heartbeat_at = now, winfo_metadata = []\<rparr>
      in (g\<lparr>registered_workers := dict_set i worker (registered_workers g),
            worker_metrics := dict_set i \<lparr>metrics_active = 0, metrics_completed = 0, metrics_failed = 0,
              metrics_updated_at = now\<rparr> (worker_metrics g)\<rparr>, worker))"

definition worker_heartbeat :: "time \<Rightarrow> string \<Rightarrow> WorkerRegistry \<Rightarrow> WorkerRegistry" where
  "worker_heartbeat now i g =
     (let (g1, worker) = (case dict_get (registered_workers g) i of
            None \<Rightarrow> register_worker now i ''scheduler'' g | Some v \<Rightarrow> (g, v))
      in g1\<lparr>registered_workers := dict_set i (worker\<lparr>winfo_status := ''alive'', winfo_last_heartbeat_at := now\<rparr>)
            (registered_workers g1)\<rparr>)"

definition detect_stale_workers :: "time \<Rightarrow> WorkerRegistry \<Rightarrow> WorkerInfo list" where
  "detect_stale_workers now g =
     filter (\<lambda>v. now - winfo_last_heartbeat_at v > heartbeat_ttl g) (dict_values (registered_workers g))"

record SchedulerStatistics =
  total_schedules :: nat
  enabled_schedules :: nat
  disabled_schedules :: nat
  active_workers :: nat
  stale_workers :: nat

definition get_statistics :: "('r, 'm) SchedulerService \<Rightarrow> WorkerRegistry \<Rightarrow> time \<Rightarrow> ('r, 'm, SchedulerStatistics) scheduling" where
  "get_statistics sv g now =
     and_then (ask_store (list_schedules (service_repository sv))) (\<lambda>ss.
     returns \<lparr>total_schedules = length ss, enabled_schedules = length (filter sched_enabled ss),
              disabled_schedules = length (filter (\<lambda>s. \<not> sched_enabled s) ss),
              active_workers = length (dict_values (registered_workers g)),
              stale_workers = length (detect_stale_workers now g)\<rparr>)"

end
