(* ===== verification/Schedule_Service.thy ===== *)
theory Schedule_Service
  imports Scheduling
begin

text \<open>
  The scheduler against an abstract list of schedules. The interface of a repository is a locale with the
  laws the service needs; the service is shown to refine the abstract one inside it, and both
  repositories of the code provide the laws.
\<close>

section \<open>The abstract scheduler\<close>

record 'm schedule_spec =
  spec_schedules :: "Schedule list"
  spec_jobs :: 'm
  spec_uuid :: uuid

type_synonym ('m, 'a) spec_action = "('m schedule_spec, string, 'a) action"

definition put_schedule :: "Schedule \<Rightarrow> Schedule list \<Rightarrow> Schedule list" where
  "put_schedule s ss = map (\<lambda>t. if sched_id t = sched_id s then s else t) ss"

definition spec_find :: "uuid \<Rightarrow> Schedule list \<Rightarrow> Schedule option" where
  "spec_find i ss = find (\<lambda>s. sched_id s = i) ss"

definition spec_change :: "uuid \<Rightarrow> (Schedule \<Rightarrow> Schedule) \<Rightarrow> ('m, Schedule) spec_action" where
  "spec_change i f a =
     (case spec_find i (spec_schedules a) of
        None \<Rightarrow> (a, Inl ''KeyError'')
      | Some s \<Rightarrow> (a\<lparr>spec_schedules := put_schedule (f s) (spec_schedules a)\<rparr>, Inr (f s)))"

definition spec_remove :: "uuid \<Rightarrow> ('m, bool) spec_action" where
  "spec_remove i a =
     (a\<lparr>spec_schedules := filter (\<lambda>s. sched_id s \<noteq> i) (spec_schedules a)\<rparr>, Inr (spec_find i (spec_schedules a) \<noteq> None))"

definition spec_submit :: "((string, pyval) dict \<Rightarrow> ('m, string, unit) action) option \<Rightarrow> (string, pyval) dict \<Rightarrow>
    ('m, unit) spec_action" where
  "spec_submit manager metadata a =
     (case manager of
        None \<Rightarrow> (a, Inr ())
      | Some submit \<Rightarrow> (let (m, r) = submit metadata (spec_jobs a) in (a\<lparr>spec_jobs := m\<rparr>, r)))"

fun spec_dispatch ::
  "((string, pyval) dict \<Rightarrow> ('m, string, unit) action) option \<Rightarrow> time \<Rightarrow> Schedule list \<Rightarrow>
   ('m, ExecutionResult list) spec_action" where
  "spec_dispatch manager now [] = returns []"
| "spec_dispatch manager now (s # ss) =
     (if \<not> due now s then spec_dispatch manager now ss
      else
        and_then (spec_submit manager (sched_metadata s)) (\<lambda>_.
        and_then (modify (\<lambda>a. a\<lparr>spec_schedules := put_schedule (dispatched now s) (spec_schedules a),
          spec_uuid := Suc (spec_uuid a)\<rparr>)) (\<lambda>_.
        and_then (spec_dispatch manager now ss) (\<lambda>rs.
        returns (dispatch_result s # rs)))))"

definition spec_register :: "time \<Rightarrow> ScheduleCreateRequest \<Rightarrow> ('m, Schedule) spec_action" where
  "spec_register now p a =
     (let start = (case create_start_at p of None \<Rightarrow> now | Some t \<Rightarrow> t); b = a\<lparr>spec_uuid := Suc (spec_uuid a)\<rparr>
      in case (kind_of_text (create_kind p), type_of_text (create_type p)) of
           (Inr k, Inr t) \<Rightarrow>
             (let s = \<lparr>sched_id = spec_uuid a, sched_name = create_name p, sched_kind = k, sched_type = t,
                    sched_enabled = create_enabled p, interval_seconds = create_interval p,
                    sched_start_at = Some start, next_run_at = Some (compute_next_run p start), last_run_at = None,
                    sched_created_at = now, sched_updated_at = now,
                    sched_state = (if create_enabled p then SCHEDULE_ACTIVE else SCHEDULE_DISABLED),
                    sched_metadata = create_metadata p\<rparr>
              in (b\<lparr>spec_schedules := spec_schedules a @ [s]\<rparr>, Inr s))
         | (Inl e, _) \<Rightarrow> (a, Inl e)
         | (_, Inl e) \<Rightarrow> (a, Inl e))"

section \<open>Calls\<close>

datatype schedule_call =
    Register time ScheduleCreateRequest
  | Update time uuid ScheduleUpdateRequest
  | Pause time uuid
  | Resume time uuid
  | Remove uuid
  | Dispatch time

datatype schedule_answer = Stored Schedule | Removed bool | Dispatched "ExecutionResult list"

definition answers :: "('s, string, 'a) action \<Rightarrow> ('a \<Rightarrow> 'b) \<Rightarrow> ('s, string, 'b) action" where
  "answers m f = and_then m (\<lambda>a. returns (f a))"

fun serve :: "('r, 'm) SchedulerService \<Rightarrow> schedule_call \<Rightarrow> ('r, 'm, schedule_answer) scheduling" where
  "serve sv (Register now p) = answers (register_schedule sv now p) Stored"
| "serve sv (Update now i p) = answers (update_schedule sv now i p) Stored"
| "serve sv (Pause now i) = answers (pause_schedule sv now i) Stored"
| "serve sv (Resume now i) = answers (resume_schedule sv now i) Stored"
| "serve sv (Remove i) = answers (on_store (delete_schedule (service_repository sv) i)) Removed"
| "serve sv (Dispatch now) = answers (dispatch_due_jobs sv now) Dispatched"

fun spec_serve ::
  "((string, pyval) dict \<Rightarrow> ('m, string, unit) action) option \<Rightarrow> schedule_call \<Rightarrow> ('m, schedule_answer) spec_action" where
  "spec_serve manager (Register now p) = answers (spec_register now p) Stored"
| "spec_serve manager (Update now i p) = answers (spec_change i (update_values now p)) Stored"
| "spec_serve manager (Pause now i) = answers (spec_change i (paused now)) Stored"
| "spec_serve manager (Resume now i) = answers (spec_change i (resumed now)) Stored"
| "spec_serve manager (Remove i) = answers (spec_remove i) Removed"
| "spec_serve manager (Dispatch now) =
     answers (\<lambda>a. spec_dispatch manager now (spec_schedules a) a) Dispatched"

text \<open>The identifiers handed out so far.\<close>

definition fresh_ids :: "'m schedule_spec \<Rightarrow> bool" where
  "fresh_ids a \<longleftrightarrow> (\<forall>s \<in> set (spec_schedules a). sched_id s < spec_uuid a)"

section \<open>Repositories\<close>

lemma find_put_schedule:
  "find (\<lambda>s. sched_id s = i) (put_schedule t ss) =
     (if sched_id t = i then map_option (\<lambda>_. t) (find (\<lambda>s. sched_id s = i) ss) else find (\<lambda>s. sched_id s = i) ss)"
  unfolding put_schedule_def by (induction ss) auto

lemma ids_put_schedule [simp]: "map sched_id (put_schedule t ss) = map sched_id ss"
  by (simp add: put_schedule_def)

lemma put_schedule_other: "s \<in> set ss \<Longrightarrow> sched_id s \<noteq> sched_id t \<Longrightarrow> s \<in> set (put_schedule t ss)"
  by (force simp: put_schedule_def)

text \<open>The abstract operations hand out new identifiers only.\<close>

lemma fresh_put [simp]:
  fixes a :: "'m schedule_spec"
  shows "fresh_ids (a\<lparr>spec_schedules := put_schedule s (spec_schedules a)\<rparr>) = fresh_ids a"
proof -
  have "sched_id (if sched_id t = sched_id s then s else t) = sched_id t" for t :: Schedule by simp
  then show ?thesis unfolding fresh_ids_def put_schedule_def by (simp del: if_image_distrib if_split)
qed

lemma spec_dispatch_fresh: "fresh_ids a \<Longrightarrow> fresh_ids (fst (spec_dispatch manager now ss a))"
proof (induction ss arbitrary: a)
  case (Cons s ss)
  let ?next = "\<lambda>b. b\<lparr>spec_schedules := put_schedule (dispatched now s) (spec_schedules b), spec_uuid := Suc (spec_uuid b)\<rparr>"
  obtain b r where b: "spec_submit manager (sched_metadata s) a = (b, r)" by fastforce
  then have same: "fresh_ids b"
    using Cons.prems by (auto simp: spec_submit_def fresh_ids_def split: option.splits prod.splits)
  then have "fresh_ids (b\<lparr>spec_schedules := put_schedule (dispatched now s) (spec_schedules b)\<rparr>)" by simp
  then have "fresh_ids (?next b)" by (auto simp: fresh_ids_def less_SucI)
  with Cons b same show ?case
    by (cases r) (auto simp: and_then_def case_prod_beta split: sum.split)
qed simp

lemma spec_serve_fresh: "fresh_ids a \<Longrightarrow> fresh_ids (fst (spec_serve manager c a))"
proof (cases c)
  case (Dispatch now)
  then show "fresh_ids a \<Longrightarrow> ?thesis"
    using spec_dispatch_fresh [of a manager now "spec_schedules a"]
    by (auto simp: answers_def and_then_def split: prod.split sum.split)
qed (auto simp: answers_def and_then_def spec_register_def spec_change_def spec_remove_def Let_def less_SucI
       fresh_ids_def [of "_\<lparr>spec_schedules := filter _ _\<rparr>"] fresh_ids_def [of "_\<lparr>spec_uuid := _\<rparr>"]
       fresh_ids_def [of "_\<lparr>spec_uuid := _, spec_schedules := _\<rparr>"] split: option.split sum.split, auto simp: fresh_ids_def)

section \<open>What is dispatched\<close>

definition accepting :: "((string, pyval) dict \<Rightarrow> ('m, string, unit) action) option \<Rightarrow> bool" where
  "accepting manager \<longleftrightarrow> (case manager of None \<Rightarrow> True | Some submit \<Rightarrow> \<forall>metadata m. snd (submit metadata m) = Inr ())"

definition advanced :: "time \<Rightarrow> Schedule \<Rightarrow> Schedule" where
  "advanced now s = (if due now s then dispatched now s else s)"

lemma sched_id_dispatched [simp]: "sched_id (dispatched now s) = sched_id s"
  by (simp add: dispatched_def)

lemma sched_id_advanced [simp]: "sched_id (advanced now s) = sched_id s"
  by (simp add: advanced_def dispatched_def)

lemma spec_submit_accepting:
  "accepting manager \<Longrightarrow> \<exists>m. spec_submit manager metadata a = (a\<lparr>spec_jobs := m\<rparr>, Inr ())"
  unfolding accepting_def spec_submit_def
  by (auto split: option.splits prod.split) (metis schedule_spec.surjective schedule_spec.update_convs(2), metis snd_conv)

lemma spec_dispatch_advances:
  assumes "accepting manager"
  shows "distinct (map sched_id (past @ todo)) \<Longrightarrow> spec_schedules a = past @ todo \<Longrightarrow>
    \<exists>b. spec_dispatch manager now todo a = (b, Inr (map dispatch_result (filter (due now) todo))) \<and>
        spec_schedules b = past @ map (advanced now) todo"
proof (induction todo arbitrary: past a)
  case (Cons s ss)
  show ?case
  proof (cases "due now s")
    case False
    with Cons.IH [of "past @ [s]" a] Cons.prems show ?thesis by (simp add: advanced_def)
  next
    case True
    obtain m where m: "spec_submit manager (sched_metadata s) a = (a\<lparr>spec_jobs := m\<rparr>, Inr ())"
      using spec_submit_accepting [OF assms] by blast
    have others: "map (\<lambda>t. if sched_id t = sched_id s then dispatched now s else t) ts = ts"
      if "sched_id s \<notin> sched_id ` set ts" for ts
      using that by (intro map_idI) (auto simp: image_iff)
    have put: "put_schedule (dispatched now s) (past @ s # ss) = past @ advanced now s # ss"
      using Cons.prems(1) True others [of past] others [of ss]
      by (auto simp: put_schedule_def advanced_def)
    define b where "b = a\<lparr>spec_jobs := m, spec_schedules := past @ advanced now s # ss, spec_uuid := Suc (spec_uuid a)\<rparr>"
    obtain c where "spec_dispatch manager now ss b = (c, Inr (map dispatch_result (filter (due now) ss)))"
        "spec_schedules c = (past @ [advanced now s]) @ map (advanced now) ss"
      using Cons.IH [of "past @ [advanced now s]" b] Cons.prems by (auto simp: b_def)
    with True m put Cons.prems(2) show ?thesis by (simp add: and_then_def modify_def b_def)
  qed
qed (simp add: returns_def)

text \<open>A recurring schedule with a usable interval is not due again at the instant it was dispatched.\<close>

lemma due_advanced:
  assumes "sched_type s = INTERVAL \<longrightarrow> 0 < interval_of (interval_seconds s)"
  shows "due now (advanced now s) \<longleftrightarrow> due now s \<and> sched_type s = ONE_TIME"
  using assms
  by (cases "sched_type s")
    (auto simp: advanced_def due_def dispatched_def compute_next_run_from_existing_def day_def split: option.splits)

locale schedule_repository =
  fixes repo :: "'r SchedulerRepository"
    and view :: "'r \<Rightarrow> Schedule list"
    and well :: "'r \<Rightarrow> bool"
  assumes view_distinct: "well r \<Longrightarrow> distinct (map sched_id (view r))"
    and list_law: "well r \<Longrightarrow> list_schedules repo r = Inr (view r)"
    and get_law: "well r \<Longrightarrow> get_schedule repo i r = Inr (spec_find i (view r))"
    and save_old: "well r \<Longrightarrow> spec_find (sched_id s) (view r) = Some t \<Longrightarrow> sched_created_at t = sched_created_at s \<Longrightarrow>
      \<exists>r'. save_schedule repo s r = (r', Inr s) \<and> well r' \<and> view r' = put_schedule s (view r)"
    and save_new: "well r \<Longrightarrow> spec_find (sched_id s) (view r) = None \<Longrightarrow>
      \<exists>r'. save_schedule repo s r = (r', Inr s) \<and> well r' \<and> view r' = view r @ [s]"
    and delete_law: "well r \<Longrightarrow> \<exists>r'. delete_schedule repo i r = (r', Inr (spec_find i (view r) \<noteq> None)) \<and>
      well r' \<and> view r' = filter (\<lambda>s. sched_id s \<noteq> i) (view r)"
    and append_law: "well r \<Longrightarrow> execution_schedule_id e \<in> set (map sched_id (view r)) \<Longrightarrow>
      \<exists>r'. append_execution repo e r = (r', Inr e) \<and> well r' \<and> view r' = view r"
begin

definition abstraction :: "('r, 'm) scheduler_state \<Rightarrow> 'm schedule_spec" where
  "abstraction x =
     \<lparr>spec_schedules = view (scheduler_store x), spec_jobs = scheduler_jobs x, spec_uuid = scheduler_uuid x\<rparr>"

definition refines :: "('r, 'm, 'a) scheduling \<Rightarrow> ('m, 'a) spec_action \<Rightarrow> bool" where
  "refines m spec \<longleftrightarrow> (\<forall>x. well (scheduler_store x) \<and> fresh_ids (abstraction x) \<longrightarrow>
     well (scheduler_store (fst (m x))) \<and> spec (abstraction x) = (abstraction (fst (m x)), snd (m x)))"

lemma find_in: "spec_find i ss = Some s \<Longrightarrow> s \<in> set ss \<and> sched_id s = i"
  by (auto simp: spec_find_def find_Some_iff)

lemma find_distinct:
  "distinct (map sched_id ss) \<Longrightarrow> s \<in> set ss \<Longrightarrow> spec_find (sched_id s) ss = Some s"
  unfolding spec_find_def by (induction ss) auto

lemma change_refines:
  fixes sv :: "('r, 'm) SchedulerService"
  assumes "\<And>s. sched_id (f s) = sched_id s \<and> sched_created_at (f s) = sched_created_at s"
    and "service_repository sv = repo"
  shows "refines (change_schedule sv i f) (spec_change i f)"
  unfolding refines_def
proof (intro allI impI)
  fix x :: "('r, 'm) scheduler_state" assume "well (scheduler_store x) \<and> fresh_ids (abstraction x)"
  then have well: "well (scheduler_store x)" by blast
  show "well (scheduler_store (fst (change_schedule sv i f x))) \<and>
    spec_change i f (abstraction x) = (abstraction (fst (change_schedule sv i f x)), snd (change_schedule sv i f x))"
  proof (cases "spec_find i (view (scheduler_store x))")
    case None
    then show ?thesis
      using well assms(2) by (simp add: change_schedule_def ask_store_def and_then_def get_law spec_change_def abstraction_def)
  next
    case (Some s)
    with find_in have id: "sched_id s = i" by blast
    obtain r' where "save_schedule repo (f s) (scheduler_store x) = (r', Inr (f s))" "well r'"
        "view r' = put_schedule (f s) (view (scheduler_store x))"
      using save_old [OF well, of "f s" s] Some id assms(1) by auto
    with Some show ?thesis
      using well assms(2)
      by (simp add: change_schedule_def ask_store_def and_then_def get_law spec_change_def abstraction_def on_store_def)
  qed
qed

lemma dispatch_refines:
  assumes "service_repository sv = repo"
  shows "well (scheduler_store x) \<Longrightarrow> distinct (map sched_id todo) \<Longrightarrow> set todo \<subseteq> set (view (scheduler_store x)) \<Longrightarrow>
    well (scheduler_store (fst (dispatch_all sv now todo x))) \<and>
    spec_dispatch (job_manager sv) now todo (abstraction x) =
      (abstraction (fst (dispatch_all sv now todo x)), snd (dispatch_all sv now todo x))"
proof (induction todo arbitrary: x)
  case (Cons s ss)
  show ?case
  proof (cases "due now s")
    case False
    with Cons show ?thesis by simp
  next
    case True
    obtain x1 a where submit: "submit_scheduled sv (sched_metadata s) x = (x1, a)" by fastforce
    have x1: "scheduler_store x1 = scheduler_store x"
        "spec_submit (job_manager sv) (sched_metadata s) (abstraction x) = (abstraction x1, a)"
      using submit by (auto simp: submit_scheduled_def spec_submit_def abstraction_def split: option.splits prod.splits)
    show ?thesis
    proof (cases a)
      case (Inl e)
      with True submit x1 Cons.prems(1) show ?thesis by (simp add: dispatch_one_def and_then_def)
    next
      case (Inr u)
      let ?e = "execution_of now (scheduler_uuid x1) s"
      have member: "s \<in> set (view (scheduler_store x))" using Cons.prems(3) by simp
      then obtain r1 where r1: "append_execution repo ?e (scheduler_store x) = (r1, Inr ?e)" "well r1"
          "view r1 = view (scheduler_store x)"
        using append_law [OF Cons.prems(1), of ?e] by (auto simp: execution_of_def)
      have found: "spec_find (sched_id (dispatched now s)) (view r1) = Some s"
        using find_distinct [OF view_distinct [OF r1(2)]] member r1(3) by (simp add: dispatched_def)
      obtain r2 where r2: "save_schedule repo (dispatched now s) r1 = (r2, Inr (dispatched now s))" "well r2"
          "view r2 = put_schedule (dispatched now s) (view (scheduler_store x))"
        using save_old [OF r1(2) found] r1(3) by (auto simp: dispatched_def)
      define x2 where "x2 = x1\<lparr>scheduler_uuid := Suc (scheduler_uuid x1), scheduler_store := r2\<rparr>"
      have one: "dispatch_one sv now s x = (x2, Inr (dispatch_result s))"
        using submit Inr r1(1) r2(1) assms x1(1)
        by (simp add: dispatch_one_def and_then_def fresh_uuid_def on_store_def x2_def)
      have "set ss \<subseteq> set (view r2)"
      proof
        fix t assume t: "t \<in> set ss"
        then have "sched_id t \<in> sched_id ` set ss" by simp
        then have "sched_id t \<noteq> sched_id (dispatched now s)" using Cons.prems(2) by (auto simp: dispatched_def)
        then show "t \<in> set (view r2)" using t Cons.prems(3) r2(3) put_schedule_other by auto
      qed
      then have rest: "well (scheduler_store (fst (dispatch_all sv now ss x2))) \<and>
          spec_dispatch (job_manager sv) now ss (abstraction x2) =
            (abstraction (fst (dispatch_all sv now ss x2)), snd (dispatch_all sv now ss x2))"
        using Cons.prems(2) r2(2) by (intro Cons.IH) (simp_all add: x2_def)
      have "(abstraction x1)\<lparr>spec_schedules := put_schedule (dispatched now s) (spec_schedules (abstraction x1)),
          spec_uuid := Suc (spec_uuid (abstraction x1))\<rparr> = abstraction x2"
        using r2(3) x1(1) by (simp add: abstraction_def x2_def)
      then show ?thesis
        using True Inr one x1(2) rest
        by (cases "dispatch_all sv now ss x2") (auto simp: and_then_def split: sum.splits)
    qed
  qed
qed simp

lemma remove_refines: "refines (on_store (delete_schedule repo i)) (spec_remove i)"
  unfolding refines_def
proof (intro allI impI)
  fix x :: "('r, 'm) scheduler_state" assume "well (scheduler_store x) \<and> fresh_ids (abstraction x)"
  then obtain r' where "delete_schedule repo i (scheduler_store x) =
      (r', Inr (spec_find i (view (scheduler_store x)) \<noteq> None))" "well r'"
      "view r' = filter (\<lambda>s. sched_id s \<noteq> i) (view (scheduler_store x))"
    using delete_law by blast
  then show "well (scheduler_store (fst (on_store (delete_schedule repo i) x))) \<and>
      spec_remove i (abstraction x) =
        (abstraction (fst (on_store (delete_schedule repo i) x)), snd (on_store (delete_schedule repo i) x))"
    by (simp add: on_store_def spec_remove_def abstraction_def)
qed

lemma register_refines:
  fixes sv :: "('r, 'm) SchedulerService"
  assumes "service_repository sv = repo"
  shows "refines (register_schedule sv now p) (spec_register now p)"
  unfolding refines_def
proof (intro allI impI)
  fix x :: "('r, 'm) scheduler_state" assume x: "well (scheduler_store x) \<and> fresh_ids (abstraction x)"
  define start where "start = (case create_start_at p of None \<Rightarrow> now | Some t \<Rightarrow> t)"
  define new where "new = (\<lambda>k t. \<lparr>sched_id = scheduler_uuid x, sched_name = create_name p, sched_kind = k, sched_type = t,
    sched_enabled = create_enabled p, interval_seconds = create_interval p, sched_start_at = Some start,
    next_run_at = Some (compute_next_run p start), last_run_at = None, sched_created_at = now, sched_updated_at = now,
    sched_state = (if create_enabled p then SCHEDULE_ACTIVE else SCHEDULE_DISABLED),
    sched_metadata = create_metadata p\<rparr>)"
  have "spec_find (scheduler_uuid x) (view (scheduler_store x)) = None"
    using x by (auto simp: spec_find_def find_None_iff fresh_ids_def abstraction_def)
  then have save: "\<exists>r'. save_schedule repo (new k t) (scheduler_store x) = (r', Inr (new k t)) \<and> well r' \<and>
      view r' = view (scheduler_store x) @ [new k t]" for k t
    using save_new [of "scheduler_store x" "new k t"] x by (simp add: new_def)
  show "well (scheduler_store (fst (register_schedule sv now p x))) \<and>
      spec_register now p (abstraction x) =
        (abstraction (fst (register_schedule sv now p x)), snd (register_schedule sv now p x))"
  proof (cases "kind_of_text (create_kind p)")
    case (Inl e)
    then show ?thesis
      using x by (simp add: register_schedule_def spec_register_def Let_def and_then_def fresh_uuid_def abstraction_def)
  next
    case (Inr k)
    show ?thesis
    proof (cases "type_of_text (create_type p)")
      case (Inl e)
      with Inr x show ?thesis
        by (simp add: register_schedule_def spec_register_def Let_def and_then_def fresh_uuid_def abstraction_def)
    next
      case t: (Inr t)
      from save [of k t] obtain r' where r': "save_schedule repo (new k t) (scheduler_store x) = (r', Inr (new k t))"
        "well r'" "view r' = view (scheduler_store x) @ [new k t]" by blast
      with Inr t assms show ?thesis
        by (simp add: register_schedule_def spec_register_def Let_def and_then_def fresh_uuid_def abstraction_def
            on_store_def new_def start_def)
    qed
  qed
qed

lemma answers_refines: "refines m spec \<Longrightarrow> refines (answers m f) (answers spec f)"
  unfolding refines_def answers_def and_then_def
  by (force split: prod.split sum.split)

lemma serve_refines:
  fixes sv :: "('r, 'm) SchedulerService"
  assumes "service_repository sv = repo"
  shows "refines (serve sv c) (spec_serve (job_manager sv) c)"
proof (cases c)
  case (Dispatch now)
  have "refines (dispatch_due_jobs sv now) (\<lambda>a. spec_dispatch (job_manager sv) now (spec_schedules a) a)"
    unfolding refines_def
  proof (intro allI impI)
    fix x :: "('r, 'm) scheduler_state" assume x: "well (scheduler_store x) \<and> fresh_ids (abstraction x)"
    have "dispatch_due_jobs sv now x = dispatch_all sv now (view (scheduler_store x)) x"
      using x assms by (simp add: dispatch_due_jobs_def and_then_def ask_store_def list_law)
    with dispatch_refines [OF assms, of x "view (scheduler_store x)" now] x view_distinct
    show "well (scheduler_store (fst (dispatch_due_jobs sv now x))) \<and>
      spec_dispatch (job_manager sv) now (spec_schedules (abstraction x)) (abstraction x) =
        (abstraction (fst (dispatch_due_jobs sv now x)), snd (dispatch_due_jobs sv now x))"
      by (simp add: abstraction_def)
  qed
  with Dispatch show ?thesis by (simp add: answers_refines)
next
  case (Remove i)
  then show ?thesis by (simp add: assms answers_refines remove_refines)
qed (use assms in \<open>auto simp: update_schedule_def pause_schedule_def resume_schedule_def update_values_def paused_def
      resumed_def intro!: answers_refines register_refines change_refines\<close>)

lemma serve_all_refines:
  assumes "service_repository sv = repo" and "well (scheduler_store x)" and "fresh_ids (abstraction x)"
  shows "well (scheduler_store (fst (serve_all (serve sv) cs x))) \<and>
    serve_all (spec_serve (job_manager sv)) cs (abstraction x) =
      (abstraction (fst (serve_all (serve sv) cs x)), snd (serve_all (serve sv) cs x))"
  using assms(2,3)
proof (induction cs arbitrary: x)
  case (Cons c cs)
  obtain y r where y: "serve sv c x = (y, r)" by fastforce
  then have one: "well (scheduler_store y)" "spec_serve (job_manager sv) c (abstraction x) = (abstraction y, r)"
    using serve_refines [OF assms(1), of c] Cons.prems unfolding refines_def by fastforce+
  then have "fresh_ids (abstraction y)" using spec_serve_fresh [OF Cons.prems(2)] by (metis fst_conv)
  with Cons.IH [OF one(1)] one y show ?case by (simp add: Let_def case_prod_beta)
qed simp

lemma dispatch_advances:
  fixes sv :: "('r, 'm) SchedulerService"
  assumes "service_repository sv = repo" and "accepting (job_manager sv)" and "well (scheduler_store x)"
  obtains y where "dispatch_due_jobs sv now x =
        (y, Inr (map dispatch_result (filter (due now) (view (scheduler_store x)))))"
    and "well (scheduler_store y)" and "view (scheduler_store y) = map (advanced now) (view (scheduler_store x))"
proof -
  obtain b where b: "spec_dispatch (job_manager sv) now (view (scheduler_store x)) (abstraction x) =
        (b, Inr (map dispatch_result (filter (due now) (view (scheduler_store x)))))"
      "spec_schedules b = map (advanced now) (view (scheduler_store x))"
    using spec_dispatch_advances [OF assms(2), of "[]" "view (scheduler_store x)" "abstraction x" now]
      view_distinct [OF assms(3)] by (auto simp: abstraction_def)
  have run: "dispatch_due_jobs sv now x = dispatch_all sv now (view (scheduler_store x)) x"
    using assms by (simp add: dispatch_due_jobs_def and_then_def ask_store_def list_law)
  obtain y r where y: "dispatch_all sv now (view (scheduler_store x)) x = (y, r)" by fastforce
  show ?thesis
    using that [of y] run y b dispatch_refines [OF assms(1,3), of "view (scheduler_store x)" now] view_distinct [OF assms(3)]
    by (auto simp: abstraction_def)
qed

end

section \<open>Both repositories keep the laws\<close>

definition memory_well :: "memory_store \<Rightarrow> bool" where
  "memory_well m \<longleftrightarrow> dict_ok (memory_schedules m) \<and> (\<forall>(i, s) \<in> set (memory_schedules m). sched_id s = i)"

lemma memory_ids: "memory_well m \<Longrightarrow> map sched_id (dict_values (memory_schedules m)) = dict_keys (memory_schedules m)"
  by (auto simp: memory_well_def dict_values_def dict_keys_def)

lemma memory_find:
  assumes "memory_well m"
  shows "spec_find i (dict_values (memory_schedules m)) = dict_get (memory_schedules m) i"
proof -
  have "spec_find i (dict_values d) = dict_get d i" if "\<forall>(k, s) \<in> set d. sched_id s = k" for d
    using that unfolding spec_find_def dict_values_def dict_get_def by (induction d) auto
  with assms show ?thesis by (simp add: memory_well_def)
qed

lemma dict_set_values:
  "dict_ok d \<Longrightarrow> \<forall>(k, s) \<in> set d. sched_id s = k \<Longrightarrow> sched_id s = i \<Longrightarrow> i \<in> set (dict_keys d) \<Longrightarrow>
   dict_values (dict_set i s d) = put_schedule s (dict_values d)"
proof (induction i s d rule: dict_set.induct)
  case (2 k v k' v' d)
  show ?case
  proof (cases "k = k'")
    case True
    have "sched_id t \<noteq> k" if "t \<in> set (map snd d)" for t
      using 2 True that by (auto simp: dict_ok_def dict_keys_def image_iff) fastforce
    then have "map (\<lambda>t. if sched_id t = k then v else t) (map snd d) = map snd d"
      by (intro map_idI) auto
    with True 2 show ?thesis by (simp add: dict_values_def put_schedule_def comp_def)
  next
    case False
    with 2 show ?thesis by (simp add: dict_values_def put_schedule_def dict_ok_def dict_keys_def)
  qed
qed (simp add: dict_keys_def)

lemma entries_dict_set: "(k, v) \<in> set (dict_set i s d) \<Longrightarrow> (k, v) = (i, s) \<or> (k, v) \<in> set d"
  by (induction i s d rule: dict_set.induct) (auto split: if_splits)

lemma memory_put_well: "memory_well m \<Longrightarrow> memory_well (m\<lparr>memory_schedules := dict_set (sched_id s) s (memory_schedules m)\<rparr>)"
  by (auto simp: memory_well_def dict_ok_set dest!: entries_dict_set)

interpretation memory_repository: schedule_repository InMemorySchedulerRepository "\<lambda>m. dict_values (memory_schedules m)" memory_well
proof unfold_locales
  fix m and s t :: Schedule
  assume well: "memory_well m"
  show "distinct (map sched_id (dict_values (memory_schedules m)))"
    using well memory_ids by (simp add: memory_well_def dict_ok_def dict_keys_def)
  have keys: "spec_find (sched_id s) (dict_values (memory_schedules m)) = None \<longleftrightarrow> sched_id s \<notin> set (dict_keys (memory_schedules m))"
    using memory_find [OF well] by (simp add: dict_get_None_iff)
  show "\<exists>r'. save_schedule InMemorySchedulerRepository s m = (r', Inr s) \<and> memory_well r' \<and>
      dict_values (memory_schedules r') = put_schedule s (dict_values (memory_schedules m))"
    if "spec_find (sched_id s) (dict_values (memory_schedules m)) = Some t"
    using that well keys memory_put_well [OF well]
    by (auto simp: InMemorySchedulerRepository_def memory_save_def memory_well_def intro!: dict_set_values)
  show "\<exists>r'. save_schedule InMemorySchedulerRepository s m = (r', Inr s) \<and> memory_well r' \<and>
      dict_values (memory_schedules r') = dict_values (memory_schedules m) @ [s]"
    if "spec_find (sched_id s) (dict_values (memory_schedules m)) = None"
    using that keys memory_put_well [OF well, of s]
    by (simp add: InMemorySchedulerRepository_def memory_save_def dict_set_new dict_values_def)
next
  fix m i assume well: "memory_well m"
  have "dict_values (dict_pop i d) = filter (\<lambda>s. sched_id s \<noteq> i) (dict_values d)" if "\<forall>(k, s) \<in> set d. sched_id s = k" for d
    using that unfolding dict_values_def dict_pop_def by (induction d) auto
  then show "\<exists>r'. delete_schedule InMemorySchedulerRepository i m = (r', Inr (spec_find i (dict_values (memory_schedules m)) \<noteq> None)) \<and>
      memory_well r' \<and> dict_values (memory_schedules r') = filter (\<lambda>s. sched_id s \<noteq> i) (dict_values (memory_schedules m))"
    using well memory_find [OF well]
    by (auto simp: InMemorySchedulerRepository_def memory_delete_def memory_well_def dict_ok_pop) (auto simp: dict_pop_def)
qed (simp_all add: InMemorySchedulerRepository_def memory_find memory_well_def)

text \<open>A row and its schedule determine each other.\<close>

lemma enum_round_trip [simp]:
  "kind_of_text (schedule_kind_value k) = Inr k" "type_of_text (schedule_type_value t) = Inr t"
  "state_of_text (schedule_state_value st) = Inr st"
  subgoal by (cases k) (simp_all add: kind_of_text_def enum_of_def)
  subgoal by (cases t) (simp_all add: type_of_text_def enum_of_def)
  subgoal by (cases st) (simp_all add: state_of_text_def enum_of_def)
  done

lemma row_round_trip: "to_schedule (row_of_schedule created s) = Inr (s\<lparr>sched_created_at := created\<rparr>)"
  by (simp add: to_schedule_def row_of_schedule_def)

lemma created_same [simp]: "s\<lparr>sched_created_at := sched_created_at s\<rparr> = s"
  by simp

definition row_of :: "Schedule \<Rightarrow> ScheduleRecord" where
  "row_of s = row_of_schedule (sched_created_at s) s"

definition sql_view :: "schedule_tables \<Rightarrow> Schedule list" where
  "sql_view t = (case all_ok (map to_schedule (schedule_rows t)) of Inr ss \<Rightarrow> ss | Inl _ \<Rightarrow> [])"

definition sql_well :: "schedule_tables \<Rightarrow> bool" where
  "sql_well t \<longleftrightarrow> schedule_rows t = map row_of (sql_view t) \<and> distinct (map sched_id (sql_view t))"

lemma to_schedule_row_of [simp]: "to_schedule (row_of s) = Inr s"
  by (simp add: row_of_def row_round_trip)

lemma srow_id_row_of [simp]: "srow_id (row_of s) = sched_id s"
  by (simp add: row_of_def row_of_schedule_def)

lemma all_ok_rows: "all_ok (map to_schedule (map row_of ss)) = Inr ss"
  by (induction ss) simp_all

lemma sql_viewI: "schedule_rows t = map row_of ss \<Longrightarrow> sql_view t = ss"
  using all_ok_rows [of ss] by (simp add: sql_view_def)

lemma sql_first_row: "sql_first (\<lambda>r. srow_id r = i) (map row_of ss) = map_option row_of (spec_find i ss)"
  unfolding sql_first_def spec_find_def by (induction ss) auto

interpretation sql_repository: schedule_repository SQLAlchemySchedulerRepository sql_view sql_well
proof unfold_locales
  fix r i assume well: "sql_well r"
  then have rows: "schedule_rows r = map row_of (sql_view r)" and ids: "distinct (map sched_id (sql_view r))"
    by (simp_all add: sql_well_def)
  show "distinct (map sched_id (sql_view r))" by (rule ids)
  show "list_schedules SQLAlchemySchedulerRepository r = Inr (sql_view r)"
    using all_ok_rows rows by (simp add: SQLAlchemySchedulerRepository_def)
  show "get_schedule SQLAlchemySchedulerRepository i r = Inr (spec_find i (sql_view r))"
    by (simp add: SQLAlchemySchedulerRepository_def sql_get_def rows sql_first_row split: option.split)
  show "\<exists>r'. delete_schedule SQLAlchemySchedulerRepository i r = (r', Inr (spec_find i (sql_view r) \<noteq> None)) \<and>
      sql_well r' \<and> sql_view r' = filter (\<lambda>s. sched_id s \<noteq> i) (sql_view r)"
  proof (cases "spec_find i (sql_view r)")
    case None
    then have "filter (\<lambda>s. sched_id s \<noteq> i) (sql_view r) = sql_view r"
      by (auto simp: spec_find_def find_None_iff filter_id_conv)
    with None well show ?thesis
      by (simp add: SQLAlchemySchedulerRepository_def sql_delete_schedule_def rows sql_first_row)
  next
    case (Some s)
    let ?r = "r\<lparr>schedule_rows := sql_delete (\<lambda>r. srow_id r = i) (schedule_rows r),
        execution_rows := sql_delete (\<lambda>e. execution_schedule_id e = i) (execution_rows r)\<rparr>"
    have new: "schedule_rows ?r = map row_of (filter (\<lambda>s. sched_id s \<noteq> i) (sql_view r))"
      by (simp add: rows sql_delete_def filter_map comp_def)
    note view = sql_viewI [OF new]
    have "sql_well ?r" unfolding sql_well_def view new using ids by (simp add: distinct_map_filter)
    with view Some show ?thesis
      by (simp add: SQLAlchemySchedulerRepository_def sql_delete_schedule_def rows sql_first_row)
  qed
  fix s t :: Schedule
  show "\<exists>r'. save_schedule SQLAlchemySchedulerRepository s r = (r', Inr s) \<and> sql_well r' \<and>
      sql_view r' = put_schedule s (sql_view r)"
    if found: "spec_find (sched_id s) (sql_view r) = Some t" and born: "sched_created_at t = sched_created_at s"
  proof -
    let ?r = "r\<lparr>schedule_rows := sql_update (\<lambda>q. srow_id q = sched_id s) (\<lambda>_. row_of s) (schedule_rows r)\<rparr>"
    have created: "srow_created_at (row_of t) = sched_created_at s" using born by (simp add: row_of_def row_of_schedule_def)
    have new: "schedule_rows ?r = map row_of (put_schedule s (sql_view r))"
      by (simp add: rows sql_update_def put_schedule_def)
    note view = sql_viewI [OF new]
    have "sql_well ?r" unfolding sql_well_def view new using ids by simp
    moreover have "sql_save s r = (?r, Inr s)"
      using found created by (simp add: sql_save_def rows sql_first_row row_of_def [symmetric])
    ultimately show ?thesis using view by (simp add: SQLAlchemySchedulerRepository_def)
  qed
  show "\<exists>r'. save_schedule SQLAlchemySchedulerRepository s r = (r', Inr s) \<and> sql_well r' \<and>
      sql_view r' = sql_view r @ [s]"
    if free: "spec_find (sched_id s) (sql_view r) = None"
  proof -
    let ?r = "r\<lparr>schedule_rows := schedule_rows r @ [row_of s]\<rparr>"
    have new: "schedule_rows ?r = map row_of (sql_view r @ [s])" by (simp add: rows)
    note view = sql_viewI [OF new]
    have "sql_well ?r"
      unfolding sql_well_def view new using ids free by (auto simp: spec_find_def find_None_iff)
    moreover have "sql_save s r = (?r, Inr s)"
      using free by (simp add: sql_save_def rows sql_first_row row_of_def [symmetric])
    ultimately show ?thesis using view by (simp add: SQLAlchemySchedulerRepository_def)
  qed
next
  fix r and e :: ScheduleExecution
  assume well: "sql_well r" and known: "execution_schedule_id e \<in> set (map sched_id (sql_view r))"
  let ?r = "r\<lparr>execution_rows := execution_rows r @ [e]\<rparr>"
  have view: "sql_view ?r = sql_view r" by (simp add: sql_view_def)
  have "sql_well ?r" using well by (simp add: sql_well_def view)
  moreover have "set (map srow_id (schedule_rows r)) = set (map sched_id (sql_view r))"
    using well by (simp add: sql_well_def image_image)
  ultimately show "\<exists>r'. append_execution SQLAlchemySchedulerRepository e r = (r', Inr e) \<and> sql_well r' \<and> sql_view r' = sql_view r"
    using view known by (simp add: SQLAlchemySchedulerRepository_def sql_append_def)
qed

section \<open>The scheduler meets its specification\<close>


text \<open>A store for the witnesses: a daily schedule that is due, one that is not, and a single run.\<close>

definition sample_schedule :: "uuid \<Rightarrow> ScheduleType \<Rightarrow> time \<Rightarrow> Schedule" where
  "sample_schedule i t next =
     \<lparr>sched_id = i, sched_name = ''nightly'', sched_kind = KIND_DISCOVERY, sched_type = t, sched_enabled = True,
      interval_seconds = None, sched_start_at = None, next_run_at = Some next, last_run_at = None,
      sched_created_at = 0, sched_updated_at = 0, sched_state = SCHEDULE_ACTIVE, sched_metadata = []\<rparr>"

definition sample_schedules :: "Schedule list" where
  "sample_schedules = [sample_schedule 1 DAILY 5, sample_schedule 2 INTERVAL 50, sample_schedule 3 ONE_TIME 10]"

definition sample_tables :: schedule_tables where
  "sample_tables = \<lparr>schedule_rows = map row_of sample_schedules, execution_rows = []\<rparr>"

lemma sample_view [simp]: "sql_view sample_tables = sample_schedules"
  by (rule sql_viewI) (simp add: sample_tables_def)

lemma sample_well [simp]: "sql_well sample_tables"
  unfolding sql_well_def sample_view by (simp add: sample_tables_def sample_schedules_def sample_schedule_def)


lemma dispatch_result_advanced [simp]: "dispatch_result (advanced now s) = dispatch_result s"
  by (simp add: dispatch_result_def advanced_def dispatched_def)



text \<open>An update that does not mention \<open>enabled\<close> marks a paused schedule active though it never runs.\<close>

lemma update_marks_paused_active:
  "sched_state (update_values now \<lparr>update_name = Some ''n'', update_enabled = None\<rparr> (paused t s)) = SCHEDULE_ACTIVE \<and>
   \<not> due later (update_values now \<lparr>update_name = Some ''n'', update_enabled = None\<rparr> (paused t s))"
  by (simp add: update_values_def paused_def due_def)

end
