(* ===== verification/Resilient_Cache.thy ===== *)
theory Resilient_Cache
  imports Actions Py_Numbers
begin

text \<open>
  The cache (\<^verbatim>\<open>cache/redis.py\<close>): the in-memory cache with expiry, the Redis cache over a client that may
  raise at any call, the wrapper that falls back to memory for good, and the decorator that caches the
  results of a function. The Redis client is a parameter with the commands of a backend.
\<close>

section \<open>Backends\<close>

text \<open>Every operation reads the clock once; values are the stored bytes.\<close>

record ('s, 'v) CacheBackend =
  cache_get :: "time \<Rightarrow> string \<Rightarrow> ('s, string, 'v option) action"
  cache_set :: "time \<Rightarrow> string \<Rightarrow> 'v \<Rightarrow> int option \<Rightarrow> ('s, string, unit) action"
  cache_delete :: "string \<Rightarrow> ('s, string, unit) action"
  cache_clear :: "('s, string, unit) action"

definition build_cache_key :: "string \<Rightarrow> string list \<Rightarrow> string" where
  "build_cache_key namespace parts = join_with '':'' (namespace # parts)"

subsection \<open>In memory\<close>

type_synonym 'v cache_items = "(string, 'v \<times> time option) dict"

definition expired :: "time \<Rightarrow> time option \<Rightarrow> bool" where
  "expired now expires_at = (case expires_at of None \<Rightarrow> False | Some t \<Rightarrow> now \<ge> t)"

definition expiry :: "time \<Rightarrow> int option \<Rightarrow> time option" where
  "expiry now ttl = map_option (\<lambda>n. now + n * 1000000) ttl"

definition memory_get :: "time \<Rightarrow> string \<Rightarrow> ('v cache_items, string, 'v option) action" where
  "memory_get now k items =
     (case dict_get items k of
        None \<Rightarrow> (items, Inr None)
      | Some (payload, expires_at) \<Rightarrow>
          if expired now expires_at then (dict_pop k items, Inr None) else (items, Inr (Some payload)))"

definition memory_set :: "time \<Rightarrow> string \<Rightarrow> 'v \<Rightarrow> int option \<Rightarrow> ('v cache_items, string, unit) action" where
  "memory_set now k v ttl items = (dict_set k (v, expiry now ttl) items, Inr ())"

definition InMemoryCache :: "('v cache_items, 'v) CacheBackend" where
  "InMemoryCache = \<lparr>cache_get = memory_get, cache_set = memory_set,
     cache_delete = (\<lambda>k items. (dict_pop k items, Inr ())), cache_clear = (\<lambda>_. ([], Inr ()))\<rparr>"

subsection \<open>Redis\<close>

definition redis_key :: "string \<Rightarrow> string \<Rightarrow> string" where
  "redis_key key_prefix k = build_cache_key key_prefix [k]"

definition RedisCache :: "string \<Rightarrow> ('c, 'v) CacheBackend \<Rightarrow> ('c, 'v) CacheBackend" where
  "RedisCache key_prefix client =
     \<lparr>cache_get = (\<lambda>now k. cache_get client now (redis_key key_prefix k)),
      cache_set = (\<lambda>now k. cache_set client now (redis_key key_prefix k)),
      cache_delete = (\<lambda>k. cache_delete client (redis_key key_prefix k)),
      cache_clear = cache_clear client\<rparr>"

subsection \<open>Falling back\<close>

record ('p, 'f) resilient_store =
  primary_store :: 'p
  fallback_store :: 'f
  degraded :: bool

definition on_fallback :: "('f, string, 'a) action \<Rightarrow> (('p, 'f) resilient_store, string, 'a) action" where
  "on_fallback m x = (let (f, r) = m (fallback_store x) in (x\<lparr>fallback_store := f\<rparr>, r))"

definition resilient_call ::
  "('p, string, 'a) action \<Rightarrow> ('f, string, 'a) action \<Rightarrow> (('p, 'f) resilient_store, string, 'a) action" where
  "resilient_call primary fallback x =
     (if degraded x then on_fallback fallback x
      else case primary (primary_store x) of
             (p, Inr a) \<Rightarrow> (x\<lparr>primary_store := p\<rparr>, Inr a)
           | (p, Inl e) \<Rightarrow> on_fallback fallback (x\<lparr>primary_store := p, degraded := True\<rparr>))"

definition ResilientCache ::
  "('p, 'v) CacheBackend \<Rightarrow> ('f, 'v) CacheBackend \<Rightarrow> (('p, 'f) resilient_store, 'v) CacheBackend" where
  "ResilientCache p f =
     \<lparr>cache_get = (\<lambda>now k. resilient_call (cache_get p now k) (cache_get f now k)),
      cache_set = (\<lambda>now k v ttl. resilient_call (cache_set p now k v ttl) (cache_set f now k v ttl)),
      cache_delete = (\<lambda>k. resilient_call (cache_delete p k) (cache_delete f k)),
      cache_clear = resilient_call (cache_clear p) (cache_clear f)\<rparr>"

definition build_cache_backend ::
  "string \<Rightarrow> string \<Rightarrow> ('c, 'v) CacheBackend \<Rightarrow>
   ('v cache_items, 'v) CacheBackend + (('c, 'v cache_items) resilient_store, 'v) CacheBackend" where
  "build_cache_backend redis_url key_prefix client =
     (if redis_url = [] then Inl InMemoryCache else Inr (ResilientCache (RedisCache key_prefix client) InMemoryCache))"

subsection \<open>Caching the results of a function\<close>

definition on_left :: "('s, string, 'a) action \<Rightarrow> ('s \<times> 'w, string, 'a) action" where
  "on_left m x = (let (s, r) = m (fst x) in ((s, snd x), r))"

definition on_right :: "('w, string, 'a) action \<Rightarrow> ('s \<times> 'w, string, 'a) action" where
  "on_right m x = (let (w, r) = m (snd x) in ((fst x, w), r))"

record ('a, 'r, 'v) cached_function =
  key_builder :: "'a \<Rightarrow> string"
  ttl_seconds :: "int option"
  dumps :: "'r \<Rightarrow> 'v"
  loads :: "'v \<Rightarrow> string + 'r"

definition cache_result ::
  "('s, 'v) CacheBackend \<Rightarrow> ('a, 'r, 'v) cached_function \<Rightarrow> ('a \<Rightarrow> ('w, string, 'r) action) \<Rightarrow>
   time \<Rightarrow> time \<Rightarrow> 'a \<Rightarrow> ('s \<times> 'w, string, 'r) action" where
  "cache_result cache c func asked stored a =
     (let k = key_builder c a
      in and_then (on_left (cache_get cache asked k)) (\<lambda>cached.
         case cached of
           Some v \<Rightarrow> (\<lambda>x. (x, loads c v))
         | None \<Rightarrow>
             and_then (on_right (func a)) (\<lambda>result.
             and_then (on_left (cache_set cache stored k (dumps c result) (ttl_seconds c))) (\<lambda>_. returns result))))"

section \<open>The reference: a map of entries\<close>

type_synonym 'v entries = "string \<Rightarrow> ('v \<times> time option) option"

definition live :: "time \<Rightarrow> ('v \<times> time option) option \<Rightarrow> 'v option" where
  "live now e = (case e of None \<Rightarrow> None | Some (v, t) \<Rightarrow> if expired now t then None else Some v)"

datatype 'v cache_call = Get time string | Set time string 'v "int option" | Delete string | Clear

fun cache_serve :: "('s, 'v) CacheBackend \<Rightarrow> 'v cache_call \<Rightarrow> ('s, string, 'v option) action" where
  "cache_serve b (Get now k) = cache_get b now k"
| "cache_serve b (Set now k v ttl) = and_then (cache_set b now k v ttl) (\<lambda>_. returns None)"
| "cache_serve b (Delete k) = and_then (cache_delete b k) (\<lambda>_. returns None)"
| "cache_serve b Clear = and_then (cache_clear b) (\<lambda>_. returns None)"

fun cache_model :: "'v cache_call \<Rightarrow> 'v entries \<Rightarrow> 'v entries" where
  "cache_model (Get now k) m = m"
| "cache_model (Set now k v ttl) m = m(k \<mapsto> (v, expiry now ttl))"
| "cache_model (Delete k) m = m(k := None)"
| "cache_model Clear m = Map.empty"

fun call_time :: "'v cache_call \<Rightarrow> time option" where
  "call_time (Get now k) = Some now"
| "call_time (Set now k v ttl) = Some now"
| "call_time _ = None"

lemma live_mono: "m \<subseteq>\<^sub>m m' \<Longrightarrow> live now (m k) = Some v \<Longrightarrow> live now (m' k) = Some v"
  by (auto simp: live_def map_le_def dom_def split: option.splits)

text \<open>
  What a cached function relies on: its coding reads back what it wrote, and arguments that share a key
  share the result.
\<close>

definition caches :: "('a, 'r, 'v) cached_function \<Rightarrow> ('a \<Rightarrow> 'r) \<Rightarrow> bool" where
  "caches c f \<longleftrightarrow> (\<forall>a. loads c (dumps c (f a)) = Inr (f a)) \<and> (\<forall>a b. key_builder c a = key_builder c b \<longrightarrow> f a = f b)"

definition own_entries :: "('a, 'r, 'v) cached_function \<Rightarrow> ('a \<Rightarrow> 'r) \<Rightarrow> 'v entries \<Rightarrow> bool" where
  "own_entries c f m \<longleftrightarrow> (\<forall>k v t a. m k = Some (v, t) \<longrightarrow> k = key_builder c a \<longrightarrow> loads c v = Inr (f a))"

section \<open>Backends that forget but never invent\<close>

text \<open>\<open>holds s m\<close>: what the store would answer is in \<open>m\<close>. Nothing is promised of a call that raises.\<close>

locale cache_backend =
  fixes backend :: "('s, 'v) CacheBackend" and holds :: "'s \<Rightarrow> 'v entries \<Rightarrow> bool"
  assumes weaken: "holds s m \<Longrightarrow> m \<subseteq>\<^sub>m m' \<Longrightarrow> holds s m'"
    and get_law: "holds s m \<Longrightarrow> cache_get backend now k s = (s', Inr a) \<Longrightarrow>
      holds s' m \<and> (\<forall>v. a = Some v \<longrightarrow> live now (m k) = Some v)"
    and set_law: "holds s m \<Longrightarrow> cache_set backend now k v ttl s = (s', Inr u) \<Longrightarrow> holds s' (m(k \<mapsto> (v, expiry now ttl)))"
    and delete_law: "holds s m \<Longrightarrow> cache_delete backend k s = (s', Inr u) \<Longrightarrow> holds s' (m(k := None))"
    and clear_law: "holds s m \<Longrightarrow> cache_clear backend s = (s', Inr u) \<Longrightarrow> holds s' Map.empty"
begin

lemma serve_law:
  "holds s m \<Longrightarrow> cache_serve backend c s = (s', Inr a) \<Longrightarrow>
   holds s' (cache_model c m) \<and> (\<forall>now k v. c = Get now k \<longrightarrow> a = Some v \<longrightarrow> live now (m k) = Some v)"
  by (cases c) (auto simp: and_then_Inr dest: get_law set_law delete_law clear_law)

end

locale total_cache = cache_backend +
  assumes get_total: "is_ok (snd (cache_get backend now k s))"
    and set_total: "is_ok (snd (cache_set backend now k v ttl s))"
    and delete_total: "is_ok (snd (cache_delete backend k s))"
    and clear_total: "is_ok (snd (cache_clear backend s))"
begin

lemma serve_total: "is_ok (snd (cache_serve backend c s))"
proof (cases c)
  case (Set now k v ttl)
  with set_total [of now k v ttl s] show ?thesis by (auto simp: and_then_def is_ok_iff split: prod.split)
next
  case (Delete k)
  with delete_total [of k s] show ?thesis by (auto simp: and_then_def is_ok_iff split: prod.split)
next
  case Clear
  with clear_total [of s] show ?thesis by (auto simp: and_then_def is_ok_iff split: prod.split)
qed (simp add: get_total)

text \<open>Every answer is in the reference.\<close>

lemma serve_all_sound:
  "holds s m \<Longrightarrow> i < length cs \<Longrightarrow>
   \<exists>a. snd (serve_all (cache_serve backend) cs s) ! i = Inr a \<and>
     (\<forall>now k v. cs ! i = Get now k \<longrightarrow> a = Some v \<longrightarrow> live now (fold cache_model (take i cs) m k) = Some v)"
proof (induction cs arbitrary: s m i)
  case (Cons c cs)
  obtain s' a where one: "cache_serve backend c s = (s', Inr a)" using serve_total is_ok_snd by blast
  note law = serve_law [OF Cons.prems(1) one]
  show ?case
  proof (cases i)
    case 0
    with one law show ?thesis by (auto simp: case_prod_beta Let_def)
  next
    case (Suc j)
    with one Cons.IH [of s' "cache_model c m" j] law Cons.prems(2) show ?thesis
      by (simp add: case_prod_beta Let_def)
  qed
qed simp

text \<open>A cached function answers like the function, as long as the entries under its keys are its own.\<close>

lemma cached_call:
  assumes "holds s m" and "own_entries c f m" and pure: "\<And>w. snd (func a w) = Inr (f a)"
    and coded: "caches c f"
  obtains s' w' m' where "cache_result backend c func asked stored a (s, w) = ((s', w'), Inr (f a))"
    and "holds s' m'" and "own_entries c f m'"
proof -
  let ?k = "key_builder c a"
  obtain s1 r where get: "cache_get backend asked ?k s = (s1, Inr r)" using get_total is_ok_snd by blast
  note got = get_law [OF assms(1) get]
  show ?thesis
  proof (cases r)
    case (Some v)
    then have "live asked (m ?k) = Some v" using got by blast
    then have "loads c v = Inr (f a)"
      using assms(2) by (auto simp: live_def own_entries_def split: option.splits prod.splits if_splits)
    with Some get have "cache_result backend c func asked stored a (s, w) = ((s1, w), Inr (f a))"
      by (simp add: cache_result_def and_then_def on_left_def Let_def)
    from that [OF this conjunct1 [OF got] assms(2)] show ?thesis .
  next
    case None
    obtain w1 where call: "func a w = (w1, Inr (f a))" using pure [of w] by (metis prod.collapse)
    obtain s2 u where put: "cache_set backend stored ?k (dumps c (f a)) (ttl_seconds c) s1 = (s2, Inr u)"
      using set_total is_ok_snd by blast
    have own: "own_entries c f (m(?k \<mapsto> (dumps c (f a), expiry stored (ttl_seconds c))))"
      unfolding own_entries_def
    proof (intro allI impI)
      fix k v t b
      assume stored: "(m(?k \<mapsto> (dumps c (f a), expiry stored (ttl_seconds c)))) k = Some (v, t)" and k: "k = key_builder c b"
      show "loads c v = Inr (f b)"
      proof (cases "k = ?k")
        case True
        then have "f a = f b" using coded k unfolding caches_def by metis
        moreover have "v = dumps c (f a)" using stored True by simp
        ultimately show ?thesis using coded unfolding caches_def by metis
      next
        case False
        then have "m (key_builder c b) = Some (v, t)" using stored k by simp
        then show ?thesis using assms(2) unfolding own_entries_def by blast
      qed
    qed
    have "cache_result backend c func asked stored a (s, w) = ((s2, w1), Inr (f a))"
      using None get call put by (simp add: cache_result_def and_then_def on_left_def on_right_def Let_def)
    from that [OF this set_law [OF conjunct1 [OF got] put] own] show ?thesis .
  qed
qed

lemma cached_calls:
  assumes "\<And>a w. snd (func a w) = Inr (f a)" and "caches c f"
  shows "holds s m \<Longrightarrow> own_entries c f m \<Longrightarrow>
    snd (serve_all (\<lambda>(asked, stored, a). cache_result backend c func asked stored a) calls (s, w)) =
      map (\<lambda>(_, _, a). Inr (f a)) calls"
proof (induction calls arbitrary: s w m)
  case (Cons x calls)
  obtain asked stored a where x: "x = (asked, stored, a)" by (cases x)
  obtain s' w' m' where "cache_result backend c func asked stored a (s, w) = ((s', w'), Inr (f a))"
      "holds s' m'" "own_entries c f m'"
    using cached_call [OF Cons.prems, of func a, OF assms, of asked stored w] by blast
  with Cons.IH [of s' m' w'] x show ?case by (simp add: case_prod_beta Let_def)
qed simp

end

section \<open>The backends of the code\<close>

definition memory_holds :: "'v cache_items \<Rightarrow> 'v entries \<Rightarrow> bool" where
  "memory_holds items m \<longleftrightarrow> dict_get items \<subseteq>\<^sub>m m"

lemma dict_get_Nil [simp]: "dict_get [] = Map.empty"
  by (simp add: dict_get_def fun_eq_iff)

lemma map_le_remove: "m \<subseteq>\<^sub>m m' \<Longrightarrow> m(k := None) \<subseteq>\<^sub>m m'" "m \<subseteq>\<^sub>m m' \<Longrightarrow> m(k := None) \<subseteq>\<^sub>m m'(k := None)"
  by (auto simp: map_le_def)

interpretation memory_cache: total_cache InMemoryCache memory_holds
proof unfold_locales
  fix items items' :: "'v cache_items" and m now k a
  assume held: "memory_holds items m" and got: "cache_get InMemoryCache now k items = (items', Inr a)"
  show "memory_holds items' m \<and> (\<forall>v. a = Some v \<longrightarrow> live now (m k) = Some v)"
    using held got
    by (auto simp: InMemoryCache_def memory_get_def memory_holds_def dict_get_pop map_le_remove live_def map_le_def
        dom_def split: option.splits if_splits prod.splits)
qed (auto simp: InMemoryCache_def memory_holds_def memory_set_def memory_get_def dict_get_set dict_get_pop
      map_le_remove is_ok_iff split: option.split intro: map_le_trans)

text \<open>Redis keeps its entries under prefixed keys.\<close>

lemma redis_key_inj [simp]: "redis_key p j = redis_key p k \<longleftrightarrow> j = k"
  by (simp add: redis_key_def build_cache_key_def)

definition redis_view :: "string \<Rightarrow> 'v entries \<Rightarrow> 'v entries" where
  "redis_view p m = (\<lambda>k. m (redis_key p k))"

lemma redis_view_simps [simp]:
  "redis_view p (m(redis_key p k := e)) = (redis_view p m)(k := e)" "redis_view p Map.empty = Map.empty"
  by (auto simp: redis_view_def)

definition redis_holds :: "('c \<Rightarrow> 'v entries \<Rightarrow> bool) \<Rightarrow> string \<Rightarrow> 'c \<Rightarrow> 'v entries \<Rightarrow> bool" where
  "redis_holds client_holds p s m \<longleftrightarrow> (\<exists>stored. client_holds s stored \<and> redis_view p stored \<subseteq>\<^sub>m m)"

locale redis_client = client: cache_backend client client_holds
  for client :: "('c, 'v) CacheBackend" and client_holds and key_prefix :: string
begin

sublocale redis: cache_backend "RedisCache key_prefix client" "redis_holds client_holds key_prefix"
proof unfold_locales
  fix s s' m now k a
  assume "redis_holds client_holds key_prefix s m" and get: "cache_get (RedisCache key_prefix client) now k s = (s', Inr a)"
  then obtain n where n: "client_holds s n" "redis_view key_prefix n \<subseteq>\<^sub>m m" by (auto simp: redis_holds_def)
  have "client_holds s' n \<and> (\<forall>v. a = Some v \<longrightarrow> live now (redis_view key_prefix n k) = Some v)"
    using client.get_law [OF n(1)] get by (simp add: RedisCache_def redis_view_def)
  with n(2) show "redis_holds client_holds key_prefix s' m \<and> (\<forall>v. a = Some v \<longrightarrow> live now (m k) = Some v)"
    by (auto simp: redis_holds_def dest: live_mono)
next
  fix s s' m now k v ttl u
  assume "redis_holds client_holds key_prefix s m" and put: "cache_set (RedisCache key_prefix client) now k v ttl s = (s', Inr u)"
  then obtain n where n: "client_holds s n" "redis_view key_prefix n \<subseteq>\<^sub>m m" by (auto simp: redis_holds_def)
  have "client_holds s' (n(redis_key key_prefix k \<mapsto> (v, expiry now ttl)))"
    using client.set_law [OF n(1)] put by (simp add: RedisCache_def)
  with n(2) show "redis_holds client_holds key_prefix s' (m(k \<mapsto> (v, expiry now ttl)))"
    unfolding redis_holds_def using redis_view_simps(1) map_le_upd by metis
next
  fix s s' m k u
  assume "redis_holds client_holds key_prefix s m" and del: "cache_delete (RedisCache key_prefix client) k s = (s', Inr u)"
  then obtain n where n: "client_holds s n" "redis_view key_prefix n \<subseteq>\<^sub>m m" by (auto simp: redis_holds_def)
  have "client_holds s' (n(redis_key key_prefix k := None))"
    using client.delete_law [OF n(1)] del by (simp add: RedisCache_def)
  with n(2) show "redis_holds client_holds key_prefix s' (m(k := None))"
    unfolding redis_holds_def using redis_view_simps(1) map_le_remove(2) by metis
next
  fix s s' m u
  assume "redis_holds client_holds key_prefix s m" and clear: "cache_clear (RedisCache key_prefix client) s = (s', Inr u)"
  then obtain n where "client_holds s n" by (auto simp: redis_holds_def)
  then have "client_holds s' Map.empty" using client.clear_law clear by (simp add: RedisCache_def)
  then show "redis_holds client_holds key_prefix s' Map.empty"
    unfolding redis_holds_def by (intro exI [of _ Map.empty]) simp
qed (auto simp: redis_holds_def intro: map_le_trans)

lemma redis_backend: "cache_backend (RedisCache key_prefix client) (redis_holds client_holds key_prefix)"
  by (rule redis.cache_backend_axioms)

end

interpretation memory_redis: redis_client InMemoryCache memory_holds p for p
  by unfold_locales

text \<open>A degraded store answers from the fallback, which was empty when the primary failed.\<close>

definition resilient_holds ::
  "('p \<Rightarrow> 'v entries \<Rightarrow> bool) \<Rightarrow> ('f \<Rightarrow> 'v entries \<Rightarrow> bool) \<Rightarrow> ('p, 'f) resilient_store \<Rightarrow> 'v entries \<Rightarrow> bool" where
  "resilient_holds ph fh x m \<longleftrightarrow>
     (if degraded x then fh (fallback_store x) m else ph (primary_store x) m \<and> fh (fallback_store x) Map.empty)"

locale resilient_cache = primary: cache_backend primary ph + fallback: total_cache fallback fh
  for primary :: "('p, 'v) CacheBackend" and ph and fallback :: "('f, 'v) CacheBackend" and fh
begin

text \<open>One call: by the primary, or by the fallback from what the fallback holds.\<close>

lemma resilient_call_cases:
  assumes "resilient_holds ph fh x m" and "resilient_call p f x = (y, r)"
  obtains (primary) s a where "p (primary_store x) = (s, Inr a)" "ph (primary_store x) m" "r = Inr a"
      "y = x\<lparr>primary_store := s\<rparr>" "\<not> degraded x" "fh (fallback_store x) Map.empty"
    | (fallback) s where "f (fallback_store x) = (s, r)" "fh (fallback_store x) m" "degraded y" "fallback_store y = s"
proof (cases "degraded x")
  case True
  with assms fallback show ?thesis
    by (auto simp: resilient_call_def on_fallback_def resilient_holds_def split: prod.splits)
next
  case False
  then have held: "ph (primary_store x) m" "fh (fallback_store x) Map.empty"
    using assms(1) by (simp_all add: resilient_holds_def)
  have "fh (fallback_store x) m" using fallback.weaken [OF held(2)] by simp
  with assms(2) False held primary fallback show ?thesis
    by (auto simp: resilient_call_def on_fallback_def split: prod.splits sum.splits)
qed

lemma resilient_total:
  assumes "\<And>s. is_ok (snd (f s))"
  shows "is_ok (snd (resilient_call p f x))"
  using assms by (auto simp: resilient_call_def on_fallback_def is_ok_iff split: prod.split sum.split)
    (metis snd_conv)+

sublocale resilient: total_cache "ResilientCache primary fallback" "resilient_holds ph fh"
proof unfold_locales
  fix x y m now k a
  assume held: "resilient_holds ph fh x m" and get: "cache_get (ResilientCache primary fallback) now k x = (y, Inr a)"
  from get have "resilient_call (cache_get primary now k) (cache_get fallback now k) x = (y, Inr a)"
    by (simp add: ResilientCache_def)
  with held show "resilient_holds ph fh y m \<and> (\<forall>v. a = Some v \<longrightarrow> live now (m k) = Some v)"
    by (cases rule: resilient_call_cases)
      (auto simp: resilient_holds_def dest: primary.get_law fallback.get_law)
next
  fix x y m now k v ttl u
  assume held: "resilient_holds ph fh x m" and put: "cache_set (ResilientCache primary fallback) now k v ttl x = (y, Inr u)"
  from put have "resilient_call (cache_set primary now k v ttl) (cache_set fallback now k v ttl) x = (y, Inr u)"
    by (simp add: ResilientCache_def)
  with held show "resilient_holds ph fh y (m(k \<mapsto> (v, expiry now ttl)))"
    by (cases rule: resilient_call_cases)
      (auto simp: resilient_holds_def dest: primary.set_law fallback.set_law)
next
  fix x y m k u
  assume held: "resilient_holds ph fh x m" and del: "cache_delete (ResilientCache primary fallback) k x = (y, Inr u)"
  from del have "resilient_call (cache_delete primary k) (cache_delete fallback k) x = (y, Inr u)"
    by (simp add: ResilientCache_def)
  with held show "resilient_holds ph fh y (m(k := None))"
    by (cases rule: resilient_call_cases)
      (auto simp: resilient_holds_def dest: primary.delete_law fallback.delete_law)
next
  fix x y m u
  assume held: "resilient_holds ph fh x m" and clear: "cache_clear (ResilientCache primary fallback) x = (y, Inr u)"
  from clear have "resilient_call (cache_clear primary) (cache_clear fallback) x = (y, Inr u)"
    by (simp add: ResilientCache_def)
  with held show "resilient_holds ph fh y Map.empty"
    by (cases rule: resilient_call_cases)
      (auto simp: resilient_holds_def dest: primary.clear_law fallback.clear_law)
qed (auto simp: ResilientCache_def resilient_holds_def intro: resilient_total fallback.get_total fallback.set_total
      fallback.delete_total fallback.clear_total primary.weaken fallback.weaken)

lemma resilient_backend: "total_cache (ResilientCache primary fallback) (resilient_holds ph fh)"
  by (rule resilient.total_cache_axioms)

end

interpretation memory_resilient:
  resilient_cache "RedisCache p InMemoryCache" "redis_holds memory_holds p" InMemoryCache memory_holds for p
  by unfold_locales

section \<open>Properties\<close>

text \<open>
  C32: the cache never raises and never serves a stale value, however the Redis client fails. For every
  sequence of calls, each one returns, and a get that finds a value finds the one a map of the calls so
  far holds and that has not expired; a deleted, cleared or overwritten value never comes back.
\<close>

theorem resilient_cache_never_stale:
  assumes client: "cache_backend client client_holds"
    and "client_holds (primary_store x) stored" and "fallback_store x = []" and "\<not> degraded x"
    and "i < length cs"
  shows "\<exists>a. snd (serve_all (cache_serve (ResilientCache (RedisCache p client) InMemoryCache)) cs x) ! i = Inr a \<and>
    (\<forall>now k v. cs ! i = Get now k \<longrightarrow> a = Some v \<longrightarrow>
       live now (fold cache_model (take i cs) (redis_view p stored) k) = Some v)"
proof -
  have "cache_backend (RedisCache p client) (redis_holds client_holds p)"
    using client by (intro redis_client.redis_backend redis_client.intro)
  then have total: "total_cache (ResilientCache (RedisCache p client) InMemoryCache)
      (resilient_holds (redis_holds client_holds p) memory_holds)"
    by (intro resilient_cache.resilient_backend resilient_cache.intro memory_cache.total_cache_axioms)
  have "resilient_holds (redis_holds client_holds p) memory_holds x (redis_view p stored)"
    using assms(2-4) by (auto simp: resilient_holds_def redis_holds_def memory_holds_def)
  then show ?thesis by (rule total_cache.serve_all_sound [OF total _ assms(5)])
qed

text \<open>A client for the witnesses: a dictionary that raises from the given call on.\<close>

definition flaky :: "('c, string, 'a) action \<Rightarrow> (nat \<times> 'c, string, 'a) action" where
  "flaky m x = (if fst x = 0 then (x, Inl ''ConnectionError'')
     else let (c, r) = m (snd x) in ((fst x - 1, c), r))"

definition flaky_client :: "(nat \<times> 'v cache_items, 'v) CacheBackend" where
  "flaky_client = \<lparr>cache_get = (\<lambda>now k. flaky (memory_get now k)), cache_set = (\<lambda>now k v ttl. flaky (memory_set now k v ttl)),
     cache_delete = (\<lambda>k. flaky (\<lambda>items. (dict_pop k items, Inr ()))), cache_clear = flaky (\<lambda>_. ([], Inr ()))\<rparr>"

lemma flaky_client_lawful: "cache_backend flaky_client (\<lambda>x. memory_holds (snd x))"
proof unfold_locales
  fix x x' :: "nat \<times> 'v cache_items" and m now k a
  assume "memory_holds (snd x) m" and "cache_get flaky_client now k x = (x', Inr a)"
  then show "memory_holds (snd x') m \<and> (\<forall>v. a = Some v \<longrightarrow> live now (m k) = Some v)"
    using memory_cache.get_law [of "snd x" m now k "snd x'" a]
    by (auto simp: flaky_client_def flaky_def InMemoryCache_def split: if_splits prod.splits)
qed (auto simp: flaky_client_def flaky_def memory_holds_def memory_set_def dict_get_set dict_get_pop map_le_remove
      split: if_splits prod.splits intro: map_le_trans)

theorem resilient_cache_never_stale_witness:
  "\<exists>a. snd (serve_all (cache_serve (ResilientCache (RedisCache ''nop'' flaky_client) InMemoryCache))
      [Set 0 ''k'' (1::nat) (Some 5), Get 1 ''k'', Set 2 ''k'' 2 None, Get 3 ''k'']
      \<lparr>primary_store = (2, []), fallback_store = [], degraded = False\<rparr>) ! 3 = Inr a \<and>
    (\<forall>now k v. [Set 0 ''k'' (1::nat) (Some 5), Get 1 ''k'', Set 2 ''k'' 2 None, Get 3 ''k''] ! 3 = Get now k \<longrightarrow> a = Some v \<longrightarrow>
       live now (fold cache_model (take 3 [Set 0 ''k'' (1::nat) (Some 5), Get 1 ''k'', Set 2 ''k'' 2 None, Get 3 ''k''])
         (redis_view ''nop'' Map.empty) k) = Some v)"
  by (rule resilient_cache_never_stale [OF flaky_client_lawful]) (simp_all add: memory_holds_def)

text \<open>
  Caching is transparent. A function whose results are coded and keyed as the decorator needs answers
  the same with the cache as without it, over any sequence of calls and however the Redis client fails.
\<close>

theorem caching_is_transparent:
  assumes client: "cache_backend client client_holds"
    and "client_holds (primary_store x) Map.empty" and "fallback_store x = []" and "\<not> degraded x"
    and pure: "\<And>a w. snd (func a w) = Inr (f a)" and coded: "caches c f"
  shows "snd (serve_all (\<lambda>(asked, stored, a).
      cache_result (ResilientCache (RedisCache p client) InMemoryCache) c func asked stored a) calls (x, w)) =
    map (\<lambda>(_, _, a). Inr (f a)) calls"
proof -
  have "cache_backend (RedisCache p client) (redis_holds client_holds p)"
    using client by (intro redis_client.redis_backend redis_client.intro)
  then have total: "total_cache (ResilientCache (RedisCache p client) InMemoryCache)
      (resilient_holds (redis_holds client_holds p) memory_holds)"
    by (intro resilient_cache.resilient_backend resilient_cache.intro memory_cache.total_cache_axioms)
  have "resilient_holds (redis_holds client_holds p) memory_holds x Map.empty"
    using assms(2-4) by (auto simp: resilient_holds_def redis_holds_def memory_holds_def intro!: exI [of _ Map.empty])
  then show ?thesis by (rule total_cache.cached_calls [OF total pure coded]) (simp add: own_entries_def)
qed

text \<open>The first call stores, the second reads, the third finds the client failing.\<close>

theorem caching_is_transparent_witness:
  "snd (serve_all (\<lambda>(asked, stored, a).
      cache_result (ResilientCache (RedisCache ''nop'' flaky_client) InMemoryCache)
        \<lparr>key_builder = (\<lambda>b. if b then ''yes'' else ''no''), ttl_seconds = Some 60, dumps = id, loads = Inr\<rparr>
        (\<lambda>b n. (Suc n, Inr (if b then 1 else 0 :: nat))) asked stored a)
      [(0, 1, True), (2, 3, True), (4, 5, True)]
      (\<lparr>primary_store = (3, []), fallback_store = [], degraded = False\<rparr>, 0 :: nat)) =
    [Inr 1, Inr 1, Inr 1]"
  by (rule trans [OF caching_is_transparent [OF flaky_client_lawful, where f = "\<lambda>b. if b then 1 else 0 :: nat"]])
    (simp_all add: memory_holds_def caches_def)

text \<open>
  The in-memory cache alone is exact while the clock does not go back: a get answers precisely what the
  reference holds.
\<close>

definition agree_from :: "time \<Rightarrow> 'v entries \<Rightarrow> 'v entries \<Rightarrow> bool" where
  "agree_from t m m' \<longleftrightarrow> (\<forall>now \<ge> t. \<forall>k. live now (m k) = live now (m' k))"

fun times_from :: "time \<Rightarrow> 'v cache_call list \<Rightarrow> bool" where
  "times_from t [] = True"
| "times_from t (c # cs) = (case call_time c of None \<Rightarrow> times_from t cs | Some now \<Rightarrow> t \<le> now \<and> times_from now cs)"

fun reference_answers :: "'v cache_call list \<Rightarrow> 'v entries \<Rightarrow> 'v option list" where
  "reference_answers [] m = []"
| "reference_answers (c # cs) m =
     (case c of Get now k \<Rightarrow> live now (m k) | _ \<Rightarrow> None) # reference_answers cs (cache_model c m)"

lemma agree_from_get:
  assumes "agree_from t (dict_get items) m" and "t \<le> now"
  obtains items' where "memory_get now k items = (items', Inr (live now (m k)))" and "agree_from now (dict_get items') m"
proof (cases "live now (dict_get items k)")
  case None
  then have gone: "live later (dict_get items k) = None" if "now \<le> later" for later
    using that by (auto simp: live_def expired_def split: option.splits if_splits)
  have answer: "live now (m k) = None" using assms None by (simp add: agree_from_def)
  have stays: "agree_from now (dict_get items) m" using assms by (simp add: agree_from_def)
  then have popped: "agree_from now (dict_get (dict_pop k items)) m"
    using gone by (simp add: agree_from_def dict_get_pop live_def [of _ None])
  have "memory_get now k items = (items, Inr None) \<or> memory_get now k items = (dict_pop k items, Inr None)"
    using None by (auto simp: memory_get_def live_def split: option.splits if_splits prod.splits)
  then show ?thesis using that answer stays popped by metis
next
  case (Some v)
  then have "memory_get now k items = (items, Inr (Some v))"
    by (auto simp: memory_get_def live_def split: option.splits if_splits)
  with that assms Some show ?thesis unfolding agree_from_def by (metis order.trans)
qed

lemma memory_cache_exact:
  "agree_from t (dict_get items) m \<Longrightarrow> times_from t cs \<Longrightarrow>
   snd (serve_all (cache_serve InMemoryCache) cs items) = map Inr (reference_answers cs m)"
proof (induction cs arbitrary: t items m)
  case (Cons c cs)
  show ?case
  proof (cases c)
    case (Get now k)
    with Cons.prems have "t \<le> now" by simp
    with Cons.prems(1) obtain items' where "memory_get now k items = (items', Inr (live now (m k)))"
        "agree_from now (dict_get items') m" by (rule agree_from_get)
    with Cons.IH [of now items' m] Cons.prems(2) Get show ?thesis by (simp add: InMemoryCache_def case_prod_beta)
  next
    case (Set now k v ttl)
    with Cons.prems have "agree_from now (dict_get (dict_set k (v, expiry now ttl) items)) (m(k \<mapsto> (v, expiry now ttl)))"
      by (auto simp: agree_from_def dict_get_set)
    note Cons.IH [OF this]
    with Cons.prems(2) Set show ?thesis by (simp add: InMemoryCache_def memory_set_def and_then_def case_prod_beta del: fun_upd_apply)
  next
    case (Delete k)
    with Cons.prems have "agree_from t (dict_get (dict_pop k items)) (m(k := None))"
      by (auto simp: agree_from_def dict_get_pop)
    note Cons.IH [OF this]
    with Cons.prems(2) Delete show ?thesis by (simp add: InMemoryCache_def and_then_def case_prod_beta del: fun_upd_apply)
  next
    case Clear
    have "agree_from t (dict_get []) Map.empty" by (simp add: agree_from_def)
    note Cons.IH [OF this]
    with Cons.prems(2) Clear show ?thesis by (simp add: InMemoryCache_def and_then_def case_prod_beta del: fun_upd_apply)
  qed
qed simp

end
