(* ===== verification/Py_Scan.thy ===== *)
theory Py_Scan
  imports Py_Numbers
begin

text \<open>
  Splitting text into words and lines, and regular expressions as \<open>re.search\<close> runs them: sequences of
  character classes with greedy and lazy repetitions, captured groups and optional texts, matched by
  backtracking from the leftmost position. On ASCII text.
\<close>

section \<open>Words and lines\<close>

text \<open>\<open>s.split()\<close>\<close>

fun words_from :: "string \<Rightarrow> string \<Rightarrow> string list" where
  "words_from acc [] = (if acc = [] then [] else [rev acc])"
| "words_from acc (c # cs) =
     (if is_space c then (if acc = [] then [] else [rev acc]) @ words_from [] cs else words_from (c # acc) cs)"

definition split_words :: "string \<Rightarrow> string list" where
  "split_words s = words_from [] s"

text \<open>\<open>s.splitlines()\<close>: a carriage return and the line feed after it end one line.\<close>

definition is_line_end :: "char \<Rightarrow> bool" where
  "is_line_end c \<longleftrightarrow> (of_char c :: nat) \<in> {10, 11, 12, 13, 28, 29, 30}"

definition CR :: char where "CR = CHR 0x0D"
definition LF :: char where "LF = CHR 0x0A"

fun lines_from :: "bool \<Rightarrow> string \<Rightarrow> string \<Rightarrow> string list" where
  "lines_from after_cr acc [] = (if acc = [] then [] else [rev acc])"
| "lines_from after_cr acc (c # cs) =
     (if after_cr \<and> c = LF then lines_from False acc cs
      else if is_line_end c then rev acc # lines_from (c = CR) [] cs
      else lines_from False (c # acc) cs)"

definition splitlines :: "string \<Rightarrow> string list" where
  "splitlines s = lines_from False [] s"

definition rstrip :: "string \<Rightarrow> string" where
  "rstrip s = rev (dropWhile is_space (rev s))"

text \<open>What follows the first occurrence of a character, and what precedes it.\<close>

definition after_first :: "char \<Rightarrow> string \<Rightarrow> string option" where
  "after_first c s = (case dropWhile (\<lambda>d. d \<noteq> c) s of [] \<Rightarrow> None | d # t \<Rightarrow> Some t)"

definition before_first :: "char \<Rightarrow> string \<Rightarrow> string" where
  "before_first c s = takeWhile (\<lambda>d. d \<noteq> c) s"

definition after_last :: "char \<Rightarrow> string \<Rightarrow> string" where
  "after_last c s = rev (takeWhile (\<lambda>d. d \<noteq> c) (rev s))"

subsection \<open>Words and lines of composed text\<close>

definition word :: "string \<Rightarrow> bool" where
  "word w \<longleftrightarrow> w \<noteq> [] \<and> (\<forall>c \<in> set w. \<not> is_space c)"

lemma line_end_is_space: "is_line_end c \<Longrightarrow> is_space c"
  by (auto simp: is_line_end_def is_space_def)

lemma words_from_word: "(\<forall>c \<in> set w. \<not> is_space c) \<Longrightarrow> words_from acc (w @ s) = words_from (rev w @ acc) s"
  by (induction w arbitrary: acc) auto

lemma split_words_word: "word w \<Longrightarrow> split_words (w @ CHR '' '' # s) = w # split_words s"
  by (simp add: split_words_def words_from_word word_def is_space_def)

lemma split_words_single: "word w \<Longrightarrow> split_words w = [w]"
  using words_from_word [of w "[]" "[]"] by (simp add: split_words_def word_def)

lemma split_words_spaces: "split_words (CHR '' '' # s) = split_words s"
  by (simp add: split_words_def is_space_def)

lemma split_words_join: "\<forall>w \<in> set ws. word w \<Longrightarrow> split_words (join_with '' '' ws) = ws"
  by (induction "'' ''" ws rule: join_with.induct)
    (auto simp: split_words_word split_words_single, simp add: split_words_def)

lemma lines_from_line:
  "\<forall>c \<in> set l. \<not> is_line_end c \<Longrightarrow> lines_from False acc (l @ LF # s) = (rev acc @ l) # lines_from False [] s"
  by (induction l arbitrary: acc) (auto simp: is_line_end_def LF_def CR_def)

lemma splitlines_lines:
  "\<forall>l \<in> set ls. \<forall>c \<in> set l. \<not> is_line_end c \<Longrightarrow> splitlines (concat (map (\<lambda>l. l @ [LF]) ls)) = ls"
  unfolding splitlines_def by (induction ls) (simp_all add: lines_from_line)

lemma dropWhile_prefix:
  assumes "dropWhile p u = u"
  shows "dropWhile p (rev (dropWhile p (rev u))) = rev (dropWhile p (rev u))"
proof (cases "rev (dropWhile p (rev u))")
  case (Cons c t)
  obtain v where "u = rev (dropWhile p (rev u)) @ v" by (metis rev_append rev_rev_ident takeWhile_dropWhile_id)
  with Cons have "u = c # t @ v" by simp
  with assms have "\<not> p c" by (metis dropWhile.simps(2) dropWhile_eq_Cons_conv)
  with Cons show ?thesis by simp
next
  case Nil
  then show ?thesis by (simp only: rev_is_Nil_conv) (simp only: rev.simps dropWhile.simps)
qed

section \<open>Regular expressions\<close>

datatype piece =
    Char "char \<Rightarrow> bool"
  | Repeat bool nat "char \<Rightarrow> bool"
  | Capture string nat "char \<Rightarrow> bool"
  | Optional "(char \<Rightarrow> bool) list"

fun first_some :: "('a \<Rightarrow> 'b option) \<Rightarrow> 'a list \<Rightarrow> 'b option" where
  "first_some f [] = None"
| "first_some f (x # xs) = (case f x of None \<Rightarrow> first_some f xs | Some y \<Rightarrow> Some y)"

lemma first_some_cong [fundef_cong]:
  "xs = ys \<Longrightarrow> (\<And>x. x \<in> set ys \<Longrightarrow> f x = g x) \<Longrightarrow> first_some f xs = first_some g ys"
  by (induction ys arbitrary: xs) (auto split: option.split)

lemma first_some_None: "first_some f xs = None \<longleftrightarrow> (\<forall>x \<in> set xs. f x = None)"
  by (induction xs) (auto split: option.split)

text \<open>The numbers of characters a repetition may take, in the order they are tried.\<close>

definition counts :: "bool \<Rightarrow> nat \<Rightarrow> (char \<Rightarrow> bool) \<Rightarrow> string \<Rightarrow> nat list" where
  "counts greedy least p s =
     (let ns = [least..<Suc (length (takeWhile p s))] in if greedy then rev ns else ns)"

fun text_prefix :: "(char \<Rightarrow> bool) list \<Rightarrow> string \<Rightarrow> bool" where
  "text_prefix [] s = True"
| "text_prefix (p # ps) [] = False"
| "text_prefix (p # ps) (c # cs) = (p c \<and> text_prefix ps cs)"

text \<open>A match at the start of the text, with its groups.\<close>

fun match_here :: "piece list \<Rightarrow> string \<Rightarrow> (string, string) dict option" where
  "match_here [] s = Some []"
| "match_here (Char p # ps) s = (case s of [] \<Rightarrow> None | c # cs \<Rightarrow> if p c then match_here ps cs else None)"
| "match_here (Repeat greedy least p # ps) s =
     first_some (\<lambda>n. match_here ps (drop n s)) (counts greedy least p s)"
| "match_here (Capture name least p # ps) s =
     first_some (\<lambda>n. map_option (\<lambda>g. (name, take n s) # g) (match_here ps (drop n s))) (counts True least p s)"
| "match_here (Optional text # ps) s =
     (case (if text_prefix text s then match_here ps (drop (length text) s) else None) of
        None \<Rightarrow> match_here ps s
      | Some g \<Rightarrow> Some g)"

fun re_search :: "piece list \<Rightarrow> string \<Rightarrow> (string, string) dict option" where
  "re_search r [] = match_here r []"
| "re_search r (c # cs) = (case match_here r (c # cs) of None \<Rightarrow> re_search r cs | Some g \<Rightarrow> Some g)"

text \<open>What the pieces mean: the texts that start with an instance of the sequence.\<close>

inductive starts :: "piece list \<Rightarrow> string \<Rightarrow> bool" where
  empty: "starts [] s"
| char: "p c \<Longrightarrow> starts ps s \<Longrightarrow> starts (Char p # ps) (c # s)"
| repeat: "least \<le> length u \<Longrightarrow> list_all p u \<Longrightarrow> starts ps s \<Longrightarrow> starts (Repeat greedy least p # ps) (u @ s)"
| capture: "least \<le> length u \<Longrightarrow> list_all p u \<Longrightarrow> starts ps s \<Longrightarrow> starts (Capture name least p # ps) (u @ s)"
| present: "list_all2 (\<lambda>p c. p c) text u \<Longrightarrow> starts ps s \<Longrightarrow> starts (Optional text # ps) (u @ s)"
| absent: "starts ps s \<Longrightarrow> starts (Optional text # ps) s"

inductive_simps starts_simps [simp]: "starts [] s" "starts (Char p # ps) s"
inductive_simps starts_repeat: "starts (Repeat greedy least p # ps) s"
inductive_simps starts_capture: "starts (Capture name least p # ps) s"
inductive_simps starts_optional: "starts (Optional text # ps) s"

lemma counts_iff: "n \<in> set (counts greedy least p s) \<longleftrightarrow> least \<le> n \<and> n \<le> length s \<and> list_all p (take n s)"
proof -
  have "n \<le> length (takeWhile p s) \<longleftrightarrow> n \<le> length s \<and> list_all p (take n s)"
  proof
    assume n: "n \<le> length (takeWhile p s)"
    then have "take n s = take n (takeWhile p s)" by (metis min.absorb1 take_take takeWhile_eq_take)
    moreover have "\<forall>c \<in> set (takeWhile p s). p c" using set_takeWhileD by metis
    ultimately show "n \<le> length s \<and> list_all p (take n s)"
      using n length_takeWhile_le [of p s] by (auto simp: list_all_iff dest: in_set_takeD)
  next
    assume "n \<le> length s \<and> list_all p (take n s)"
    then show "n \<le> length (takeWhile p s)"
      by (metis append_take_drop_id length_append length_take le_add1 list_all_iff min.absorb2 takeWhile_append2)
  qed
  then show ?thesis by (auto simp: counts_def Let_def)
qed

lemma text_prefix_iff: "text_prefix ps s \<longleftrightarrow> (\<exists>u t. s = u @ t \<and> list_all2 (\<lambda>p c. p c) ps u)"
proof (induction ps s rule: text_prefix.induct)
  case (3 p ps c cs)
  show ?case
  proof
    assume "text_prefix (p # ps) (c # cs)"
    then have "p c" "text_prefix ps cs" by simp_all
    moreover obtain u t where "cs = u @ t" "list_all2 (\<lambda>p c. p c) ps u"
      using 3 \<open>text_prefix ps cs\<close> by blast
    ultimately show "\<exists>u t. c # cs = u @ t \<and> list_all2 (\<lambda>p c. p c) (p # ps) u"
      by (intro exI [of _ "c # u"] exI [of _ t]) simp
  next
    assume "\<exists>u t. c # cs = u @ t \<and> list_all2 (\<lambda>p c. p c) (p # ps) u"
    then obtain v t where "c # cs = v @ t" "list_all2 (\<lambda>p c. p c) (p # ps) v" by blast
    then obtain u where "p c" "cs = u @ t" "list_all2 (\<lambda>p c. p c) ps u" by (cases v) auto
    moreover have "text_prefix ps cs" using 3 calculation(2,3) by blast
    ultimately show "text_prefix (p # ps) (c # cs)" by simp
  qed
qed simp_all

lemma some_count:
  "(\<exists>n \<in> set (counts greedy least p s). starts ps (drop n s)) \<longleftrightarrow>
   (\<exists>u t. s = u @ t \<and> least \<le> length u \<and> list_all p u \<and> starts ps t)"
proof
  assume "\<exists>n \<in> set (counts greedy least p s). starts ps (drop n s)"
  then show "\<exists>u t. s = u @ t \<and> least \<le> length u \<and> list_all p u \<and> starts ps t"
    by (auto simp: counts_iff) (metis append_take_drop_id length_take min.absorb2)
next
  assume "\<exists>u t. s = u @ t \<and> least \<le> length u \<and> list_all p u \<and> starts ps t"
  then obtain u t where "s = u @ t" "least \<le> length u" "list_all p u" "starts ps t" by blast
  then show "\<exists>n \<in> set (counts greedy least p s). starts ps (drop n s)"
    by (intro bexI [of _ "length u"]) (simp_all add: counts_iff)
qed

text \<open>Backtracking is complete: no match is reported only when the text does not start with an instance.\<close>

lemma match_here_iff: "match_here r s = None \<longleftrightarrow> \<not> starts r s"
proof (induction r arbitrary: s)
  case (Cons a r)
  show ?case
  proof (cases a)
    case (Char p)
    with Cons show ?thesis by (cases s) auto
  next
    case (Repeat greedy least p)
    then have "starts (a # r) s \<longleftrightarrow> (\<exists>n \<in> set (counts greedy least p s). starts r (drop n s))"
      using some_count [of greedy least p s r] by (auto simp: starts_repeat)
    with Repeat Cons show ?thesis by (simp add: first_some_None)
  next
    case (Capture name least p)
    then have "starts (a # r) s \<longleftrightarrow> (\<exists>n \<in> set (counts True least p s). starts r (drop n s))"
      using some_count [of True least p s r] by (auto simp: starts_capture)
    with Capture Cons show ?thesis by (simp add: first_some_None)
  next
    case (Optional ws)
    have "(\<exists>u t. s = u @ t \<and> list_all2 (\<lambda>p c. p c) ws u \<and> starts r t) \<longleftrightarrow>
        text_prefix ws s \<and> starts r (drop (length ws) s)"
      (is "?split \<longleftrightarrow> ?prefix")
    proof
      assume ?split
      then obtain u t where u: "s = u @ t" "list_all2 (\<lambda>p c. p c) ws u" "starts r t" by blast
      then have "drop (length ws) s = t" using list_all2_lengthD [OF u(2)] by simp
      with u(3) have "starts r (drop (length ws) s)" by simp
      moreover have "text_prefix ws s" unfolding text_prefix_iff using u(1,2) by blast
      ultimately show ?prefix by blast
    next
      assume ?prefix
      then obtain u t where u: "s = u @ t" "list_all2 (\<lambda>p c. p c) ws u" "starts r (drop (length ws) s)"
        unfolding text_prefix_iff by blast
      then have "drop (length ws) s = t" using list_all2_lengthD [OF u(2)] by simp
      with u(3) have "starts r t" by simp
      with u(1,2) show ?split by blast
    qed
    then have "starts (a # r) s \<longleftrightarrow> text_prefix ws s \<and> starts r (drop (length ws) s) \<or> starts r s"
      using Optional by (simp add: starts_optional)
    then show ?thesis
      using Optional Cons.IH [of s] Cons.IH [of "drop (length ws) s"] by (auto split: option.split)
  qed
qed simp

theorem re_search_complete: "re_search r s = None \<longleftrightarrow> (\<forall>i \<le> length s. \<not> starts r (drop i s))"
proof (induction s)
  case Nil
  then show ?case by (simp add: match_here_iff)
next
  case (Cons c s)
  have "(\<forall>i \<le> length (c # s). \<not> starts r (drop i (c # s))) \<longleftrightarrow>
      \<not> starts r (c # s) \<and> (\<forall>i \<le> length s. \<not> starts r (drop i s))"
    by (metis drop0 drop_Suc_Cons le0 length_Cons not0_implies_Suc not_less_eq_eq)
  with Cons show ?case using match_here_iff [of r "c # s"] by (auto split: option.split)
qed

end
