(* ===== verification/Cisco_Parser.thy ===== *)
theory Cisco_Parser
  imports Py_Scan
begin

text \<open>
  The parser of Cisco inventory payloads (\<^verbatim>\<open>collectors/cisco/inventory.py\<close>): from the text that commands, SNMP
  walks and HTTP pages gave to records of a device, its interfaces, VLANs, neighbours and power.
\<close>

section \<open>Patterns\<close>

definition same_letter :: "char \<Rightarrow> char \<Rightarrow> bool" where
  "same_letter c d = (lower_char c = lower_char d)"

definition literal :: "string \<Rightarrow> piece list" where
  "literal s = map (\<lambda>c. Char (\<lambda>d. d = c)) s"

definition any_case :: "string \<Rightarrow> piece list" where
  "any_case s = map (\<lambda>c. Char (same_letter c)) s"

definition one_of :: "string \<Rightarrow> char \<Rightarrow> bool" where "one_of s c = (c \<in> set s)"
definition not_in :: "string \<Rightarrow> char \<Rightarrow> bool" where "not_in s c = (c \<notin> set s)"
definition any_char :: "char \<Rightarrow> bool" where "any_char c = True"
definition not_space :: "char \<Rightarrow> bool" where "not_space c = (\<not> is_space c)"
definition not_line_feed :: "char \<Rightarrow> bool" where "not_line_feed c = (c \<noteq> LF)"

definition word_char :: "char \<Rightarrow> bool" where
  "word_char c =
     (let n = of_char c :: nat
      in is_digit c \<or> (65 \<le> n \<and> n \<le> 90) \<or> (97 \<le> n \<and> n \<le> 122) \<or> c = CHR ''_'')"

definition spaces :: "nat \<Rightarrow> piece" where "spaces least = Repeat True least is_space"
definition anything :: piece where "anything = Repeat False 0 any_char"

definition VERSION_RE :: "piece list" where
  "VERSION_RE = any_case ''Cisco IOS'' @ [Optional (map same_letter '' XE'')] @ any_case '' Software'' @ [anything] @
     any_case ''Version '' @ [Capture ''version'' 1 (\<lambda>c. word_char c \<or> one_of ''().-'' c)]"

definition HOSTNAME_UPTIME_RE :: "piece list" where
  "HOSTNAME_UPTIME_RE = [Capture ''hostname'' 1 not_space, spaces 1] @ any_case ''uptime is'' @
     [spaces 1, Capture ''uptime'' 1 not_line_feed]"

definition labelled :: "string \<Rightarrow> piece list" where
  "labelled name = [spaces 0, Char (one_of '':''), spaces 0, Capture name 1 not_space]"

definition MODEL_RE :: "piece list" where
  "MODEL_RE = [Char (one_of ''Mm'')] @ literal ''odel number'' @ labelled ''model''"

definition BASE_MAC_RE :: "piece list" where
  "BASE_MAC_RE = [Char (one_of ''Bb'')] @ literal ''ase '' @ [Char (one_of ''Ee'')] @ literal ''thernet MAC '' @
     [Char (one_of ''Aa'')] @ literal ''ddress'' @ labelled ''mac''"

definition SYSTEM_SERIAL_RE :: "piece list" where
  "SYSTEM_SERIAL_RE = [Char (one_of ''Ss'')] @ literal ''ystem '' @ [Char (one_of ''Ss'')] @ literal ''erial '' @
     [Char (one_of ''Nn'')] @ literal ''umber'' @ labelled ''serial''"

definition HARDWARE_RE :: "piece list" where
  "HARDWARE_RE = [Char (one_of ''Hh'')] @ literal ''ardware'' @
     [spaces 0, Char (one_of '':''), spaces 0, Capture ''hardware'' 1 not_line_feed]"

definition INVENTORY_RE :: "piece list" where
  "INVENTORY_RE = any_case ''NAME:'' @ [spaces 0, Char (\<lambda>c. c = CHR 0x22), Capture ''name'' 1 (\<lambda>c. c \<noteq> CHR 0x22),
       Char (\<lambda>c. c = CHR 0x22), anything] @
     any_case ''PID:'' @ [spaces 0, Capture ''pid'' 1 (\<lambda>c. c \<noteq> CHR '','' \<and> \<not> is_space c), spaces 0, Char (one_of '',''), spaces 0] @
     any_case ''VID:'' @ [spaces 0, Capture ''vid'' 0 (\<lambda>c. c \<noteq> CHR '','' \<and> \<not> is_space c), spaces 0, Char (one_of '',''), spaces 0] @
     any_case ''SN:'' @ [spaces 0, Capture ''serial'' 1 not_space]"

definition watts :: "char \<Rightarrow> bool" where "watts c = (is_digit c \<or> c = CHR ''.'')"

definition POWER_RE :: "piece list" where
  "POWER_RE = any_case ''Available:'' @ [Capture ''available'' 1 watts] @ any_case ''(w)'' @ [anything] @
     any_case ''Used:'' @ [Capture ''used'' 1 watts] @ any_case ''(w)''"

definition http_re :: "string \<Rightarrow> piece list" where
  "http_re label = any_case label @ [spaces 0, Char (one_of '':=''), spaces 0, Capture ''value'' 1 (not_in [LF, CR, CHR ''<''])]"

section \<open>Helpers\<close>

text \<open>\<open>a or b\<close> of optional texts: the empty text counts as none.\<close>

definition text_or :: "string option \<Rightarrow> string option \<Rightarrow> string option" where
  "text_or a b = (case a of None \<Rightarrow> b | Some s \<Rightarrow> if s = [] then b else a)"

definition dict_lookup :: "(string \<times> pyval) list \<Rightarrow> string \<Rightarrow> pyval" where
  "dict_lookup d k = (case dict_get d k of None \<Rightarrow> PNone | Some v \<Rightarrow> v)"

definition as_mapping :: "pyval \<Rightarrow> (string \<times> pyval) list" where
  "as_mapping v = (case v of PDict d \<Rightarrow> d | _ \<Rightarrow> [])"

definition string_mapping :: "pyval \<Rightarrow> (string, string) dict" where
  "string_mapping v = map (\<lambda>(k, w). (k, py_str w)) (as_mapping v)"

fun row_pair :: "pyval \<Rightarrow> (string \<times> string) option" where
  "row_pair (PList [a, b]) = Some (py_str a, py_str b)"
| "row_pair _ = None"

definition snmp_mapping :: "pyval \<Rightarrow> (string, (string \<times> string) list) dict" where
  "snmp_mapping v =
     List.map_filter (\<lambda>(k, rows). case rows of PList rs \<Rightarrow> Some (k, List.map_filter row_pair rs) | _ \<Rightarrow> None) (as_mapping v)"

definition nonblank :: "string \<Rightarrow> string option" where
  "nonblank s = (let t = strip s in if t = [] then None else Some t)"

definition text_of :: "pyval \<Rightarrow> string option" where
  "text_of v = (case v of PNone \<Rightarrow> None | _ \<Rightarrow> nonblank (py_str v))"

definition group_of :: "(string, string) dict option \<Rightarrow> string \<Rightarrow> string option" where
  "group_of m name = (case m of None \<Rightarrow> None | Some g \<Rightarrow>
     (case dict_get g name of None \<Rightarrow> None | Some s \<Rightarrow> nonblank s))"

definition flatten_snmp :: "(string \<times> string) list \<Rightarrow> string" where
  "flatten_snmp rows = join_with [LF] (map (\<lambda>(oid, v). oid @ ''='' @ v) rows)"

definition snmp_value :: "string \<Rightarrow> string \<Rightarrow> string option" where
  "snmp_value text token =
     (if \<not> contains (lower token) (lower text) then None
      else case find (\<lambda>line. contains (lower token) (lower line)) (splitlines text) of
             None \<Rightarrow> None
           | Some line \<Rightarrow> Some (strip (case after_first CHR ''='' line of None \<Rightarrow> line | Some v \<Rightarrow> v)))"

definition http_value :: "string \<Rightarrow> string \<Rightarrow> string option" where
  "http_value text label =
     (case re_search (http_re label) text of
        None \<Rightarrow> None
      | Some g \<Rightarrow> map_option strip (dict_get g ''value''))"

definition stack_members :: "string \<Rightarrow> string list" where
  "stack_members output =
     map strip (filter (\<lambda>line. starts_with ''*'' (strip line) \<and> contains ''switch'' (lower line)) (splitlines output))"

definition first_index :: "string list \<Rightarrow> string list \<Rightarrow> nat option" where
  "first_index parts candidates =
     find (\<lambda>i. lower (parts ! i) \<in> set candidates) [0..<length parts]"

definition speed_to_mbps :: "string \<Rightarrow> int option" where
  "speed_to_mbps value =
     (let s = lower (strip value)
      in if s \<in> {''auto'', ''a-100'', ''100''} then Some 100
         else if s \<in> {''a-1000'', ''1000'', ''1g''} then Some 1000
         else if s \<noteq> [] \<and> last s = CHR ''g'' \<and> isdigit (butlast s) then map_option (\<lambda>n. n * 1000) (int_of_text (butlast s))
         else if isdigit s then int_of_text s else None)"

section \<open>Records\<close>

record ParsedRecord =
  record_kind :: string
  record_payload :: "(string, pyval) dict"

datatype ParserInputFormat = FORMAT_TEXT | FORMAT_JSON | FORMAT_XML | FORMAT_KEY_VALUE

record ParserContext =
  parser_source :: string
  parser_input_format :: ParserInputFormat
  parser_name_hint :: "string option"

record ParserResult =
  result_parser_name :: string
  result_source :: string
  result_input_format :: ParserInputFormat
  result_records :: "ParsedRecord list"
  result_captured_at :: time
  result_metadata :: "(string, pyval) dict"

definition opt_text :: "string option \<Rightarrow> pyval" where
  "opt_text v = (case v of None \<Rightarrow> PNone | Some s \<Rightarrow> PStr s)"

definition opt_int :: "int option \<Rightarrow> pyval" where
  "opt_int v = (case v of None \<Rightarrow> PNone | Some i \<Rightarrow> PInt i)"

subsection \<open>The device\<close>

definition command_output :: "(string, string) dict \<Rightarrow> string \<Rightarrow> string" where
  "command_output commands c = (case dict_get commands c of None \<Rightarrow> [] | Some s \<Rightarrow> s)"

definition snmp_rows :: "(string, (string \<times> string) list) dict \<Rightarrow> string \<Rightarrow> (string \<times> string) list" where
  "snmp_rows payloads table = (case dict_get payloads table of None \<Rightarrow> [] | Some rs \<Rightarrow> rs)"

definition device_fields ::
  "string \<Rightarrow> string option \<Rightarrow> (string, pyval) dict \<Rightarrow> (string, pyval) dict \<Rightarrow> (string, string) dict \<Rightarrow>
   (string, string) dict \<Rightarrow> (string, (string \<times> string) list) dict \<Rightarrow> (string, pyval) dict" where
  "device_fields device_id management_ip metadata raw commands http snmp =
     (let show_version = command_output commands ''show version'';
          show_inventory = command_output commands ''show inventory'';
          http_text = join_with [LF] (dict_values http);
          system_snmp = flatten_snmp (snmp_rows snmp ''system'');
          inventory_match = re_search INVENTORY_RE show_inventory;
          hostname_match = re_search HOSTNAME_UPTIME_RE show_version;
          hostname = text_or (text_or (text_or (text_of (dict_lookup metadata ''hostname'')) (group_of hostname_match ''hostname''))
            (snmp_value system_snmp ''sysName'')) (Some device_id);
          product_id = text_or (text_or (text_of (dict_lookup metadata ''product_id'')) (group_of inventory_match ''pid''))
            (http_value http_text ''product id'');
          model = text_or (text_or (text_or (text_of (dict_lookup metadata ''model''))
            (group_of (re_search MODEL_RE show_version) ''model'')) product_id) (http_value http_text ''model'');
          serial_number = text_or (text_or (text_or (text_of (dict_lookup metadata ''serial_number''))
            (group_of (re_search SYSTEM_SERIAL_RE show_version) ''serial'')) (group_of inventory_match ''serial''))
            (http_value http_text ''serial'');
          software_version = text_or (text_or (group_of (re_search VERSION_RE show_version) ''version'')
            (http_value http_text ''version'')) (snmp_value system_snmp ''sysDescr'')
      in [(''device_id'', PStr device_id), (''name'', opt_text hostname), (''manufacturer'', PStr ''Cisco''),
          (''model'', opt_text model), (''serial_number'', opt_text serial_number),
          (''product_id'', opt_text product_id), (''management_ip'', opt_text management_ip),
          (''base_mac'', opt_text (text_or (group_of (re_search BASE_MAC_RE show_version) ''mac'')
             (http_value http_text ''base mac''))),
          (''software_version'', opt_text software_version),
          (''uptime'', opt_text (text_or (group_of hostname_match ''uptime'') (snmp_value system_snmp ''sysUpTime''))),
          (''hardware_revision'', opt_text (text_or (group_of inventory_match ''vid'')
             (group_of (re_search HARDWARE_RE show_version) ''hardware''))),
          (''platform'', (case dict_get raw ''parser_family'' of Some v \<Rightarrow> v | None \<Rightarrow> dict_lookup raw ''platform_family'')),
          (''stack_members'', PList (map PStr (stack_members show_version)))])"

subsection \<open>Interfaces\<close>

definition link_states :: "string list" where
  "link_states = [''connected'', ''notconnect'', ''disabled'', ''err-disabled'', ''inactive'']"

definition interface_line :: "string \<Rightarrow> string \<Rightarrow> ParsedRecord option" where
  "interface_line device_id raw_line =
     (let line = rstrip raw_line; parts = split_words line
      in if line = [] \<or> starts_with ''port '' (lower line) \<or> starts_with ''---'' (lower line) then None
         else if length parts < 4 then None
         else case first_index parts link_states of
           None \<Rightarrow> None
         | Some i \<Rightarrow>
             (let description = join_with '' '' (take (i - 1) (drop 1 parts))
              in Some \<lparr>record_kind = ''interface'',
                   record_payload =
                     [(''device_id'', PStr device_id), (''name'', PStr (parts ! 0)),
                      (''description'', if description = [] then PNone else PStr description),
                      (''oper_status'', PStr (parts ! i)),
                      (''admin_status'', PStr (if parts ! i = ''connected'' then ''up'' else ''down'')),
                      (''speed_mbps'', opt_int (speed_to_mbps (parts ! (length parts - 2))))]\<rparr>))"

definition parse_interface_status :: "string \<Rightarrow> string \<Rightarrow> ParsedRecord list" where
  "parse_interface_status device_id output = List.map_filter (interface_line device_id) (splitlines output)"

definition interface_records ::
  "string \<Rightarrow> (string, string) dict \<Rightarrow> (string, (string \<times> string) list) dict \<Rightarrow> ParsedRecord list" where
  "interface_records device_id commands snmp =
     (let records = parse_interface_status device_id (command_output commands ''show interfaces status'')
      in if records \<noteq> [] then records
         else map (\<lambda>(oid, v). \<lparr>record_kind = ''interface'', record_payload =
                [(''device_id'', PStr device_id), (''name'', PStr (after_last CHR ''.'' oid)), (''description'', PStr v)]\<rparr>)
              (filter (\<lambda>(oid, v). strip v \<noteq> []) (take 128 (snmp_rows snmp ''interfaces''))))"

subsection \<open>VLANs\<close>

definition vlan_line :: "string \<Rightarrow> string \<Rightarrow> ParsedRecord option" where
  "vlan_line device_id line =
     (let parts = split_words line
      in if length parts < 3 \<or> \<not> isdigit (parts ! 0) then None
         else Some \<lparr>record_kind = ''vlan'', record_payload =
                [(''device_id'', PStr device_id), (''vlan_id'', opt_int (int_of_text (parts ! 0))),
                 (''name'', PStr (parts ! 1)), (''status'', PStr (parts ! 2))]\<rparr>)"

definition vlan_records ::
  "string \<Rightarrow> (string, string) dict \<Rightarrow> (string, (string \<times> string) list) dict \<Rightarrow> ParsedRecord list" where
  "vlan_records device_id commands snmp =
     (let records = List.map_filter (vlan_line device_id) (splitlines (command_output commands ''show vlan brief''))
      in if records \<noteq> [] then records
         else List.map_filter (\<lambda>(i, (oid, v)). if strip v = [] then None
                else Some \<lparr>record_kind = ''vlan'', record_payload =
                  [(''device_id'', PStr device_id), (''vlan_id'', PInt (int i + 1)), (''name'', PStr v)]\<rparr>)
              (enumerate 0 (snmp_rows snmp ''vlans'')))"

subsection \<open>Neighbours\<close>

record neighbor_block =
  block_remote_device :: "string option"
  block_local_interface :: "string option"
  block_remote_interface :: "string option"

definition no_neighbor :: neighbor_block where
  "no_neighbor = \<lparr>block_remote_device = None, block_local_interface = None, block_remote_interface = None\<rparr>"

definition block_record :: "string \<Rightarrow> string \<Rightarrow> neighbor_block \<Rightarrow> ParsedRecord list" where
  "block_record device_id protocol b =
     (case (block_remote_device b, block_local_interface b) of
        (Some r, Some l) \<Rightarrow>
          if r = [] \<or> l = [] then []
          else [\<lparr>record_kind = ''neighbor'', record_payload =
             [(''local_device_id'', PStr device_id), (''local_interface'', PStr l), (''remote_device_id'', PStr r),
              (''remote_interface'', opt_text (block_remote_interface b)), (''protocol'', PStr protocol)]\<rparr>]
      | _ \<Rightarrow> [])"

definition after_colon :: "string \<Rightarrow> string" where
  "after_colon s = (case after_first CHR '':'' s of None \<Rightarrow> [] | Some t \<Rightarrow> t)"

definition neighbor_line :: "string \<Rightarrow> neighbor_block \<Rightarrow> neighbor_block" where
  "neighbor_line stripped b =
     (let low = lower stripped
      in if starts_with ''device id:'' low \<or> starts_with ''system name:'' low
         then b\<lparr>block_remote_device := Some (strip (after_colon stripped))\<rparr>
         else if starts_with ''interface:'' low
         then b\<lparr>block_local_interface := Some (strip (before_first CHR '','' (after_colon stripped)))\<rparr>
         else if starts_with ''port id'' low \<or> starts_with ''port description'' low
         then (if strip (after_colon stripped) = [] then b
               else b\<lparr>block_remote_interface := Some (strip (after_colon stripped))\<rparr>)
         else b)"

fun neighbor_lines :: "string \<Rightarrow> string \<Rightarrow> neighbor_block \<Rightarrow> string list \<Rightarrow> ParsedRecord list" where
  "neighbor_lines device_id protocol b [] = []"
| "neighbor_lines device_id protocol b (line # lines) =
     (if strip line = [] then block_record device_id protocol b @ neighbor_lines device_id protocol no_neighbor lines
      else neighbor_lines device_id protocol (neighbor_line (strip line) b) lines)"

definition parse_neighbor_detail :: "string \<Rightarrow> string \<Rightarrow> string \<Rightarrow> ParsedRecord list" where
  "parse_neighbor_detail device_id output protocol =
     neighbor_lines device_id protocol no_neighbor (splitlines output @ [[]])"

definition neighbor_records :: "string \<Rightarrow> (string, string) dict \<Rightarrow> ParsedRecord list" where
  "neighbor_records device_id commands =
     parse_neighbor_detail device_id (command_output commands ''show cdp neighbors detail'') ''CDP'' @
     parse_neighbor_detail device_id (command_output commands ''show lldp neighbors detail'') ''LLDP''"

subsection \<open>Power\<close>

definition power_record ::
  "string \<Rightarrow> (string, string) dict \<Rightarrow> (string, (string \<times> string) list) dict \<Rightarrow> ParsedRecord list" where
  "power_record device_id commands snmp =
     (let output = command_output commands ''show power inline''
      in if output \<noteq> [] then
           (let m = re_search POWER_RE output; low = lower output;
                enabled = (\<not> contains ''off'' low \<and> \<not> contains ''disabled'' low)
            in [\<lparr>record_kind = ''power'', record_payload =
                 [(''device_id'', PStr device_id), (''source'', PStr ''poe''),
                  (''status'', PStr (if enabled then ''available'' else ''disabled'')),
                  (''available_watts'', opt_text (group_of m ''available'')),
                  (''consumed_watts'', opt_text (group_of m ''used'')), (''poe_enabled'', PBool enabled)]\<rparr>])
         else if snmp_rows snmp ''poe'' \<noteq> [] then
           [\<lparr>record_kind = ''power'', record_payload =
              [(''device_id'', PStr device_id), (''source'', PStr ''poe''), (''status'', PStr ''observed''),
               (''poe_enabled'', PBool True)]\<rparr>]
         else [])"

section \<open>The parser\<close>

definition cisco_parse :: "time \<Rightarrow> ParserContext \<Rightarrow> pyval \<Rightarrow> string + ParserResult" where
  "cisco_parse now context raw_output =
     (case raw_output of
        PDict raw \<Rightarrow>
          (let target = as_mapping (dict_lookup raw ''target'');
               commands = string_mapping (dict_lookup raw ''commands'');
               http = string_mapping (dict_lookup raw ''http'');
               snmp = snmp_mapping (dict_lookup raw ''snmp'');
               device_id = (case text_of (dict_lookup target ''identifier'') of None \<Rightarrow> parser_source context | Some s \<Rightarrow> s);
               management_ip = text_of (dict_lookup target ''address'');
               metadata = as_mapping (dict_lookup target ''metadata'')
           in Inr \<lparr>result_parser_name = ''cisco-inventory-parser'', result_source = parser_source context,
                result_input_format = parser_input_format context,
                result_records =
                  \<lparr>record_kind = ''device'',
                    record_payload = device_fields device_id management_ip metadata raw commands http snmp\<rparr> #
                  interface_records device_id commands snmp @ vlan_records device_id commands snmp @
                  neighbor_records device_id commands @ power_record device_id commands snmp,
                result_captured_at = now,
                result_metadata = [(''platform_family'', case dict_get raw ''platform_family'' of None \<Rightarrow> PStr [] | Some v \<Rightarrow> v)]\<rparr>)
      | _ \<Rightarrow> Inl ''ParserValidationError'')"

end
