(* ===== verification/Normalization.thy ===== *)
theory Normalization
  imports Cisco_Parser Inventory_Model
begin

text \<open>
  From parser records to a canonical snapshot: the mapper, the validator, the rules and the engine
  (\<^verbatim>\<open>normalization/\<close>), the parser registry and pipeline (\<^verbatim>\<open>parsers/\<close>), and the processing of a collector
  payload that chains them (\<^verbatim>\<open>collectors/runtime/processing.py\<close>). Reading a float is a parameter.
\<close>

section \<open>The mapper\<close>

definition payload_text :: "(string, pyval) dict \<Rightarrow> string \<Rightarrow> string \<Rightarrow> string" where
  "payload_text p k missing = strip (py_str (case dict_get p k of None \<Rightarrow> PStr missing | Some v \<Rightarrow> v))"

definition optional_int :: "pyval \<Rightarrow> int option" where
  "optional_int v = (case v of PNone \<Rightarrow> None | _ \<Rightarrow> int_of_text (py_str v))"

definition optional_float :: "(string \<Rightarrow> rat option) \<Rightarrow> pyval \<Rightarrow> rat option" where
  "optional_float read_float v = (case v of PNone \<Rightarrow> None | _ \<Rightarrow> read_float (strip (py_str v)))"

definition optional_bool :: "pyval \<Rightarrow> bool option" where
  "optional_bool v =
     (case v of
        PBool b \<Rightarrow> Some b
      | PNone \<Rightarrow> None
      | _ \<Rightarrow>
          (let s = lower (strip (py_str v))
           in if s \<in> {''true'', ''yes'', ''enabled'', ''on'', ''1''} then Some True
              else if s \<in> {''false'', ''no'', ''disabled'', ''off'', ''0''} then Some False else None))"

definition nonblank_texts :: "string list \<Rightarrow> string list" where
  "nonblank_texts ss = filter (\<lambda>s. s \<noteq> []) (map strip ss)"

definition mapped_stack_members :: "pyval \<Rightarrow> string list" where
  "mapped_stack_members v =
     (case v of
        PStr s \<Rightarrow> nonblank_texts [s]
      | PList vs \<Rightarrow> nonblank_texts (map py_str vs)
      | PDict d \<Rightarrow> nonblank_texts (map fst d)
      | _ \<Rightarrow> [])"

definition of_kind :: "string \<Rightarrow> string \<Rightarrow> string \<Rightarrow> ParserResult \<Rightarrow> (string, pyval) dict list" where
  "of_kind kind owner device_id r =
     map record_payload (filter (\<lambda>x. record_kind x = kind \<and> payload_text (record_payload x) owner [] = device_id)
       (result_records r))"

definition mapped_interfaces :: "time \<Rightarrow> ParserResult \<Rightarrow> string \<Rightarrow> InterfaceSnapshot list" where
  "mapped_interfaces now r device_id =
     List.map_filter (\<lambda>p. if payload_text p ''name'' [] = [] then None
       else Some \<lparr>ifs_device_id = device_id, ifs_name = payload_text p ''name'' [], ifs_captured_at = now,
         ifs_version = SNAPSHOT_SCHEMA_VERSION, ifs_admin_status = text_of (dict_lookup p ''admin_status''),
         ifs_oper_status = text_of (dict_lookup p ''oper_status''), ifs_description = text_of (dict_lookup p ''description''),
         ifs_mac_address = text_of (dict_lookup p ''mac_address''), ifs_speed_mbps = optional_int (dict_lookup p ''speed_mbps''),
         ifs_poe_status = text_of (dict_lookup p ''poe_status'')\<rparr>)
       (of_kind ''interface'' ''device_id'' device_id r)"

definition mapped_vlans :: "time \<Rightarrow> ParserResult \<Rightarrow> string \<Rightarrow> VLANSnapshot list" where
  "mapped_vlans now r device_id =
     List.map_filter (\<lambda>p.
       case optional_int (dict_lookup p ''vlan_id'') of
         None \<Rightarrow> None
       | Some i \<Rightarrow> if payload_text p ''name'' [] = [] then None
           else Some \<lparr>vs_vlan_id = i, vs_name = payload_text p ''name'' [], vs_captured_at = now,
             vs_version = SNAPSHOT_SCHEMA_VERSION, vs_device_id = Some device_id,
             vs_status = text_of (dict_lookup p ''status'')\<rparr>)
       (of_kind ''vlan'' ''device_id'' device_id r)"

definition mapped_neighbors :: "time \<Rightarrow> ParserResult \<Rightarrow> string \<Rightarrow> NeighborSnapshot list" where
  "mapped_neighbors now r device_id =
     List.map_filter (\<lambda>p.
       let l = payload_text p ''local_interface'' []; d = payload_text p ''remote_device_id'' []
       in if l = [] \<or> d = [] then None
          else Some \<lparr>ns_local_device_id = device_id, ns_local_interface = l, ns_remote_device_id = d,
            ns_remote_interface = text_of (dict_lookup p ''remote_interface''),
            ns_protocol = text_of (dict_lookup p ''protocol''), ns_captured_at = now,
            ns_version = SNAPSHOT_SCHEMA_VERSION\<rparr>)
       (of_kind ''neighbor'' ''local_device_id'' device_id r)"

definition mapped_power :: "(string \<Rightarrow> rat option) \<Rightarrow> time \<Rightarrow> ParserResult \<Rightarrow> string \<Rightarrow> PowerSnapshot option" where
  "mapped_power read_float now r device_id =
     (case of_kind ''power'' ''device_id'' device_id r of
        [] \<Rightarrow> None
      | p # _ \<Rightarrow>
          Some \<lparr>ps_device_id = device_id,
            ps_source = (let s = payload_text p ''source'' ''poe'' in if s = [] then ''poe'' else s),
            ps_captured_at = now, ps_version = SNAPSHOT_SCHEMA_VERSION, ps_status = text_of (dict_lookup p ''status''),
            ps_available_watts = optional_float read_float (dict_lookup p ''available_watts''),
            ps_consumed_watts = optional_float read_float (dict_lookup p ''consumed_watts''),
            ps_poe_enabled = optional_bool (dict_lookup p ''poe_enabled'')\<rparr>)"

definition mapped_device :: "(string \<Rightarrow> rat option) \<Rightarrow> time \<Rightarrow> ParserResult \<Rightarrow> (string, pyval) dict \<Rightarrow> DeviceSnapshot" where
  "mapped_device read_float now r p =
     (let device_id = payload_text p ''device_id'' []; field = (\<lambda>k. text_of (dict_lookup p k))
      in \<lparr>ds_device_id = device_id, ds_name = payload_text p ''name'' [], ds_captured_at = now,
          ds_version = SNAPSHOT_SCHEMA_VERSION, ds_manufacturer = field ''manufacturer'', ds_model = field ''model'',
          ds_serial_number = field ''serial_number'', ds_product_id = field ''product_id'',
          ds_management_ip = field ''management_ip'', ds_base_mac = field ''base_mac'',
          ds_software_version = field ''software_version'', ds_uptime = field ''uptime'',
          ds_hardware_revision = field ''hardware_revision'', ds_platform = field ''platform'',
          ds_stack_members = mapped_stack_members (dict_lookup p ''stack_members''),
          ds_interfaces = mapped_interfaces now r device_id, ds_vlans = mapped_vlans now r device_id, ds_mac_table = [],
          ds_neighbors = mapped_neighbors now r device_id, ds_power = mapped_power read_float now r device_id\<rparr>)"

definition to_snapshot :: "(string \<Rightarrow> rat option) \<Rightarrow> time \<Rightarrow> ParserResult \<Rightarrow> LiveInventorySnapshot" where
  "to_snapshot read_float now r =
     \<lparr>live_devices = map (\<lambda>x. mapped_device read_float now r (record_payload x))
        (filter (\<lambda>x. record_kind x = ''device'') (result_records r)),
      live_captured_at = result_captured_at r, live_version = SNAPSHOT_SCHEMA_VERSION,
      live_source = Some (result_source r)\<rparr>"

section \<open>The validator and the engine\<close>

definition validate_parsed_result :: "bool \<Rightarrow> time \<Rightarrow> ParserResult \<Rightarrow> string + unit" where
  "validate_parsed_result allow_empty_records now r =
     (if result_captured_at r > now + 1000000 then Inl ''ParserValidationError''
      else if \<not> allow_empty_records \<and> result_records r = [] then Inl ''ParserValidationError''
      else Inr ())"

fun validate_devices :: "string list \<Rightarrow> DeviceSnapshot list \<Rightarrow> string + unit" where
  "validate_devices seen [] = Inr ()"
| "validate_devices seen (d # ds) =
     (if strip (ds_device_id d) = [] then Inl ''ParserValidationError''
      else if ds_device_id d \<in> set seen then Inl ''ParserValidationError''
      else validate_devices (ds_device_id d # seen) ds)"

text \<open>A rule looks at the result and may raise.\<close>

type_synonym NormalizationRule = "ParserResult \<Rightarrow> string + unit"

fun apply_all :: "(string \<times> NormalizationRule) list \<Rightarrow> ParserResult \<Rightarrow> string + string list" where
  "apply_all [] r = Inr []"
| "apply_all ((name, rule) # rules) r =
     bind_result (rule r) (\<lambda>_. bind_result (apply_all rules r) (\<lambda>names. Inr (name # names)))"

record NormalizationEngine =
  engine_float :: "string \<Rightarrow> rat option"
  engine_allow_empty :: bool
  engine_rules :: "(string, NormalizationRule) dict"

definition register_rule :: "string \<Rightarrow> NormalizationRule \<Rightarrow> NormalizationEngine \<Rightarrow> NormalizationEngine" where
  "register_rule name rule e = e\<lparr>engine_rules := dict_set name rule (engine_rules e)\<rparr>"

record NormalizationResult =
  normalized_snapshot :: LiveInventorySnapshot
  applied_rules :: "string list"

definition normalize_parsed :: "NormalizationEngine \<Rightarrow> time \<Rightarrow> ParserResult \<Rightarrow> string + NormalizationResult" where
  "normalize_parsed e now r =
     bind_result (validate_parsed_result (engine_allow_empty e) now r) (\<lambda>_.
     bind_result (apply_all (engine_rules e) r) (\<lambda>applied.
     let snapshot = to_snapshot (engine_float e) now r
     in bind_result (validate_devices [] (live_devices snapshot)) (\<lambda>_.
        Inr \<lparr>normalized_snapshot = snapshot, applied_rules = applied\<rparr>)))"

section \<open>Parsers and the pipeline\<close>

record Parser =
  parser_name :: string
  supported_formats :: "ParserInputFormat list"
  parse :: "time \<Rightarrow> ParserContext \<Rightarrow> pyval \<Rightarrow> string + ParserResult"

type_synonym ParserRegistry = "(string, Parser) dict"

definition parser_register :: "Parser \<Rightarrow> ParserRegistry \<Rightarrow> string + ParserRegistry" where
  "parser_register p r =
     (if parser_name p \<in> set (dict_keys r) then Inl ''ParserRegistrationError''
      else Inr (dict_set (parser_name p) p r))"

definition parser_get :: "ParserRegistry \<Rightarrow> string \<Rightarrow> string + Parser" where
  "parser_get r name = (case dict_get r name of None \<Rightarrow> Inl ''ParserRegistrationError'' | Some p \<Rightarrow> Inr p)"

definition parser_select :: "ParserRegistry \<Rightarrow> ParserInputFormat \<Rightarrow> Parser list" where
  "parser_select r f = filter (\<lambda>p. f \<in> set (supported_formats p)) (dict_values r)"

definition resolve_parser :: "ParserRegistry \<Rightarrow> ParserContext \<Rightarrow> string + Parser" where
  "resolve_parser r context =
     (case parser_name_hint context of
        Some name \<Rightarrow> parser_get r name
      | None \<Rightarrow>
          (case parser_select r (parser_input_format context) of
             [] \<Rightarrow> Inl ''ParserConfigurationError''
           | p # _ \<Rightarrow> Inr p))"

definition pipeline_parse :: "ParserRegistry \<Rightarrow> time \<Rightarrow> ParserContext \<Rightarrow> pyval \<Rightarrow> string + ParserResult" where
  "pipeline_parse r now context raw_output =
     bind_result (resolve_parser r context) (\<lambda>p.
     case parse p now context raw_output of
       Inl e \<Rightarrow> Inl ''ParserExecutionError''
     | Inr x \<Rightarrow> Inr x)"

definition CiscoInventoryParser :: Parser where
  "CiscoInventoryParser =
     \<lparr>parser_name = ''cisco-inventory-parser'', supported_formats = [FORMAT_JSON], parse = cisco_parse\<rparr>"

definition process_collector_payload ::
  "ParserRegistry \<Rightarrow> NormalizationEngine \<Rightarrow> time \<Rightarrow> time \<Rightarrow> string \<Rightarrow> string option \<Rightarrow> pyval \<Rightarrow>
   string + ParserResult \<times> NormalizationResult" where
  "process_collector_payload parsers e parsed_at normalized_at source name raw_payload =
     bind_result (pipeline_parse parsers parsed_at
       \<lparr>parser_source = source, parser_input_format = FORMAT_JSON, parser_name_hint = name\<rparr> raw_payload) (\<lambda>parsed.
     bind_result (normalize_parsed e normalized_at parsed) (\<lambda>normalized.
     Inr (parsed, normalized)))"

section \<open>Normalised snapshots are well typed\<close>

definition owned_device :: "DeviceSnapshot \<Rightarrow> bool" where
  "owned_device d \<longleftrightarrow>
     strip (ds_device_id d) \<noteq> [] \<and>
     (\<forall>i \<in> set (ds_interfaces d). ifs_device_id i = ds_device_id d \<and> ifs_name i \<noteq> []) \<and>
     (\<forall>v \<in> set (ds_vlans d). vs_device_id v = Some (ds_device_id d) \<and> vs_name v \<noteq> []) \<and>
     (\<forall>n \<in> set (ds_neighbors d). ns_local_device_id n = ds_device_id d \<and> ns_local_interface n \<noteq> [] \<and> ns_remote_device_id n \<noteq> []) \<and>
     (case ds_power d of None \<Rightarrow> True | Some p \<Rightarrow> ps_device_id p = ds_device_id d \<and> ps_source p \<noteq> [])"

definition well_typed_snapshot :: "LiveInventorySnapshot \<Rightarrow> bool" where
  "well_typed_snapshot s \<longleftrightarrow>
     distinct (map ds_device_id (live_devices s)) \<and> (\<forall>d \<in> set (live_devices s). owned_device d)"

lemma strip_strip [simp]: "strip (strip s) = strip s"
  using dropWhile_prefix [of is_space "dropWhile is_space s"] by (simp add: strip_def)

lemma payload_text_strip [simp]: "strip (payload_text p k x) = payload_text p k x"
  by (simp add: payload_text_def)

lemma in_map_filter: "y \<in> set (List.map_filter f xs) \<longleftrightarrow> (\<exists>x \<in> set xs. f x = Some y)"
  by (induction xs) (auto simp: List.map_filter_simps split: option.split)

lemma validate_devices_iff:
  "validate_devices seen ds = Inr () \<longleftrightarrow>
     (\<forall>d \<in> set ds. strip (ds_device_id d) \<noteq> []) \<and> distinct (map ds_device_id ds) \<and>
     set (map ds_device_id ds) \<inter> set seen = {}"
  by (induction seen ds rule: validate_devices.induct) auto

lemma mapped_interface_owned:
  "i \<in> set (mapped_interfaces now r d) \<Longrightarrow> ifs_device_id i = d \<and> ifs_name i \<noteq> [] \<and> ifs_captured_at i = now"
  by (auto simp: mapped_interfaces_def in_map_filter split: if_split_asm)

lemma mapped_vlan_owned:
  "v \<in> set (mapped_vlans now r d) \<Longrightarrow> vs_device_id v = Some d \<and> vs_name v \<noteq> [] \<and> vs_captured_at v = now"
  by (auto simp: mapped_vlans_def in_map_filter split: if_split_asm option.split_asm)

lemma mapped_neighbor_owned:
  "n \<in> set (mapped_neighbors now r d) \<Longrightarrow>
     ns_local_device_id n = d \<and> ns_local_interface n \<noteq> [] \<and> ns_remote_device_id n \<noteq> [] \<and>
       strip (ns_remote_device_id n) \<noteq> [] \<and> ns_captured_at n = now"
  by (auto simp: mapped_neighbors_def in_map_filter Let_def split: if_split_asm)

lemma mapped_power_owned:
  "mapped_power f now r d = Some p \<Longrightarrow> ps_device_id p = d \<and> ps_source p \<noteq> [] \<and> ps_captured_at p = now"
  by (auto simp: mapped_power_def Let_def split: list.split_asm if_split_asm)

lemma mapped_device_owned:
  "strip (ds_device_id (mapped_device f now r p)) \<noteq> [] \<Longrightarrow> owned_device (mapped_device f now r p)"
  unfolding owned_device_def
  by (auto simp: mapped_device_def Let_def split: option.split
      dest: mapped_interface_owned mapped_vlan_owned mapped_neighbor_owned mapped_power_owned)

lemma normalize_InrD:
  assumes "normalize_parsed e now r = Inr n"
  shows "normalized_snapshot n = to_snapshot (engine_float e) now r" "result_captured_at r \<le> now + 1000000"
    "validate_devices [] (live_devices (normalized_snapshot n)) = Inr ()"
  using assms by (auto simp: normalize_parsed_def validate_parsed_result_def bind_result_Inr_iff Let_def split: if_split_asm)

text \<open>
  A normalised snapshot is well typed, whatever the parser produced: there is a device for every
  device record, device identities are present and distinct, and every interface, VLAN, neighbour and
  power record of a device carries its identity and the names it needs.
\<close>

theorem normalized_snapshot_well_typed:
  assumes "normalize_parsed e now r = Inr n"
  shows "well_typed_snapshot (normalized_snapshot n) \<and>
    length (live_devices (normalized_snapshot n)) = length (filter (\<lambda>x. record_kind x = ''device'') (result_records r))"
proof -
  have "(\<forall>d \<in> set (live_devices (normalized_snapshot n)). strip (ds_device_id d) \<noteq> [])"
      "distinct (map ds_device_id (live_devices (normalized_snapshot n)))"
    using normalize_InrD(3) [OF assms] by (simp_all add: validate_devices_iff)
  then show ?thesis
    using mapped_device_owned normalize_InrD(1) [OF assms] by (auto simp: well_typed_snapshot_def to_snapshot_def)
qed

end
