(* ===== verification/Cisco_Inventory.thy ===== *)
theory Cisco_Inventory
  imports Normalization
begin

text \<open>
  The way of a Cisco payload through parser, pipeline and normalisation engine: which payloads become
  snapshots, and what of the devices' tables arrives in them.
\<close>

section \<open>Texts that need no stripping\<close>

lemma dropWhile_none: "\<forall>c \<in> set s. \<not> p c \<Longrightarrow> dropWhile p s = s"
  by (cases s) auto

lemma strip_plain: "\<forall>c \<in> set s. \<not> is_space c \<Longrightarrow> strip s = s"
  by (simp add: strip_def dropWhile_none)

lemma strip_word: "word w \<Longrightarrow> strip w = w"
  by (simp add: word_def strip_plain)

lemma digit_no_space: "is_digit c \<Longrightarrow> \<not> is_space c"
  by (auto simp: is_digit_def is_space_def)

lemma word_str_nat: "word (str_nat n)"
  using str_nat_spec [of n] by (auto simp: word_def list_all_iff dest: digit_no_space)

lemma int_of_str_nat [simp]: "int_of_text (str_nat n) = Some (int n)"
proof (cases "str_nat n")
  case Nil
  then show ?thesis using str_nat_spec [of n] by simp
next
  case (Cons c cs)
  then have "is_digit c" using str_nat_spec [of n] by simp
  then have "c \<noteq> CHR ''-''" "c \<noteq> CHR ''+''" by (auto simp: is_digit_def)
  moreover have "parse_number 10 (c # cs) = Some n" using parse_str_nat [of n] Cons by simp
  moreover have "strip (str_nat n) = c # cs" using strip_word [OF word_str_nat, of n] Cons by (simp only:)
  ultimately show ?thesis by (simp add: int_of_text_def)
qed

lemma optional_int_nat [simp]: "optional_int (opt_int (Some (int n))) = Some (int n)"
  by (simp add: optional_int_def opt_int_def py_str_def str_int_def)

definition trimmed :: "string option \<Rightarrow> bool" where
  "trimmed t = (\<forall>s. t = Some s \<longrightarrow> strip s = s)"

lemma trimmed_nonblank: "trimmed (nonblank s)"
  by (simp add: trimmed_def nonblank_def Let_def)

lemma trimmed_parts:
  "trimmed (text_of v)" "trimmed (group_of m g)" "trimmed (snmp_value t k)"
  "trimmed a \<Longrightarrow> trimmed b \<Longrightarrow> trimmed (text_or a b)"
  using trimmed_nonblank
  by (auto simp: text_of_def group_of_def snmp_value_def trimmed_def text_or_def split: pyval.split option.split_asm if_split_asm)

lemma text_or_default:
  assumes "trimmed a" "strip s \<noteq> []"
  shows "\<exists>t. text_or a (Some s) = Some t \<and> strip t \<noteq> []"
  using assms by (auto simp: text_or_def trimmed_def split: option.split)

section \<open>The records of a payload\<close>

lemma map_filter_kinds: "\<forall>x y. f x = Some y \<longrightarrow> record_kind y = k \<Longrightarrow> \<forall>y \<in> set (List.map_filter f xs). record_kind y = k"
  by (auto simp: in_map_filter)

lemma interface_line_kind: "interface_line d line = Some x \<Longrightarrow> record_kind x = ''interface''"
  unfolding interface_line_def Let_def by (auto split: if_split_asm option.split_asm)

lemma interface_kinds: "\<forall>x \<in> set (interface_records d c s). record_kind x = ''interface''"
  using interface_line_kind by (auto simp: interface_records_def parse_interface_status_def in_map_filter Let_def)

lemma vlan_kinds: "\<forall>x \<in> set (vlan_records d c s). record_kind x = ''vlan''"
  by (auto simp: vlan_records_def vlan_line_def in_map_filter Let_def split: if_split_asm)

lemma neighbor_kinds: "\<forall>x \<in> set (neighbor_records d c). record_kind x = ''neighbor''"
proof -
  have "\<forall>x \<in> set (neighbor_lines d p b ls). record_kind x = ''neighbor''" for p b ls
    by (induction d p b ls rule: neighbor_lines.induct) (auto simp: block_record_def split: option.split_asm if_split_asm)
  then show ?thesis by (auto simp: neighbor_records_def parse_neighbor_detail_def)
qed

lemma power_kinds: "\<forall>x \<in> set (power_record d c s). record_kind x = ''power''"
  by (auto simp: power_record_def Let_def)

lemmas record_kinds = interface_kinds vlan_kinds neighbor_kinds power_kinds

text \<open>The identity a payload gives its device: that of its target, or else the source it came from.\<close>

definition payload_identity :: "string \<Rightarrow> (string, pyval) dict \<Rightarrow> string" where
  "payload_identity source raw =
     (case text_of (dict_lookup (as_mapping (dict_lookup raw ''target'')) ''identifier'') of None \<Rightarrow> source | Some s \<Rightarrow> s)"

lemma payload_identity_nonblank: "strip source \<noteq> [] \<Longrightarrow> strip (payload_identity source raw) \<noteq> []"
  using trimmed_parts(1) unfolding payload_identity_def
  by (auto simp: text_of_def nonblank_def Let_def split: option.split pyval.split_asm if_split_asm)

definition device_hostname ::
  "string \<Rightarrow> (string, pyval) dict \<Rightarrow> (string, string) dict \<Rightarrow> (string, (string \<times> string) list) dict \<Rightarrow> string option" where
  "device_hostname d metadata commands snmp =
     text_or (text_or (text_or (text_of (dict_lookup metadata ''hostname''))
       (group_of (re_search HOSTNAME_UPTIME_RE (command_output commands ''show version'')) ''hostname''))
       (snmp_value (flatten_snmp (snmp_rows snmp ''system'')) ''sysName'')) (Some d)"

lemma device_fields_get:
  "dict_get (device_fields d ip m raw c h s) ''device_id'' = Some (PStr d)"
  "dict_get (device_fields d ip m raw c h s) ''name'' = Some (opt_text (device_hostname d m c s))"
  "dict_get (device_fields d ip m raw c h s) ''manufacturer'' = Some (PStr ''Cisco'')"
  by (simp_all only: device_fields_def device_hostname_def Let_def dict_get_def map_of.simps fst_conv snd_conv fun_upd_apply
      list.inject char.inject simp_thms if_True if_False list.distinct)

lemma device_hostname_nonblank:
  assumes "strip d \<noteq> []"
  shows "\<exists>t. device_hostname d m c s = Some t \<and> strip t \<noteq> []"
  unfolding device_hostname_def by (intro text_or_default trimmed_parts assms)

lemma device_fields_texts:
  "payload_text (device_fields d ip m raw c h s) ''device_id'' [] = strip d"
  "strip d \<noteq> [] \<Longrightarrow> payload_text (device_fields d ip m raw c h s) ''name'' [] \<noteq> []"
  "text_of (dict_lookup (device_fields d ip m raw c h s) ''manufacturer'') = Some ''Cisco''"
  using device_hostname_nonblank [of d m c s]
  by (auto simp: payload_text_def dict_lookup_def device_fields_get py_str_def opt_text_def text_of_def nonblank_def
      strip_plain is_space_def)

definition payload_device :: "string \<Rightarrow> (string, pyval) dict \<Rightarrow> (string, pyval) dict" where
  "payload_device source raw =
     (let target = as_mapping (dict_lookup raw ''target'')
      in device_fields (payload_identity source raw) (text_of (dict_lookup target ''address''))
           (as_mapping (dict_lookup target ''metadata'')) raw (string_mapping (dict_lookup raw ''commands''))
           (string_mapping (dict_lookup raw ''http'')) (snmp_mapping (dict_lookup raw ''snmp'')))"

definition payload_tables :: "string \<Rightarrow> (string, pyval) dict \<Rightarrow> ParsedRecord list" where
  "payload_tables source raw =
     (let d = payload_identity source raw; c = string_mapping (dict_lookup raw ''commands'');
          s = snmp_mapping (dict_lookup raw ''snmp'')
      in interface_records d c s @ vlan_records d c s @ neighbor_records d c @ power_record d c s)"

lemma cisco_parse_dict:
  "cisco_parse now context (PDict raw) = Inr \<lparr>result_parser_name = ''cisco-inventory-parser'',
     result_source = parser_source context, result_input_format = parser_input_format context,
     result_records = \<lparr>record_kind = ''device'', record_payload = payload_device (parser_source context) raw\<rparr> #
       payload_tables (parser_source context) raw,
     result_captured_at = now,
     result_metadata = [(''platform_family'', case dict_get raw ''platform_family'' of None \<Rightarrow> PStr [] | Some v \<Rightarrow> v)]\<rparr>"
  by (simp only: cisco_parse_def payload_device_def payload_tables_def payload_identity_def pyval.case Let_def)

lemma payload_tables_kinds: "\<forall>x \<in> set (payload_tables source raw). record_kind x \<noteq> ''device''"
  using record_kinds unfolding payload_tables_def Let_def by (auto dest: bspec)

lemma filter_payload_tables: "filter (\<lambda>x. record_kind x = ''device'') (payload_tables source raw) = []"
  using payload_tables_kinds by (auto simp: filter_empty_conv)


section \<open>Every Cisco payload becomes one device\<close>

definition rules_accept :: "NormalizationEngine \<Rightarrow> bool" where
  "rules_accept e \<longleftrightarrow> (\<forall>(name, rule) \<in> set (engine_rules e). \<forall>r. rule r = Inr ())"

lemma apply_all_accept: "\<forall>(name, rule) \<in> set rules. \<forall>r. rule r = Inr () \<Longrightarrow> apply_all rules r = Inr (map fst rules)"
  by (induction rules) auto

definition cisco_context :: "string \<Rightarrow> string option \<Rightarrow> ParserContext" where
  "cisco_context source name =
     \<lparr>parser_source = source, parser_input_format = FORMAT_JSON, parser_name_hint = name\<rparr>"

definition cisco_result :: "time \<Rightarrow> string \<Rightarrow> string option \<Rightarrow> (string, pyval) dict \<Rightarrow> ParserResult" where
  "cisco_result t source name raw = projr (cisco_parse t (cisco_context source name) (PDict raw))"

lemma cisco_result_parts:
  "cisco_parse t (cisco_context source name) (PDict raw) = Inr (cisco_result t source name raw)"
  "result_records (cisco_result t source name raw) =
     \<lparr>record_kind = ''device'', record_payload = payload_device source raw\<rparr> # payload_tables source raw"
  "result_captured_at (cisco_result t source name raw) = t"
  "result_source (cisco_result t source name raw) = source"
  by (simp_all add: cisco_result_def cisco_parse_dict cisco_context_def)

definition cisco_device :: "(string \<Rightarrow> rat option) \<Rightarrow> time \<Rightarrow> ParserResult \<Rightarrow> string \<Rightarrow> (string, pyval) dict \<Rightarrow> DeviceSnapshot" where
  "cisco_device f now r source raw = mapped_device f now r (payload_device source raw)"

lemma cisco_device_parts:
  "ds_device_id (cisco_device f now r source raw) = strip (payload_identity source raw)"
  "strip source \<noteq> [] \<Longrightarrow> ds_name (cisco_device f now r source raw) \<noteq> []"
  "ds_manufacturer (cisco_device f now r source raw) = Some ''Cisco''"
  "ds_vlans (cisco_device f now r source raw) = mapped_vlans now r (strip (payload_identity source raw))"
  using device_fields_texts payload_identity_nonblank
  by (simp_all add: cisco_device_def mapped_device_def payload_device_def Let_def)

lemma process_cisco:
  assumes "strip source \<noteq> []" "rules_accept e" "t \<le> now"
    and "resolve_parser parsers (cisco_context source name) = Inr CiscoInventoryParser"
  shows "\<exists>n. process_collector_payload parsers e t now source name (PDict raw) = Inr (cisco_result t source name raw, n) \<and>
    live_devices (normalized_snapshot n) = [cisco_device (engine_float e) now (cisco_result t source name raw) source raw] \<and>
    live_source (normalized_snapshot n) = Some source"
proof -
  let ?r = "cisco_result t source name raw"
  let ?d = "cisco_device (engine_float e) now ?r source raw"
  have p: "pipeline_parse parsers t (cisco_context source name) (PDict raw) = Inr ?r"
    using assms(4) by (simp add: pipeline_parse_def CiscoInventoryParser_def cisco_result_parts)
  have v: "validate_parsed_result (engine_allow_empty e) now ?r = Inr ()"
    using assms(3) by (simp add: validate_parsed_result_def cisco_result_parts)
  have a: "apply_all (engine_rules e) ?r = Inr (map fst (engine_rules e))"
    using assms(2) by (intro apply_all_accept) (simp add: rules_accept_def)
  have s: "live_devices (to_snapshot (engine_float e) now ?r) = [?d]"
    by (simp add: to_snapshot_def cisco_result_parts filter_payload_tables cisco_device_def)
  have "validate_devices [] [?d] = Inr ()"
    using payload_identity_nonblank [OF assms(1)] by (simp add: cisco_device_parts)
  with v a s have "normalize_parsed e now ?r =
      Inr \<lparr>normalized_snapshot = to_snapshot (engine_float e) now ?r, applied_rules = map fst (engine_rules e)\<rparr>"
    by (simp add: normalize_parsed_def Let_def)
  with p s show ?thesis
    by (auto simp: process_collector_payload_def cisco_context_def to_snapshot_def cisco_result_parts)
qed

text \<open>
  No payload of a Cisco collector is lost. Whatever the commands, SNMP walks and pages contain, the
  parser, the pipeline and the normalisation engine turn it into a snapshot of exactly one device: it has
  the identity of the payload's target or else of its source, a name, Cisco as manufacturer, and every
  interface, VLAN, neighbour and power record in it belongs to it.
\<close>

theorem cisco_payload_is_one_device:
  assumes "strip source \<noteq> []" "rules_accept e" "t \<le> now"
    and "resolve_parser parsers (cisco_context source name) = Inr CiscoInventoryParser"
  shows "\<exists>r n d. process_collector_payload parsers e t now source name (PDict raw) = Inr (r, n) \<and>
    live_devices (normalized_snapshot n) = [d] \<and> live_source (normalized_snapshot n) = Some source \<and>
    ds_device_id d = strip (payload_identity source raw) \<and> ds_name d \<noteq> [] \<and> ds_manufacturer d = Some ''Cisco'' \<and>
    owned_device d"
proof -
  obtain n where n: "process_collector_payload parsers e t now source name (PDict raw) = Inr (cisco_result t source name raw, n)"
      "live_devices (normalized_snapshot n) = [cisco_device (engine_float e) now (cisco_result t source name raw) source raw]"
      "live_source (normalized_snapshot n) = Some source"
    using process_cisco [OF assms] by blast
  moreover have "owned_device (cisco_device (engine_float e) now (cisco_result t source name raw) source raw)"
    using mapped_device_owned [of "engine_float e" now _ "payload_device source raw"] payload_identity_nonblank [OF assms(1), of raw]
    by (metis cisco_device_def cisco_device_parts(1) strip_strip)
  ultimately show ?thesis using cisco_device_parts assms(1) by blast
qed

definition plain_engine :: NormalizationEngine where
  "plain_engine = \<lparr>engine_float = (\<lambda>s. map_option of_int (int_of_text s)), engine_allow_empty = False, engine_rules = []\<rparr>"

definition cisco_parsers :: ParserRegistry where
  "cisco_parsers = [(''cisco-inventory-parser'', CiscoInventoryParser)]"

lemma cisco_parsers_resolve: "resolve_parser cisco_parsers (cisco_context source None) = Inr CiscoInventoryParser"
  by (simp add: resolve_parser_def cisco_parsers_def cisco_context_def parser_select_def dict_values_def CiscoInventoryParser_def)

theorem cisco_payload_is_one_device_witness:
  "\<exists>r n d. process_collector_payload cisco_parsers plain_engine 0 5 ''r1'' None (PDict []) = Inr (r, n) \<and>
    live_devices (normalized_snapshot n) = [d] \<and> ds_device_id d = ''r1''"
  using cisco_payload_is_one_device [OF _ _ _ cisco_parsers_resolve, of "''r1''" plain_engine 0 5 "[]"]
  by (auto simp: rules_accept_def plain_engine_def strip_def is_space_def payload_identity_def dict_lookup_def dict_get_def
      as_mapping_def text_of_def)


section \<open>VLAN tables\<close>

text \<open>
  The lines of \<open>show vlan brief\<close>: a VLAN with its number, name, status and ports, or a line that does not
  begin with a number (headings, rules, continued port lists, blank lines).
\<close>

datatype vlan_row = Vlan_Row nat string string "string list" | Other_Line string

text \<open>A column: the text, blanks up to the width, and always one.\<close>

definition column :: "nat \<Rightarrow> string \<Rightarrow> string" where
  "column width s = s @ CHR '' '' # replicate (width - Suc (length s)) CHR '' ''"

fun row_text :: "vlan_row \<Rightarrow> string" where
  "row_text (Vlan_Row i name status ports) =
     column 5 (str_nat i) @ column 33 name @ column 10 status @ join_with '' '' ports"
| "row_text (Other_Line l) = l"

fun row_ok :: "vlan_row \<Rightarrow> bool" where
  "row_ok (Vlan_Row i name status ports) = (word name \<and> word status \<and> list_all word ports)"
| "row_ok (Other_Line l) =
     ((\<forall>c \<in> set l. \<not> is_line_end c) \<and> (case split_words l of [] \<Rightarrow> True | w # _ \<Rightarrow> \<not> isdigit w))"

fun row_vlan :: "vlan_row \<Rightarrow> (int \<times> string \<times> string) option" where
  "row_vlan (Vlan_Row i name status ports) = Some (int i, name, status)"
| "row_vlan (Other_Line l) = None"

definition vlan_table :: "vlan_row list \<Rightarrow> string" where
  "vlan_table rows = concat (map (\<lambda>r. row_text r @ [LF]) rows)"

lemma split_words_column: "word w \<Longrightarrow> split_words (column n w @ s) = w # split_words s"
proof -
  have "split_words (replicate k CHR '' '' @ s) = split_words s" for k by (induction k) (simp_all add: split_words_spaces)
  then show "word w \<Longrightarrow> ?thesis" by (simp add: column_def split_words_word)
qed

lemma word_line: "word w \<Longrightarrow> c \<in> set w \<Longrightarrow> \<not> is_line_end c"
  using line_end_is_space by (auto simp: word_def)

lemma blank_line: "\<not> is_line_end CHR '' ''"
  by (simp add: is_line_end_def)

lemma column_line: "word w \<Longrightarrow> c \<in> set (column n w) \<Longrightarrow> \<not> is_line_end c"
  using word_line blank_line by (auto simp: column_def)

lemma join_words_line: "list_all word ws \<Longrightarrow> c \<in> set (join_with '' '' ws) \<Longrightarrow> \<not> is_line_end c"
  by (induction "'' ''" ws rule: join_with.induct) (auto simp: blank_line dest: word_line)

lemma row_line: "row_ok r \<Longrightarrow> c \<in> set (row_text r) \<Longrightarrow> \<not> is_line_end c"
  using word_str_nat by (cases r) (auto dest: column_line [rotated] join_words_line [rotated])

lemma splitlines_table: "list_all row_ok rows \<Longrightarrow> splitlines (vlan_table rows) = map row_text rows"
  using splitlines_lines [of "map row_text rows"] row_line
  by (auto simp: vlan_table_def comp_def list_all_iff)

definition vlan_parsed :: "string \<Rightarrow> int \<times> string \<times> string \<Rightarrow> ParsedRecord" where
  "vlan_parsed d = (\<lambda>(i, name, status). \<lparr>record_kind = ''vlan'', record_payload =
     [(''device_id'', PStr d), (''vlan_id'', PInt i), (''name'', PStr name), (''status'', PStr status)]\<rparr>)"

lemma vlan_line_row: "row_ok r \<Longrightarrow> vlan_line d (row_text r) = map_option (vlan_parsed d) (row_vlan r)"
proof (cases r)
  case (Vlan_Row i name status ports)
  assume "row_ok r"
  with Vlan_Row have "split_words (row_text r) = str_nat i # name # status # ports"
    by (simp add: split_words_column split_words_join word_str_nat list_all_iff)
  with Vlan_Row show ?thesis by (simp add: vlan_line_def vlan_parsed_def opt_int_def)
next
  case (Other_Line l)
  assume "row_ok r"
  with Other_Line show ?thesis by (cases "split_words l") (auto simp: vlan_line_def Let_def)
qed

lemma map_filter_option: "(\<And>x. x \<in> set xs \<Longrightarrow> f x = map_option g (h x)) \<Longrightarrow> List.map_filter f xs = map g (List.map_filter h xs)"
  by (induction xs) (auto simp: List.map_filter_simps split: option.split)

lemma map_filter_map: "List.map_filter f (map g xs) = List.map_filter (\<lambda>x. f (g x)) xs"
  by (induction xs) (auto simp: List.map_filter_simps split: option.split)

lemma map_filter_all: "(\<And>x. x \<in> set xs \<Longrightarrow> f x = Some (g x)) \<Longrightarrow> List.map_filter f xs = map g xs"
  by (induction xs) (auto simp: List.map_filter_simps)

lemma vlan_records_table:
  assumes "command_output commands ''show vlan brief'' = vlan_table rows" "list_all row_ok rows"
    and "List.map_filter row_vlan rows \<noteq> []"
  shows "vlan_records d commands snmp = map (vlan_parsed d) (List.map_filter row_vlan rows)"
proof -
  have "List.map_filter (vlan_line d) (splitlines (vlan_table rows)) = map (vlan_parsed d) (List.map_filter row_vlan rows)"
    unfolding splitlines_table [OF assms(2)] map_filter_map
    using assms(2) by (intro map_filter_option vlan_line_row) (simp add: list_all_iff)
  then show ?thesis using assms(1,3) by (simp add: vlan_records_def)
qed

lemma filter_other_kind: "\<forall>x \<in> set xs. record_kind x = k \<Longrightarrow> k \<noteq> k' \<Longrightarrow> filter (\<lambda>x. record_kind x = k' \<and> P x) xs = []"
  by (auto simp: filter_empty_conv)

lemma of_kind_vlan:
  assumes "result_records r = \<lparr>record_kind = ''device'', record_payload = content\<rparr> # payload_tables source raw"
    and "vlan_records (payload_identity source raw) (string_mapping (dict_lookup raw ''commands''))
           (snmp_mapping (dict_lookup raw ''snmp'')) = map (vlan_parsed (payload_identity source raw)) vs"
  shows "of_kind ''vlan'' ''device_id'' (strip (payload_identity source raw)) r =
    map (\<lambda>v. record_payload (vlan_parsed (payload_identity source raw) v)) vs"
proof -
  have "filter (\<lambda>x. record_kind x = ''vlan'' \<and> payload_text (record_payload x) ''device_id'' [] = strip d) (map (vlan_parsed d) vs) =
      map (vlan_parsed d) vs" for d
    by (auto simp: filter_id_conv vlan_parsed_def payload_text_def dict_get_def py_str_def)
  then show ?thesis
    using assms by (simp add: of_kind_def payload_tables_def Let_def comp_def
        filter_other_kind [OF interface_kinds] filter_other_kind [OF neighbor_kinds] filter_other_kind [OF power_kinds])
qed

lemma mapped_vlan_parsed:
  assumes "word name" "word status"
  shows "optional_int (dict_lookup (record_payload (vlan_parsed d (int i, name, status))) ''vlan_id'') = Some (int i)"
    "payload_text (record_payload (vlan_parsed d (int i, name, status))) ''name'' [] = name" "name \<noteq> []"
    "text_of (dict_lookup (record_payload (vlan_parsed d (int i, name, status))) ''status'') = Some status"
  using assms strip_word [of name] strip_word [of status] optional_int_nat [of i]
  by (auto simp: vlan_parsed_def dict_lookup_def dict_get_def payload_text_def py_str_def text_of_def nonblank_def word_def opt_int_def)

text \<open>
  C36: the VLANs of a device survive the way from its terminal to the snapshot. When \<open>show vlan brief\<close>
  answers a table that lists at least one VLAN, among headings, rules and continued port lists, the one
  device of the snapshot has exactly these VLANs, with number, name and status, in the order of the table.
\<close>

theorem vlan_table_round_trip:
  assumes "strip source \<noteq> []" "rules_accept e" "t \<le> now"
    and "resolve_parser parsers (cisco_context source name) = Inr CiscoInventoryParser"
    and "command_output (string_mapping (dict_lookup raw ''commands'')) ''show vlan brief'' = vlan_table rows"
    and "list_all row_ok rows" "List.map_filter row_vlan rows \<noteq> []"
  shows "\<exists>r n d. process_collector_payload parsers e t now source name (PDict raw) = Inr (r, n) \<and>
    live_devices (normalized_snapshot n) = [d] \<and>
    map (\<lambda>v. (vs_vlan_id v, vs_name v, vs_status v)) (ds_vlans d) =
      map (\<lambda>(i, name, status). (i, name, Some status)) (List.map_filter row_vlan rows)"
proof -
  let ?vs = "List.map_filter row_vlan rows" and ?d = "payload_identity source raw"
  let ?r = "cisco_result t source name raw"
  have ok: "\<forall>v \<in> set ?vs. \<exists>i n s. v = (int i, n, s) \<and> word n \<and> word s"
  proof
    fix v assume "v \<in> set ?vs"
    then obtain r where "r \<in> set rows" "row_vlan r = Some v" by (auto simp: in_map_filter)
    then have "row_ok r" "row_vlan r = Some v" using assms(6) by (auto simp: list_all_iff)
    then show "\<exists>i n s. v = (int i, n, s) \<and> word n \<and> word s" by (cases r rule: vlan_row.exhaust) auto
  qed
  have "mapped_vlans now ?r (strip ?d) = map (\<lambda>(i, n, s). \<lparr>vs_vlan_id = i, vs_name = n, vs_captured_at = now,
      vs_version = SNAPSHOT_SCHEMA_VERSION, vs_device_id = Some (strip ?d), vs_status = Some s\<rparr>) ?vs"
    unfolding mapped_vlans_def
      of_kind_vlan [OF cisco_result_parts(2) vlan_records_table [OF assms(5-7)]] map_filter_map
    using ok by (intro map_filter_all) (auto simp: mapped_vlan_parsed)
  moreover obtain n where "process_collector_payload parsers e t now source name (PDict raw) = Inr (?r, n)"
      "live_devices (normalized_snapshot n) = [cisco_device (engine_float e) now ?r source raw]"
    using process_cisco [OF assms(1-4)] by blast
  ultimately show ?thesis
    by (auto simp: cisco_device_parts comp_def case_prod_beta)
qed


text \<open>A switch with two VLANs under the usual headings.\<close>

definition sample_vlan_rows :: "vlan_row list" where
  "sample_vlan_rows =
     [Other_Line ''VLAN Name                             Status    Ports'',
      Other_Line ''---- -------------------------------- --------- -------------------------------'',
      Vlan_Row 1 ''default'' ''active'' [''Gi0/1,'', ''Gi0/2''], Other_Line ''                           Gi0/3'',
      Vlan_Row 20 ''users'' ''active'' []]"

definition sample_vlan_payload :: "(string, pyval) dict" where
  "sample_vlan_payload = [(''commands'', PDict [(''show vlan brief'', PStr (vlan_table sample_vlan_rows))])]"

lemma sample_rows_ok: "list_all row_ok sample_vlan_rows"
  by (simp add: sample_vlan_rows_def word_def is_space_def is_line_end_def split_words_def isdigit_def is_digit_def)

theorem vlan_table_round_trip_witness:
  "\<exists>r n d. process_collector_payload cisco_parsers plain_engine 0 5 ''sw1'' None (PDict sample_vlan_payload) = Inr (r, n) \<and>
    live_devices (normalized_snapshot n) = [d] \<and>
    map (\<lambda>v. (vs_vlan_id v, vs_name v, vs_status v)) (ds_vlans d) =
      [(1, ''default'', Some ''active''), (20, ''users'', Some ''active'')]"
proof -
  have "List.map_filter row_vlan sample_vlan_rows = [(1, ''default'', ''active''), (20, ''users'', ''active'')]"
    by (simp add: sample_vlan_rows_def List.map_filter_simps)
  moreover have "command_output (string_mapping (dict_lookup sample_vlan_payload ''commands'')) ''show vlan brief'' =
      vlan_table sample_vlan_rows"
    by (simp add: sample_vlan_payload_def dict_lookup_def dict_get_def string_mapping_def as_mapping_def command_output_def py_str_def)
  ultimately show ?thesis
    using vlan_table_round_trip [OF _ _ _ cisco_parsers_resolve _ sample_rows_ok, of "''sw1''" plain_engine 0 5 sample_vlan_payload]
    by (auto simp: rules_accept_def plain_engine_def strip_def is_space_def)
qed


section \<open>Neighbours\<close>

text \<open>
  CDP prints the local interface and the port of the neighbour on one line. The line is read as the local
  interface only, so the neighbour comes without its port.
\<close>

lemma cdp_port_lost:
  "parse_neighbor_detail ''sw1'' (''Device ID: sw2'' @ [LF] @ ''Interface: Gi0/1,  Port ID (outgoing port): Gi0/24'') ''CDP'' =
     [\<lparr>record_kind = ''neighbor'', record_payload =
         [(''local_device_id'', PStr ''sw1''), (''local_interface'', PStr ''Gi0/1''), (''remote_device_id'', PStr ''sw2''),
          (''remote_interface'', PNone), (''protocol'', PStr ''CDP'')]\<rparr>]"
  by code_simp

text \<open>LLDP names the local interface \<open>Local Intf:\<close>; no line of that name is read, and the neighbour is dropped.\<close>

lemma lldp_neighbor_lost:
  "parse_neighbor_detail ''sw1''
     (''Local Intf: Gi0/1'' @ [LF] @ ''Port id: Gi0/24'' @ [LF] @ ''System Name: sw2'') ''LLDP'' = []"
  by code_simp

text \<open>One port with power switched off makes the power of the whole device count as disabled.\<close>

lemma one_port_off_disables_power:
  "map record_payload (power_record ''sw1'' [(''show power inline'',
     ''Available:370.0(w)  Used:15.4(w)'' @ [LF] @ ''Gi1/0/1 auto on 15.4'' @ [LF] @ ''Gi1/0/2 off off 0.0'')] []) =
   [[(''device_id'', PStr ''sw1''), (''source'', PStr ''poe''), (''status'', PStr ''disabled''),
     (''available_watts'', PStr ''370.0''), (''consumed_watts'', PStr ''15.4''), (''poe_enabled'', PBool False)]]"
  by code_simp

end
