(* ===== verification/Discovery_Pipeline.thy ===== *)
theory Discovery_Pipeline
  imports Cisco_Inventory Execution_Runtime
begin

text \<open>
  The in-process discovery pipeline (\<^verbatim>\<open>discovery/pipeline.py\<close>) with its filters, statistics, engine and
  scheduler, and the integrity check of a snapshot it ends with (\<^verbatim>\<open>snapshot/validation.py\<close>). The
  collectors are those of \<^theory_text>\<open>Execution_Runtime\<close>; the models of \<^verbatim>\<open>snapshot/models.py\<close> have the fields of the
  snapshots they are made from.
\<close>

section \<open>Snapshot integrity\<close>

definition validate_timestamp :: "time \<Rightarrow> time \<Rightarrow> string + unit" where
  "validate_timestamp now t = (if t > now + 1000000 then Inl ''SnapshotValidationError'' else Inr ())"

definition validate_device_identity :: "string \<Rightarrow> string + unit" where
  "validate_device_identity device_id = (if strip device_id = [] then Inl ''SnapshotValidationError'' else Inr ())"

definition validate_version :: "string \<Rightarrow> string \<Rightarrow> string + unit" where
  "validate_version expected actual = (if actual \<noteq> expected then Inl ''SnapshotValidationError'' else Inr ())"

fun each :: "('a \<Rightarrow> 'e + unit) \<Rightarrow> 'a list \<Rightarrow> 'e + unit" where
  "each f [] = Inr ()"
| "each f (x # xs) = bind_result (f x) (\<lambda>_. each f xs)"

definition validate_interface :: "time \<Rightarrow> InterfaceSnapshot \<Rightarrow> string + unit" where
  "validate_interface now i =
     bind_result (validate_device_identity (ifs_device_id i)) (\<lambda>_. validate_timestamp now (ifs_captured_at i))"

definition validate_vlan :: "time \<Rightarrow> VLANSnapshot \<Rightarrow> string + unit" where
  "validate_vlan now v = validate_timestamp now (vs_captured_at v)"

definition validate_mac_table :: "time \<Rightarrow> MACTableSnapshot \<Rightarrow> string + unit" where
  "validate_mac_table now m =
     bind_result (validate_device_identity (ms_device_id m)) (\<lambda>_. validate_timestamp now (ms_captured_at m))"

definition validate_neighbor :: "time \<Rightarrow> NeighborSnapshot \<Rightarrow> string + unit" where
  "validate_neighbor now n =
     bind_result (validate_device_identity (ns_local_device_id n)) (\<lambda>_.
     bind_result (validate_device_identity (ns_remote_device_id n)) (\<lambda>_. validate_timestamp now (ns_captured_at n)))"

definition validate_power :: "time \<Rightarrow> PowerSnapshot \<Rightarrow> string + unit" where
  "validate_power now p =
     bind_result (validate_device_identity (ps_device_id p)) (\<lambda>_. validate_timestamp now (ps_captured_at p))"

definition validate_device :: "time \<Rightarrow> DeviceSnapshot \<Rightarrow> string + unit" where
  "validate_device now d =
     bind_result (validate_device_identity (ds_device_id d)) (\<lambda>_.
     bind_result (validate_timestamp now (ds_captured_at d)) (\<lambda>_.
     bind_result (each (validate_interface now) (ds_interfaces d)) (\<lambda>_.
     bind_result (each (validate_vlan now) (ds_vlans d)) (\<lambda>_.
     bind_result (each (validate_mac_table now) (ds_mac_table d)) (\<lambda>_.
     bind_result (each (validate_neighbor now) (ds_neighbors d)) (\<lambda>_.
     case ds_power d of None \<Rightarrow> Inr () | Some p \<Rightarrow> validate_power now p))))))"

fun validate_each_device :: "time \<Rightarrow> string list \<Rightarrow> DeviceSnapshot list \<Rightarrow> string + unit" where
  "validate_each_device now seen [] = Inr ()"
| "validate_each_device now seen (d # ds) =
     bind_result (validate_device now d) (\<lambda>_.
     if ds_device_id d \<in> set seen then Inl ''SnapshotValidationError''
     else validate_each_device now (ds_device_id d # seen) ds)"

definition validate_snapshot_integrity :: "time \<Rightarrow> LiveInventorySnapshot \<Rightarrow> string + unit" where
  "validate_snapshot_integrity now s =
     bind_result (validate_version SNAPSHOT_SCHEMA_VERSION (live_version s)) (\<lambda>_.
     bind_result (validate_timestamp now (live_captured_at s)) (\<lambda>_.
     validate_each_device now [] (live_devices s)))"

section \<open>Filters\<close>

record DiscoveryContext =
  dc_identifier :: string
  dc_address :: string
  dc_tenant_id :: string
  dc_target_metadata :: payload
  dc_target_capabilities :: "CollectorCapability list"
  dc_required_capabilities :: "CollectorCapability list"
  dc_pipeline_name :: string
  dc_run_id :: uuid
  dc_metadata :: payload

datatype DiscoveryFilter =
    CapabilityDiscoveryFilter "CollectorCapability list"
  | AndDiscoveryFilter "DiscoveryFilter list"
  | OrDiscoveryFilter "DiscoveryFilter list"
  | NotDiscoveryFilter DiscoveryFilter

fun matches :: "DiscoveryFilter \<Rightarrow> DiscoveryContext \<Rightarrow> bool" where
  "matches (CapabilityDiscoveryFilter caps) c =
     (set caps \<subseteq> set (dc_required_capabilities c) \<union> set (dc_target_capabilities c))"
| "matches (AndDiscoveryFilter fs) c = list_all (\<lambda>f. matches f c) fs"
| "matches (OrDiscoveryFilter fs) c = list_ex (\<lambda>f. matches f c) fs"
| "matches (NotDiscoveryFilter f) c = (\<not> matches f c)"

section \<open>Statistics\<close>

record DiscoveryStatistics =
  total_targets :: nat
  processed_targets :: nat
  discovered_targets :: nat
  successful_targets :: nat
  failed_targets :: nat
  skipped_targets :: nat
  stat_started_at :: time
  stat_completed_at :: "time option"

definition mark_started :: "time \<Rightarrow> DiscoveryStatistics \<Rightarrow> DiscoveryStatistics" where
  "mark_started now s = s\<lparr>stat_started_at := now, stat_completed_at := None\<rparr>"

definition mark_total :: "nat \<Rightarrow> DiscoveryStatistics \<Rightarrow> DiscoveryStatistics" where
  "mark_total n s = s\<lparr>total_targets := n\<rparr>"

definition mark_processed :: "DiscoveryStatistics \<Rightarrow> DiscoveryStatistics" where
  "mark_processed s = s\<lparr>processed_targets := processed_targets s + 1\<rparr>"

definition mark_discovered :: "nat \<Rightarrow> DiscoveryStatistics \<Rightarrow> DiscoveryStatistics" where
  "mark_discovered n s = s\<lparr>discovered_targets := discovered_targets s + n\<rparr>"

definition mark_success :: "DiscoveryStatistics \<Rightarrow> DiscoveryStatistics" where
  "mark_success s = s\<lparr>successful_targets := successful_targets s + 1\<rparr>"

definition mark_failure :: "DiscoveryStatistics \<Rightarrow> DiscoveryStatistics" where
  "mark_failure s = s\<lparr>failed_targets := failed_targets s + 1\<rparr>"

definition mark_skipped :: "DiscoveryStatistics \<Rightarrow> DiscoveryStatistics" where
  "mark_skipped s = s\<lparr>skipped_targets := skipped_targets s + 1\<rparr>"

definition mark_ended :: "time \<Rightarrow> DiscoveryStatistics \<Rightarrow> DiscoveryStatistics" where
  "mark_ended now s = s\<lparr>stat_completed_at := Some now\<rparr>"

definition duration_seconds :: "DiscoveryStatistics \<Rightarrow> rat option" where
  "duration_seconds s =
     (case stat_completed_at s of None \<Rightarrow> None | Some t \<Rightarrow> Some (of_int (t - stat_started_at s) / 1000000))"

section \<open>The pipeline\<close>

text \<open>
  What an execution leaves behind: the statistics of the pipeline and, with a repository, the snapshots
  saved. All collectors of an execution see the clock at \<open>now\<close>.
\<close>

record DiscoveryPipeline =
  pipe_collectors :: collector_registry
  pipe_repository :: "LiveInventorySnapshot list option"
  pipe_filters :: "DiscoveryFilter list"
  pipe_statistics :: DiscoveryStatistics

definition collector_context :: "Collector \<Rightarrow> DiscoveryContext \<Rightarrow> CollectorContext" where
  "collector_context c d =
     \<lparr>ctx_identifier = dc_identifier d, ctx_address = dc_address d, ctx_tenant_id = dc_tenant_id d,
      ctx_capabilities = coll_capabilities c, ctx_run_id = dc_run_id d,
      ctx_metadata = fold (\<lambda>(k, v). dict_set k v) (dc_metadata d) (dc_target_metadata d)\<rparr>"

definition run_collector :: "Collector \<Rightarrow> DiscoveryContext \<Rightarrow> exc + LiveInventorySnapshot" where
  "run_collector c d =
     (let context = collector_context c d
      in case run_health c context of
           Some e \<Rightarrow> Inl e
         | None \<Rightarrow> bind_result (run_collect c context) (run_normalize c context))"

fun run_collectors ::
  "DiscoveryContext \<Rightarrow> Collector list \<Rightarrow> DiscoveryStatistics \<Rightarrow> DiscoveryStatistics \<times> (exc + LiveInventorySnapshot list)" where
  "run_collectors d [] st = (st, Inr [])"
| "run_collectors d (c # cs) st =
     (case run_collector c d of
        Inl e \<Rightarrow> (st, Inl e)
      | Inr s \<Rightarrow>
          (let (st', r) = run_collectors d cs (mark_discovered 1 st)
           in (st', bind_result r (\<lambda>ss. Inr (s # ss)))))"

definition integrity_error :: exc where
  "integrity_error = \<lparr>exc_class = OtherException ''SnapshotValidationError'', exc_text = []\<rparr>"

definition pipeline_execute ::
  "time \<Rightarrow> DiscoveryContext \<Rightarrow> DiscoveryPipeline \<Rightarrow> DiscoveryPipeline \<times> (exc + LiveInventorySnapshot)" where
  "pipeline_execute now d p =
     (let st = mark_processed (mark_started now (mark_total 1 (pipe_statistics p)))
      in if pipe_filters p \<noteq> [] \<and> \<not> list_all (\<lambda>f. matches f d) (pipe_filters p)
         then (p\<lparr>pipe_statistics := mark_ended now (mark_skipped st)\<rparr>, Inr (empty_snapshot now))
         else
           (let (st, r) = run_collectors d (collector_select (pipe_collectors p) (dc_required_capabilities d)) st
            in case r of
                 Inl e \<Rightarrow> (p\<lparr>pipe_statistics := st\<rparr>, Inl e)
               | Inr collected \<Rightarrow>
                   (let snapshot = merge now collected
                    in case validate_snapshot_integrity now snapshot of
                         Inl e \<Rightarrow> (p\<lparr>pipe_statistics := st\<rparr>, Inl integrity_error)
                       | Inr _ \<Rightarrow>
                           (p\<lparr>pipe_repository := map_option (\<lambda>saved. saved @ [snapshot]) (pipe_repository p),
                              pipe_statistics := mark_ended now (mark_success st)\<rparr>, Inr snapshot))))"

section \<open>The engine and the scheduler\<close>

type_synonym DiscoveryRegistry = "(string, DiscoveryPipeline) dict"

definition discovery_register :: "string \<Rightarrow> DiscoveryPipeline \<Rightarrow> DiscoveryRegistry \<Rightarrow> DiscoveryRegistry" where
  "discovery_register name p r = dict_set name p r"

definition discovery_get :: "DiscoveryRegistry \<Rightarrow> string \<Rightarrow> exc + DiscoveryPipeline" where
  "discovery_get r name =
     (case dict_get r name of
        None \<Rightarrow> Inl \<lparr>exc_class = OtherException ''KeyError'', exc_text = repr_text (''Unknown discovery pipeline: '' @ name)\<rparr>
      | Some p \<Rightarrow> Inr p)"

text \<open>
  The statistics of a result are those of the pipeline, an object the pipeline goes on changing: they
  are read off the registry.
\<close>

record DiscoveryRunResult =
  run_pipeline_name :: string
  run_snapshot :: LiveInventorySnapshot

definition run_statistics :: "DiscoveryRegistry \<Rightarrow> DiscoveryRunResult \<Rightarrow> DiscoveryStatistics option" where
  "run_statistics r x = map_option pipe_statistics (dict_get r (run_pipeline_name x))"

definition run_engine ::
  "time \<Rightarrow> DiscoveryContext \<Rightarrow> DiscoveryRegistry \<Rightarrow> DiscoveryRegistry \<times> (exc + DiscoveryRunResult)" where
  "run_engine now d r =
     (case discovery_get r (dc_pipeline_name d) of
        Inl e \<Rightarrow> (r, Inl e)
      | Inr p \<Rightarrow>
          (let (p', result) = pipeline_execute now d p
           in (dict_set (dc_pipeline_name d) p' r,
               bind_result result (\<lambda>s. Inr \<lparr>run_pipeline_name = dc_pipeline_name d, run_snapshot = s\<rparr>))))"

fun scheduler_run ::
  "(time \<times> DiscoveryContext) list \<Rightarrow> DiscoveryRegistry \<Rightarrow> DiscoveryRegistry \<times> (exc + DiscoveryRunResult list)" where
  "scheduler_run [] r = (r, Inr [])"
| "scheduler_run ((now, d) # ds) r =
     (let (r', result) = run_engine now d r
      in case result of
           Inl e \<Rightarrow> (r', Inl e)
         | Inr x \<Rightarrow> (let (r'', rest) = scheduler_run ds r' in (r'', bind_result rest (\<lambda>xs. Inr (x # xs)))))"


section \<open>What the integrity check accepts\<close>

lemma each_iff: "each f xs = Inr () \<longleftrightarrow> (\<forall>x \<in> set xs. f x = Inr ())"
  by (induction xs) (simp_all add: bind_result_Inr_iff)

lemma validate_each_device_iff:
  "validate_each_device now seen ds = Inr () \<longleftrightarrow>
     (\<forall>d \<in> set ds. validate_device now d = Inr ()) \<and> distinct (map ds_device_id ds) \<and>
     set (map ds_device_id ds) \<inter> set seen = {}"
  by (induction now seen ds rule: validate_each_device.induct) (auto simp: bind_result_Inr_iff)

lemma validate_snapshot_integrity_iff:
  "validate_snapshot_integrity now s = Inr () \<longleftrightarrow>
     live_version s = SNAPSHOT_SCHEMA_VERSION \<and> live_captured_at s \<le> now + 1000000 \<and>
     (\<forall>d \<in> set (live_devices s). validate_device now d = Inr ()) \<and> distinct (map ds_device_id (live_devices s))"
  by (auto simp: validate_snapshot_integrity_def validate_version_def validate_timestamp_def bind_result_Inr_iff
      validate_each_device_iff)

lemmas validate_parts = validate_device_def validate_interface_def validate_vlan_def validate_mac_table_def
  validate_neighbor_def validate_power_def validate_device_identity_def validate_timestamp_def

lemma mapped_device_valid:
  assumes "strip (ds_device_id (mapped_device f t r p)) \<noteq> []" "t \<le> now + 1000000"
  shows "validate_device now (mapped_device f t r p) = Inr ()"
  using assms unfolding validate_parts
  by (auto simp: mapped_device_def Let_def bind_result_Inr_iff each_iff split: option.split
      dest!: mapped_interface_owned mapped_vlan_owned mapped_neighbor_owned mapped_power_owned)

text \<open>C37: what the normalisation engine lets through, the integrity check of a snapshot accepts at any later time.\<close>

theorem normalized_snapshot_integrity:
  assumes "normalize_parsed e t r = Inr n" "t \<le> now"
  shows "validate_snapshot_integrity now (normalized_snapshot n) = Inr ()"
proof -
  note n = normalize_InrD [OF assms(1)]
  have "\<forall>d \<in> set (live_devices (normalized_snapshot n)). strip (ds_device_id d) \<noteq> []"
      "distinct (map ds_device_id (live_devices (normalized_snapshot n)))"
    using n(3) by (simp_all add: validate_devices_iff)
  then show ?thesis
    using n(1,2) assms(2) mapped_device_valid by (auto simp: validate_snapshot_integrity_iff to_snapshot_def)
qed

theorem normalized_snapshot_integrity_witness:
  "\<exists>n. normalize_parsed plain_engine 5 (cisco_result 0 ''sw1'' None sample_vlan_payload) = Inr n \<and>
     validate_snapshot_integrity 7 (normalized_snapshot n) = Inr ()"
proof -
  have "strip ''sw1'' \<noteq> []" by code_simp
  moreover have "rules_accept plain_engine" by (simp add: rules_accept_def plain_engine_def)
  ultimately obtain n where "normalize_parsed plain_engine 5 (cisco_result 0 ''sw1'' None sample_vlan_payload) = Inr n"
    using process_cisco [OF _ _ _ cisco_parsers_resolve, of "''sw1''" plain_engine 0 5 sample_vlan_payload]
    by (auto simp: process_collector_payload_def bind_result_Inr_iff)
  with normalized_snapshot_integrity [of plain_engine 5 _ n 7] show ?thesis by auto
qed

lemma dict_values_index: "dict_ok d \<Longrightarrow> v \<in> set (dict_values d) \<Longrightarrow> \<exists>k. dict_get d k = Some v"
  unfolding dict_values_def dict_get_def dict_ok_def by (auto simp: dict_keys_def)

lemma merge_keeps_devices: "set (live_devices (merge now ss)) \<subseteq> (\<Union>s \<in> set ss. set (live_devices s))"
proof
  fix d assume d: "d \<in> set (live_devices (merge now ss))"
  let ?m = "index_by ds_device_id (concat (map live_devices ss))"
  have "d \<in> set (dict_values ?m)"
    using d by (auto simp: merge_def merge_devices_def index_by_def empty_snapshot_def split: list.split_asm)
  from dict_values_index [OF index_by_ok this] obtain k where "dict_get ?m k = Some d" ..
  from index_by_key [OF this] show "d \<in> (\<Union>s \<in> set ss. set (live_devices s))" by auto
qed


lemma merge_distinct: "distinct (map ds_device_id (live_devices (merge now ss)))"
proof -
  let ?m = "index_by ds_device_id (concat (map live_devices ss))"
  have "\<forall>(k, d) \<in> set ?m. ds_device_id d = k"
    using index_by_key [of ds_device_id "concat (map live_devices ss)"] index_by_ok [of ds_device_id "concat (map live_devices ss)"]
    by (auto simp: dict_get_def dict_ok_def)
  then have "map ds_device_id (dict_values ?m) = map fst ?m" by (auto simp: dict_values_def)
  then have "distinct (map ds_device_id (dict_values ?m))" using index_by_ok [of ds_device_id] by (metis dict_ok_def)
  then show ?thesis by (cases ss) (simp_all add: merge_def merge_devices_def index_by_def empty_snapshot_def)
qed

lemma merge_captured_at:
  assumes "\<forall>s \<in> set ss. live_captured_at s \<le> b" "now \<le> b"
  shows "live_captured_at (merge now ss) \<le> b"
proof -
  have "m \<le> b \<Longrightarrow> \<forall>s \<in> set ss. live_captured_at s \<le> b \<Longrightarrow>
      fold (\<lambda>t m. if live_captured_at t > m then live_captured_at t else m) ss m \<le> b" for m and ss :: "LiveInventorySnapshot list"
    by (induction ss arbitrary: m) auto
  with assms show ?thesis by (auto simp: merge_def empty_snapshot_def split: list.split)
qed

lemma merge_version:
  assumes "\<forall>s \<in> set ss. live_version s = SNAPSHOT_SCHEMA_VERSION"
  shows "live_version (merge now ss) = SNAPSHOT_SCHEMA_VERSION"
proof -
  have "v = SNAPSHOT_SCHEMA_VERSION \<Longrightarrow> \<forall>s \<in> set ss. live_version s = SNAPSHOT_SCHEMA_VERSION \<Longrightarrow>
      fold (\<lambda>t v. live_version t) ss v = SNAPSHOT_SCHEMA_VERSION" for v and ss :: "LiveInventorySnapshot list"
    by (induction ss arbitrary: v) auto
  with assms show ?thesis by (auto simp: merge_def empty_snapshot_def split: list.split)
qed

text \<open>Merging sound snapshots gives a sound snapshot, in which a device occurs once.\<close>

lemma merge_integrity:
  assumes "\<forall>s \<in> set ss. validate_snapshot_integrity now s = Inr ()"
  shows "validate_snapshot_integrity now (merge now ss) = Inr ()"
  using assms merge_keeps_devices [of now ss] merge_distinct [of now ss]
    merge_captured_at [of ss "now + 1000000" now] merge_version [of ss now]
  by (fastforce simp: validate_snapshot_integrity_iff)

section \<open>What an execution does\<close>

lemma run_collectors_statistics:
  "run_collectors d cs st = (st', r) \<Longrightarrow>
     \<exists>n \<le> length cs. st' = st\<lparr>discovered_targets := discovered_targets st + n\<rparr> \<and>
       (\<forall>ss. r = Inr ss \<longrightarrow> n = length cs \<and> length ss = length cs)"
proof (induction d cs st arbitrary: st' r rule: run_collectors.induct)
  case (2 d c cs st)
  show ?case
  proof (cases "run_collector c d")
    case (Inl e)
    with 2 show ?thesis by auto
  next
    case (Inr s)
    obtain st1 r1 where q: "run_collectors d cs (mark_discovered 1 st) = (st1, r1)" by fastforce
    from 2(1) [OF Inr q] obtain n where "n \<le> length cs"
      "st1 = st\<lparr>discovered_targets := discovered_targets st + Suc n\<rparr>"
      "\<forall>ss. r1 = Inr ss \<longrightarrow> n = length cs \<and> length ss = length cs"
      by (auto simp: mark_discovered_def)
    with 2(2) Inr q show ?thesis by (intro exI [of _ "Suc n"]) (auto simp: bind_result_Inr_iff)
  qed
qed simp

lemma run_collectors_all:
  "run_collectors d cs st = (st', Inr ss) \<Longrightarrow> list_all2 (\<lambda>c s. run_collector c d = Inr s) cs ss"
  by (induction d cs st arbitrary: st' ss rule: run_collectors.induct)
    (auto simp: bind_result_Inr_iff split: sum.split_asm prod.split_asm)



definition sample_pipeline :: DiscoveryPipeline where
  "sample_pipeline =
     \<lparr>pipe_collectors = [], pipe_repository = Some [], pipe_filters = [NotDiscoveryFilter (OrDiscoveryFilter [])],
      pipe_statistics = \<lparr>total_targets = 0, processed_targets = 0, discovered_targets = 0, successful_targets = 0,
        failed_targets = 0, skipped_targets = 0, stat_started_at = 0, stat_completed_at = None\<rparr>\<rparr>"

definition sample_discovery :: DiscoveryContext where
  "sample_discovery =
     \<lparr>dc_identifier = ''sw1'', dc_address = ''10.0.0.1'', dc_tenant_id = ''t'', dc_target_metadata = [],
      dc_target_capabilities = [], dc_required_capabilities = [], dc_pipeline_name = ''default'', dc_run_id = 0, dc_metadata = []\<rparr>"


lemma pipeline_execute_error:
  assumes "pipeline_execute now d p = (p', Inl e)"
    and "run_collectors d (collector_select (pipe_collectors p) (dc_required_capabilities d))
           (mark_processed (mark_started now (mark_total 1 (pipe_statistics p)))) = (st', r)"
  shows "pipe_statistics p' = st' \<and>
    (r = Inl e \<or> (\<exists>ss x. r = Inr ss \<and> validate_snapshot_integrity now (merge now ss) = Inl x))"
  using assms(1) unfolding pipeline_execute_def Let_def assms(2) prod.case
  by (cases r) (auto split: if_split_asm sum.split_asm)

text \<open>
  When every collector answers sound snapshots, an execution fails only because a collector failed.
\<close>

lemma run_collectors_error: "run_collectors d cs st = (st', Inl e) \<Longrightarrow> \<exists>c \<in> set cs. run_collector c d = Inl e"
  by (induction d cs st arbitrary: st' rule: run_collectors.induct)
    (auto simp: bind_result_Inl_iff split: sum.split_asm prod.split_asm)

lemma run_collectors_sound:
  assumes "run_collectors d cs st = (st', Inr ss)" "\<forall>c \<in> set cs. \<forall>s. run_collector c d = Inr s \<longrightarrow> P s"
  shows "\<forall>s \<in> set ss. P s"
  using run_collectors_all [OF assms(1)] assms(2) by (induction rule: list_all2_induct) auto

lemma pipeline_error_is_a_collectors:
  assumes "pipeline_execute now d p = (p', Inl e)"
    and "\<forall>c \<in> set (dict_values (pipe_collectors p)). \<forall>s. run_collector c d = Inr s \<longrightarrow> validate_snapshot_integrity now s = Inr ()"
  shows "\<exists>c \<in> set (dict_values (pipe_collectors p)). run_collector c d = Inl e"
proof -
  let ?cs = "collector_select (pipe_collectors p) (dc_required_capabilities d)"
  have sub: "set ?cs \<subseteq> set (dict_values (pipe_collectors p))" by (auto simp: collector_select_def)
  obtain st' r where q: "run_collectors d ?cs (mark_processed (mark_started now (mark_total 1 (pipe_statistics p)))) = (st', r)"
    by fastforce
  show ?thesis
  proof (cases r)
    case (Inl e')
    with pipeline_execute_error [OF assms(1) q] have "e' = e" by simp
    with Inl run_collectors_error q sub show ?thesis by blast
  next
    case (Inr ss)
    with q have all: "run_collectors d ?cs (mark_processed (mark_started now (mark_total 1 (pipe_statistics p)))) = (st', Inr ss)"
      by simp
    have "\<forall>s \<in> set ss. validate_snapshot_integrity now s = Inr ()"
      by (rule run_collectors_sound [OF all]) (use assms(2) sub in auto)
    then have "validate_snapshot_integrity now (merge now ss) = Inr ()" by (rule merge_integrity)
    with pipeline_execute_error [OF assms(1) q] Inr show ?thesis by simp
  qed
qed

text \<open>A run that fails is neither a success nor a failure in the statistics, and they show no end of it.\<close>

lemma failure_not_counted:
  assumes "pipeline_execute now d p = (p', Inl e)"
  shows "failed_targets (pipe_statistics p') = failed_targets (pipe_statistics p)"
    "duration_seconds (pipe_statistics p') = None"
proof -
  let ?cs = "collector_select (pipe_collectors p) (dc_required_capabilities d)"
  let ?st = "mark_processed (mark_started now (mark_total 1 (pipe_statistics p)))"
  obtain st' r where q: "run_collectors d ?cs ?st = (st', r)" by fastforce
  then obtain n where st': "st' = ?st\<lparr>discovered_targets := discovered_targets ?st + n\<rparr>"
    using run_collectors_statistics by blast
  have "pipe_statistics p' = st'" using pipeline_execute_error [OF assms q] by blast
  with st' show "failed_targets (pipe_statistics p') = failed_targets (pipe_statistics p)"
      "duration_seconds (pipe_statistics p') = None"
    by (simp_all add: duration_seconds_def mark_processed_def mark_started_def mark_total_def)
qed

end
