(* ===== verification/Cisco_Platforms.thy ===== *)
theory Cisco_Platforms
  imports Py_Scan Discovery_Contracts
begin

text \<open>
  The Cisco platforms (\<^verbatim>\<open>vendors/cisco/\<close>): catalogs of commands, SNMP subtrees and pages, the metadata of
  a platform, the registry with its aliases and the detection of a platform from what is known of a device.
\<close>

section \<open>Catalogs\<close>

datatype CommandCategory =
    CAT_INVENTORY | CAT_SYSTEM | CAT_INTERFACES | CAT_VLANS | CAT_MAC_TABLE | CAT_ARP | CAT_POWER | CAT_POE
  | CAT_NEIGHBORS | CAT_VERSION | CAT_RUNNING_CONFIGURATION | CAT_STARTUP_CONFIGURATION | CAT_ENVIRONMENT

record CommandDefinition =
  command_text :: string
  command_description :: string

type_synonym CommandCatalog = "(CommandCategory \<times> CommandDefinition list) list"

text \<open>The first group of a category counts.\<close>

definition catalog_commands :: "CommandCatalog \<Rightarrow> CommandCategory \<Rightarrow> CommandDefinition list" where
  "catalog_commands catalog category = (case map_of catalog category of None \<Rightarrow> [] | Some cs \<Rightarrow> cs)"

definition COMMON_COMMAND_CATALOG :: CommandCatalog where
  "COMMON_COMMAND_CATALOG =
     [(CAT_INVENTORY, [\<lparr>command_text = ''show inventory'', command_description = ''Display inventory information.''\<rparr>]),
      (CAT_SYSTEM, [\<lparr>command_text = ''show version'', command_description = ''Display system and firmware details.''\<rparr>]),
      (CAT_INTERFACES,
        [\<lparr>command_text = ''show interfaces status'', command_description = ''Display interface status information.''\<rparr>,
         \<lparr>command_text = ''show interfaces counters'', command_description = ''Display interface counters.''\<rparr>]),
      (CAT_VLANS, [\<lparr>command_text = ''show vlan brief'', command_description = ''Display VLAN membership.''\<rparr>]),
      (CAT_MAC_TABLE, [\<lparr>command_text = ''show mac address-table'', command_description = ''Display MAC address table entries.''\<rparr>]),
      (CAT_ARP, [\<lparr>command_text = ''show ip arp'', command_description = ''Display ARP table entries.''\<rparr>]),
      (CAT_POWER, [\<lparr>command_text = ''show power inline'', command_description = ''Display power supply and PoE data.''\<rparr>]),
      (CAT_POE, [\<lparr>command_text = ''show power inline'', command_description = ''Display PoE status.''\<rparr>]),
      (CAT_NEIGHBORS,
        [\<lparr>command_text = ''show cdp neighbors detail'', command_description = ''Display CDP neighbors.''\<rparr>,
         \<lparr>command_text = ''show lldp neighbors detail'', command_description = ''Display LLDP neighbors.''\<rparr>]),
      (CAT_VERSION, [\<lparr>command_text = ''show version'', command_description = ''Display software version.''\<rparr>]),
      (CAT_RUNNING_CONFIGURATION,
        [\<lparr>command_text = ''show running-config'', command_description = ''Display the running configuration.''\<rparr>]),
      (CAT_STARTUP_CONFIGURATION,
        [\<lparr>command_text = ''show startup-config'', command_description = ''Display the startup configuration.''\<rparr>]),
      (CAT_ENVIRONMENT,
        [\<lparr>command_text = ''show environment all'', command_description = ''Display environmental telemetry.''\<rparr>])]"

datatype SnmpGroup =
    GROUP_INVENTORY | GROUP_SYSTEM | GROUP_INTERFACES | GROUP_VLANS | GROUP_MAC_TABLE | GROUP_ARP | GROUP_POWER
  | GROUP_POE | GROUP_NEIGHBORS

fun group_value :: "SnmpGroup \<Rightarrow> string" where
  "group_value GROUP_INVENTORY = ''inventory''"
| "group_value GROUP_SYSTEM = ''system''"
| "group_value GROUP_INTERFACES = ''interfaces''"
| "group_value GROUP_VLANS = ''vlans''"
| "group_value GROUP_MAC_TABLE = ''mac_table''"
| "group_value GROUP_ARP = ''arp''"
| "group_value GROUP_POWER = ''power''"
| "group_value GROUP_POE = ''poe''"
| "group_value GROUP_NEIGHBORS = ''neighbors''"

type_synonym SnmpCatalog = "(SnmpGroup \<times> string list) list"

definition catalog_oids :: "SnmpCatalog \<Rightarrow> SnmpGroup \<Rightarrow> string list" where
  "catalog_oids catalog g = (case map_of catalog g of None \<Rightarrow> [] | Some oids \<Rightarrow> oids)"

definition COMMON_SNMP_CATALOG :: SnmpCatalog where
  "COMMON_SNMP_CATALOG =
     [(GROUP_SYSTEM, [''1.3.6.1.2.1.1'']), (GROUP_INVENTORY, [''1.3.6.1.2.1.47'']), (GROUP_INTERFACES, [''1.3.6.1.2.1.2'']),
      (GROUP_VLANS, [''1.3.6.1.2.1.17'']), (GROUP_MAC_TABLE, [''1.3.6.1.2.1.17.4.3'']), (GROUP_ARP, [''1.3.6.1.2.1.4.22'']),
      (GROUP_POWER, [''1.3.6.1.4.1.9.9.402'']), (GROUP_POE, [''1.3.6.1.4.1.9.9.402.1'']), (GROUP_NEIGHBORS, [''1.3.6.1.4.1.9.9.23''])]"

text \<open>All endpoints are read with GET.\<close>

record HttpEndpointMetadata =
  endpoint_method :: string
  endpoint_path :: string
  endpoint_description :: string

definition COMMON_HTTP_CATALOG :: "HttpEndpointMetadata list" where
  "COMMON_HTTP_CATALOG =
     [\<lparr>endpoint_method = ''GET'', endpoint_path = ''/'', endpoint_description = ''Root banner endpoint.''\<rparr>,
      \<lparr>endpoint_method = ''GET'', endpoint_path = ''/status'', endpoint_description = ''Device status endpoint.''\<rparr>]"

section \<open>Platforms\<close>

datatype CiscoCapability =
    CISCO_SSH | CISCO_SNMP | CISCO_HTTP | CISCO_CONFIG_BACKUP | CISCO_CDP | CISCO_LLDP | CISCO_POE | CISCO_VLAN
  | CISCO_MAC_TABLE | CISCO_INTERFACE_INVENTORY | CISCO_NEIGHBOR_DISCOVERY

record CiscoPlatformMetadata =
  meta_family :: string
  meta_display_name :: string
  model_names :: "string list"
  product_ids :: "string list"
  transport_support :: "TransportCapability list"
  parser_family :: string
  firmware_family :: string
  cisco_capabilities :: "CiscoCapability list"

definition metadata_ok :: "CiscoPlatformMetadata \<Rightarrow> bool" where
  "metadata_ok m \<longleftrightarrow> strip (meta_family m) \<noteq> [] \<and> strip (meta_display_name m) \<noteq> [] \<and> model_names m \<noteq> [] \<and>
     product_ids m \<noteq> [] \<and> transport_support m \<noteq> [] \<and> strip (parser_family m) \<noteq> [] \<and> strip (firmware_family m) \<noteq> [] \<and>
     cisco_capabilities m \<noteq> []"

record CiscoPlatformDefinition =
  platform_metadata :: CiscoPlatformMetadata
  command_catalog :: CommandCatalog
  snmp_catalog :: SnmpCatalog
  http_catalog :: "HttpEndpointMetadata list"
  platform_strings :: "string list"
  sys_object_ids :: "string list"
  http_banners :: "string list"

definition platform_family :: "CiscoPlatformDefinition \<Rightarrow> string" where
  "platform_family p = meta_family (platform_metadata p)"

definition matches_model :: "CiscoPlatformDefinition \<Rightarrow> string \<Rightarrow> bool" where
  "matches_model p v \<longleftrightarrow> lower (strip v) \<in> lower ` set (model_names (platform_metadata p))"

definition matches_pid :: "CiscoPlatformDefinition \<Rightarrow> string \<Rightarrow> bool" where
  "matches_pid p v \<longleftrightarrow> lower (strip v) \<in> lower ` set (product_ids (platform_metadata p))"

definition matches_platform_string :: "CiscoPlatformDefinition \<Rightarrow> string \<Rightarrow> bool" where
  "matches_platform_string p v \<longleftrightarrow> list_ex (\<lambda>token. contains (lower token) (lower (strip v))) (platform_strings p)"

definition matches_sys_object_id :: "CiscoPlatformDefinition \<Rightarrow> string \<Rightarrow> bool" where
  "matches_sys_object_id p v \<longleftrightarrow> strip v \<in> set (sys_object_ids p)"

definition matches_http_banner :: "CiscoPlatformDefinition \<Rightarrow> string \<Rightarrow> bool" where
  "matches_http_banner p v \<longleftrightarrow> list_ex (\<lambda>token. contains (lower token) (lower (strip v))) (http_banners p)"

definition CATALYST_2960 :: CiscoPlatformDefinition where
  "CATALYST_2960 =
     \<lparr>platform_metadata =
        \<lparr>meta_family = ''catalyst-2960'', meta_display_name = ''Cisco Catalyst 2960'',
         model_names = [''WS-C2960-24TT-L'', ''WS-C2960-48TT-L''], product_ids = [''WS-C2960-24TT-L'', ''WS-C2960-48TT-L''],
         transport_support = [SSH, SNMP, TELNET], parser_family = ''ios'', firmware_family = ''ios'',
         cisco_capabilities = [CISCO_SSH, CISCO_SNMP, CISCO_CONFIG_BACKUP, CISCO_CDP, CISCO_LLDP, CISCO_VLAN, CISCO_MAC_TABLE,
           CISCO_INTERFACE_INVENTORY, CISCO_NEIGHBOR_DISCOVERY]\<rparr>,
      command_catalog = COMMON_COMMAND_CATALOG, snmp_catalog = COMMON_SNMP_CATALOG, http_catalog = COMMON_HTTP_CATALOG,
      platform_strings = [''Cisco IOS Software'', ''WS-C2960''], sys_object_ids = [''1.3.6.1.4.1.9.1.516''],
      http_banners = [''cisco ios'']\<rparr>"

definition CATALYST_3560 :: CiscoPlatformDefinition where
  "CATALYST_3560 =
     \<lparr>platform_metadata =
        \<lparr>meta_family = ''catalyst-3560'', meta_display_name = ''Cisco Catalyst 3560'',
         model_names = [''WS-C3560-24PS-S'', ''WS-C3560-48PS-S''], product_ids = [''WS-C3560-24PS-S'', ''WS-C3560-48PS-S''],
         transport_support = [SSH, SNMP], parser_family = ''ios'', firmware_family = ''ios'',
         cisco_capabilities = [CISCO_SSH, CISCO_SNMP, CISCO_CONFIG_BACKUP, CISCO_CDP, CISCO_LLDP, CISCO_VLAN, CISCO_MAC_TABLE,
           CISCO_INTERFACE_INVENTORY, CISCO_NEIGHBOR_DISCOVERY, CISCO_POE]\<rparr>,
      command_catalog = COMMON_COMMAND_CATALOG, snmp_catalog = COMMON_SNMP_CATALOG, http_catalog = COMMON_HTTP_CATALOG,
      platform_strings = [''Cisco IOS Software'', ''WS-C3560''], sys_object_ids = [''1.3.6.1.4.1.9.1.517''],
      http_banners = [''cisco ios'']\<rparr>"

definition CATALYST_2960X :: CiscoPlatformDefinition where
  "CATALYST_2960X =
     \<lparr>platform_metadata =
        \<lparr>meta_family = ''catalyst-2960x'', meta_display_name = ''Cisco Catalyst 2960X'',
         model_names = [''WS-C2960X-24TS-L'', ''WS-C2960X-48FPS-L''], product_ids = [''WS-C2960X-24TS-L'', ''WS-C2960X-48FPS-L''],
         transport_support = [SSH, SNMP, HTTP], parser_family = ''iosxe'', firmware_family = ''iosxe'',
         cisco_capabilities = [CISCO_SSH, CISCO_SNMP, CISCO_HTTP, CISCO_CONFIG_BACKUP, CISCO_CDP, CISCO_LLDP, CISCO_VLAN,
           CISCO_MAC_TABLE, CISCO_INTERFACE_INVENTORY, CISCO_NEIGHBOR_DISCOVERY, CISCO_POE]\<rparr>,
      command_catalog = COMMON_COMMAND_CATALOG, snmp_catalog = COMMON_SNMP_CATALOG, http_catalog = COMMON_HTTP_CATALOG,
      platform_strings = [''Cisco IOS XE Software'', ''WS-C2960X''], sys_object_ids = [''1.3.6.1.4.1.9.1.1510''],
      http_banners = [''cisco ios xe'']\<rparr>"

definition CATALYST_EXPRESS_500 :: CiscoPlatformDefinition where
  "CATALYST_EXPRESS_500 =
     \<lparr>platform_metadata =
        \<lparr>meta_family = ''catalyst-express-500'', meta_display_name = ''Cisco Catalyst Express 500'',
         model_names = [''WS-CE500-24TT'', ''WS-CE500-24LC''], product_ids = [''WS-CE500-24TT'', ''WS-CE500-24LC''],
         transport_support = [HTTP, SNMP], parser_family = ''ce500'', firmware_family = ''ce500'',
         cisco_capabilities = [CISCO_HTTP, CISCO_SNMP, CISCO_CONFIG_BACKUP, CISCO_VLAN, CISCO_MAC_TABLE,
           CISCO_INTERFACE_INVENTORY, CISCO_NEIGHBOR_DISCOVERY, CISCO_POE]\<rparr>,
      command_catalog = COMMON_COMMAND_CATALOG, snmp_catalog = COMMON_SNMP_CATALOG, http_catalog = COMMON_HTTP_CATALOG,
      platform_strings = [''Cisco Catalyst Express 500'', ''WS-CE500''], sys_object_ids = [''1.3.6.1.4.1.9.1.748''],
      http_banners = [''cisco catalyst express'']\<rparr>"

definition AIRONET_1131 :: CiscoPlatformDefinition where
  "AIRONET_1131 =
     \<lparr>platform_metadata =
        \<lparr>meta_family = ''aironet-1131'', meta_display_name = ''Cisco Aironet 1131'',
         model_names = [''AIR-AP1131AG-A-K9'', ''AIR-AP1131G-A-K9''], product_ids = [''AIR-AP1131AG-A-K9'', ''AIR-AP1131G-A-K9''],
         transport_support = [SNMP, HTTP], parser_family = ''aironet'', firmware_family = ''aironet'',
         cisco_capabilities = [CISCO_SNMP, CISCO_HTTP, CISCO_CONFIG_BACKUP, CISCO_VLAN, CISCO_INTERFACE_INVENTORY,
           CISCO_NEIGHBOR_DISCOVERY]\<rparr>,
      command_catalog = COMMON_COMMAND_CATALOG, snmp_catalog = COMMON_SNMP_CATALOG, http_catalog = COMMON_HTTP_CATALOG,
      platform_strings = [''Cisco Aironet'', ''AIR-AP1131''], sys_object_ids = [''1.3.6.1.4.1.9.1.928''],
      http_banners = [''cisco aironet'']\<rparr>"

section \<open>The registry\<close>

type_synonym CiscoPlatformRegistry = "(string, CiscoPlatformDefinition) dict"

definition PUBLIC_PLATFORM_ALIASES :: "(string, string) dict" where
  "PUBLIC_PLATFORM_ALIASES =
     [(''cisco-ios'', ''catalyst-2960''), (''cisco-iosxe'', ''catalyst-2960x''), (''ios'', ''catalyst-2960''),
      (''iosxe'', ''catalyst-2960x''), (''cisco-ios-xe'', ''catalyst-2960x''), (''cisco-ios-x'', ''catalyst-2960x''),
      (''cisco-ios-xe-software'', ''catalyst-2960x''), (''cisco-ios-software'', ''catalyst-2960''),
      (''cisco-catalyst-2960'', ''catalyst-2960''), (''catalyst-2960'', ''catalyst-2960''),
      (''cisco-catalyst-2960x'', ''catalyst-2960x''), (''catalyst-2960x'', ''catalyst-2960x'')]"

definition spaces_to_dash :: matcher where
  "spaces_to_dash s = (let n = length (takeWhile is_space s) in if n = 0 then None else Some (n, ''-''))"

definition strip_dashes :: "string \<Rightarrow> string" where
  "strip_dashes s = rev (dropWhile (\<lambda>c. c = CHR ''-'') (rev (dropWhile (\<lambda>c. c = CHR ''-'') s)))"

definition plain_label :: "string \<Rightarrow> string" where
  "plain_label family =
     strip_dashes (re_sub spaces_to_dash (map (\<lambda>c. if c = CHR ''_'' then CHR ''-'' else c) (lower (strip family))))"

definition canonicalize_family :: "string \<Rightarrow> string" where
  "canonicalize_family family =
     (case dict_get PUBLIC_PLATFORM_ALIASES (plain_label family) of None \<Rightarrow> plain_label family | Some f \<Rightarrow> f)"

definition platform_register :: "CiscoPlatformDefinition \<Rightarrow> CiscoPlatformRegistry \<Rightarrow> CiscoPlatformRegistry" where
  "platform_register p r = dict_set (platform_family p) p r"

definition platform_get :: "CiscoPlatformRegistry \<Rightarrow> string \<Rightarrow> string + CiscoPlatformDefinition" where
  "platform_get r family = (case dict_get r family of None \<Rightarrow> Inl ''KeyError'' | Some p \<Rightarrow> Inr p)"

definition default_registry :: CiscoPlatformRegistry where
  "default_registry =
     fold platform_register [CATALYST_2960, CATALYST_2960X, CATALYST_3560, CATALYST_EXPRESS_500, AIRONET_1131] []"

record CiscoDetectionSignals =
  signal_model :: "string option"
  signal_product_id :: "string option"
  signal_platform_string :: "string option"
  signal_sys_object_id :: "string option"
  signal_http_banner :: "string option"

definition points :: "nat \<Rightarrow> ('a \<Rightarrow> bool) \<Rightarrow> 'a option \<Rightarrow> nat" where
  "points n P v = (case v of None \<Rightarrow> 0 | Some x \<Rightarrow> if P x then n else 0)"

definition score :: "CiscoPlatformDefinition \<Rightarrow> CiscoDetectionSignals \<Rightarrow> nat" where
  "score p s =
     points 5 (matches_model p) (signal_model s) + points 5 (matches_pid p) (signal_product_id s) +
     points 4 (matches_platform_string p) (signal_platform_string s) +
     points 4 (matches_sys_object_id p) (signal_sys_object_id s) + points 3 (matches_http_banner p) (signal_http_banner s)"

fun best_from ::
  "(CiscoPlatformDefinition \<Rightarrow> nat) \<Rightarrow> CiscoPlatformDefinition option \<Rightarrow> nat \<Rightarrow> CiscoPlatformDefinition list \<Rightarrow>
   CiscoPlatformDefinition option" where
  "best_from f best n [] = best"
| "best_from f best n (p # ps) = (if f p > n then best_from f (Some p) (f p) ps else best_from f best n ps)"

definition detect :: "CiscoPlatformRegistry \<Rightarrow> CiscoDetectionSignals \<Rightarrow> CiscoPlatformDefinition option" where
  "detect r s = best_from (\<lambda>p. score p s) None 0 (dict_values r)"

definition platforms_matching ::
  "(CiscoPlatformDefinition \<Rightarrow> bool) \<Rightarrow> CiscoPlatformRegistry \<Rightarrow> CiscoPlatformDefinition list" where
  "platforms_matching P r = filter P (dict_values r)"

definition capability_supported :: "CiscoPlatformRegistry \<Rightarrow> string \<Rightarrow> CiscoCapability \<Rightarrow> string + bool" where
  "capability_supported r family c =
     bind_result (platform_get r family) (\<lambda>p. Inr (c \<in> set (cisco_capabilities (platform_metadata p))))"

section \<open>Detection takes the first best platform\<close>

lemma best_from_spec:
  "best_from f best n ps =
     (case find (\<lambda>p. f p > n \<and> (\<forall>q \<in> set ps. f q \<le> f p)) ps of None \<Rightarrow> best | Some p \<Rightarrow> Some p)"
proof (induction ps arbitrary: best n)
  case (Cons p ps)
  show ?case
  proof (cases "f p > n")
    case False
    have "find (\<lambda>x. f x > n \<and> (\<forall>q \<in> set (p # ps). f q \<le> f x)) ps = find (\<lambda>x. f x > n \<and> (\<forall>q \<in> set ps. f q \<le> f x)) ps"
      using False by (intro find_cong) auto
    with False Cons show ?thesis by simp
  next
    case True
    show ?thesis
    proof (cases "\<forall>q \<in> set ps. f q \<le> f p")
      case True': True
      then have "find (\<lambda>x. f x > f p \<and> (\<forall>q \<in> set ps. f q \<le> f x)) ps = None"
        by (auto simp: find_None_iff)
      with True True' Cons show ?thesis by simp
    next
      case False
      then have "find (\<lambda>x. f x > n \<and> (\<forall>q \<in> set (p # ps). f q \<le> f x)) ps = find (\<lambda>x. f x > f p \<and> (\<forall>q \<in> set ps. f q \<le> f x)) ps"
      proof (intro find_cong refl)
        fix x assume "x \<in> set ps"
        obtain m where m: "m \<in> set ps" "f p < f m" using False by (auto simp: not_le)
        then have "\<forall>q \<in> set ps. f q \<le> f x \<Longrightarrow> f p < f x" by (meson order_less_le_trans)
        then show "(f x > n \<and> (\<forall>q \<in> set (p # ps). f q \<le> f x)) = (f x > f p \<and> (\<forall>q \<in> set ps. f q \<le> f x))"
          using True by auto
      qed
      moreover have "find (\<lambda>x. f x > f p \<and> (\<forall>q \<in> set ps. f q \<le> f x)) ps \<noteq> None"
      proof -
        have "Max (f ` set ps) \<in> f ` set ps" using False by (intro Max_in) auto
        then obtain m where m: "m \<in> set ps" "f m = Max (f ` set ps)" by auto
        then have all: "\<forall>q \<in> set ps. f q \<le> f m" by simp
        moreover have "f p < f m" using False all by (meson linorder_not_less order_less_le_trans)
        ultimately show ?thesis using m(1) by (auto simp: find_None_iff)
      qed
      ultimately obtain m where "find (\<lambda>x. f x > n \<and> (\<forall>q \<in> set (p # ps). f q \<le> f x)) ps = Some m"
          "find (\<lambda>x. f x > f p \<and> (\<forall>q \<in> set ps. f q \<le> f x)) ps = Some m" by auto
      with True False show ?thesis by (auto simp: Cons.IH)
    qed
  qed
qed simp

theorem detect_is_first_best:
  "detect r s = find (\<lambda>p. score p s > 0 \<and> (\<forall>q \<in> set (dict_values r). score q s \<le> score p s)) (dict_values r)"
  by (simp add: detect_def best_from_spec split: option.split)

text \<open>The texts of the older 2960 are part of those of the 2960X, which ties and is registered later.\<close>

definition no_signals :: CiscoDetectionSignals where
  "no_signals = \<lparr>signal_model = None, signal_product_id = None, signal_platform_string = None, signal_sys_object_id = None,
     signal_http_banner = None\<rparr>"

lemma two_names_of_2960x:
  "map_option platform_family (detect default_registry (no_signals\<lparr>signal_platform_string := Some ''WS-C2960X-48FPS-L''\<rparr>)) =
     Some ''catalyst-2960''"
  "map_option platform_family (detect default_registry (no_signals\<lparr>signal_http_banner := Some ''Cisco IOS XE''\<rparr>)) =
     Some ''catalyst-2960''"
  "map_option platform_family (detect default_registry (no_signals\<lparr>signal_model := Some ''WS-C2960X-48FPS-L''\<rparr>)) =
     Some ''catalyst-2960x''"
  by code_simp+

lemma default_registry_ok: "list_all (\<lambda>p. metadata_ok (platform_metadata p)) (dict_values default_registry)"
  by code_simp

section \<open>Labels of platforms\<close>

lemma spaces_to_dash_chars:
  "c \<in> set (re_sub spaces_to_dash s) \<Longrightarrow> \<not> is_space c \<and> (c \<in> set s \<or> c = CHR ''-'')"
proof (induction spaces_to_dash s rule: re_sub.induct)
  case (2 d cs)
  have dash: "\<not> is_space CHR ''-''" by (simp add: is_space_def)
  show ?case
  proof (cases "is_space d")
    case False
    then have "spaces_to_dash (d # cs) = None" by (simp add: spaces_to_dash_def)
    with 2 False show ?thesis by (auto simp: re_sub.simps)
  next
    case True
    then obtain n where n: "spaces_to_dash (d # cs) = Some (n, ''-'')" by (simp add: spaces_to_dash_def Let_def)
    with "2.prems" have "c = CHR ''-'' \<or> c \<in> set (re_sub spaces_to_dash (drop (max 1 n) (d # cs)))"
      by (auto simp: re_sub.simps)
    moreover obtain k where "max 1 n = Suc k" by (metis max_Suc_Suc One_nat_def max.commute max_def not0_implies_Suc not_one_le_zero)
    ultimately show ?thesis using "2.hyps"(2) [OF n refl] dash by (auto dest: in_set_dropD)
  qed
qed simp

lemma strip_dashes_chars: "c \<in> set (strip_dashes s) \<Longrightarrow> c \<in> set s"
  by (auto simp: strip_dashes_def dest!: set_dropWhileD)

lemma lower_char_idem: "lower_char (lower_char c) = lower_char c"
proof -
  have "(of_char (lower_char c) :: nat) < 65 \<or> 90 < (of_char (lower_char c) :: nat)"
    by (auto simp: lower_char_def Let_def)
  then show ?thesis by (auto simp: lower_char_def [of "lower_char c"] Let_def)
qed

lemma lower_char_dash: "lower_char CHR ''-'' = CHR ''-''"
  by (simp add: lower_char_def)

lemma plain_label_chars:
  assumes "c \<in> set (plain_label s)"
  shows "\<not> is_space c" "c \<noteq> CHR ''_''" "lower_char c = c"
proof -
  let ?t = "map (\<lambda>c. if c = CHR ''_'' then CHR ''-'' else c) (lower (strip s))"
  have "c \<in> set (re_sub spaces_to_dash ?t)" using assms strip_dashes_chars by (simp add: plain_label_def)
  from spaces_to_dash_chars [OF this]
  have c: "\<not> is_space c" "c = CHR ''-'' \<or> (\<exists>d. c = (if lower_char d = CHR ''_'' then CHR ''-'' else lower_char d))"
    by (auto simp: lower_def split: if_split_asm)
  then show "\<not> is_space c" "c \<noteq> CHR ''_''" "lower_char c = c"
    using lower_char_dash lower_char_idem by (auto split: if_split_asm)
qed

lemma strip_dashes_idem: "strip_dashes (strip_dashes s) = strip_dashes s"
  using dropWhile_prefix [of "\<lambda>c. c = CHR ''-''" "dropWhile (\<lambda>c. c = CHR ''-'') s"] by (simp add: strip_dashes_def)

lemma no_spaces_to_dash: "\<forall>c \<in> set s. \<not> is_space c \<Longrightarrow> re_sub spaces_to_dash s = s"
proof (induction s)
  case (Cons c s)
  then have "spaces_to_dash (c # s) = None" by (simp add: spaces_to_dash_def)
  with Cons show ?case by (simp add: re_sub_copy)
qed simp

lemma plain_label_idem: "plain_label (plain_label s) = plain_label s"
proof -
  have "strip (plain_label s) = plain_label s"
    using plain_label_chars(1) by (simp add: strip_def dropWhile_eq_self_iff) (metis dropWhile_eq_self_iff list.set_sel(1) rev_rev_ident set_rev)
  moreover have "lower (plain_label s) = plain_label s"
    using plain_label_chars(3) by (simp add: lower_def map_idI)
  moreover have "map (\<lambda>c. if c = CHR ''_'' then CHR ''-'' else c) (plain_label s) = plain_label s"
    using plain_label_chars(2) by (intro map_idI) auto
  moreover have "re_sub spaces_to_dash (plain_label s) = plain_label s"
    using plain_label_chars(1) by (intro no_spaces_to_dash) blast
  moreover have "strip_dashes (plain_label s) = plain_label s"
    by (simp add: plain_label_def strip_dashes_idem)
  ultimately show ?thesis by (subst plain_label_def) simp
qed

text \<open>The canonical label of a family is its own canonical label, so a label may be canonicalised at any point.\<close>

lemma aliases_canonical:
  "dict_get PUBLIC_PLATFORM_ALIASES k = Some f \<Longrightarrow> canonicalize_family f = f"
proof -
  have "list_all (\<lambda>(k, f). canonicalize_family f = f) PUBLIC_PLATFORM_ALIASES" by code_simp
  then show "dict_get PUBLIC_PLATFORM_ALIASES k = Some f \<Longrightarrow> ?thesis"
    by (auto simp: list_all_iff dest: dict_get_Some_in)
qed

lemma canonicalize_family_idem: "canonicalize_family (canonicalize_family s) = canonicalize_family s"
proof (cases "dict_get PUBLIC_PLATFORM_ALIASES (plain_label s)")
  case None
  then show ?thesis by (simp add: canonicalize_family_def plain_label_idem)
next
  case (Some f)
  then show ?thesis using aliases_canonical [OF Some] by (simp add: canonicalize_family_def [of s])
qed

end
