(* ===== verification/Transport_Pacing.thy ===== *)
theory Transport_Pacing
  imports Actions
begin

text \<open>
  How transports are paced: the token bucket (\<^verbatim>\<open>transports/rate_limiter.py\<close>) and the retry policy with its
  loop (\<^verbatim>\<open>transports/retry.py\<close>, \<^verbatim>\<open>transports/_support.py\<close>). Floating-point seconds and tokens are exact
  rationals; the monotonic clock is an argument, and \<open>wake now d\<close> is its reading after a sleep of \<open>d\<close>.
\<close>

section \<open>The rate limiter\<close>

record RateLimiter =
  tokens_per_second :: rat
  bucket_capacity :: rat
  tokens :: rat
  last_refill :: rat

definition make_limiter :: "rat \<Rightarrow> rat option \<Rightarrow> rat \<Rightarrow> string + RateLimiter" where
  "make_limiter rate cap now =
     (if rate \<le> 0 then Inl ''ValueError''
      else let c = (case cap of Some c \<Rightarrow> c | None \<Rightarrow> rate)
           in if c \<le> 0 then Inl ''ValueError''
              else Inr \<lparr>tokens_per_second = rate, bucket_capacity = c, tokens = c, last_refill = now\<rparr>)"

definition refill :: "rat \<Rightarrow> RateLimiter \<Rightarrow> RateLimiter" where
  "refill now l =
     l\<lparr>tokens := min (if bucket_capacity l = 0 then tokens_per_second l else bucket_capacity l)
         (tokens l + (now - last_refill l) * tokens_per_second l),
       last_refill := now\<rparr>"

text \<open>One turn of both methods: refill, then take what was asked for if it is there.\<close>

definition attempt :: "rat \<Rightarrow> rat \<Rightarrow> RateLimiter \<Rightarrow> RateLimiter \<times> bool" where
  "attempt now n l =
     (let l1 = refill now l in if tokens l1 < n then (l1, False) else (l1\<lparr>tokens := tokens l1 - n\<rparr>, True))"

definition try_acquire :: "rat \<Rightarrow> rat \<Rightarrow> (RateLimiter, string, bool) action" where
  "try_acquire now n l =
     (if n \<le> 0 then (l, Inl ''ValueError'') else let (l1, ok) = attempt now n l in (l1, Inr ok))"

text \<open>The loop of \<open>acquire\<close>, with the time at which it returns. None is a call that never returns.\<close>

partial_function (option) acquire_loop ::
  "(rat \<Rightarrow> rat \<Rightarrow> rat) \<Rightarrow> rat \<Rightarrow> rat \<Rightarrow> RateLimiter \<Rightarrow> (rat \<times> RateLimiter) option" where
  "acquire_loop wake n now l =
     (let (l1, ok) = attempt now n l
      in if ok then Some (now, l1)
         else acquire_loop wake n (wake now ((n - tokens l1) / tokens_per_second l1)) l1)"

definition acquire :: "(rat \<Rightarrow> rat \<Rightarrow> rat) \<Rightarrow> rat \<Rightarrow> rat \<Rightarrow> RateLimiter \<Rightarrow> (RateLimiter \<times> (string + rat)) option" where
  "acquire wake n now l =
     (if n \<le> 0 then Some (l, Inl ''ValueError'')
      else map_option (\<lambda>(t, l1). (l1, Inr t)) (acquire_loop wake n now l))"

definition limiter_ok :: "RateLimiter \<Rightarrow> bool" where
  "limiter_ok l \<longleftrightarrow> 0 < tokens_per_second l \<and> 0 < bucket_capacity l \<and> 0 \<le> tokens l \<and> tokens l \<le> bucket_capacity l"

text \<open>Attempts of any callers, in the order in which the limiter serves them.\<close>

fun attempts :: "(rat \<times> rat) list \<Rightarrow> RateLimiter \<Rightarrow> RateLimiter \<times> bool list" where
  "attempts [] l = (l, [])"
| "attempts ((now, n) # rs) l = (let (l1, ok) = attempt now n l; (l2, oks) = attempts rs l1 in (l2, ok # oks))"

definition granted :: "(rat \<times> rat) list \<Rightarrow> bool list \<Rightarrow> rat" where
  "granted rs oks = sum_list (map (\<lambda>((_, n), ok). if ok then n else 0) (zip rs oks))"

fun clock_from :: "rat \<Rightarrow> (rat \<times> rat) list \<Rightarrow> bool" where
  "clock_from t [] = True"
| "clock_from t ((now, n) # rs) \<longleftrightarrow> t \<le> now \<and> 0 < n \<and> clock_from now rs"

subsection \<open>The limiter keeps its bucket\<close>

lemma make_limiter_ok: "make_limiter rate cap now = Inr l \<Longrightarrow> limiter_ok l"
  by (auto simp: make_limiter_def limiter_ok_def Let_def split: if_splits option.splits)

lemma refill_tokens:
  assumes "limiter_ok l"
  shows "tokens (refill now l) = min (bucket_capacity l) (tokens l + (now - last_refill l) * tokens_per_second l)"
  using assms by (simp add: refill_def limiter_ok_def)

lemma attempt_fields [simp]:
  "tokens_per_second (fst (attempt now n l)) = tokens_per_second l"
  "bucket_capacity (fst (attempt now n l)) = bucket_capacity l"
  "last_refill (fst (attempt now n l)) = now"
  by (simp_all add: attempt_def refill_def Let_def)

lemma attempt_ok:
  assumes "limiter_ok l" and "last_refill l \<le> now" and "0 < n"
  shows "limiter_ok (fst (attempt now n l))"
proof -
  have "0 \<le> (now - last_refill l) * tokens_per_second l" using assms by (simp add: limiter_ok_def)
  then show ?thesis using assms refill_tokens [OF assms(1), of now]
    by (auto simp: attempt_def limiter_ok_def refill_def Let_def)
qed

text \<open>What is taken and what remains is at most what was there and what flowed in.\<close>

lemma attempt_balance:
  assumes "limiter_ok l"
  shows "tokens (fst (attempt now n l)) + (if snd (attempt now n l) then n else 0) \<le>
    tokens l + tokens_per_second l * (now - last_refill l)"
  using refill_tokens [OF assms, of now] by (auto simp: attempt_def Let_def algebra_simps)

lemma attempts_balance:
  assumes "limiter_ok l" and "clock_from (last_refill l) rs"
  shows "granted rs (snd (attempts rs l)) \<le>
      tokens l + tokens_per_second l * (last (last_refill l # map fst rs) - last_refill l)"
  using assms
proof (induction rs arbitrary: l)
  case Nil
  then show ?case by (simp add: granted_def limiter_ok_def)
next
  case (Cons r rs)
  obtain now n where r: "r = (now, n)" by (cases r)
  let ?l1 = "fst (attempt now n l)"
  have ok: "limiter_ok ?l1" using Cons.prems r attempt_ok by simp
  have rest: "granted rs (snd (attempts rs ?l1)) \<le>
      tokens ?l1 + tokens_per_second l * (last (now # map fst rs) - now)"
    using Cons.IH [OF ok] Cons.prems r by simp
  have split: "granted (r # rs) (snd (attempts (r # rs) l)) =
      (if snd (attempt now n l) then n else 0) + granted rs (snd (attempts rs ?l1))"
    by (simp add: r granted_def case_prod_beta Let_def)
  show ?case
    using rest attempt_balance [OF Cons.prems(1), of now n] unfolding split
    by (simp add: r algebra_simps)
qed

text \<open>
  The rate is kept. Over any sequence of attempts by any callers, the tokens granted up to a moment
  are at most the capacity of the bucket and what flows in since its last refill.
\<close>

theorem rate_is_bounded:
  assumes "limiter_ok l" and "clock_from (last_refill l) rs" and "rs \<noteq> []"
  shows "granted rs (snd (attempts rs l)) \<le>
    bucket_capacity l + tokens_per_second l * (fst (last rs) - last_refill l)"
proof -
  have "last (last_refill l # map fst rs) = fst (last rs)" using assms(3) by (simp add: last_map)
  then show ?thesis using attempts_balance [OF assms(1,2)] assms(1) by (simp add: limiter_ok_def)
qed

theorem rate_is_bounded_witness:
  "granted [(0, 1), (0, 1), (1/2, 1), (1, 2)]
     (snd (attempts [(0, 1), (0, 1), (1/2, 1), (1, 2)]
       \<lparr>tokens_per_second = 2, bucket_capacity = 2, tokens = 2, last_refill = 0\<rparr>)) \<le> 4"
  using rate_is_bounded [of "\<lparr>tokens_per_second = 2, bucket_capacity = 2, tokens = 2, last_refill = 0\<rparr>"
      "[(0, 1), (0, 1), (1/2, 1), (1, 2)]"] by (simp add: limiter_ok_def)

subsection \<open>Waiting for tokens\<close>

lemma acquire_loop_bounded:
  assumes "acquire_loop wake n now l = Some y" and "bucket_capacity l \<noteq> 0"
  shows "n \<le> bucket_capacity l"
proof -
  have "bucket_capacity l \<noteq> 0 \<longrightarrow> n \<le> bucket_capacity l"
  proof (rule acquire_loop.raw_induct [OF _ assms(1), where P = "\<lambda>wake n now l y. bucket_capacity l \<noteq> 0 \<longrightarrow> n \<le> bucket_capacity l"])
    fix loop wake n now l y
    assume IH: "\<And>wake n now l y. loop wake n now l = Some y \<Longrightarrow> bucket_capacity l \<noteq> 0 \<longrightarrow> n \<le> bucket_capacity l"
      and step: "(let (l1, ok) = attempt now n l in if ok then Some (now, l1)
        else loop wake n (wake now ((n - tokens l1) / tokens_per_second l1)) l1) = Some y"
    obtain l1 ok where a: "attempt now n l = (l1, ok)" by fastforce
    show "bucket_capacity l \<noteq> 0 \<longrightarrow> n \<le> bucket_capacity l"
    proof (cases ok)
      case True
      with a show ?thesis by (auto simp: attempt_def refill_def Let_def split: if_splits)
    next
      case False
      have "bucket_capacity l1 = bucket_capacity l" using a attempt_fields(2) [of now n l] by simp
      with False a step IH show ?thesis by fastforce
    qed
  qed
  with assms(2) show ?thesis by blast
qed

lemma second_attempt_succeeds:
  assumes "limiter_ok l" and "0 < n" and "n \<le> bucket_capacity l" and "last_refill l \<le> now"
    and "attempt now n l = (l1, False)" and "now + (n - tokens l1) / tokens_per_second l1 \<le> later"
  shows "snd (attempt later n l1)"
proof -
  have l1: "limiter_ok l1" "tokens_per_second l1 = tokens_per_second l" "bucket_capacity l1 = bucket_capacity l"
      "last_refill l1 = now"
    using attempt_ok [OF assms(1,4,2)] attempt_fields [of now n l] assms(5) by simp_all
  have "(n - tokens l1) / tokens_per_second l1 \<le> later - now" using assms(6) by simp
  then have "n - tokens l1 \<le> (later - now) * tokens_per_second l1"
    using l1(1) by (simp add: limiter_ok_def pos_divide_le_eq)
  then have "n \<le> tokens (refill later l1)"
    using refill_tokens [OF l1(1), of later] assms(3) l1(3,4) by simp
  then show ?thesis by (simp add: attempt_def Let_def)
qed

text \<open>
  \<open>acquire\<close> returns exactly for counts the bucket can hold, and then after at most one sleep. A count above
  the capacity waits for ever; by default the capacity is the rate, so that a limiter slower than one
  token per second never lets a request of one token through.
\<close>

theorem acquire_returns_iff:
  assumes "limiter_ok l" and "0 < n" and "last_refill l \<le> now" and "\<And>t d. t + d \<le> wake t d"
  shows "if n \<le> bucket_capacity l
    then \<exists>t l'. acquire wake n now l = Some (l', Inr t) \<and>
      (if snd (attempt now n l) then t = now
       else t = wake now ((n - tokens (fst (attempt now n l))) / tokens_per_second l)) \<and> limiter_ok l'
    else acquire wake n now l = None"
proof (cases "n \<le> bucket_capacity l")
  case False
  then have "acquire_loop wake n now l = None"
    using acquire_loop_bounded [of wake n now l] assms(1) by (cases "acquire_loop wake n now l") (auto simp: limiter_ok_def)
  with False assms(2) show ?thesis by (simp add: acquire_def)
next
  case True
  obtain l1 ok where a: "attempt now n l = (l1, ok)" by fastforce
  have l1: "limiter_ok l1" "tokens_per_second l1 = tokens_per_second l" "last_refill l1 = now"
    using attempt_ok [OF assms(1,3,2)] attempt_fields [of now n l] a by simp_all
  show ?thesis
  proof (cases ok)
    case True
    with a l1 \<open>n \<le> bucket_capacity l\<close> assms(2) show ?thesis by (simp add: acquire_def acquire_loop.simps)
  next
    case False
    let ?t = "wake now ((n - tokens l1) / tokens_per_second l1)"
    have later: "snd (attempt ?t n l1)"
      using second_attempt_succeeds [OF assms(1,2) True assms(3)] a False assms(4) by simp
    have "tokens l1 < n" using a False by (auto simp: attempt_def Let_def split: if_splits)
    then have "0 \<le> (n - tokens l1) / tokens_per_second l1" using l1(1) by (simp add: limiter_ok_def)
    then have "last_refill l1 \<le> ?t" using assms(4) [of now "(n - tokens l1) / tokens_per_second l1"] l1(3) by simp
    then have "limiter_ok (fst (attempt ?t n l1))" by (rule attempt_ok [OF l1(1) _ assms(2)])
    moreover have "acquire_loop wake n ?t l1 = Some (?t, fst (attempt ?t n l1))"
      using later by (subst acquire_loop.simps) (simp add: case_prod_beta)
    then have "acquire_loop wake n now l = Some (?t, fst (attempt ?t n l1))"
      using a False by (subst acquire_loop.simps) simp
    ultimately show ?thesis using a False True assms(2) l1(2) by (simp add: acquire_def)
  qed
qed

theorem acquire_returns_iff_witness:
  "acquire (+) 3 0 \<lparr>tokens_per_second = 1, bucket_capacity = 2, tokens = 2, last_refill = 0\<rparr> = None"
  using acquire_returns_iff [of "\<lparr>tokens_per_second = 1, bucket_capacity = 2, tokens = 2, last_refill = 0\<rparr>" 3 0 "(+)"]
  by (simp add: limiter_ok_def)

lemma slow_limiter_blocks:
  assumes "make_limiter rate None start = Inr l" and "rate < 1" and "\<And>t d. t + d \<le> wake t d" and "start \<le> now"
  shows "acquire wake 1 now l = None"
proof -
  have "limiter_ok l" "bucket_capacity l < 1" "last_refill l = start"
    using assms(1,2) make_limiter_ok [OF assms(1)] by (auto simp: make_limiter_def split: if_splits)
  with acquire_returns_iff [of l 1 now wake] assms(3,4) show ?thesis by simp
qed

section \<open>Retries\<close>

text \<open>\<open>isa e c\<close> says that the exception \<open>e\<close> is an instance of the class \<open>c\<close>.\<close>

record TransportRetryPolicy =
  max_attempts :: int
  base_delay_seconds :: rat
  max_delay_seconds :: rat
  retryable_exceptions :: "string list"
  retryable_status_codes :: "int list"

definition default_retry_policy :: TransportRetryPolicy where
  "default_retry_policy =
     \<lparr>max_attempts = 3, base_delay_seconds = 1/2, max_delay_seconds = 8,
      retryable_exceptions = [''ConnectionError'', ''TimeoutError''],
      retryable_status_codes = [429, 500, 502, 503, 504]\<rparr>"

definition should_retry_status :: "TransportRetryPolicy \<Rightarrow> int \<Rightarrow> bool" where
  "should_retry_status p code = (code \<in> set (retryable_status_codes p))"

definition should_retry_exception :: "(string \<Rightarrow> string \<Rightarrow> bool) \<Rightarrow> TransportRetryPolicy \<Rightarrow> string \<Rightarrow> bool" where
  "should_retry_exception isa p e = list_ex (isa e) (retryable_exceptions p)"

definition delay_for_attempt :: "TransportRetryPolicy \<Rightarrow> int \<Rightarrow> string + rat" where
  "delay_for_attempt p k =
     (if k < 1 then Inl ''ValueError''
      else Inr (min (base_delay_seconds p * 2 ^ nat (k - 1)) (max_delay_seconds p)))"

text \<open>The loop over the attempts; \<open>n\<close> of them are left and \<open>k\<close> is the number of this one.\<close>

fun retry_loop ::
  "(string \<Rightarrow> string \<Rightarrow> bool) \<Rightarrow> (rat \<Rightarrow> ('s, string, unit) action) \<Rightarrow> TransportRetryPolicy \<Rightarrow>
   ('s, string, 'a) action \<Rightarrow> nat \<Rightarrow> int \<Rightarrow> ('s, string, 'a) action" where
  "retry_loop isa sleep p operation 0 k = raises ''TransportConfigurationError''"
| "retry_loop isa sleep p operation (Suc n) k =
     catches operation (\<lambda>e.
       if k \<ge> max_attempts p \<or> \<not> should_retry_exception isa p e then raises e
       else and_then (\<lambda>s. (s, delay_for_attempt p k)) (\<lambda>d.
            and_then (sleep d) (\<lambda>_. retry_loop isa sleep p operation n (k + 1))))"

definition retry_sync ::
  "(string \<Rightarrow> string \<Rightarrow> bool) \<Rightarrow> (rat \<Rightarrow> ('s, string, unit) action) \<Rightarrow> TransportRetryPolicy option \<Rightarrow>
   ('s, string, 'a) action \<Rightarrow> ('s, string, 'a) action" where
  "retry_sync isa sleep policy operation =
     (case policy of
        None \<Rightarrow> operation
      | Some p \<Rightarrow> retry_loop isa sleep p operation (nat (max_attempts p)) 1)"

text \<open>An operation that answers from a script, and a sleep that is written down.\<close>

type_synonym 'a script = "(string + 'a) list \<times> rat list"

definition scripted :: "('a script, string, 'a) action" where
  "scripted x = (case fst x of [] \<Rightarrow> (x, Inl ''exhausted'') | r # rs \<Rightarrow> ((rs, snd x), r))"

definition noted_sleep :: "rat \<Rightarrow> ('a script, string, unit) action" where
  "noted_sleep d x = ((fst x, snd x @ [d]), Inr ())"

fun retries :: "(string \<Rightarrow> string \<Rightarrow> bool) \<Rightarrow> TransportRetryPolicy \<Rightarrow> string + 'a \<Rightarrow> bool" where
  "retries isa p (Inl e) = should_retry_exception isa p e"
| "retries isa p (Inr a) = False"

definition backoff :: "TransportRetryPolicy \<Rightarrow> nat \<Rightarrow> rat" where
  "backoff p i = min (base_delay_seconds p * 2 ^ i) (max_delay_seconds p)"

lemma retry_loop_scripted:
  assumes "n \<le> length rs" and "0 < n" and "1 \<le> k" and "max_attempts p = k + int n - 1"
  shows "let i = length (takeWhile (retries isa p) (take (n - 1) rs))
    in retry_loop isa noted_sleep p scripted n k (rs, ds) =
      ((drop (i + 1) rs, ds @ map (\<lambda>j. backoff p (nat (k - 1) + j)) [0..<i]), rs ! i)"
  using assms
proof (induction n arbitrary: k rs ds)
  case (Suc n)
  then obtain r rs' where rs: "rs = r # rs'" by (cases rs) auto
  show ?case
  proof (cases "n = 0 \<or> \<not> retries isa p r")
    case True
    have "retry_loop isa noted_sleep p scripted (Suc n) k (rs, ds) = ((rs', ds), r)"
      using True Suc.prems rs
      by (cases r) (auto simp: catches_def scripted_def)
    moreover have "takeWhile (retries isa p) (take n rs) = []" using True rs by (cases n) auto
    ultimately show ?thesis using rs by (simp add: Let_def)
  next
    case False
    then obtain e m where e: "r = Inl e" "should_retry_exception isa p e" and m: "n = Suc m"
      by (cases r; cases n) auto
    define d where "d = backoff p (nat (k - 1))"
    have delay: "delay_for_attempt p k = Inr d"
      using Suc.prems(3) by (simp add: delay_for_attempt_def backoff_def d_def)
    have step: "retry_loop isa noted_sleep p scripted (Suc n) k (rs, ds) =
        retry_loop isa noted_sleep p scripted n (k + 1) (rs', ds @ [d])"
      using Suc.prems rs e m delay
      by (simp add: catches_def scripted_def and_then_def noted_sleep_def del: retry_loop.simps(2))
        (simp add: retry_loop.simps(2) [of _ _ _ _ "Suc m"] catches_def scripted_def and_then_def noted_sleep_def
          del: retry_loop.simps(2))
    define i where "i = length (takeWhile (retries isa p) (take (n - 1) rs'))"
    have "length (takeWhile (retries isa p) (take n rs)) = Suc i" using rs e m by (simp add: i_def)
    moreover have "retry_loop isa noted_sleep p scripted n (k + 1) (rs', ds @ [d]) =
        ((drop (i + 1) rs', (ds @ [d]) @ map (\<lambda>j. backoff p (nat k + j)) [0..<i]), rs' ! i)"
      using Suc.IH [of rs' "k + 1" "ds @ [d]"] Suc.prems rs m by (simp add: i_def Let_def)
    moreover have "[d] @ map (\<lambda>j. backoff p (nat k + j)) [0..<i] = map (\<lambda>j. backoff p (nat (k - 1) + j)) [0..<Suc i]"
    proof -
      have "nat k = Suc (nat (k - 1))" using Suc.prems(3) by simp
      then have "map (\<lambda>j. backoff p (nat (k - 1) + j)) (map Suc [0..<i]) = map (\<lambda>j. backoff p (nat k + j)) [0..<i]" by simp
      then show ?thesis unfolding upt_conv_Cons [OF zero_less_Suc, of i] map_Suc_upt [symmetric] by (simp add: d_def)
    qed
    ultimately show ?thesis using step rs by (simp add: Let_def)
  qed
qed simp

text \<open>
  A retried operation gives the outcome of its first attempt that succeeds or fails for good, of the
  last allowed one otherwise. It is called that often and no more, and between the calls it sleeps twice
  as long every time, up to the limit. A policy without attempts never calls it and raises.
\<close>

theorem retry_outcome:
  assumes "max_attempts p \<le> int (length rs)"
  shows "if max_attempts p \<le> 0
    then retry_sync isa noted_sleep (Some p) scripted (rs, []) = ((rs, []), Inl ''TransportConfigurationError'')
    else let i = length (takeWhile (retries isa p) (take (nat (max_attempts p) - 1) rs))
      in retry_sync isa noted_sleep (Some p) scripted (rs, []) =
        ((drop (i + 1) rs, map (\<lambda>j. min (base_delay_seconds p * 2 ^ j) (max_delay_seconds p)) [0..<i]), rs ! i)"
proof (cases "max_attempts p \<le> 0")
  case False
  then show ?thesis
    using retry_loop_scripted [of "nat (max_attempts p)" rs 1 p isa "[]"] assms
    by (simp add: retry_sync_def Let_def backoff_def)
qed (simp add: retry_sync_def)

theorem retry_outcome_witness:
  "retry_sync (=) noted_sleep (Some default_retry_policy) scripted
     ([Inl ''TimeoutError'', Inl ''ConnectionError'', Inr True, Inr False], []) =
   (([Inr False], [1/2, 1]), Inr True)"
  using retry_outcome [of default_retry_policy "[Inl ''TimeoutError'', Inl ''ConnectionError'', Inr True, Inr False]" "(=)"]
  by (simp add: default_retry_policy_def should_retry_exception_def Let_def upt_rec)

end
