(* ===== verification/Runtime_Credentials.thy ===== *)
theory Runtime_Credentials
  imports Execution_Policy
begin

text \<open>
  The credentials of a session (\<^verbatim>\<open>transports/credentials.py\<close>, \<^verbatim>\<open>transports/secret_provider.py\<close>): how a reference
  is resolved through a profile of its tenant and a secret provider. The process environment and the
  loader of profiles are parameters; exceptions are their class and message.
\<close>

section \<open>Credentials\<close>

datatype TransportCredentials =
    UsernamePasswordCredentials string string
  | TokenCredentials string string
  | SNMPv2cCredentials string
  | SNMPv3Credentials string string "string option" "string option" "string option" "string option"

fun credentials_dict :: "TransportCredentials \<Rightarrow> (string, string) dict" where
  "credentials_dict (UsernamePasswordCredentials u p) = [(''username'', u), (''password'', p)]"
| "credentials_dict (TokenCredentials token scheme) = [(''Authorization'', scheme @ '' '' @ token)]"
| "credentials_dict (SNMPv2cCredentials c) = [(''community'', c)]"
| "credentials_dict (SNMPv3Credentials u level ap as pp ps) =
     List.map_filter (\<lambda>(k, v). map_option (Pair k) v)
       [(''username'', Some u), (''security_level'', Some level), (''auth_protocol'', ap), (''auth_secret'', as),
        (''privacy_protocol'', pp), (''privacy_secret'', ps)]"

record CredentialReference =
  credential_id :: string
  reference_transport :: string
  reference_tenant_id :: string

type_synonym 'a resolved = "(string \<times> string) + 'a"
type_synonym secret_provider = "string \<Rightarrow> string resolved"

section \<open>Secrets from the environment\<close>

definition key_char :: "char \<Rightarrow> char" where
  "key_char c =
     (let n = of_char c :: nat
      in if (48 \<le> n \<and> n \<le> 57) \<or> (65 \<le> n \<and> n \<le> 90) \<or> (97 \<le> n \<and> n \<le> 122) \<or> c = CHR ''_'' \<or> c = CHR ''-'' then c else CHR ''_'')"

definition environment_key :: "string \<Rightarrow> string" where
  "environment_key cleaned = upper (map key_char cleaned)"

definition EnvironmentSecretProvider :: "string \<Rightarrow> (string \<Rightarrow> string option) \<Rightarrow> secret_provider" where
  "EnvironmentSecretProvider key_prefix getenv reference =
     (if key_prefix = [] then
        Inl (''ProviderConfigurationError'', ''Environment secret provider prefix is not configured.'')
      else
        let cleaned = strip reference; key = environment_key cleaned
        in if cleaned = [] then Inl (''InvalidSecretReferenceError'', ''Secret reference is invalid.'')
           else if \<forall>c \<in> set key. c = CHR ''_'' then Inl (''InvalidSecretReferenceError'', ''Secret reference is invalid.'')
           else case getenv (key_prefix @ key) of
                  None \<Rightarrow> Inl (''SecretNotFoundError'', ''Requested secret was not found.'')
                | Some v \<Rightarrow> Inr v)"

text \<open>Which provider a deployment gets; the Vault adapter raises when it is constructed.\<close>

definition normalized :: "string option \<Rightarrow> string option" where
  "normalized v = (let cleaned = lower (strip (case v of None \<Rightarrow> [] | Some s \<Rightarrow> s)) in if cleaned = [] then None else Some cleaned)"

definition is_non_production :: "string option \<Rightarrow> bool" where
  "is_non_production app_env =
     ((case normalized app_env of None \<Rightarrow> ''development'' | Some e \<Rightarrow> e) \<in> {''development'', ''test''})"

definition unsupported_production_backend :: "string \<Rightarrow> secret_provider resolved" where
  "unsupported_production_backend backend =
     (if backend \<in> {''hashicorp_vault'', ''vault''} then
        Inl (''ProviderConfigurationError'', ''HashiCorp Vault secret provider is not implemented for this deployment.'')
      else Inl (''ProviderConfigurationError'', ''SECRET_PROVIDER is not a supported production backend.''))"

definition build_secret_provider ::
  "(string \<Rightarrow> string option) \<Rightarrow> string option \<Rightarrow> string option \<Rightarrow> secret_provider resolved" where
  "build_secret_provider getenv backend_setting app_env =
     (let backend = normalized backend_setting
      in if is_non_production app_env then
           (let selected = (case backend of None \<Rightarrow> ''environment'' | Some b \<Rightarrow> b)
            in if selected = ''environment'' then Inr (EnvironmentSecretProvider ''NOP_SECRET_'' getenv)
               else unsupported_production_backend selected)
         else case backend of
                None \<Rightarrow> Inl (''ProviderConfigurationError'', ''SECRET_PROVIDER is required outside development and test.'')
              | Some b \<Rightarrow>
                  if b = ''environment'' then
                    Inl (''ProviderConfigurationError'',
                      ''The environment secret provider cannot be used outside development and test.'')
                  else unsupported_production_backend b)"

section \<open>Resolving a reference\<close>

definition resolution_error :: "string \<Rightarrow> 'a resolved" where
  "resolution_error message = Inl (''CredentialResolutionError'', message)"

definition transport_aliases :: "(string, string) dict" where
  "transport_aliases =
     [(''ssh'', ''ssh''), (''paramiko'', ''ssh''), (''netmiko'', ''ssh''), (''telnet'', ''telnet''), (''snmp'', ''snmp''),
      (''snmpv2c'', ''snmp''), (''snmpv3'', ''snmp''), (''pysnmp'', ''snmp''), (''http'', ''http''), (''https'', ''http''),
      (''httpx'', ''http'')]"

definition transport_kind :: "string \<Rightarrow> string resolved" where
  "transport_kind transport =
     (case dict_get transport_aliases (lower (strip transport)) of
        None \<Rightarrow> resolution_error ''Credential profile does not support the selected transport.''
      | Some k \<Rightarrow> Inr k)"

definition reference_profile_id :: "CredentialReference \<Rightarrow> uuid resolved" where
  "reference_profile_id r =
     (case uuid_of_text (credential_id r) of
        None \<Rightarrow> resolution_error ''Credential profile was not found.''
      | Some i \<Rightarrow> Inr i)"

text \<open>\<open>s.split('::')\<close>: the pieces between the separators, from the left.\<close>

function split_colons :: "string \<Rightarrow> string \<Rightarrow> string list" where
  "split_colons acc [] = [rev acc]"
| "split_colons acc [c] = [rev (c # acc)]"
| "split_colons acc (c # d # cs) =
     (if c = CHR '':'' \<and> d = CHR '':'' then rev acc # split_colons [] cs else split_colons (c # acc) (d # cs))"
  by pat_completeness auto
termination by (relation "measure (\<lambda>(acc, s). length s)") auto

definition piece :: "string list \<Rightarrow> nat \<Rightarrow> string option" where
  "piece parts i = (if i < length parts then Some (parts ! i) else None)"

definition snmp_v3_of :: "string \<Rightarrow> string \<Rightarrow> TransportCredentials" where
  "snmp_v3_of user secret =
     (let parts = (if secret = [] then [] else split_colons [] secret);
          level = (case piece parts 0 of None \<Rightarrow> ''authNoPriv'' | Some l \<Rightarrow> if l = [] then ''authNoPriv'' else l)
      in SNMPv3Credentials user level (piece parts 1) (piece parts 2) (piece parts 3) (piece parts 4))"

definition with_username :: "CredentialProfileRecord \<Rightarrow> string \<Rightarrow> (string \<Rightarrow> 'a resolved) \<Rightarrow> 'a resolved" where
  "with_username p message f =
     (case profile_username p of None \<Rightarrow> resolution_error message | Some u \<Rightarrow> if u = [] then resolution_error message else f u)"

definition credentials_of ::
  "secret_provider \<Rightarrow> CredentialProfileRecord \<Rightarrow> string \<Rightarrow> TransportCredentials resolved" where
  "credentials_of secret p transport =
     (let ctype = lower (strip (case credential_type p of None \<Rightarrow> [] | Some t \<Rightarrow> t));
          resolve = (\<lambda>f. bind_result (secret (provider_reference p)) (\<lambda>v. Inr (f v)))
      in if transport = ''ssh'' then
           (if ctype \<notin> {''ssh_password'', ''telnet_password'', ''ssh_key''} then
              resolution_error ''Credential profile is not compatible with SSH.''
            else if ctype = ''ssh_key'' then resolve (\<lambda>v. TokenCredentials v ''SSH-KEY'')
            else with_username p ''Credential profile username is required for SSH.''
                   (\<lambda>u. resolve (UsernamePasswordCredentials u)))
         else if transport = ''telnet'' then
           (if ctype \<notin> {''ssh_password'', ''telnet_password''} then
              resolution_error ''Credential profile is not compatible with Telnet.''
            else with_username p ''Credential profile username is required for Telnet.''
                   (\<lambda>u. resolve (UsernamePasswordCredentials u)))
         else if transport = ''snmp'' then
           (if ctype = ''snmp_v2c'' then resolve SNMPv2cCredentials
            else if ctype = ''snmp_v3'' then
              with_username p ''Credential profile username is required for SNMPv3.'' (\<lambda>u. resolve (snmp_v3_of u))
            else resolution_error ''Credential profile is not compatible with SNMP.'')
         else if transport = ''http'' then
           (if ctype = ''http_basic'' then
              with_username p ''Credential profile username is required for HTTP/HTTPS basic auth.''
                (\<lambda>u. resolve (UsernamePasswordCredentials u))
            else if ctype = ''http_token'' then resolve (\<lambda>v. TokenCredentials v ''Bearer'')
            else resolution_error ''Credential profile is not compatible with HTTP/HTTPS.'')
         else resolution_error ''Credential profile is not compatible with the selected transport.'')"

definition resolve_reference ::
  "secret_provider \<Rightarrow> (string \<Rightarrow> uuid \<Rightarrow> CredentialProfileRecord option) \<Rightarrow> CredentialReference \<Rightarrow>
   TransportCredentials resolved" where
  "resolve_reference secret profile_loader r =
     bind_result (reference_profile_id r) (\<lambda>i.
     case profile_loader (reference_tenant_id r) i of
       None \<Rightarrow> resolution_error ''Credential profile was not found.''
     | Some p \<Rightarrow>
         if \<not> profile_enabled p then resolution_error ''Credential profile was not found.''
         else bind_result (transport_kind (reference_transport r)) (\<lambda>transport.
           if transport \<notin> set (map (\<lambda>t. lower (strip t)) (transport_types p))
           then resolution_error ''Credential profile does not support the selected transport.''
           else credentials_of secret p transport))"

section \<open>Properties\<close>

text \<open>The table of the kinds of credential that fit: transport, type of profile, user name needed, shape.\<close>

datatype credential_shape = PASSWORD | SSH_KEY_TOKEN | BEARER_TOKEN | COMMUNITY | SNMP_USER

fun shape_of :: "TransportCredentials \<Rightarrow> credential_shape option" where
  "shape_of (UsernamePasswordCredentials u p) = Some PASSWORD"
| "shape_of (TokenCredentials t scheme) =
     (if scheme = ''SSH-KEY'' then Some SSH_KEY_TOKEN else if scheme = ''Bearer'' then Some BEARER_TOKEN else None)"
| "shape_of (SNMPv2cCredentials c) = Some COMMUNITY"
| "shape_of (SNMPv3Credentials u l ap as pp ps) = Some SNMP_USER"

definition shape_table :: "((string \<times> string) \<times> bool \<times> credential_shape) list" where
  "shape_table =
     [((''ssh'', ''ssh_password''), True, PASSWORD), ((''ssh'', ''telnet_password''), True, PASSWORD),
      ((''ssh'', ''ssh_key''), False, SSH_KEY_TOKEN), ((''telnet'', ''ssh_password''), True, PASSWORD),
      ((''telnet'', ''telnet_password''), True, PASSWORD), ((''snmp'', ''snmp_v2c''), False, COMMUNITY),
      ((''snmp'', ''snmp_v3''), True, SNMP_USER), ((''http'', ''http_basic''), True, PASSWORD),
      ((''http'', ''http_token''), False, BEARER_TOKEN)]"

definition profile_kind :: "CredentialProfileRecord \<Rightarrow> string" where
  "profile_kind p = lower (strip (case credential_type p of None \<Rightarrow> [] | Some t \<Rightarrow> t))"

definition named_user :: "CredentialProfileRecord \<Rightarrow> bool" where
  "named_user p \<longleftrightarrow> (case profile_username p of None \<Rightarrow> False | Some u \<Rightarrow> u \<noteq> [])"

lemma credentials_fit:
  "case dict_get shape_table (transport, profile_kind p) of
     None \<Rightarrow> \<not> is_ok (credentials_of secret p transport)
   | Some (user_needed, shape) \<Rightarrow>
       (is_ok (credentials_of secret p transport) \<longleftrightarrow>
          (user_needed \<longrightarrow> named_user p) \<and> is_ok (secret (provider_reference p))) \<and>
       (\<forall>c. credentials_of secret p transport = Inr c \<longrightarrow> shape_of c = Some shape)"
  unfolding credentials_of_def profile_kind_def [symmetric] Let_def
  by (cases "secret (provider_reference p)")
    (auto simp: shape_table_def dict_get_def with_username_def named_user_def resolution_error_def snmp_v3_of_def Let_def
      split: option.split)

text \<open>
  C33: credentials have the type of their session. A reference resolves to credentials of a shape exactly
  when it names an enabled profile of its tenant that lists the kind of its transport, the table gives
  that shape for the kind and the type of the profile, a user name is there if it is needed, and the
  provider has the secret; no other credentials come out.
\<close>

theorem resolved_credentials_fit:
  "(\<exists>c. resolve_reference secret profile_loader r = Inr c \<and> shape_of c = Some shape) \<longleftrightarrow>
    (\<exists>i p kind user_needed. uuid_of_text (credential_id r) = Some i \<and>
       profile_loader (reference_tenant_id r) i = Some p \<and> profile_enabled p \<and>
       dict_get transport_aliases (lower (strip (reference_transport r))) = Some kind \<and>
       kind \<in> (\<lambda>t. lower (strip t)) ` set (transport_types p) \<and>
       dict_get shape_table (kind, profile_kind p) = Some (user_needed, shape) \<and>
       (if user_needed then named_user p else True) \<and> is_ok (secret (provider_reference p)))"
  (is "?resolved \<longleftrightarrow> ?fits")
proof
  assume ?resolved
  then obtain c where c: "resolve_reference secret profile_loader r = Inr c" "shape_of c = Some shape" by blast
  then obtain i p kind where parts: "uuid_of_text (credential_id r) = Some i"
      "profile_loader (reference_tenant_id r) i = Some p" "profile_enabled p"
      "dict_get transport_aliases (lower (strip (reference_transport r))) = Some kind"
      "kind \<in> (\<lambda>t. lower (strip t)) ` set (transport_types p)" "credentials_of secret p kind = Inr c"
    by (auto simp: resolve_reference_def bind_result_Inr_iff reference_profile_id_def transport_kind_def
        resolution_error_def split: option.splits if_splits)
  with c(2) credentials_fit [where secret = secret and p = p and transport = kind] show ?fits
    by (cases "dict_get shape_table (kind, profile_kind p)") (auto simp: is_ok_iff)
next
  assume ?fits
  then obtain i p kind user_needed where parts: "uuid_of_text (credential_id r) = Some i"
      "profile_loader (reference_tenant_id r) i = Some p" "profile_enabled p"
      "dict_get transport_aliases (lower (strip (reference_transport r))) = Some kind"
      "kind \<in> (\<lambda>t. lower (strip t)) ` set (transport_types p)"
      "dict_get shape_table (kind, profile_kind p) = Some (user_needed, shape)"
      "if user_needed then named_user p else True" "is_ok (secret (provider_reference p))" by blast
  then obtain c where "credentials_of secret p kind = Inr c" "shape_of c = Some shape"
    using credentials_fit [where secret = secret and p = p and transport = kind] by (auto simp: is_ok_iff split: if_splits)
  with parts show ?resolved
    by (auto simp: resolve_reference_def reference_profile_id_def transport_kind_def)
qed

text \<open>Every resolved credential has a shape, so the equivalence speaks about all results.\<close>

lemma resolved_has_shape:
  "resolve_reference secret profile_loader r = Inr c \<Longrightarrow> shape_of c \<noteq> None"
proof -
  assume "resolve_reference secret profile_loader r = Inr c"
  then obtain p kind where "credentials_of secret p kind = Inr c"
    by (auto simp: resolve_reference_def bind_result_Inr_iff resolution_error_def split: option.splits if_splits)
  with credentials_fit [where secret = secret and p = p and transport = kind] show ?thesis
    by (cases "dict_get shape_table (kind, profile_kind p)") (auto simp: is_ok_iff)
qed

text \<open>
  Only development and test read secrets from the environment. A deployment gets a provider exactly
  when it is one of these and its setting is absent or names the environment; a production deployment
  gets none and fails closed.
\<close>

lemma secret_provider_fails_closed:
  "build_secret_provider getenv backend_setting app_env = Inr provider \<longleftrightarrow>
     is_non_production app_env \<and> normalized backend_setting \<in> {None, Some ''environment''} \<and>
     provider = EnvironmentSecretProvider ''NOP_SECRET_'' getenv"
  by (auto simp: build_secret_provider_def unsupported_production_backend_def Let_def split: option.split)

text \<open>A profile that lists HTTPS only supports no transport: HTTPS is looked up as HTTP.\<close>

lemma https_profile_unusable:
  assumes "lower (strip (reference_transport r)) = ''https''" and "profile_loader (reference_tenant_id r) i = Some p"
    and "uuid_of_text (credential_id r) = Some i" and "transport_types p = [''https'']"
  shows "\<not> is_ok (resolve_reference secret profile_loader r)"
  using assms by (auto simp: resolve_reference_def reference_profile_id_def transport_kind_def transport_aliases_def
      dict_get_def resolution_error_def strip_def is_space_def lower_def lower_char_def)

text \<open>Different references can name the same secret.\<close>

lemma references_collide: "environment_key ''acme/core'' = environment_key ''ACME_core''"
  by code_simp

end
