(* ===== verification/Transport_Manager.thy ===== *)
theory Transport_Manager
  imports Circuit_Breaker Transport_Pacing Runtime_Credentials
begin

text \<open>
  Sessions to devices (\<^verbatim>\<open>transports/manager.py\<close>, \<^verbatim>\<open>connection_pool.py\<close>, \<^verbatim>\<open>registry.py\<close>, \<^verbatim>\<open>session.py\<close>,
  \<^verbatim>\<open>timeout.py\<close>): the pool as atomic segments between the suspensions of its coroutines, the registry, and
  the manager that guards a session by breaker, rate limiter, credentials and pool. A transport is the
  record of its operations on a world \<open>'w\<close>; handles \<open>'h\<close> stand for session objects.
\<close>

section \<open>The pool of sessions\<close>

datatype 'h pool_task = Opening 'h | Closing 'h

record 'h ConnectionPool =
  max_size :: int
  pooled :: "(string, 'h) dict"
  working :: "(string, 'h pool_task) dict"

text \<open>A key in \<open>working\<close> is locked: its coroutine waits for the session to open or to close.\<close>

datatype 'h pool_answer = Ready 'h | Full | Create

definition pool_lookup :: "string \<Rightarrow> 'h ConnectionPool \<Rightarrow> 'h pool_answer" where
  "pool_lookup key p =
     (case dict_get (pooled p) key of
        Some h \<Rightarrow> Ready h
      | None \<Rightarrow> if int (length (pooled p)) \<ge> max_size p then Full else Create)"

definition pool_opening :: "string \<Rightarrow> 'h \<Rightarrow> 'h ConnectionPool \<Rightarrow> 'h ConnectionPool" where
  "pool_opening key h p = p\<lparr>working := dict_set key (Opening h) (working p)\<rparr>"

definition pool_opened :: "string \<Rightarrow> 'h \<Rightarrow> 'h ConnectionPool \<Rightarrow> 'h ConnectionPool" where
  "pool_opened key h p = p\<lparr>pooled := dict_set key h (pooled p), working := dict_pop key (working p)\<rparr>"

definition pool_unlock :: "string \<Rightarrow> 'h ConnectionPool \<Rightarrow> 'h ConnectionPool" where
  "pool_unlock key p = p\<lparr>working := dict_pop key (working p)\<rparr>"

definition pool_closing :: "string \<Rightarrow> 'h \<Rightarrow> 'h ConnectionPool \<Rightarrow> 'h ConnectionPool" where
  "pool_closing key h p = p\<lparr>pooled := dict_pop key (pooled p), working := dict_set key (Closing h) (working p)\<rparr>"

text \<open>Coroutines interleave at their suspensions; \<open>create\<close> is the check, the factory and the start of \<open>open\<close>.\<close>

inductive pool_step :: "'h ConnectionPool \<Rightarrow> 'h ConnectionPool \<Rightarrow> bool" where
  create: "key \<notin> set (dict_keys (working p)) \<Longrightarrow> pool_lookup key p = Create \<Longrightarrow> pool_step p (pool_opening key h p)"
| opened: "dict_get (working p) key = Some (Opening h) \<Longrightarrow> pool_step p (pool_opened key h p)"
| unopened: "dict_get (working p) key = Some (Opening h) \<Longrightarrow> pool_step p (pool_unlock key p)"
| close: "key \<notin> set (dict_keys (working p)) \<Longrightarrow> dict_get (pooled p) key = Some h \<Longrightarrow> pool_step p (pool_closing key h p)"
| closed: "dict_get (working p) key = Some (Closing h) \<Longrightarrow> pool_step p (pool_unlock key p)"

definition empty_pool :: "'h ConnectionPool \<Rightarrow> bool" where
  "empty_pool p \<longleftrightarrow> pooled p = [] \<and> working p = []"

definition pool_inv :: "'h ConnectionPool \<Rightarrow> bool" where
  "pool_inv p \<longleftrightarrow> dict_ok (pooled p) \<and> dict_ok (working p) \<and>
     set (dict_keys (pooled p)) \<inter> set (dict_keys (working p)) = {}"

text \<open>The coroutines run to their end without interruption.\<close>

definition get_or_create ::
  "string \<Rightarrow> ('w, 'e, 'h) action \<Rightarrow> ('h \<Rightarrow> ('w, 'e, unit) action) \<Rightarrow> 'e \<Rightarrow> ('h ConnectionPool \<times> 'w, 'e, 'h) action" where
  "get_or_create key factory open_handle full x =
     (case pool_lookup key (fst x) of
        Ready h \<Rightarrow> (x, Inr h)
      | Full \<Rightarrow> (x, Inl full)
      | Create \<Rightarrow>
          (case factory (snd x) of
             (w, Inl e) \<Rightarrow> ((fst x, w), Inl e)
           | (w, Inr h) \<Rightarrow>
               (let p = pool_opening key h (fst x)
                in case open_handle h w of
                     (w', Inl e) \<Rightarrow> ((pool_unlock key p, w'), Inl e)
                   | (w', Inr _) \<Rightarrow> ((pool_opened key h p, w'), Inr h))))"

definition release :: "string \<Rightarrow> ('h \<Rightarrow> ('w, 'e, unit) action) \<Rightarrow> ('h ConnectionPool \<times> 'w, 'e, unit) action" where
  "release key close_handle x =
     (case dict_get (pooled (fst x)) key of
        None \<Rightarrow> (x, Inr ())
      | Some h \<Rightarrow>
          (let p = pool_closing key h (fst x)
           in case close_handle h (snd x) of (w, r) \<Rightarrow> ((pool_unlock key p, w), r)))"

fun release_keys :: "('h \<Rightarrow> ('w, 'e, unit) action) \<Rightarrow> string list \<Rightarrow> ('h ConnectionPool \<times> 'w, 'e, unit) action" where
  "release_keys close_handle [] = returns ()"
| "release_keys close_handle (k # ks) = and_then (release k close_handle) (\<lambda>_. release_keys close_handle ks)"

definition close_all :: "('h \<Rightarrow> ('w, 'e, unit) action) \<Rightarrow> ('h ConnectionPool \<times> 'w, 'e, unit) action" where
  "close_all close_handle x = release_keys close_handle (dict_keys (pooled (fst x))) x"

section \<open>Registry and manager\<close>

record TransportTimeout =
  connect_seconds :: "rat option"
  read_seconds :: "rat option"
  write_seconds :: "rat option"
  total_seconds :: "rat option"

record TransportTarget =
  target_identifier :: string
  target_address :: string
  target_credential :: "CredentialReference option"

record TransportContext =
  context_target :: TransportTarget
  context_capabilities :: "TransportCapability set"
  context_credentials :: "TransportCredentials option"
  context_timeout :: "TransportTimeout option"
  context_retry_policy :: "TransportRetryPolicy option"

type_synonym error = "string \<times> string"

record ('w, 'h) Transport =
  transport_name :: string
  transport_capabilities :: "TransportCapability set"
  health_check :: "TransportContext \<Rightarrow> ('w, error, unit) action"
  create_session :: "TransportContext \<Rightarrow> ('w, error, 'h) action"

type_synonym ('w, 'h) TransportRegistry = "(string, ('w, 'h) Transport) dict"

definition transport_register :: "('w, 'h) Transport \<Rightarrow> ('w, 'h) TransportRegistry \<Rightarrow> ('w, 'h) TransportRegistry" where
  "transport_register t r = dict_set (transport_name t) t r"

definition transport_get :: "('w, 'h) TransportRegistry \<Rightarrow> string \<Rightarrow> error + ('w, 'h) Transport" where
  "transport_get r name =
     (case dict_get r name of
        None \<Rightarrow> Inl (''TransportUnavailableError'', ''Unknown transport: '' @ name)
      | Some t \<Rightarrow> Inr t)"

definition transport_select :: "TransportCapability set \<Rightarrow> ('w, 'h) TransportRegistry \<Rightarrow> ('w, 'h) Transport list" where
  "transport_select capabilities r = filter (\<lambda>t. capabilities \<subseteq> transport_capabilities t) (dict_values r)"

definition select_ordered ::
  "TransportCapability set \<Rightarrow> string list \<Rightarrow> ('w, 'h) TransportRegistry \<Rightarrow> ('w, 'h) Transport list" where
  "select_ordered capabilities names r =
     (let by_name = fold (\<lambda>t. dict_set (transport_name t) t) (transport_select capabilities r) []
      in List.map_filter (dict_get by_name) names)"

record ('w, 'h) TransportManager =
  manager_registry :: "('w, 'h) TransportRegistry"
  open_handle :: "'h \<Rightarrow> ('w, error, unit) action"
  close_handle :: "'h \<Rightarrow> ('w, error, unit) action"
  credential_resolver :: "(TransportContext \<Rightarrow> TransportCredentials option) option"
  credential_provider :: "(CredentialReference \<Rightarrow> error + TransportCredentials option) option"
  manager_retry_policy :: TransportRetryPolicy
  manager_timeout :: TransportTimeout

record ('w, 'h) manager_state =
  manager_breaker :: CircuitBreaker
  manager_limiter :: "RateLimiter option"
  manager_pool :: "'h ConnectionPool"
  manager_world :: 'w

text \<open>The readings of the clocks during a call.\<close>

record session_clock =
  asked_at :: time
  paced_at :: rat
  wakes :: "rat \<Rightarrow> rat \<Rightarrow> rat"
  failed_at :: time

definition resolve_credentials ::
  "('w, 'h) TransportManager \<Rightarrow> TransportTarget \<Rightarrow> TransportCapability set \<Rightarrow> error + TransportCredentials option" where
  "resolve_credentials mgr target capabilities =
     (case (credential_provider mgr, target_credential target) of
        (Some provider, Some reference) \<Rightarrow> provider reference
      | _ \<Rightarrow>
          (case credential_resolver mgr of
             None \<Rightarrow> Inr None
           | Some resolver \<Rightarrow>
               Inr (resolver \<lparr>context_target = target, context_capabilities = capabilities, context_credentials = None,
                 context_timeout = None, context_retry_policy = None\<rparr>)))"

definition session_context ::
  "('w, 'h) TransportManager \<Rightarrow> TransportTarget \<Rightarrow> TransportCapability set \<Rightarrow> error + TransportContext" where
  "session_context mgr target capabilities =
     bind_result (resolve_credentials mgr target capabilities) (\<lambda>credentials.
     Inr \<lparr>context_target = target, context_capabilities = capabilities, context_credentials = credentials,
          context_timeout = Some (manager_timeout mgr), context_retry_policy = Some (manager_retry_policy mgr)\<rparr>)"

definition pool_key :: "string \<Rightarrow> string \<Rightarrow> string" where
  "pool_key transport target = transport @ '':'' @ target"

definition on_world :: "('w, error, 'a) action \<Rightarrow> (('w, 'h) manager_state, error, 'a) action" where
  "on_world m x = (let (w, r) = m (manager_world x) in (x\<lparr>manager_world := w\<rparr>, r))"

definition on_pool :: "('h ConnectionPool \<times> 'w, error, 'a) action \<Rightarrow> (('w, 'h) manager_state, error, 'a) action" where
  "on_pool m x = (let ((p, w), r) = m (manager_pool x, manager_world x) in (x\<lparr>manager_pool := p, manager_world := w\<rparr>, r))"

definition connect ::
  "('w, 'h) TransportManager \<Rightarrow> session_clock \<Rightarrow> string \<Rightarrow> TransportTarget \<Rightarrow> ('w, 'h) Transport \<Rightarrow> TransportContext \<Rightarrow>
   (('w, 'h) manager_state, error, 'h) action" where
  "connect mgr clock name target transport context =
     and_then
       (catches
         (and_then (on_world (health_check transport context)) (\<lambda>_.
            on_pool (get_or_create (pool_key name (target_identifier target)) (create_session transport context)
              (open_handle mgr) (''RuntimeError'', ''Connection pool is full.''))))
         (\<lambda>e. and_then (modify (\<lambda>x. x\<lparr>manager_breaker := record_failure (failed_at clock) (manager_breaker x)\<rparr>))
            (\<lambda>_. raises e)))
       (\<lambda>h. and_then (modify (\<lambda>x. x\<lparr>manager_breaker := record_success (manager_breaker x)\<rparr>)) (\<lambda>_. returns h))"

text \<open>None is a call that waits for the rate limiter for ever.\<close>

definition paced :: "session_clock \<Rightarrow> ('w, 'h) manager_state \<Rightarrow> ('w, 'h) manager_state option" where
  "paced clock x =
     (case manager_limiter x of
        None \<Rightarrow> Some x
      | Some l \<Rightarrow> map_option (\<lambda>(l', _). x\<lparr>manager_limiter := Some l'\<rparr>) (acquire (wakes clock) 1 (paced_at clock) l))"

definition open_session ::
  "('w, 'h) TransportManager \<Rightarrow> session_clock \<Rightarrow> string \<Rightarrow> TransportTarget \<Rightarrow> TransportCapability set \<Rightarrow>
   ('w, 'h) manager_state \<Rightarrow> (('w, 'h) manager_state \<times> (error + 'h)) option" where
  "open_session mgr clock name target capabilities x =
     (let (allowed, breaker) = allow_request (asked_at clock) (manager_breaker x); x1 = x\<lparr>manager_breaker := breaker\<rparr>
      in if \<not> allowed then Some (x1, Inl (''RuntimeError'', ''Transport circuit breaker is open.''))
         else map_option
           (and_then (\<lambda>y. (y, transport_get (manager_registry mgr) name)) (\<lambda>transport.
            and_then (\<lambda>y. (y, session_context mgr target
               (if capabilities = {} then transport_capabilities transport else capabilities))) (\<lambda>context.
            connect mgr clock name target transport context)))
           (paced clock x1))"

definition close_session ::
  "('w, 'h) TransportManager \<Rightarrow> string \<Rightarrow> TransportTarget \<Rightarrow> (('w, 'h) manager_state, error, unit) action" where
  "close_session mgr name target = on_pool (release (pool_key name (target_identifier target)) (close_handle mgr))"

definition close_sessions :: "('w, 'h) TransportManager \<Rightarrow> (('w, 'h) manager_state, error, unit) action" where
  "close_sessions mgr = on_pool (close_all (close_handle mgr))"

section \<open>The pool keeps one session for a key\<close>

lemma keys_dict_pop: "set (dict_keys (dict_pop k d)) = set (dict_keys d) - {k}"
  by (auto simp: dict_keys_def dict_pop_def)

lemma pool_inv_simps:
  "pool_inv p \<Longrightarrow> key \<notin> set (dict_keys (working p)) \<Longrightarrow> dict_get (pooled p) key = None \<Longrightarrow> pool_inv (pool_opening key h p)"
  "pool_inv p \<Longrightarrow> pool_inv (pool_opened key h p)"
  "pool_inv p \<Longrightarrow> pool_inv (pool_unlock key p)"
  "pool_inv p \<Longrightarrow> pool_inv (pool_closing key h p)"
  by (auto simp: pool_inv_def pool_opening_def pool_opened_def pool_unlock_def pool_closing_def dict_ok_set dict_ok_pop
      keys_dict_set keys_dict_pop dict_get_None_iff)

lemma pool_lookup_Create: "pool_lookup key p = Create \<Longrightarrow> dict_get (pooled p) key = None \<and> int (length (pooled p)) < max_size p"
  by (auto simp: pool_lookup_def split: option.splits if_splits)

interpretation pool: invariant_system empty_pool pool_step pool_inv
proof unfold_locales
  fix p :: "'h ConnectionPool" assume "empty_pool p"
  then show "pool_inv p" by (simp add: empty_pool_def pool_inv_def dict_ok_def dict_keys_def)
next
  fix p q :: "'h ConnectionPool" assume "pool_step p q" and "pool_inv p"
  then show "pool_inv q" by cases (auto intro: pool_inv_simps dest: pool_lookup_Create)
qed


text \<open>The check of the size and the store are apart: two keys opened at once exceed a pool of one.\<close>

lemma overfull_pool:
  "reachable empty_pool pool_step \<lparr>max_size = 1, pooled = [(''a'', 1 :: nat), (''b'', 2)], working = []\<rparr>"
proof -
  define p :: "nat ConnectionPool" where "p = \<lparr>max_size = 1, pooled = [], working = []\<rparr>"
  define q where "q = pool_opening ''a'' 1 p"
  define r where "r = pool_opening ''b'' 2 q"
  define s where "s = pool_opened ''a'' 1 r"
  have "reachable empty_pool pool_step p" by (rule reach_start) (simp add: empty_pool_def p_def)
  moreover have "pool_step p q"
    unfolding q_def by (rule pool_step.create) (simp_all add: p_def dict_keys_def pool_lookup_def dict_get_def)
  moreover have "pool_step q r"
    unfolding r_def
    by (rule pool_step.create) (simp_all add: p_def q_def dict_keys_def pool_lookup_def dict_get_def pool_opening_def)
  moreover have "pool_step r s"
    unfolding s_def by (rule pool_step.opened) (simp add: p_def q_def r_def dict_get_def pool_opening_def)
  moreover have "pool_step s (pool_opened ''b'' 2 s)"
    by (rule pool_step.opened)
      (simp add: p_def q_def r_def s_def dict_get_def pool_opening_def pool_opened_def dict_pop_def)
  ultimately have "reachable empty_pool pool_step (pool_opened ''b'' 2 s)" by (meson reach_step)
  then show ?thesis by (simp add: p_def q_def r_def s_def pool_opening_def pool_opened_def dict_pop_def)
qed


section \<open>Opening a session\<close>

text \<open>A pool that is used by one caller at a time keeps its size and returns what it stores.\<close>

lemma get_or_create_spec:
  assumes "get_or_create key factory opening full (p, w) = ((p', w'), r)" and "key \<notin> set (dict_keys (working p))"
  shows "max_size p' = max_size p" and "int (length (pooled p')) \<le> max (max_size p) (int (length (pooled p)))"
    and "r = Inr h \<Longrightarrow> dict_get (pooled p') key = Some h"
    and "dict_get (pooled p) key = Some h \<Longrightarrow> p' = p \<and> w' = w \<and> r = Inr h"
    and "r = Inl e \<Longrightarrow> pooled p' = pooled p"
  using assms
  by (auto simp: get_or_create_def pool_opening_def pool_opened_def pool_unlock_def dict_get_set length_dict_set
      dest: pool_lookup_Create split: pool_answer.splits prod.splits sum.splits if_splits)
    (auto simp: pool_lookup_def split: option.splits if_splits)

text \<open>The transport and the context of a call, or the exception that comes before the device is reached.\<close>

definition admitted ::
  "('w, 'h) TransportManager \<Rightarrow> string \<Rightarrow> TransportTarget \<Rightarrow> TransportCapability set \<Rightarrow>
   error + ('w, 'h) Transport \<times> TransportContext" where
  "admitted mgr name target capabilities =
     bind_result (transport_get (manager_registry mgr) name) (\<lambda>t.
     bind_result (session_context mgr target (if capabilities = {} then transport_capabilities t else capabilities)) (\<lambda>c.
     Inr (t, c)))"

lemma open_session_cases:
  assumes "open_session mgr clock name target capabilities x = Some (y, r)"
  obtains (stopped) "\<not> fst (allow_request (asked_at clock) (manager_breaker x))"
      "r = Inl (''RuntimeError'', ''Transport circuit breaker is open.'')"
      "y = x\<lparr>manager_breaker := snd (allow_request (asked_at clock) (manager_breaker x))\<rparr>"
    | (refused) e l where "fst (allow_request (asked_at clock) (manager_breaker x))"
      "admitted mgr name target capabilities = Inl e" "r = Inl e"
      "y = x\<lparr>manager_breaker := snd (allow_request (asked_at clock) (manager_breaker x)), manager_limiter := l\<rparr>"
    | (reached) t c l where "fst (allow_request (asked_at clock) (manager_breaker x))"
      "admitted mgr name target capabilities = Inr (t, c)"
      "connect mgr clock name target t c
         (x\<lparr>manager_breaker := snd (allow_request (asked_at clock) (manager_breaker x)), manager_limiter := l\<rparr>) = (y, r)"
proof (cases "fst (allow_request (asked_at clock) (manager_breaker x))")
  case False
  with assms stopped show ?thesis by (simp add: open_session_def case_prod_beta Let_def)
next
  case True
  let ?x = "x\<lparr>manager_breaker := snd (allow_request (asked_at clock) (manager_breaker x))\<rparr>"
  from assms True obtain z where z: "paced clock ?x = Some z"
    by (auto simp: open_session_def case_prod_beta Let_def)
  then obtain l where l: "z = ?x\<lparr>manager_limiter := l\<rparr>"
    by (cases "manager_limiter x") (auto simp: paced_def intro: that [of None])
  with assms True z refused reached show ?thesis
    by (auto simp: open_session_def admitted_def and_then_def case_prod_beta Let_def split: sum.splits)
qed

lemma connect_spec:
  assumes "connect mgr clock name target t c x = (y, r)"
    and "pool_key name (target_identifier target) \<notin> set (dict_keys (working (manager_pool x)))"
  shows "manager_breaker y =
      (if is_ok r then record_success (manager_breaker x) else record_failure (failed_at clock) (manager_breaker x))"
    and "r = Inr h \<Longrightarrow> dict_get (pooled (manager_pool y)) (pool_key name (target_identifier target)) = Some h"
    and "int (length (pooled (manager_pool y))) \<le> max (max_size (manager_pool x)) (int (length (pooled (manager_pool x))))"
proof -
  let ?key = "pool_key name (target_identifier target)"
  let ?full = "(''RuntimeError'', ''Connection pool is full.'')"
  obtain w a where health: "health_check t c (manager_world x) = (w, a)" by fastforce
  have "manager_breaker y = (if is_ok r then record_success (manager_breaker x) else record_failure (failed_at clock) (manager_breaker x)) \<and>
      (\<forall>h. r = Inr h \<longrightarrow> dict_get (pooled (manager_pool y)) ?key = Some h) \<and>
      int (length (pooled (manager_pool y))) \<le> max (max_size (manager_pool x)) (int (length (pooled (manager_pool x))))"
  proof (cases a)
    case (Inl e)
    with assms(1) health show ?thesis
      by (auto simp: connect_def and_then_def catches_def on_world_def)
  next
    case (Inr u)
    obtain p w' b where got: "get_or_create ?key (create_session t c) (open_handle mgr) ?full (manager_pool x, w) = ((p, w'), b)"
      by (metis prod.collapse)
    note spec = get_or_create_spec [OF got assms(2)]
    show ?thesis
    proof (cases b)
      case (Inl e)
      with assms(1) health Inr got spec(2) show ?thesis
        by (auto simp: connect_def and_then_def catches_def on_world_def on_pool_def)
    next
      case b: (Inr h)
      with assms(1) health Inr got spec(2,3) show ?thesis
        by (auto simp: connect_def and_then_def catches_def on_world_def on_pool_def)
    qed
  qed
  then show "manager_breaker y =
      (if is_ok r then record_success (manager_breaker x) else record_failure (failed_at clock) (manager_breaker x))"
    and "r = Inr h \<Longrightarrow> dict_get (pooled (manager_pool y)) ?key = Some h"
    and "int (length (pooled (manager_pool y))) \<le> max (max_size (manager_pool x)) (int (length (pooled (manager_pool x))))"
    by blast+
qed

text \<open>
  C35: a call for a session is accounted for once. A breaker that is open stops it before limiter, credentials,
  pool and device; an unknown transport or unresolved credentials end it before the device, which the breaker
  does not count; otherwise the breaker takes exactly the step of one guarded request with the outcome of the
  call, a returned session is the one the pool keeps, and the pool does not outgrow its size.
\<close>

theorem session_is_accounted:
  assumes "open_session mgr clock name target capabilities x = Some (y, r)"
    and "pool_key name (target_identifier target) \<notin> set (dict_keys (working (manager_pool x)))"
  shows "if \<not> fst (allow_request (asked_at clock) (manager_breaker x))
    then y = x\<lparr>manager_breaker := snd (allow_request (asked_at clock) (manager_breaker x))\<rparr> \<and> \<not> is_ok r
    else if \<not> is_ok (admitted mgr name target capabilities)
    then manager_breaker y = snd (allow_request (asked_at clock) (manager_breaker x)) \<and>
      manager_pool y = manager_pool x \<and> manager_world y = manager_world x \<and> \<not> is_ok r
    else manager_breaker y = guarded_request (asked_at clock) (failed_at clock) (is_ok r) (manager_breaker x) \<and>
      (\<forall>h. r = Inr h \<longrightarrow> dict_get (pooled (manager_pool y)) (pool_key name (target_identifier target)) = Some h) \<and>
      int (length (pooled (manager_pool y))) \<le> max (max_size (manager_pool x)) (int (length (pooled (manager_pool x))))"
  using assms(1)
proof (cases rule: open_session_cases)
  case stopped
  then show ?thesis by simp
next
  case (refused e l)
  then show ?thesis by simp
next
  case (reached t c l)
  have free: "pool_key name (target_identifier target) \<notin> set (dict_keys (working (manager_pool
      (x\<lparr>manager_breaker := snd (allow_request (asked_at clock) (manager_breaker x)), manager_limiter := l\<rparr>))))"
    using assms(2) by simp
  from reached(1,2) connect_spec [OF reached(3) free] show ?thesis
    by (simp add: guarded_request_def case_prod_beta)
qed

definition sample_manager :: "(nat, nat) TransportManager" where
  "sample_manager =
     \<lparr>manager_registry = transport_register \<lparr>transport_name = ''ssh'', transport_capabilities = {SSH},
        health_check = (\<lambda>_ w. (w, Inr ())), create_session = (\<lambda>_ w. (Suc w, Inr w))\<rparr> [],
      open_handle = (\<lambda>_ w. (w, Inr ())), close_handle = (\<lambda>_ w. (w, Inr ())), credential_resolver = None,
      credential_provider = None, manager_retry_policy = default_retry_policy,
      manager_timeout = \<lparr>connect_seconds = Some 10, read_seconds = Some 30, write_seconds = Some 30, total_seconds = None\<rparr>\<rparr>"

theorem session_is_accounted_witness:
  "let x :: (nat, nat) manager_state = \<lparr>manager_breaker = default_breaker, manager_limiter = None,
        manager_pool = \<lparr>max_size = 32, pooled = [], working = []\<rparr>, manager_world = 7\<rparr>;
      clock = \<lparr>asked_at = 0, paced_at = 0, wakes = (+), failed_at = 1\<rparr>;
      target = \<lparr>target_identifier = ''sw1'', target_address = ''10.0.0.1'', target_credential = None\<rparr>
   in \<exists>y. open_session sample_manager clock ''ssh'' target {} x = Some (y, Inr 7) \<and>
     manager_breaker y = guarded_request 0 1 True default_breaker \<and>
     dict_get (pooled (manager_pool y)) ''ssh:sw1'' = Some 7"
proof -
  define x :: "(nat, nat) manager_state" where "x = \<lparr>manager_breaker = default_breaker, manager_limiter = None,
        manager_pool = \<lparr>max_size = 32, pooled = [], working = []\<rparr>, manager_world = 7 :: nat\<rparr>"
  define clock where "clock = \<lparr>asked_at = 0, paced_at = 0, wakes = (+), failed_at = 1\<rparr>"
  define target where "target = \<lparr>target_identifier = ''sw1'', target_address = ''10.0.0.1'', target_credential = None\<rparr>"
  obtain y where run: "open_session sample_manager clock ''ssh'' target {} x = Some (y, Inr 7)"
    by (auto simp: open_session_def paced_def allow_request_def default_breaker_def x_def clock_def target_def sample_manager_def
        transport_get_def transport_register_def dict_get_def session_context_def resolve_credentials_def connect_def
        and_then_def catches_def on_world_def on_pool_def get_or_create_def pool_lookup_def Let_def)
  have free: "pool_key ''ssh'' (target_identifier target) \<notin> set (dict_keys (working (manager_pool x)))"
    by (simp add: x_def dict_keys_def)
  have "fst (allow_request (asked_at clock) (manager_breaker x))" "is_ok (admitted sample_manager ''ssh'' target {})"
    by (simp_all add: x_def clock_def allow_request_def default_breaker_def admitted_def sample_manager_def target_def
        transport_get_def transport_register_def dict_get_def session_context_def resolve_credentials_def)
  with session_is_accounted [OF run free] show ?thesis
    using run by (auto simp: Let_def x_def [symmetric] clock_def [symmetric] target_def [symmetric])
      (auto simp: x_def clock_def target_def pool_key_def)
qed

end
