(* ===== verification/Cisco_Collector.thy ===== *)
theory Cisco_Collector
  imports Cisco_Platforms Cisco_Inventory Transport_Manager
begin

text \<open>
  The Cisco inventory collector (\<^verbatim>\<open>collectors/cisco/base.py\<close>): it resolves the platform, selects a transport,
  opens a session and reads commands, SNMP subtrees or pages, and normalises what it read. A session is
  given by the operations it has, on a world \<open>'w\<close>; the cancellation check is an action that may raise.
\<close>

section \<open>Requests and sessions\<close>

record 'w inventory_request =
  req_identifier :: string
  req_address :: string
  req_tenant_id :: "string option"
  req_target_metadata :: payload
  req_metadata :: payload
  cancellation_check :: "('w, error, unit) action"

text \<open>A response: its text if it has one, else the body it reads if it has one, else its own text form.\<close>

record http_response =
  response_string :: "string option"
  response_body :: "string option"
  response_form :: string

record 'w session_operations =
  session_execute :: "(string \<Rightarrow> ('w, error, string) action) option"
  session_walk :: "(string \<Rightarrow> ('w, error, (string \<times> pyval) list) action) option"
  session_request :: "(string \<Rightarrow> string \<Rightarrow> ('w, error, http_response) action) option"

definition collection_error :: "string \<Rightarrow> error" where
  "collection_error text = (''CiscoInventoryCollectionError'', text)"

section \<open>The platform\<close>

definition resolve_platform ::
  "CiscoPlatformRegistry \<Rightarrow> string \<Rightarrow> 'w inventory_request \<Rightarrow> error + CiscoPlatformDefinition" where
  "resolve_platform r own_family q =
     (let hint = (\<lambda>k. text_of (dict_lookup (req_target_metadata q) k));
          family = (case hint ''platform_family'' of
                      Some f \<Rightarrow> f
                    | None \<Rightarrow> (case text_of (dict_lookup (req_metadata q) ''platform_family'') of Some f \<Rightarrow> f | None \<Rightarrow> own_family));
          known = (if family = [] then None else dict_get r (canonicalize_family family))
      in case known of
           Some p \<Rightarrow> Inr p
         | None \<Rightarrow>
             (case detect r \<lparr>signal_model = hint ''model'', signal_product_id = hint ''product_id'',
                 signal_platform_string = hint ''platform_string'', signal_sys_object_id = hint ''sys_object_id'',
                 signal_http_banner = hint ''http_banner''\<rparr> of
                Some p \<Rightarrow> Inr p
              | None \<Rightarrow> Inl (collection_error ''Unable to resolve supported Cisco platform.'')))"

section \<open>The transport\<close>

definition TRANSPORT_PRIORITY :: "TransportCapability list" where
  "TRANSPORT_PRIORITY = [SSH, TELNET, HTTPS, HTTP, SNMP]"

fun DEFAULT_TRANSPORT_NAMES :: "TransportCapability \<Rightarrow> string list" where
  "DEFAULT_TRANSPORT_NAMES SSH = [''netmiko'', ''paramiko'']"
| "DEFAULT_TRANSPORT_NAMES TELNET = [''telnetlib'']"
| "DEFAULT_TRANSPORT_NAMES HTTPS = [''httpx'']"
| "DEFAULT_TRANSPORT_NAMES HTTP = [''httpx'']"
| "DEFAULT_TRANSPORT_NAMES SNMP = [''pysnmp'']"
| "DEFAULT_TRANSPORT_NAMES ICMP = []"

type_synonym selection = "TransportCapability \<times> string"

definition highest_priority :: "TransportCapability set \<Rightarrow> error + TransportCapability" where
  "highest_priority capabilities =
     (case find (\<lambda>c. c \<in> capabilities) TRANSPORT_PRIORITY of
        Some c \<Rightarrow> Inr c
      | None \<Rightarrow> Inl (collection_error ''No supported transport capability found.''))"

text \<open>Only a \<open>KeyError\<close> of the manager makes the selector go on to the next name.\<close>

fun try_names :: "('w, 'h) TransportRegistry \<Rightarrow> TransportCapability \<Rightarrow> string list \<Rightarrow> error + selection option" where
  "try_names r c [] = Inr None"
| "try_names r c (n # ns) =
     (case transport_get r n of
        Inl e \<Rightarrow> if fst e = ''KeyError'' then try_names r c ns else Inl e
      | Inr t \<Rightarrow> if c \<in> transport_capabilities t then Inr (Some (c, transport_name t)) else try_names r c ns)"

fun try_capabilities ::
  "('w, 'h) TransportRegistry \<Rightarrow> (TransportCapability \<Rightarrow> string list) \<Rightarrow> CiscoPlatformDefinition \<Rightarrow> TransportCapability list \<Rightarrow>
   error + selection" where
  "try_capabilities r names p [] =
     Inl (collection_error (''No registered transport is available for '' @ repr_text (platform_family p) @ ''.''))"
| "try_capabilities r names p (c # cs) =
     (if c \<notin> set (transport_support (platform_metadata p)) then try_capabilities r names p cs
      else bind_result (try_names r c (names c)) (\<lambda>found.
             case found of Some s \<Rightarrow> Inr s | None \<Rightarrow> try_capabilities r names p cs))"

definition selector_select ::
  "('w, 'h) TransportRegistry \<Rightarrow> (TransportCapability \<Rightarrow> string list) \<Rightarrow> CiscoPlatformDefinition \<Rightarrow> string option \<Rightarrow>
   error + selection" where
  "selector_select r names p preferred_name =
     (case preferred_name of
        Some n \<Rightarrow>
          bind_result (transport_get r n) (\<lambda>t.
            let capabilities = set (transport_support (platform_metadata p)) \<inter> transport_capabilities t
            in if capabilities = {}
               then Inl (collection_error (''Transport '' @ repr_text n @ '' is not supported by '' @
                      repr_text (platform_family p) @ ''.''))
               else bind_result (highest_priority capabilities) (\<lambda>c. Inr (c, transport_name t)))
      | None \<Rightarrow> try_capabilities r names p TRANSPORT_PRIORITY)"

definition select_transport ::
  "('w, 'h) TransportRegistry \<Rightarrow> (TransportCapability \<Rightarrow> string list) \<Rightarrow> 'v inventory_request \<Rightarrow> CiscoPlatformDefinition \<Rightarrow>
   error + selection" where
  "select_transport r names q p = selector_select r names p (text_of (dict_lookup (req_metadata q) ''transport_name''))"

section \<open>Reading\<close>

definition SSH_COMMAND_CATEGORIES :: "CommandCategory list" where
  "SSH_COMMAND_CATEGORIES = [CAT_INVENTORY, CAT_SYSTEM, CAT_INTERFACES, CAT_VLANS, CAT_POWER, CAT_POE, CAT_NEIGHBORS]"

definition SNMP_GROUPS :: "SnmpGroup list" where
  "SNMP_GROUPS = [GROUP_SYSTEM, GROUP_INVENTORY, GROUP_INTERFACES, GROUP_VLANS, GROUP_POE, GROUP_NEIGHBORS]"

definition platform_has :: "CiscoPlatformDefinition \<Rightarrow> CiscoCapability \<Rightarrow> bool" where
  "platform_has p c \<longleftrightarrow> c \<in> set (cisco_capabilities (platform_metadata p))"

definition reads_configuration :: "string \<Rightarrow> bool" where
  "reads_configuration command \<longleftrightarrow> contains ''running-config'' command \<or> contains ''startup-config'' command"

definition inventory_commands :: "CiscoPlatformDefinition \<Rightarrow> string list" where
  "inventory_commands p =
     fromkeys (concat (map (\<lambda>category.
       if category \<in> {CAT_POWER, CAT_POE} \<and> \<not> platform_has p CISCO_POE then []
       else filter (\<lambda>c. \<not> reads_configuration c) (map command_text (catalog_commands (command_catalog p) category)))
       SSH_COMMAND_CATEGORIES))"

definition snmp_group_supported :: "CiscoPlatformDefinition \<Rightarrow> SnmpGroup \<Rightarrow> bool" where
  "snmp_group_supported p g =
     (if g = GROUP_POE then platform_has p CISCO_POE
      else if g = GROUP_VLANS then platform_has p CISCO_VLAN
      else if g = GROUP_NEIGHBORS then platform_has p CISCO_NEIGHBOR_DISCOVERY
      else True)"

fun run_commands ::
  "('w, error, unit) action \<Rightarrow> (string \<Rightarrow> ('w, error, string) action) \<Rightarrow> (string, string) dict \<Rightarrow> string list \<Rightarrow>
   ('w, error, (string, string) dict) action" where
  "run_commands check execute d [] = returns d"
| "run_commands check execute d (c # cs) =
     and_then check (\<lambda>_.
       if c \<in> set (dict_keys d) then run_commands check execute d cs
       else and_then (execute c) (\<lambda>output. run_commands check execute (dict_set c output d) cs))"

definition collect_cli ::
  "CiscoPlatformDefinition \<Rightarrow> 'w session_operations \<Rightarrow> 'w inventory_request \<Rightarrow> TransportCapability \<Rightarrow>
   ('w, error, (string, string) dict) action" where
  "collect_cli p s q c =
     (case session_execute s of
        None \<Rightarrow> raises (collection_error (''Selected '' @ capability_value c @ '' session cannot execute commands.''))
      | Some execute \<Rightarrow> run_commands (cancellation_check q) execute [] (inventory_commands p))"

fun walk_oids ::
  "('w, error, unit) action \<Rightarrow> (string \<Rightarrow> ('w, error, (string \<times> pyval) list) action) \<Rightarrow> (string \<times> string) list \<Rightarrow> string list \<Rightarrow>
   ('w, error, (string \<times> string) list) action" where
  "walk_oids check walk rows [] = returns rows"
| "walk_oids check walk rows (oid # oids) =
     and_then check (\<lambda>_. and_then (walk oid) (\<lambda>found.
       walk_oids check walk (rows @ map (\<lambda>(name, v). (name, py_str v)) found) oids))"

fun walk_groups ::
  "CiscoPlatformDefinition \<Rightarrow> ('w, error, unit) action \<Rightarrow> (string \<Rightarrow> ('w, error, (string \<times> pyval) list) action) \<Rightarrow>
   (string, (string \<times> string) list) dict \<Rightarrow> SnmpGroup list \<Rightarrow> ('w, error, (string, (string \<times> string) list) dict) action" where
  "walk_groups p check walk d [] = returns d"
| "walk_groups p check walk d (g # gs) =
     and_then check (\<lambda>_.
       if \<not> snmp_group_supported p g then walk_groups p check walk d gs
       else and_then (walk_oids check walk [] (catalog_oids (snmp_catalog p) g)) (\<lambda>rows.
              walk_groups p check walk (if rows = [] then d else dict_set (group_value g) rows d) gs))"

definition collect_snmp ::
  "CiscoPlatformDefinition \<Rightarrow> 'w session_operations \<Rightarrow> 'w inventory_request \<Rightarrow>
   ('w, error, (string, (string \<times> string) list) dict) action" where
  "collect_snmp p s q =
     (case session_walk s of
        None \<Rightarrow> raises (collection_error ''Selected SNMP session cannot walk.'')
      | Some walk \<Rightarrow> walk_groups p (cancellation_check q) walk [] SNMP_GROUPS)"

definition response_text :: "http_response \<Rightarrow> string" where
  "response_text r =
     (case response_string r of
        Some t \<Rightarrow> t
      | None \<Rightarrow> (case response_body r of Some b \<Rightarrow> b | None \<Rightarrow> response_form r))"

fun request_endpoints ::
  "('w, error, unit) action \<Rightarrow> (string \<Rightarrow> string \<Rightarrow> ('w, error, http_response) action) \<Rightarrow> (string, string) dict \<Rightarrow>
   HttpEndpointMetadata list \<Rightarrow> ('w, error, (string, string) dict) action" where
  "request_endpoints check request d [] = returns d"
| "request_endpoints check request d (e # es) =
     and_then check (\<lambda>_. and_then (request (endpoint_method e) (endpoint_path e)) (\<lambda>r.
       request_endpoints check request (dict_set (endpoint_path e) (response_text r) d) es))"

definition collect_http ::
  "CiscoPlatformDefinition \<Rightarrow> 'w session_operations \<Rightarrow> 'w inventory_request \<Rightarrow> TransportCapability \<Rightarrow>
   ('w, error, (string, string) dict) action" where
  "collect_http p s q c =
     (case session_request s of
        None \<Rightarrow> raises (collection_error (''Selected '' @ capability_value c @ '' session cannot request.''))
      | Some request \<Rightarrow> request_endpoints (cancellation_check q) request [] (http_catalog p))"

section \<open>The collector\<close>

definition texts_value :: "(string, string) dict \<Rightarrow> pyval" where
  "texts_value d = PDict (map (\<lambda>(k, v). (k, PStr v)) d)"

definition rows_value :: "(string, (string \<times> string) list) dict \<Rightarrow> pyval" where
  "rows_value d = PDict (map (\<lambda>(k, rows). (k, PList (map (\<lambda>(n, v). PList [PStr n, PStr v]) rows))) d)"

definition gather ::
  "CiscoPlatformDefinition \<Rightarrow> 'w session_operations \<Rightarrow> 'w inventory_request \<Rightarrow> TransportCapability \<Rightarrow>
   ('w, error, string \<times> pyval) action" where
  "gather p s q c =
     (if c \<in> {SSH, TELNET} then and_then (collect_cli p s q c) (\<lambda>d. returns (''commands'', texts_value d))
      else if c = SNMP then and_then (collect_snmp p s q) (\<lambda>d. returns (''snmp'', rows_value d))
      else if c \<in> {HTTP, HTTPS} then and_then (collect_http p s q c) (\<lambda>d. returns (''http'', texts_value d))
      else raises (collection_error (''Unsupported transport capability: '' @ capability_value c)))"

definition credential_reference :: "'w inventory_request \<Rightarrow> string \<Rightarrow> CredentialReference option" where
  "credential_reference q transport =
     (let profile = dict_lookup (req_target_metadata q) ''credential_profile_id'';
          reference = (if profile = PNone then dict_lookup (req_target_metadata q) ''credential_reference'' else profile)
      in case req_tenant_id q of
           None \<Rightarrow> None
         | Some tenant \<Rightarrow>
             if reference = PNone then None
             else Some \<lparr>credential_id = py_str reference, reference_transport = transport, reference_tenant_id = tenant\<rparr>)"

definition collected_header :: "'w inventory_request \<Rightarrow> CiscoPlatformDefinition \<Rightarrow> selection \<Rightarrow> (string, pyval) dict" where
  "collected_header q p s =
     [(''target'', PDict [(''identifier'', PStr (req_identifier q)), (''address'', PStr (req_address q)),
         (''metadata'', PDict (req_target_metadata q))]),
      (''platform_family'', PStr (platform_family p)), (''parser_family'', PStr (parser_family (platform_metadata p))),
      (''transport'', PStr (snd s)), (''transport_capability'', PStr (capability_value (fst s)))]"

definition cisco_collect ::
  "('w, 'h) TransportManager \<Rightarrow> ('h \<Rightarrow> 'w session_operations) \<Rightarrow> (TransportCapability \<Rightarrow> string list) \<Rightarrow> CiscoPlatformRegistry \<Rightarrow>
   string \<Rightarrow> session_clock \<Rightarrow> 'w inventory_request \<Rightarrow> ('w, 'h) manager_state \<Rightarrow>
   (('w, 'h) manager_state \<times> (error + pyval)) option" where
  "cisco_collect mgr session_of names r own_family clock q x =
     (case bind_result (resolve_platform r own_family q) (\<lambda>p.
             bind_result (select_transport (manager_registry mgr) names q p) (\<lambda>s. Inr (p, s))) of
        Inl e \<Rightarrow> Some (x, Inl e)
      | Inr (p, s) \<Rightarrow>
          map_option (\<lambda>(y, opened).
            case opened of
              Inl e \<Rightarrow> (y, Inl e)
            | Inr h \<Rightarrow>
                and_then (on_world (gather p (session_of h) q (fst s))) (\<lambda>part.
                  returns (PDict (collected_header q p s @ [part]))) y)
            (open_session mgr clock (snd s)
               \<lparr>target_identifier = req_identifier q, target_address = req_address q,
                target_credential = credential_reference q (snd s)\<rparr> {fst s} x))"

definition cisco_normalize :: "NormalizationEngine \<Rightarrow> time \<Rightarrow> time \<Rightarrow> 'w inventory_request \<Rightarrow> pyval \<Rightarrow> string + LiveInventorySnapshot" where
  "cisco_normalize e t now q raw_payload =
     bind_result (cisco_parse t (cisco_context (req_identifier q) (Some ''cisco-inventory-parser'')) raw_payload) (\<lambda>parsed.
     bind_result (normalize_parsed e now parsed) (\<lambda>n. Inr (normalized_snapshot n)))"


section \<open>The transport that is selected\<close>

definition usable :: "('w, 'h) TransportRegistry \<Rightarrow> (TransportCapability \<Rightarrow> string list) \<Rightarrow> TransportCapability \<Rightarrow> string \<Rightarrow> bool" where
  "usable r names c n \<longleftrightarrow> (case dict_get r n of None \<Rightarrow> False | Some t \<Rightarrow> c \<in> transport_capabilities t)"

definition registered :: "('w, 'h) TransportRegistry \<Rightarrow> string list \<Rightarrow> bool" where
  "registered r ns \<longleftrightarrow> (\<forall>n \<in> set ns. dict_get r n \<noteq> None)"

lemma try_names_registered:
  "registered r ns \<Longrightarrow> try_names r c ns =
     Inr (map_option (\<lambda>n. (c, transport_name (the (dict_get r n)))) (find (usable r names c) ns))"
  by (induction ns) (auto simp: registered_def transport_get_def usable_def)

text \<open>When every transport a platform may use is registered, the first usable one in the order of priority is selected.\<close>

lemma selection_follows_priority:
  assumes "\<forall>c \<in> set (transport_support (platform_metadata p)). registered r (names c)"
  shows "selector_select r names p None =
    (case find (\<lambda>c. c \<in> set (transport_support (platform_metadata p)) \<and> list_ex (usable r names c) (names c)) TRANSPORT_PRIORITY of
       None \<Rightarrow> Inl (collection_error (''No registered transport is available for '' @ repr_text (platform_family p) @ ''.''))
     | Some c \<Rightarrow> Inr (c, transport_name (the (dict_get r (the (find (usable r names c) (names c)))))))"
proof -
  have "try_capabilities r names p cs =
    (case find (\<lambda>c. c \<in> set (transport_support (platform_metadata p)) \<and> list_ex (usable r names c) (names c)) cs of
       None \<Rightarrow> Inl (collection_error (''No registered transport is available for '' @ repr_text (platform_family p) @ ''.''))
     | Some c \<Rightarrow> Inr (c, transport_name (the (dict_get r (the (find (usable r names c) (names c)))))))" for cs
  proof (induction cs)
    case (Cons c cs)
    show ?case
    proof (cases "c \<in> set (transport_support (platform_metadata p))")
      case True
      with assms have n: "try_names r c (names c) =
          Inr (map_option (\<lambda>n. (c, transport_name (the (dict_get r n)))) (find (usable r names c) (names c)))"
        by (intro try_names_registered) simp
      show ?thesis
      proof (cases "find (usable r names c) (names c)")
        case None
        then have "\<not> list_ex (usable r names c) (names c)" by (auto simp: find_None_iff list_ex_iff)
        with None True n Cons show ?thesis by simp
      next
        case (Some m)
        then have "list_ex (usable r names c) (names c)" by (auto simp: find_Some_iff list_ex_iff intro: nth_mem)
        with Some True n show ?thesis by simp
      qed
    qed (use Cons in simp)
  qed simp
  then show ?thesis by (simp add: selector_select_def)
qed

text \<open>
  The manager reports a missing transport by an exception of its own, which the selector does not expect:
  when the first name of a platform's first transport is not registered, none is selected at all.
\<close>

lemma missing_transport_stops_selection:
  assumes "SSH \<in> set (transport_support (platform_metadata p))" "dict_get r ''netmiko'' = None"
  shows "selector_select r DEFAULT_TRANSPORT_NAMES p None = Inl (''TransportUnavailableError'', ''Unknown transport: netmiko'')"
  using assms by (simp add: selector_select_def TRANSPORT_PRIORITY_def transport_get_def)

section \<open>Only commands that read the inventory are sent\<close>

text \<open>A session that writes down what it is sent, and code that sends nothing.\<close>

definition recorded :: "(string \<Rightarrow> ('w, error, 'a) action) \<Rightarrow> string \<Rightarrow> (string list \<times> 'w, error, 'a) action" where
  "recorded execute c x = (let (w, r) = execute c (snd x) in ((fst x @ [c], w), r))"

definition unrecorded :: "('w, error, 'a) action \<Rightarrow> (string list \<times> 'w, error, 'a) action" where
  "unrecorded m x = (let (w, r) = m (snd x) in ((fst x, w), r))"

lemma run_commands_recorded:
  assumes "run_commands (unrecorded check) (recorded execute) d cs x = (y, r)"
    and "distinct cs" "set cs \<inter> set (dict_keys d) = {}"
  shows "\<exists>k \<le> length cs. fst y = fst x @ take k cs \<and> (\<forall>d'. r = Inr d' \<longrightarrow> k = length cs \<and> dict_keys d' = dict_keys d @ cs)"
  using assms
proof (induction cs arbitrary: d x)
  case (Cons c cs)
  obtain w q where check: "check (snd x) = (w, q)" by fastforce
  show ?case
  proof (cases q)
    case (Inl e)
    with Cons.prems(1) check show ?thesis
      by (intro exI [of _ 0]) (auto simp: and_then_def unrecorded_def)
  next
    case (Inr u)
    obtain v a where run: "execute c w = (v, a)" by fastforce
    show ?thesis
    proof (cases a)
      case (Inl e)
      with Cons.prems check Inr run show ?thesis
        by (intro exI [of _ 1]) (auto simp: and_then_def unrecorded_def recorded_def)
    next
      case out: (Inr out)
      have new: "dict_set c out d = d @ [(c, out)]" using Cons.prems(3) by (intro dict_set_new) auto
      have "run_commands (unrecorded check) (recorded execute) (dict_set c out d) cs (fst x @ [c], v) = (y, r)"
      proof -
        have "unrecorded check x = ((fst x, w), Inr u)" "recorded execute c (fst x, w) = ((fst x @ [c], v), Inr out)"
          using check Inr run out by (simp_all add: unrecorded_def recorded_def)
        then show ?thesis using Cons.prems(1,3) by (simp add: and_then_pair(1))
      qed
      moreover have "distinct cs" "set cs \<inter> set (dict_keys (dict_set c out d)) = {}"
        using Cons.prems by (auto simp: keys_dict_set)
      ultimately obtain k where "k \<le> length cs" "fst y = (fst x @ [c]) @ take k cs"
        "\<forall>d'. r = Inr d' \<longrightarrow> k = length cs \<and> dict_keys d' = dict_keys (dict_set c out d) @ cs"
        using Cons.IH [of "dict_set c out d" "(fst x @ [c], v)"] by auto
      then show ?thesis by (intro exI [of _ "Suc k"]) (auto simp: new dict_keys_def)
    qed
  qed
qed auto

lemma inventory_commands_distinct: "distinct (inventory_commands p)"
  by (simp add: inventory_commands_def fromkeys_def)

lemma inventory_commands_read: "c \<in> set (inventory_commands p) \<Longrightarrow> \<not> reads_configuration c"
  by (auto simp: inventory_commands_def split: if_split_asm)


definition sample_session :: "'w \<Rightarrow> 'w session_operations" where
  "sample_session w =
     \<lparr>session_execute = Some (\<lambda>c. returns ''ok''), session_walk = None, session_request = None\<rparr>"

definition sample_request :: "'w \<Rightarrow> 'w inventory_request" where
  "sample_request w =
     \<lparr>req_identifier = ''sw1'', req_address = ''10.0.0.1'', req_tenant_id = None, req_target_metadata = [],
      req_metadata = [(''transport_name'', PStr ''ssh'')], cancellation_check = returns ()\<rparr>"


text \<open>The commands of the platforms that ship: what the parser reads, and the counters, which it does not.\<close>

lemma default_inventory_commands:
  "inventory_commands CATALYST_2960X = [''show inventory'', ''show version'', ''show interfaces status'',
     ''show interfaces counters'', ''show vlan brief'', ''show power inline'', ''show cdp neighbors detail'',
     ''show lldp neighbors detail'']"
  by code_simp

section \<open>What is collected becomes the device that was asked for\<close>

lemma text_of_nonblank [simp]: "text_of (opt_text (nonblank s)) = nonblank s"
  by (simp add: opt_text_def text_of_def nonblank_def py_str_def Let_def split: option.split)

lemma text_of_PStr: "text_of (PStr s) = nonblank s"
  by (simp add: text_of_def py_str_def)

lemma device_fields_address: "dict_get (device_fields d ip m raw c h s) ''management_ip'' = Some (opt_text ip)"
  by (simp only: device_fields_def Let_def dict_get_def map_of.simps fst_conv snd_conv fun_upd_apply
      list.inject char.inject simp_thms if_True if_False list.distinct)

lemma collected_header_target:
  "dict_lookup (collected_header q p s @ [part]) ''target'' = PDict [(''identifier'', PStr (req_identifier q)),
     (''address'', PStr (req_address q)), (''metadata'', PDict (req_target_metadata q))]"
  by (simp add: collected_header_def dict_lookup_def dict_get_def)

lemma collected_identity:
  "strip (payload_identity (req_identifier q) (collected_header q p s @ [part])) = strip (req_identifier q)"
  unfolding payload_identity_def collected_header_target
  by (simp add: as_mapping_def dict_lookup_def dict_get_def text_of_def nonblank_def py_str_def Let_def)

lemma cisco_collect_payload:
  assumes "cisco_collect mgr session_of names r own clock q x = Some (y, Inr raw)"
  obtains p s part where "raw = PDict (collected_header q p s @ [part])"
proof -
  let ?sel = "bind_result (resolve_platform r own q) (\<lambda>p.
    bind_result (select_transport (manager_registry mgr) names q p) (\<lambda>s. Inr (p, s)))"
  from assms obtain p s where sel: "?sel = Inr (p, s)"
    by (cases ?sel) (auto simp: cisco_collect_def)
  let ?o = "open_session mgr clock (snd s) \<lparr>target_identifier = req_identifier q, target_address = req_address q,
     target_credential = credential_reference q (snd s)\<rparr> {fst s} x"
  from assms sel obtain z opened where opened: "?o = Some (z, opened)" by (auto simp: cisco_collect_def)
  from assms sel opened obtain h where "opened = Inr h" by (cases opened) (auto simp: cisco_collect_def)
  with assms sel opened that [of p s] show thesis by (auto simp: cisco_collect_def and_then_Inr)
qed


lemma run_commands_returns: "\<exists>d'. run_commands (returns ()) (\<lambda>c. returns (f c)) d cs w = (w, Inr d')"
  by (induction cs arbitrary: d) auto


text \<open>
  A walk of the interface table gives a row for every column of every interface, and each row counts as
  an interface of its own.
\<close>

lemma one_interface_counted_twice:
  "map record_payload (interface_records ''sw1'' [] [(''interfaces'',
     [(''1.3.6.1.2.1.2.2.1.2.1'', ''Gi0/1''), (''1.3.6.1.2.1.2.2.1.8.1'', ''1'')])]) =
   [[(''device_id'', PStr ''sw1''), (''name'', PStr ''1''), (''description'', PStr ''Gi0/1'')],
    [(''device_id'', PStr ''sw1''), (''name'', PStr ''1''), (''description'', PStr ''1'')]]"
  by code_simp

end
