(* ===== verification/Spec2Isabelle.thy ===== *)
theory Spec2Isabelle
  imports Circuit_Breaker Job_Protocol Transport_Policy Multi_Transport Job_Framework Decision_Engine Worker_Progress
    Schedule_Service Resilient_Cache Discovery_Pipeline Cisco_Collector
begin

text \<open>
  \<^bold>\<open>Network Operations Platform: verification of the discovery, job and compliance core\<close>

  The program (\<^verbatim>\<open>src/backend/app\<close>) discovers network devices and compares what it finds with NetBox. A
  discovery job names a target (a host, a range or a network); a worker claims it with a lease, expands
  the target, tries the transports of its credential profile on every address and writes runs, device
  results and audit records. Orchestration drives discovery, comparison and persistence as one run; an
  in-process job framework queues such runs. The live snapshot is compared with the NetBox inventory,
  the differences are judged by policies, and each policy gets a decision.

  \<^bold>\<open>Shared library.\<close> \<^verbatim>\<open>Prelude\<close> has time in microsecond ticks, exceptions as sums, dictionaries that keep
  insertion order, tables with guarded updates, reachable states and the locales \<open>dictionary\<close> and
  \<open>invariant_system\<close>, which the components interpret. \<^verbatim>\<open>Py_Text\<close> and \<^verbatim>\<open>Py_Numbers\<close> hold the ASCII part of
  Python's text functions and of reading and writing integers. \<^verbatim>\<open>Actions\<close> has the state actions with
  exceptions, the locale \<open>kept_relation\<close> for what every step of an action keeps, and contracts with rules.

  \<^bold>\<open>Durable discovery jobs\<close> (\<^verbatim>\<open>discovery/contracts.py\<close>, \<^verbatim>\<open>persistence/models.py\<close>,
  \<^verbatim>\<open>persistence/discovery_repositories.py\<close>, \<^verbatim>\<open>discovery/fanout.py\<close>).
  \<^item> \<^verbatim>\<open>Discovery_Contracts\<close>: job states, allowed transitions, scopes.
  \<^item> \<^verbatim>\<open>Discovery_Store\<close>: the rows of jobs, runs, device results, targets and audit records, and a session.
  \<^item> \<^verbatim>\<open>Job_Repository\<close>: create, claim, heartbeat and transition, each with its UPDATE guard.
  \<^item> \<^verbatim>\<open>Job_Lifecycle\<close>: the abstract life cycle of a row and the invariant of the table.
  \<^item> \<^verbatim>\<open>Fanout_Reconcile\<close>: the children of a fan-out job, their settlement and the totals of the run.
  \<^item> \<^verbatim>\<open>Job_Cancellation\<close>: cancellation, forced resolution, recovery of expired leases.
  \<^item> \<^verbatim>\<open>Job_Protocol\<close>: all transactions interleaved; every one refines the abstract life cycle.
  \<^item> \<^verbatim>\<open>Attempt_Repository\<close>, \<^verbatim>\<open>Resource_Repositories\<close>: the audit records of transport attempts; targets with
    their cascading delete, credential profiles, evidence and the references between the tables.

  \<^bold>\<open>Running a job\<close> (\<^verbatim>\<open>discovery/execution.py\<close>, \<^verbatim>\<open>collectors/registry.py\<close>, \<^verbatim>\<open>collectors/base.py\<close>).
  \<^item> \<^verbatim>\<open>Execution_Policy\<close>: the target of a job, its transport policy, the classification of exceptions and the
    sanitised evidence.
  \<^item> \<^verbatim>\<open>Execution_Runtime\<close>, \<^verbatim>\<open>Discovery_Execution\<close>: collectors, the state and environment of a run, and
    \<open>DiscoveryExecutionService.execute\<close> statement by statement, with its handlers.
  \<^item> \<^verbatim>\<open>Execution_Safety\<close>, \<^verbatim>\<open>Execution_Progress\<close>: whatever collectors and other transactions do, a run
    follows the life cycle and reports execution only of a finished job; an undisturbed run always ends.
  \<^item> \<^verbatim>\<open>Snapshot_Records\<close>: the rows of a stored snapshot.
  \<^item> \<^verbatim>\<open>Fanout_Execution\<close>, \<^verbatim>\<open>Discovery_Worker\<close> (\<^verbatim>\<open>discovery/fanout.py\<close>, \<^verbatim>\<open>discovery/worker.py\<close>): the children of a scope
    and the worker that polls, claims, beats, runs and recovers.
  \<^item> \<^verbatim>\<open>Worker_Safety\<close>, \<^verbatim>\<open>Worker_Progress\<close>: the worker outlives every exception and keeps the life cycle; an
    undisturbed one claims the oldest jobs, keeps their leases and finishes them.

  \<^bold>\<open>Discovering a device\<close> (\<^verbatim>\<open>discovery/scope.py\<close>, \<^verbatim>\<open>probing.py\<close>, \<^verbatim>\<open>transport_policy.py\<close>, \<^verbatim>\<open>result_states.py\<close>,
  \<^verbatim>\<open>multi_transport.py\<close>, \<^verbatim>\<open>transports/circuit_breaker.py\<close>).
  \<^item> \<^verbatim>\<open>Ip_Address\<close>, \<^verbatim>\<open>Discovery_Scope\<close>: addresses, networks and the bounded expansion of a scope.
  \<^item> \<^verbatim>\<open>Service_Probing\<close>, \<^verbatim>\<open>Transport_Policy\<close>, \<^verbatim>\<open>Result_States\<close>: which services answer, which transports a
    profile allows, how a set of failures is classified.
  \<^item> \<^verbatim>\<open>Redaction\<close>, \<^verbatim>\<open>Multi_Transport\<close>: failure messages without secrets, and the fallback loop, shown equal
    to a reference that takes all attempts up to the first success.
  \<^item> \<^verbatim>\<open>Circuit_Breaker\<close>: the breaker as a state machine.

  \<^bold>\<open>Sessions to devices\<close> (\<^verbatim>\<open>transports/\<close>) \<^bold>\<open>and the cache\<close> (\<^verbatim>\<open>cache/redis.py\<close>).
  \<^item> \<^verbatim>\<open>Transport_Pacing\<close>: the token bucket, whose grants are bounded and which waits for ever on too large a
    count, and the retry loop against its outcome on every script of answers.
  \<^item> \<^verbatim>\<open>Runtime_Credentials\<close>: secret providers and the credentials a reference resolves to.
  \<^item> \<^verbatim>\<open>Transport_Manager\<close>: registry, pool and manager; breaker, pacing, credentials and pool composed.
  \<^item> \<^verbatim>\<open>Resilient_Cache\<close>: memory, Redis and the fallback between them, as backends that may forget but never
    serve a stale value; the interface is the locale \<open>cache_backend\<close>.

  \<^bold>\<open>From device output to a snapshot\<close> (\<^verbatim>\<open>collectors/cisco/inventory.py\<close>, \<^verbatim>\<open>parsers/\<close>, \<^verbatim>\<open>normalization/\<close>,
  \<^verbatim>\<open>snapshot/validation.py\<close>, \<^verbatim>\<open>discovery/pipeline.py\<close>).
  \<^item> \<^verbatim>\<open>Py_Scan\<close>: words, lines, and regular expressions with a backtracking matcher that is complete.
  \<^item> \<^verbatim>\<open>Cisco_Parser\<close>, \<^verbatim>\<open>Normalization\<close>: the records of a payload, and mapper, validator, rules and engine.
  \<^item> \<^verbatim>\<open>Cisco_Inventory\<close>: every payload becomes one device, VLAN tables arrive whole; what is lost of neighbours.
  \<^item> \<^verbatim>\<open>Cisco_Platforms\<close>, \<^verbatim>\<open>Cisco_Collector\<close> (\<^verbatim>\<open>vendors/cisco/\<close>, \<^verbatim>\<open>collectors/cisco/base.py\<close>): platforms, their
    detection, and the collector over the transport manager: it only reads, and what it collects becomes
    the device it was asked for.
  \<^item> \<^verbatim>\<open>Discovery_Pipeline\<close>: filters, statistics, the collectors of a target, merge and integrity check; only
    sound snapshots are saved, and those of the engine are sound.

  \<^bold>\<open>Runs and jobs in process\<close> (\<^verbatim>\<open>events/\<close>, \<^verbatim>\<open>orchestration/\<close>, \<^verbatim>\<open>jobs/\<close>).
  \<^item> \<^verbatim>\<open>Event_Bus\<close>: handlers and dispatch.
  \<^item> \<^verbatim>\<open>Orchestration\<close>: the workflow with retries, cancellation, progress and persistence; it always returns
    and its result, state and counters agree.
  \<^item> \<^verbatim>\<open>Job_Queue\<close>: the priority queue against its interface and a stable sort.
  \<^item> \<^verbatim>\<open>Job_Framework\<close>: manager, dispatcher and workers as interleaved steps, with their invariant and the
    liveness of an undisturbed worker.

  \<^bold>\<open>Schedules\<close> (\<^verbatim>\<open>scheduler/\<close>).
  \<^item> \<^verbatim>\<open>Scheduling\<close>, \<^verbatim>\<open>Schedule_Service\<close>: schedules, both repositories, the service and the worker registry;
    the service refines an abstract list of schedules over either repository, which are interchangeable.

  \<^bold>\<open>Comparison and compliance\<close> (\<^verbatim>\<open>inventory/\<close>, \<^verbatim>\<open>snapshot/\<close>, \<^verbatim>\<open>comparison/\<close>, \<^verbatim>\<open>compliance/\<close>,
  \<^verbatim>\<open>policies/\<close>, \<^verbatim>\<open>evaluation/\<close>, \<^verbatim>\<open>decision/\<close>).
  \<^item> \<^verbatim>\<open>Inventory_Model\<close>, \<^verbatim>\<open>Inventory_Comparison\<close>: the two snapshots, the matcher and the comparators; missing
    devices are reported exactly, a mirrored network raises no alarm.
  \<^item> \<^verbatim>\<open>Policy_Packages\<close>: versions, validation, compilation, inheritance, which ends on every set of packages.
  \<^item> \<^verbatim>\<open>Compliance_Evaluation\<close>, \<^verbatim>\<open>Decision_Engine\<close>: rules are selected, executed, waived and scored; results are
    coherent and reach exactly one decision.

  \<^bold>\<open>Abstractions.\<close> A repository call reads the clock once. Identifiers of \<open>uuid4\<close> come from a counter that
  never repeats; \<open>uuid5\<close> is an injective function of its name. The parameter \<open>env\<close> of an operation is
  whatever other transactions commit between its read and its first write; a rolled-back transaction
  leaves the committed tables. The flag \<open>synchronized\<close> says whether the ORM copies a bulk UPDATE to loaded
  objects. Averages and durations are exact, percentages are in hundredths. A handler, collector or
  engine is the outcome it gives: a value or an exception. Malformed job metadata is a MetadataError.
  Regular expression search, reading a float and the text of a list or dictionary are the parameter
  \<open>text_lib\<close>. Text is ASCII.

  \<^bold>\<open>Fuel.\<close> Only the resolution of inherited packages has fuel, the number of packages plus one: every
  deeper call adds a known package to \<open>visited\<close>, and the property shows that this is enough. All other
  loops are structural or have a termination proof.

  The run of a job takes its collectors, the parser pipeline, the clock and what others commit as parameters.

  \<^bold>\<open>Not modelled.\<close> The in-process runtime of collector jobs is not modelled yet. Authentication rests on third-party cryptography; REST routes, schemas and configuration are declarations of a framework;
  the NetBox client and the exporters are input and output.
\<close>

end
